(* ===== verification/Py_Prelude.thy ===== *)
theory Py_Prelude
  imports Main
begin

text \<open>
  Shared vocabulary of the development: the pieces of Python that the modelled code
  uses everywhere, and the generic lemmas about them.

  \<^item> Strings. A Python string is a HOL \<open>string\<close>; a \<open>char\<close> stands for the code point
    with its number, so the texts covered are those over U+0000 to U+00FF.
  \<^item> Computations that raise. A method that reads and writes the database is a function from the
    state to a result and the new state (\<open>('s, 'e, 'a) py\<close>); the result is \<open>Inl\<close> of an exception
    or \<open>Inr\<close> of a value. The state survives a raise, as committed writes do.
  \<^item> \<open>preserves\<close>, the statement that a computation keeps an invariant on every path, with one
    rule per combinator, so that the invariant of a long method follows from its parts.
\<close>

section \<open>Collections of facts\<close>

named_theorems py_simps \<open>unfolding equations of the monad\<close>
named_theorems preserve \<open>introduction rules for \<open>preserves\<close>\<close>
named_theorems reads \<open>introduction rules for \<open>reads_only\<close>\<close>
named_theorems stay \<open>introduction rules for \<open>moves\<close>\<close>

section \<open>Python strings\<close>

definition py_space :: "char \<Rightarrow> bool" where
  "py_space c \<longleftrightarrow> of_char c \<in> {9, 10, 11, 12, 13, 28, 29, 30, 31, 32, 133, 160 :: nat}"

definition py_lstrip :: "string \<Rightarrow> string" where
  "py_lstrip s = dropWhile py_space s"

definition py_strip :: "string \<Rightarrow> string" where
  "py_strip s = rev (py_lstrip (rev (py_lstrip s)))"

definition py_lower_char :: "char \<Rightarrow> char" where
  "py_lower_char c =
     (let n = of_char c :: nat in
      if (65 \<le> n \<and> n \<le> 90) \<or> (192 \<le> n \<and> n \<le> 222 \<and> n \<noteq> 215) then char_of (n + 32) else c)"

definition py_lower :: "string \<Rightarrow> string" where
  "py_lower s = map py_lower_char s"

text \<open>\<open>(x or d)\<close> for a value that is \<open>None\<close> or a string: an empty string counts as false.\<close>

definition str_or :: "string option \<Rightarrow> string \<Rightarrow> string" where
  "str_or x d = (case x of None \<Rightarrow> d | Some s \<Rightarrow> if s = [] then d else s)"

text \<open>\<open>x.strip() or None\<close>.\<close>

definition strip_opt :: "string option \<Rightarrow> string option" where
  "strip_opt x = (let s = py_strip (str_or x []) in if s = [] then None else Some s)"

text \<open>\<open>s.split(c)\<close>, and the parts before and after the first \<open>c\<close> of \<open>s.partition(c)\<close>.\<close>

fun split_char :: "char \<Rightarrow> string \<Rightarrow> string list" where
  "split_char c [] = [[]]"
| "split_char c (x # xs) =
     (if x = c then [] # split_char c xs
      else (case split_char c xs of [] \<Rightarrow> [[x]] | w # ws \<Rightarrow> (x # w) # ws))"

definition partition_char :: "char \<Rightarrow> string \<Rightarrow> string \<times> string" where
  "partition_char c s = (takeWhile (\<lambda>x. x \<noteq> c) s, drop 1 (dropWhile (\<lambda>x. x \<noteq> c) s))"

text \<open>\<open>needle in s\<close> and \<open>s.removeprefix(prefix)\<close>.\<close>

fun is_prefix :: "string \<Rightarrow> string \<Rightarrow> bool" where
  "is_prefix [] s = True"
| "is_prefix (p # ps) [] = False"
| "is_prefix (p # ps) (x # xs) = (p = x \<and> is_prefix ps xs)"

lemma is_prefix_append [simp]: "is_prefix p (p @ s)"
  by (induction p) auto

fun contains_str :: "string \<Rightarrow> string \<Rightarrow> bool" where
  "contains_str needle [] = is_prefix needle []"
| "contains_str needle (x # xs) = (is_prefix needle (x # xs) \<or> contains_str needle xs)"

definition remove_prefix :: "string \<Rightarrow> string \<Rightarrow> string" where
  "remove_prefix p s = (if is_prefix p s then drop (length p) s else s)"

lemma py_strip_Nil [simp]: "py_strip [] = []"
  by (simp add: py_strip_def py_lstrip_def)

lemma py_lower_Nil [simp]: "py_lower [] = []"
  by (simp add: py_lower_def)

lemma str_or_simps [simp]:
  "str_or None d = d" "str_or (Some []) d = d" "s \<noteq> [] \<Longrightarrow> str_or (Some s) d = s"
  by (simp_all add: str_or_def)

lemma py_lstrip_idem [simp]: "py_lstrip (py_lstrip s) = py_lstrip s"
  by (simp add: py_lstrip_def dropWhile_idem)

lemma py_lstrip_no_space: "(\<forall>c \<in> set s. \<not> py_space c) \<Longrightarrow> py_lstrip s = s"
  by (cases s) (auto simp: py_lstrip_def)

lemma py_strip_no_space: "(\<forall>c \<in> set s. \<not> py_space c) \<Longrightarrow> py_strip s = s"
  by (simp add: py_strip_def py_lstrip_no_space)

lemma dropWhile_id: "xs = [] \<or> \<not> P (hd xs) \<Longrightarrow> dropWhile P xs = xs"
  by (cases xs) auto

lemma hd_dropWhile_False: "dropWhile P xs = [] \<or> \<not> P (hd (dropWhile P xs))"
  by (induction xs) auto

lemma last_dropWhile_same: "dropWhile P xs \<noteq> [] \<Longrightarrow> last (dropWhile P xs) = last xs"
  by (induction xs) (auto split: if_splits)

lemma py_strip_ends: "py_strip s = [] \<or> \<not> py_space (hd (py_strip s)) \<and> \<not> py_space (last (py_strip s))"
proof -
  define l where "l = dropWhile py_space s"
  define r where "r = dropWhile py_space (rev l)"
  have s: "py_strip s = rev r" by (simp add: py_strip_def py_lstrip_def r_def l_def)
  show ?thesis
  proof (cases "r = []")
    case True
    then show ?thesis by (simp add: s)
  next
    case False
    then have "rev l \<noteq> []" unfolding r_def by (metis dropWhile.simps(1))
    have hr: "\<not> py_space (hd r)" using False hd_dropWhile_False [of py_space "rev l"] by (simp add: r_def [symmetric])
    have "last r = last (rev l)" unfolding r_def by (rule last_dropWhile_same) (use False in \<open>simp add: r_def\<close>)
    moreover have "\<not> py_space (hd l)"
      using \<open>rev l \<noteq> []\<close> hd_dropWhile_False [of py_space s] by (simp add: l_def [symmetric])
    ultimately have "\<not> py_space (last r)" using \<open>rev l \<noteq> []\<close> by (simp add: last_rev)
    with hr False show ?thesis by (simp add: s hd_rev last_rev)
  qed
qed

lemma py_strip_idem: "py_strip (py_strip s) = py_strip s"
  using py_strip_ends [of s] by (auto simp: py_strip_def [of "py_strip s"] py_lstrip_def dropWhile_id hd_rev)

lemma strip_opt_None [simp]: "strip_opt None = None"
  by (simp add: strip_opt_def)

lemma strip_opt_not_Nil: "strip_opt x \<noteq> Some []"
  by (auto simp: strip_opt_def Let_def)

section \<open>Computations with state and exceptions\<close>

type_synonym ('s, 'e, 'a) py = "'s \<Rightarrow> ('e + 'a) \<times> 's"

definition py_return :: "'a \<Rightarrow> ('s, 'e, 'a) py" where
  "py_return x = (\<lambda>s. (Inr x, s))"

definition py_raise :: "'e \<Rightarrow> ('s, 'e, 'a) py" where
  "py_raise e = (\<lambda>s. (Inl e, s))"

definition py_bind :: "('s, 'e, 'a) py \<Rightarrow> ('a \<Rightarrow> ('s, 'e, 'b) py) \<Rightarrow> ('s, 'e, 'b) py" where
  "py_bind m f = (\<lambda>s. case m s of (Inl e, s') \<Rightarrow> (Inl e, s') | (Inr x, s') \<Rightarrow> f x s')"

definition py_seq :: "('s, 'e, 'a) py \<Rightarrow> ('s, 'e, 'b) py \<Rightarrow> ('s, 'e, 'b) py" where
  "py_seq m n = py_bind m (\<lambda>_. n)"

definition py_gets :: "('s \<Rightarrow> 'a) \<Rightarrow> ('s, 'e, 'a) py" where
  "py_gets f = (\<lambda>s. (Inr (f s), s))"

definition py_modify :: "('s \<Rightarrow> 's) \<Rightarrow> ('s, 'e, unit) py" where
  "py_modify f = (\<lambda>s. (Inr (), f s))"

text \<open>\<open>try: m except Exception: h\<close>.\<close>

definition py_try :: "('s, 'e, 'a) py \<Rightarrow> ('e \<Rightarrow> ('s, 'e, 'a) py) \<Rightarrow> ('s, 'e, 'a) py" where
  "py_try m h = (\<lambda>s. case m s of (Inl e, s') \<Rightarrow> h e s' | (Inr x, s') \<Rightarrow> (Inr x, s'))"

text \<open>\<open>for x in xs: acc = f(x, acc)\<close>.\<close>

primrec py_fold :: "('x \<Rightarrow> 'a \<Rightarrow> ('s, 'e, 'a) py) \<Rightarrow> 'x list \<Rightarrow> 'a \<Rightarrow> ('s, 'e, 'a) py" where
  "py_fold f [] acc = py_return acc"
| "py_fold f (x # xs) acc = py_bind (f x acc) (\<lambda>acc'. py_fold f xs acc')"

lemmas py_defs =
  py_return_def py_raise_def py_bind_def py_seq_def py_gets_def py_modify_def py_try_def

lemma py_bind_return [simp, py_simps]: "py_bind (py_return x) f = f x"
  by (simp add: py_defs)

lemma py_bind_raise [simp, py_simps]: "py_bind (py_raise e) f = py_raise e"
  by (simp add: py_defs)

lemma py_bind_assoc [py_simps]:
  "py_bind (py_bind m f) g = py_bind m (\<lambda>x. py_bind (f x) g)"
  by (auto simp: py_defs fun_eq_iff split: sum.splits prod.splits)

lemma py_run_return [simp, py_simps]: "py_return x s = (Inr x, s)"
  by (simp add: py_defs)

lemma py_run_raise [simp, py_simps]: "py_raise e s = (Inl e, s)"
  by (simp add: py_defs)

lemma py_run_gets [simp, py_simps]: "py_gets f s = (Inr (f s), s)"
  by (simp add: py_defs)

lemma py_run_modify [simp, py_simps]: "py_modify f s = (Inr (), f s)"
  by (simp add: py_defs)

lemma py_run_bind [py_simps]:
  "py_bind m f s = (case fst (m s) of Inl e \<Rightarrow> (Inl e, snd (m s)) | Inr x \<Rightarrow> f x (snd (m s)))"
  by (auto simp: py_defs split: sum.splits prod.splits)

lemma py_run_seq [py_simps]:
  "py_seq m n s = (case fst (m s) of Inl e \<Rightarrow> (Inl e, snd (m s)) | Inr x \<Rightarrow> n (snd (m s)))"
  by (auto simp: py_defs split: sum.splits prod.splits)

lemma py_run_try [py_simps]:
  "py_try m h s = (case fst (m s) of Inl e \<Rightarrow> h e (snd (m s)) | Inr x \<Rightarrow> (Inr x, snd (m s)))"
  by (auto simp: py_defs split: sum.splits prod.splits)

text \<open>Pure code that raises: a sum with the exception on the left.\<close>

definition rbind :: "'e + 'a \<Rightarrow> ('a \<Rightarrow> 'e + 'b) \<Rightarrow> 'e + 'b" where
  "rbind r f = (case r of Inl e \<Rightarrow> Inl e | Inr x \<Rightarrow> f x)"

lemma rbind_simps [simp, py_simps]: "rbind (Inl e) f = Inl e" "rbind (Inr x) f = f x"
  by (simp_all add: rbind_def)

lemma rbind_Inr_iff: "rbind r f = Inr y \<longleftrightarrow> (\<exists>x. r = Inr x \<and> f x = Inr y)"
  by (cases r) auto

text \<open>Running pure code inside a computation with state.\<close>

definition py_lift :: "'e + 'a \<Rightarrow> ('s, 'e, 'a) py" where
  "py_lift r = (\<lambda>s. (r, s))"

lemma py_run_lift [simp, py_simps]: "py_lift r s = (r, s)"
  by (simp add: py_lift_def)

lemma py_lift_simps [simp, py_simps]: "py_lift (Inl e) = py_raise e" "py_lift (Inr x) = py_return x"
  by (simp_all add: fun_eq_iff)

section \<open>Invariants of computations\<close>

definition preserves :: "('s \<Rightarrow> bool) \<Rightarrow> ('s, 'e, 'a) py \<Rightarrow> bool" where
  "preserves P m \<longleftrightarrow> (\<forall>s. P s \<longrightarrow> P (snd (m s)))"

lemma preservesI: "(\<And>s. P s \<Longrightarrow> P (snd (m s))) \<Longrightarrow> preserves P m"
  by (simp add: preserves_def)

lemma preservesD: "preserves P m \<Longrightarrow> P s \<Longrightarrow> P (snd (m s))"
  by (simp add: preserves_def)

lemma preserves_return [preserve]: "preserves P (py_return x)"
  by (simp add: preserves_def)

lemma preserves_raise [preserve]: "preserves P (py_raise e)"
  by (simp add: preserves_def)

lemma preserves_gets [preserve]: "preserves P (py_gets f)"
  by (simp add: preserves_def)

lemma preserves_lift [preserve]: "preserves P (py_lift r)"
  by (simp add: preserves_def)

lemma preserves_modify: "(\<And>s. P s \<Longrightarrow> P (f s)) \<Longrightarrow> preserves P (py_modify f)"
  by (simp add: preserves_def)

lemma preserves_bind [preserve]:
  "preserves P m \<Longrightarrow> (\<And>x. preserves P (f x)) \<Longrightarrow> preserves P (py_bind m f)"
  by (auto simp: preserves_def py_run_bind split: sum.splits)

lemma preserves_seq [preserve]:
  "preserves P m \<Longrightarrow> preserves P n \<Longrightarrow> preserves P (py_seq m n)"
  by (auto simp: preserves_def py_run_seq split: sum.splits)

lemma preserves_try [preserve]:
  "preserves P m \<Longrightarrow> (\<And>e. preserves P (h e)) \<Longrightarrow> preserves P (py_try m h)"
  by (auto simp: preserves_def py_run_try split: sum.splits)

lemma preserves_if [preserve]:
  "preserves P m \<Longrightarrow> preserves P n \<Longrightarrow> preserves P (if b then m else n)"
  by simp

lemma preserves_option [preserve]:
  "preserves P m \<Longrightarrow> (\<And>x. preserves P (f x)) \<Longrightarrow>
   preserves P (case y of None \<Rightarrow> m | Some x \<Rightarrow> f x)"
  by (cases y) simp_all

lemma preserves_prod [preserve]:
  "(\<And>x y. preserves P (f x y)) \<Longrightarrow> preserves P (case p of (x, y) \<Rightarrow> f x y)"
  by (cases p) simp

lemma preserves_Let [preserve]:
  "(\<And>x. preserves P (f x)) \<Longrightarrow> preserves P (let x = t in f x)"
  by simp

lemma preserves_fold [preserve]:
  "(\<And>x acc. preserves P (f x acc)) \<Longrightarrow> preserves P (py_fold f xs acc)"
  by (induction xs arbitrary: acc) (auto intro: preserves_return preserves_bind)

text \<open>A computation that writes nothing.\<close>

definition reads_only :: "('s, 'e, 'a) py \<Rightarrow> bool" where
  "reads_only m \<longleftrightarrow> (\<forall>s. snd (m s) = s)"

lemma reads_onlyI: "(\<And>s. snd (m s) = s) \<Longrightarrow> reads_only m"
  by (simp add: reads_only_def)

lemma reads_onlyD: "reads_only m \<Longrightarrow> snd (m s) = s"
  by (simp add: reads_only_def)

lemma reads_only_preserves: "reads_only m \<Longrightarrow> preserves P m"
  by (simp add: reads_only_def preserves_def)

lemma reads_only_basic [reads]:
  "reads_only (py_return x)" "reads_only (py_raise e)" "reads_only (py_gets f)" "reads_only (py_lift r)"
  by (simp_all add: reads_only_def)

lemma reads_only_bind [reads]: "reads_only m \<Longrightarrow> (\<And>x. reads_only (f x)) \<Longrightarrow> reads_only (py_bind m f)"
  by (simp add: reads_only_def py_run_bind split: sum.splits)

lemma reads_only_seq [reads]: "reads_only m \<Longrightarrow> reads_only n \<Longrightarrow> reads_only (py_seq m n)"
  by (simp add: reads_only_def py_run_seq split: sum.splits)

lemma reads_only_if [reads]: "reads_only m \<Longrightarrow> reads_only n \<Longrightarrow> reads_only (if b then m else n)"
  by simp

lemma reads_only_option [reads]:
  "reads_only m \<Longrightarrow> (\<And>x. reads_only (f x)) \<Longrightarrow> reads_only (case y of None \<Rightarrow> m | Some x \<Rightarrow> f x)"
  by (cases y) simp_all

lemma reads_only_prod [reads]: "(\<And>x y. reads_only (f x y)) \<Longrightarrow> reads_only (case p of (x, y) \<Rightarrow> f x y)"
  by (cases p) simp

lemma reads_only_Let [reads]: "(\<And>x. reads_only (f x)) \<Longrightarrow> reads_only (let x = t in f x)"
  by simp

text \<open>A state with counters: a computation on the first part, and a change of the counters.\<close>

definition py_on :: "('s, 'e, 'a) py \<Rightarrow> ('s \<times> 'm, 'e, 'a) py" where
  "py_on m = (\<lambda>(s, c). case m s of (r, s') \<Rightarrow> (r, (s', c)))"

definition py_count :: "('m \<Rightarrow> 'm) \<Rightarrow> ('s \<times> 'm, 'e, unit) py" where
  "py_count f = py_modify (\<lambda>(s, c). (s, f c))"

lemma py_run_on [py_simps]: "py_on m (s, c) = (fst (m s), (snd (m s), c))"
  by (simp add: py_on_def split: prod.splits)

lemma py_run_count [simp, py_simps]: "py_count f (s, c) = (Inr (), (s, f c))"
  by (simp add: py_count_def)

lemma preserves_on [preserve]: "preserves P m \<Longrightarrow> preserves (\<lambda>(s, c). P s) (py_on m)"
  by (auto simp: preserves_def py_run_on)

lemma preserves_count [preserve]: "preserves (\<lambda>(s, c). P s) (py_count f)"
  by (auto simp: preserves_def)

text \<open>A computation that returned: what its parts returned.\<close>

lemma bind_InrE:
  assumes "py_bind m f s = (Inr y, s'')"
  obtains x s' where "m s = (Inr x, s')" "f x s' = (Inr y, s'')"
  using assms by (auto simp: py_bind_def split: prod.splits sum.splits)

lemma seq_InrE:
  assumes "py_seq m n s = (Inr y, s'')"
  obtains x s' where "m s = (Inr x, s')" "n s' = (Inr y, s'')"
  using assms unfolding py_seq_def by (rule bind_InrE)

text \<open>
  Computations that move the state only along a relation, whether they return or raise. Any reflexive and transitive
  relation has the rules: what a part may do, the whole may do.
\<close>

definition moves :: "('s \<Rightarrow> 's \<Rightarrow> bool) \<Rightarrow> ('s, 'e, 'a) py \<Rightarrow> bool" where
  "moves R m \<longleftrightarrow> (\<forall>s. R s (snd (m s)))"

lemma movesI: "(\<And>s. R s (snd (m s))) \<Longrightarrow> moves R m"
  by (simp add: moves_def)

lemma movesD: "moves R m \<Longrightarrow> R s (snd (m s))"
  by (simp add: moves_def)

lemma moves_modify: "(\<And>s. R s (f s)) \<Longrightarrow> moves R (py_modify f)"
  by (simp add: moves_def)

locale step_order =
  fixes rel :: "'s \<Rightarrow> 's \<Rightarrow> bool"
  assumes rel_refl: "rel s s"
    and rel_trans: "rel s s' \<Longrightarrow> rel s' s'' \<Longrightarrow> rel s s''"
begin

lemma moves_basic: "moves rel (py_return x)" "moves rel (py_raise e)" "moves rel (py_gets f)" "moves rel (py_lift r)"
  by (simp_all add: moves_def rel_refl)

lemma moves_bind: "moves rel m \<Longrightarrow> (\<And>x. moves rel (f x)) \<Longrightarrow> moves rel (py_bind m f)"
  unfolding moves_def by (auto simp: py_run_bind split: sum.splits intro: rel_trans)

lemma moves_seq: "moves rel m \<Longrightarrow> moves rel n \<Longrightarrow> moves rel (py_seq m n)"
  unfolding py_seq_def by (rule moves_bind)

lemma moves_try: "moves rel m \<Longrightarrow> (\<And>e. moves rel (h e)) \<Longrightarrow> moves rel (py_try m h)"
  unfolding moves_def by (auto simp: py_run_try split: sum.splits intro: rel_trans)

lemma moves_if: "moves rel m \<Longrightarrow> moves rel n \<Longrightarrow> moves rel (if b then m else n)"
  by simp

lemma moves_option: "moves rel m \<Longrightarrow> (\<And>x. moves rel (f x)) \<Longrightarrow> moves rel (case y of None \<Rightarrow> m | Some x \<Rightarrow> f x)"
  by (cases y) simp_all

lemma moves_sum: "(\<And>x. moves rel (f x)) \<Longrightarrow> (\<And>y. moves rel (g y)) \<Longrightarrow> moves rel (case r of Inl x \<Rightarrow> f x | Inr y \<Rightarrow> g y)"
  by (cases r) simp_all

lemma moves_prod: "(\<And>x y. moves rel (f x y)) \<Longrightarrow> moves rel (case p of (x, y) \<Rightarrow> f x y)"
  by (cases p) simp

lemma moves_bool: "moves rel m \<Longrightarrow> moves rel n \<Longrightarrow> moves rel (case b of True \<Rightarrow> m | False \<Rightarrow> n)"
  by (cases b) simp_all

lemma moves_Let: "(\<And>x. moves rel (f x)) \<Longrightarrow> moves rel (let x = t in f x)"
  by simp

lemma moves_fold: "(\<And>x acc. moves rel (f x acc)) \<Longrightarrow> moves rel (py_fold f xs acc)"
  by (induction xs arbitrary: acc) (auto intro: moves_basic moves_bind)

lemmas moves_rules = moves_basic moves_bind moves_seq moves_try moves_if moves_option moves_sum moves_prod moves_bool
  moves_Let moves_fold

end

text \<open>A computation that returns no exception on any state.\<close>

definition total_py :: "('s, 'e, 'a) py \<Rightarrow> bool" where
  "total_py m \<longleftrightarrow> (\<forall>s. \<exists>x. fst (m s) = Inr x)"

lemma total_py_try:
  "(\<And>e. total_py (h e)) \<Longrightarrow> total_py (py_try m h)"
  by (auto simp: total_py_def py_run_try split: sum.splits)

lemma total_py_return: "total_py (py_return x)"
  by (simp add: total_py_def)

lemma total_py_gets: "total_py (py_gets f)"
  by (simp add: total_py_def)

lemma total_py_modify: "total_py (py_modify f)"
  by (simp add: total_py_def)

lemma total_py_bind:
  "total_py m \<Longrightarrow> (\<And>x. total_py (f x)) \<Longrightarrow> total_py (py_bind m f)"
  by (auto simp: total_py_def py_run_bind split: sum.splits) (metis sum.distinct(1))+

lemma total_py_fold:
  "(\<And>x acc. total_py (f x acc)) \<Longrightarrow> total_py (py_fold f xs acc)"
  by (induction xs arbitrary: acc) (auto intro: total_py_return total_py_bind)

section \<open>Generic lemmas on lists and options\<close>

lemma find_Some_set: "find P xs = Some x \<Longrightarrow> x \<in> set xs \<and> P x"
  by (induction xs) (auto split: if_splits)

lemma find_None_iff_all: "find P xs = None \<longleftrightarrow> (\<forall>x \<in> set xs. \<not> P x)"
  by (induction xs) auto

lemma distinct_map_inj: "distinct (map f xs) \<Longrightarrow> x \<in> set xs \<Longrightarrow> y \<in> set xs \<Longrightarrow> f x = f y \<Longrightarrow> x = y"
  by (metis distinct_map inj_onD)

text \<open>Replacing the rows of a table that satisfy a test, as an \<open>UPDATE\<close> does.\<close>

definition update_where :: "('a \<Rightarrow> bool) \<Rightarrow> ('a \<Rightarrow> 'a) \<Rightarrow> 'a list \<Rightarrow> 'a list" where
  "update_where P f xs = map (\<lambda>x. if P x then f x else x) xs"

lemma length_update_where [simp]: "length (update_where P f xs) = length xs"
  by (simp add: update_where_def)

lemma map_update_where: "(\<And>x. P x \<Longrightarrow> g (f x) = g x) \<Longrightarrow> map g (update_where P f xs) = map g xs"
  by (auto simp: update_where_def)

lemma set_update_where: "set (update_where P f xs) = (\<lambda>x. if P x then f x else x) ` set xs"
  by (simp add: update_where_def)

lemma find_update_where_same:
  "(\<And>x. P x \<Longrightarrow> P (f x)) \<Longrightarrow> find P (update_where P f xs) = map_option f (find P xs)"
  by (induction xs) (auto simp: update_where_def)

lemma find_update_where_other:
  "(\<And>x. P x \<Longrightarrow> \<not> Q x) \<Longrightarrow> (\<And>x. P x \<Longrightarrow> \<not> Q (f x)) \<Longrightarrow>
   find Q (update_where P f xs) = find Q xs"
  by (induction xs) (auto simp: update_where_def)

text \<open>The first row with the largest key: \<open>ORDER BY key DESC LIMIT 1\<close>, ties by table order.\<close>

fun latest_by :: "('a \<Rightarrow> 'k::linorder) \<Rightarrow> 'a list \<Rightarrow> 'a option" where
  "latest_by k [] = None"
| "latest_by k (x # xs) =
     (case latest_by k xs of None \<Rightarrow> Some x | Some y \<Rightarrow> if k y > k x then Some y else Some x)"

lemma latest_by_None [simp]: "latest_by k xs = None \<longleftrightarrow> xs = []"
  by (cases xs) (auto split: option.splits if_splits)

lemma latest_by_Some: "latest_by k xs = Some x \<Longrightarrow> x \<in> set xs \<and> (\<forall>y \<in> set xs. k y \<le> k x)"
proof (induction xs arbitrary: x)
  case Nil
  then show ?case by simp
next
  case (Cons a xs)
  then show ?case
    by (cases "latest_by k xs") (fastforce split: if_splits)+
qed

end
