(* ===== verification/Py_Calendar.thy ===== *)
theory Py_Calendar
  imports Py_Prelude
begin

text \<open>
  The parts of Python's \<open>datetime\<close> and \<open>calendar\<close> modules that the code uses.

  \<^item> \<open>date\<close> is a year, a month and a day, compared in that order; \<open>to_ordinal\<close> and \<open>from_ordinal\<close>
    are \<open>date.toordinal\<close> and \<open>date.fromordinal\<close> (proleptic Gregorian, day 1 is 0001-01-01), and
    \<open>add_days\<close> is \<open>date + timedelta(days=n)\<close>. Python's cap at year 9999 is not modelled: where the
    library would raise an overflow, the model goes on counting.
  \<^item> \<open>datetime\<close> is an aware UTC time stamp as a number of microseconds since 0001-01-01T00:00, so
    that comparison and \<open>timedelta\<close> arithmetic are those of the integers; \<open>dt_date\<close> is
    \<open>datetime.date()\<close> and \<open>midnight\<close> is \<open>datetime.combine(d, datetime.min.time(), tzinfo=UTC)\<close>.
  \<^item> \<open>isoformat\<close> and \<open>fromisoformat\<close> of dates, in the \<open>YYYY-MM-DD\<close> form that the code writes.

  The lemmas give the order isomorphism between valid dates and ordinals, the two round trips,
  and the facts on midnights that the billing theories use.
\<close>

section \<open>Dates\<close>

datatype date = Date (d_year: int) (d_month: int) (d_day: int)

instantiation date :: linorder
begin

definition less_eq_date :: "date \<Rightarrow> date \<Rightarrow> bool" where
  "less_eq_date a b \<longleftrightarrow>
     d_year a < d_year b \<or>
     (d_year a = d_year b \<and>
        (d_month a < d_month b \<or> (d_month a = d_month b \<and> d_day a \<le> d_day b)))"

definition less_date :: "date \<Rightarrow> date \<Rightarrow> bool" where
  "less_date a b \<longleftrightarrow>
     d_year a < d_year b \<or>
     (d_year a = d_year b \<and>
        (d_month a < d_month b \<or> (d_month a = d_month b \<and> d_day a < d_day b)))"

instance
  by standard (auto simp: less_eq_date_def less_date_def intro: date.expand)

end

definition is_leap :: "int \<Rightarrow> bool" where
  "is_leap y \<longleftrightarrow> y mod 4 = 0 \<and> (y mod 100 \<noteq> 0 \<or> y mod 400 = 0)"

text \<open>\<open>calendar.monthrange(y, m)[1]\<close>.\<close>

definition days_in_month :: "int \<Rightarrow> int \<Rightarrow> int" where
  "days_in_month y m =
     (if m = 2 then (if is_leap y then 29 else 28)
      else if m = 4 \<or> m = 6 \<or> m = 9 \<or> m = 11 then 30 else 31)"

definition valid_date :: "date \<Rightarrow> bool" where
  "valid_date d \<longleftrightarrow>
     1 \<le> d_month d \<and> d_month d \<le> 12 \<and> 1 \<le> d_day d \<and> d_day d \<le> days_in_month (d_year d) (d_month d)"

definition days_before_year :: "int \<Rightarrow> int" where
  "days_before_year y = (y - 1) * 365 + (y - 1) div 4 - (y - 1) div 100 + (y - 1) div 400"

definition days_before_month :: "int \<Rightarrow> int \<Rightarrow> int" where
  "days_before_month y m =
     (if m \<le> 1 then 0
      else (if m = 2 then 31 else if m = 3 then 59 else if m = 4 then 90 else if m = 5 then 120
            else if m = 6 then 151 else if m = 7 then 181 else if m = 8 then 212
            else if m = 9 then 243 else if m = 10 then 273 else if m = 11 then 304 else 334)
           + (if m > 2 \<and> is_leap y then 1 else 0))"

definition to_ordinal :: "date \<Rightarrow> int" where
  "to_ordinal d = days_before_year (d_year d) + days_before_month (d_year d) (d_month d) + d_day d"

lemma int_div_step:
  assumes "0 < (k::int)"
  shows "x div k = (x - 1) div k + (if x mod k = 0 then 1 else 0)"
proof -
  define q r where "q = (x - 1) div k" and "r = (x - 1) mod k"
  have r: "0 \<le> r" "r < k" using assms by (simp_all add: r_def)
  have x: "x = (r + 1) + k * q"
    using div_mult_mod_eq [of "x - 1" k] by (simp add: q_def r_def algebra_simps)
  have "x div k = q + (r + 1) div k" "x mod k = (r + 1) mod k"
    using assms by (simp_all add: x)
  moreover have "r + 1 = k \<or> (0 < r + 1 \<and> r + 1 < k)" using r by linarith
  ultimately show ?thesis using assms
  proof (cases "r + 1 = k")
    case False
    with r have "(r + 1) mod k = r + 1" "(r + 1) div k = 0" by (simp_all add: mod_pos_pos_trivial)
    with \<open>x div k = q + (r + 1) div k\<close> \<open>x mod k = (r + 1) mod k\<close> r show ?thesis
      by (simp only: q_def) simp
  qed (simp add: q_def)
qed

lemma days_before_year_Suc:
  "days_before_year (y + 1) = days_before_year y + (if is_leap y then 366 else 365)"
proof -
  have sub: "y mod 400 = 0 \<Longrightarrow> y mod 100 = 0" "y mod 100 = 0 \<Longrightarrow> y mod 4 = 0"
    by (simp_all add: mod_eq_0_iff_dvd) (auto elim: dvd_trans [rotated])
  obtain a b c where abc: "a = (y - 1) div 4" "b = (y - 1) div 100" "c = (y - 1) div 400" by blast
  have steps:
    "y div 4 = a + (if y mod 4 = 0 then 1 else 0)"
    "y div 100 = b + (if y mod 100 = 0 then 1 else 0)"
    "y div 400 = c + (if y mod 400 = 0 then 1 else 0)"
    unfolding abc by (rule int_div_step, simp)+
  have "days_before_year y = (y - 1) * 365 + a - b + c"
    unfolding days_before_year_def abc ..
  moreover have "days_before_year (y + 1) = y * 365 + y div 4 - y div 100 + y div 400"
    unfolding days_before_year_def add_diff_cancel_right' ..
  ultimately show ?thesis using sub unfolding is_leap_def steps
    by (cases "y mod 4 = 0"; cases "y mod 100 = 0"; cases "y mod 400 = 0") simp_all
qed

lemma days_before_year_lt: "days_before_year y < days_before_year (y + 1)"
  by (simp add: days_before_year_Suc)

lemma days_before_year_mono: "y < z \<Longrightarrow> days_before_year (y + 1) \<le> days_before_year z"
proof (induction "nat (z - y - 1)" arbitrary: z)
  case 0
  then have "z = y + 1" by simp
  then show ?case by simp
next
  case (Suc n)
  then have "days_before_year (y + 1) \<le> days_before_year (z - 1)" by simp
  also have "\<dots> \<le> days_before_year z" using days_before_year_lt [of "z - 1"] by simp
  finally show ?case .
qed

lemma month_cases:
  assumes "1 \<le> m" "m \<le> (12::int)"
  obtains "m = 1" | "m = 2" | "m = 3" | "m = 4" | "m = 5" | "m = 6"
    | "m = 7" | "m = 8" | "m = 9" | "m = 10" | "m = 11" | "m = 12"
proof -
  have "m = 1 \<or> m = 2 \<or> m = 3 \<or> m = 4 \<or> m = 5 \<or> m = 6
    \<or> m = 7 \<or> m = 8 \<or> m = 9 \<or> m = 10 \<or> m = 11 \<or> m = 12"
    using assms by arith
  with that show thesis by blast
qed

lemma days_before_month_Suc:
  "1 \<le> m \<Longrightarrow> m < 12 \<Longrightarrow> days_before_month y (m + 1) = days_before_month y m + days_in_month y m"
  by (auto elim!: month_cases [of m] simp: days_before_month_def days_in_month_def)

lemma days_in_month_bounds: "28 \<le> days_in_month y m \<and> days_in_month y m \<le> 31"
  by (simp add: days_in_month_def)

lemma day_of_year_bounds:
  assumes "1 \<le> m" "m \<le> 12" "1 \<le> d" "d \<le> days_in_month y m"
  shows "1 \<le> days_before_month y m + d"
    and "days_before_month y m + d \<le> (if is_leap y then 366 else 365)"
  using assms by (auto elim!: month_cases simp: days_before_month_def days_in_month_def split: if_splits)

lemma days_before_month_mono:
  assumes "1 \<le> m" "m < n" "n \<le> 12"
  shows "days_before_month y m + days_in_month y m \<le> days_before_month y n"
  using assms
proof (induction "nat (n - m - 1)" arbitrary: n)
  case 0
  then have "n = m + 1" by simp
  with 0 show ?case by (simp add: days_before_month_Suc)
next
  case (Suc k)
  then have "days_before_month y m + days_in_month y m \<le> days_before_month y (n - 1)" by simp
  also have "\<dots> \<le> days_before_month y n"
    using days_before_month_Suc [of "n - 1" y] days_in_month_bounds [of y "n - 1"] Suc by simp
  finally show ?case .
qed

text \<open>A valid date lies in the year and the month it names.\<close>

lemma to_ordinal_year:
  assumes "valid_date d"
  shows "days_before_year (d_year d) < to_ordinal d"
    and "to_ordinal d \<le> days_before_year (d_year d + 1)"
  using day_of_year_bounds [of "d_month d" "d_day d" "d_year d"] assms
  by (auto simp: valid_date_def to_ordinal_def days_before_year_Suc)

lemma to_ordinal_less:
  assumes "valid_date a" "valid_date b" "a < b"
  shows "to_ordinal a < to_ordinal b"
proof (cases "d_year a < d_year b")
  case True
  have "to_ordinal a \<le> days_before_year (d_year a + 1)" using assms(1) by (rule to_ordinal_year)
  also have "\<dots> \<le> days_before_year (d_year b)" using True by (rule days_before_year_mono)
  also have "\<dots> < to_ordinal b" using assms(2) by (rule to_ordinal_year)
  finally show ?thesis .
next
  case False
  with assms(3) have year: "d_year a = d_year b"
    and rest: "d_month a < d_month b \<or> (d_month a = d_month b \<and> d_day a < d_day b)"
    by (auto simp: less_date_def)
  from rest show ?thesis
  proof
    assume "d_month a < d_month b"
    with days_before_month_mono [of "d_month a" "d_month b" "d_year b"] assms(1,2) year
    show ?thesis by (auto simp: valid_date_def to_ordinal_def)
  next
    assume "d_month a = d_month b \<and> d_day a < d_day b"
    with year show ?thesis by (simp add: to_ordinal_def)
  qed
qed

lemma to_ordinal_less_iff:
  assumes "valid_date a" "valid_date b"
  shows "to_ordinal a < to_ordinal b \<longleftrightarrow> a < b"
  by (metis assms less_irrefl linorder_less_linear order_less_trans to_ordinal_less)

lemma to_ordinal_inj:
  "valid_date a \<Longrightarrow> valid_date b \<Longrightarrow> to_ordinal a = to_ordinal b \<Longrightarrow> a = b"
  by (metis less_irrefl linorder_neqE to_ordinal_less)

lemma to_ordinal_le_iff:
  "valid_date a \<Longrightarrow> valid_date b \<Longrightarrow> to_ordinal a \<le> to_ordinal b \<longleftrightarrow> a \<le> b"
  by (metis linorder_not_less to_ordinal_less_iff)


section \<open>Ordinals back to dates\<close>

function year_up :: "int \<Rightarrow> int \<Rightarrow> int" where
  "year_up y n = (if days_before_year (y + 1) < n then year_up (y + 1) n else y)"
  by pat_completeness auto
termination
proof (relation "measure (\<lambda>(y, n). nat (n - days_before_year y))")
  show "wf (measure (\<lambda>(y, n). nat (n - days_before_year y)))" by simp
  fix y n assume "days_before_year (y + 1) < n"
  with days_before_year_lt [of y]
  show "((y + 1, n), y, n) \<in> measure (\<lambda>(y, n). nat (n - days_before_year y))" by simp
qed

declare year_up.simps [simp del]

definition year_of :: "int \<Rightarrow> int" where
  "year_of n = year_up (if 1 \<le> n then n div 366 else n div 365 - 2) n"

function month_down :: "int \<Rightarrow> int \<Rightarrow> int \<Rightarrow> int" where
  "month_down y r m =
     (if m \<le> 1 then 1 else if days_before_month y m < r then m else month_down y r (m - 1))"
  by pat_completeness auto
termination by (relation "measure (\<lambda>(y, r, m). nat m)") auto

declare month_down.simps [simp del]

definition month_of :: "int \<Rightarrow> int \<Rightarrow> int" where
  "month_of y r = month_down y r 12"

definition from_ordinal :: "int \<Rightarrow> date" where
  "from_ordinal n =
     (let y = year_of n; r = n - days_before_year y; m = month_of y r
      in Date y m (r - days_before_month y m))"

lemma year_up_spec:
  "days_before_year y < n \<Longrightarrow>
   days_before_year (year_up y n) < n \<and> n \<le> days_before_year (year_up y n + 1)"
proof (induction y n rule: year_up.induct)
  case (1 y n)
  then show ?case
    by (cases "days_before_year (y + 1) < n") (simp_all add: year_up.simps [of y n])
qed

lemma days_before_year_upper:
  "days_before_year (k + 1) \<le> (if 0 \<le> k then 366 * k else 365 * k + 1)"
proof -
  obtain a b c where abc: "a = k div 4" "b = k div 100" "c = k div 400" by blast
  have "4 * a \<le> k" "100 * b \<le> k" "k < 100 * b + 100" "400 * c \<le> k" "k < 400 * c + 400"
    unfolding abc by presburger+
  moreover have "c \<le> b" if "0 \<le> k"
    unfolding abc using that by (simp add: zdiv_mono2)
  ultimately have "a - b + c \<le> (if 0 \<le> k then k else 1)" by (auto split: if_splits)
  moreover have "days_before_year (k + 1) = k * 365 + a - b + c"
    unfolding days_before_year_def abc by simp
  ultimately show ?thesis by (auto split: if_splits)
qed

lemma year_of_start: "days_before_year (if 1 \<le> n then n div 366 else n div 365 - 2) < n"
proof (cases "1 \<le> n")
  case True
  obtain q where q: "q = n div 366" by blast
  have b: "366 * q \<le> n" "0 \<le> q" using True unfolding q by (presburger, simp)
  with days_before_year_upper [of "q - 1"] True show ?thesis
    by (auto simp: q [symmetric] split: if_splits)
next
  case False
  obtain q where q: "q = n div 365" by blast
  have "365 * q \<le> n" unfolding q by presburger
  with days_before_year_upper [of "q - 3"] False show ?thesis
    by (auto simp: q [symmetric] split: if_splits)
qed

lemma year_of_spec: "days_before_year (year_of n) < n \<and> n \<le> days_before_year (year_of n + 1)"
  unfolding year_of_def by (rule year_up_spec [OF year_of_start])

lemma month_down_spec:
  assumes "1 \<le> m" "m \<le> 12" "1 \<le> r" "r \<le> days_before_month y m + days_in_month y m"
  shows "1 \<le> month_down y r m \<and> month_down y r m \<le> 12 \<and> days_before_month y (month_down y r m) < r \<and>
         r \<le> days_before_month y (month_down y r m) + days_in_month y (month_down y r m)"
  using assms
proof (induction y r m rule: month_down.induct)
  case (1 y r m)
  show ?case
  proof (cases "m \<le> 1")
    case True
    with "1.prems" have "m = 1" by simp
    with "1.prems" show ?thesis
      by (simp add: month_down.simps [of y r 1] days_before_month_def)
  next
    case False
    with "1.prems" days_before_month_Suc [of "m - 1" y]
    have "\<not> days_before_month y m < r \<Longrightarrow>
        r \<le> days_before_month y (m - 1) + days_in_month y (m - 1)" by simp
    with False "1.IH" "1.prems" show ?thesis
      by (simp add: month_down.simps [of y r m])
  qed
qed

lemma month_of_spec:
  assumes "1 \<le> r" "r \<le> (if is_leap y then 366 else 365)"
  shows "1 \<le> month_of y r \<and> month_of y r \<le> 12 \<and> days_before_month y (month_of y r) < r \<and>
         r \<le> days_before_month y (month_of y r) + days_in_month y (month_of y r)"
  unfolding month_of_def using assms
  by (intro month_down_spec) (simp_all add: days_before_month_def days_in_month_def split: if_splits)

lemma from_ordinal_valid: "valid_date (from_ordinal n)"
  and to_ordinal_from_ordinal [simp]: "to_ordinal (from_ordinal n) = n"
proof -
  define y r where "y = year_of n" and "r = n - days_before_year y"
  have "1 \<le> r" "r \<le> (if is_leap y then 366 else 365)"
    using year_of_spec [of n] days_before_year_Suc [of y] by (auto simp: y_def r_def split: if_splits)
  from month_of_spec [OF this]
  show "valid_date (from_ordinal n)" "to_ordinal (from_ordinal n) = n"
    by (auto simp: from_ordinal_def Let_def valid_date_def to_ordinal_def y_def r_def)
qed

declare from_ordinal_valid [simp]

lemma from_ordinal_to_ordinal: "valid_date d \<Longrightarrow> from_ordinal (to_ordinal d) = d"
  by (rule to_ordinal_inj) simp_all

lemma from_ordinal_less_iff [simp]: "from_ordinal m < from_ordinal n \<longleftrightarrow> m < n"
  by (metis from_ordinal_valid to_ordinal_from_ordinal to_ordinal_less_iff)

lemma from_ordinal_le_iff [simp]: "from_ordinal m \<le> from_ordinal n \<longleftrightarrow> m \<le> n"
  by (simp add: linorder_not_less [symmetric])

lemma from_ordinal_eq_iff [simp]: "from_ordinal m = from_ordinal n \<longleftrightarrow> m = n"
  by (metis to_ordinal_from_ordinal)

text \<open>\<open>d + timedelta(days=n)\<close> and the number of days from one date to another.\<close>

definition add_days :: "date \<Rightarrow> int \<Rightarrow> date" where
  "add_days d n = from_ordinal (to_ordinal d + n)"

definition days_between :: "date \<Rightarrow> date \<Rightarrow> int" where
  "days_between a b = to_ordinal b - to_ordinal a"

lemma valid_add_days [simp]: "valid_date (add_days d n)"
  by (simp add: add_days_def)

lemma to_ordinal_add_days [simp]: "to_ordinal (add_days d n) = to_ordinal d + n"
  by (simp add: add_days_def)

lemma add_days_add: "add_days (add_days d m) n = add_days d (m + n)"
  by (simp add: add_days_def add.assoc)

lemma add_days_0: "valid_date d \<Longrightarrow> add_days d 0 = d"
  by (simp add: add_days_def from_ordinal_to_ordinal)

lemma add_days_less: "valid_date d \<Longrightarrow> 0 < n \<Longrightarrow> d < add_days d n"
  by (simp flip: to_ordinal_less_iff)

text \<open>\<open>date.weekday()\<close>: Monday is 0.\<close>

definition weekday :: "date \<Rightarrow> int" where
  "weekday d = (to_ordinal d + 6) mod 7"

section \<open>Time stamps\<close>

type_synonym datetime = int

abbreviation us_per_day :: int where
  "us_per_day \<equiv> 86400000000"

definition seconds :: "int \<Rightarrow> int" where
  "seconds n = n * 1000000"

definition minutes :: "int \<Rightarrow> int" where
  "minutes n = n * 60000000"

definition days :: "int \<Rightarrow> int" where
  "days n = n * us_per_day"

definition dt_date :: "datetime \<Rightarrow> date" where
  "dt_date t = from_ordinal (t div us_per_day + 1)"

definition midnight :: "date \<Rightarrow> datetime" where
  "midnight d = (to_ordinal d - 1) * us_per_day"

text \<open>\<open>datetime.combine(d, t.timetz())\<close>.\<close>

definition combine_date_time :: "date \<Rightarrow> datetime \<Rightarrow> datetime" where
  "combine_date_time d t = midnight d + t mod us_per_day"

lemma valid_dt_date [simp]: "valid_date (dt_date t)"
  by (simp add: dt_date_def)

lemma to_ordinal_dt_date: "to_ordinal (dt_date t) = t div us_per_day + 1"
  by (simp add: dt_date_def)

lemma dt_date_midnight [simp]: "valid_date d \<Longrightarrow> dt_date (midnight d) = d"
  by (simp add: dt_date_def midnight_def from_ordinal_to_ordinal)

lemma dt_date_combine [simp]:
  assumes "valid_date d"
  shows "dt_date (combine_date_time d t) = d"
proof -
  have "(t mod us_per_day + us_per_day * (to_ordinal d - 1)) div us_per_day = to_ordinal d - 1"
    by (subst div_mult_self2) simp_all
  then show ?thesis using assms
    by (simp add: dt_date_def combine_date_time_def midnight_def from_ordinal_to_ordinal
        mult.commute add.commute del: left_diff_distrib_numeral right_diff_distrib_numeral)
qed

lemma midnight_less_iff:
  "valid_date a \<Longrightarrow> valid_date b \<Longrightarrow> midnight a < midnight b \<longleftrightarrow> a < b"
  by (simp add: midnight_def to_ordinal_less_iff)

lemma midnight_le_iff:
  "valid_date a \<Longrightarrow> valid_date b \<Longrightarrow> midnight a \<le> midnight b \<longleftrightarrow> a \<le> b"
  by (simp add: midnight_def to_ordinal_le_iff)

lemma dt_date_mono: "s \<le> t \<Longrightarrow> dt_date s \<le> dt_date t"
  by (simp add: dt_date_def zdiv_mono1)

lemma div_floor_iff: "0 < (k::int) \<Longrightarrow> a \<le> t div k \<longleftrightarrow> a * k \<le> t"
proof
  assume k: "0 < k" and "a \<le> t div k"
  then have "a * k \<le> (t div k) * k" by (intro mult_right_mono) simp_all
  also have "\<dots> \<le> t" using k by (simp add: minus_mod_eq_div_mult [symmetric])
  finally show "a * k \<le> t" .
next
  assume "0 < k" "a * k \<le> t"
  then show "a \<le> t div k" using zdiv_mono1 [of "a * k" t k] by simp
qed

lemma midnight_le: "valid_date d \<Longrightarrow> midnight d \<le> t \<longleftrightarrow> d \<le> dt_date t"
proof -
  assume d: "valid_date d"
  have "midnight d \<le> t \<longleftrightarrow> to_ordinal d - 1 \<le> t div us_per_day"
    unfolding midnight_def by (rule div_floor_iff [symmetric]) simp
  also have "\<dots> \<longleftrightarrow> to_ordinal d \<le> to_ordinal (dt_date t)"
    unfolding to_ordinal_dt_date by linarith
  finally show ?thesis using d by (simp add: to_ordinal_le_iff)
qed

lemma less_midnight: "valid_date d \<Longrightarrow> t < midnight d \<longleftrightarrow> dt_date t < d"
  by (simp add: linorder_not_le [symmetric] midnight_le)

lemma dt_date_add_days: "dt_date (t + days n) = add_days (dt_date t) n"
  by (simp add: dt_date_def add_days_def days_def)

section \<open>ISO text\<close>

definition digit_char :: "nat \<Rightarrow> char" where
  "digit_char n = char_of (48 + n)"

definition digit_of :: "char \<Rightarrow> nat option" where
  "digit_of c = (let n = of_char c in if 48 \<le> n \<and> n \<le> 57 then Some (n - 48) else None)"

text \<open>\<open>f"{n:0kd}"\<close> for \<open>n < 10 ^ k\<close>.\<close>

fun pad_dec :: "nat \<Rightarrow> nat \<Rightarrow> string" where
  "pad_dec 0 n = []"
| "pad_dec (Suc k) n = pad_dec k (n div 10) @ [digit_char (n mod 10)]"

text \<open>\<open>str(n)\<close> and \<open>int(s)\<close> of Python: a sign, and digits that single underscores may separate.\<close>

fun str_of_nat :: "nat \<Rightarrow> string" where
  "str_of_nat n = (if n < 10 then [digit_char n] else str_of_nat (n div 10) @ [digit_char (n mod 10)])"

declare str_of_nat.simps [simp del]

definition str_of_int :: "int \<Rightarrow> string" where
  "str_of_int n = (if n < 0 then CHR ''-'' # str_of_nat (nat (- n)) else str_of_nat (nat n))"

fun parse_dec_acc :: "nat \<Rightarrow> string \<Rightarrow> nat option" where
  "parse_dec_acc acc [] = Some acc"
| "parse_dec_acc acc (c # cs) =
     (case digit_of c of None \<Rightarrow> None | Some k \<Rightarrow> parse_dec_acc (10 * acc + k) cs)"

definition parse_dec :: "string \<Rightarrow> nat option" where
  "parse_dec s = (if s = [] then None else parse_dec_acc 0 s)"

fun digits_after :: "nat \<Rightarrow> string \<Rightarrow> nat option" where
  "digits_after acc [] = Some acc"
| "digits_after acc (c # cs) =
     (if c = CHR ''_'' then
        (case cs of [] \<Rightarrow> None
         | d # ds \<Rightarrow> (case digit_of d of None \<Rightarrow> None | Some n \<Rightarrow> digits_after (10 * acc + n) ds))
      else (case digit_of c of None \<Rightarrow> None | Some n \<Rightarrow> digits_after (10 * acc + n) cs))"

definition py_digits :: "string \<Rightarrow> nat option" where
  "py_digits s = (case s of [] \<Rightarrow> None
     | c # cs \<Rightarrow> (case digit_of c of None \<Rightarrow> None | Some n \<Rightarrow> digits_after n cs))"

definition py_int :: "string \<Rightarrow> int option" where
  "py_int s =
     (let t = py_strip s in
      case t of
        [] \<Rightarrow> None
      | c # cs \<Rightarrow>
          if c = CHR ''-'' then map_option (\<lambda>n. - int n) (py_digits cs)
          else if c = CHR ''+'' then map_option int (py_digits cs)
          else map_option int (py_digits t))"

definition isoformat :: "date \<Rightarrow> string" where
  "isoformat d = pad_dec 4 (nat (d_year d)) @ ''-'' @ pad_dec 2 (nat (d_month d)) @ ''-''
     @ pad_dec 2 (nat (d_day d))"

text \<open>\<open>date.fromisoformat\<close> on the \<open>YYYY-MM-DD\<close> form; \<open>None\<close> stands for \<open>ValueError\<close>.\<close>

definition fromisoformat :: "string \<Rightarrow> date option" where
  "fromisoformat s =
     (if length s = 10 \<and> s ! 4 = CHR ''-'' \<and> s ! 7 = CHR ''-'' then
        (case (parse_dec (take 4 s), parse_dec (take 2 (drop 5 s)), parse_dec (drop 8 s)) of
           (Some y, Some m, Some d) \<Rightarrow>
             (let r = Date (int y) (int m) (int d)
              in if 1 \<le> y \<and> valid_date r then Some r else None)
         | _ \<Rightarrow> None)
      else None)"

text \<open>The dates Python has: years 1 to 9999.\<close>

definition py_date :: "date \<Rightarrow> bool" where
  "py_date d \<longleftrightarrow> valid_date d \<and> 1 \<le> d_year d \<and> d_year d \<le> 9999"

lemma digit_of_digit_char: "n < 10 \<Longrightarrow> digit_of (digit_char n) = Some n"
  by (simp add: digit_of_def digit_char_def Let_def)

lemma length_pad_dec [simp]: "length (pad_dec k n) = k"
  by (induction k arbitrary: n) simp_all

lemma parse_dec_acc_append:
  "parse_dec_acc acc (xs @ ys) =
     (case parse_dec_acc acc xs of None \<Rightarrow> None | Some a \<Rightarrow> parse_dec_acc a ys)"
  by (induction xs arbitrary: acc) (auto split: option.splits)

lemma parse_dec_acc_pad: "n < 10 ^ k \<Longrightarrow> parse_dec_acc acc (pad_dec k n) = Some (acc * 10 ^ k + n)"
proof (induction k arbitrary: n acc)
  case 0
  then show ?case by simp
next
  case (Suc k)
  then have "n div 10 < 10 ^ k" by (simp add: less_mult_imp_div_less mult.commute)
  then show ?case using Suc.IH [of "n div 10" acc]
    by (simp add: parse_dec_acc_append digit_of_digit_char algebra_simps)
qed

lemma parse_dec_pad: "n < 10 ^ k \<Longrightarrow> 0 < k \<Longrightarrow> parse_dec (pad_dec k n) = Some n"
  by (cases k) (auto simp: parse_dec_def parse_dec_acc_pad simp del: pad_dec.simps
      dest: arg_cong [of _ _ length])

lemma parse_str_of_nat: "parse_dec_acc 0 (str_of_nat n) = Some n"
proof (induction n rule: str_of_nat.induct)
  case (1 n)
  show ?case
  proof (cases "n < 10")
    case True
    then show ?thesis by (subst str_of_nat.simps) (simp add: digit_of_digit_char)
  next
    case False
    with 1 show ?thesis
      by (subst str_of_nat.simps) (simp add: parse_dec_acc_append digit_of_digit_char)
  qed
qed

lemma fromisoformat_isoformat:
  assumes "py_date d"
  shows "fromisoformat (isoformat d) = Some d"
proof -
  let ?y = "nat (d_year d)" and ?m = "nat (d_month d)" and ?d = "nat (d_day d)"
  have b: "?y < 10 ^ 4" "?m < 10 ^ 2" "?d < 10 ^ 2" "1 \<le> ?y" "0 \<le> d_month d" "0 \<le> d_day d"
    using assms days_in_month_bounds [of "d_year d" "d_month d"]
    by (auto simp: py_date_def valid_date_def)
  have s: "isoformat d = pad_dec 4 ?y @ [CHR ''-''] @ pad_dec 2 ?m @ [CHR ''-''] @ pad_dec 2 ?d"
    by (simp add: isoformat_def)
  have "isoformat d ! 4 = CHR ''-''" "isoformat d ! 7 = CHR ''-''" "length (isoformat d) = 10"
    "take 4 (isoformat d) = pad_dec 4 ?y" "take 2 (drop 5 (isoformat d)) = pad_dec 2 ?m"
    "drop 8 (isoformat d) = pad_dec 2 ?d"
    unfolding s by (simp_all add: nth_append)
  then show ?thesis
    using b assms by (simp add: fromisoformat_def parse_dec_pad py_date_def)
qed

lemma isoformat_inj: "py_date a \<Longrightarrow> py_date b \<Longrightarrow> isoformat a = isoformat b \<Longrightarrow> a = b"
  by (metis fromisoformat_isoformat option.inject)

lemma isoformat_not_Nil [simp]: "isoformat d \<noteq> []"
  by (simp add: isoformat_def)

end
