(* ===== verification/Billing_Calc.thy ===== *)
theory Billing_Calc
  imports Py_Calendar
begin

text \<open>
  The billing calculations (\<open>backend/apps/billing/calculations.py\<close>): business days, month
  arithmetic, the accounting period around a time stamp, and the discounted prices.

  Python's float steps are replaced by the integer they denote: \<open>int(round(p * (100 - d) / 100.0))\<close>
  is \<open>round_half_even\<close> of the exact quotient, and \<open>math.ceil(bytes / 2**30)\<close> the exact ceiling.
  Both agree with the float code as long as the products and byte counts stay below \<open>2 ^ 50\<close>
  (an exact half is representable there, and any other quotient is at least 1/100 away from it).

  The lemmas show that the accounting periods tile the time line, that month arithmetic is
  an order-preserving action on dates, and the bounds of the discounted price.
\<close>

named_theorems billing_calc \<open>definitions of the calculations, to evaluate them\<close>

section \<open>Storage, business days and months\<close>

definition round_storage_gb :: "int option \<Rightarrow> int" where
  "round_storage_gb storage_bytes =
     (case storage_bytes of None \<Rightarrow> 0
      | Some b \<Rightarrow> if b \<le> 0 then 0 else max 1 (- ((- b) div 2 ^ 30)))"

definition is_business_day :: "date \<Rightarrow> bool" where
  "is_business_day d \<longleftrightarrow> weekday d < 5"

text \<open>The loop of \<open>fifth_business_day\<close>: \<open>while not is_business_day(current): current += 1 day\<close>.\<close>

function skip_to_business_day :: "date \<Rightarrow> date" where
  "skip_to_business_day d = (if is_business_day d then d else skip_to_business_day (add_days d 1))"
  by pat_completeness auto
termination
proof (relation "measure (\<lambda>d. nat ((7 - weekday d) mod 7))")
  fix d assume "\<not> is_business_day d"
  then have w: "weekday d = 5 \<or> weekday d = 6"
    using pos_mod_bound [of 7 "to_ordinal d + 6"] by (auto simp: is_business_day_def weekday_def)
  have "weekday (add_days d 1) = (weekday d + 1) mod 7" by (simp add: weekday_def mod_simps)
  with w show "(add_days d 1, d) \<in> measure (\<lambda>d. nat ((7 - weekday d) mod 7))" by auto
qed simp

declare skip_to_business_day.simps [simp del]

definition fifth_business_day :: "int \<Rightarrow> int \<Rightarrow> date" where
  "fifth_business_day year month = skip_to_business_day (Date year month 5)"

definition previous_month :: "int \<Rightarrow> int \<Rightarrow> int \<times> int" where
  "previous_month year month = (if month = 1 then (year - 1, 12) else (year, month - 1))"

definition next_month :: "int \<Rightarrow> int \<Rightarrow> int \<times> int" where
  "next_month year month = (if month = 12 then (year + 1, 1) else (year, month + 1))"

definition add_months :: "int \<Rightarrow> int \<Rightarrow> int \<Rightarrow> int \<times> int" where
  "add_months year month count =
     (let index = (year * 12 + (month - 1)) + count in (index div 12, index mod 12 + 1))"

definition add_months_to_date :: "date \<Rightarrow> int \<Rightarrow> date" where
  "add_months_to_date value count =
     (let (year, month) = add_months (d_year value) (d_month value) count;
          day = min (d_day value) (days_in_month year month)
      in Date year month day)"

text \<open>\<open>f"{year:04d}-{month:02d}"\<close>.\<close>

definition month_key :: "int \<Rightarrow> int \<Rightarrow> string" where
  "month_key year month = pad_dec 4 (nat year) @ ''-'' @ pad_dec 2 (nat month)"

definition current_month_period :: "datetime \<Rightarrow> string \<times> datetime \<times> datetime \<times> date" where
  "current_month_period current =
     (let today = dt_date current;
          due_this_month = fifth_business_day (d_year today) (d_month today);
          (start_year, start_month) =
            (if today \<ge> due_this_month then (d_year today, d_month today)
             else previous_month (d_year today) (d_month today));
          (end_year, end_month) = next_month start_year start_month;
          period_key = month_key start_year start_month;
          start_day = fifth_business_day start_year start_month;
          end_day = fifth_business_day end_year end_month
      in (period_key, midnight start_day, midnight end_day, due_this_month))"

section \<open>Prices and billing periods\<close>

definition norm_period :: "string \<Rightarrow> string" where
  "norm_period billing_period =
     py_lower (py_strip (if billing_period = [] then ''monthly'' else billing_period))"

definition discount_percent :: "string \<Rightarrow> int" where
  "discount_percent billing_period =
     (let normalized = norm_period billing_period in
      if normalized = ''quarterly'' then 7 else if normalized = ''yearly'' then 15 else 0)"

text \<open>Python's \<open>round\<close> of \<open>n / k\<close>: to the nearest integer, a half to the even one.\<close>

definition round_half_even :: "int \<Rightarrow> int \<Rightarrow> int" where
  "round_half_even n k =
     (let q = n div k; r = n mod k in
      if 2 * r < k then q else if 2 * r > k then q + 1 else if even q then q else q + 1)"

definition apply_discount :: "int \<Rightarrow> string \<Rightarrow> int" where
  "apply_discount price_cents billing_period =
     (let discount = discount_percent billing_period in
      if discount \<le> 0 then price_cents
      else round_half_even (price_cents * (100 - discount)) 100)"

definition plan_monthly_charge_cents_after_discount :: "int \<Rightarrow> string \<Rightarrow> int" where
  "plan_monthly_charge_cents_after_discount price_cents billing_period =
     (let discounted = apply_discount price_cents billing_period in (discounted div 100) * 100)"

definition billing_period_multiplier :: "string \<Rightarrow> int" where
  "billing_period_multiplier billing_period =
     (let normalized = norm_period billing_period in
      if normalized = ''quarterly'' then 3 else if normalized = ''yearly'' then 12 else 1)"

definition billing_period_label_hu :: "string \<Rightarrow> string" where
  "billing_period_label_hu billing_period =
     (let normalized = norm_period billing_period in
      if normalized = ''quarterly'' then ''negyed'' @ [CHR 0xE9] @ ''ves''
      else if normalized = ''yearly'' then [CHR 0xE9] @ ''ves'' else ''havi'')"

definition charge_date_before_expiry :: "date \<Rightarrow> date" where
  "charge_date_before_expiry expiry_date = add_days expiry_date (- 5)"

lemmas [billing_calc] =
  round_storage_gb_def is_business_day_def fifth_business_day_def previous_month_def next_month_def
  add_months_def add_months_to_date_def month_key_def norm_period_def discount_percent_def
  round_half_even_def apply_discount_def plan_monthly_charge_cents_after_discount_def
  billing_period_multiplier_def billing_period_label_hu_def charge_date_before_expiry_def

section \<open>Business days\<close>

lemma add_days_in_month:
  assumes "valid_date (Date y m d)" "1 \<le> d + k" "d + k \<le> days_in_month y m"
  shows "add_days (Date y m d) k = Date y m (d + k)"
proof (rule to_ordinal_inj)
  show "valid_date (Date y m (d + k))" using assms by (simp add: valid_date_def)
  show "to_ordinal (add_days (Date y m d) k) = to_ordinal (Date y m (d + k))"
    by (simp only: to_ordinal_add_days) (simp add: to_ordinal_def)
qed simp

lemma weekday_range: "0 \<le> weekday d \<and> weekday d < 7"
  by (simp add: weekday_def)

lemma weekday_add_days: "weekday (add_days d n) = (weekday d + n) mod 7"
  by (simp add: weekday_def mod_simps algebra_simps)

lemma skip_to_business_day_eq:
  "valid_date d \<Longrightarrow>
   skip_to_business_day d = add_days d (if weekday d < 5 then 0 else 7 - weekday d)"
proof (induction d rule: skip_to_business_day.induct)
  case (1 d)
  show ?case
  proof (cases "is_business_day d")
    case True
    with "1.prems" show ?thesis
      by (simp add: skip_to_business_day.simps [of d] add_days_0 is_business_day_def)
  next
    case False
    then have "weekday d = 5 \<or> weekday d = 6"
      using weekday_range [of d] by (auto simp: is_business_day_def)
    with False "1.IH" "1.prems" show ?thesis
      by (auto simp: skip_to_business_day.simps [of d] weekday_add_days add_days_add)
  qed
qed

lemma fifth_business_day_eq:
  assumes "1 \<le> m" "m \<le> 12"
  shows "fifth_business_day y m =
         Date y m (let w = weekday (Date y m 5) in if w < 5 then 5 else 12 - w)"
proof -
  have "valid_date (Date y m 5)"
    using assms days_in_month_bounds [of y m] by (simp add: valid_date_def)
  then show ?thesis
    using days_in_month_bounds [of y m] weekday_range [of "Date y m 5"]
    by (simp add: fifth_business_day_def skip_to_business_day_eq add_days_in_month Let_def)
qed

lemma fifth_business_day_sel:
  assumes "1 \<le> m" "m \<le> 12"
  shows "d_year (fifth_business_day y m) = y" "d_month (fifth_business_day y m) = m"
    "5 \<le> d_day (fifth_business_day y m)" "d_day (fifth_business_day y m) \<le> 7"
    "valid_date (fifth_business_day y m)"
  using weekday_range [of "Date y m 5"] days_in_month_bounds [of y m] assms
  by (auto simp: fifth_business_day_eq [OF assms] Let_def valid_date_def)

lemma fifth_business_day_business:
  assumes "1 \<le> m" "m \<le> 12"
  shows "is_business_day (fifth_business_day y m)"
proof -
  have "valid_date (Date y m 5)"
    using assms days_in_month_bounds [of y m] by (simp add: valid_date_def)
  then show ?thesis using weekday_range [of "Date y m 5"]
    by (auto simp: fifth_business_day_def skip_to_business_day_eq is_business_day_def
        weekday_add_days add_days_0)
qed

lemma fifth_business_day_less:
  assumes "1 \<le> m" "m \<le> 12" "1 \<le> n" "n \<le> 12" "y < z \<or> (y = z \<and> m < n)"
  shows "fifth_business_day y m < fifth_business_day z n"
  using assms by (auto simp: less_date_def fifth_business_day_sel)

section \<open>Accounting periods\<close>

lemma next_month_props:
  assumes "1 \<le> m" "m \<le> 12" "next_month y m = (y', m')"
  shows "1 \<le> m'" "m' \<le> 12" "y < y' \<or> (y = y' \<and> m < m')"
    "\<And>z n. 1 \<le> n \<Longrightarrow> n \<le> 12 \<Longrightarrow> y < z \<or> (y = z \<and> m < n) \<Longrightarrow> y' < z \<or> (y' = z \<and> m' \<le> n)"
  using assms by (auto simp: next_month_def split: if_splits)

text \<open>The period that starts in month \<open>m\<close> of year \<open>y\<close>, as dates.\<close>

definition period_of :: "int \<Rightarrow> int \<Rightarrow> date \<Rightarrow> bool" where
  "period_of y m d \<longleftrightarrow> 1 \<le> m \<and> m \<le> 12 \<and> fifth_business_day y m \<le> d \<and>
     (case next_month y m of (y', m') \<Rightarrow> d < fifth_business_day y' m')"

lemma period_of_unique:
  assumes "period_of y m d" "period_of z n d"
  shows "y = z \<and> m = n"
proof -
  have "\<not> (y < z \<or> (y = z \<and> m < n))"
    if p: "period_of y m d" and q: "period_of z n d" for y m z n :: int
  proof
    assume lt: "y < z \<or> (y = z \<and> m < n)"
    obtain y' m' where nx: "next_month y m = (y', m')" by fastforce
    from p q have m: "1 \<le> m" "m \<le> 12" "1 \<le> n" "n \<le> 12" by (auto simp: period_of_def)
    from next_month_props [OF m(1,2) nx] m lt have le: "1 \<le> m'" "m' \<le> 12" "y' < z \<or> (y' = z \<and> m' \<le> n)"
      by auto
    then have "fifth_business_day y' m' \<le> fifth_business_day z n"
      by (metis fifth_business_day_less m(3,4) order_le_less)
    moreover have "d < fifth_business_day y' m'" using p nx by (simp add: period_of_def)
    moreover have "fifth_business_day z n \<le> d" using q by (simp add: period_of_def)
    ultimately show False by simp
  qed
  from this [OF assms] this [OF assms(2,1)] show ?thesis by linarith
qed

lemma current_month_period_start:
  fixes current :: datetime
  defines "today \<equiv> dt_date current"
  shows "\<exists>y m. period_of y m today \<and> (\<forall>y' m'. next_month y m = (y', m') \<longrightarrow>
      current_month_period current =
        (month_key y m, midnight (fifth_business_day y m), midnight (fifth_business_day y' m'),
         fifth_business_day (d_year today) (d_month today)))"
proof -
  have v: "1 \<le> d_month today" "d_month today \<le> 12"
    using valid_dt_date [of current] by (auto simp: today_def valid_date_def)
  let ?Y = "d_year today" and ?M = "d_month today"
  show ?thesis
  proof (cases "fifth_business_day ?Y ?M \<le> today")
    case True
    obtain y' m' where nx: "next_month ?Y ?M = (y', m')" by fastforce
    have "today < fifth_business_day y' m'"
      using next_month_props [OF v nx] by (auto simp: less_date_def fifth_business_day_sel)
    with True v nx have "period_of ?Y ?M today" by (simp add: period_of_def)
    with True show ?thesis
      by (intro exI [of _ ?Y] exI [of _ ?M]) (auto simp: current_month_period_def Let_def today_def)
  next
    case False
    obtain y m where pv: "previous_month ?Y ?M = (y, m)" by fastforce
    have m: "1 \<le> m" "m \<le> 12" and nx: "next_month y m = (?Y, ?M)"
      using v pv by (auto simp: previous_month_def next_month_def split: if_splits)
    have "fifth_business_day y m \<le> today"
      using m next_month_props(3) [OF m nx] by (auto simp: less_eq_date_def fifth_business_day_sel)
    with False m nx have "period_of y m today" by (simp add: period_of_def)
    with False pv show ?thesis
      by (intro exI [of _ y] exI [of _ m]) (auto simp: current_month_period_def Let_def today_def)
  qed
qed

text \<open>The accounting periods that \<open>current_month_period\<close> computes tile the time line. The
  time stamp itself lies in its period (start included, end excluded), every other time stamp of
  that period gets the same key, start and end, and the next period starts at this one's end.\<close>

theorem current_month_period_tiles:
  assumes "current_month_period now = (key, start, stop, due)"
  shows "(start \<le> now \<and> now < stop) \<and>
    (start \<le> t \<and> t < stop \<longrightarrow> (\<exists>due'. current_month_period t = (key, start, stop, due'))) \<and>
    (\<exists>key' stop' due'. current_month_period stop = (key', stop, stop', due'))"
proof (intro conjI)
  obtain y m where p: "period_of y m (dt_date now)"
    and eq: "\<And>y' m'. next_month y m = (y', m') \<Longrightarrow> current_month_period now =
        (month_key y m, midnight (fifth_business_day y m), midnight (fifth_business_day y' m'),
         fifth_business_day (d_year (dt_date now)) (d_month (dt_date now)))"
    using current_month_period_start [of now] by blast
  obtain y' m' where nx: "next_month y m = (y', m')" by fastforce
  from p have m: "1 \<le> m" "m \<le> 12" by (auto simp: period_of_def)
  note m' = next_month_props(1,2) [OF m nx]
  from eq [OF nx] assms have r: "key = month_key y m" "start = midnight (fifth_business_day y m)"
    "stop = midnight (fifth_business_day y' m')" by auto
  have within: "start \<le> t \<and> t < stop \<longleftrightarrow> period_of y m (dt_date t)" for t
    using m m' nx by (auto simp: r period_of_def midnight_le less_midnight fifth_business_day_sel)
  from p within show "start \<le> now" "now < stop" by blast+
  show "start \<le> t \<and> t < stop \<longrightarrow> (\<exists>due'. current_month_period t = (key, start, stop, due'))"
  proof
    assume "start \<le> t \<and> t < stop"
    then have "period_of y m (dt_date t)" using within by blast
    then show "\<exists>due'. current_month_period t = (key, start, stop, due')"
      by (metis current_month_period_start nx period_of_unique r)
  qed
  obtain z n where q: "period_of z n (dt_date stop)"
    and eq2: "\<And>y' m'. next_month z n = (y', m') \<Longrightarrow> current_month_period stop =
        (month_key z n, midnight (fifth_business_day z n), midnight (fifth_business_day y' m'),
         fifth_business_day (d_year (dt_date stop)) (d_month (dt_date stop)))"
    using current_month_period_start [of stop] by blast
  obtain z' n' where nx2: "next_month y' m' = (z', n')" by fastforce
  have "dt_date stop = fifth_business_day y' m'" using m' by (simp add: r fifth_business_day_sel)
  moreover have "fifth_business_day y' m' < fifth_business_day z' n'"
    using next_month_props [OF m' nx2] m' by (intro fifth_business_day_less) auto
  ultimately have "period_of y' m' (dt_date stop)" using nx2 m' by (simp add: period_of_def)
  with q have "z = y'" "n = m'" using period_of_unique by blast+
  then show "\<exists>key' stop' due'. current_month_period stop = (key', stop, stop', due')"
    using eq2 nx2 by (auto simp: r)
qed

lemma current_month_period_tiles_witness:
  "let now = midnight (Date 2026 5 21) in
   \<exists>key start stop due. current_month_period now = (key, start, stop, due) \<and> start \<le> now \<and> now < stop"
proof -
  obtain key start stop due where
    eq: "current_month_period (midnight (Date 2026 5 21)) = (key, start, stop, due)"
    by (metis prod_cases4)
  from current_month_period_tiles [OF eq, of 0] eq show ?thesis by (auto simp: Let_def)
qed

section \<open>Month arithmetic\<close>

definition month_index :: "date \<Rightarrow> int" where
  "month_index d = d_year d * 12 + (d_month d - 1)"

lemma add_months_add:
  "add_months y m a = (y', m') \<Longrightarrow> add_months y' m' b = add_months y m (a + b)"
  by (auto simp: add_months_def Let_def algebra_simps)

lemma next_month_add_months: "1 \<le> m \<Longrightarrow> m \<le> 12 \<Longrightarrow> next_month y m = add_months y m 1"
  by (auto simp: next_month_def add_months_def Let_def elim!: month_cases)

lemma previous_month_add_months: "1 \<le> m \<Longrightarrow> m \<le> 12 \<Longrightarrow> previous_month y m = add_months y m (- 1)"
proof -
  assume "1 \<le> m" "m \<le> 12"
  moreover have "(y * 12 - 1) mod 12 = 11" "(y * 12 - 1) div 12 = y - 1" by presburger+
  ultimately show ?thesis
    by (auto simp: previous_month_def add_months_def Let_def elim!: month_cases)
qed

lemma month_index_le_iff:
  assumes "valid_date a" "valid_date b"
  shows "month_index a < month_index b \<Longrightarrow> a < b" and "a \<le> b \<Longrightarrow> month_index a \<le> month_index b"
  using assms by (auto simp: month_index_def valid_date_def less_date_def less_eq_date_def)

lemma month_index_eq_iff:
  assumes "valid_date a" "valid_date b"
  shows "month_index a = month_index b \<longleftrightarrow> d_year a = d_year b \<and> d_month a = d_month b"
proof -
  have "1 \<le> d_month a" "d_month a \<le> 12" "1 \<le> d_month b" "d_month b \<le> 12"
    using assms by (simp_all add: valid_date_def)
  then show ?thesis unfolding month_index_def by presburger
qed

lemma add_months_to_date_sel:
  "d_year (add_months_to_date d k) = (month_index d + k) div 12"
  "d_month (add_months_to_date d k) = (month_index d + k) mod 12 + 1"
  "d_day (add_months_to_date d k) =
     min (d_day d) (days_in_month (d_year (add_months_to_date d k)) (d_month (add_months_to_date d k)))"
  by (simp_all add: add_months_to_date_def add_months_def month_index_def Let_def)

lemma month_index_add_months_to_date [simp]:
  "month_index (add_months_to_date d k) = month_index d + k"
  unfolding month_index_def [of "add_months_to_date d k"] add_months_to_date_sel by simp

lemma valid_add_months_to_date [simp]: "valid_date d \<Longrightarrow> valid_date (add_months_to_date d k)"
  using days_in_month_bounds by (auto simp: valid_date_def add_months_to_date_sel) (metis order_trans one_le_numeral)

lemma add_months_to_date_0: "valid_date d \<Longrightarrow> add_months_to_date d 0 = d"
  by (rule date.expand)
    (auto simp: add_months_to_date_sel month_index_def valid_date_def div_pos_pos_trivial)

lemma add_months_to_date_less:
  "valid_date d \<Longrightarrow> j < k \<Longrightarrow> add_months_to_date d j < add_months_to_date d k"
  by (rule month_index_le_iff) simp_all

lemma add_months_to_date_mono:
  assumes "valid_date a" "valid_date b" "a \<le> b"
  shows "add_months_to_date a k \<le> add_months_to_date b k"
proof (cases "month_index a < month_index b")
  case True
  then have "add_months_to_date a k < add_months_to_date b k"
    using assms(1,2) by (intro month_index_le_iff) simp_all
  then show ?thesis by simp
next
  case False
  with assms month_index_le_iff(2) have eq: "month_index a = month_index b" by fastforce
  then have "d_year a = d_year b" "d_month a = d_month b"
    using assms by (simp_all add: month_index_eq_iff)
  with assms(3) have "d_day a \<le> d_day b" by (auto simp: less_eq_date_def)
  with eq show ?thesis
    by (auto simp: less_eq_date_def add_months_to_date_sel)
qed

text \<open>Month arithmetic on dates. Adding \<open>k\<close> months to a calendar date gives a calendar date that
  is exactly \<open>k\<close> months away and keeps the day of the month unless the target month is too short
  (then its last day); it is the identity for \<open>k = 0\<close>, monotone in the date and strictly
  monotone in \<open>k\<close>.\<close>

theorem add_months_to_date_order:
  assumes "valid_date d" "valid_date d2" "d \<le> d2" "j < k"
  shows "valid_date (add_months_to_date d k) \<and>
    month_index (add_months_to_date d k) = month_index d + k \<and>
    (d_day d \<le> 28 \<longrightarrow> d_day (add_months_to_date d k) = d_day d) \<and>
    (let r = add_months_to_date d k in
       d_day r = d_day d \<or> d_day r = days_in_month (d_year r) (d_month r)) \<and>
    add_months_to_date d 0 = d \<and>
    add_months_to_date d k \<le> add_months_to_date d2 k \<and>
    add_months_to_date d j < add_months_to_date d k"
proof -
  have "d_day d \<le> 28 \<Longrightarrow> d_day (add_months_to_date d k) = d_day d"
    using days_in_month_bounds unfolding add_months_to_date_sel(3) by (meson min.absorb1 order_trans)
  moreover have "d_day (add_months_to_date d k) = d_day d \<or> d_day (add_months_to_date d k) =
      days_in_month (d_year (add_months_to_date d k)) (d_month (add_months_to_date d k))"
    unfolding add_months_to_date_sel(3) by (simp add: min_def)
  ultimately show ?thesis
    using assms by (simp add: Let_def add_months_to_date_0 add_months_to_date_mono add_months_to_date_less)
qed

lemma add_months_to_date_order_witness:
  "add_months_to_date (Date 2026 1 31) 1 \<le> add_months_to_date (Date 2026 2 1) 1 \<and>
   add_months_to_date (Date 2026 1 31) 1 = Date 2026 2 28"
proof -
  have "valid_date (Date 2026 1 31)" "valid_date (Date 2026 2 1)" "Date 2026 1 31 \<le> Date 2026 2 1"
    by (simp_all add: valid_date_def days_in_month_def less_eq_date_def is_leap_def)
  from add_months_to_date_order [OF this, of 0 1] show ?thesis
    by (simp add: add_months_to_date_def add_months_def days_in_month_def is_leap_def)
qed

section \<open>Discounted prices\<close>

lemma round_half_even_error: "0 < k \<Longrightarrow> \<bar>2 * (round_half_even n k * k - n)\<bar> \<le> k"
proof -
  assume k: "0 < k"
  define q r where "q = n div k" and "r = n mod k"
  have n: "n = q * k + r" "0 \<le> r" "r < k" using k by (simp_all add: q_def r_def)
  have "round_half_even n k = q \<and> 2 * r \<le> k \<or> round_half_even n k = q + 1 \<and> 2 * r \<ge> k"
    by (auto simp: round_half_even_def Let_def q_def [symmetric] r_def [symmetric])
  then show ?thesis using n by (auto simp: algebra_simps)
qed

lemma round_half_even_mono: "0 < k \<Longrightarrow> m \<le> n \<Longrightarrow> round_half_even m k \<le> round_half_even n k"
proof -
  assume k: "0 < k" and mn: "m \<le> n"
  have q: "m div k \<le> n div k" using k mn by (simp add: zdiv_mono1)
  show ?thesis
  proof (cases "m div k = n div k")
    case True
    then have "m mod k \<le> n mod k" using mn by (metis add_le_cancel_left mult_div_mod_eq)
    with True show ?thesis by (auto simp: round_half_even_def Let_def)
  next
    case False
    with q have "m div k + 1 \<le> n div k" by simp
    then show ?thesis by (auto simp: round_half_even_def Let_def)
  qed
qed

lemma round_half_even_exact: "0 < k \<Longrightarrow> round_half_even (n * k) k = n"
  by (simp add: round_half_even_def Let_def)

lemma discount_percent_cases: "discount_percent p \<in> {0, 7, 15}"
  by (simp add: discount_percent_def Let_def)

lemma apply_discount_eq:
  "apply_discount price p = round_half_even (price * (100 - discount_percent p)) 100"
  using discount_percent_cases [of p]
  by (auto simp: apply_discount_def Let_def round_half_even_exact)

lemma apply_discount_mono_discount:
  assumes "0 \<le> price" "discount_percent p \<le> discount_percent q"
  shows "apply_discount price q \<le> apply_discount price p"
  unfolding apply_discount_eq using assms by (intro round_half_even_mono mult_left_mono) simp_all

lemma plan_monthly_charge_mono_discount:
  "0 \<le> price \<Longrightarrow> discount_percent p \<le> discount_percent q \<Longrightarrow>
   plan_monthly_charge_cents_after_discount price q \<le> plan_monthly_charge_cents_after_discount price p"
  by (simp add: plan_monthly_charge_cents_after_discount_def Let_def zdiv_mono1 apply_discount_mono_discount)

lemma plan_monthly_charge_nonneg:
  assumes "0 \<le> price"
  shows "0 \<le> plan_monthly_charge_cents_after_discount price p"
proof -
  have "round_half_even 0 100 \<le> apply_discount price p"
    unfolding apply_discount_eq using assms discount_percent_cases [of p]
    by (intro round_half_even_mono) auto
  then show ?thesis
    by (simp add: plan_monthly_charge_cents_after_discount_def Let_def round_half_even_def)
qed

text \<open>The monthly charge of a plan. For a non-negative price it is a whole number of currency units
  (a multiple of 100 cents), it is never negative or above the list price, it differs from the exact
  discounted price by less than one unit and a half cent, and a plan with a larger discount (a
  longer billing period) is never dearer per month.\<close>

theorem plan_monthly_charge_bounds:
  assumes "0 \<le> price" "discount_percent p \<le> discount_percent q"
  shows "let c = plan_monthly_charge_cents_after_discount price p in
    c mod 100 = 0 \<and> 0 \<le> c \<and> c \<le> price \<and>
    price * (100 - discount_percent p) - 9950 \<le> 100 * c \<and>
    100 * c \<le> price * (100 - discount_percent p) + 50 \<and>
    plan_monthly_charge_cents_after_discount price q \<le> c"
proof -
  define a where "a = apply_discount price p"
  define x where "x = price * (100 - discount_percent p)"
  have "\<bar>2 * (a * 100 - x)\<bar> \<le> 100"
    unfolding a_def x_def apply_discount_eq by (rule round_half_even_error) simp
  then have ax: "a * 100 - x \<le> 50 \<and> x - a * 100 \<le> 50" by arith
  have "a \<le> round_half_even (price * 100) 100"
    unfolding a_def apply_discount_eq using assms(1) discount_percent_cases [of p]
    by (intro round_half_even_mono mult_left_mono) auto
  then have a_le: "a \<le> price" by (simp add: round_half_even_exact)
  obtain c where c: "c = plan_monthly_charge_cents_after_discount price p" by blast
  have "c = a - a mod 100"
    by (simp add: c plan_monthly_charge_cents_after_discount_def Let_def a_def minus_mod_eq_div_mult)
  then have ca: "c \<le> a" "a \<le> c + 99" by simp_all
  have "c mod 100 = 0" by (simp add: c plan_monthly_charge_cents_after_discount_def Let_def)
  moreover have "0 \<le> c" unfolding c using assms(1) by (rule plan_monthly_charge_nonneg)
  moreover have "plan_monthly_charge_cents_after_discount price q \<le> c"
    unfolding c using assms by (rule plan_monthly_charge_mono_discount)
  ultimately show ?thesis
    unfolding Let_def c [symmetric] x_def [symmetric] using ax a_le ca by linarith
qed

lemma plan_monthly_charge_bounds_witness:
  "plan_monthly_charge_cents_after_discount 890000 ''quarterly'' = 827700 \<and>
   plan_monthly_charge_cents_after_discount 890000 ''yearly'' \<le> 827700"
proof -
  have d: "discount_percent ''quarterly'' = 7" "discount_percent ''yearly'' = 15"
    by (simp_all add: discount_percent_def norm_period_def py_strip_def py_lstrip_def py_space_def
        py_lower_def py_lower_char_def)
  have c: "plan_monthly_charge_cents_after_discount 890000 ''quarterly'' = 827700"
    by (simp add: plan_monthly_charge_cents_after_discount_def apply_discount_def round_half_even_def d)
  have "discount_percent ''quarterly'' \<le> discount_percent ''yearly''" by (simp add: d)
  from plan_monthly_charge_bounds [OF _ this, of 890000] show ?thesis by (simp add: c Let_def)
qed

end
