(* ===== verification/Table_Spec.thy ===== *)
theory Table_Spec
  imports Py_Prelude
begin

text \<open>
  The contract of a database table with a unique key, as the repositories use it: a lookup by
  key, and an insert-or-update of a whole row. The clients rely on what a lookup
  returns after an upsert and on the table keeping its unique key; the facts about seeding a list
  of rows are proved once here. The catalog and the subscription table interpret the locale.
\<close>

section \<open>Keyed tables\<close>

locale keyed_table =
  fixes key :: "'r \<Rightarrow> 'k"
    and lookup :: "'t \<Rightarrow> 'k \<Rightarrow> 'r option"
    and upsert :: "'r \<Rightarrow> 't \<Rightarrow> 't"
    and inv :: "'t \<Rightarrow> bool"
  assumes lookup_upsert: "inv t \<Longrightarrow> lookup (upsert r t) = (lookup t)(key r \<mapsto> r)"
    and inv_upsert: "inv t \<Longrightarrow> inv (upsert r t)"
begin

lemma inv_fold: "inv t \<Longrightarrow> inv (fold upsert rs t)"
  by (induction rs arbitrary: t) (auto simp: inv_upsert)

lemma lookup_fold:
  "inv t \<Longrightarrow> lookup (fold upsert rs t) = lookup t ++ map_of (map (\<lambda>r. (key r, r)) (rev rs))"
proof (induction rs arbitrary: t)
  case Nil
  then show ?case by simp
next
  case (Cons r rs)
  then have "lookup (fold upsert rs (upsert r t)) =
      (lookup t)(key r \<mapsto> r) ++ map_of (map (\<lambda>r. (key r, r)) (rev rs))"
    using Cons.IH [of "upsert r t"] by (simp only: inv_upsert lookup_upsert)
  then show ?case by (auto simp: map_add_def fun_eq_iff split: option.splits)
qed

lemma lookup_fold_other:
  assumes "inv t" "k \<notin> key ` set rs"
  shows "lookup (fold upsert rs t) k = lookup t k"
proof -
  have "map_of (map (\<lambda>r. (key r, r)) (rev rs)) k = None"
    using assms(2) by (auto simp: map_of_eq_None_iff)
  then show ?thesis using assms(1) by (simp add: lookup_fold map_add_def)
qed

lemma lookup_fold_member:
  assumes "inv t" "distinct (map key rs)" "r \<in> set rs"
  shows "lookup (fold upsert rs t) (key r) = Some r"
proof -
  have "distinct (map fst (map (\<lambda>r. (key r, r)) (rev rs)))"
    using assms(2) by (simp add: rev_map [symmetric] comp_def)
  then have "map_of (map (\<lambda>r. (key r, r)) (rev rs)) (key r) = Some r"
    using assms(3) by (intro map_of_is_SomeI) auto
  then show ?thesis using assms(1) by (simp add: lookup_fold map_add_def)
qed

lemma lookup_upsert_other: "inv t \<Longrightarrow> k \<noteq> key r \<Longrightarrow> lookup (upsert r t) k = lookup t k"
  by (simp add: lookup_upsert)

lemma lookup_upsert_same: "inv t \<Longrightarrow> lookup (upsert r t) (key r) = Some r"
  by (simp add: lookup_upsert)

end

section \<open>Tables as lists of rows\<close>

definition row_map :: "('r \<Rightarrow> 'k) \<Rightarrow> 'r list \<Rightarrow> 'k \<Rightarrow> 'r option" where
  "row_map key tbl k = find (\<lambda>r. key r = k) tbl"

definition key_ok :: "('r \<Rightarrow> 'k) \<Rightarrow> 'r list \<Rightarrow> bool" where
  "key_ok key tbl \<longleftrightarrow> distinct (map key tbl)"

text \<open>Insert a row, or overwrite the row that has its key.\<close>

definition upsert_row :: "('r \<Rightarrow> 'k) \<Rightarrow> 'r \<Rightarrow> 'r list \<Rightarrow> 'r list" where
  "upsert_row key row tbl =
     (case find (\<lambda>r. key r = key row) tbl of
        None \<Rightarrow> tbl @ [row]
      | Some _ \<Rightarrow> update_where (\<lambda>r. key r = key row) (\<lambda>_. row) tbl)"

lemma find_append: "find P (xs @ ys) = (case find P xs of None \<Rightarrow> find P ys | Some x \<Rightarrow> Some x)"
  by (induction xs) auto

lemma find_replace_row:
  "find (\<lambda>r. key r = k) (update_where (\<lambda>r. key r = key row) (\<lambda>_. row) tbl) =
     (if k = key row then map_option (\<lambda>_. row) (find (\<lambda>r. key r = k) tbl)
      else find (\<lambda>r. key r = k) tbl)"
  by (induction tbl) (auto simp: update_where_def)

lemma map_replace_row: "map key (update_where (\<lambda>r. key r = key row) (\<lambda>_. row) tbl) = map key tbl"
  by (simp add: update_where_def)

lemma row_map_upsert_row: "row_map key (upsert_row key row tbl) = (row_map key tbl)(key row \<mapsto> row)"
  by (auto simp: row_map_def upsert_row_def find_append find_replace_row fun_eq_iff
      split: option.splits)

lemma map_key_upsert_row:
  "map key (upsert_row key row tbl) =
     (if key row \<in> key ` set tbl then map key tbl else map key tbl @ [key row])"
proof (cases "find (\<lambda>r. key r = key row) tbl")
  case None
  then have "key row \<notin> key ` set tbl" by (auto simp: find_None_iff_all)
  with None show ?thesis by (simp add: upsert_row_def)
next
  case (Some r)
  then have "key row \<in> key ` set tbl" using find_Some_set [OF Some] by (metis imageI)
  with Some show ?thesis by (simp add: upsert_row_def map_replace_row)
qed

lemma key_ok_upsert_row: "key_ok key tbl \<Longrightarrow> key_ok key (upsert_row key row tbl)"
  by (auto simp: key_ok_def map_key_upsert_row)

interpretation list_table: keyed_table key "row_map key" "upsert_row key" "key_ok key"
  for key :: "'r \<Rightarrow> 'k"
  by unfold_locales (simp_all add: row_map_upsert_row key_ok_upsert_row)

lemma row_map_Some: "row_map key tbl k = Some r \<Longrightarrow> r \<in> set tbl \<and> key r = k"
  unfolding row_map_def by (drule find_Some_set) simp

lemma row_map_member: "key_ok key tbl \<Longrightarrow> r \<in> set tbl \<Longrightarrow> row_map key tbl (key r) = Some r"
proof (induction tbl)
  case Nil
  then show ?case by simp
next
  case (Cons a tbl)
  then show ?case by (auto simp: row_map_def key_ok_def)
qed

lemma row_map_None: "row_map key tbl k = None \<longleftrightarrow> k \<notin> key ` set tbl"
  by (auto simp: row_map_def find_None_iff_all)

lemma upsert_row_same: "key_ok key tbl \<Longrightarrow> row \<in> set tbl \<Longrightarrow> upsert_row key row tbl = tbl"
  using row_map_member [of key tbl row]
  by (auto simp: upsert_row_def row_map_def update_where_def key_ok_def
      dest: distinct_map_inj split: option.splits intro!: map_idI)

text \<open>Changing a non-key column keeps the unique key.\<close>

lemma key_ok_update_where: "(\<And>r. key (f r) = key r) \<Longrightarrow> key_ok key (update_where P f tbl) = key_ok key tbl"
  by (simp add: key_ok_def map_update_where)

section \<open>Logs that accept a key once\<close>

text \<open>
  An insert guarded by a lookup of the unique key: the first row with a key is kept for good, and the
  caller learns whether its row was the first. Deduplication of payment events and of outbox events
  rests on this contract.
\<close>

locale once_log =
  fixes key :: "'r \<Rightarrow> 'k"
    and lookup :: "'t \<Rightarrow> 'k \<Rightarrow> 'r option"
    and record_once :: "'r \<Rightarrow> 't \<Rightarrow> ('r \<times> bool) \<times> 't"
  assumes record_new: "lookup t (key r) = None \<Longrightarrow>
      fst (record_once r t) = (r, True) \<and> lookup (snd (record_once r t)) = (lookup t)(key r \<mapsto> r)"
    and record_old: "lookup t (key r) = Some old \<Longrightarrow> record_once r t = ((old, False), t)"
begin

definition record_all :: "'r list \<Rightarrow> 't \<Rightarrow> 't" where
  "record_all rs t = fold (\<lambda>r t. snd (record_once r t)) rs t"

lemma record_keeps: "lookup t k = Some r \<Longrightarrow> lookup (snd (record_once r' t)) k = Some r"
  by (cases "lookup t (key r')") (auto simp: record_new record_old)

lemma record_all_keeps: "lookup t k = Some r \<Longrightarrow> lookup (record_all rs t) k = Some r"
  by (induction rs arbitrary: t) (auto simp: record_all_def record_keeps)

lemma record_stored: "lookup (snd (record_once r t)) (key r) \<noteq> None"
  by (cases "lookup t (key r)") (auto simp: record_new record_old)

lemma record_is_new: "snd (fst (record_once r t)) \<longleftrightarrow> lookup t (key r) = None"
  by (cases "lookup t (key r)") (auto simp: record_new record_old)

text \<open>Once a key has been recorded, no later record of it is new, whatever came in between.\<close>

lemma record_again:
  assumes "key r' = key r"
  shows "\<not> snd (fst (record_once r' (record_all rs (snd (record_once r t)))))"
proof -
  obtain x where "lookup (snd (record_once r t)) (key r) = Some x" using record_stored by blast
  then have "lookup (record_all rs (snd (record_once r t))) (key r) = Some x" by (rule record_all_keeps)
  then show ?thesis using assms by (simp add: record_is_new)
qed

lemma record_again_same: "snd (record_once r (snd (record_once r t))) = snd (record_once r t)"
proof -
  obtain x where "lookup (snd (record_once r t)) (key r) = Some x" using record_stored by blast
  then show ?thesis by (simp add: record_old)
qed

end

definition insert_once :: "('r \<Rightarrow> 'k) \<Rightarrow> 'r \<Rightarrow> 'r list \<Rightarrow> ('r \<times> bool) \<times> 'r list" where
  "insert_once key row tbl =
     (case row_map key tbl (key row) of
        Some old \<Rightarrow> ((old, False), tbl)
      | None \<Rightarrow> ((row, True), tbl @ [row]))"

interpretation once_table: once_log key "row_map key" "insert_once key"
  for key :: "'r \<Rightarrow> 'k"
  by unfold_locales (auto simp: insert_once_def row_map_def find_append fun_eq_iff split: option.splits)

lemma key_ok_insert_once: "key_ok key tbl \<Longrightarrow> key_ok key (snd (insert_once key row tbl))"
  by (auto simp: insert_once_def key_ok_def row_map_None split: option.splits)

section \<open>Updates that report a row count\<close>

text \<open>\<open>UPDATE \<dots> SET f WHERE p\<close>, with \<open>rowcount > 0\<close>.\<close>

definition sql_update :: "('r \<Rightarrow> bool) \<Rightarrow> ('r \<Rightarrow> 'r) \<Rightarrow> 'r list \<Rightarrow> bool \<times> 'r list" where
  "sql_update p f tbl = (list_ex p tbl, update_where p f tbl)"

lemma sql_update_key: "(\<And>r. key (f r) = key r) \<Longrightarrow> map key (snd (sql_update p f tbl)) = map key tbl"
  by (simp add: sql_update_def map_update_where)

lemma sql_update_twice:
  assumes "\<And>r. p r \<Longrightarrow> \<not> p (f r)"
  shows "sql_update p g (snd (sql_update p f tbl)) = (False, snd (sql_update p f tbl))"
  using assms by (auto simp: sql_update_def update_where_def list_ex_iff)

lemma sql_update_none: "\<not> fst (sql_update p f tbl) \<Longrightarrow> snd (sql_update p f tbl) = tbl"
  by (auto simp: sql_update_def update_where_def list_ex_iff intro: map_idI)

section \<open>Constraints under insert, update and delete\<close>

lemma set_upsert_row: "r \<in> set (upsert_row key row tbl) \<Longrightarrow> r = row \<or> r \<in> set tbl"
  by (auto simp: upsert_row_def update_where_def split: option.splits if_splits)

lemma image_upsert_row: "f ` set (upsert_row key row tbl) \<subseteq> insert (f row) (f ` set tbl)"
  by (auto dest: set_upsert_row)

lemma key_ok_filter: "key_ok key tbl \<Longrightarrow> key_ok key (filter p tbl)"
  by (simp add: key_ok_def distinct_map_filter)

lemma key_ok_append1: "key_ok key tbl \<Longrightarrow> row_map key tbl (key row) = None \<Longrightarrow> key_ok key (tbl @ [row])"
  by (auto simp: key_ok_def row_map_None)

lemma map_upsert_row_same:
  assumes "row_map key tbl (key row) = Some old" "\<And>x. key x = key row \<Longrightarrow> x \<in> set tbl \<Longrightarrow> f x = f row"
  shows "map f (upsert_row key row tbl) = map f tbl"
  using assms by (auto simp: upsert_row_def row_map_def update_where_def)

lemma key_ok_upsert_other_key:
  assumes "key_ok key tbl" "key_ok k tbl" "row_map key tbl (key row) = Some old"
    and "k row = k old \<or> row_map k tbl (k row) = None"
  shows "key_ok k (upsert_row key row tbl)"
proof -
  have old: "old \<in> set tbl" "key old = key row" using row_map_Some [OF assms(3)] by auto
  let ?f = "\<lambda>x. if key x = key row then row else x"
  have eq: "upsert_row key row tbl = map ?f tbl"
    using assms(3) by (simp add: upsert_row_def row_map_def update_where_def)
  have "inj_on k (?f ` set tbl)"
  proof (rule inj_onI)
    fix a b
    assume a: "a \<in> ?f ` set tbl" and b: "b \<in> ?f ` set tbl" and k: "k a = k b"
    have new: "k x \<noteq> k row" if "x \<in> set tbl" "key x \<noteq> key row" for x
    proof
      assume "k x = k row"
      with assms(4) that have "k x = k old" by (metis imageI row_map_None)
      then have "x = old" using assms(2) that old by (auto simp: key_ok_def dest: distinct_map_inj)
      with that old show False by simp
    qed
    have a': "a = row \<or> (a \<in> set tbl \<and> key a \<noteq> key row)" and b': "b = row \<or> (b \<in> set tbl \<and> key b \<noteq> key row)"
      using a b by auto
    show "a = b"
    proof (cases "a = row \<or> b = row")
      case True
      then show ?thesis using a' b' k new [of a] new [of b] by metis
    next
      case False
      then show ?thesis using a' b' k assms(2) by (auto simp: key_ok_def dest: distinct_map_inj)
    qed
  qed
  moreover have "inj_on ?f (set tbl)"
  proof (rule inj_onI)
    fix x y assume x: "x \<in> set tbl" and y: "y \<in> set tbl" and e: "?f x = ?f y"
    have "key x = key y" using e by (auto split: if_splits)
    then show "x = y" using x y assms(1) by (auto simp: key_ok_def dest: distinct_map_inj)
  qed
  ultimately have "inj_on (k \<circ> ?f) (set tbl)" by (simp add: comp_inj_on)
  moreover have "distinct tbl" using assms(1) by (simp add: key_ok_def distinct_map)
  ultimately show ?thesis by (simp add: key_ok_def eq distinct_map)
qed

lemma row_map_upsert_other:
  "row_map key (upsert_row key row tbl) k = (if k = key row then Some row else row_map key tbl k)"
  by (simp add: row_map_upsert_row)

end
