(* ===== verification/Billing_Catalog.thy ===== *)
theory Billing_Catalog
  imports Complex_Main Billing_Calc Table_Spec
    "HOL-Library.Char_ord" "HOL-Library.List_Lexorder" "HOL-Library.Product_Lexorder"
begin

text \<open>
  The billing catalog: \<open>backend/apps/billing/domain.py\<close>, \<open>catalog.py\<close>, the row class
  \<open>BillingCatalogEntryORM\<close> of \<open>models.py\<close> and the catalog methods of \<open>repositories.py\<close>.

  A catalog row keeps the columns the code reads (the surrogate id and the time stamps are left
  out). The JSON columns are association lists: \<open>included\<close> maps names to integers, as every row
  of the seed does, and \<open>metadata\<close> maps names to JSON scalars. Display texts are written without
  their accents. \<open>billing_error\<close> is the exception type of the billing theories.

  The lemmas show that seeding keeps the unique key of the table, installs every seed row,
  leaves the other rows alone and is idempotent, that the plan map always knows the free plan
  after it, and what the seeded plans promise.
\<close>

section \<open>Exceptions of the billing code\<close>

datatype billing_error =
    Key_error string
  | Value_error string
  | Permission_error string
  | Integrity_error string
  | Database_error string
  | Http_error int string

section \<open>Rows and plans\<close>

datatype jval = JNull | JBool bool | JInt int | JStr string

record catalog_row =
  cr_entry_type :: string
  cr_code :: string
  cr_name :: string
  cr_currency :: string
  cr_price_cents :: int
  cr_included :: "(string \<times> int) list"
  cr_metadata :: "(string \<times> jval) list"
  cr_is_active :: bool

record billing_plan =
  bp_code :: string
  bp_name :: string
  bp_price_cents :: int
  bp_included_kbs :: int
  bp_included_storage_gb :: int
  bp_included_questions_monthly :: int
  bp_max_users :: "int option"
  bp_trial_days :: int
  bp_included_training_chars :: int

record billing_addon =
  ba_code :: string
  ba_name :: string
  ba_price_cents :: int
  ba_metadata :: "string \<Rightarrow> jval option"

definition default_currency :: string where
  "default_currency = ''HUF''"

abbreviation seed_row ::
  "string \<Rightarrow> string \<Rightarrow> string \<Rightarrow> int \<Rightarrow> (string \<times> int) list \<Rightarrow> (string \<times> jval) list \<Rightarrow> bool \<Rightarrow> catalog_row"
where
  "seed_row t c n p inc meta act \<equiv>
     \<lparr>cr_entry_type = t, cr_code = c, cr_name = n, cr_currency = default_currency,
      cr_price_cents = p, cr_included = inc, cr_metadata = meta, cr_is_active = act\<rparr>"

definition default_catalog_rows :: "catalog_row list" where
  "default_catalog_rows =
    [seed_row ''plan'' ''free'' ''Teszt'' 0
       [(''questions_monthly'', 3), (''trial_days'', 7)]
       [(''description'', JStr ''1 hetig ervenyes tesztidoszak''), (''kind'', JStr ''outbound_inquiries'')] True,
     seed_row ''plan'' ''starter'' ''Starter'' 890000
       [(''questions_monthly'', 40), (''trial_days'', 0)]
       [(''description'', JStr ''Alap megkereseskeret''), (''kind'', JStr ''outbound_inquiries'')] True,
     seed_row ''plan'' ''pro'' ''Pro'' 1890000
       [(''questions_monthly'', 150), (''trial_days'', 0)]
       [(''description'', JStr ''Nagyobb megkereseskeret''), (''kind'', JStr ''outbound_inquiries'')] True,
     seed_row ''plan'' ''growth'' ''Pro (legacy)'' 1890000
       [(''questions_monthly'', 150), (''trial_days'', 0)]
       [(''description'', JStr ''Legacy alias - replaced by pro''), (''kind'', JStr ''outbound_inquiries'')] False,
     seed_row ''plan'' ''business'' ''Giga'' 3490000
       [(''questions_monthly'', 400), (''trial_days'', 0)]
       [(''description'', JStr ''Nagyforgalom eseten''), (''kind'', JStr ''outbound_inquiries'')] True,
     seed_row ''addon'' ''question_pack_50'' ''50 extra SMS'' 590000
       [(''questions'', 50)] [(''carryover'', JBool True), (''kind'', JStr ''questions'')] True,
     seed_row ''addon'' ''question_pack_100'' ''100 extra SMS (legacy)'' 800000
       [(''questions'', 100)] [(''carryover'', JBool True), (''kind'', JStr ''questions'')] False,
     seed_row ''addon'' ''question_pack_500'' ''500 extra SMS (legacy)'' 500
       [(''questions'', 500)] [(''carryover'', JBool True), (''kind'', JStr ''questions'')] False,
     seed_row ''addon'' ''extra_kb'' ''Extra tudastar / ho'' 500
       [(''knowledge_bases'', 1)] [(''recurring'', JBool True), (''kind'', JStr ''knowledge_bases'')] False,
     seed_row ''addon'' ''extra_storage_gb'' ''Extra tarhely GB / ho'' 500
       [(''storage_gb'', 1)] [(''recurring'', JBool True), (''kind'', JStr ''storage_gb'')] False,
     seed_row ''addon'' ''training_initial_500k'' ''Elso betanitas'' 0
       [(''training_chars'', 0)] [(''recurring'', JBool False), (''kind'', JStr ''training_chars'')] False,
     seed_row ''addon'' ''training_extra_500k'' ''Tovabbi betanitas'' 0
       [(''training_chars'', 0)] [(''recurring'', JBool False), (''kind'', JStr ''training_chars'')] False,
     seed_row ''discount'' ''quarterly_7'' ''Negyedeves kedvezmeny'' 0
       [] [(''billing_period'', JStr ''quarterly''), (''discount_percent'', JInt 7)] True,
     seed_row ''discount'' ''yearly_15'' ''Eves kedvezmeny'' 0
       [] [(''billing_period'', JStr ''yearly''), (''discount_percent'', JInt 15)] True]"

text \<open>\<open>int(included.get(k) or 0)\<close>.\<close>

definition included_int :: "(string \<times> int) list \<Rightarrow> string \<Rightarrow> int" where
  "included_int inc k = (case map_of inc k of None \<Rightarrow> 0 | Some n \<Rightarrow> n)"

definition plan_of_row :: "catalog_row \<Rightarrow> billing_plan" where
  "plan_of_row row =
     (let inc = cr_included row in
      \<lparr>bp_code = cr_code row, bp_name = cr_name row, bp_price_cents = cr_price_cents row,
       bp_included_kbs = included_int inc ''knowledge_bases'',
       bp_included_storage_gb = included_int inc ''storage_gb'',
       bp_included_questions_monthly = included_int inc ''questions_monthly'',
       bp_max_users = map_of inc ''max_users'',
       bp_trial_days = included_int inc ''trial_days'',
       bp_included_training_chars = included_int inc ''training_chars''\<rparr>)"

type_synonym plan_map = "string \<Rightarrow> billing_plan option"
type_synonym addon_map = "string \<Rightarrow> billing_addon option"

definition plan_map_from_catalog :: "catalog_row list \<Rightarrow> plan_map" where
  "plan_map_from_catalog rows =
     foldl (\<lambda>result row. if cr_entry_type row \<noteq> ''plan'' then result
                         else result(cr_code row \<mapsto> plan_of_row row)) Map.empty rows"

definition addon_of_row :: "catalog_row \<Rightarrow> billing_addon" where
  "addon_of_row row =
     \<lparr>ba_code = cr_code row, ba_name = cr_name row, ba_price_cents = cr_price_cents row,
      ba_metadata = map_of (map (\<lambda>(k, n). (k, JInt n)) (cr_included row)) ++ map_of (cr_metadata row)\<rparr>"

definition addon_map_from_catalog :: "catalog_row list \<Rightarrow> addon_map" where
  "addon_map_from_catalog rows =
     foldl (\<lambda>result row. if cr_entry_type row \<noteq> ''addon'' then result
                         else result(cr_code row \<mapsto> addon_of_row row)) Map.empty rows"

text \<open>\<open>calculations.money\<close>: the float nearest to this number.\<close>

definition money :: "int \<Rightarrow> rat" where
  "money cents = of_int cents / 100"

record catalog_entry_response =
  ce_entry_type :: string
  ce_code :: string
  ce_name :: string
  ce_currency :: string
  ce_price_cents :: int
  ce_price :: rat
  ce_included :: "(string \<times> int) list"
  ce_metadata :: "(string \<times> jval) list"

definition catalog_response_from_rows :: "catalog_row list \<Rightarrow> catalog_entry_response list" where
  "catalog_response_from_rows rows =
     map (\<lambda>row. \<lparr>ce_entry_type = cr_entry_type row, ce_code = cr_code row, ce_name = cr_name row,
                 ce_currency = cr_currency row, ce_price_cents = cr_price_cents row,
                 ce_price = money (cr_price_cents row), ce_included = cr_included row,
                 ce_metadata = cr_metadata row\<rparr>) rows"

section \<open>The catalog table\<close>

text \<open>The unique key \<open>uq_billing_catalog_entry_type_code\<close>.\<close>

definition cr_key :: "catalog_row \<Rightarrow> string \<times> string" where
  "cr_key row = (cr_entry_type row, cr_code row)"

text \<open>One turn of the loop of \<open>BillingRepository.seed_catalog\<close>.\<close>

definition seed_catalog_row :: "catalog_row \<Rightarrow> catalog_row list \<Rightarrow> catalog_row list" where
  "seed_catalog_row row tbl =
     (case find (\<lambda>r. cr_entry_type r = cr_entry_type row \<and> cr_code r = cr_code row) tbl of
        None \<Rightarrow> tbl @ [row]
      | Some _ \<Rightarrow>
          update_where (\<lambda>r. cr_entry_type r = cr_entry_type row \<and> cr_code r = cr_code row)
            (\<lambda>r. r\<lparr>cr_name := cr_name row, cr_currency := cr_currency row,
                  cr_price_cents := cr_price_cents row, cr_included := cr_included row,
                  cr_metadata := cr_metadata row, cr_is_active := cr_is_active row\<rparr>) tbl)"

definition seed_catalog :: "catalog_row list \<Rightarrow> catalog_row list \<Rightarrow> catalog_row list" where
  "seed_catalog rows tbl = fold seed_catalog_row rows tbl"

text \<open>\<open>BillingRepository.list_catalog\<close>: active rows by type and price.\<close>

definition list_catalog :: "catalog_row list \<Rightarrow> catalog_row list" where
  "list_catalog tbl =
     sort_key (\<lambda>r. (cr_entry_type r, cr_price_cents r)) (filter cr_is_active tbl)"

definition catalog_ok :: "catalog_row list \<Rightarrow> bool" where
  "catalog_ok tbl \<longleftrightarrow> key_ok cr_key tbl"

text \<open>\<open>plans.get(code) or plans["free"]\<close>.\<close>

definition plan_or_free :: "plan_map \<Rightarrow> string \<Rightarrow> billing_error + billing_plan" where
  "plan_or_free plans code =
     (case plans code of Some p \<Rightarrow> Inr p
      | None \<Rightarrow> (case plans ''free'' of Some p \<Rightarrow> Inr p | None \<Rightarrow> Inl (Key_error ''free'')))"

section \<open>Seeding\<close>

lemma seed_catalog_row_eq: "seed_catalog_row row tbl = upsert_row cr_key row tbl"
proof -
  have "(\<lambda>r. cr_entry_type r = cr_entry_type row \<and> cr_code r = cr_code row) =
      (\<lambda>r. cr_key r = cr_key row)"
    by (simp add: cr_key_def fun_eq_iff)
  moreover have "update_where (\<lambda>r. cr_key r = cr_key row)
      (\<lambda>r. r\<lparr>cr_name := cr_name row, cr_currency := cr_currency row,
          cr_price_cents := cr_price_cents row, cr_included := cr_included row,
          cr_metadata := cr_metadata row, cr_is_active := cr_is_active row\<rparr>) tbl =
      update_where (\<lambda>r. cr_key r = cr_key row) (\<lambda>_. row) tbl"
    by (auto simp: update_where_def cr_key_def)
  ultimately show ?thesis
    unfolding seed_catalog_row_def upsert_row_def by (simp cong: option.case_cong)
qed

interpretation catalog_table: keyed_table cr_key "row_map cr_key" seed_catalog_row catalog_ok
  by unfold_locales (simp_all add: seed_catalog_row_eq row_map_upsert_row catalog_ok_def key_ok_upsert_row)

lemma seed_catalog_row_same: "catalog_ok tbl \<Longrightarrow> row \<in> set tbl \<Longrightarrow> seed_catalog_row row tbl = tbl"
  by (simp add: seed_catalog_row_eq catalog_ok_def upsert_row_same)

lemma seed_catalog_same:
  "catalog_ok tbl \<Longrightarrow> set rows \<subseteq> set tbl \<Longrightarrow> seed_catalog rows tbl = tbl"
  by (induction rows) (simp_all add: seed_catalog_def seed_catalog_row_same)

lemma seed_catalog_members:
  assumes "catalog_ok tbl" "distinct (map cr_key rows)"
  shows "set rows \<subseteq> set (seed_catalog rows tbl)"
proof
  fix r assume "r \<in> set rows"
  with assms catalog_table.lookup_fold_member
  have "row_map cr_key (seed_catalog rows tbl) (cr_key r) = Some r" by (simp add: seed_catalog_def)
  then show "r \<in> set (seed_catalog rows tbl)" by (auto dest: row_map_Some)
qed

lemma distinct_default_keys: "distinct (map cr_key default_catalog_rows)"
  by (simp add: default_catalog_rows_def cr_key_def)

section \<open>Plans of a catalog\<close>

lemma plan_map_foldl:
  assumes "distinct (map cr_key rows)"
  shows "foldl (\<lambda>result row. if cr_entry_type row \<noteq> ''plan'' then result
                else result(cr_code row \<mapsto> plan_of_row row)) m rows code =
    (case find (\<lambda>r. cr_key r = (''plan'', code)) rows of
       None \<Rightarrow> m code | Some r \<Rightarrow> Some (plan_of_row r))"
  using assms
proof (induction rows arbitrary: m)
  case Nil
  then show ?case by simp
next
  case (Cons a rows)
  show ?case
  proof (cases "cr_key a = (''plan'', code)")
    case True
    with Cons.prems have "find (\<lambda>r. cr_key r = (''plan'', code)) rows = None"
      by (simp add: find_None_iff_all) (metis image_eqI)
    with True Cons show ?thesis by (simp add: cr_key_def)
  next
    case False
    then have "\<not> (cr_entry_type a = ''plan'' \<and> cr_code a = code)" by (simp add: cr_key_def)
    with Cons False show ?thesis by (auto simp: cr_key_def split: option.splits)
  qed
qed

lemma set_list_catalog: "set (list_catalog tbl) = {r \<in> set tbl. cr_is_active r}"
  by (auto simp: list_catalog_def)

lemma distinct_list_catalog:
  assumes "catalog_ok tbl"
  shows "distinct (map cr_key (list_catalog tbl))"
proof -
  have "inj_on cr_key (set tbl)" "distinct tbl"
    using assms by (auto simp: catalog_ok_def key_ok_def distinct_map)
  then show ?thesis
    by (auto simp: distinct_map set_list_catalog inj_on_def) (simp add: list_catalog_def)
qed

text \<open>The plan map knows exactly the active plan rows of the table.\<close>

lemma plan_map_list_catalog:
  assumes "catalog_ok tbl"
  shows "plan_map_from_catalog (list_catalog tbl) code =
    (case row_map cr_key tbl (''plan'', code) of
       None \<Rightarrow> None | Some r \<Rightarrow> if cr_is_active r then Some (plan_of_row r) else None)"
proof -
  let ?L = "list_catalog tbl"
  have *: "plan_map_from_catalog ?L code = map_option plan_of_row (row_map cr_key ?L (''plan'', code))"
    using plan_map_foldl [OF distinct_list_catalog [OF assms], of Map.empty code]
    by (simp add: plan_map_from_catalog_def row_map_def split: option.splits)
  show ?thesis
  proof (cases "row_map cr_key tbl (''plan'', code)")
    case None
    then have "row_map cr_key ?L (''plan'', code) = None"
      by (auto simp: row_map_None set_list_catalog)
    with * None show ?thesis by simp
  next
    case (Some r)
    then have r: "r \<in> set tbl" "cr_key r = (''plan'', code)" by (auto dest: row_map_Some)
    show ?thesis
    proof (cases "cr_is_active r")
      case True
      with r have "row_map cr_key ?L (cr_key r) = Some r"
        using distinct_list_catalog [OF assms]
        by (intro row_map_member) (simp_all add: key_ok_def set_list_catalog)
      with * r Some True show ?thesis by simp
    next
      case False
      have "row_map cr_key ?L (''plan'', code) = None"
      proof (rule ccontr)
        assume "row_map cr_key ?L (''plan'', code) \<noteq> None"
        then obtain q where "q \<in> set ?L" "cr_key q = (''plan'', code)" by (auto dest: row_map_Some)
        with r False assms show False
          by (auto simp: set_list_catalog catalog_ok_def key_ok_def dest: distinct_map_inj)
      qed
      with * Some False show ?thesis by simp
    qed
  qed
qed

definition default_plans :: plan_map where
  "default_plans = plan_map_from_catalog (list_catalog default_catalog_rows)"

text \<open>Seeding the catalog. On any table with unique (type, code) keys the seed keeps the keys
  unique, stores every seed row as it is written in the code, does not touch a row whose key is not
  in the seed, changes nothing when it runs again, and afterwards the plan map that the service
  reads contains the free plan with its seven trial days, so \<open>plans["free"]\<close> never raises.\<close>

theorem seed_catalog_correct:
  assumes "catalog_ok tbl"
  shows "let t = seed_catalog default_catalog_rows tbl in
    catalog_ok t \<and> set default_catalog_rows \<subseteq> set t \<and>
    (\<forall>k. k \<notin> cr_key ` set default_catalog_rows \<longrightarrow> row_map cr_key t k = row_map cr_key tbl k) \<and>
    seed_catalog default_catalog_rows t = t \<and>
    (\<exists>p. plan_map_from_catalog (list_catalog t) ''free'' = Some p \<and>
         bp_price_cents p = 0 \<and> bp_trial_days p = 7 \<and> bp_included_questions_monthly p = 3)"
proof -
  define t where "t = seed_catalog default_catalog_rows tbl"
  have ok: "catalog_ok t"
    unfolding t_def seed_catalog_def using assms by (rule catalog_table.inv_fold)
  have sub: "set default_catalog_rows \<subseteq> set t"
    unfolding t_def using assms distinct_default_keys by (rule seed_catalog_members)
  have other: "\<forall>k. k \<notin> cr_key ` set default_catalog_rows \<longrightarrow> row_map cr_key t k = row_map cr_key tbl k"
    unfolding t_def seed_catalog_def using assms by (simp add: catalog_table.lookup_fold_other)
  obtain r where r: "r \<in> set default_catalog_rows" "cr_key r = (''plan'', ''free'')" "cr_is_active r"
    "bp_price_cents (plan_of_row r) = 0" "bp_trial_days (plan_of_row r) = 7"
    "bp_included_questions_monthly (plan_of_row r) = 3"
    by (rule that [of "hd default_catalog_rows"])
      (simp_all add: default_catalog_rows_def cr_key_def plan_of_row_def included_int_def Let_def)
  with sub ok have "row_map cr_key t (''plan'', ''free'') = Some r"
    using row_map_member [of cr_key t r] by (auto simp: catalog_ok_def)
  with ok r have "\<exists>p. plan_map_from_catalog (list_catalog t) ''free'' = Some p \<and>
         bp_price_cents p = 0 \<and> bp_trial_days p = 7 \<and> bp_included_questions_monthly p = 3"
    by (simp add: plan_map_list_catalog)
  with ok sub other seed_catalog_same [OF ok sub] show ?thesis
    unfolding Let_def t_def [symmetric] by blast
qed

lemma seed_catalog_correct_witness:
  "set default_catalog_rows \<subseteq> set (seed_catalog default_catalog_rows [])"
proof -
  have "catalog_ok []" by (simp add: catalog_ok_def key_ok_def)
  from seed_catalog_correct [OF this] show ?thesis by (simp add: Let_def)
qed

end
