(* ===== verification/Billing_Models.thy ===== *)
theory Billing_Models
  imports Billing_Catalog
begin

text \<open>
  The row classes of \<open>backend/apps/billing/models.py\<close> as records. Nullable columns are options;
  the JSON columns \<open>lines\<close> and \<open>payload\<close> are association lists of JSON scalars. Surrogate ids that
  no code reads, and the \<open>created_at\<close> and \<open>updated_at\<close> columns that no code reads, are left out.
\<close>

type_synonym jdict = "(string \<times> jval) list"

record subscription =
  sub_tenant_id :: int
  sub_plan_code :: string
  sub_billing_period :: string
  sub_status :: string
  sub_trial_started_at :: "datetime option"
  sub_trial_ends_at :: "datetime option"
  sub_extra_kb_count :: int
  sub_extra_storage_gb :: int
  sub_carryover_addon_questions :: int
  sub_carryover_training_chars :: int
  sub_scheduled_plan_code :: "string option"
  sub_scheduled_billing_period :: "string option"
  sub_scheduled_change_effective_period :: "string option"
  sub_question_warning_period_key :: "string option"
  sub_question_warning_level :: int
  sub_created_at :: datetime
  sub_updated_at :: datetime

record question_usage =
  qu_tenant_id :: int
  qu_user_id :: int
  qu_period_key :: string
  qu_question_count :: int
  qu_last_question_at :: "datetime option"

record training_usage =
  tu_tenant_id :: int
  tu_period_key :: string
  tu_trained_chars :: int
  tu_storage_bytes :: int

record invoice =
  inv_id :: int
  inv_tenant_id :: int
  inv_type :: string
  inv_period_key :: string
  inv_status :: string
  inv_currency :: string
  inv_total_cents :: int
  inv_payment_method :: string
  inv_description :: string
  inv_lines :: "jdict list"
  inv_issued_at :: datetime
  inv_due_at :: datetime

text \<open>A webhook body: its scalar fields, and the object under \<open>metadata\<close> when it is one.\<close>

record webhook_payload =
  wh_fields :: jdict
  wh_metadata :: "jdict option"

record payment_event =
  pe_id :: int
  pe_provider :: string
  pe_event_id :: string
  pe_event_type :: string
  pe_tenant_id :: "int option"
  pe_status :: string
  pe_payload :: webhook_payload

record cancellation =
  cx_id :: int
  cx_tenant_id :: int
  cx_tenant_slug :: string
  cx_requested_by_user_id :: "int option"
  cx_reason_code :: string
  cx_reason_text :: string
  cx_active_kb_count :: int
  cx_status :: string
  cx_requested_at :: datetime
  cx_effective_at :: "datetime option"
  cx_notice_two_days_sent_at :: "datetime option"
  cx_notice_one_day_sent_at :: "datetime option"
  cx_notice_expired_sent_at :: "datetime option"
  cx_deactivated_at :: "datetime option"
  cx_cleanup_completed_at :: "datetime option"

record debug_state =
  ds_simulated_date :: "date option"
  ds_payment_simulation_outcome :: string

text \<open>Truth of a value, \<open>a or b\<close>, \<open>str(v)\<close>, \<open>int(v)\<close>, and \<open>{**d, k: v}\<close>.\<close>

definition jtruthy :: "jval option \<Rightarrow> bool" where
  "jtruthy v = (case v of None \<Rightarrow> False | Some JNull \<Rightarrow> False | Some (JBool b) \<Rightarrow> b
     | Some (JInt n) \<Rightarrow> n \<noteq> 0 | Some (JStr s) \<Rightarrow> s \<noteq> [])"

definition jor :: "jval option \<Rightarrow> jval option \<Rightarrow> jval option" where
  "jor a b = (if jtruthy a then a else b)"

definition jval_str :: "jval \<Rightarrow> string" where
  "jval_str v = (case v of JNull \<Rightarrow> ''None'' | JBool b \<Rightarrow> (if b then ''True'' else ''False'')
     | JInt n \<Rightarrow> str_of_int n | JStr s \<Rightarrow> s)"

definition jstr :: "jval option \<Rightarrow> string \<Rightarrow> string" where
  "jstr v d = (if jtruthy v then (case v of None \<Rightarrow> d | Some x \<Rightarrow> jval_str x) else d)"

definition jint :: "jval option \<Rightarrow> int \<Rightarrow> billing_error + int" where
  "jint v d =
     (if \<not> jtruthy v then Inr d
      else case v of
             Some (JInt n) \<Rightarrow> Inr n
           | Some (JBool b) \<Rightarrow> Inr 1
           | Some (JStr s) \<Rightarrow> (case py_int s of Some n \<Rightarrow> Inr n | None \<Rightarrow> Inl (Value_error ''int''))
           | _ \<Rightarrow> Inr d)"

definition jset :: "jdict \<Rightarrow> string \<Rightarrow> jval \<Rightarrow> jdict" where
  "jset d k v = upsert_row fst (k, v) d"

text \<open>\<open>line.get(key)\<close> of a JSON object.\<close>

definition jget :: "jdict \<Rightarrow> string \<Rightarrow> jval option" where
  "jget d k = map_of d k"

text \<open>\<open>str(v or "")\<close> of a JSON scalar that is a string, and \<open>int(v or n)\<close> of one that is a number.\<close>

definition jstr_or :: "jval option \<Rightarrow> string \<Rightarrow> string" where
  "jstr_or v d = (case v of Some (JStr s) \<Rightarrow> (if s = [] then d else s) | _ \<Rightarrow> d)"

definition jint_or :: "jval option \<Rightarrow> int \<Rightarrow> int" where
  "jint_or v d = (case v of Some (JInt n) \<Rightarrow> (if n = 0 then d else n) | _ \<Rightarrow> d)"

end
