(* ===== verification/Billing_Proration.thy ===== *)
theory Billing_Proration
  imports Billing_Models
begin

text \<open>
  Plan changes and their price: \<open>backend/apps/billing/subscription_proration.py\<close>. A lookup
  \<open>plans["free"]\<close> that fails raises, so the functions that use the plan map return a sum.
  The quotient \<open>round(a / b, 4)\<close> is the rational with four decimals that the float stands for.

  The lemmas characterise the loop over the prepaid months by a counting specification and give
  the money bounds of an upgrade.
\<close>

section \<open>Which changes wait for the end of the period\<close>

definition is_downgrade :: "subscription \<Rightarrow> string \<Rightarrow> plan_map \<Rightarrow> billing_error + bool" where
  "is_downgrade current next_plan_code plans =
     rbind (plan_or_free plans (sub_plan_code current)) (\<lambda>current_plan.
     rbind (plan_or_free plans next_plan_code) (\<lambda>next_plan.
       Inr (bp_price_cents next_plan < bp_price_cents current_plan
            \<or> bp_included_kbs next_plan < bp_included_kbs current_plan
            \<or> bp_included_storage_gb next_plan < bp_included_storage_gb current_plan)))"

definition period_rank :: "string \<Rightarrow> int" where
  "period_rank p =
     (case map_of [(''monthly'', 1), (''quarterly'', 2), (''yearly'', 3)] (norm_period p) of
        None \<Rightarrow> 1 | Some r \<Rightarrow> r)"

definition is_billing_period_downgrade :: "string \<Rightarrow> string \<Rightarrow> bool" where
  "is_billing_period_downgrade current_period next_period \<longleftrightarrow>
     period_rank next_period < period_rank current_period"

definition is_scheduled_change ::
  "subscription \<Rightarrow> string \<Rightarrow> string \<Rightarrow> plan_map \<Rightarrow> billing_error + bool" where
  "is_scheduled_change current next_plan_code next_period plans =
     rbind (is_downgrade current next_plan_code plans) (\<lambda>down.
       Inr (down \<or> (sub_plan_code current = next_plan_code
                    \<and> is_billing_period_downgrade (sub_billing_period current) next_period)))"

section \<open>Coverage and remaining time\<close>

definition proration_calendar_fraction :: "date \<Rightarrow> date \<Rightarrow> date \<Rightarrow> int \<times> int \<times> rat" where
  "proration_calendar_fraction period_start period_end_inclusive today =
     (let total_days = max 1 (days_between period_start period_end_inclusive + 1);
          remaining =
            (if today < period_start then total_days
             else if today > period_end_inclusive then 0
             else days_between today period_end_inclusive + 1);
          remaining = max 0 (min remaining total_days)
      in (total_days, remaining, of_int remaining / of_int total_days))"

definition coverage_end_for_subscription :: "subscription \<Rightarrow> date \<Rightarrow> date" where
  "coverage_end_for_subscription subscription fallback_period_end =
     (case sub_trial_ends_at subscription of
        Some t \<Rightarrow> if dt_date t > fallback_period_end then dt_date t else fallback_period_end
      | None \<Rightarrow> fallback_period_end)"

definition coverage_start_for_end :: "date \<Rightarrow> string \<Rightarrow> date" where
  "coverage_start_for_end period_end normalized_period =
     (let months = billing_period_multiplier normalized_period;
          (year, month) = add_months (d_year period_end) (d_month period_end) (- months)
      in fifth_business_day year month)"

definition paid_until_after_upgrade :: "date \<Rightarrow> string \<Rightarrow> date" where
  "paid_until_after_upgrade upgrade_date normalized_period =
     add_months_to_date upgrade_date (billing_period_multiplier normalized_period)"

definition training_initial_fee_cents_for_plan :: "string \<Rightarrow> int" where
  "training_initial_fee_cents_for_plan plan_code = 0"

definition upgrade_training_initial_fee_cents :: "string \<Rightarrow> string \<Rightarrow> int" where
  "upgrade_training_initial_fee_cents current_plan_code next_plan_code =
     (let already_paid = training_initial_fee_cents_for_plan current_plan_code;
          target_fee = training_initial_fee_cents_for_plan next_plan_code
      in max 0 (target_fee - already_paid))"

definition months_inclusive :: "date \<Rightarrow> date \<Rightarrow> int" where
  "months_inclusive start end_date =
     (if end_date < start then 0
      else (d_year end_date - d_year start) * 12 + (d_month end_date - d_month start) + 1)"

text \<open>The loop over \<open>range(total)\<close>, with its \<open>break\<close>; the last argument counts the turns left.\<close>

fun started_units :: "date \<Rightarrow> date \<Rightarrow> int \<Rightarrow> int \<Rightarrow> nat \<Rightarrow> int" where
  "started_units today coverage_start index started 0 = started"
| "started_units today coverage_start index started (Suc n) =
     (if add_months_to_date coverage_start index \<le> today
      then started_units today coverage_start (index + 1) (started + 1) n
      else started)"

definition remaining_prepaid_months :: "date \<Rightarrow> date \<Rightarrow> date \<Rightarrow> int \<Rightarrow> int" where
  "remaining_prepaid_months today coverage_start coverage_end prepaid_months =
     (let total = max 0 prepaid_months in
      if total \<le> 0 \<or> today > coverage_end then 0
      else let started = started_units today coverage_start 0 0 (nat total)
           in max 0 (total - started))"

section \<open>The price of an upgrade\<close>

record upgrade_proration =
  up_immediate_use :: bool
  up_total_period_days :: int
  up_remaining_period_days :: int
  up_proration_fraction :: rat
  up_total_prepaid_months :: int
  up_remaining_prepaid_months :: int
  up_old_plan_code :: string
  up_new_plan_code :: string
  up_old_monthly_cents :: int
  up_new_monthly_cents :: int
  up_delta_monthly_cents :: int
  up_prorated_charge_cents :: int
  up_old_remaining_credit_cents :: int
  up_next_period_charge_cents :: int
  up_training_initial_fee_cents :: int
  up_total_charge_cents :: int
  up_paid_until_iso :: string
  up_currency :: string

definition compute_upgrade_proration ::
  "subscription \<Rightarrow> string \<Rightarrow> string \<Rightarrow> plan_map \<Rightarrow> date \<Rightarrow> date
   \<Rightarrow> billing_error + upgrade_proration option" where
  "compute_upgrade_proration subscription normalized_plan normalized_period plans period_end today =
     (case plans normalized_plan of
        None \<Rightarrow> Inr None
      | Some next_plan \<Rightarrow>
          rbind (is_downgrade subscription normalized_plan plans) (\<lambda>down.
          if down then Inr None
          else if sub_plan_code subscription = normalized_plan
               \<and> sub_billing_period subscription = normalized_period then Inr None
          else rbind (plan_or_free plans (sub_plan_code subscription)) (\<lambda>current_plan.
            let old_m = plan_monthly_charge_cents_after_discount
                          (bp_price_cents current_plan) (sub_billing_period subscription);
                new_m = plan_monthly_charge_cents_after_discount
                          (bp_price_cents next_plan) normalized_period;
                delta_m = max 0 (new_m - old_m);
                prepaid_months = billing_period_multiplier (sub_billing_period subscription);
                coverage_end = coverage_end_for_subscription subscription period_end;
                coverage_start = add_months_to_date coverage_end (- prepaid_months);
                remaining_months =
                  remaining_prepaid_months today coverage_start coverage_end prepaid_months;
                total_months = prepaid_months;
                old_remaining_credit = max 0 (old_m * remaining_months);
                next_period_charge = new_m * billing_period_multiplier normalized_period;
                paid_until = paid_until_after_upgrade today normalized_period;
                training_initial_fee_cents =
                  upgrade_training_initial_fee_cents (sub_plan_code subscription) normalized_plan;
                total_charge = max 0 (next_period_charge - old_remaining_credit)
                                 + max 0 training_initial_fee_cents
            in Inr (Some
                \<lparr>up_immediate_use = True,
                 up_total_period_days = total_months,
                 up_remaining_period_days = remaining_months,
                 up_proration_fraction =
                   of_int (round_half_even (10000 * remaining_months) (max 1 total_months)) / 10000,
                 up_total_prepaid_months = total_months,
                 up_remaining_prepaid_months = remaining_months,
                 up_old_plan_code = sub_plan_code subscription,
                 up_new_plan_code = normalized_plan,
                 up_old_monthly_cents = old_m,
                 up_new_monthly_cents = new_m,
                 up_delta_monthly_cents = delta_m,
                 up_prorated_charge_cents = 0,
                 up_old_remaining_credit_cents = old_remaining_credit,
                 up_next_period_charge_cents = next_period_charge,
                 up_training_initial_fee_cents = training_initial_fee_cents,
                 up_total_charge_cents = total_charge,
                 up_paid_until_iso = isoformat paid_until,
                 up_currency = default_currency\<rparr>))))"

definition questions_carryover_from_started_month :: "int \<Rightarrow> int \<Rightarrow> int" where
  "questions_carryover_from_started_month old_plan_questions_monthly used_total =
     (let monthly = max 0 old_plan_questions_monthly;
          used_from_plan = min (max 0 used_total) monthly
      in max 0 (monthly - used_from_plan))"

section \<open>The prepaid months\<close>

lemma period_multiplier_pos: "0 < billing_period_multiplier p"
  by (simp add: billing_period_multiplier_def Let_def)

lemma period_multiplier_cases: "billing_period_multiplier p \<in> {1, 3, 12}"
  by (simp add: billing_period_multiplier_def Let_def)

text \<open>The units \<open>index, \<dots>, index + n - 1\<close> that have not started yet.\<close>

definition units_ahead :: "date \<Rightarrow> date \<Rightarrow> int \<Rightarrow> nat \<Rightarrow> int set" where
  "units_ahead today start index n =
     {i. index \<le> i \<and> i < index + int n \<and> today < add_months_to_date start i}"

lemma finite_units_ahead [simp]: "finite (units_ahead today start index n)"
  by (rule finite_subset [of _ "{index..<index + int n}"]) (auto simp: units_ahead_def)

lemma started_units_spec:
  assumes "valid_date start"
  shows "started_units today start index started n
           = started + int n - int (card (units_ahead today start index n))"
proof (induction n arbitrary: index started)
  case 0
  have "units_ahead today start index 0 = {}" by (auto simp: units_ahead_def)
  then show ?case by simp
next
  case (Suc n)
  show ?case
  proof (cases "add_months_to_date start index \<le> today")
    case True
    then have "i \<in> units_ahead today start index (Suc n) \<longleftrightarrow> i \<in> units_ahead today start (index + 1) n" for i
      by (cases "i = index") (auto simp: units_ahead_def)
    then have "units_ahead today start index (Suc n) = units_ahead today start (index + 1) n"
      by blast
    with True Suc.IH show ?thesis by simp
  next
    case False
    then have "today < add_months_to_date start i" if "index \<le> i" for i
      using that add_months_to_date_less [OF assms, of index i] by (cases "index = i") auto
    then have "units_ahead today start index (Suc n) = {index..<index + int (Suc n)}"
      by (auto simp: units_ahead_def)
    with False show ?thesis by simp
  qed
qed

lemma card_units_ahead: "card (units_ahead today start index n) \<le> n"
proof -
  have "card (units_ahead today start index n) \<le> card {index..<index + int n}"
    by (rule card_mono) (auto simp: units_ahead_def)
  then show ?thesis by simp
qed

lemma remaining_prepaid_months_count:
  assumes "valid_date start" "0 \<le> prepaid"
  shows "remaining_prepaid_months today start stop prepaid =
    (if today > stop then 0 else int (card (units_ahead today start 0 (nat prepaid))))"
  using started_units_spec [OF assms(1), of today 0 0 "nat prepaid"] assms(2)
  by (auto simp: remaining_prepaid_months_def Let_def units_ahead_def)

text \<open>The credit months of an upgrade. On the coverage that starts at \<open>start\<close> and runs for
  \<open>prepaid\<close> months, the loop with its early exit computes the number of month units that
  have not started, whichever day it is; so it is between 0 and \<open>prepaid\<close>, at most \<open>prepaid - 1\<close> once the
  coverage has begun, 0 after its end, and never grows as days pass.\<close>

theorem remaining_prepaid_months_spec:
  assumes "valid_date start" "0 \<le> prepaid" "day \<le> later"
  shows "let r = remaining_prepaid_months day start stop prepaid in
    (day \<le> stop \<longrightarrow> r = int (card {i. 0 \<le> i \<and> i < prepaid \<and> day < add_months_to_date start i})) \<and>
    (stop < day \<longrightarrow> r = 0) \<and>
    0 \<le> r \<and> r \<le> prepaid \<and>
    (start \<le> day \<and> 0 < prepaid \<longrightarrow> r \<le> prepaid - 1) \<and>
    remaining_prepaid_months later start stop prepaid \<le> r"
proof -
  let ?U = "\<lambda>d. units_ahead d start 0 (nat prepaid)"
  have U: "?U day = {i. 0 \<le> i \<and> i < prepaid \<and> day < add_months_to_date start i}"
    using assms(2) by (auto simp: units_ahead_def)
  have le: "card (?U later) \<le> card (?U day)"
    using assms(3) by (intro card_mono [OF finite_units_ahead]) (auto simp: units_ahead_def)
  have "card (?U day) \<le> nat prepaid - 1" if "start \<le> day" "0 < prepaid"
  proof -
    have "?U day \<subseteq> {1..<prepaid}"
      using that add_months_to_date_0 [OF assms(1)] assms(2)
      by (auto simp: units_ahead_def) (metis linorder_not_less order_le_less zless_imp_add1_zle add_0)
    then have "card (?U day) \<le> card {1..<prepaid}" by (intro card_mono) auto
    then show ?thesis by simp
  qed
  moreover have "int (card (?U day)) \<le> prepaid" using card_units_ahead [of day start 0 "nat prepaid"] assms(2) by simp
  ultimately show ?thesis
    using assms le unfolding Let_def remaining_prepaid_months_count [OF assms(1,2)] U [symmetric]
    by (auto split: if_splits)
qed

lemma remaining_prepaid_months_spec_witness:
  "let r = remaining_prepaid_months (Date 2026 5 21) (Date 2026 5 21) (Date 2026 8 21) 3
   in 0 \<le> r \<and> r \<le> 2 \<and>
      remaining_prepaid_months (Date 2026 6 1) (Date 2026 5 21) (Date 2026 8 21) 3 \<le> r"
proof -
  have "valid_date (Date 2026 5 21)" "Date 2026 5 21 \<le> Date 2026 6 1" "(0::int) \<le> 3"
    by (simp_all add: valid_date_def days_in_month_def less_eq_date_def)
  from remaining_prepaid_months_spec [OF this(1,3,2), of "Date 2026 8 21"]
  show ?thesis by (simp add: Let_def)
qed

section \<open>The price of an upgrade\<close>

lemma plan_or_free_total: "plans ''free'' = Some f \<Longrightarrow> \<exists>p. plan_or_free plans code = Inr p"
  by (simp add: plan_or_free_def split: option.splits)

lemma plan_or_free_known: "plans code = Some p \<Longrightarrow> plan_or_free plans code = Inr p"
  by (simp add: plan_or_free_def)

lemma is_downgrade_total:
  assumes "plans ''free'' = Some f"
  shows "\<exists>b. is_downgrade current code plans = Inr b"
proof -
  have t: "\<exists>p. plan_or_free plans c = Inr p" for c
    using assms by (rule plan_or_free_total [where plans = plans])
  obtain p q where "plan_or_free plans (sub_plan_code current) = Inr p" "plan_or_free plans code = Inr q"
    using t by blast
  then show ?thesis by (simp add: is_downgrade_def)
qed

lemma compute_upgrade_proration_raises_not:
  assumes "plans ''free'' = Some f"
  shows "\<exists>r. compute_upgrade_proration sub plan period plans period_end today = Inr r \<and>
    (r = None \<longleftrightarrow> plans plan = None \<or> is_downgrade sub plan plans = Inr True \<or>
       (sub_plan_code sub = plan \<and> sub_billing_period sub = period))"
proof -
  obtain b where "is_downgrade sub plan plans = Inr b"
    using is_downgrade_total [where plans = plans, OF assms] by blast
  moreover obtain p where "plan_or_free plans (sub_plan_code sub) = Inr p"
    using plan_or_free_total [where plans = plans, OF assms] by blast
  ultimately show ?thesis
    by (cases "plans plan") (simp_all add: compute_upgrade_proration_def Let_def)
qed

text \<open>When an upgrade is offered. With a catalog that has the free plan the computation never
  raises, and it offers nothing exactly when the plan is unknown, is a downgrade of the current
  plan, or is the current plan with the current period.\<close>

theorem compute_upgrade_proration_offers:
  assumes "plans ''free'' = Some f"
  shows "\<exists>r. compute_upgrade_proration sub plan period plans period_end today = Inr r \<and>
    (r = None \<longleftrightarrow> plans plan = None \<or> is_downgrade sub plan plans = Inr True \<or>
       (sub_plan_code sub = plan \<and> sub_billing_period sub = period))"
  using assms by (rule compute_upgrade_proration_raises_not [where plans = plans])

text \<open>An offer, taken apart.\<close>

lemma compute_upgrade_proration_Some:
  assumes "compute_upgrade_proration sub plan period plans period_end today = Inr (Some up)"
  obtains old new where "plans plan = Some new" "plan_or_free plans (sub_plan_code sub) = Inr old"
    "is_downgrade sub plan plans = Inr False"
proof -
  obtain new where new: "plans plan = Some new"
    using assms by (cases "plans plan") (simp_all add: compute_upgrade_proration_def)
  obtain b where b: "is_downgrade sub plan plans = Inr b" and nb: "\<not> b"
    using assms new
    by (cases "is_downgrade sub plan plans")
       (simp_all add: compute_upgrade_proration_def del: not_None_eq split: if_splits)
  obtain old where "plan_or_free plans (sub_plan_code sub) = Inr old"
    using b by (cases "plan_or_free plans (sub_plan_code sub)") (simp_all add: is_downgrade_def)
  with new b nb that show ?thesis by simp
qed

lemma compute_upgrade_proration_fields:
  assumes "compute_upgrade_proration sub plan period plans period_end today = Inr (Some up)"
    and "plans plan = Some new" "plan_or_free plans (sub_plan_code sub) = Inr old"
      "is_downgrade sub plan plans = Inr False"
    and om: "om = plan_monthly_charge_cents_after_discount (bp_price_cents old) (sub_billing_period sub)"
    and nm: "nm = plan_monthly_charge_cents_after_discount (bp_price_cents new) period"
    and m: "m = billing_period_multiplier (sub_billing_period sub)"
    and stop: "stop = coverage_end_for_subscription sub period_end"
    and r: "r = remaining_prepaid_months today (add_months_to_date stop (- m)) stop m"
  shows "up_old_remaining_credit_cents up = max 0 (om * r) \<and> up_old_monthly_cents up = om \<and>
    up_remaining_prepaid_months up = r \<and>
    up_next_period_charge_cents up = nm * billing_period_multiplier period \<and>
    up_total_charge_cents up = max 0 (nm * billing_period_multiplier period - max 0 (om * r)) \<and>
    up_paid_until_iso up = isoformat (paid_until_after_upgrade today period)"
proof -
  have "\<not> (sub_plan_code sub = plan \<and> sub_billing_period sub = period)"
    using assms(1-4) by (auto simp: compute_upgrade_proration_def)
  with assms(1-4) show ?thesis
    unfolding compute_upgrade_proration_def om nm m stop r
    by (simp add: Let_def upgrade_training_initial_fee_cents_def
        training_initial_fee_cents_for_plan_def) (elim subst, simp)
qed

text \<open>The money of an upgrade. With non-negative plan prices an offered upgrade is to a plan that
  is not cheaper; the credit is the old monthly charge times the months not yet started (at most
  the whole prepaid period); the total is never negative nor above the full price of the new period,
  credit and total together cover that price, and the new coverage ends one whole billing period after
  today.\<close>

theorem compute_upgrade_proration_money:
  assumes offer: "compute_upgrade_proration sub plan period plans period_end today = Inr (Some up)"
    and prices: "\<forall>c p. plans c = Some p \<longrightarrow> 0 \<le> bp_price_cents p"
    and dates: "valid_date today" "valid_date period_end"
  shows "(\<exists>old new. plan_or_free plans (sub_plan_code sub) = Inr old \<and> plans plan = Some new \<and>
            bp_price_cents old \<le> bp_price_cents new) \<and>
    up_old_remaining_credit_cents up = up_old_monthly_cents up * up_remaining_prepaid_months up \<and>
    0 \<le> up_remaining_prepaid_months up \<and>
    up_remaining_prepaid_months up \<le> billing_period_multiplier (sub_billing_period sub) \<and>
    0 \<le> up_total_charge_cents up \<and> up_total_charge_cents up \<le> up_next_period_charge_cents up \<and>
    up_next_period_charge_cents up \<le> up_total_charge_cents up + up_old_remaining_credit_cents up \<and>
    (\<exists>until. up_paid_until_iso up = isoformat until \<and> today < until \<and>
       month_index until = month_index today + billing_period_multiplier period)"
proof -
  obtain old new where new: "plans plan = Some new"
    and old: "plan_or_free plans (sub_plan_code sub) = Inr old"
    and down: "is_downgrade sub plan plans = Inr False"
    using compute_upgrade_proration_Some [where plans = plans, OF offer] by blast
  have le: "bp_price_cents old \<le> bp_price_cents new"
    using down old new by (simp add: is_downgrade_def plan_or_free_known)
  have pos: "0 \<le> bp_price_cents old" "0 \<le> bp_price_cents new"
    using old new prices by (auto simp: plan_or_free_def split: option.splits)
  define m where "m = billing_period_multiplier (sub_billing_period sub)"
  define stop where "stop = coverage_end_for_subscription sub period_end"
  define r where "r = remaining_prepaid_months today (add_months_to_date stop (- m)) stop m"
  have "valid_date stop"
    using dates by (auto simp: stop_def coverage_end_for_subscription_def split: option.splits)
  then have "valid_date (add_months_to_date stop (- m))" "0 \<le> m"
    using period_multiplier_pos by (auto simp: m_def intro: less_imp_le)
  from remaining_prepaid_months_spec [OF this order_refl] have r: "0 \<le> r" "r \<le> m"
    by (auto simp: r_def Let_def)
  define om nm where "om = plan_monthly_charge_cents_after_discount (bp_price_cents old) (sub_billing_period sub)"
    and "nm = plan_monthly_charge_cents_after_discount (bp_price_cents new) period"
  have om: "0 \<le> om" "0 \<le> nm * billing_period_multiplier period"
    using pos period_multiplier_pos [of period]
    by (auto simp: om_def nm_def plan_monthly_charge_nonneg)
  note up = compute_upgrade_proration_fields [where plans = plans,
      OF offer new old down om_def nm_def m_def stop_def r_def]
  have "0 \<le> om * r" using om r by simp
  moreover have "today < paid_until_after_upgrade today period"
    using add_months_to_date_less [OF dates(1), of 0 "billing_period_multiplier period"]
      period_multiplier_pos [of period]
    by (simp add: paid_until_after_upgrade_def add_months_to_date_0 dates(1))
  moreover have "max 0 (om * r) = om * r" using \<open>0 \<le> om * r\<close> by simp
  ultimately show ?thesis
    using old new le r om up
    by (simp add: paid_until_after_upgrade_def m_def) (intro exI conjI, (rule refl | assumption | simp)+)
qed

lemma norm_period_literals [simp]:
  "norm_period ''monthly'' = ''monthly''" "norm_period ''quarterly'' = ''quarterly''"
  "norm_period ''yearly'' = ''yearly''"
  by (simp_all add: norm_period_def py_strip_def py_lstrip_def py_space_def py_lower_def py_lower_char_def)

lemma discount_percent_literals [simp]:
  "discount_percent ''monthly'' = 0" "discount_percent ''quarterly'' = 7" "discount_percent ''yearly'' = 15"
  by (simp_all add: discount_percent_def)

lemma period_multiplier_literals [simp]:
  "billing_period_multiplier ''monthly'' = 1" "billing_period_multiplier ''quarterly'' = 3"
  "billing_period_multiplier ''yearly'' = 12"
  by (simp_all add: billing_period_multiplier_def)

text \<open>Two plans of the seed and a subscription, for the witnesses.\<close>

definition demo_plan :: "string \<Rightarrow> int \<Rightarrow> int \<Rightarrow> billing_plan" where
  "demo_plan code price questions =
     \<lparr>bp_code = code, bp_name = code, bp_price_cents = price, bp_included_kbs = 0,
      bp_included_storage_gb = 0, bp_included_questions_monthly = questions, bp_max_users = None,
      bp_trial_days = 0, bp_included_training_chars = 0\<rparr>"

definition demo_plans :: plan_map where
  "demo_plans = [''free'' \<mapsto> demo_plan ''free'' 0 3, ''starter'' \<mapsto> demo_plan ''starter'' 890000 40,
                 ''pro'' \<mapsto> demo_plan ''pro'' 1890000 150]"

definition demo_subscription :: "string \<Rightarrow> string \<Rightarrow> datetime option \<Rightarrow> subscription" where
  "demo_subscription plan period trial_end =
     \<lparr>sub_tenant_id = 1, sub_plan_code = plan, sub_billing_period = period, sub_status = ''active'',
      sub_trial_started_at = None, sub_trial_ends_at = trial_end, sub_extra_kb_count = 0,
      sub_extra_storage_gb = 0, sub_carryover_addon_questions = 0, sub_carryover_training_chars = 0,
      sub_scheduled_plan_code = None, sub_scheduled_billing_period = None,
      sub_scheduled_change_effective_period = None, sub_question_warning_period_key = None,
      sub_question_warning_level = 0, sub_created_at = 0, sub_updated_at = 0\<rparr>"

lemma demo_plans_prices: "demo_plans c = Some p \<Longrightarrow> 0 \<le> bp_price_cents p"
  by (auto simp: demo_plans_def demo_plan_def split: if_splits)

lemma demo_upgrade:
  "\<exists>up. compute_upgrade_proration (demo_subscription ''starter'' ''quarterly'' None) ''pro'' ''monthly''
     demo_plans (Date 2026 8 5) (Date 2026 6 10) = Inr (Some up)"
  using compute_upgrade_proration_raises_not [of demo_plans "demo_plan ''free'' 0 3"
      "demo_subscription ''starter'' ''quarterly'' None" "''pro''" "''monthly''"
      "Date 2026 8 5" "Date 2026 6 10"]
  by (auto simp: demo_plans_def demo_subscription_def is_downgrade_def plan_or_free_def demo_plan_def)

lemma compute_upgrade_proration_offers_witness:
  "\<exists>r. compute_upgrade_proration (demo_subscription ''starter'' ''quarterly'' None) ''gold'' ''monthly''
     demo_plans (Date 2026 8 5) (Date 2026 6 10) = Inr r \<and> r = None"
proof -
  have "demo_plans ''free'' = Some (demo_plan ''free'' 0 3)" by (simp add: demo_plans_def)
  from compute_upgrade_proration_offers [where plans = demo_plans, OF this,
      of "demo_subscription ''starter'' ''quarterly'' None" "''gold''" "''monthly''"
         "Date 2026 8 5" "Date 2026 6 10"]
  show ?thesis by (auto simp: demo_plans_def)
qed

lemma compute_upgrade_proration_money_witness:
  "\<exists>up. compute_upgrade_proration (demo_subscription ''starter'' ''quarterly'' None) ''pro'' ''monthly''
     demo_plans (Date 2026 8 5) (Date 2026 6 10) = Inr (Some up) \<and>
     0 \<le> up_total_charge_cents up \<and> up_total_charge_cents up \<le> up_next_period_charge_cents up"
proof -
  obtain up where up: "compute_upgrade_proration (demo_subscription ''starter'' ''quarterly'' None) ''pro''
      ''monthly'' demo_plans (Date 2026 8 5) (Date 2026 6 10) = Inr (Some up)"
    using demo_upgrade by blast
  have "valid_date (Date 2026 8 5)" "valid_date (Date 2026 6 10)"
    by (simp_all add: valid_date_def days_in_month_def)
  from compute_upgrade_proration_money [where plans = demo_plans, OF up _ this(2,1)] demo_plans_prices up
  show ?thesis by blast
qed

lemma questions_carryover_eq:
  "questions_carryover_from_started_month monthly used = max 0 (max 0 monthly - max 0 used)"
  by (simp add: questions_carryover_from_started_month_def Let_def)

end
