(* ===== verification/Billing_World.thy ===== *)
theory Billing_World
  imports Billing_Proration
begin

text \<open>
  The state the billing service works on. One record \<open>world\<close> holds the public tables the service
  reads and writes (\<open>apps/billing/models.py\<close>, \<open>core/modules/tenant/models/\<close>, the traffic tables of
  \<open>core/modules/tenant/schema/public.py\<close>), the part of each tenant schema it counts, the clock with the
  simulated date of \<open>apps/billing/debug_clock.py\<close>, and the traces of what left the system: the mails
  handed to the mail service and the charges posted to Stripe.

  A clock reading is an instant in microseconds (UTC). \<open>w_now\<close> is what the base clock returns during
  the operation; \<open>env\<close> is the configuration and the outside world: environment variables, the reply of
  Stripe to the n-th charge, the result of sending the n-th mail.

  A mail is a recipient and the message with its interpolated values; the Hungarian texts around
  the values are left out.
\<close>

section \<open>Tenant tables\<close>

record tenant_row =
  tn_id :: int
  tn_slug :: string
  tn_name :: string
  tn_created_at :: datetime
  tn_security_version :: int
  tn_is_active :: bool
  tn_updated_by :: "int option"

text \<open>The \<open>limits\<close> column as \<open>_build_limits\<close> fills it.\<close>

record billing_limits =
  lim_max_users :: "int option"
  lim_knowledge_bases :: int
  lim_storage_gb :: int
  lim_questions_monthly :: int
  lim_addon_questions_carryover :: int
  lim_training_chars_available :: int
  lim_trial_days :: int

record tenant_config_row =
  tc_tenant_id :: int
  tc_package :: string
  tc_feature_flags :: "(string \<times> bool) list"
  tc_limits :: "billing_limits option"

text \<open>\<open>TenantSnapshot\<close>, with the columns of its status and config that the billing code reads.\<close>

record tenant_snapshot =
  ts_tenant_id :: int
  ts_slug :: string
  ts_name :: string
  ts_created_at :: "datetime option"
  ts_is_active :: bool
  ts_feature_flags :: "(string \<times> bool) list"

record question_total =
  qt_tenant_id :: int
  qt_period_key :: string
  qt_question_count :: int

record traffic_event =
  te_tenant_id :: int
  te_user_id :: int
  te_period_key :: string
  te_event_type :: string
  te_question_delta :: int
  te_request_context :: jdict

record sms_send =
  sm_id :: int
  sm_tenant_id :: int
  sm_created_by_user_id :: int
  sm_recipient_name :: string
  sm_phone :: string
  sm_scheduled_at :: datetime
  sm_status :: string
  sm_period_key :: string
  sm_created_at :: datetime

section \<open>Tenant schemas\<close>

record user_row =
  ur_id :: int
  ur_name :: "string option"
  ur_email :: string
  ur_role :: string
  ur_deleted :: bool

record kb_row =
  kb_uuid :: string
  kb_deleted :: bool

record ingest_item =
  it_knowledge_base_id :: string
  it_size_bytes :: "int option"
  it_char_count :: "int option"
  it_status :: string

text \<open>\<open>None\<close> for a table that the schema does not have.\<close>

record tenant_schema =
  sc_users :: "user_row list"
  sc_knowledge_bases :: "kb_row list option"
  sc_ingest_items :: "ingest_item list option"

section \<open>What leaves the system\<close>

datatype mail_body =
    Notice_two_days
  | Notice_one_day
  | Notice_expired
  | Payment_failed_mail string int string string string
  | Question_warning_mail string int string int int int

datatype mail = Mail (mail_to: string) (mail_body: mail_body)

record charge =
  chg_amount_cents :: int
  chg_description :: string
  chg_metadata :: "(string \<times> string) list"

text \<open>What \<open>requests.post\<close> and \<open>response.json()\<close> give: an exception, or a status code and the
  fields \<open>status\<close>, \<open>id\<close> and \<open>error.message\<close> of a JSON object (\<open>None\<close> for another JSON value).\<close>

datatype stripe_reply =
    Stripe_unreachable string
  | Stripe_reply int "(string option \<times> string option \<times> string option) option"

record env =
  env_billing_provider :: "string option"
  env_stripe_secret_key :: "string option"
  env_stripe :: "nat \<Rightarrow> charge \<Rightarrow> stripe_reply"
  env_send_email :: "nat \<Rightarrow> mail \<Rightarrow> bool"
  env_billing_disabled :: "string option"
  env_has_engine :: bool
  env_frontend_base_url :: "string \<Rightarrow> string"

section \<open>The world\<close>

record world =
  w_now :: datetime
  w_simulated_date :: "date option"
  w_catalog :: "catalog_row list"
  w_subscriptions :: "subscription list"
  w_question_usage :: "question_usage list"
  w_training_usage :: "training_usage list"
  w_invoices :: "invoice list"
  w_next_invoice_id :: int
  w_cancellations :: "cancellation list"
  w_next_cancellation_id :: int
  w_payment_events :: "payment_event list"
  w_next_event_id :: int
  w_debug_state :: "debug_state option"
  w_tenants :: "tenant_row list"
  w_tenant_configs :: "tenant_config_row list"
  w_question_totals :: "question_total list"
  w_traffic_usage :: "question_usage list"
  w_traffic_events :: "traffic_event list"
  w_sms_sends :: "sms_send list"
  w_next_sms_id :: int
  w_schemas :: "string \<Rightarrow> tenant_schema option"
  w_current_schema :: string
  w_profile :: "string \<Rightarrow> string option"
  w_mails :: "mail list"
  w_charges :: "charge list"

type_synonym 'a billing = "(world, billing_error, 'a) py"

section \<open>The clock\<close>

text \<open>\<open>BillingDebugClock.now\<close>: the simulated date with the time of day of the base clock.\<close>

definition clock_now :: "world \<Rightarrow> datetime" where
  "clock_now w =
     (case w_simulated_date w of
        None \<Rightarrow> w_now w
      | Some d \<Rightarrow> combine_date_time d (w_now w))"

definition clock_today :: "world \<Rightarrow> date" where
  "clock_today w = dt_date (clock_now w)"

definition set_clock_simulated_date :: "date option \<Rightarrow> unit billing" where
  "set_clock_simulated_date v = py_modify (\<lambda>w. w\<lparr>w_simulated_date := v\<rparr>)"

text \<open>\<open>_current_period\<close> of the service: period key, start, end and due date of the month.\<close>

definition current_period :: "world \<Rightarrow> string \<times> datetime \<times> datetime \<times> date" where
  "current_period w = current_month_period (clock_now w)"

definition period_end_date :: "world \<Rightarrow> date" where
  "period_end_date w = (case current_period w of (_, _, period_end, _) \<Rightarrow> dt_date period_end)"

definition current_period_key :: "world \<Rightarrow> string" where
  "current_period_key w = fst (current_period w)"

text \<open>\<open>f"{t:%Y%m%d%H%M%S%f}"[:16]\<close>.\<close>

definition stamp16 :: "datetime \<Rightarrow> string" where
  "stamp16 t =
     (let d = dt_date t; us = t mod us_per_day; s = us div 1000000 in
      take 16 (pad_dec 4 (nat (d_year d)) @ pad_dec 2 (nat (d_month d)) @ pad_dec 2 (nat (d_day d)) @
               pad_dec 2 (nat (s div 3600)) @ pad_dec 2 (nat (s div 60 mod 60)) @
               pad_dec 2 (nat (s mod 60)) @ pad_dec 6 (nat (us mod 1000000))))"

end
