(* ===== verification/Billing_Store.thy ===== *)
theory Billing_Store
  imports Billing_World
begin

text \<open>
  \<open>backend/apps/billing/repositories.py\<close> and the tenant repository methods that billing calls
  (\<open>core/modules/tenant/repositories/\<close>). Each method is one transaction: it raises and changes nothing,
  or it commits. Rows come in table order; where the source orders by \<open>issued_at\<close> alone, rows with
  the same instant keep table order.

  Inserts check the foreign key to \<open>public.tenants\<close> and the unique constraints the tables declare;
  \<open>hard_delete_tenant\<close> cascades. \<open>store_ok\<close> collects the constraints; every method preserves it.
\<close>

section \<open>Constraints\<close>

definition inv_key :: "invoice \<Rightarrow> int \<times> string \<times> string" where
  "inv_key i = (inv_tenant_id i, inv_type i, inv_period_key i)"

definition qu_key :: "question_usage \<Rightarrow> int \<times> int \<times> string" where
  "qu_key r = (qu_tenant_id r, qu_user_id r, qu_period_key r)"

definition tu_key :: "training_usage \<Rightarrow> int \<times> string" where
  "tu_key r = (tu_tenant_id r, tu_period_key r)"

definition pe_key :: "payment_event \<Rightarrow> string \<times> string" where
  "pe_key e = (pe_provider e, pe_event_id e)"

definition qt_key :: "question_total \<Rightarrow> int \<times> string" where
  "qt_key r = (qt_tenant_id r, qt_period_key r)"

definition tenant_ids :: "world \<Rightarrow> int set" where
  "tenant_ids w = tn_id ` set (w_tenants w)"

definition tenant_exists :: "world \<Rightarrow> int \<Rightarrow> bool" where
  "tenant_exists w t \<longleftrightarrow> list_ex (\<lambda>r. tn_id r = t) (w_tenants w)"

text \<open>\<open>FOREIGN KEY (tenant_id) REFERENCES public.tenants\<close>, checked at commit.\<close>

definition check_fk :: "int \<Rightarrow> unit billing" where
  "check_fk t = (\<lambda>w. if tenant_exists w t then (Inr (), w) else (Inl (Integrity_error ''tenants''), w))"

definition unique_ok :: "world \<Rightarrow> bool" where
  "unique_ok w \<longleftrightarrow>
     catalog_ok (w_catalog w) \<and> key_ok sub_tenant_id (w_subscriptions w) \<and>
     key_ok qu_key (w_question_usage w) \<and> key_ok tu_key (w_training_usage w) \<and>
     key_ok inv_key (w_invoices w) \<and> key_ok inv_id (w_invoices w) \<and>
     key_ok pe_key (w_payment_events w) \<and> key_ok cx_id (w_cancellations w) \<and>
     key_ok tn_id (w_tenants w) \<and> key_ok tn_slug (w_tenants w) \<and>
     key_ok tc_tenant_id (w_tenant_configs w) \<and> key_ok qt_key (w_question_totals w) \<and>
     key_ok qu_key (w_traffic_usage w)"

definition ids_ok :: "world \<Rightarrow> bool" where
  "ids_ok w \<longleftrightarrow>
     (\<forall>i \<in> set (w_invoices w). inv_id i < w_next_invoice_id w) \<and>
     (\<forall>c \<in> set (w_cancellations w). cx_id c < w_next_cancellation_id w) \<and>
     (\<forall>e \<in> set (w_payment_events w). pe_id e < w_next_event_id w)"

definition references_ok :: "world \<Rightarrow> bool" where
  "references_ok w \<longleftrightarrow>
     sub_tenant_id ` set (w_subscriptions w) \<subseteq> tenant_ids w \<and>
     qu_tenant_id ` set (w_question_usage w) \<subseteq> tenant_ids w \<and>
     tu_tenant_id ` set (w_training_usage w) \<subseteq> tenant_ids w \<and>
     inv_tenant_id ` set (w_invoices w) \<subseteq> tenant_ids w \<and>
     cx_tenant_id ` set (w_cancellations w) \<subseteq> tenant_ids w \<and>
     (\<forall>e \<in> set (w_payment_events w). \<forall>t. pe_tenant_id e = Some t \<longrightarrow> t \<in> tenant_ids w) \<and>
     tc_tenant_id ` set (w_tenant_configs w) \<subseteq> tenant_ids w \<and>
     qt_tenant_id ` set (w_question_totals w) \<subseteq> tenant_ids w \<and>
     qu_tenant_id ` set (w_traffic_usage w) \<subseteq> tenant_ids w \<and>
     te_tenant_id ` set (w_traffic_events w) \<subseteq> tenant_ids w \<and>
     sm_tenant_id ` set (w_sms_sends w) \<subseteq> tenant_ids w"

text \<open>
  What no constraint of the database says: the counter of a tenant and period is the sum of the
  counters of its users and the number of its reservation events.
\<close>

definition total_count :: "question_total list \<Rightarrow> int \<Rightarrow> string \<Rightarrow> int" where
  "total_count totals t period =
     (case row_map qt_key totals (t, period) of None \<Rightarrow> 0 | Some r \<Rightarrow> qt_question_count r)"

definition user_count :: "question_usage list \<Rightarrow> int \<Rightarrow> string \<Rightarrow> int" where
  "user_count usage t period =
     sum_list (map qu_question_count (filter (\<lambda>r. qu_tenant_id r = t \<and> qu_period_key r = period) usage))"

definition event_count :: "traffic_event list \<Rightarrow> int \<Rightarrow> string \<Rightarrow> int" where
  "event_count events t period =
     sum_list (map te_question_delta (filter (\<lambda>e. te_tenant_id e = t \<and> te_period_key e = period) events))"

definition counts_ok :: "question_total list \<Rightarrow> question_usage list \<Rightarrow> traffic_event list \<Rightarrow> bool" where
  "counts_ok totals usage events \<longleftrightarrow>
     (\<forall>r \<in> set usage. 0 \<le> qu_question_count r) \<and>
     (\<forall>t period. user_count usage t period = total_count totals t period \<and>
                 event_count events t period = total_count totals t period)"

definition store_ok :: "world \<Rightarrow> bool" where
  "store_ok w \<longleftrightarrow> unique_ok w \<and> ids_ok w \<and> references_ok w \<and>
     counts_ok (w_question_totals w) (w_traffic_usage w) (w_traffic_events w)"

section \<open>Debug state and catalog\<close>

definition get_debug_simulated_date :: "world \<Rightarrow> date option" where
  "get_debug_simulated_date w =
     (case w_debug_state w of None \<Rightarrow> None | Some row \<Rightarrow> ds_simulated_date row)"

definition get_debug_payment_simulation_outcome :: "world \<Rightarrow> string" where
  "get_debug_payment_simulation_outcome w =
     (case w_debug_state w of
        None \<Rightarrow> ''success''
      | Some row \<Rightarrow>
          (let outcome = py_lower (py_strip (str_or (Some (ds_payment_simulation_outcome row)) ''success''))
           in if outcome \<in> {''success'', ''failed''} then outcome else ''success''))"

definition set_debug_simulated_date :: "date option \<Rightarrow> unit billing" where
  "set_debug_simulated_date v =
     py_modify (\<lambda>w. w\<lparr>w_debug_state :=
       (case w_debug_state w of
          None \<Rightarrow> Some \<lparr>ds_simulated_date = v, ds_payment_simulation_outcome = ''success''\<rparr>
        | Some row \<Rightarrow> Some (row\<lparr>ds_simulated_date := v\<rparr>))\<rparr>)"

definition set_debug_payment_simulation_outcome :: "string \<Rightarrow> unit billing" where
  "set_debug_payment_simulation_outcome outcome =
     (let normalized = py_lower (py_strip outcome) in
      if normalized \<notin> {''success'', ''failed''}
      then py_raise (Value_error ''payment_simulation_outcome must be success or failed'')
      else py_modify (\<lambda>w. w\<lparr>w_debug_state :=
        (case w_debug_state w of
           None \<Rightarrow> Some \<lparr>ds_simulated_date = None, ds_payment_simulation_outcome = normalized\<rparr>
         | Some row \<Rightarrow> Some (row\<lparr>ds_payment_simulation_outcome := normalized\<rparr>))\<rparr>))"

definition repo_seed_catalog :: "catalog_row list \<Rightarrow> unit billing" where
  "repo_seed_catalog rows = py_modify (\<lambda>w. w\<lparr>w_catalog := seed_catalog rows (w_catalog w)\<rparr>)"

definition repo_list_catalog :: "world \<Rightarrow> catalog_row list" where
  "repo_list_catalog w = list_catalog (w_catalog w)"

section \<open>Subscriptions\<close>

definition get_subscription :: "world \<Rightarrow> int \<Rightarrow> subscription option" where
  "get_subscription w t = row_map sub_tenant_id (w_subscriptions w) t"

text \<open>The columns of \<open>p\<close> other than the tenant and the time stamps are the keyword arguments.\<close>

definition upsert_subscription :: "int \<Rightarrow> subscription \<Rightarrow> subscription billing" where
  "upsert_subscription t p = (\<lambda>w.
     case get_subscription w t of
       None \<Rightarrow>
         (if \<not> tenant_exists w t then (Inl (Integrity_error ''tenants''), w)
          else let row = p\<lparr>sub_tenant_id := t, sub_created_at := w_now w, sub_updated_at := w_now w\<rparr>
               in (Inr row, w\<lparr>w_subscriptions := upsert_row sub_tenant_id row (w_subscriptions w)\<rparr>))
     | Some old \<Rightarrow>
         (let row = p\<lparr>sub_tenant_id := t, sub_created_at := sub_created_at old, sub_updated_at := w_now w\<rparr>
          in (Inr row, w\<lparr>w_subscriptions := upsert_row sub_tenant_id row (w_subscriptions w)\<rparr>)))"

section \<open>Usage counters\<close>

definition upsert_question_usage :: "int \<Rightarrow> int \<Rightarrow> string \<Rightarrow> int \<Rightarrow> question_usage billing" where
  "upsert_question_usage t user period increment = (\<lambda>w.
     case row_map qu_key (w_question_usage w) (t, user, period) of
       None \<Rightarrow>
         (if \<not> tenant_exists w t then (Inl (Integrity_error ''tenants''), w)
          else let row = \<lparr>qu_tenant_id = t, qu_user_id = user, qu_period_key = period,
                          qu_question_count = max 0 increment, qu_last_question_at = Some (w_now w)\<rparr>
               in (Inr row, w\<lparr>w_question_usage := upsert_row qu_key row (w_question_usage w)\<rparr>))
     | Some old \<Rightarrow>
         (let row = old\<lparr>qu_question_count := qu_question_count old + max 0 increment,
                        qu_last_question_at := Some (w_now w)\<rparr>
          in (Inr row, w\<lparr>w_question_usage := upsert_row qu_key row (w_question_usage w)\<rparr>)))"

definition list_question_usage :: "world \<Rightarrow> int \<Rightarrow> string \<Rightarrow> question_usage list" where
  "list_question_usage w t period =
     sort_key (\<lambda>r. (- qu_question_count r, qu_user_id r))
       (filter (\<lambda>r. qu_tenant_id r = t \<and> qu_period_key r = period) (w_question_usage w))"

definition get_training_usage :: "world \<Rightarrow> int \<Rightarrow> string \<Rightarrow> training_usage option" where
  "get_training_usage w t period = row_map tu_key (w_training_usage w) (t, period)"

definition increment_training_usage :: "int \<Rightarrow> string \<Rightarrow> int \<Rightarrow> int \<Rightarrow> training_usage billing" where
  "increment_training_usage t period trained_chars storage_bytes = (\<lambda>w.
     let d_chars = max 0 trained_chars; d_bytes = max 0 storage_bytes in
     case get_training_usage w t period of
       None \<Rightarrow>
         (if \<not> tenant_exists w t then (Inl (Integrity_error ''tenants''), w)
          else let row = \<lparr>tu_tenant_id = t, tu_period_key = period, tu_trained_chars = d_chars,
                          tu_storage_bytes = d_bytes\<rparr>
               in (Inr row, w\<lparr>w_training_usage := upsert_row tu_key row (w_training_usage w)\<rparr>))
     | Some old \<Rightarrow>
         (let row = old\<lparr>tu_trained_chars := tu_trained_chars old + d_chars,
                        tu_storage_bytes := tu_storage_bytes old + d_bytes\<rparr>
          in (Inr row, w\<lparr>w_training_usage := upsert_row tu_key row (w_training_usage w)\<rparr>)))"

section \<open>Invoices\<close>

text \<open>The arguments of \<open>create_invoice\<close>, in the columns of a row whose id is ignored.\<close>

definition get_invoice :: "world \<Rightarrow> int \<Rightarrow> string \<Rightarrow> string \<Rightarrow> invoice option" where
  "get_invoice w t ty period = row_map inv_key (w_invoices w) (t, ty, period)"

definition create_invoice :: "invoice \<Rightarrow> invoice billing" where
  "create_invoice args = (\<lambda>w.
     if \<not> tenant_exists w (inv_tenant_id args) then (Inl (Integrity_error ''tenants''), w)
     else if get_invoice w (inv_tenant_id args) (inv_type args) (inv_period_key args) \<noteq> None
     then (Inl (Integrity_error ''uq_billing_invoice_tenant_type_period''), w)
     else let row = args\<lparr>inv_id := w_next_invoice_id w\<rparr>
          in (Inr row, w\<lparr>w_invoices := w_invoices w @ [row],
                         w_next_invoice_id := w_next_invoice_id w + 1\<rparr>))"

definition get_invoice_by_id :: "world \<Rightarrow> int \<Rightarrow> int \<Rightarrow> invoice option" where
  "get_invoice_by_id w t i = find (\<lambda>r. inv_tenant_id r = t \<and> inv_id r = i) (w_invoices w)"

definition list_recent_invoices :: "world \<Rightarrow> int \<Rightarrow> nat \<Rightarrow> invoice list" where
  "list_recent_invoices w t limit =
     take limit (sort_key (\<lambda>r. - inv_issued_at r) (filter (\<lambda>r. inv_tenant_id r = t) (w_invoices w)))"

definition list_training_addon_invoices :: "world \<Rightarrow> int \<Rightarrow> invoice list" where
  "list_training_addon_invoices w t =
     filter (\<lambda>r. inv_tenant_id r = t \<and>
        inv_type r \<in> {''addon:training_initial_500k'', ''addon:training_extra_500k''} \<and>
        inv_status r \<in> {''simulated_paid'', ''paid''}) (w_invoices w)"

definition get_latest_invoice_for_type :: "world \<Rightarrow> int \<Rightarrow> string \<Rightarrow> invoice option" where
  "get_latest_invoice_for_type w t ty =
     latest_by inv_issued_at (filter (\<lambda>r. inv_tenant_id r = t \<and> inv_type r = ty) (w_invoices w))"

definition get_latest_open_subscription_invoice :: "world \<Rightarrow> int \<Rightarrow> invoice option" where
  "get_latest_open_subscription_invoice w t =
     latest_by inv_issued_at
       (filter (\<lambda>r. inv_tenant_id r = t \<and> inv_type r = ''monthly_subscription'' \<and>
                    inv_status r = ''issued'') (w_invoices w))"

definition update_invoice_payment_status ::
  "int \<Rightarrow> string \<Rightarrow> string option \<Rightarrow> string option \<Rightarrow> jdict list option \<Rightarrow> invoice option billing" where
  "update_invoice_payment_status i status payment_method invoice_type lines = (\<lambda>w.
     case row_map inv_id (w_invoices w) i of
       None \<Rightarrow> (Inr None, w)
     | Some row \<Rightarrow>
         (let row' = row\<lparr>inv_status := status,
                inv_payment_method := (case payment_method of None \<Rightarrow> inv_payment_method row | Some m \<Rightarrow> m),
                inv_type := (case invoice_type of None \<Rightarrow> inv_type row | Some ty \<Rightarrow> ty),
                inv_lines := (case lines of None \<Rightarrow> inv_lines row | Some ls \<Rightarrow> ls)\<rparr>
          in if inv_key row' \<noteq> inv_key row \<and> row_map inv_key (w_invoices w) (inv_key row') \<noteq> None
             then (Inl (Integrity_error ''uq_billing_invoice_tenant_type_period''), w)
             else (Inr (Some row'), w\<lparr>w_invoices := upsert_row inv_id row' (w_invoices w)\<rparr>)))"

definition get_latest_unpaid_debt_invoice :: "world \<Rightarrow> int \<Rightarrow> invoice option" where
  "get_latest_unpaid_debt_invoice w t =
     (let open_issued = get_latest_open_subscription_invoice w t;
          failed = latest_by inv_issued_at
            (filter (\<lambda>r. inv_tenant_id r = t \<and> inv_status r = ''payment_failed'' \<and>
                inv_type r \<in> {''monthly_subscription'', ''monthly_subscription_failed''}) (w_invoices w))
      in case (open_issued, failed) of
           (None, f) \<Rightarrow> f
         | (Some a, None) \<Rightarrow> Some a
         | (Some a, Some b) \<Rightarrow> if inv_issued_at a \<ge> inv_issued_at b then Some a else Some b)"

section \<open>Payment events\<close>

definition record_payment_event_once ::
  "string \<Rightarrow> string \<Rightarrow> string \<Rightarrow> int option \<Rightarrow> webhook_payload \<Rightarrow> (payment_event \<times> bool) billing" where
  "record_payment_event_once provider event_id event_type tenant payload = (\<lambda>w.
     let row = \<lparr>pe_id = w_next_event_id w, pe_provider = provider, pe_event_id = event_id,
                pe_event_type = event_type, pe_tenant_id = tenant, pe_status = ''processed'',
                pe_payload = payload\<rparr>
     in case insert_once pe_key row (w_payment_events w) of
          ((event, False), _) \<Rightarrow> (Inr (event, False), w)
        | ((event, True), tbl) \<Rightarrow>
            (if (case tenant of None \<Rightarrow> True | Some t \<Rightarrow> tenant_exists w t)
             then (Inr (event, True),
                   w\<lparr>w_payment_events := tbl, w_next_event_id := w_next_event_id w + 1\<rparr>)
             else (Inl (Integrity_error ''tenants''), w)))"

section \<open>Cancellation requests\<close>

definition create_cancellation_request ::
  "int \<Rightarrow> string \<Rightarrow> int option \<Rightarrow> string \<Rightarrow> string \<Rightarrow> int \<Rightarrow> string \<Rightarrow> datetime option \<Rightarrow>
   datetime option \<Rightarrow> cancellation billing" where
  "create_cancellation_request t slug user reason_code reason_text kbs status effective_at deactivated_at =
   (\<lambda>w. if \<not> tenant_exists w t then (Inl (Integrity_error ''tenants''), w)
     else let row = \<lparr>cx_id = w_next_cancellation_id w, cx_tenant_id = t, cx_tenant_slug = slug,
                 cx_requested_by_user_id = user, cx_reason_code = reason_code, cx_reason_text = reason_text,
                 cx_active_kb_count = max 0 kbs, cx_status = status, cx_requested_at = w_now w,
                 cx_effective_at = effective_at, cx_notice_two_days_sent_at = None,
                 cx_notice_one_day_sent_at = None, cx_notice_expired_sent_at = None,
                 cx_deactivated_at = deactivated_at, cx_cleanup_completed_at = None\<rparr>
          in (Inr row, w\<lparr>w_cancellations := w_cancellations w @ [row],
                         w_next_cancellation_id := w_next_cancellation_id w + 1\<rparr>))"

definition get_latest_cancellation_request :: "world \<Rightarrow> int \<Rightarrow> cancellation option" where
  "get_latest_cancellation_request w t =
     latest_by (\<lambda>r. (cx_requested_at r, cx_id r)) (filter (\<lambda>r. cx_tenant_id r = t) (w_cancellations w))"

definition list_cancellation_requests_for_lifecycle :: "world \<Rightarrow> cancellation list" where
  "list_cancellation_requests_for_lifecycle w =
     sort_key (\<lambda>r. (cx_requested_at r, cx_id r))
       (filter (\<lambda>r. cx_status r = ''deactivation_requested'' \<and> cx_cleanup_completed_at r = None)
          (w_cancellations w))"

definition update_cancellations ::
  "(cancellation \<Rightarrow> bool) \<Rightarrow> (cancellation \<Rightarrow> cancellation) \<Rightarrow> bool billing" where
  "update_cancellations p f = (\<lambda>w.
     let (hit, tbl) = sql_update p f (w_cancellations w) in (Inr hit, w\<lparr>w_cancellations := tbl\<rparr>))"

definition mark_cancellation_notice_two_days_sent :: "int \<Rightarrow> datetime \<Rightarrow> bool billing" where
  "mark_cancellation_notice_two_days_sent request_id sent_at =
     update_cancellations (\<lambda>r. cx_id r = request_id \<and> cx_notice_two_days_sent_at r = None)
       (\<lambda>r. r\<lparr>cx_notice_two_days_sent_at := Some sent_at\<rparr>)"

definition mark_cancellation_notice_one_day_sent :: "int \<Rightarrow> datetime \<Rightarrow> bool billing" where
  "mark_cancellation_notice_one_day_sent request_id sent_at =
     update_cancellations (\<lambda>r. cx_id r = request_id \<and> cx_notice_one_day_sent_at r = None)
       (\<lambda>r. r\<lparr>cx_notice_one_day_sent_at := Some sent_at\<rparr>)"

definition mark_cancellation_notice_expired_sent :: "int \<Rightarrow> datetime \<Rightarrow> bool billing" where
  "mark_cancellation_notice_expired_sent request_id sent_at =
     update_cancellations (\<lambda>r. cx_id r = request_id \<and> cx_notice_expired_sent_at r = None)
       (\<lambda>r. r\<lparr>cx_notice_expired_sent_at := Some sent_at\<rparr>)"

definition mark_cancellation_deactivated :: "int \<Rightarrow> datetime \<Rightarrow> bool billing" where
  "mark_cancellation_deactivated request_id deactivated_at =
     update_cancellations (\<lambda>r. cx_id r = request_id \<and> cx_deactivated_at r = None)
       (\<lambda>r. r\<lparr>cx_deactivated_at := Some deactivated_at\<rparr>)"

definition mark_cancellation_cleanup_completed :: "int \<Rightarrow> datetime \<Rightarrow> bool billing" where
  "mark_cancellation_cleanup_completed request_id completed_at =
     update_cancellations (\<lambda>r. cx_id r = request_id \<and> cx_cleanup_completed_at r = None)
       (\<lambda>r. r\<lparr>cx_cleanup_completed_at := Some completed_at\<rparr>)"

definition restore_latest_cancellation_request :: "int \<Rightarrow> datetime \<Rightarrow> bool billing" where
  "restore_latest_cancellation_request t restored_at = (\<lambda>w.
     case latest_by (\<lambda>r. (cx_requested_at r, cx_id r))
            (filter (\<lambda>r. cx_tenant_id r = t \<and> cx_status r = ''deactivation_requested'') (w_cancellations w)) of
       None \<Rightarrow> (Inr False, w)
     | Some latest \<Rightarrow>
         update_cancellations (\<lambda>r. cx_id r = cx_id latest \<and> cx_deactivated_at r = None)
           (\<lambda>r. r\<lparr>cx_status := ''renewal_restored'', cx_cleanup_completed_at := Some restored_at\<rparr>) w)"

section \<open>Tenants\<close>

text \<open>\<open>DELETE FROM public.tenants\<close> with every \<open>ON DELETE CASCADE\<close>.\<close>

definition hard_delete_tenant :: "int \<Rightarrow> bool billing" where
  "hard_delete_tenant t = (\<lambda>w.
     (Inr (tenant_exists w t),
      w\<lparr>w_tenants := filter (\<lambda>r. tn_id r \<noteq> t) (w_tenants w),
        w_tenant_configs := filter (\<lambda>r. tc_tenant_id r \<noteq> t) (w_tenant_configs w),
        w_subscriptions := filter (\<lambda>r. sub_tenant_id r \<noteq> t) (w_subscriptions w),
        w_question_usage := filter (\<lambda>r. qu_tenant_id r \<noteq> t) (w_question_usage w),
        w_training_usage := filter (\<lambda>r. tu_tenant_id r \<noteq> t) (w_training_usage w),
        w_invoices := filter (\<lambda>r. inv_tenant_id r \<noteq> t) (w_invoices w),
        w_cancellations := filter (\<lambda>r. cx_tenant_id r \<noteq> t) (w_cancellations w),
        w_payment_events := filter (\<lambda>r. pe_tenant_id r \<noteq> Some t) (w_payment_events w),
        w_question_totals := filter (\<lambda>r. qt_tenant_id r \<noteq> t) (w_question_totals w),
        w_traffic_usage := filter (\<lambda>r. qu_tenant_id r \<noteq> t) (w_traffic_usage w),
        w_traffic_events := filter (\<lambda>r. te_tenant_id r \<noteq> t) (w_traffic_events w),
        w_sms_sends := filter (\<lambda>r. sm_tenant_id r \<noteq> t) (w_sms_sends w)\<rparr>))"

definition list_active_tenants :: "world \<Rightarrow> tenant_row list" where
  "list_active_tenants w = filter tn_is_active (w_tenants w)"

definition list_all_tenants :: "world \<Rightarrow> tenant_row list" where
  "list_all_tenants w = w_tenants w"

definition get_tenant_by_id :: "world \<Rightarrow> int \<Rightarrow> tenant_row option" where
  "get_tenant_by_id w t = row_map tn_id (w_tenants w) t"

definition get_tenant_config :: "world \<Rightarrow> int \<Rightarrow> tenant_config_row option" where
  "get_tenant_config w t = row_map tc_tenant_id (w_tenant_configs w) t"

definition get_snapshot_by_slug :: "world \<Rightarrow> string \<Rightarrow> tenant_snapshot option" where
  "get_snapshot_by_slug w slug =
     (case row_map tn_slug (w_tenants w) slug of
        None \<Rightarrow> None
      | Some row \<Rightarrow>
          Some \<lparr>ts_tenant_id = tn_id row, ts_slug = tn_slug row, ts_name = tn_name row,
                ts_created_at = Some (tn_created_at row), ts_is_active = tn_is_active row,
                ts_feature_flags = (case get_tenant_config w (tn_id row) of
                                      None \<Rightarrow> [] | Some c \<Rightarrow> tc_feature_flags c)\<rparr>)"

definition create_config ::
  "int \<Rightarrow> string \<Rightarrow> (string \<times> bool) list \<Rightarrow> billing_limits option \<Rightarrow> unit billing" where
  "create_config t package feature_flags limits = (\<lambda>w.
     if get_tenant_config w t = None \<and> \<not> tenant_exists w t then (Inl (Integrity_error ''tenants''), w)
     else let row = \<lparr>tc_tenant_id = t, tc_package = package, tc_feature_flags = feature_flags,
                     tc_limits = limits\<rparr>
          in (Inr (), w\<lparr>w_tenant_configs := upsert_row tc_tenant_id row (w_tenant_configs w)\<rparr>))"

definition set_tenant_active :: "bool \<Rightarrow> int \<Rightarrow> int option \<Rightarrow> unit billing" where
  "set_tenant_active active t updated_by =
     py_modify (\<lambda>w. w\<lparr>w_tenants :=
       update_where (\<lambda>r. tn_id r = t) (\<lambda>r. r\<lparr>tn_is_active := active, tn_updated_by := updated_by\<rparr>)
         (w_tenants w)\<rparr>)"

definition tenant_activate :: "int \<Rightarrow> int option \<Rightarrow> unit billing" where
  "tenant_activate t updated_by = set_tenant_active True t updated_by"

definition tenant_deactivate :: "int \<Rightarrow> int option \<Rightarrow> unit billing" where
  "tenant_deactivate t updated_by = set_tenant_active False t updated_by"

section \<open>Every method keeps the constraints\<close>

lemma tenant_exists_iff: "tenant_exists w t \<longleftrightarrow> t \<in> tenant_ids w"
  by (auto simp: tenant_exists_def tenant_ids_def list_ex_iff)

lemmas store_ok_defs = store_ok_def unique_ok_def ids_ok_def references_ok_def tenant_ids_def

text \<open>A write that touches only columns and tables the constraints do not mention.\<close>

lemma store_ok_transfer:
  assumes "store_ok w"
    and "w_catalog w' = w_catalog w" "w_subscriptions w' = w_subscriptions w"
      "w_question_usage w' = w_question_usage w" "w_training_usage w' = w_training_usage w"
      "w_invoices w' = w_invoices w" "w_next_invoice_id w' = w_next_invoice_id w"
      "w_cancellations w' = w_cancellations w" "w_next_cancellation_id w' = w_next_cancellation_id w"
      "w_payment_events w' = w_payment_events w" "w_next_event_id w' = w_next_event_id w"
      "map tn_id (w_tenants w') = map tn_id (w_tenants w)"
      "map tn_slug (w_tenants w') = map tn_slug (w_tenants w)"
      "w_tenant_configs w' = w_tenant_configs w" "w_question_totals w' = w_question_totals w"
      "w_traffic_usage w' = w_traffic_usage w" "w_traffic_events w' = w_traffic_events w"
      "w_sms_sends w' = w_sms_sends w"
  shows "store_ok w'"
proof -
  have "tn_id ` set (w_tenants w') = tn_id ` set (w_tenants w)"
    using assms(12) by (metis list.set_map)
  with assms show ?thesis by (simp add: store_ok_defs key_ok_def)
qed

lemma image_subsetD: "f ` A \<subseteq> B \<Longrightarrow> x \<in> A \<Longrightarrow> f x \<in> B"
  by blast

lemma store_ok_refs:
  assumes "store_ok w"
  shows "s \<in> set (w_subscriptions w) \<Longrightarrow> sub_tenant_id s \<in> tenant_ids w"
    and "i \<in> set (w_invoices w) \<Longrightarrow> inv_tenant_id i \<in> tenant_ids w"
    and "c \<in> set (w_cancellations w) \<Longrightarrow> cx_tenant_id c \<in> tenant_ids w"
    and "tc \<in> set (w_tenant_configs w) \<Longrightarrow> tc_tenant_id tc \<in> tenant_ids w"
    and "i \<in> set (w_invoices w) \<Longrightarrow> inv_id i < w_next_invoice_id w"
    and "c \<in> set (w_cancellations w) \<Longrightarrow> cx_id c < w_next_cancellation_id w"
proof -
  have "sub_tenant_id ` set (w_subscriptions w) \<subseteq> tenant_ids w" "inv_tenant_id ` set (w_invoices w) \<subseteq> tenant_ids w"
    "cx_tenant_id ` set (w_cancellations w) \<subseteq> tenant_ids w" "tc_tenant_id ` set (w_tenant_configs w) \<subseteq> tenant_ids w"
    "\<forall>i \<in> set (w_invoices w). inv_id i < w_next_invoice_id w"
    "\<forall>c \<in> set (w_cancellations w). cx_id c < w_next_cancellation_id w"
    using assms by (simp_all add: store_ok_def references_ok_def ids_ok_def)
  note r = this
  show "s \<in> set (w_subscriptions w) \<Longrightarrow> sub_tenant_id s \<in> tenant_ids w" using r(1) by (rule image_subsetD)
  show "i \<in> set (w_invoices w) \<Longrightarrow> inv_tenant_id i \<in> tenant_ids w" using r(2) by (rule image_subsetD)
  show "c \<in> set (w_cancellations w) \<Longrightarrow> cx_tenant_id c \<in> tenant_ids w" using r(3) by (rule image_subsetD)
  show "tc \<in> set (w_tenant_configs w) \<Longrightarrow> tc_tenant_id tc \<in> tenant_ids w" using r(4) by (rule image_subsetD)
  show "i \<in> set (w_invoices w) \<Longrightarrow> inv_id i < w_next_invoice_id w" using r(5) by (rule bspec)
  show "c \<in> set (w_cancellations w) \<Longrightarrow> cx_id c < w_next_cancellation_id w" using r(6) by (rule bspec)
qed

lemma store_ok_check_fk [preserve]: "preserves store_ok (check_fk t)"
  by (simp add: preserves_def check_fk_def)

lemma store_ok_set_debug_simulated_date [preserve]: "preserves store_ok (set_debug_simulated_date v)"
  unfolding set_debug_simulated_date_def
  by (rule preserves_modify, erule store_ok_transfer) simp_all

lemma store_ok_set_debug_outcome [preserve]:
  "preserves store_ok (set_debug_payment_simulation_outcome outcome)"
  unfolding set_debug_payment_simulation_outcome_def Let_def
  by (intro preserve preserves_modify, erule store_ok_transfer) simp_all

lemma store_ok_set_clock [preserve]: "preserves store_ok (set_clock_simulated_date v)"
  unfolding set_clock_simulated_date_def
  by (rule preserves_modify, erule store_ok_transfer) simp_all

lemma store_ok_set_tenant_active: "preserves store_ok (set_tenant_active a t u)"
  unfolding set_tenant_active_def
  by (rule preserves_modify, erule store_ok_transfer) (simp_all add: map_update_where)

lemma store_ok_tenant_activate [preserve]: "preserves store_ok (tenant_activate t u)"
  unfolding tenant_activate_def by (rule store_ok_set_tenant_active)

lemma store_ok_tenant_deactivate [preserve]: "preserves store_ok (tenant_deactivate t u)"
  unfolding tenant_deactivate_def by (rule store_ok_set_tenant_active)

lemma store_ok_repo_seed_catalog [preserve]: "preserves store_ok (repo_seed_catalog rows)"
  unfolding repo_seed_catalog_def
  by (rule preserves_modify) (simp add: store_ok_defs seed_catalog_def catalog_table.inv_fold)

lemma in_subset_image_upsert:
  "f row \<in> A \<Longrightarrow> f ` set tbl \<subseteq> A \<Longrightarrow> f ` set (upsert_row key row tbl) \<subseteq> A"
  by (rule order_trans [OF image_upsert_row]) simp

lemma store_ok_put_subscription:
  assumes "store_ok w" "sub_tenant_id row \<in> tenant_ids w"
  shows "store_ok (w\<lparr>w_subscriptions := upsert_row sub_tenant_id row (w_subscriptions w)\<rparr>)"
  using assms by (simp add: store_ok_defs key_ok_upsert_row in_subset_image_upsert)

lemma get_subscription_tenant:
  assumes "store_ok w" "get_subscription w t = Some s"
  shows "sub_tenant_id s = t" "t \<in> tenant_ids w"
  using assms row_map_Some [of sub_tenant_id "w_subscriptions w" t s]
  by (auto simp: get_subscription_def store_ok_def references_ok_def)

lemma store_ok_upsert_subscription [preserve]: "preserves store_ok (upsert_subscription t p)"
  by (rule preservesI)
     (auto simp: upsert_subscription_def Let_def tenant_exists_iff store_ok_put_subscription
        get_subscription_tenant split: option.splits)

lemma store_ok_upsert_question_usage [preserve]:
  "preserves store_ok (upsert_question_usage t user period n)"
proof (rule preservesI)
  fix w assume ok: "store_ok w"
  have put: "store_ok (w\<lparr>w_question_usage := upsert_row qu_key row (w_question_usage w)\<rparr>)"
    if "qu_tenant_id row \<in> tenant_ids w" for row
    using ok that by (simp add: store_ok_defs key_ok_upsert_row in_subset_image_upsert)
  have "qu_tenant_id old \<in> tenant_ids w" if "row_map qu_key (w_question_usage w) (t, user, period) = Some old" for old
    using row_map_Some [OF that] ok by (auto simp: store_ok_def references_ok_def)
  then show "store_ok (snd (upsert_question_usage t user period n w))"
    using ok by (auto simp: upsert_question_usage_def Let_def tenant_exists_iff put split: option.splits)
qed

lemma store_ok_increment_training_usage [preserve]:
  "preserves store_ok (increment_training_usage t period c b)"
proof (rule preservesI)
  fix w assume ok: "store_ok w"
  have put: "store_ok (w\<lparr>w_training_usage := upsert_row tu_key row (w_training_usage w)\<rparr>)"
    if "tu_tenant_id row \<in> tenant_ids w" for row
    using ok that by (simp add: store_ok_defs key_ok_upsert_row in_subset_image_upsert)
  have "tu_tenant_id old \<in> tenant_ids w" if "get_training_usage w t period = Some old" for old
    using row_map_Some [of tu_key "w_training_usage w" "(t, period)" old] that ok
    by (auto simp: store_ok_def references_ok_def get_training_usage_def)
  then show "store_ok (snd (increment_training_usage t period c b w))"
    using ok by (auto simp: increment_training_usage_def Let_def tenant_exists_iff put split: option.splits)
qed

lemma store_ok_create_invoice [preserve]: "preserves store_ok (create_invoice args)"
proof (rule preservesI)
  fix w assume ok: "store_ok w"
  let ?row = "args\<lparr>inv_id := w_next_invoice_id w\<rparr>"
  have "inv_id i \<noteq> w_next_invoice_id w" if "i \<in> set (w_invoices w)" for i
    using ok that by (auto simp: store_ok_def ids_ok_def)
  then have id: "row_map inv_id (w_invoices w) (inv_id ?row) = None"
    unfolding row_map_None by force
  have "store_ok (w\<lparr>w_invoices := w_invoices w @ [?row], w_next_invoice_id := w_next_invoice_id w + 1\<rparr>)"
    if "inv_tenant_id args \<in> tenant_ids w" "row_map inv_key (w_invoices w) (inv_key args) = None"
  proof -
    have "key_ok inv_key (w_invoices w @ [?row])" "key_ok inv_id (w_invoices w @ [?row])"
      using ok that id by (auto intro!: key_ok_append1 simp: store_ok_def unique_ok_def inv_key_def)
    with ok that show ?thesis by (auto simp: store_ok_defs)
  qed
  then show "store_ok (snd (create_invoice args w))"
    using ok by (auto simp: create_invoice_def tenant_exists_iff get_invoice_def inv_key_def Let_def)
qed

lemma store_ok_update_invoice_payment_status [preserve]:
  "preserves store_ok (update_invoice_payment_status i status m ty ls)"
proof (rule preservesI)
  fix w assume ok: "store_ok w"
  have put: "store_ok (w\<lparr>w_invoices := upsert_row inv_id row' (w_invoices w)\<rparr>)"
    if old: "row_map inv_id (w_invoices w) i = Some row" and same: "inv_id row' = inv_id row"
      "inv_tenant_id row' = inv_tenant_id row"
      and key: "inv_key row' = inv_key row \<or> row_map inv_key (w_invoices w) (inv_key row') = None" for row row'
  proof -
    have row: "row \<in> set (w_invoices w)" "inv_id row = i" using row_map_Some [OF old] by auto
    have "key_ok inv_key (upsert_row inv_id row' (w_invoices w))"
      using ok old same key row by (intro key_ok_upsert_other_key) (auto simp: store_ok_def unique_ok_def)
    moreover have "inv_tenant_id ` set (upsert_row inv_id row' (w_invoices w)) \<subseteq> tenant_ids w"
      using ok row same by (intro in_subset_image_upsert) (auto simp: store_ok_def references_ok_def)
    moreover have "\<forall>x \<in> set (upsert_row inv_id row' (w_invoices w)). inv_id x < w_next_invoice_id w"
      using ok row same by (auto simp: store_ok_def ids_ok_def dest: set_upsert_row)
    ultimately show ?thesis using ok by (simp add: store_ok_defs key_ok_upsert_row)
  qed
  then show "store_ok (snd (update_invoice_payment_status i status m ty ls w))"
    using ok
    by (cases "row_map inv_id (w_invoices w) i")
       (auto simp: update_invoice_payment_status_def Let_def put)
qed

lemma store_ok_record_payment_event_once [preserve]:
  "preserves store_ok (record_payment_event_once provider eid ty t payload)"
proof (rule preservesI)
  fix w assume ok: "store_ok w"
  have put: "store_ok (w\<lparr>w_payment_events := w_payment_events w @ [row],
                    w_next_event_id := w_next_event_id w + 1\<rparr>)"
    if "pe_id row = w_next_event_id w" "\<forall>t. pe_tenant_id row = Some t \<longrightarrow> t \<in> tenant_ids w"
      "row_map pe_key (w_payment_events w) (pe_key row) = None" for row
  proof -
    have "\<forall>x \<in> set (w_payment_events w). pe_id x < w_next_event_id w + 1"
      using ok by (auto simp: store_ok_def ids_ok_def)
    moreover have "key_ok pe_key (w_payment_events w @ [row])"
      using ok that by (intro key_ok_append1) (simp_all add: store_ok_def unique_ok_def)
    ultimately show ?thesis using ok that by (simp add: store_ok_defs)
  qed
  then show "store_ok (snd (record_payment_event_once provider eid ty t payload w))"
    using ok
    by (simp add: record_payment_event_once_def Let_def insert_once_def tenant_exists_iff
        split: option.splits)
qed

lemma store_ok_put_cancellations:
  assumes "store_ok w" "key_ok cx_id tbl" "\<forall>c \<in> set tbl. cx_id c < n"
    "cx_tenant_id ` set tbl \<subseteq> tenant_ids w"
  shows "store_ok (w\<lparr>w_cancellations := tbl, w_next_cancellation_id := n\<rparr>)"
  using assms by (simp add: store_ok_defs)

lemma store_ok_create_cancellation_request [preserve]:
  "preserves store_ok (create_cancellation_request t slug user rc rt kbs st ea da)"
proof (rule preservesI)
  fix w assume ok: "store_ok w"
  have "store_ok (w\<lparr>w_cancellations := w_cancellations w @ [row],
      w_next_cancellation_id := w_next_cancellation_id w + 1\<rparr>)"
    if "cx_id row = w_next_cancellation_id w" "cx_tenant_id row \<in> tenant_ids w" for row
  proof (rule store_ok_put_cancellations [OF ok])
    have less: "\<forall>c \<in> set (w_cancellations w). cx_id c < w_next_cancellation_id w"
      using ok by (simp add: store_ok_def ids_ok_def)
    then have "row_map cx_id (w_cancellations w) (cx_id row) = None"
      using that unfolding row_map_None by force
    then show "key_ok cx_id (w_cancellations w @ [row])"
      using ok by (intro key_ok_append1) (simp_all add: store_ok_def unique_ok_def)
    show "\<forall>c \<in> set (w_cancellations w @ [row]). cx_id c < w_next_cancellation_id w + 1"
      using less that by fastforce
    show "cx_tenant_id ` set (w_cancellations w @ [row]) \<subseteq> tenant_ids w"
      using ok that by (simp add: store_ok_def references_ok_def)
  qed
  with ok show "store_ok (snd (create_cancellation_request t slug user rc rt kbs st ea da w))"
    by (simp add: create_cancellation_request_def Let_def tenant_exists_iff)
qed

lemma store_ok_update_cancellations:
  assumes "\<And>r. cx_id (f r) = cx_id r" "\<And>r. cx_tenant_id (f r) = cx_tenant_id r"
  shows "preserves store_ok (update_cancellations p f)"
proof (rule preservesI)
  fix w assume ok: "store_ok w"
  let ?tbl = "update_where p f (w_cancellations w)"
  have src: "\<exists>c \<in> set (w_cancellations w). cx_id x = cx_id c \<and> cx_tenant_id x = cx_tenant_id c"
    if "x \<in> set ?tbl" for x
    using that assms by (auto simp: set_update_where)
  have "store_ok (w\<lparr>w_cancellations := ?tbl, w_next_cancellation_id := w_next_cancellation_id w\<rparr>)"
  proof (rule store_ok_put_cancellations [OF ok])
    show "key_ok cx_id ?tbl"
      using ok by (simp add: key_ok_update_where assms store_ok_def unique_ok_def)
    show "\<forall>c \<in> set ?tbl. cx_id c < w_next_cancellation_id w"
      using store_ok_refs(6) [OF ok] src by metis
    show "cx_tenant_id ` set ?tbl \<subseteq> tenant_ids w"
      using store_ok_refs(3) [OF ok] src by (metis image_subsetI)
  qed
  then show "store_ok (snd (update_cancellations p f w))"
    by (simp add: update_cancellations_def sql_update_def)
qed

lemma store_ok_marks [preserve]:
  "preserves store_ok (mark_cancellation_notice_two_days_sent i t)"
  "preserves store_ok (mark_cancellation_notice_one_day_sent i t)"
  "preserves store_ok (mark_cancellation_notice_expired_sent i t)"
  "preserves store_ok (mark_cancellation_deactivated i t)"
  "preserves store_ok (mark_cancellation_cleanup_completed i t)"
  by (simp_all add: mark_cancellation_notice_two_days_sent_def mark_cancellation_notice_one_day_sent_def
      mark_cancellation_notice_expired_sent_def mark_cancellation_deactivated_def
      mark_cancellation_cleanup_completed_def store_ok_update_cancellations)

lemma store_ok_restore_latest_cancellation_request [preserve]:
  "preserves store_ok (restore_latest_cancellation_request t restored_at)"
proof (rule preservesI)
  fix w assume ok: "store_ok w"
  note upd = preservesD [OF store_ok_update_cancellations ok]
  show "store_ok (snd (restore_latest_cancellation_request t restored_at w))"
    unfolding restore_latest_cancellation_request_def
    using ok by (auto split: option.splits intro!: upd)
qed

lemma image_filter_subset:
  "f ` set xs \<subseteq> g ` set ys \<Longrightarrow> f ` set (filter (\<lambda>r. f r \<noteq> t) xs) \<subseteq> g ` set (filter (\<lambda>r. g r \<noteq> t) ys)"
  by fastforce

lemma counts_ok_empty [simp]: "counts_ok [] [] []"
  by (simp add: counts_ok_def total_count_def user_count_def event_count_def row_map_def)

lemma total_count_delete:
  "total_count (filter (\<lambda>r. qt_tenant_id r \<noteq> t) totals) t' p = (if t' = t then 0 else total_count totals t' p)"
proof -
  have "find (\<lambda>r. qt_key r = (t', p)) (filter (\<lambda>r. qt_tenant_id r \<noteq> t) totals) =
      (if t' = t then None else find (\<lambda>r. qt_key r = (t', p)) totals)"
    by (induction totals) (auto simp: qt_key_def)
  then show ?thesis by (simp add: total_count_def row_map_def)
qed

lemma counts_ok_delete:
  assumes "counts_ok totals usage events"
  shows "counts_ok (filter (\<lambda>r. qt_tenant_id r \<noteq> t) totals) (filter (\<lambda>r. qu_tenant_id r \<noteq> t) usage)
    (filter (\<lambda>e. te_tenant_id e \<noteq> t) events)"
proof -
  have user: "user_count (filter (\<lambda>r. qu_tenant_id r \<noteq> t) usage) t' p = (if t' = t then 0 else user_count usage t' p)" for t' p
    by (cases "t' = t") (auto simp: user_count_def intro!: arg_cong [of _ _ "\<lambda>xs. sum_list (map _ xs)"] filter_cong)
  have event: "event_count (filter (\<lambda>e. te_tenant_id e \<noteq> t) events) t' p = (if t' = t then 0 else event_count events t' p)" for t' p
    by (cases "t' = t") (auto simp: event_count_def intro!: arg_cong [of _ _ "\<lambda>xs. sum_list (map _ xs)"] filter_cong)
  show ?thesis using assms unfolding counts_ok_def total_count_delete user event by auto
qed

lemma store_ok_hard_delete_tenant [preserve]: "preserves store_ok (hard_delete_tenant t)"
proof (rule preservesI)
  fix w assume ok: "store_ok w"
  let ?w = "snd (hard_delete_tenant t w)"
  have "unique_ok ?w"
    using ok by (simp add: hard_delete_tenant_def store_ok_def unique_ok_def key_ok_filter)
  moreover have "ids_ok ?w"
    using ok by (simp add: hard_delete_tenant_def store_ok_def ids_ok_def)
  moreover have "\<forall>e \<in> set (w_payment_events ?w). \<forall>x. pe_tenant_id e = Some x \<longrightarrow> x \<in> tenant_ids ?w"
    using ok by (fastforce simp: hard_delete_tenant_def store_ok_def references_ok_def tenant_ids_def)
  then have "references_ok ?w"
    using ok by (simp add: hard_delete_tenant_def store_ok_def references_ok_def tenant_ids_def
        image_filter_subset del: set_filter)
  moreover have "counts_ok (w_question_totals ?w) (w_traffic_usage ?w) (w_traffic_events ?w)"
    using ok by (simp add: hard_delete_tenant_def store_ok_def counts_ok_delete)
  ultimately show "store_ok ?w" by (simp add: store_ok_def)
qed

lemma store_ok_create_config [preserve]: "preserves store_ok (create_config t package flags limits)"
proof (rule preservesI)
  fix w assume ok: "store_ok w"
  have "c \<in> set (w_tenant_configs w) \<and> tc_tenant_id c = t" if "get_tenant_config w t = Some c" for c
    using that by (auto simp: get_tenant_config_def dest: row_map_Some)
  then have "t \<in> tenant_ids w" if "get_tenant_config w t \<noteq> None"
    using that store_ok_refs(4) [OF ok] by (metis option.exhaust)
  moreover have "store_ok (w\<lparr>w_tenant_configs := upsert_row tc_tenant_id row (w_tenant_configs w)\<rparr>)"
    if "tc_tenant_id row \<in> tenant_ids w" for row
    using ok that by (simp add: store_ok_defs key_ok_upsert_row in_subset_image_upsert)
  ultimately show "store_ok (snd (create_config t package flags limits w))"
    using ok by (simp add: create_config_def Let_def tenant_exists_iff)
qed

end
