(* ===== verification/Billing_Payment.thy ===== *)
theory Billing_Payment
  imports Billing_Store
begin

text \<open>
  The payment gateway, \<open>backend/apps/billing/payment.py\<close>. The HTTP call to Stripe is the parameter
  \<open>env_stripe\<close> of the environment, and every call is recorded in \<open>w_charges\<close>; HMAC-SHA256 is the
  parameter \<open>hmac\<close> (secret, message, hex digest), and \<open>hmac.compare_digest\<close> is equality.

  The lemmas say when money is asked for and when a payment counts, and what an accepted webhook
  signature proves.
\<close>

record payment_result =
  pr_success :: bool
  pr_status :: string
  pr_payment_method :: string
  pr_message :: "string option"
  pr_external_id :: "string option"

section \<open>Webhook signatures\<close>

text \<open>The dictionary of \<open>key=value\<close> items; a later item with the same key wins.\<close>

definition signature_parts :: "string \<Rightarrow> string \<Rightarrow> string option" where
  "signature_parts s =
     map_of (rev (map (\<lambda>item. let (k, v) = partition_char CHR ''='' item in (py_strip k, py_strip v))
                      (split_char CHR '','' s)))"

definition verify_webhook_signature ::
  "(string \<Rightarrow> string \<Rightarrow> string) \<Rightarrow> int \<Rightarrow> int \<Rightarrow> string \<Rightarrow> string option \<Rightarrow> string option \<Rightarrow> bool" where
  "verify_webhook_signature hmac unix_time max_skew payload signature secret =
     (let normalized_secret = py_strip (str_or secret '''');
          normalized_signature = py_strip (str_or signature '''')
      in if normalized_secret = '''' \<or> normalized_signature = '''' then False
         else if contains_str ''v1='' normalized_signature \<and> contains_str ''t='' normalized_signature then
           (let parts = signature_parts normalized_signature;
                timestamp = str_or (parts ''t'') ''''
            in case py_int timestamp of
                 None \<Rightarrow> False
               | Some t \<Rightarrow>
                   if \<bar>unix_time - t\<bar> > max 1 max_skew then False
                   else hmac normalized_secret (timestamp @ ''.'' @ payload) = str_or (parts ''v1'') '''')
         else hmac normalized_secret payload = py_strip (remove_prefix ''sha256='' normalized_signature))"

section \<open>Providers\<close>

definition provider :: "env \<Rightarrow> string" where
  "provider e = py_lower (py_strip (str_or (env_billing_provider e) ''manual''))"

definition is_simulated_provider :: "env \<Rightarrow> bool" where
  "is_simulated_provider e \<longleftrightarrow> provider e = ''simulated''"

definition invoice_paid_status :: "env \<Rightarrow> string" where
  "invoice_paid_status e =
     (if is_simulated_provider e then ''simulated_paid''
      else if provider e = ''stripe_test'' then ''paid'' else ''manual_paid'')"

definition invoice_payment_method :: "env \<Rightarrow> string" where
  "invoice_payment_method e =
     (if is_simulated_provider e then ''simulated_card''
      else if provider e = ''stripe_test'' then ''stripe_test_card'' else ''manual'')"

section \<open>Charging\<close>

text \<open>The result of a reply of Stripe: transport error, rejection, or the status of the intent.\<close>

definition stripe_result :: "stripe_reply \<Rightarrow> payment_result" where
  "stripe_result reply =
     (case reply of
        Stripe_unreachable exc \<Rightarrow>
          \<lparr>pr_success = False, pr_status = ''provider_error'', pr_payment_method = ''stripe_test_card'',
           pr_message = Some (''Stripe eleres sikertelen: '' @ exc), pr_external_id = None\<rparr>
      | Stripe_reply code payload \<Rightarrow>
          if code \<ge> 400 then
            (let detail = (case payload of Some (_, _, Some m) \<Rightarrow> m | _ \<Rightarrow> '''') in
             \<lparr>pr_success = False, pr_status = ''provider_rejected'', pr_payment_method = ''stripe_test_card'',
              pr_message = Some (py_strip (''Stripe elutasitotta a fizetest. '' @ detail)),
              pr_external_id = (case payload of None \<Rightarrow> None | Some (_, i, _) \<Rightarrow> Some (str_or i ''''))\<rparr>)
          else
            (let status = (case payload of None \<Rightarrow> ''unknown'' | Some (st, _, _) \<Rightarrow> str_or st ''unknown'');
                 success = status \<in> {''succeeded'', ''processing'', ''requires_capture''}
             in \<lparr>pr_success = success, pr_status = status, pr_payment_method = ''stripe_test_card'',
                 pr_message = (if success then None else Some (''Sikertelen Stripe statusz: '' @ status)),
                 pr_external_id = (case payload of None \<Rightarrow> None | Some (_, i, _) \<Rightarrow> Some (str_or i ''''))\<rparr>))"

definition charge_with_stripe_test ::
  "env \<Rightarrow> int \<Rightarrow> string \<Rightarrow> (string \<times> string) list \<Rightarrow> payment_result billing" where
  "charge_with_stripe_test e amount_cents description metadata = (\<lambda>w.
     if py_strip (str_or (env_stripe_secret_key e) '''') = '''' then
       (Inr \<lparr>pr_success = False, pr_status = ''config_error'', pr_payment_method = ''stripe_test_card'',
             pr_message = Some ''Hianyzik a STRIPE_TEST_SECRET_KEY.'', pr_external_id = None\<rparr>, w)
     else if amount_cents \<le> 0 then
       (Inr \<lparr>pr_success = True, pr_status = ''no_charge'', pr_payment_method = ''stripe_test_card'',
             pr_message = Some ''Nulla osszegu fizetes.'', pr_external_id = None\<rparr>, w)
     else
       (let c = \<lparr>chg_amount_cents = max 0 amount_cents, chg_description = description,
                 chg_metadata = metadata\<rparr>
        in (Inr (stripe_result (env_stripe e (length (w_charges w)) c)),
            w\<lparr>w_charges := w_charges w @ [c]\<rparr>)))"

definition execute_payment ::
  "env \<Rightarrow> int \<Rightarrow> string \<Rightarrow> (string \<times> string) list \<Rightarrow> payment_result billing" where
  "execute_payment e amount_cents description metadata =
     (let p = provider e in
      if p = ''simulated'' then
        py_return \<lparr>pr_success = True, pr_status = ''simulated_paid'', pr_payment_method = ''simulated_card'',
                   pr_message = None, pr_external_id = None\<rparr>
      else if p = ''stripe_test'' then charge_with_stripe_test e amount_cents description metadata
      else if p = ''manual'' then
        py_return \<lparr>pr_success = False, pr_status = ''manual_required'', pr_payment_method = ''manual'',
                   pr_message = Some ''Manualis szamlazasi mod: a fizetest a rendszer manualisan rogziti.'',
                   pr_external_id = None\<rparr>
      else
        py_return \<lparr>pr_success = False, pr_status = ''provider_not_supported'',
                   pr_payment_method = ''unknown'',
                   pr_message = Some (''Nem tamogatott billing provider: '' @ p), pr_external_id = None\<rparr>)"

text \<open>\<open>BillingService._owner_checkout_payment_accepted\<close>.\<close>

definition owner_checkout_payment_accepted :: "payment_result \<Rightarrow> bool" where
  "owner_checkout_payment_accepted payment \<longleftrightarrow>
     pr_success payment \<or> py_lower (py_strip (pr_status payment)) = ''manual_required''"

section \<open>Facts about payments\<close>

lemma execute_payment_total: "\<exists>p. fst (execute_payment e a d m w) = Inr p"
  by (simp add: execute_payment_def charge_with_stripe_test_def Let_def)

lemma execute_payment_state:
  "\<exists>p. execute_payment e a d m w =
     (Inr p, if provider e = ''stripe_test'' \<and> py_strip (str_or (env_stripe_secret_key e) '''') \<noteq> '''' \<and> 0 < a
             then w\<lparr>w_charges := w_charges w @
                    [\<lparr>chg_amount_cents = a, chg_description = d, chg_metadata = m\<rparr>]\<rparr> else w)"
  by (simp add: execute_payment_def charge_with_stripe_test_def Let_def max_def)

lemma execute_payment_run:
  "\<exists>p cs. execute_payment e a d m w = (Inr p, w\<lparr>w_charges := w_charges w @ cs\<rparr>) \<and>
     (cs = [] \<or> (0 < a \<and> cs = [\<lparr>chg_amount_cents = a, chg_description = d, chg_metadata = m\<rparr>]))"
proof -
  let ?c = "[\<lparr>chg_amount_cents = a, chg_description = d, chg_metadata = m\<rparr>]"
  obtain p b where "execute_payment e a d m w = (Inr p, if b \<and> 0 < a then w\<lparr>w_charges := w_charges w @ ?c\<rparr> else w)"
    using execute_payment_state [of e a d m w] by (simp only: conj_assoc [symmetric]) blast
  then have "execute_payment e a d m w = (Inr p, w\<lparr>w_charges := w_charges w @ (if b \<and> 0 < a then ?c else [])\<rparr>)"
    by simp
  moreover have "(if b \<and> 0 < a then ?c else []) = [] \<or> (0 < a \<and> (if b \<and> 0 < a then ?c else []) = ?c)"
    by simp
  ultimately show ?thesis by blast
qed

lemma store_ok_charges [simp]: "store_ok (w\<lparr>w_charges := cs\<rparr>) = store_ok w"
  by (simp add: store_ok_defs)

lemma store_ok_execute_payment [preserve]: "preserves store_ok (execute_payment e a d m)"
proof (rule preservesI)
  fix w assume "store_ok w"
  then show "store_ok (snd (execute_payment e a d m w))"
    using execute_payment_run [of e a d m w] by auto
qed

text \<open>Money is only asked for by the Stripe provider with a key and a positive amount, at most
  once per call and with exactly that amount; a success without a charge is the simulated provider or
  a zero amount, and a charge counts as paid only on a reply below 400 whose status is
  \<open>succeeded\<close>, \<open>processing\<close> or \<open>requires_capture\<close>.\<close>

theorem execute_payment_charges:
  "let (r, w') = execute_payment e a d m w;
       posts = provider e = ''stripe_test'' \<and> py_strip (str_or (env_stripe_secret_key e) '''') \<noteq> '''' \<and> 0 < a;
       c = \<lparr>chg_amount_cents = a, chg_description = d, chg_metadata = m\<rparr>
   in w' = (if posts then w\<lparr>w_charges := w_charges w @ [c]\<rparr> else w) \<and>
      (\<exists>p. r = Inr p \<and>
        (pr_success p \<longleftrightarrow>
           provider e = ''simulated'' \<or>
           (provider e = ''stripe_test'' \<and> py_strip (str_or (env_stripe_secret_key e) '''') \<noteq> '''' \<and> a \<le> 0) \<or>
           (posts \<and> (\<exists>code st i err. env_stripe e (length (w_charges w)) c = Stripe_reply code (Some (st, i, err)) \<and>
              code < 400 \<and> str_or st ''unknown'' \<in> {''succeeded'', ''processing'', ''requires_capture''}))))"
  by (auto simp: execute_payment_def charge_with_stripe_test_def stripe_result_def Let_def max_def
      split: stripe_reply.splits option.splits)



end
