(* ===== verification/Billing_Usage.thy ===== *)
theory Billing_Usage
  imports Billing_Payment
begin

text \<open>
  The reading side of \<open>BillingService\<close> (\<open>backend/apps/billing/service.py\<close>) and the operations every
  other one calls: the subscription of a tenant, its limits, what it used, when it is due and what the
  next invoice costs, and \<open>shared/billing/tenant_ingest_usage.py\<close>.

  \<open>percent_used\<close> is computed on the exact quotient; the source rounds the float quotient.
  ISO dates are read in the form \<open>YYYY-MM-DD\<close> that the service writes.
\<close>

section \<open>Catalog and statuses\<close>

definition plan_map_of :: "world \<Rightarrow> plan_map" where
  "plan_map_of w = plan_map_from_catalog (repo_list_catalog w)"

definition addon_map_of :: "world \<Rightarrow> addon_map" where
  "addon_map_of w = addon_map_from_catalog (repo_list_catalog w)"

text \<open>\<open>plans.values()\<close>, in the order of the catalog.\<close>

definition plan_values :: "world \<Rightarrow> billing_plan list" where
  "plan_values w = map plan_of_row (filter (\<lambda>r. cr_entry_type r = ''plan'') (repo_list_catalog w))"

text \<open>\<open>self._plan_map().get(code) or self._plan_map()["free"]\<close>.\<close>

definition plan_for :: "string \<Rightarrow> billing_plan billing" where
  "plan_for code = (\<lambda>w. (plan_or_free (plan_map_of w) code, w))"

datatype subscription_status = TRIAL | ACTIVE | RESTRICTED

definition status_value :: "subscription_status \<Rightarrow> string" where
  "status_value s = (case s of TRIAL \<Rightarrow> ''trial'' | ACTIVE \<Rightarrow> ''active'' | RESTRICTED \<Rightarrow> ''restricted'')"

definition normalize_billing_period :: "string option \<Rightarrow> string" where
  "normalize_billing_period v =
     (let normalized = py_lower (py_strip (str_or v ''monthly'')) in
      if normalized \<notin> {''monthly'', ''quarterly'', ''yearly''} then ''monthly'' else normalized)"

section \<open>Resources of a tenant schema\<close>

definition query_tenant_ingest_usage :: "tenant_schema option \<Rightarrow> int \<times> int" where
  "query_tenant_ingest_usage schema =
     (case schema of
        None \<Rightarrow> (0, 0)
      | Some sc \<Rightarrow>
          (case (sc_knowledge_bases sc, sc_ingest_items sc) of
             (Some kbs, Some items) \<Rightarrow>
               (let joined = concat (map (\<lambda>i. map (\<lambda>_. i)
                      (filter (\<lambda>kb. kb_uuid kb = it_knowledge_base_id i \<and> \<not> kb_deleted kb) kbs))
                      (filter (\<lambda>i. it_status i \<notin> {''rejected'', ''failed''}) items));
                    num = (\<lambda>x. case x of None \<Rightarrow> 0 | Some n \<Rightarrow> n)
                in (sum_list (map (\<lambda>i. num (it_size_bytes i)) joined),
                    sum_list (map (\<lambda>i. num (it_char_count i)) joined)))
           | _ \<Rightarrow> (0, 0)))"

record resources =
  rs_users :: int
  rs_knowledge_bases :: int
  rs_storage_bytes :: int
  rs_storage_gb_used_rounded :: int

definition no_resources :: resources where
  "no_resources = \<lparr>rs_users = 0, rs_knowledge_bases = 0, rs_storage_bytes = 0,
                   rs_storage_gb_used_rounded = 0\<rparr>"

definition count_resources :: "tenant_schema \<Rightarrow> resources" where
  "count_resources sc =
     (let storage_bytes = fst (query_tenant_ingest_usage (Some sc)) in
      \<lparr>rs_users = int (length (filter (\<lambda>u. \<not> ur_deleted u) (sc_users sc))),
       rs_knowledge_bases = (case sc_knowledge_bases sc of None \<Rightarrow> 0
          | Some kbs \<Rightarrow> int (length (filter (\<lambda>kb. \<not> kb_deleted kb) kbs))),
       rs_storage_bytes = storage_bytes,
       rs_storage_gb_used_rounded = round_storage_gb (Some storage_bytes)\<rparr>)"

text \<open>In the schema of the request; without its \<open>users\<close> table the query fails.\<close>

definition load_resource_counts :: "resources billing" where
  "load_resource_counts = (\<lambda>w.
     case w_schemas w (w_current_schema w) of
       None \<Rightarrow> (Inl (Database_error ''users''), w)
     | Some sc \<Rightarrow> (Inr (count_resources sc), w))"

text \<open>\<open>TENANT_SLUG_RE.fullmatch\<close>.\<close>

definition slug_char :: "char \<Rightarrow> bool" where
  "slug_char c \<longleftrightarrow>
     (let n = of_char c :: nat in (97 \<le> n \<and> n \<le> 122) \<or> (48 \<le> n \<and> n \<le> 57))"

definition tenant_slug_ok :: "string \<Rightarrow> bool" where
  "tenant_slug_ok s \<longleftrightarrow>
     (case s of [] \<Rightarrow> False
      | c # cs \<Rightarrow> slug_char c \<and> length cs \<le> 62 \<and> list_all (\<lambda>x. slug_char x \<or> x = CHR ''-'') cs)"

definition load_resource_counts_for_tenant :: "world \<Rightarrow> string \<Rightarrow> resources" where
  "load_resource_counts_for_tenant w tenant_slug =
     (let normalized_slug = py_lower (py_strip tenant_slug) in
      if \<not> tenant_slug_ok normalized_slug then no_resources
      else (case w_schemas w normalized_slug of None \<Rightarrow> no_resources | Some sc \<Rightarrow> count_resources sc))"

definition owner_email_for_tenant_slug :: "world \<Rightarrow> string \<Rightarrow> string option" where
  "owner_email_for_tenant_slug w tenant_slug =
     (let normalized_slug = py_lower (py_strip tenant_slug) in
      if \<not> tenant_slug_ok normalized_slug then None
      else (case w_schemas w normalized_slug of
              None \<Rightarrow> None
            | Some sc \<Rightarrow>
                (case sort_key ur_id (filter (\<lambda>u. \<not> ur_deleted u \<and> ur_role u = ''owner'') (sc_users sc)) of
                   [] \<Rightarrow> None
                 | owner # _ \<Rightarrow> strip_opt (Some (ur_email owner)))))"

section \<open>Limits\<close>

definition training_addon_line_chars :: "addon_map \<Rightarrow> jdict \<Rightarrow> int" where
  "training_addon_line_chars addons line =
     (let code = py_strip (jstr (jget line ''code'') '''') in
      if code \<notin> {''training_initial_500k'', ''training_extra_500k''} then 0
      else let chars = (case addons code of None \<Rightarrow> 1000000
                        | Some a \<Rightarrow> jint_or (ba_metadata a ''training_chars'') 1000000);
               quantity = max 1 (jint_or (jget line ''quantity'') 1)
           in max 0 chars * quantity)"

definition training_addon_invoice_chars :: "world \<Rightarrow> int \<Rightarrow> int" where
  "training_addon_invoice_chars w tenant_id =
     sum_list (map (training_addon_line_chars (addon_map_of w))
       (concat (map inv_lines (list_training_addon_invoices w tenant_id))))"

definition available_training_chars :: "subscription \<Rightarrow> int billing" where
  "available_training_chars sub =
     py_bind (plan_for (sub_plan_code sub)) (\<lambda>plan.
     py_bind (py_gets (\<lambda>w. training_addon_invoice_chars w (sub_tenant_id sub))) (\<lambda>invoice_addon_chars.
     py_return (max (max (max 0 (bp_included_training_chars plan)) (max 0 (sub_carryover_training_chars sub)))
                    (max 0 (bp_included_training_chars plan) + invoice_addon_chars))))"

definition build_limits :: "subscription \<Rightarrow> billing_limits billing" where
  "build_limits sub =
     py_bind (plan_for (sub_plan_code sub)) (\<lambda>plan.
     py_bind (available_training_chars sub) (\<lambda>chars.
     py_return \<lparr>lim_max_users = bp_max_users plan,
       lim_knowledge_bases = bp_included_kbs plan + sub_extra_kb_count sub,
       lim_storage_gb = bp_included_storage_gb plan + sub_extra_storage_gb sub,
       lim_questions_monthly = bp_included_questions_monthly plan,
       lim_addon_questions_carryover = sub_carryover_addon_questions sub,
       lim_training_chars_available = chars,
       lim_trial_days = bp_trial_days plan\<rparr>))"

text \<open>\<open>{**flags, "billing_enabled": True}\<close>.\<close>

definition merge_flag :: "(string \<times> bool) list \<Rightarrow> string \<Rightarrow> bool \<Rightarrow> (string \<times> bool) list" where
  "merge_flag flags k v = upsert_row fst (k, v) flags"

definition sync_tenant_config :: "tenant_snapshot \<Rightarrow> subscription \<Rightarrow> unit billing" where
  "sync_tenant_config tenant sub =
     py_bind (build_limits sub) (\<lambda>limits.
     py_bind (py_gets (\<lambda>w. case get_tenant_config w (ts_tenant_id tenant) of
                              None \<Rightarrow> [] | Some cfg \<Rightarrow> tc_feature_flags cfg)) (\<lambda>prev_flags.
     create_config (ts_tenant_id tenant) (sub_plan_code sub)
       (merge_flag prev_flags ''billing_enabled'' True) (Some limits)))"

section \<open>Subscriptions\<close>

definition new_subscription :: "string \<Rightarrow> string \<Rightarrow> string \<Rightarrow> datetime option \<Rightarrow> datetime option \<Rightarrow> int \<Rightarrow> subscription" where
  "new_subscription plan_code billing_period status trial_started_at trial_ends_at training_chars =
     \<lparr>sub_tenant_id = 0, sub_plan_code = plan_code, sub_billing_period = billing_period,
      sub_status = status, sub_trial_started_at = trial_started_at, sub_trial_ends_at = trial_ends_at,
      sub_extra_kb_count = 0, sub_extra_storage_gb = 0, sub_carryover_addon_questions = 0,
      sub_carryover_training_chars = training_chars, sub_scheduled_plan_code = None,
      sub_scheduled_billing_period = None, sub_scheduled_change_effective_period = None,
      sub_question_warning_period_key = None, sub_question_warning_level = 0, sub_created_at = 0,
      sub_updated_at = 0\<rparr>"

definition free_plan :: "billing_plan billing" where
  "free_plan = (\<lambda>w. (case plan_map_of w ''free'' of
     None \<Rightarrow> Inl (Key_error ''free'') | Some p \<Rightarrow> Inr p, w))"

definition ensure_subscription :: "tenant_snapshot \<Rightarrow> subscription billing" where
  "ensure_subscription tenant =
     py_bind (py_gets (\<lambda>w. get_subscription w (ts_tenant_id tenant))) (\<lambda>existing.
     case existing of
       Some sub \<Rightarrow> py_return sub
     | None \<Rightarrow>
         py_bind free_plan (\<lambda>plan.
         py_bind (py_gets clock_now) (\<lambda>now.
         let trial_started_at = (case ts_created_at tenant of None \<Rightarrow> now | Some t \<Rightarrow> t);
             trial_ends_at = trial_started_at + days (bp_trial_days plan) in
         py_bind (upsert_subscription (ts_tenant_id tenant)
           (new_subscription ''free'' ''monthly'' (status_value TRIAL) (Some trial_started_at)
              (Some trial_ends_at) (bp_included_training_chars plan))) (\<lambda>subscription.
         py_seq (sync_tenant_config tenant subscription) (py_return subscription)))))"

definition set_signup_subscription :: "int \<Rightarrow> string \<Rightarrow> string \<Rightarrow> string option \<Rightarrow> unit billing" where
  "set_signup_subscription tenant_id slug plan_code billing_period =
     py_bind (plan_for plan_code) (\<lambda>plan.
     py_bind (py_gets clock_now) (\<lambda>now.
     let status = (if bp_code plan = ''free'' then status_value TRIAL else status_value ACTIVE);
         trial_ends_at = (if bp_trial_days plan \<noteq> 0 then Some (now + days (bp_trial_days plan)) else None) in
     py_bind (upsert_subscription tenant_id
        (new_subscription (bp_code plan) (normalize_billing_period billing_period) status
           (if bp_trial_days plan \<noteq> 0 then Some now else None) trial_ends_at
           (bp_included_training_chars plan))) (\<lambda>sub.
     py_bind (py_gets (\<lambda>w. get_snapshot_by_slug w slug)) (\<lambda>snapshot.
     case snapshot of None \<Rightarrow> py_return () | Some tenant \<Rightarrow> sync_tenant_config tenant sub))))"

text \<open>\<open>_upsert_subscription_from_existing\<close>: the state payload of the row with the overrides.\<close>

definition upsert_subscription_from_existing ::
  "int \<Rightarrow> subscription \<Rightarrow> (subscription \<Rightarrow> subscription) \<Rightarrow> subscription billing" where
  "upsert_subscription_from_existing tenant_id subscription overrides =
     upsert_subscription tenant_id (overrides subscription)"

section \<open>Question quota\<close>

definition questions_used_in_period :: "world \<Rightarrow> int \<Rightarrow> string \<Rightarrow> int" where
  "questions_used_in_period w tenant_id period_key =
     (case row_map qt_key (w_question_totals w) (tenant_id, period_key) of
        Some row \<Rightarrow> max 0 (qt_question_count row)
      | None \<Rightarrow> sum_list (map qu_question_count (list_question_usage w tenant_id period_key)))"

definition questions_used_in_current_period :: "world \<Rightarrow> int \<Rightarrow> int" where
  "questions_used_in_current_period w tenant_id =
     questions_used_in_period w tenant_id (current_period_key w)"

record question_summary =
  qs_period_key :: string
  qs_used_total :: int
  qs_monthly_included :: int
  qs_remaining_included :: int
  qs_addon_carryover :: int
  qs_remaining_addons :: int
  qs_remaining_total :: int
  qs_available_total :: int
  qs_percent_used :: int

definition quota_summary :: "string \<Rightarrow> int \<Rightarrow> int \<Rightarrow> int \<Rightarrow> question_summary" where
  "quota_summary period_key used_total monthly_included addon_carryover =
     (let available_total = monthly_included + addon_carryover;
          consumed_from_addons = max 0 (used_total - monthly_included);
          percent = (if available_total > 0 then round_half_even (100 * used_total) available_total else 100)
      in \<lparr>qs_period_key = period_key, qs_used_total = used_total, qs_monthly_included = monthly_included,
          qs_remaining_included = max 0 (monthly_included - used_total),
          qs_addon_carryover = addon_carryover,
          qs_remaining_addons = max 0 (addon_carryover - consumed_from_addons),
          qs_remaining_total = max 0 (available_total - used_total),
          qs_available_total = available_total,
          qs_percent_used = max 0 (min 100 percent)\<rparr>)"

text \<open>The second result lists user, name, email and count; it reads the users of the request schema.\<close>

definition question_usage_summary ::
  "int \<Rightarrow> subscription \<Rightarrow> (question_summary \<times> (int \<times> string option \<times> string \<times> int) list) billing" where
  "question_usage_summary tenant_id subscription =
     py_bind (py_gets (\<lambda>w. (current_period_key w, list_question_usage w tenant_id (current_period_key w),
                            questions_used_in_current_period w tenant_id))) (\<lambda>(period_key, usage_rows, used_total).
     py_bind (plan_for (sub_plan_code subscription)) (\<lambda>plan.
     py_bind (\<lambda>w. (case w_schemas w (w_current_schema w) of
                      None \<Rightarrow> Inl (Database_error ''users'')
                    | Some sc \<Rightarrow> Inr (filter (\<lambda>u. \<not> ur_deleted u) (sc_users sc)), w)) (\<lambda>users.
     let by_user = map (\<lambda>row. case find (\<lambda>u. ur_id u = qu_user_id row) users of
            None \<Rightarrow> (qu_user_id row, None, '''', qu_question_count row)
          | Some u \<Rightarrow> (qu_user_id row, ur_name u, ur_email u, qu_question_count row)) usage_rows
     in py_return (quota_summary period_key used_total (bp_included_questions_monthly plan)
                     (sub_carryover_addon_questions subscription), by_user))))"

section \<open>Training quota\<close>

record training_summary =
  tr_trained_chars :: int
  tr_remaining :: int
  tr_available :: int
  tr_included :: int
  tr_addon :: int
  tr_storage_bytes :: int
  tr_storage_gb_used_rounded :: int
  tr_plan_code :: string
  tr_is_highest_tier :: bool
  tr_next_plan :: "billing_plan option"

definition training_usage_summary :: "int \<Rightarrow> subscription \<Rightarrow> training_summary billing" where
  "training_usage_summary tenant_id subscription =
     py_bind (py_gets (\<lambda>w. (get_training_usage w tenant_id (current_period_key w),
                            query_tenant_ingest_usage (w_schemas w (w_current_schema w)))))
       (\<lambda>(training, live_bytes, live_chars).
     let trained_chars = max (case training of None \<Rightarrow> 0 | Some t \<Rightarrow> tu_trained_chars t) live_chars;
         storage_bytes = max (case training of None \<Rightarrow> 0 | Some t \<Rightarrow> tu_storage_bytes t) live_bytes in
     py_bind (plan_for (sub_plan_code subscription)) (\<lambda>plan.
     py_bind (available_training_chars subscription) (\<lambda>available_chars.
     py_bind (py_gets plan_values) (\<lambda>plans.
     let included_chars = max 0 (bp_included_training_chars plan);
         higher_plans = sort_key bp_included_training_chars
           (filter (\<lambda>p. bp_included_training_chars p > included_chars) plans);
         next_plan = (case higher_plans of [] \<Rightarrow> None | p # _ \<Rightarrow> Some p)
     in py_return \<lparr>tr_trained_chars = trained_chars,
          tr_remaining = max 0 (available_chars - trained_chars), tr_available = available_chars,
          tr_included = included_chars, tr_addon = max 0 (available_chars - included_chars),
          tr_storage_bytes = storage_bytes,
          tr_storage_gb_used_rounded = round_storage_gb (Some storage_bytes), tr_plan_code = bp_code plan,
          tr_is_highest_tier = (next_plan = None), tr_next_plan = next_plan\<rparr>))))"

section \<open>Due dates\<close>

definition date_from_invoice_value :: "jval option \<Rightarrow> date option" where
  "date_from_invoice_value v =
     (case v of
        None \<Rightarrow> None
      | Some JNull \<Rightarrow> None
      | Some x \<Rightarrow>
          (let raw = py_strip (jval_str x) in
           if raw = '''' then None else fromisoformat (takeWhile (\<lambda>c. c \<noteq> CHR ''T'') raw)))"

fun first_some :: "('a \<Rightarrow> 'b option) \<Rightarrow> 'a list \<Rightarrow> 'b option" where
  "first_some f [] = None"
| "first_some f (x # xs) = (case f x of None \<Rightarrow> first_some f xs | Some y \<Rightarrow> Some y)"

definition coverage_date_from_invoice :: "invoice option \<Rightarrow> date option" where
  "coverage_date_from_invoice invoice =
     (case invoice of None \<Rightarrow> None
      | Some i \<Rightarrow> first_some (\<lambda>line. first_some (\<lambda>k. date_from_invoice_value (jget line k))
                               [''next_billing_date'', ''paid_until_iso'']) (inv_lines i))"

definition subscription_anchor_due_date :: "subscription \<Rightarrow> date option" where
  "subscription_anchor_due_date sub =
     (let anchor = (case sub_trial_started_at sub of Some t \<Rightarrow> t | None \<Rightarrow> sub_created_at sub)
      in Some (add_months_to_date (dt_date anchor) (billing_period_multiplier (sub_billing_period sub))))"

definition subscription_due_date :: "world \<Rightarrow> int \<Rightarrow> subscription \<Rightarrow> date \<Rightarrow> date" where
  "subscription_due_date w tenant_id sub fallback_date =
     (let paid = get_latest_invoice_for_type w tenant_id ''monthly_subscription'' in
      case sub_trial_ends_at sub of
        Some t \<Rightarrow> dt_date t
      | None \<Rightarrow>
          (case coverage_date_from_invoice paid of
             Some d \<Rightarrow> d
           | None \<Rightarrow>
               (case paid of
                  Some p \<Rightarrow> add_months_to_date (dt_date (inv_issued_at p))
                              (billing_period_multiplier (sub_billing_period sub))
                | None \<Rightarrow>
                    (case subscription_anchor_due_date sub of Some d \<Rightarrow> d | None \<Rightarrow> fallback_date))))"

definition subscription_coverage_window ::
  "world \<Rightarrow> int \<Rightarrow> subscription \<Rightarrow> date \<Rightarrow> date \<Rightarrow> date \<times> date" where
  "subscription_coverage_window w tenant_id sub fallback_start fallback_end =
     (let coverage_end = subscription_due_date w tenant_id sub fallback_end;
          plan_code = py_lower (py_strip (str_or (Some (sub_plan_code sub)) ''free'')) in
      if plan_code \<noteq> ''free'' \<and> sub_trial_ends_at sub \<noteq> None then
        (add_months_to_date coverage_end (- billing_period_multiplier (sub_billing_period sub)), coverage_end)
      else (case sub_trial_started_at sub of
              Some t \<Rightarrow> if plan_code = ''free'' then (dt_date t, coverage_end)
                        else (fallback_start, coverage_end)
            | None \<Rightarrow> (fallback_start, coverage_end)))"

definition billing_due_date :: "subscription \<Rightarrow> date \<Rightarrow> date" where
  "billing_due_date sub fallback_date =
     (case sub_trial_ends_at sub of
        Some t \<Rightarrow> dt_date t
      | None \<Rightarrow> (case subscription_anchor_due_date sub of Some d \<Rightarrow> d | None \<Rightarrow> fallback_date))"

definition next_billing_date_after :: "date \<Rightarrow> string \<Rightarrow> date" where
  "next_billing_date_after billing_date billing_period =
     add_months_to_date billing_date (billing_period_multiplier billing_period)"

definition subscription_period_key :: "date \<Rightarrow> string" where
  "subscription_period_key billing_date = isoformat billing_date"

section \<open>The next invoice\<close>

record estimate =
  es_discount_percent :: int
  es_period_multiplier :: int
  es_base_plan_cents :: int
  es_recurring_addons_cents :: int
  es_next_extra_storage_gb :: int
  es_current_extra_storage_gb :: int
  es_due_at :: date
  es_total_cents :: int
  es_plan_code :: string
  es_billing_period :: string

definition required_extra_storage_gb :: "subscription \<Rightarrow> resources option \<Rightarrow> int billing" where
  "required_extra_storage_gb sub resources =
     py_bind (plan_for (sub_plan_code sub)) (\<lambda>plan.
     py_bind (case resources of Some r \<Rightarrow> py_return r | None \<Rightarrow> load_resource_counts) (\<lambda>usage.
     let used_gb = max 0 (rs_storage_gb_used_rounded usage)
     in py_return (max 0 (used_gb - bp_included_storage_gb plan))))"

definition estimate_next_invoice :: "subscription \<Rightarrow> resources option \<Rightarrow> estimate billing" where
  "estimate_next_invoice sub resources =
     (let plan_code = str_or (Some (str_or (sub_scheduled_plan_code sub) (sub_plan_code sub))) ''free'';
          billing_period = str_or (Some (str_or (sub_scheduled_billing_period sub) (sub_billing_period sub))) ''monthly'' in
      py_bind (plan_for plan_code) (\<lambda>plan.
      py_bind (required_extra_storage_gb sub resources) (\<lambda>next_extra_storage_gb.
      py_bind (py_gets (\<lambda>w. subscription_due_date w (sub_tenant_id sub) sub (period_end_date w))) (\<lambda>due_at.
      let period_multiplier = billing_period_multiplier billing_period;
          base_monthly_cents = plan_monthly_charge_cents_after_discount (bp_price_cents plan) billing_period;
          recurring_monthly = sub_extra_kb_count sub * 500 + next_extra_storage_gb * 500;
          base_cents = base_monthly_cents * period_multiplier;
          recurring_addons_cents = recurring_monthly * period_multiplier
      in py_return \<lparr>es_discount_percent = discount_percent billing_period,
           es_period_multiplier = period_multiplier, es_base_plan_cents = base_cents,
           es_recurring_addons_cents = recurring_addons_cents,
           es_next_extra_storage_gb = next_extra_storage_gb,
           es_current_extra_storage_gb = sub_extra_storage_gb sub, es_due_at = due_at,
           es_total_cents = base_cents + recurring_addons_cents, es_plan_code = plan_code,
           es_billing_period = billing_period\<rparr>))))"

end
