(* ===== verification/Billing_Status.thy ===== *)
theory Billing_Status
  imports Billing_Usage
begin

text \<open>
  \<open>backend/apps/billing/workflows.py\<close>: the subscription state machine, the synchronisation of the
  stored status, the renewal, invoicing and cycle use cases, with the two service methods they
  call: \<open>apply_due_scheduled_plan_change\<close> and \<open>issue_subscription_payment_request\<close>.

  All datetimes are aware UTC values, so the \<open>TypeError\<close> branches that compare naive ones do not
  occur.
\<close>

definition payment_failure_deactivation_days :: int where
  "payment_failure_deactivation_days = 30"

section \<open>The state machine\<close>

definition resolve :: "datetime \<Rightarrow> subscription \<Rightarrow> invoice option \<Rightarrow> string" where
  "resolve current subscription overdue_invoice =
     (if (case overdue_invoice of None \<Rightarrow> False
          | Some i \<Rightarrow> inv_status i \<in> {''issued'', ''payment_failed''} \<and> dt_date (inv_due_at i) < dt_date current)
      then status_value RESTRICTED
      else if sub_plan_code subscription = ''free'' then
        (case sub_trial_ends_at subscription of
           Some t \<Rightarrow> if t \<le> current then status_value RESTRICTED else status_value TRIAL
         | None \<Rightarrow> status_value TRIAL)
      else status_value ACTIVE)"

section \<open>Synchronising the stored status\<close>

text \<open>The request whose effective instant has passed and which is not deactivated yet.\<close>

definition effective_cancellation :: "datetime \<Rightarrow> cancellation option \<Rightarrow> (cancellation \<times> datetime) option" where
  "effective_cancellation current cx =
     (case cx of
        None \<Rightarrow> None
      | Some c \<Rightarrow>
          if py_lower (cx_status c) \<noteq> ''deactivation_requested'' then None
          else (case cx_effective_at c of
                  None \<Rightarrow> None
                | Some eff \<Rightarrow> if cx_deactivated_at c = None \<and> eff \<le> current then Some (c, eff) else None))"

definition open_failed_invoice :: "invoice option \<Rightarrow> invoice option \<Rightarrow> invoice option" where
  "open_failed_invoice failed_invoice latest_monthly =
     (let open_failed = (case latest_monthly of None \<Rightarrow> None
            | Some m \<Rightarrow> if inv_status m = ''payment_failed'' then Some m else None)
      in case failed_invoice of
           None \<Rightarrow> open_failed
         | Some f \<Rightarrow>
             if inv_status f = ''payment_failed'' then
               (case open_failed of
                  None \<Rightarrow> Some f
                | Some m \<Rightarrow> if inv_issued_at f > inv_issued_at m then Some f else Some m)
             else open_failed)"

definition overdue_invoice_of :: "datetime \<Rightarrow> subscription \<Rightarrow> invoice option \<Rightarrow> invoice option \<Rightarrow> invoice option" where
  "overdue_invoice_of current subscription open_failed paid_invoice =
     (case open_failed of
        None \<Rightarrow> None
      | Some f \<Rightarrow>
          (let paid_after_failed =
                 (case paid_invoice of
                    None \<Rightarrow> False
                  | Some p \<Rightarrow> inv_status p \<in> {''paid'', ''simulated_paid'', ''manual_paid''} \<and>
                              inv_issued_at p > inv_issued_at f)
           in if \<not> paid_after_failed \<and> dt_date (inv_due_at f) < dt_date current
              then (if inv_issued_at f < sub_updated_at subscription then None else Some f)
              else None))"

definition sync_status :: "int \<Rightarrow> subscription \<Rightarrow> subscription billing" where
  "sync_status tenant_id subscription =
     py_bind (py_gets (\<lambda>w. (clock_now w, effective_cancellation (clock_now w)
                                (get_latest_cancellation_request w tenant_id)))) (\<lambda>(current, effective).
     py_seq
       (case effective of
          None \<Rightarrow> py_return ()
        | Some (c, eff) \<Rightarrow>
            if dt_date current \<ge> add_days (dt_date eff) 7 then
              py_seq (tenant_deactivate tenant_id None)
                (py_seq (mark_cancellation_deactivated (cx_id c) current) (py_return ()))
            else py_return ())
       (py_bind (py_gets (\<lambda>w.
          let latest_monthly = get_latest_invoice_for_type w tenant_id ''monthly_subscription'';
              failed_invoice = get_latest_invoice_for_type w tenant_id ''monthly_subscription_failed''
          in overdue_invoice_of current subscription
               (open_failed_invoice failed_invoice latest_monthly) latest_monthly)) (\<lambda>overdue_invoice.
        let next_status = (if effective \<noteq> None then status_value RESTRICTED
                           else resolve current subscription overdue_invoice) in
        py_seq
          (case overdue_invoice of
             None \<Rightarrow> py_return ()
           | Some i \<Rightarrow>
               if dt_date current \<ge> add_days (dt_date (inv_due_at i)) payment_failure_deactivation_days
               then tenant_deactivate tenant_id None else py_return ())
          (if next_status = sub_status subscription then py_return subscription
           else upsert_subscription_from_existing tenant_id subscription
                  (\<lambda>s. s\<lparr>sub_status := next_status\<rparr>)))))"

definition assert_not_restricted :: "int \<Rightarrow> subscription \<Rightarrow> (bool \<times> string option) billing" where
  "assert_not_restricted tenant_id subscription =
     py_bind (sync_status tenant_id subscription) (\<lambda>current.
     if sub_status current \<noteq> status_value RESTRICTED then py_return (True, None)
     else py_return (False, Some ''Az elofizetes korlatozott allapotban van.''))"

section \<open>Renewal\<close>

text \<open>Whether the key under \<open>scheduled_change_effective_period\<close> still lies ahead.\<close>

definition schedule_not_reached :: "date \<Rightarrow> string \<Rightarrow> bool" where
  "schedule_not_reached today effective =
     (if effective = '''' then False
      else if length effective \<ge> 10 \<and> effective ! 4 = CHR ''-'' \<and> effective ! 7 = CHR ''-'' then
        (case fromisoformat (take 10 effective) of None \<Rightarrow> False | Some d \<Rightarrow> today < d)
      else if length effective = 7 \<and> effective ! 4 = CHR ''-'' then
        (case (py_int (take 4 effective), py_int (drop 5 effective)) of
           (Some year, Some month) \<Rightarrow>
             if 1 \<le> year \<and> year \<le> 9999 \<and> 1 \<le> month \<and> month \<le> 12 then today < Date year month 1
             else False
         | _ \<Rightarrow> False)
      else False)"

definition apply_due_scheduled_plan_change :: "int \<Rightarrow> subscription \<Rightarrow> subscription billing" where
  "apply_due_scheduled_plan_change tenant_id subscription =
     (case sub_scheduled_plan_code subscription of
        None \<Rightarrow> py_return subscription
      | Some scheduled_plan \<Rightarrow>
          if scheduled_plan = '''' then py_return subscription
          else
            py_bind (py_gets (\<lambda>w. (clock_today w, billing_due_date subscription (period_end_date w)))) (\<lambda>(today, billing_due).
            if today < billing_due then py_return subscription
            else if schedule_not_reached today
                      (py_strip (str_or (sub_scheduled_change_effective_period subscription) ''''))
            then py_return subscription
            else
              let new_period = str_or (sub_scheduled_billing_period subscription) (sub_billing_period subscription);
                  is_free = py_lower (py_strip scheduled_plan) = ''free''
              in upsert_subscription_from_existing tenant_id subscription (\<lambda>s. s
                   \<lparr>sub_plan_code := scheduled_plan,
                    sub_billing_period := new_period,
                    sub_status := (if is_free then status_value TRIAL else status_value ACTIVE),
                    sub_trial_started_at := (if is_free then sub_trial_started_at subscription else None),
                    sub_trial_ends_at := sub_trial_ends_at subscription,
                    sub_scheduled_plan_code := None,
                    sub_scheduled_billing_period := None,
                    sub_scheduled_change_effective_period := None,
                    sub_question_warning_period_key := None,
                    sub_question_warning_level := 0\<rparr>)))"

definition renewal_execute :: "int \<Rightarrow> subscription \<Rightarrow> subscription billing" where
  "renewal_execute tenant_id subscription = apply_due_scheduled_plan_change tenant_id subscription"

section \<open>Invoicing\<close>

text \<open>\<open>issue_subscription_payment_request\<close> for a given subscription, due date and period key.\<close>

definition issue_subscription_payment_request ::
  "tenant_snapshot \<Rightarrow> subscription \<Rightarrow> date option \<Rightarrow> string option \<Rightarrow> invoice option billing" where
  "issue_subscription_payment_request tenant subscription billing_date period_key =
     (if sub_plan_code subscription = ''free'' then py_return None
      else if sub_status subscription = status_value RESTRICTED then py_return None
      else
        py_bind (py_gets (\<lambda>w. case billing_date of Some d \<Rightarrow> d
                            | None \<Rightarrow> billing_due_date subscription (period_end_date w))) (\<lambda>due_date.
        let key = str_or period_key (subscription_period_key due_date) in
        py_bind (py_gets (\<lambda>w. get_invoice w (ts_tenant_id tenant) ''monthly_subscription'' key)) (\<lambda>existing.
        if existing \<noteq> None then py_return existing
        else
          py_bind (plan_for (sub_plan_code subscription)) (\<lambda>plan.
          py_bind (py_gets (\<lambda>w. (load_resource_counts_for_tenant w (ts_slug tenant), clock_now w))) (\<lambda>(resources, now).
          py_bind (estimate_next_invoice subscription (Some resources)) (\<lambda>estimated.
          if es_total_cents estimated \<le> 0 then py_return None
          else
            let period_multiplier = billing_period_multiplier (sub_billing_period subscription);
                unit_price_cents = plan_monthly_charge_cents_after_discount (bp_price_cents plan)
                                     (sub_billing_period subscription);
                next_billing_date = next_billing_date_after due_date (sub_billing_period subscription)
            in py_bind (create_invoice
                 \<lparr>inv_id = 0, inv_tenant_id = ts_tenant_id tenant, inv_type = ''monthly_subscription'',
                  inv_period_key = key, inv_status = ''issued'', inv_currency = default_currency,
                  inv_total_cents = es_total_cents estimated, inv_payment_method = ''pending'',
                  inv_description = bp_name plan @ '' '' @
                    billing_period_label_hu (sub_billing_period subscription) @ '' dijbekero'',
                  inv_lines = [[(''code'', JStr (bp_code plan)), (''name'', JStr (bp_name plan)),
                    (''billing_period'', JStr (sub_billing_period subscription)),
                    (''period_multiplier'', JInt period_multiplier),
                    (''unit_price_cents'', JInt unit_price_cents),
                    (''quantity'', JInt period_multiplier),
                    (''extra_kb_count'', JInt (sub_extra_kb_count subscription)),
                    (''extra_storage_gb'', JInt (es_next_extra_storage_gb estimated)),
                    (''total_cents'', JInt (es_total_cents estimated)),
                    (''next_billing_date'', JStr (isoformat next_billing_date)),
                    (''payment_request'', JBool True)]],
                  inv_issued_at = now, inv_due_at = now\<rparr>)
               (\<lambda>row. py_return (Some row))))))))"

definition cancellation_requested :: "world \<Rightarrow> int \<Rightarrow> bool" where
  "cancellation_requested w tenant_id =
     (case get_latest_cancellation_request w tenant_id of
        None \<Rightarrow> False | Some c \<Rightarrow> py_lower (cx_status c) = ''deactivation_requested'')"

definition invoicing_execute :: "tenant_snapshot \<Rightarrow> subscription \<Rightarrow> date \<Rightarrow> unit billing" where
  "invoicing_execute tenant subscription next_charge_date =
     (if sub_plan_code subscription = ''free'' then py_return ()
      else if sub_status subscription = status_value RESTRICTED then py_return ()
      else
        py_bind (py_gets (\<lambda>w. cancellation_requested w (ts_tenant_id tenant))) (\<lambda>cancelled.
        if cancelled then py_return ()
        else
          py_bind (py_gets clock_today) (\<lambda>today.
          let billing_date = billing_due_date subscription next_charge_date in
          if today < billing_date then py_return ()
          else
            let period_key = subscription_period_key billing_date in
            py_bind (py_gets (\<lambda>w.
                (get_invoice w (ts_tenant_id tenant) ''monthly_subscription'' period_key,
                 get_invoice w (ts_tenant_id tenant) ''monthly_subscription_failed'' period_key)))
              (\<lambda>(invoice_exists, failed_exists).
            if invoice_exists \<noteq> None \<or> failed_exists \<noteq> None then py_return ()
            else py_seq (issue_subscription_payment_request tenant subscription (Some billing_date)
                           (Some period_key)) (py_return ())))))"

section \<open>The billing cycle\<close>

text \<open>The body of the loop for one active tenant; an exception is logged and the loop goes on.\<close>

definition cycle_tenant_body :: "date \<Rightarrow> tenant_row \<Rightarrow> unit billing" where
  "cycle_tenant_body next_charge_date row =
     py_bind (py_gets (\<lambda>w. get_snapshot_by_slug w (tn_slug row))) (\<lambda>snapshot.
     case snapshot of
       None \<Rightarrow> py_return ()
     | Some tenant \<Rightarrow>
         py_bind (ensure_subscription tenant) (\<lambda>subscription.
         py_bind (renewal_execute (ts_tenant_id tenant) subscription) (\<lambda>subscription.
         py_bind (sync_status (ts_tenant_id tenant) subscription) (\<lambda>subscription.
         py_seq (invoicing_execute tenant subscription next_charge_date)
           (sync_tenant_config tenant subscription)))))"

definition cycle_tenant :: "date \<Rightarrow> tenant_row \<Rightarrow> unit billing" where
  "cycle_tenant next_charge_date row = py_try (cycle_tenant_body next_charge_date row) (\<lambda>_. py_return ())"

definition process_cycle :: "unit billing" where
  "process_cycle =
     py_bind (py_gets (\<lambda>w. (charge_date_before_expiry (period_end_date w), list_active_tenants w)))
       (\<lambda>(next_charge_date, rows). py_fold (\<lambda>row _. cycle_tenant next_charge_date row) rows ())"

end
