(* ===== verification/Hu_Tax_Id.thy ===== *)
theory Hu_Tax_Id
  imports Py_Prelude "HOL-Library.Char_ord"
begin

text \<open>
  \<open>backend/apps/settings/domain/hu_tax_id.py\<close>: Hungarian tax numbers. The digits of the input are
  kept up to eleven; a number is valid when there are eleven and the weighted sum of the first eight
  is divisible by ten. Of \<open>str.upper\<close> only the effect on the prefix \<open>HU\<close> matters, since every other
  letter is dropped.

  The lemmas show that normalising keeps validity and is idempotent, and that the checksum catches
  every single wrong digit among the first eight, because all weights are coprime to ten.
\<close>

section \<open>The code\<close>

definition weights :: "nat list" where
  "weights = [9, 7, 3, 1, 9, 7, 3, 1]"

definition is_digit :: "char \<Rightarrow> bool" where
  "is_digit c \<longleftrightarrow> (let n = of_char c :: nat in 48 \<le> n \<and> n \<le> 57)"

definition digit_value :: "char \<Rightarrow> nat" where
  "digit_value c = of_char c - 48"

definition strip_hu :: "string \<Rightarrow> string" where
  "strip_hu s =
     (case s of
        a # b # rest \<Rightarrow> if a \<in> {CHR ''H'', CHR ''h''} \<and> b \<in> {CHR ''U'', CHR ''u''} then rest else s
      | _ \<Rightarrow> s)"

definition digits_only :: "string option \<Rightarrow> string" where
  "digits_only v =
     (let compact = filter (\<lambda>c. \<not> py_space c \<and> c \<noteq> CHR ''.'') (str_or v '''')
      in take 11 (filter is_digit (strip_hu compact)))"

definition normalize_hu_tax_id :: "string option \<Rightarrow> string" where
  "normalize_hu_tax_id v =
     (let digits = digits_only v in
      if digits = '''' then ''''
      else if length digits \<le> 8 then digits
      else if length digits = 9 then take 8 digits @ ''-'' @ drop 8 digits
      else take 8 digits @ ''-'' @ [digits ! 8] @ ''-'' @ drop 9 digits)"

definition checksum_total :: "string \<Rightarrow> nat" where
  "checksum_total s = sum_list (map2 (\<lambda>w c. w * digit_value c) weights s)"

definition checksum_ok :: "string \<Rightarrow> bool" where
  "checksum_ok eight_digits \<longleftrightarrow>
     length eight_digits = 8 \<and> list_all is_digit eight_digits \<and> checksum_total eight_digits mod 10 = 0"

definition is_valid_hu_tax_id :: "string option \<Rightarrow> bool" where
  "is_valid_hu_tax_id v \<longleftrightarrow>
     (let digits = digits_only v in length digits = 11 \<and> checksum_ok (take 8 digits))"

section \<open>Normal form\<close>

lemma digits_only_digits: "c \<in> set (digits_only v) \<Longrightarrow> is_digit c"
  by (auto simp: digits_only_def Let_def dest!: in_set_takeD)

lemma length_digits_only: "length (digits_only v) \<le> 11"
  by (simp add: digits_only_def Let_def)

lemma digit_not_space: "is_digit c \<Longrightarrow> \<not> py_space c \<and> c \<noteq> CHR ''.'' \<and> c \<noteq> CHR ''H'' \<and> c \<noteq> CHR ''h''"
  by (auto simp: is_digit_def py_space_def Let_def)

lemma digits_only_dashed:
  assumes "set s \<subseteq> {c. is_digit c} \<union> {CHR ''-''}" "length (filter is_digit s) \<le> 11"
  shows "digits_only (Some s) = filter is_digit s"
proof -
  have sp: "\<not> py_space c \<and> c \<noteq> CHR ''.'' \<and> c \<noteq> CHR ''H'' \<and> c \<noteq> CHR ''h''" if "c \<in> set s" for c
    using that assms(1) digit_not_space by (auto simp: py_space_def)
  then have "filter (\<lambda>c. \<not> py_space c \<and> c \<noteq> CHR ''.'') s = s" by (simp add: filter_id_conv)
  moreover have "strip_hu s = s" using sp by (auto simp: strip_hu_def split: list.splits)
  ultimately show ?thesis
    using assms(2) by (cases "s = []") (simp_all add: digits_only_def Let_def strip_hu_def)
qed

lemma not_digit_dash [simp]: "\<not> is_digit CHR ''-''"
  by (simp add: is_digit_def)

lemma digits_of_normalized: "digits_only (Some (normalize_hu_tax_id v)) = digits_only v"
proof -
  let ?d = "digits_only v"
  have dig: "c \<in> set ?d \<Longrightarrow> is_digit c" for c by (rule digits_only_digits)
  have parts: "filter is_digit (take k ?d) = take k ?d" "filter is_digit (drop k ?d) = drop k ?d" for k
    using dig by (auto simp: filter_id_conv dest: in_set_takeD in_set_dropD)
  have fd: "filter is_digit ?d = ?d" using dig by (simp add: filter_id_conv)
  have nth: "?d ! 8 # drop 9 ?d = drop 8 ?d" if "\<not> length ?d \<le> 8"
    using that Cons_nth_drop_Suc [of 8 ?d] by simp
  have mem: "is_digit (?d ! 8)" if "\<not> length ?d \<le> 8" using that dig [of "?d ! 8"] by simp
  have "set (normalize_hu_tax_id v) \<subseteq> {c. is_digit c} \<union> {CHR ''-''}"
    using dig mem by (auto simp: normalize_hu_tax_id_def Let_def dest: in_set_takeD in_set_dropD)
  moreover have "filter is_digit (normalize_hu_tax_id v) = ?d"
    using parts fd nth mem by (simp add: normalize_hu_tax_id_def Let_def)
  ultimately show ?thesis using digits_only_dashed [of "normalize_hu_tax_id v"] length_digits_only by simp
qed

text \<open>Normalising a tax number keeps its digits, so it keeps validity and is idempotent; a valid
  number is written as eight, one and two digits separated by hyphens.\<close>

theorem normalize_hu_tax_id_sound:
  "is_valid_hu_tax_id (Some (normalize_hu_tax_id v)) = is_valid_hu_tax_id v \<and>
   normalize_hu_tax_id (Some (normalize_hu_tax_id v)) = normalize_hu_tax_id v \<and>
   (is_valid_hu_tax_id v \<longrightarrow> (\<exists>a b c. normalize_hu_tax_id v = a @ ''-'' @ b @ ''-'' @ c \<and>
      length a = 8 \<and> length b = 1 \<and> length c = 2 \<and> list_all is_digit (a @ b @ c) \<and> checksum_ok a))"
proof (intro conjI impI)
  show "is_valid_hu_tax_id (Some (normalize_hu_tax_id v)) = is_valid_hu_tax_id v"
    by (simp add: is_valid_hu_tax_id_def digits_of_normalized)
  show "normalize_hu_tax_id (Some (normalize_hu_tax_id v)) = normalize_hu_tax_id v"
    by (subst (1 3) normalize_hu_tax_id_def) (simp add: digits_of_normalized)
  assume valid: "is_valid_hu_tax_id v"
  let ?d = "digits_only v"
  have len: "length ?d = 11" using valid by (simp add: is_valid_hu_tax_id_def Let_def)
  show "\<exists>a b c. normalize_hu_tax_id v = a @ ''-'' @ b @ ''-'' @ c \<and>
      length a = 8 \<and> length b = 1 \<and> length c = 2 \<and> list_all is_digit (a @ b @ c) \<and> checksum_ok a"
  proof (intro exI conjI)
    show "normalize_hu_tax_id v = take 8 ?d @ ''-'' @ [?d ! 8] @ ''-'' @ drop 9 ?d"
      using len by (auto simp: normalize_hu_tax_id_def Let_def)
    show "list_all is_digit (take 8 ?d @ [?d ! 8] @ drop 9 ?d)"
      using digits_only_digits [of _ v] len by (auto simp: list_all_iff dest: in_set_takeD in_set_dropD)
    show "checksum_ok (take 8 ?d)" using valid by (simp add: is_valid_hu_tax_id_def Let_def)
  qed (use len in simp_all)
qed

lemma normalize_hu_tax_id_sound_witness:
  "is_valid_hu_tax_id (Some ''HU 12892312.1.42'') \<and>
   normalize_hu_tax_id (Some ''HU 12892312.1.42'') = ''12892312-1-42'' \<and>
   is_valid_hu_tax_id (Some (normalize_hu_tax_id (Some ''HU 12892312.1.42'')))"
proof -
  have "is_valid_hu_tax_id (Some ''HU 12892312.1.42'')"
    "normalize_hu_tax_id (Some ''HU 12892312.1.42'') = ''12892312-1-42''" by code_simp+
  with normalize_hu_tax_id_sound [of "Some ''HU 12892312.1.42''"] show ?thesis by simp
qed

section \<open>Single errors\<close>

lemma digit_value_bound: "is_digit c \<Longrightarrow> digit_value c < 10"
  unfolding is_digit_def digit_value_def Let_def by linarith

lemma digit_value_inj: "is_digit c \<Longrightarrow> is_digit d \<Longrightarrow> digit_value c = digit_value d \<Longrightarrow> c = d"
proof -
  assume "is_digit c" "is_digit d" "digit_value c = digit_value d"
  then have "(of_char c :: nat) = of_char d" unfolding is_digit_def digit_value_def Let_def by linarith
  then show "c = d" by (simp only: of_char_eq_iff)
qed

lemma weights_separate:
  assumes "i < 8" "a < 10" "b < (10::nat)" "(weights ! i * a) mod 10 = (weights ! i * b) mod 10"
  shows "a = b"
proof -
  have w: "weights ! i \<in> {1, 3, 7, 9}"
    using assms(1) by (auto simp: weights_def less_Suc_eq numeral_eq_Suc)
  have "\<exists>u. (u * weights ! i) mod 10 = 1"
    using w by (elim insertE emptyE) (rule exI [of _ 1], simp, rule exI [of _ 7], simp, rule exI [of _ 3],
      simp, rule exI [of _ 9], simp)
  then obtain u where u: "(u * weights ! i) mod 10 = 1" by blast
  have inverse: "x = (u * ((weights ! i * x) mod 10)) mod 10" if "x < 10" for x
  proof -
    have "(u * ((weights ! i * x) mod 10)) mod 10 = (u * weights ! i * x) mod 10"
      by (simp add: mod_mult_right_eq mult.assoc)
    also have "\<dots> = ((u * weights ! i) mod 10 * x) mod 10" by (simp only: mod_mult_left_eq)
    also have "\<dots> = x" using u that by simp
    finally show ?thesis by simp
  qed
  show ?thesis using inverse [OF assms(2)] inverse [OF assms(3)] assms(4) by simp
qed

lemma checksum_total_update:
  assumes "i < 8" "length s = 8"
  shows "checksum_total (s[i := c]) + weights ! i * digit_value (s ! i) =
         checksum_total s + weights ! i * digit_value c"
proof -
  let ?f = "\<lambda>s. map2 (\<lambda>w c. w * digit_value c) weights s"
  have len: "length (?f s) = 8" using assms by (simp add: weights_def)
  have f: "?f (s[i := c]) = (?f s)[i := weights ! i * digit_value c]"
    using assms by (intro nth_equalityI) (auto simp: nth_list_update weights_def)
  have "sum_list ((?f s)[i := x]) + ?f s ! i = sum_list (?f s) + x" for x
    using len assms(1) sum_list_update [of i "?f s" x] elem_le_sum_list [of i "?f s"] by simp
  moreover have "?f s ! i = weights ! i * digit_value (s ! i)"
    using assms by (simp add: weights_def)
  ultimately show ?thesis unfolding checksum_total_def f by metis
qed

text \<open>The checksum catches every single wrong digit: changing one of the eight digits of a number
  with a good checksum to another digit gives a bad checksum.\<close>

theorem checksum_single_error:
  assumes "checksum_ok s" "i < 8" "is_digit c" "c \<noteq> s ! i"
  shows "\<not> checksum_ok (s[i := c])"
proof
  assume bad: "checksum_ok (s[i := c])"
  have s: "length s = 8" "is_digit (s ! i)" using assms by (auto simp: checksum_ok_def list_all_iff)
  have "(checksum_total (s[i := c]) + weights ! i * digit_value (s ! i)) mod 10 =
        (checksum_total s + weights ! i * digit_value c) mod 10"
    using checksum_total_update [OF assms(2) s(1), of c] by simp
  moreover have "checksum_total (s[i := c]) mod 10 = 0" "checksum_total s mod 10 = 0"
    using bad assms(1) by (simp_all add: checksum_ok_def)
  ultimately have "(weights ! i * digit_value (s ! i)) mod 10 = (weights ! i * digit_value c) mod 10"
    by (metis add_cancel_left_left mod_add_left_eq)
  then have "digit_value (s ! i) = digit_value c"
    using weights_separate [OF assms(2)] digit_value_bound s(2) assms(3) by blast
  then show False using digit_value_inj s(2) assms(3,4) by metis
qed

lemma checksum_single_error_witness: "checksum_ok ''12892312'' \<and> \<not> checksum_ok ((''12892312'')[4 := CHR ''3''])"
proof -
  have "checksum_ok ''12892312''" "is_digit CHR ''3''" "CHR ''3'' \<noteq> ''12892312'' ! 4" by code_simp+
  from checksum_single_error [OF this(1) _ this(2,3)] \<open>checksum_ok ''12892312''\<close> show ?thesis by simp
qed

end
