(* ===== verification/Billing_Change.thy ===== *)
theory Billing_Change
  imports Billing_Status Hu_Tax_Id
begin

text \<open>
  Plan changes of \<open>BillingService\<close>: immediate changes, upgrades by checkout and by payment webhook,
  scheduled downgrades. Invoice texts keep their values and lose their accents.
\<close>

section \<open>Pieces\<close>

definition svc_is_downgrade :: "subscription \<Rightarrow> string \<Rightarrow> bool billing" where
  "svc_is_downgrade current next_plan_code = (\<lambda>w. (is_downgrade current next_plan_code (plan_map_of w), w))"

definition svc_is_scheduled_change :: "subscription \<Rightarrow> string \<Rightarrow> string \<Rightarrow> bool billing" where
  "svc_is_scheduled_change current next_plan_code next_period =
     (\<lambda>w. (is_scheduled_change current next_plan_code next_period (plan_map_of w), w))"

definition svc_compute_upgrade_proration ::
  "subscription \<Rightarrow> string \<Rightarrow> string \<Rightarrow> upgrade_proration option billing" where
  "svc_compute_upgrade_proration sub normalized_plan normalized_period =
     (\<lambda>w. (compute_upgrade_proration sub normalized_plan normalized_period (plan_map_of w)
             (period_end_date w) (clock_today w), w))"

definition sms_carryover_from_started_month :: "subscription \<Rightarrow> int billing" where
  "sms_carryover_from_started_month sub =
     py_bind (plan_for (sub_plan_code sub)) (\<lambda>current_plan.
     py_bind (py_gets (\<lambda>w. questions_used_in_current_period w (sub_tenant_id sub))) (\<lambda>used_total.
     py_return (questions_carryover_from_started_month
                  (bp_included_questions_monthly current_plan) used_total)))"

text \<open>\<open>plans[code]\<close>.\<close>

definition plan_at :: "string \<Rightarrow> billing_plan billing" where
  "plan_at code = (\<lambda>w. (case plan_map_of w code of None \<Rightarrow> Inl (Key_error code) | Some p \<Rightarrow> Inr p, w))"

text \<open>\<open>date.fromisoformat(s)\<close>.\<close>

definition parse_date :: "string \<Rightarrow> date billing" where
  "parse_date s = py_lift (case fromisoformat s of None \<Rightarrow> Inl (Value_error ''isoformat'') | Some d \<Rightarrow> Inr d)"

section \<open>The immediate change\<close>

definition apply_immediate_plan_change ::
  "tenant_snapshot \<Rightarrow> subscription \<Rightarrow> string \<Rightarrow> string \<Rightarrow> datetime option \<Rightarrow> subscription billing" where
  "apply_immediate_plan_change tenant subscription normalized_plan normalized_period paid_until =
     py_bind (plan_at normalized_plan) (\<lambda>next_plan.
     py_bind (question_usage_summary (ts_tenant_id tenant) subscription) (\<lambda>(usage, _).
     py_bind (sms_carryover_from_started_month subscription) (\<lambda>sms_from_started_month.
     let free = normalized_plan = ''free'' in
     py_bind (upsert_subscription_from_existing (ts_tenant_id tenant) subscription (\<lambda>s. s
        \<lparr>sub_plan_code := normalized_plan,
         sub_billing_period := normalized_period,
         sub_status := (if \<not> free then status_value ACTIVE else status_value TRIAL),
         sub_trial_started_at := (if free then sub_trial_started_at subscription else None),
         sub_trial_ends_at := (if free then sub_trial_ends_at subscription else paid_until),
         sub_carryover_training_chars :=
           max (sub_carryover_training_chars subscription) (bp_included_training_chars next_plan),
         sub_carryover_addon_questions := qs_remaining_addons usage + sms_from_started_month,
         sub_scheduled_plan_code := None,
         sub_scheduled_billing_period := None,
         sub_scheduled_change_effective_period := None\<rparr>)) (\<lambda>updated.
     py_seq (sync_tenant_config tenant updated) (py_return updated)))))"

definition get_upgrade_preview ::
  "tenant_snapshot \<Rightarrow> string \<Rightarrow> string \<Rightarrow> (upgrade_proration \<times> int) billing" where
  "get_upgrade_preview tenant plan_code billing_period =
     py_bind (ensure_subscription tenant) (\<lambda>subscription.
     let normalized_plan = py_lower (py_strip plan_code);
         normalized_period = normalize_billing_period (Some billing_period) in
     if sub_plan_code subscription = ''free''
     then py_raise (Value_error ''Ingyenes csomagnal a szokasos elofizetesi oldalon valasszon csomagot.'')
     else
       py_bind (svc_compute_upgrade_proration subscription normalized_plan normalized_period) (\<lambda>raw.
       case raw of
         None \<Rightarrow> py_raise (Value_error ''Ez a valtas nem kezelheto elonezetkent.'')
       | Some up \<Rightarrow>
           py_bind (question_usage_summary (ts_tenant_id tenant) subscription) (\<lambda>(usage, _).
           py_bind (sms_carryover_from_started_month subscription) (\<lambda>sms.
           py_return (up, sms + qs_remaining_addons usage)))))"

section \<open>Upgrade invoices\<close>

text \<open>The lines both upgrade paths write; \<open>extra\<close> are the fields in which they differ.\<close>

definition upgrade_lines :: "upgrade_proration \<Rightarrow> string \<Rightarrow> string \<Rightarrow> int \<Rightarrow> date \<Rightarrow> jdict \<Rightarrow> jdict list" where
  "upgrade_lines preview target_plan target_period next_period_total paid_until extra =
     [[(''code'', JStr ''upgrade_new_period''),
       (''name'', JStr (''Uj csomag teljes dija ('' @ billing_period_label_hu target_period @ '')'')),
       (''target_plan_code'', JStr target_plan), (''billing_period'', JStr target_period),
       (''period_multiplier'', JInt (billing_period_multiplier target_period)),
       (''unit_price_cents'', JInt (up_new_monthly_cents preview)),
       (''quantity'', JInt (billing_period_multiplier target_period)),
       (''total_cents'', JInt next_period_total),
       (''paid_until_iso'', JStr (isoformat paid_until))] @ extra,
      [(''code'', JStr ''upgrade_old_period_credit''), (''name'', JStr ''Regi dijresz jovairasa''),
       (''quantity'', JInt 1), (''total_cents'', JInt (- up_old_remaining_credit_cents preview))]] @
     (if up_training_initial_fee_cents preview > 0
      then [[(''code'', JStr ''upgrade_training_initial_fee''),
             (''name'', JStr ''Egyszeri betanitasi koltseg''),
             (''total_cents'', JInt (up_training_initial_fee_cents preview))]]
      else [])"

definition is_verified_payment_status :: "string option \<Rightarrow> bool" where
  "is_verified_payment_status status \<longleftrightarrow>
     py_lower (py_strip (str_or status '''')) \<in> {''paid'', ''manual_paid'', ''simulated_paid''}"

definition latest_verified_upgrade_invoice :: "world \<Rightarrow> int \<Rightarrow> string \<Rightarrow> string \<Rightarrow> invoice option" where
  "latest_verified_upgrade_invoice w tenant_id target_plan target_period =
     find (\<lambda>i. inv_type i = ''plan_upgrade'' \<and> is_verified_payment_status (Some (inv_status i)) \<and>
              list_ex (\<lambda>line. jstr (jget line ''code'') '''' = ''upgrade_new_period'' \<and>
                 jstr (jget line ''target_plan_code'') '''' = target_plan \<and>
                 jstr (jget line ''billing_period'') '''' = target_period) (inv_lines i))
       (list_recent_invoices w tenant_id 100)"

section \<open>Payment webhooks\<close>

text \<open>A tenant row without snapshot data, as the \<open>SimpleNamespace\<close> of the webhook handler.\<close>

definition tenant_namespace :: "tenant_row \<Rightarrow> tenant_snapshot" where
  "tenant_namespace row =
     \<lparr>ts_tenant_id = tn_id row, ts_slug = tn_slug row, ts_name = tn_name row,
      ts_created_at = Some (tn_created_at row), ts_is_active = True, ts_feature_flags = []\<rparr>"

text \<open>The part after the event has been recorded as new.\<close>

definition apply_upgrade_event :: "payment_event \<Rightarrow> string \<Rightarrow> string \<Rightarrow> jdict \<Rightarrow> jdict \<Rightarrow> int \<Rightarrow> unit billing" where
  "apply_upgrade_event event normalized_provider normalized_event_id metadata wh_body tenant_id =
     (let target_plan = py_lower (py_strip (jstr (jor (jget metadata ''target_plan'') (jget metadata ''to_plan'')) ''''));
          target_period = normalize_billing_period (Some (jstr (jget metadata ''billing_period'') ''monthly'')) in
      py_bind (py_gets (\<lambda>w. get_tenant_by_id w tenant_id)) (\<lambda>row.
      case row of
        None \<Rightarrow> py_raise (Value_error ''Ismeretlen tenant.'')
      | Some tenant_row \<Rightarrow>
          let tenant = tenant_namespace tenant_row in
          py_bind (ensure_subscription tenant) (\<lambda>subscription.
          py_bind (svc_compute_upgrade_proration subscription target_plan target_period) (\<lambda>preview_opt.
          case preview_opt of
            None \<Rightarrow> py_raise (Value_error ''Ervenytelen webhook upgrade payload.'')
          | Some preview \<Rightarrow>
              py_bind (parse_date (up_paid_until_iso preview)) (\<lambda>paid_until.
              py_seq (apply_immediate_plan_change tenant subscription target_plan target_period
                        (Some (midnight paid_until)))
                (py_bind (py_gets clock_now) (\<lambda>issued_at.
                 py_bind (plan_at target_plan) (\<lambda>next_plan.
                 py_bind (py_lift (jint (jor (jget metadata ''amount_cents'') (jget wh_body ''amount_cents''))
                                     (up_total_charge_cents preview))) (\<lambda>total_charge.
                 let period_key = take 16 (''pe'' @ pad_dec 14 (nat (pe_id event))) in
                 py_bind (py_gets (\<lambda>w. get_invoice w tenant_id ''plan_upgrade'' period_key)) (\<lambda>existing.
                 if existing \<noteq> None then py_return ()
                 else py_seq (create_invoice
                   \<lparr>inv_id = 0, inv_tenant_id = tenant_id, inv_type = ''plan_upgrade'',
                    inv_period_key = period_key, inv_status = ''paid'', inv_currency = default_currency,
                    inv_total_cents = total_charge, inv_payment_method = normalized_provider,
                    inv_description = ''Webhook verified csomagvaltas: '' @ bp_name next_plan,
                    inv_lines = upgrade_lines preview target_plan target_period
                      (if up_next_period_charge_cents preview \<noteq> 0 then up_next_period_charge_cents preview
                       else total_charge) paid_until
                      [(''payment_provider'', JStr normalized_provider),
                       (''payment_reference'', JStr normalized_event_id)],
                    inv_issued_at = issued_at, inv_due_at = issued_at\<rparr>) (py_return ())))))))))))"

datatype event_outcome = Duplicate | Recorded | Processed

definition process_verified_payment_event ::
  "string \<Rightarrow> string \<Rightarrow> string \<Rightarrow> webhook_payload \<Rightarrow> event_outcome billing" where
  "process_verified_payment_event prov event_id event_type payload =
     (let normalized_provider = py_lower (py_strip prov);
          normalized_event_id = py_strip event_id;
          normalized_event_type = py_lower (py_strip event_type);
          metadata = (case wh_metadata payload of None \<Rightarrow> [] | Some m \<Rightarrow> m);
          wh_body = wh_fields payload in
      if normalized_provider = '''' \<or> normalized_event_id = ''''
      then py_raise (Value_error ''Hianyzo payment event azonosito.'')
      else
        py_bind (py_lift (jint (jor (jget metadata ''tenant_id'') (jget wh_body ''tenant_id'')) 0)) (\<lambda>tenant_id.
        if tenant_id \<le> 0 then py_raise (Value_error ''Hianyzo tenant azonosito a payment eventben.'')
        else
          py_bind (record_payment_event_once normalized_provider normalized_event_id
                     normalized_event_type (Some tenant_id) payload) (\<lambda>(event, is_new).
          if \<not> is_new then py_return Duplicate
          else
            let flow = py_lower (py_strip (jstr (jor (jget metadata ''flow'') (jget wh_body ''flow'')) '''')) in
            if flow \<noteq> ''plan_upgrade'' \<or> normalized_event_type \<notin>
                 {''checkout.session.completed'', ''invoice.paid'', ''payment.succeeded''}
            then py_return Recorded
            else py_seq (apply_upgrade_event event normalized_provider normalized_event_id metadata
                           wh_body tenant_id) (py_return Processed))))"

section \<open>Upgrade by checkout\<close>

record upgrade_complete =
  uc_status :: string
  uc_old_remaining_credit_cents :: int
  uc_next_period_charge_cents :: int
  uc_training_initial_fee_cents :: int
  uc_total_charge_cents :: int
  uc_paid_until_iso :: string

definition complete_upgrade_after_checkout ::
  "env \<Rightarrow> tenant_snapshot \<Rightarrow> string \<Rightarrow> string \<Rightarrow> upgrade_complete billing" where
  "complete_upgrade_after_checkout e tenant plan_code billing_period =
     py_bind (ensure_subscription tenant) (\<lambda>subscription.
     let normalized_plan = py_lower (py_strip plan_code);
         normalized_period = normalize_billing_period (Some billing_period);
         t = ts_tenant_id tenant in
     py_bind (py_gets (\<lambda>w. plan_map_of w normalized_plan)) (\<lambda>known.
     if known = None then py_raise (Value_error ''Ismeretlen csomag.'')
     else if sub_plan_code subscription = ''free''
     then py_raise (Value_error ''Ingyenes csomagnal a szokasos elofizetesi oldalon valasszon csomagot.'')
     else
       py_bind (svc_is_downgrade subscription normalized_plan) (\<lambda>down.
       if down then py_raise (Value_error ''Csomagcsokkentes nem ezen az uton intezheto.'')
       else if sub_plan_code subscription = normalized_plan \<and> sub_billing_period subscription = normalized_period
       then py_gets (\<lambda>w. \<lparr>uc_status = ''already_active'', uc_old_remaining_credit_cents = 0,
              uc_next_period_charge_cents = 0, uc_training_initial_fee_cents = 0, uc_total_charge_cents = 0,
              uc_paid_until_iso = isoformat (subscription_due_date w t subscription (period_end_date w))\<rparr>)
       else
         py_bind (svc_compute_upgrade_proration subscription normalized_plan normalized_period) (\<lambda>preview_opt.
         case preview_opt of
           None \<Rightarrow> py_raise (Value_error ''Ervenytelen csomagvaltas.'')
         | Some preview \<Rightarrow>
             py_bind (parse_date (up_paid_until_iso preview)) (\<lambda>paid_until.
             let response = (\<lambda>status. \<lparr>uc_status = status,
                   uc_old_remaining_credit_cents = up_old_remaining_credit_cents preview,
                   uc_next_period_charge_cents = up_next_period_charge_cents preview,
                   uc_training_initial_fee_cents = up_training_initial_fee_cents preview,
                   uc_total_charge_cents = up_total_charge_cents preview,
                   uc_paid_until_iso = isoformat paid_until\<rparr>) in
             if is_simulated_provider e then
               py_seq (apply_immediate_plan_change tenant subscription normalized_plan normalized_period
                         (Some (midnight paid_until)))
                 (py_bind (py_gets clock_now) (\<lambda>issued_at.
                  py_bind (plan_at normalized_plan) (\<lambda>next_plan.
                  let period_key = stamp16 issued_at in
                  py_bind (py_gets (\<lambda>w. get_invoice w t ''plan_upgrade'' period_key)) (\<lambda>existing.
                  py_seq (if existing \<noteq> None then py_return ()
                    else py_seq (create_invoice
                      \<lparr>inv_id = 0, inv_tenant_id = t, inv_type = ''plan_upgrade'',
                       inv_period_key = period_key, inv_status = invoice_paid_status e,
                       inv_currency = default_currency, inv_total_cents = up_total_charge_cents preview,
                       inv_payment_method = invoice_payment_method e,
                       inv_description = ''Szimulalt csomagvaltas: '' @ bp_name next_plan,
                       inv_lines = upgrade_lines preview normalized_plan normalized_period
                         (up_next_period_charge_cents preview) paid_until
                         [(''simulated_payment'', JBool True), (''payment_provider'', JStr (provider e)),
                          (''payment_reference'', JNull)],
                       inv_issued_at = issued_at, inv_due_at = issued_at\<rparr>) (py_return ()))
                    (py_return (response ''updated''))))))
             else
               py_gets (\<lambda>w. response
                 (if latest_verified_upgrade_invoice w t normalized_plan normalized_period \<noteq> None
                  then ''paid_pending_activation'' else ''pending_payment'')))))))"

section \<open>The owner's plan choice\<close>

definition billing_profile_value :: "world \<Rightarrow> string \<Rightarrow> string" where
  "billing_profile_value w k = py_strip (str_or (w_profile w k) '''')"

definition require_billing_profile_for_paid_checkout :: "unit billing" where
  "require_billing_profile_for_paid_checkout =
     py_bind (py_gets billing_profile_value) (\<lambda>profile.
     let tax_id = profile ''billing_tax_id'' in
     if profile ''billing_company_name'' = '''' \<or> tax_id = '''' \<or> profile ''billing_address_line'' = '''' \<or>
        profile ''billing_postal_code'' = '''' \<or> profile ''billing_city'' = ''''
     then py_raise (Value_error ''Az elso csomag megvasarlasahoz add meg es mentsd el a cegadatokat.'')
     else if \<not> is_valid_hu_tax_id (Some tax_id) then py_raise (Value_error ''Ervenytelen adoszam.'')
     else py_return ())"

definition update_subscription :: "env \<Rightarrow> tenant_snapshot \<Rightarrow> string \<Rightarrow> string \<Rightarrow> string billing" where
  "update_subscription e tenant plan_code billing_period =
     (let normalized_plan = py_lower (py_strip plan_code);
          normalized_period = normalize_billing_period (Some billing_period);
          t = ts_tenant_id tenant in
      py_bind (py_gets (\<lambda>w. plan_map_of w normalized_plan)) (\<lambda>known.
      case known of
        None \<Rightarrow> py_raise (Value_error ''Ismeretlen csomag.'')
      | Some plan \<Rightarrow>
          py_bind (ensure_subscription tenant) (\<lambda>subscription.
          py_bind (py_gets (\<lambda>w. isoformat (subscription_due_date w t subscription (period_end_date w))))
            (\<lambda>effective_period_key.
          py_bind (svc_is_scheduled_change subscription normalized_plan normalized_period) (\<lambda>scheduled.
          if scheduled then
            py_bind (upsert_subscription_from_existing t subscription (\<lambda>s. s
               \<lparr>sub_scheduled_plan_code := Some normalized_plan,
                sub_scheduled_billing_period := Some normalized_period,
                sub_scheduled_change_effective_period := Some effective_period_key\<rparr>)) (\<lambda>updated.
            py_seq (sync_tenant_config tenant updated) (py_return ''scheduled''))
          else
            let was_free_checkout = sub_plan_code subscription = ''free'' \<and> normalized_plan \<noteq> ''free'' in
            py_seq (if was_free_checkout then require_billing_profile_for_paid_checkout else py_return ())
            (py_bind (py_gets (\<lambda>w. if was_free_checkout
                 then Some (paid_until_after_upgrade (clock_today w) normalized_period) else None)) (\<lambda>paid_until.
            py_seq (apply_immediate_plan_change tenant subscription normalized_plan normalized_period
                      (map_option midnight paid_until))
            (if \<not> was_free_checkout then py_return ''updated''
             else
               py_bind (py_gets clock_now) (\<lambda>issued_at.
               let period_multiplier = billing_period_multiplier normalized_period;
                   unit_price_cents = plan_monthly_charge_cents_after_discount (bp_price_cents plan) normalized_period;
                   plan_total_cents = unit_price_cents * period_multiplier;
                   training_initial_fee_cents = training_initial_fee_cents_for_plan normalized_plan;
                   period_key = stamp16 issued_at in
               py_bind (py_gets (\<lambda>w. get_invoice w t ''monthly_subscription'' period_key)) (\<lambda>existing.
               py_seq (if existing \<noteq> None then py_return ()
                 else py_seq (create_invoice
                   \<lparr>inv_id = 0, inv_tenant_id = t, inv_type = ''monthly_subscription'',
                    inv_period_key = period_key, inv_status = invoice_paid_status e,
                    inv_currency = default_currency,
                    inv_total_cents = plan_total_cents + training_initial_fee_cents,
                    inv_payment_method = invoice_payment_method e,
                    inv_description = bp_name plan @ '' '' @ billing_period_label_hu normalized_period @ '' dij'',
                    inv_lines = [[(''code'', JStr (bp_code plan)), (''name'', JStr (bp_name plan)),
                      (''billing_period'', JStr normalized_period),
                      (''period_multiplier'', JInt period_multiplier),
                      (''unit_price_cents'', JInt unit_price_cents),
                      (''quantity'', JInt period_multiplier), (''total_cents'', JInt plan_total_cents),
                      (''paid_until_iso'', case paid_until of None \<Rightarrow> JNull | Some d \<Rightarrow> JStr (isoformat d)),
                      (''simulated_payment'', JBool (is_simulated_provider e)),
                      (''payment_provider'', JStr (provider e)), (''payment_reference'', JNull)]] @
                      (if training_initial_fee_cents > 0
                       then [[(''code'', JStr ''training_initial_fee''),
                              (''name'', JStr ''Egyszeri betanitasi koltseg''),
                              (''total_cents'', JInt training_initial_fee_cents)]] else []),
                    inv_issued_at = issued_at, inv_due_at = issued_at\<rparr>) (py_return ()))
                 (py_return ''updated'')))))))))))"

end
