(* ===== verification/Billing_Debt.thy ===== *)
theory Billing_Debt
  imports Billing_Change
begin

text \<open>
  Debts of \<open>BillingService\<close>: the notices a tenant sees, settling an invoice, the daily retry of failed
  payments, the date simulation, the billing run of one tenant, the owner's settlement and add-on
  purchases. Sending mail is \<open>env_send_email\<close>; every mail handed over is recorded in \<open>w_mails\<close>.

  Loops over tenants catch exceptions per tenant and count in a metrics record beside the world, so
  that counts made before an exception survive it, as in the source.
\<close>

section \<open>Notices\<close>

record payment_notice =
  nt_status :: string
  nt_failed_at_iso :: string
  nt_grace_until_iso :: string
  nt_is_expired :: bool

definition payment_warning :: "world \<Rightarrow> int \<Rightarrow> payment_notice option" where
  "payment_warning w tenant_id =
     (case get_latest_invoice_for_type w tenant_id ''monthly_subscription_failed'' of
        None \<Rightarrow> None
      | Some failed \<Rightarrow>
          if inv_status failed \<noteq> ''payment_failed'' then None
          else if (case get_latest_invoice_for_type w tenant_id ''monthly_subscription'' of
                     None \<Rightarrow> False | Some paid \<Rightarrow> inv_issued_at paid > inv_issued_at failed) then None
          else
            (let grace = add_days (dt_date (inv_due_at failed)) payment_failure_deactivation_days in
             Some \<lparr>nt_status = ''payment_failed'',
                   nt_failed_at_iso = isoformat (dt_date (inv_issued_at failed)),
                   nt_grace_until_iso = isoformat grace, nt_is_expired = (clock_today w > grace)\<rparr>))"

definition billing_payment_notice :: "int \<Rightarrow> subscription \<Rightarrow> payment_notice option billing" where
  "billing_payment_notice tenant_id subscription =
     py_bind (py_gets (\<lambda>w. payment_warning w tenant_id)) (\<lambda>failed_notice.
     if failed_notice \<noteq> None then py_return failed_notice
     else if sub_plan_code subscription = ''free'' then py_return None
     else
       py_bind (estimate_next_invoice subscription None) (\<lambda>estimated.
       py_bind (py_gets clock_today) (\<lambda>today.
       let due_date = es_due_at estimated;
           unavailable_after = add_days due_date payment_failure_deactivation_days in
       if today \<le> due_date then py_return None
       else py_return (Some \<lparr>nt_status = ''payment_overdue'', nt_failed_at_iso = isoformat due_date,
              nt_grace_until_iso = isoformat unavailable_after,
              nt_is_expired = (today > unavailable_after)\<rparr>))))"

definition has_unpaid_subscription_debt :: "world \<Rightarrow> int \<Rightarrow> bool" where
  "has_unpaid_subscription_debt w tenant_id \<longleftrightarrow>
     (case get_latest_unpaid_debt_invoice w tenant_id of
        None \<Rightarrow> False | Some debt \<Rightarrow> inv_status debt \<in> {''issued'', ''payment_failed''})"

section \<open>Settling an invoice\<close>

definition reactivate_if_inactive :: "tenant_snapshot \<Rightarrow> unit billing" where
  "reactivate_if_inactive tenant =
     (if \<not> ts_is_active tenant
      then py_try (tenant_activate (ts_tenant_id tenant) None) (\<lambda>_. py_return ())
      else py_return ())"

text \<open>The subscription after a paid period: active, paid until the next billing date, schedule applied.\<close>

definition paid_overrides :: "subscription \<Rightarrow> date \<Rightarrow> int \<Rightarrow> subscription \<Rightarrow> subscription" where
  "paid_overrides subscription next_billing_date next_extra_storage_gb s = s
     \<lparr>sub_plan_code := str_or (sub_scheduled_plan_code subscription) (sub_plan_code subscription),
      sub_billing_period := str_or (sub_scheduled_billing_period subscription) (sub_billing_period subscription),
      sub_status := status_value ACTIVE,
      sub_trial_started_at := None,
      sub_trial_ends_at := Some (midnight next_billing_date),
      sub_extra_storage_gb := next_extra_storage_gb,
      sub_scheduled_plan_code := None,
      sub_scheduled_billing_period := None,
      sub_scheduled_change_effective_period := None,
      sub_question_warning_period_key := None,
      sub_question_warning_level := 0\<rparr>"

definition settle_debt_invoice_as_paid ::
  "env \<Rightarrow> tenant_snapshot \<Rightarrow> subscription \<Rightarrow> invoice \<Rightarrow> unit billing" where
  "settle_debt_invoice_as_paid e tenant subscription invoice =
     (let t = ts_tenant_id tenant in
      py_seq (update_invoice_payment_status (inv_id invoice) (invoice_paid_status e)
                (Some (invoice_payment_method e)) (Some ''monthly_subscription'') None)
      (py_bind (py_gets (\<lambda>w. (billing_due_date subscription (period_end_date w),
                              load_resource_counts_for_tenant w (ts_slug tenant)))) (\<lambda>(billing_date, resources).
       let next_billing_date = next_billing_date_after billing_date (sub_billing_period subscription) in
       py_bind (estimate_next_invoice subscription (Some resources)) (\<lambda>estimated.
       py_bind (upsert_subscription_from_existing t subscription
                  (paid_overrides subscription next_billing_date (es_next_extra_storage_gb estimated))) (\<lambda>_.
       py_seq (reactivate_if_inactive tenant)
         (py_bind (ensure_subscription tenant) (\<lambda>current.
          py_seq (sync_status t current) (py_return ()))))))))"

section \<open>Mails\<close>

definition send_email :: "env \<Rightarrow> string \<Rightarrow> mail_body \<Rightarrow> bool billing" where
  "send_email e to body = (\<lambda>w.
     let m = Mail to body in
     (Inr (env_send_email e (length (w_mails w)) m), w\<lparr>w_mails := w_mails w @ [m]\<rparr>))"

definition payment_settle_url :: "env \<Rightarrow> tenant_snapshot \<Rightarrow> string" where
  "payment_settle_url e tenant =
     rev (dropWhile (\<lambda>c. c = CHR ''/'') (rev (env_frontend_base_url e (py_strip (ts_slug tenant))))) @
       ''/admin/szamlak/kiegyenlites''"

definition send_payment_failed_owner_email :: "env \<Rightarrow> tenant_snapshot \<Rightarrow> invoice \<Rightarrow> bool billing" where
  "send_payment_failed_owner_email e tenant invoice =
     py_bind (py_gets (\<lambda>w. owner_email_for_tenant_slug w (ts_slug tenant))) (\<lambda>owner_email.
     case owner_email of
       None \<Rightarrow> py_return False
     | Some to \<Rightarrow>
         let due = dt_date (inv_due_at invoice) in
         send_email e to (Payment_failed_mail (ts_slug tenant) (inv_total_cents invoice) (isoformat due)
           (isoformat (add_days due payment_failure_deactivation_days)) (payment_settle_url e tenant)))"

section \<open>The daily retry\<close>

text \<open>The first true value under a key, over all lines.\<close>

definition invoice_meta_date :: "invoice \<Rightarrow> string \<Rightarrow> string option" where
  "invoice_meta_date invoice key =
     first_some (\<lambda>line. if jtruthy (jget line key) then Some (jstr (jget line key) '''') else None)
       (inv_lines invoice)"

definition mark_invoice_retry_meta :: "invoice \<Rightarrow> string \<Rightarrow> bool \<Rightarrow> unit billing" where
  "mark_invoice_retry_meta invoice today_iso email_sent =
     (let meta = [(''auto_retry_date'', JStr today_iso), (''auto_retry_email_sent'', JBool email_sent)];
          lines = (case inv_lines invoice of
                     [] \<Rightarrow> [meta]
                   | line # rest \<Rightarrow>
                       jset (jset line ''auto_retry_date'' (JStr today_iso))
                         ''auto_retry_email_sent'' (JBool email_sent) # rest)
      in py_seq (update_invoice_payment_status (inv_id invoice) (inv_status invoice) None None (Some lines))
           (py_return ()))"

record retry_metrics =
  rm_retried :: nat
  rm_paid :: nat
  rm_failed :: nat
  rm_emails_sent :: nat
  rm_skipped :: nat

definition retry_skip :: "(world \<times> retry_metrics, billing_error, unit) py" where
  "retry_skip = py_count (\<lambda>m. m\<lparr>rm_skipped := rm_skipped m + 1\<rparr>)"

text \<open>The debt a retry works on; \<open>None\<close> for each \<open>continue\<close> before the payment.\<close>

definition retry_candidate :: "world \<Rightarrow> string \<Rightarrow> (tenant_snapshot \<times> invoice) option" where
  "retry_candidate w slug =
     (case get_snapshot_by_slug w slug of
        None \<Rightarrow> None
      | Some tenant \<Rightarrow>
          (case get_latest_unpaid_debt_invoice w (ts_tenant_id tenant) of
             None \<Rightarrow> None
           | Some debt \<Rightarrow>
               if inv_status debt \<notin> {''issued'', ''payment_failed''} then None
               else if clock_today w \<ge> add_days (dt_date (inv_due_at debt)) payment_failure_deactivation_days
               then None
               else if invoice_meta_date debt ''auto_retry_date'' = Some (isoformat (clock_today w)) then None
               else Some (tenant, debt)))"

text \<open>What follows a refused payment: the debt row is turned into a failure, the owner is told, the
  attempt is noted on the invoice.\<close>

definition retry_mark_failed :: "tenant_snapshot \<Rightarrow> subscription \<Rightarrow> invoice \<Rightarrow> invoice billing" where
  "retry_mark_failed tenant subscription debt =
     (if inv_status debt = ''issued'' then
        py_seq (update_invoice_payment_status (inv_id debt) ''payment_failed'' (Some ''auto_retry_failed'')
                  (Some ''monthly_subscription_failed'') None)
        (py_bind (py_gets (\<lambda>w. case get_invoice_by_id w (ts_tenant_id tenant) (inv_id debt) of
                             None \<Rightarrow> debt | Some i \<Rightarrow> i)) (\<lambda>debt'.
         py_seq (sync_status (ts_tenant_id tenant) subscription) (py_return debt')))
      else py_return debt)"

definition retry_tenant_body :: "env \<Rightarrow> string \<Rightarrow> (world \<times> retry_metrics, billing_error, unit) py" where
  "retry_tenant_body e slug =
     py_bind (py_on (py_gets (\<lambda>w. (retry_candidate w slug, isoformat (clock_today w))))) (\<lambda>(candidate, today_iso).
     case candidate of
       None \<Rightarrow> retry_skip
     | Some (tenant, debt) \<Rightarrow>
         py_bind (py_on (ensure_subscription tenant)) (\<lambda>subscription.
         py_seq (py_count (\<lambda>m. m\<lparr>rm_retried := rm_retried m + 1\<rparr>))
         (py_bind (py_on (execute_payment e (inv_total_cents debt)
               (''Automatikus ujraprobalas: '' @ sub_plan_code subscription)
               [(''tenant_slug'', ts_slug tenant), (''flow'', ''subscription_auto_retry''),
                (''invoice_id'', str_of_int (inv_id debt))])) (\<lambda>payment.
          if pr_success payment then
            py_seq (py_on (settle_debt_invoice_as_paid e tenant subscription debt))
              (py_count (\<lambda>m. m\<lparr>rm_paid := rm_paid m + 1\<rparr>))
          else
            py_bind (py_on (retry_mark_failed tenant subscription debt)) (\<lambda>debt'.
            py_bind (py_on (send_payment_failed_owner_email e tenant debt')) (\<lambda>email_sent.
            py_seq (if email_sent then py_count (\<lambda>m. m\<lparr>rm_emails_sent := rm_emails_sent m + 1\<rparr>)
                    else py_return ())
            (py_seq (py_on (mark_invoice_retry_meta debt' today_iso email_sent))
               (py_count (\<lambda>m. m\<lparr>rm_failed := rm_failed m + 1\<rparr>)))))))))"

definition retry_tenant :: "env \<Rightarrow> tenant_row \<Rightarrow> (world \<times> retry_metrics, billing_error, unit) py" where
  "retry_tenant e row = py_try (retry_tenant_body e (tn_slug row)) (\<lambda>_. retry_skip)"

text \<open>Run a computation with fresh metrics and return them.\<close>

definition with_metrics :: "'m \<Rightarrow> (world \<times> 'm, billing_error, unit) py \<Rightarrow> 'm billing" where
  "with_metrics m0 body = (\<lambda>w. case body (w, m0) of
     (Inl err, (w', _)) \<Rightarrow> (Inl err, w') | (Inr _, (w', m)) \<Rightarrow> (Inr m, w'))"

definition retry_failed_payments_daily :: "env \<Rightarrow> retry_metrics billing" where
  "retry_failed_payments_daily e =
     py_bind (py_gets list_active_tenants) (\<lambda>rows.
     with_metrics \<lparr>rm_retried = 0, rm_paid = 0, rm_failed = 0, rm_emails_sent = 0, rm_skipped = 0\<rparr>
       (py_fold (\<lambda>row _. retry_tenant e row) rows ()))"

section \<open>The date simulation\<close>

record simulate_metrics =
  sm_processed :: nat
  sm_skipped :: nat
  sm_details :: "(int \<times> string \<times> int \<times> string \<times> bool option) list"

definition simulate_skip :: "(world \<times> simulate_metrics, billing_error, unit) py" where
  "simulate_skip = py_count (\<lambda>m. m\<lparr>sm_skipped := sm_skipped m + 1\<rparr>)"

definition simulate_done :: "int \<Rightarrow> string \<Rightarrow> int \<Rightarrow> string \<Rightarrow> bool option \<Rightarrow> (world \<times> simulate_metrics, billing_error, unit) py" where
  "simulate_done t slug i status email_sent =
     py_count (\<lambda>m. m\<lparr>sm_processed := sm_processed m + 1,
                     sm_details := sm_details m @ [(t, slug, i, status, email_sent)]\<rparr>)"

definition simulate_tenant_body ::
  "env \<Rightarrow> string \<Rightarrow> string \<Rightarrow> (world \<times> simulate_metrics, billing_error, unit) py" where
  "simulate_tenant_body e normalized slug =
     py_bind (py_on (py_gets (\<lambda>w. (get_snapshot_by_slug w slug, isoformat (clock_today w))))) (\<lambda>(snapshot, today_iso).
     case snapshot of
       None \<Rightarrow> simulate_skip
     | Some tenant \<Rightarrow>
         let t = ts_tenant_id tenant in
         py_bind (py_on (py_gets (\<lambda>w. get_latest_unpaid_debt_invoice w t))) (\<lambda>debt_opt.
         case debt_opt of
           None \<Rightarrow> simulate_skip
         | Some debt \<Rightarrow>
             py_bind (py_on (ensure_subscription tenant)) (\<lambda>subscription.
             if normalized = ''success'' then
               py_seq (py_on (settle_debt_invoice_as_paid e tenant subscription debt))
                 (simulate_done t (ts_slug tenant) (inv_id debt) ''paid'' None)
             else
               py_bind (py_on (py_gets (\<lambda>w.
                 if inv_type debt = ''monthly_subscription'' \<and>
                    get_invoice w t ''monthly_subscription_failed'' (inv_period_key debt) = None
                 then Some ''monthly_subscription_failed'' else None))) (\<lambda>new_type.
               py_seq (py_on (update_invoice_payment_status (inv_id debt) ''payment_failed''
                          (Some ''simulated_failed'') new_type None))
               (py_bind (py_on (py_gets (\<lambda>w. case get_invoice_by_id w t (inv_id debt) of
                                    None \<Rightarrow> debt | Some i \<Rightarrow> i))) (\<lambda>refreshed.
                py_bind (py_on (py_try (send_payment_failed_owner_email e tenant refreshed)
                                  (\<lambda>_. py_return False))) (\<lambda>email_sent.
                py_seq (py_on (mark_invoice_retry_meta refreshed today_iso email_sent))
                (py_seq (py_on (sync_status t subscription))
                   (simulate_done t (ts_slug tenant) (inv_id debt) ''payment_failed'' (Some email_sent))))))))))"

definition simulate_tenant :: "env \<Rightarrow> string \<Rightarrow> tenant_row \<Rightarrow> (world \<times> simulate_metrics, billing_error, unit) py" where
  "simulate_tenant e normalized row =
     py_try (simulate_tenant_body e normalized (tn_slug row)) (\<lambda>_. simulate_skip)"

definition simulate_open_invoice_payments :: "env \<Rightarrow> string \<Rightarrow> simulate_metrics billing" where
  "simulate_open_invoice_payments e outcome =
     (let normalized = py_lower (py_strip outcome) in
      if normalized \<notin> {''success'', ''failed''}
      then py_raise (Value_error ''Ismeretlen fizetesi kimenet.'')
      else
        py_bind (py_gets list_all_tenants) (\<lambda>rows.
        with_metrics \<lparr>sm_processed = 0, sm_skipped = 0, sm_details = []\<rparr>
          (py_fold (\<lambda>row _. simulate_tenant e normalized row) rows ())))"

end
