(* ===== verification/Billing_Checkout.thy ===== *)
theory Billing_Checkout
  imports Billing_Debt
begin

text \<open>
  Money the owner moves: \<open>complete_subscription_billing\<close>, \<open>settle_subscription\<close> and \<open>purchase_addon\<close> of
  \<open>BillingService\<close>, and the guard of the invoice download.
\<close>

section \<open>One billing run\<close>

record billing_run =
  br_status :: string
  br_message :: string
  br_billing_date :: string
  br_next_billing_date :: "string option"
  br_grace_until :: "string option"

text \<open>\<open>paid_after_failed\<close>: a later monthly invoice than the failed one.\<close>

definition paid_after :: "world \<Rightarrow> int \<Rightarrow> invoice \<Rightarrow> bool" where
  "paid_after w tenant_id failed \<longleftrightarrow>
     (case get_latest_invoice_for_type w tenant_id ''monthly_subscription'' of
        None \<Rightarrow> False | Some paid \<Rightarrow> inv_issued_at paid > inv_issued_at failed)"

text \<open>The open failure of the tenant, if no later monthly invoice was issued.\<close>

definition unsettled_failure :: "world \<Rightarrow> int \<Rightarrow> invoice option" where
  "unsettled_failure w tenant_id =
     (case get_latest_invoice_for_type w tenant_id ''monthly_subscription_failed'' of
        None \<Rightarrow> None
      | Some f \<Rightarrow> if inv_status f = ''payment_failed'' \<and> \<not> paid_after w tenant_id f then Some f else None)"

definition run_invoice ::
  "int \<Rightarrow> subscription \<Rightarrow> billing_plan \<Rightarrow> estimate \<Rightarrow> string \<Rightarrow> string \<Rightarrow> string \<Rightarrow> string \<Rightarrow> string \<Rightarrow> jdict \<Rightarrow>
   datetime \<Rightarrow> datetime \<Rightarrow> invoice" where
  "run_invoice t sub plan estimated ty period_key status payment_method description tail issued_at due_at =
     \<lparr>inv_id = 0, inv_tenant_id = t, inv_type = ty, inv_period_key = period_key, inv_status = status,
      inv_currency = default_currency, inv_total_cents = es_total_cents estimated,
      inv_payment_method = payment_method, inv_description = description,
      inv_lines = [[(''code'', JStr (bp_code plan)), (''name'', JStr (bp_name plan)),
        (''billing_period'', JStr (sub_billing_period sub)),
        (''period_multiplier'', JInt (billing_period_multiplier (sub_billing_period sub))),
        (''unit_price_cents'', JInt (plan_monthly_charge_cents_after_discount (bp_price_cents plan)
                                       (sub_billing_period sub))),
        (''quantity'', JInt (billing_period_multiplier (sub_billing_period sub))),
        (''extra_storage_gb'', JInt (es_next_extra_storage_gb estimated)),
        (''total_cents'', JInt (es_total_cents estimated))] @ tail],
      inv_issued_at = issued_at, inv_due_at = due_at\<rparr>"

definition complete_success ::
  "env \<Rightarrow> tenant_snapshot \<Rightarrow> subscription \<Rightarrow> billing_plan \<Rightarrow> estimate \<Rightarrow> date \<Rightarrow> string \<Rightarrow> bool \<Rightarrow> billing_run billing" where
  "complete_success e tenant subscription plan estimated billing_date period_key0 force_new_invoice =
     (let t = ts_tenant_id tenant;
          next_billing_date = next_billing_date_after billing_date (sub_billing_period subscription);
          response = (\<lambda>msg. \<lparr>br_status = ''paid'', br_message = msg, br_billing_date = isoformat billing_date,
             br_next_billing_date = Some (isoformat next_billing_date), br_grace_until = None\<rparr>) in
      py_bind (py_gets (\<lambda>w. if force_new_invoice then None else get_latest_open_subscription_invoice w t)) (\<lambda>open_request.
      case open_request of
        Some request \<Rightarrow>
          py_seq (settle_debt_invoice_as_paid e tenant subscription request)
            (py_return (response ''Sikeres szamlazas (dijbekero kiegyenlitve).''))
      | None \<Rightarrow>
          py_bind (py_gets (\<lambda>w. case (if force_new_invoice then None else unsettled_failure w t) of
               None \<Rightarrow> period_key0
             | Some f \<Rightarrow> str_or (Some (inv_period_key f)) period_key0)) (\<lambda>period_key.
          py_bind (py_gets (\<lambda>w. (if force_new_invoice then None
               else get_invoice w t ''monthly_subscription'' period_key, clock_now w))) (\<lambda>(existing, now).
          py_seq
            (if existing \<noteq> None then py_return ()
             else py_seq (create_invoice
               (run_invoice t subscription plan estimated ''monthly_subscription'' period_key
                  (invoice_paid_status e) (invoice_payment_method e)
                  (bp_name plan @ '' '' @ billing_period_label_hu (sub_billing_period subscription) @ '' dij'')
                  [(''extra_kb_count'', JInt (sub_extra_kb_count subscription)),
                   (''next_billing_date'', JStr (isoformat next_billing_date))] now now)) (py_return ()))
            (py_bind (upsert_subscription_from_existing t subscription
                (paid_overrides subscription next_billing_date (es_next_extra_storage_gb estimated))) (\<lambda>_.
             py_seq (reactivate_if_inactive tenant) (py_return (response ''Sikeres szamlazas.''))))))))"

definition complete_failed ::
  "tenant_snapshot \<Rightarrow> subscription \<Rightarrow> billing_plan \<Rightarrow> estimate \<Rightarrow> date \<Rightarrow> string \<Rightarrow> bool \<Rightarrow> billing_run billing" where
  "complete_failed tenant subscription plan estimated billing_date period_key force_new_invoice =
     (let t = ts_tenant_id tenant in
      py_bind (py_gets (\<lambda>w.
         (if force_new_invoice then None else get_invoice w t ''monthly_subscription_failed'' period_key,
          case unsettled_failure w t of None \<Rightarrow> billing_date | Some f \<Rightarrow> dt_date (inv_due_at f),
          clock_now w))) (\<lambda>(existing_failed, restriction_due_date, now).
      py_seq
        (if existing_failed \<noteq> None then py_return ()
         else py_seq (create_invoice
           (run_invoice t subscription plan estimated ''monthly_subscription_failed'' period_key
              ''payment_failed'' ''simulated_card'' (''Sikertelen fizetes: '' @ bp_name plan)
              [(''payment_failed'', JBool True)] now (midnight restriction_due_date))) (py_return ()))
        (py_return \<lparr>br_status = ''payment_failed'', br_message = ''Sikertelen fizetes rogzitve.'',
           br_billing_date = isoformat billing_date, br_next_billing_date = None,
           br_grace_until = Some (isoformat
             (add_days restriction_due_date payment_failure_deactivation_days))\<rparr>)))"

definition complete_subscription_billing ::
  "env \<Rightarrow> tenant_snapshot \<Rightarrow> subscription \<Rightarrow> string \<Rightarrow> bool \<Rightarrow> bool \<Rightarrow> billing_run billing" where
  "complete_subscription_billing e tenant subscription0 outcome force force_new_invoice =
     py_bind (py_gets (\<lambda>w. (billing_due_date subscription0 (period_end_date w), clock_now w))) (\<lambda>(billing_date, now).
     if dt_date now < billing_date \<and> \<not> force then
       py_return \<lparr>br_status = ''not_due'', br_message = ''Ma meg nincs szamlazasi nap.'',
         br_billing_date = isoformat billing_date, br_next_billing_date = None, br_grace_until = None\<rparr>
     else
       py_bind (apply_due_scheduled_plan_change (ts_tenant_id tenant) subscription0) (\<lambda>subscription.
       let period_key = (if force_new_invoice then stamp16 now else subscription_period_key billing_date) in
       py_bind (plan_for (sub_plan_code subscription)) (\<lambda>plan.
       py_bind load_resource_counts (\<lambda>resources.
       py_bind (estimate_next_invoice subscription (Some resources)) (\<lambda>estimated.
       if outcome = ''success'' then
         complete_success e tenant subscription plan estimated billing_date period_key force_new_invoice
       else if outcome = ''failed'' then
         complete_failed tenant subscription plan estimated billing_date period_key force_new_invoice
       else py_raise (Value_error ''Ismeretlen szamlazasi kimenet.''))))))"

section \<open>The owner settles\<close>

definition settle_debt :: "env \<Rightarrow> tenant_snapshot \<Rightarrow> subscription \<Rightarrow> invoice \<Rightarrow> billing_run billing" where
  "settle_debt e tenant subscription debt =
     (let t = ts_tenant_id tenant in
      py_bind (execute_payment e (inv_total_cents debt)
        (''Tartozas rendezese: '' @ sub_plan_code subscription)
        [(''tenant_slug'', ts_slug tenant), (''flow'', ''subscription_settle''),
         (''invoice_id'', str_of_int (inv_id debt)), (''plan'', sub_plan_code subscription),
         (''billing_period'', sub_billing_period subscription)]) (\<lambda>payment.
      py_bind (py_gets (\<lambda>w. billing_due_date subscription (period_end_date w))) (\<lambda>billing_date.
      if owner_checkout_payment_accepted payment then
        py_seq (settle_debt_invoice_as_paid e tenant subscription debt)
          (py_return \<lparr>br_status = ''paid'',
             br_message = (if pr_success payment
               then (if str_or (pr_external_id payment) '''' \<noteq> ''''
                     then ''Sikeres tartozas-rendezes. Tranzakcio: '' @ str_or (pr_external_id payment) ''''
                     else ''Sikeres tartozas-rendezes.'')
               else ''A tartozast manualis szamlazasi modban fizetettkent rogzitettuk.''),
             br_billing_date = isoformat billing_date,
             br_next_billing_date = Some (isoformat
               (next_billing_date_after billing_date (sub_billing_period subscription))),
             br_grace_until = None\<rparr>)
      else
        py_bind (py_gets (\<lambda>w. if get_invoice w t ''monthly_subscription_failed'' (inv_period_key debt) = None
                              then Some ''monthly_subscription_failed'' else None)) (\<lambda>target_type.
        py_seq (update_invoice_payment_status (inv_id debt) ''payment_failed'' (Some ''settle_failed'')
                  target_type None)
        (py_seq (sync_status t subscription)
          (py_return \<lparr>br_status = ''payment_failed'',
             br_message = str_or (pr_message payment) ''A fizetes nem sikerult.'',
             br_billing_date = isoformat billing_date, br_next_billing_date = None,
             br_grace_until = Some (isoformat
               (add_days billing_date payment_failure_deactivation_days))\<rparr>))))))"

definition settle_subscription :: "env \<Rightarrow> tenant_snapshot \<Rightarrow> billing_run billing" where
  "settle_subscription e tenant =
     py_bind (ensure_subscription tenant) (\<lambda>subscription.
     py_bind (py_gets (\<lambda>w. get_latest_unpaid_debt_invoice w (ts_tenant_id tenant))) (\<lambda>debt_opt.
     case debt_opt of
       Some debt \<Rightarrow> settle_debt e tenant subscription debt
     | None \<Rightarrow>
         py_bind (py_gets (\<lambda>w. load_resource_counts_for_tenant w (ts_slug tenant))) (\<lambda>resources.
         py_bind (estimate_next_invoice subscription (Some resources)) (\<lambda>estimated.
         py_bind (execute_payment e (es_total_cents estimated)
            (''Havi elofizetes rendezese: '' @ sub_plan_code subscription)
            [(''tenant_slug'', ts_slug tenant), (''flow'', ''subscription_settle''),
             (''plan'', sub_plan_code subscription), (''billing_period'', sub_billing_period subscription)])
          (\<lambda>payment.
         if owner_checkout_payment_accepted payment then
           py_bind (complete_subscription_billing e tenant subscription ''success'' True False) (\<lambda>settled.
           if str_or (pr_external_id payment) '''' \<noteq> '''' then
             py_return (settled\<lparr>br_message := br_message settled @ '' Tranzakcio: '' @
                                  str_or (pr_external_id payment) ''''\<rparr>)
           else if \<not> pr_success payment then
             py_return (settled\<lparr>br_message := ''A szamlat manualis szamlazasi modban fizetettkent rogzitettuk.''\<rparr>)
           else py_return settled)
         else complete_subscription_billing e tenant subscription ''failed'' True False)))))"

section \<open>Add-ons\<close>

text \<open>What a purchase adds to the subscription, by the code of the add-on; \<open>plan_chars\<close> are the training
  characters of the plan, read for the training add-ons only.\<close>

definition addon_grant :: "int \<Rightarrow> billing_addon \<Rightarrow> string \<Rightarrow> int \<Rightarrow> subscription \<Rightarrow> subscription" where
  "addon_grant plan_chars addon code qty s =
     (if code = ''question_pack_50'' then
        s\<lparr>sub_carryover_addon_questions := sub_carryover_addon_questions s + 50 * qty\<rparr>
      else if code = ''question_pack_100'' then
        s\<lparr>sub_carryover_addon_questions := sub_carryover_addon_questions s + 100 * qty\<rparr>
      else if code = ''question_pack_500'' then
        s\<lparr>sub_carryover_addon_questions := sub_carryover_addon_questions s + 500 * qty\<rparr>
      else if code = ''extra_kb'' then s\<lparr>sub_extra_kb_count := sub_extra_kb_count s + qty\<rparr>
      else if code = ''extra_storage_gb'' then s\<lparr>sub_extra_storage_gb := sub_extra_storage_gb s + qty\<rparr>
      else if code \<in> {''training_initial_500k'', ''training_extra_500k''} then
        s\<lparr>sub_carryover_training_chars :=
            max (sub_carryover_training_chars s) plan_chars +
            max 0 (jint_or (ba_metadata addon ''training_chars'') 1000000) * qty\<rparr>
      else s)"

definition needs_plan :: "string \<Rightarrow> bool" where
  "needs_plan code \<longleftrightarrow> code \<in> {''training_initial_500k'', ''training_extra_500k''}"

definition purchase_addon :: "env \<Rightarrow> tenant_snapshot \<Rightarrow> string \<Rightarrow> int \<Rightarrow> invoice billing" where
  "purchase_addon e tenant addon_code quantity =
     (let normalized_code = py_lower (py_strip addon_code); t = ts_tenant_id tenant in
      py_bind (py_gets (\<lambda>w. addon_map_of w normalized_code)) (\<lambda>known.
      case known of
        None \<Rightarrow> py_raise (Value_error ''Ismeretlen addon.'')
      | Some addon \<Rightarrow>
          let qty = max 1 quantity; total_cents = ba_price_cents addon * qty in
          py_bind (execute_payment e total_cents
            (''Addon vasarlas: '' @ ba_name addon @ '' x '' @ str_of_int qty)
            [(''tenant_slug'', ts_slug tenant), (''flow'', ''addon_purchase''),
             (''addon_code'', normalized_code), (''quantity'', str_of_int qty)]) (\<lambda>payment.
          if \<not> owner_checkout_payment_accepted payment
          then py_raise (Value_error (str_or (pr_message payment) ''A fizetes nem sikerult.''))
          else
            py_bind (ensure_subscription tenant) (\<lambda>subscription.
            py_bind (if needs_plan normalized_code
                     then py_bind (plan_for (sub_plan_code subscription)) (\<lambda>plan.
                            py_return (bp_included_training_chars plan))
                     else py_return 0) (\<lambda>plan_chars.
            py_bind (upsert_subscription_from_existing t subscription
                       (addon_grant plan_chars addon normalized_code qty)) (\<lambda>updated.
            py_seq (sync_tenant_config tenant updated)
            (py_bind (py_gets clock_now) (\<lambda>issued_at.
             create_invoice
               \<lparr>inv_id = 0, inv_tenant_id = t, inv_type = ''addon:'' @ normalized_code,
                inv_period_key = stamp16 issued_at, inv_status = invoice_paid_status e,
                inv_currency = default_currency, inv_total_cents = total_cents,
                inv_payment_method = invoice_payment_method e,
                inv_description = ba_name addon @ '' x '' @ str_of_int qty,
                inv_lines = [[(''code'', JStr (ba_code addon)), (''name'', JStr (ba_name addon)),
                  (''quantity'', JInt qty), (''unit_price_cents'', JInt (ba_price_cents addon)),
                  (''total_cents'', JInt total_cents),
                  (''simulated_payment'', JBool (is_simulated_provider e)),
                  (''payment_provider'', JStr (provider e)),
                  (''payment_reference'', case pr_external_id payment of None \<Rightarrow> JNull | Some x \<Rightarrow> JStr x)]],
                inv_issued_at = issued_at, inv_due_at = issued_at\<rparr>))))))))"

section \<open>Invoice download\<close>

text \<open>The guards of \<open>render_invoice_pdf\<close>; the rendering itself is ReportLab.\<close>

definition invoice_for_download :: "int \<Rightarrow> int \<Rightarrow> invoice billing" where
  "invoice_for_download tenant_id invoice_id =
     py_bind (py_gets (\<lambda>w. get_invoice_by_id w tenant_id invoice_id)) (\<lambda>found.
     case found of
       None \<Rightarrow> py_raise (Value_error ''Szamla nem talalhato.'')
     | Some invoice \<Rightarrow>
         if py_lower (py_strip (inv_status invoice)) \<notin> {''paid'', ''simulated_paid'', ''manual_paid''}
         then py_raise (Permission_error ''A szamla csak fizetes utan toltheto le.'')
         else if inv_total_cents invoice \<le> 0
         then py_raise (Permission_error ''A szamla csak fizetes utan toltheto le.'')
         else py_return invoice)"

end
