(* ===== verification/Billing_Access.thy ===== *)
theory Billing_Access
  imports Billing_Checkout
begin

text \<open>
  Quotas, cancellation and access of \<open>BillingService\<close>: what a tenant may still do, the warning mail at
  90 and 100 percent, cancelling and restoring the renewal, the lifecycle that ends in the deletion of
  the tenant, and the status page. \<open>drop_tenant_schema\<close> removes the schema of the slug; the tenant
  caches are not modelled.
\<close>

section \<open>What a tenant may do\<close>

definition billing_disabled :: "env \<Rightarrow> bool" where
  "billing_disabled e \<longleftrightarrow> py_lower (str_or (env_billing_disabled e) '''') \<in> {''1'', ''true'', ''yes''}"

text \<open>\<open>ensure_subscription\<close> and \<open>assert_not_restricted\<close>, then the check of the operation.\<close>

definition when_not_restricted ::
  "tenant_snapshot \<Rightarrow> (subscription \<Rightarrow> (bool \<times> string option) billing) \<Rightarrow> (bool \<times> string option) billing" where
  "when_not_restricted tenant check =
     py_bind (ensure_subscription tenant) (\<lambda>subscription.
     py_bind (assert_not_restricted (ts_tenant_id tenant) subscription) (\<lambda>(allowed, message).
     if \<not> allowed then py_return (allowed, message) else check subscription))"

definition can_create_user :: "tenant_snapshot \<Rightarrow> (bool \<times> string option) billing" where
  "can_create_user tenant =
     when_not_restricted tenant (\<lambda>subscription.
     py_bind (build_limits subscription) (\<lambda>limits.
     case lim_max_users limits of
       None \<Rightarrow> py_return (True, None)
     | Some max_users \<Rightarrow>
         py_bind load_resource_counts (\<lambda>counts.
         if rs_users counts \<ge> max_users then py_return (False, Some ''felhasznaloi limit'')
         else py_return (True, None))))"

definition can_create_kb :: "tenant_snapshot \<Rightarrow> (bool \<times> string option) billing" where
  "can_create_kb tenant =
     when_not_restricted tenant (\<lambda>subscription.
     py_bind (build_limits subscription) (\<lambda>limits.
     py_bind load_resource_counts (\<lambda>counts.
     if rs_knowledge_bases counts \<ge> lim_knowledge_bases limits then py_return (False, Some ''tudastar limit'')
     else py_return (True, None))))"

definition can_consume_question :: "env \<Rightarrow> tenant_snapshot \<Rightarrow> (bool \<times> string option) billing" where
  "can_consume_question e tenant =
     (if billing_disabled e then py_return (True, None)
      else when_not_restricted tenant (\<lambda>subscription.
        py_bind (question_usage_summary (ts_tenant_id tenant) subscription) (\<lambda>(usage, _).
        if qs_remaining_total usage \<le> 0 then py_return (False, Some ''Elfogyott a kerdesszam kereted.'')
        else py_return (True, None))))"

definition can_consume_training_chars :: "tenant_snapshot \<Rightarrow> int \<Rightarrow> (bool \<times> string option) billing" where
  "can_consume_training_chars tenant char_count =
     (if char_count \<le> 0 then py_return (True, None)
      else when_not_restricted tenant (\<lambda>subscription.
        py_bind (training_usage_summary (ts_tenant_id tenant) subscription) (\<lambda>training.
        if tr_remaining training < char_count
        then py_return (False, Some ''Nincs eleg tanitasi karakterkeret a csomagban.'')
        else py_return (True, None))))"

section \<open>Recording use\<close>

definition record_training_ingest :: "tenant_snapshot \<Rightarrow> int \<Rightarrow> int \<Rightarrow> unit billing" where
  "record_training_ingest tenant char_count storage_bytes =
     py_bind (ensure_subscription tenant) (\<lambda>_.
     py_bind (py_gets current_period_key) (\<lambda>period_key.
     py_bind (increment_training_usage (ts_tenant_id tenant) period_key (max 0 char_count)
                (max 0 storage_bytes)) (\<lambda>_. py_return ())))"

definition tenant_has_training_material :: "tenant_snapshot \<Rightarrow> bool billing" where
  "tenant_has_training_material tenant =
     py_bind (ensure_subscription tenant) (\<lambda>subscription.
     py_bind (training_usage_summary (ts_tenant_id tenant) subscription) (\<lambda>training.
     py_return (tr_trained_chars training > 0 \<or> tr_storage_bytes training > 0)))"

definition question_warning_levels :: "int list" where
  "question_warning_levels = [90, 100]"

text \<open>The owner of the request schema, \<open>user_repository.get_owner()\<close>, with a non-empty mail address.\<close>

definition owner_email :: "world \<Rightarrow> string option" where
  "owner_email w =
     (case w_schemas w (w_current_schema w) of
        None \<Rightarrow> None
      | Some sc \<Rightarrow>
          (case find (\<lambda>u. \<not> ur_deleted u \<and> ur_role u = ''owner'') (sc_users sc) of
             None \<Rightarrow> None | Some u \<Rightarrow> if ur_email u = '''' then None else Some (ur_email u)))"

definition target_warning_level :: "int \<Rightarrow> int" where
  "target_warning_level percent_used =
     foldl (\<lambda>target level. if percent_used \<ge> level then level else target) 0 question_warning_levels"

definition send_question_warning_if_needed :: "env \<Rightarrow> tenant_snapshot \<Rightarrow> subscription \<Rightarrow> unit billing" where
  "send_question_warning_if_needed e tenant subscription =
     py_bind (question_usage_summary (ts_tenant_id tenant) subscription) (\<lambda>(usage, _).
     if qs_available_total usage \<le> 0 then py_return ()
     else
       let current_level = (if sub_question_warning_period_key subscription = Some (qs_period_key usage)
                            then sub_question_warning_level subscription else 0);
           target_level = target_warning_level (qs_percent_used usage) in
       if target_level \<le> current_level then py_return ()
       else
         py_bind (py_gets owner_email) (\<lambda>owner.
         case owner of
           None \<Rightarrow> py_return ()
         | Some to \<Rightarrow>
             py_seq (send_email e to (Question_warning_mail (ts_slug tenant) target_level (qs_period_key usage)
                       (qs_used_total usage) (qs_available_total usage) (qs_remaining_total usage)))
             (py_bind (upsert_subscription_from_existing (ts_tenant_id tenant) subscription (\<lambda>s. s
                \<lparr>sub_question_warning_period_key := Some (qs_period_key usage),
                 sub_question_warning_level := target_level\<rparr>)) (\<lambda>_. py_return ()))))"

definition record_question :: "env \<Rightarrow> tenant_snapshot \<Rightarrow> int \<Rightarrow> unit billing" where
  "record_question e tenant user_id =
     py_bind (ensure_subscription tenant) (\<lambda>subscription.
     py_bind (py_gets current_period_key) (\<lambda>period_key.
     py_seq (upsert_question_usage (ts_tenant_id tenant) user_id period_key 1)
       (send_question_warning_if_needed e tenant subscription)))"

section \<open>Cancelling and restoring\<close>

record cancellation_response =
  cn_status :: string
  cn_active_kb_count :: int
  cn_request_id :: "int option"
  cn_current_period_end_iso :: string

definition paid_until_of :: "int \<Rightarrow> subscription \<Rightarrow> date billing" where
  "paid_until_of tenant_id subscription =
     py_gets (\<lambda>w. subscription_due_date w tenant_id subscription (period_end_date w))"

definition cancel_subscription ::
  "tenant_snapshot \<Rightarrow> string \<Rightarrow> string \<Rightarrow> int option \<Rightarrow> cancellation_response billing" where
  "cancel_subscription tenant reason_code reason_text requested_by =
     py_bind (ensure_subscription tenant) (\<lambda>subscription.
     py_bind load_resource_counts (\<lambda>resources.
     py_bind (paid_until_of (ts_tenant_id tenant) subscription) (\<lambda>paid_until.
     let normalized_reason = py_lower (py_strip reason_code) in
     if normalized_reason \<notin> {''too_expensive'', ''not_using'', ''not_satisfied'', ''missing_features'', ''other''}
     then py_raise (Value_error ''Ervenytelen lemondasi ok.'')
     else
       py_bind (create_cancellation_request (ts_tenant_id tenant) (ts_slug tenant) requested_by
          normalized_reason (take 2000 (py_strip reason_text)) (rs_knowledge_bases resources)
          ''deactivation_requested'' (Some (midnight (add_days paid_until 1))) None) (\<lambda>row.
       py_return \<lparr>cn_status = ''deactivation_requested'',
         cn_active_kb_count = rs_knowledge_bases resources, cn_request_id = Some (cx_id row),
         cn_current_period_end_iso = isoformat paid_until\<rparr>))))"

definition restore_subscription_renewal :: "tenant_snapshot \<Rightarrow> cancellation_response billing" where
  "restore_subscription_renewal tenant =
     py_bind (ensure_subscription tenant) (\<lambda>subscription.
     py_bind (paid_until_of (ts_tenant_id tenant) subscription) (\<lambda>paid_until.
     py_bind (py_gets (\<lambda>w. get_latest_cancellation_request w (ts_tenant_id tenant))) (\<lambda>latest.
     let response = (\<lambda>status i. \<lparr>cn_status = status, cn_active_kb_count = 0, cn_request_id = i,
           cn_current_period_end_iso = isoformat paid_until\<rparr>) in
     case latest of
       None \<Rightarrow> py_return (response ''already_active'' None)
     | Some cx \<Rightarrow>
         if py_lower (cx_status cx) \<noteq> ''deactivation_requested''
         then py_return (response ''already_active'' None)
         else if cx_deactivated_at cx \<noteq> None
         then py_raise (Value_error ''A szolgaltatas hozzaferese mar le van tiltva.'')
         else
           py_bind (py_gets clock_now) (\<lambda>now.
           py_bind (restore_latest_cancellation_request (ts_tenant_id tenant) now) (\<lambda>restored.
           if \<not> restored then py_return (response ''already_active'' None)
           else py_return (response ''renewal_restored'' (Some (cx_id cx))))))))"

definition delete_service_access :: "tenant_snapshot \<Rightarrow> int option \<Rightarrow> cancellation_response billing" where
  "delete_service_access tenant requested_by =
     py_bind (ensure_subscription tenant) (\<lambda>subscription.
     py_bind load_resource_counts (\<lambda>resources.
     py_bind (paid_until_of (ts_tenant_id tenant) subscription) (\<lambda>paid_until.
     let response = (\<lambda>status kbs i. \<lparr>cn_status = status, cn_active_kb_count = kbs, cn_request_id = i,
           cn_current_period_end_iso = isoformat paid_until\<rparr>) in
     if rs_knowledge_bases resources > 0
     then py_return (response ''blocked_active_knowledge_bases'' (rs_knowledge_bases resources) None)
     else
       py_bind (py_gets (\<lambda>w. (get_latest_cancellation_request w (ts_tenant_id tenant), clock_now w))) (\<lambda>(latest, now).
       case latest of
         None \<Rightarrow> py_raise (Value_error ''A torles elott rogzitsd a lemondast.'')
       | Some cx \<Rightarrow>
           if py_lower (cx_status cx) \<noteq> ''deactivation_requested''
           then py_raise (Value_error ''A torles elott rogzitsd a lemondast.'')
           else if cx_deactivated_at cx = None then
             py_seq (tenant_deactivate (ts_tenant_id tenant) requested_by)
             (py_seq (mark_cancellation_deactivated (cx_id cx) now)
               (py_return (response ''deactivated'' 0 (Some (cx_id cx)))))
           else py_return (response ''already_deactivated'' 0 (Some (cx_id cx)))))))"

section \<open>The cancellation lifecycle\<close>

record lifecycle_metrics =
  lm_emails_sent :: nat
  lm_deactivated :: nat
  lm_deleted :: nat

text \<open>Send a notice and, when it went out, mark it; the mark decides whether it counts.\<close>

definition send_notice ::
  "env \<Rightarrow> string \<Rightarrow> mail_body \<Rightarrow> bool billing \<Rightarrow> (world \<times> lifecycle_metrics, billing_error, unit) py" where
  "send_notice e to body mark =
     py_bind (py_on (send_email e to body)) (\<lambda>sent.
     if \<not> sent then py_return ()
     else py_bind (py_on mark) (\<lambda>marked.
       if marked then py_count (\<lambda>m. m\<lparr>lm_emails_sent := lm_emails_sent m + 1\<rparr>) else py_return ()))"

text \<open>\<open>drop_tenant_schema\<close>: an unsafe slug raises \<open>ValueError\<close>.\<close>

definition safe_slug :: "string \<Rightarrow> bool" where
  "safe_slug slug \<longleftrightarrow> list_all (\<lambda>c. let n = of_char c :: nat in
     (97 \<le> n \<and> n \<le> 122) \<or> (65 \<le> n \<and> n \<le> 90) \<or> (48 \<le> n \<and> n \<le> 57) \<or> c = CHR ''_'' \<or> c = CHR ''-'' \<or>
     n \<in> {170, 178, 179, 181, 185, 186, 188, 189, 190} \<or> (192 \<le> n \<and> n \<noteq> 215 \<and> n \<noteq> 247)) slug"

definition drop_tenant_schema :: "string \<Rightarrow> unit billing" where
  "drop_tenant_schema slug =
     (if \<not> safe_slug slug then py_raise (Value_error ''Ervenytelen tenant slug'')
      else py_modify (\<lambda>w. w\<lparr>w_schemas := (w_schemas w)(slug := None)\<rparr>))"

definition lifecycle_delete ::
  "env \<Rightarrow> cancellation \<Rightarrow> (world \<times> lifecycle_metrics, billing_error, unit) py" where
  "lifecycle_delete e row =
     (let tenant_slug = py_strip (cx_tenant_slug row) in
      py_bind (if env_has_engine e \<and> tenant_slug \<noteq> ''''
               then py_try (py_seq (py_on (drop_tenant_schema tenant_slug)) (py_return True))
                      (\<lambda>_. py_return False)
               else py_return True) (\<lambda>go_on.
      if \<not> go_on then py_return ()
      else py_bind (py_on (hard_delete_tenant (cx_tenant_id row))) (\<lambda>deleted.
        if deleted then py_count (\<lambda>m. m\<lparr>lm_deleted := lm_deleted m + 1\<rparr>) else py_return ())))"

text \<open>The loop body for one request; \<open>row\<close> is the row as it was listed.\<close>

definition lifecycle_row ::
  "env \<Rightarrow> datetime \<Rightarrow> cancellation \<Rightarrow> (world \<times> lifecycle_metrics, billing_error, unit) py" where
  "lifecycle_row e now row =
     (case cx_effective_at row of
        None \<Rightarrow> py_return ()
      | Some effective_at \<Rightarrow>
          let today = dt_date now;
              effective_date = dt_date effective_at;
              days_until = days_between today effective_date in
          py_bind (py_on (py_gets (\<lambda>w. owner_email_for_tenant_slug w (cx_tenant_slug row)))) (\<lambda>owner_email.
          py_seq
            (case owner_email of
               None \<Rightarrow> py_return ()
             | Some to \<Rightarrow>
                 py_seq
                   (if days_until = 2 \<and> cx_notice_two_days_sent_at row = None
                    then send_notice e to Notice_two_days
                           (mark_cancellation_notice_two_days_sent (cx_id row) now) else py_return ())
                   (if days_until = 1 \<and> cx_notice_one_day_sent_at row = None
                    then send_notice e to Notice_one_day
                           (mark_cancellation_notice_one_day_sent (cx_id row) now) else py_return ()))
          (py_seq
            (if cx_deactivated_at row = None \<and> today \<ge> add_days effective_date 7 then
               py_seq (py_on (tenant_deactivate (cx_tenant_id row) None))
                 (py_bind (py_on (mark_cancellation_deactivated (cx_id row) now)) (\<lambda>marked.
                  if marked then py_count (\<lambda>m. m\<lparr>lm_deactivated := lm_deactivated m + 1\<rparr>)
                  else py_return ()))
             else py_return ())
          (py_seq
            (case owner_email of
               None \<Rightarrow> py_return ()
             | Some to \<Rightarrow>
                 if effective_at \<le> now \<and> cx_notice_expired_sent_at row = None
                 then send_notice e to Notice_expired
                        (mark_cancellation_notice_expired_sent (cx_id row) now)
                 else py_return ())
            (case cx_deactivated_at row of
               None \<Rightarrow> py_return ()
             | Some deactivated_at \<Rightarrow>
                 if today < add_days (dt_date deactivated_at) 7 then py_return ()
                 else lifecycle_delete e row)))))"

definition process_cancellation_lifecycle :: "env \<Rightarrow> lifecycle_metrics billing" where
  "process_cancellation_lifecycle e =
     py_bind (py_gets (\<lambda>w. (clock_now w, list_cancellation_requests_for_lifecycle w))) (\<lambda>(now, rows).
     with_metrics \<lparr>lm_emails_sent = 0, lm_deactivated = 0, lm_deleted = 0\<rparr>
       (py_fold (\<lambda>row _. lifecycle_row e now row) rows ()))"

definition process_due_cycles :: "env \<Rightarrow> unit billing" where
  "process_due_cycles e =
     py_seq (process_cancellation_lifecycle e)
       (py_seq process_cycle (py_seq (retry_failed_payments_daily e) (py_return ())))"

section \<open>The status page\<close>

record access_status =
  ac_restricted :: bool
  ac_payment_warning :: "payment_notice option"
  ac_tenant_active :: bool
  ac_billing_lock :: bool
  ac_recovery_mode :: bool
  ac_redirect_path :: string

definition get_access_status :: "env \<Rightarrow> tenant_snapshot \<Rightarrow> access_status billing" where
  "get_access_status e tenant =
     (let t = ts_tenant_id tenant in
      py_bind (ensure_subscription tenant) (\<lambda>subscription0.
      py_bind
        (if ts_is_active tenant then
           py_seq (process_due_cycles e)
           (py_bind (ensure_subscription tenant) (\<lambda>s1.
            py_bind (sync_status t s1) (\<lambda>s2.
            py_seq (sync_tenant_config tenant s2) (py_return s2))))
         else py_return subscription0) (\<lambda>subscription.
      py_bind (py_gets (\<lambda>w. has_unpaid_subscription_debt w t)) (\<lambda>has_debt.
      let restricted = sub_status subscription = status_value RESTRICTED;
          recovery_mode = \<not> ts_is_active tenant \<and> has_debt;
          billing_lock = has_debt \<or> restricted \<or> recovery_mode in
      py_bind (billing_payment_notice t subscription) (\<lambda>notice.
      py_return \<lparr>ac_restricted = (restricted \<or> recovery_mode), ac_payment_warning = notice,
        ac_tenant_active = ts_is_active tenant, ac_billing_lock = billing_lock,
        ac_recovery_mode = recovery_mode,
        ac_redirect_path = (if billing_lock then ''/admin/szamlak/kiegyenlites''
                            else ''/admin/szamlak'')\<rparr>)))))"

section \<open>Platform debug operations\<close>

definition ensure_storage :: "unit billing" where
  "ensure_storage =
     py_seq (repo_seed_catalog default_catalog_rows)
       (py_bind (py_gets get_debug_simulated_date) (\<lambda>v. set_clock_simulated_date v))"

definition svc_set_debug_simulated_date :: "env \<Rightarrow> date option \<Rightarrow> string option \<Rightarrow> unit billing" where
  "svc_set_debug_simulated_date e value payment_outcome =
     py_seq (case payment_outcome of
               None \<Rightarrow> py_return ()
             | Some outcome \<Rightarrow> py_try (set_debug_payment_simulation_outcome outcome) (\<lambda>_. py_return ()))
     (py_seq (py_try (set_debug_simulated_date value) (\<lambda>_. py_return ()))
     (py_seq (set_clock_simulated_date value)
     (py_seq (process_cancellation_lifecycle e)
     (py_seq process_cycle
       (if value \<noteq> None then
          py_bind (py_gets get_debug_payment_simulation_outcome) (\<lambda>outcome.
          py_seq (simulate_open_invoice_payments e outcome) (py_return ()))
        else py_seq (retry_failed_payments_daily e) (py_return ()))))))"

record sms_quota_response =
  sq_sms_quota :: int
  sq_plan_included :: int
  sq_used_total :: int
  sq_carryover :: int
  sq_available_total :: int
  sq_remaining_total :: int

definition set_debug_sms_quota :: "int \<Rightarrow> int \<Rightarrow> sms_quota_response billing" where
  "set_debug_sms_quota tenant_id sms_quota =
     (if sms_quota < 0 then py_raise (Value_error ''Az SMS keret nem lehet negativ.'')
      else
        py_bind (py_gets (\<lambda>w. case find (\<lambda>r. tn_id r = tenant_id) (list_all_tenants w) of
            None \<Rightarrow> None | Some row \<Rightarrow> get_snapshot_by_slug w (tn_slug row))) (\<lambda>snapshot.
        case snapshot of
          None \<Rightarrow> py_raise (Value_error ''tenant_not_found'')
        | Some tenant \<Rightarrow>
            py_bind (ensure_subscription tenant) (\<lambda>subscription.
            py_bind (plan_for (sub_plan_code subscription)) (\<lambda>plan.
            py_bind (py_gets (\<lambda>w. questions_used_in_period w (ts_tenant_id tenant)
                                   (fst (current_month_period (w_now w))))) (\<lambda>used_total.
            let monthly_included = bp_included_questions_monthly plan;
                carryover = used_total + sms_quota - monthly_included in
            py_bind (upsert_subscription_from_existing (ts_tenant_id tenant) subscription
                (\<lambda>s. s\<lparr>sub_carryover_addon_questions := carryover\<rparr>)) (\<lambda>updated.
            py_seq (sync_tenant_config tenant updated)
              (let final_available = monthly_included + sub_carryover_addon_questions updated in
               py_return \<lparr>sq_sms_quota = sms_quota, sq_plan_included = monthly_included,
                 sq_used_total = used_total, sq_carryover = sub_carryover_addon_questions updated,
                 sq_available_total = final_available,
                 sq_remaining_total = max 0 (final_available - used_total)\<rparr>)))))))"

end
