(* ===== verification/Billing_Integrity.thy ===== *)
theory Billing_Integrity
  imports Billing_Access
begin

text \<open>
  The tables keep their constraints under every operation of the billing service, on every path:
  returns, raised exceptions and caught ones. Each lemma follows the shape of its definition by the
  rules of \<open>preserve\<close>.
\<close>

section \<open>Reading operations\<close>

lemma plan_for_reads [reads]: "reads_only (plan_for code)"
  by (simp add: reads_only_def plan_for_def)

lemma free_plan_reads [reads]: "reads_only free_plan"
  by (simp add: reads_only_def free_plan_def)

lemma plan_at_reads [reads]: "reads_only (plan_at code)"
  by (simp add: reads_only_def plan_at_def)

lemma parse_date_reads [reads]: "reads_only (parse_date s)"
  unfolding parse_date_def by (rule reads)

lemma load_resource_counts_reads [reads]: "reads_only load_resource_counts"
  by (simp add: reads_only_def load_resource_counts_def split: option.splits)

lemma available_training_chars_reads [reads]: "reads_only (available_training_chars sub)"
  unfolding available_training_chars_def by (intro reads)

lemma build_limits_reads [reads]: "reads_only (build_limits sub)"
  unfolding build_limits_def by (intro reads)

lemma question_usage_summary_reads [reads]: "reads_only (question_usage_summary t sub)"
  unfolding question_usage_summary_def
  by (intro reads) (simp add: reads_only_def)

lemma training_usage_summary_reads [reads]: "reads_only (training_usage_summary t sub)"
  unfolding training_usage_summary_def by (intro reads)

lemma required_extra_storage_gb_reads [reads]: "reads_only (required_extra_storage_gb sub r)"
  unfolding required_extra_storage_gb_def by (intro reads)

lemma estimate_next_invoice_reads [reads]: "reads_only (estimate_next_invoice sub r)"
  unfolding estimate_next_invoice_def by (intro reads)

lemma svc_reads [reads]:
  "reads_only (svc_is_downgrade sub p)" "reads_only (svc_is_scheduled_change sub p q)"
  "reads_only (svc_compute_upgrade_proration sub p q)"
  by (simp_all add: reads_only_def svc_is_downgrade_def svc_is_scheduled_change_def
      svc_compute_upgrade_proration_def)

lemma sms_carryover_reads [reads]: "reads_only (sms_carryover_from_started_month sub)"
  unfolding sms_carryover_from_started_month_def by (intro reads)

lemma billing_payment_notice_reads [reads]: "reads_only (billing_payment_notice t sub)"
  unfolding billing_payment_notice_def by (intro reads)

lemma require_billing_profile_reads [reads]: "reads_only require_billing_profile_for_paid_checkout"
  unfolding require_billing_profile_for_paid_checkout_def by (intro reads)

lemma paid_until_of_reads [reads]: "reads_only (paid_until_of t sub)"
  unfolding paid_until_of_def by (intro reads)

lemmas readers =
  plan_for_reads free_plan_reads plan_at_reads parse_date_reads load_resource_counts_reads
  available_training_chars_reads build_limits_reads question_usage_summary_reads
  training_usage_summary_reads required_extra_storage_gb_reads estimate_next_invoice_reads svc_reads
  sms_carryover_reads billing_payment_notice_reads require_billing_profile_reads paid_until_of_reads

lemmas preserves_readers [preserve] = readers [THEN reads_only_preserves]

section \<open>Subscriptions and the cycle\<close>

lemma store_ok_upsert_from_existing [preserve]: "preserves store_ok (upsert_subscription_from_existing t s f)"
  unfolding upsert_subscription_from_existing_def by (rule preserve)

lemma store_ok_sync_tenant_config [preserve]: "preserves store_ok (sync_tenant_config tenant s)"
  unfolding sync_tenant_config_def by (intro preserve)

lemma store_ok_ensure_subscription [preserve]: "preserves store_ok (ensure_subscription tenant)"
  unfolding ensure_subscription_def by (intro preserve)

lemma store_ok_set_signup_subscription [preserve]: "preserves store_ok (set_signup_subscription t slug p b)"
  unfolding set_signup_subscription_def by (intro preserve)

lemma store_ok_sync_status [preserve]: "preserves store_ok (sync_status t s)"
  unfolding sync_status_def by (intro preserve)

lemma store_ok_assert_not_restricted [preserve]: "preserves store_ok (assert_not_restricted t s)"
  unfolding assert_not_restricted_def by (intro preserve)

lemma store_ok_apply_due_scheduled_plan_change [preserve]:
  "preserves store_ok (apply_due_scheduled_plan_change t s)"
  unfolding apply_due_scheduled_plan_change_def by (intro preserve)

lemma store_ok_issue_request [preserve]:
  "preserves store_ok (issue_subscription_payment_request tenant s d k)"
  unfolding issue_subscription_payment_request_def by (intro preserve)

lemma store_ok_invoicing_execute [preserve]: "preserves store_ok (invoicing_execute tenant s d)"
  unfolding invoicing_execute_def by (intro preserve)

lemma store_ok_cycle_tenant [preserve]: "preserves store_ok (cycle_tenant d row)"
  unfolding cycle_tenant_def cycle_tenant_body_def renewal_execute_def by (intro preserve)

lemma store_ok_process_cycle [preserve]: "preserves store_ok process_cycle"
  unfolding process_cycle_def by (intro preserve)

section \<open>Plan changes\<close>

lemma store_ok_apply_immediate_plan_change [preserve]:
  "preserves store_ok (apply_immediate_plan_change tenant s p b u)"
  unfolding apply_immediate_plan_change_def by (intro preserve)

lemma store_ok_get_upgrade_preview [preserve]: "preserves store_ok (get_upgrade_preview tenant p b)"
  unfolding get_upgrade_preview_def by (intro preserve)

lemma store_ok_apply_upgrade_event [preserve]: "preserves store_ok (apply_upgrade_event ev prov eid m b t)"
  unfolding apply_upgrade_event_def by (intro preserve)

lemma store_ok_process_verified_payment_event [preserve]:
  "preserves store_ok (process_verified_payment_event prov eid ty payload)"
  unfolding process_verified_payment_event_def by (intro preserve)

lemma store_ok_complete_upgrade [preserve]: "preserves store_ok (complete_upgrade_after_checkout e tenant p b)"
  unfolding complete_upgrade_after_checkout_def by (intro preserve)

lemma store_ok_update_subscription [preserve]: "preserves store_ok (update_subscription e tenant p b)"
  unfolding update_subscription_def by (intro preserve)

section \<open>Debts\<close>

lemma store_ok_reactivate [preserve]: "preserves store_ok (reactivate_if_inactive tenant)"
  unfolding reactivate_if_inactive_def by (intro preserve)

lemma store_ok_settle_debt_invoice [preserve]: "preserves store_ok (settle_debt_invoice_as_paid e tenant s i)"
  unfolding settle_debt_invoice_as_paid_def by (intro preserve)

lemma store_ok_send_email [preserve]: "preserves store_ok (send_email e to body)"
  by (rule preservesI) (simp add: send_email_def Let_def store_ok_defs)

lemma store_ok_failed_mail [preserve]: "preserves store_ok (send_payment_failed_owner_email e tenant i)"
  unfolding send_payment_failed_owner_email_def by (intro preserve)

lemma store_ok_mark_retry_meta [preserve]: "preserves store_ok (mark_invoice_retry_meta i d b)"
  unfolding mark_invoice_retry_meta_def by (intro preserve)

lemma preserves_with_metrics [preserve]:
  assumes "preserves (\<lambda>(s, c). P s) body"
  shows "preserves P (with_metrics m0 body)"
proof (rule preservesI)
  fix w assume "P w"
  then have "case snd (body (w, m0)) of (s, c) \<Rightarrow> P s"
    using preservesD [OF assms, of "(w, m0)"] by simp
  then show "P (snd (with_metrics m0 body w))"
    by (auto simp: with_metrics_def split: prod.splits sum.splits)
qed

lemma preserves_retry_skip [preserve]: "preserves (\<lambda>(s, c). P s) retry_skip"
  unfolding retry_skip_def by (rule preserves_count)

lemma preserves_simulate_skip [preserve]: "preserves (\<lambda>(s, c). P s) simulate_skip"
  unfolding simulate_skip_def by (rule preserves_count)

lemma preserves_simulate_done [preserve]: "preserves (\<lambda>(s, c). P s) (simulate_done t slug i st em)"
  unfolding simulate_done_def by (rule preserves_count)

lemma store_ok_retry_mark_failed [preserve]: "preserves store_ok (retry_mark_failed tenant s d)"
  unfolding retry_mark_failed_def by (intro preserve)

lemma store_ok_retry_tenant [preserve]: "preserves (\<lambda>(s, c). store_ok s) (retry_tenant e row)"
  unfolding retry_tenant_def retry_tenant_body_def by (intro preserve)

lemma store_ok_retry_daily [preserve]: "preserves store_ok (retry_failed_payments_daily e)"
  unfolding retry_failed_payments_daily_def by (intro preserve)

lemma store_ok_simulate_tenant [preserve]: "preserves (\<lambda>(s, c). store_ok s) (simulate_tenant e n row)"
  unfolding simulate_tenant_def simulate_tenant_body_def by (intro preserve)

lemma store_ok_simulate_open_invoice_payments [preserve]:
  "preserves store_ok (simulate_open_invoice_payments e outcome)"
  unfolding simulate_open_invoice_payments_def by (intro preserve)

section \<open>Checkout, quotas, cancellation\<close>

lemma store_ok_complete_billing [preserve]:
  "preserves store_ok (complete_subscription_billing e tenant s out f fn)"
  unfolding complete_subscription_billing_def complete_success_def complete_failed_def by (intro preserve)

lemma store_ok_settle_debt [preserve]: "preserves store_ok (settle_debt e tenant s d)"
  unfolding settle_debt_def by (intro preserve)

lemma store_ok_settle_subscription [preserve]: "preserves store_ok (settle_subscription e tenant)"
  unfolding settle_subscription_def by (intro preserve)

lemma store_ok_purchase_addon [preserve]: "preserves store_ok (purchase_addon e tenant c q)"
  unfolding purchase_addon_def by (intro preserve)

lemma preserves_when_not_restricted [preserve]:
  "(\<And>s. preserves store_ok (check s)) \<Longrightarrow> preserves store_ok (when_not_restricted tenant check)"
  unfolding when_not_restricted_def by (intro preserve)

lemma store_ok_can [preserve]:
  "preserves store_ok (can_create_user tenant)" "preserves store_ok (can_create_kb tenant)"
  "preserves store_ok (can_consume_question e tenant)" "preserves store_ok (can_consume_training_chars tenant n)"
  unfolding can_create_user_def can_create_kb_def can_consume_question_def can_consume_training_chars_def
  by (intro preserve)+

lemma store_ok_record_training_ingest [preserve]: "preserves store_ok (record_training_ingest tenant c b)"
  unfolding record_training_ingest_def by (intro preserve)

lemma store_ok_question_warning [preserve]: "preserves store_ok (send_question_warning_if_needed e tenant s)"
  unfolding send_question_warning_if_needed_def by (intro preserve)

lemma store_ok_record_question [preserve]: "preserves store_ok (record_question e tenant u)"
  unfolding record_question_def by (intro preserve)

lemma store_ok_cancel [preserve]: "preserves store_ok (cancel_subscription tenant rc rt u)"
  unfolding cancel_subscription_def by (intro preserve)

lemma store_ok_restore [preserve]: "preserves store_ok (restore_subscription_renewal tenant)"
  unfolding restore_subscription_renewal_def by (intro preserve)

lemma store_ok_delete_access [preserve]: "preserves store_ok (delete_service_access tenant u)"
  unfolding delete_service_access_def by (intro preserve)

lemma store_ok_drop_schema [preserve]: "preserves store_ok (drop_tenant_schema slug)"
  unfolding drop_tenant_schema_def
  by (intro preserve preserves_modify) (simp add: store_ok_defs)

lemma preserves_send_notice [preserve]:
  "preserves store_ok mark \<Longrightarrow> preserves (\<lambda>(s, c). store_ok s) (send_notice e to body mark)"
  unfolding send_notice_def by (intro preserve)

lemma store_ok_lifecycle_row [preserve]: "preserves (\<lambda>(s, c). store_ok s) (lifecycle_row e now row)"
  unfolding lifecycle_row_def lifecycle_delete_def by (intro preserve)

lemma store_ok_lifecycle [preserve]: "preserves store_ok (process_cancellation_lifecycle e)"
  unfolding process_cancellation_lifecycle_def by (intro preserve)

lemma store_ok_process_due_cycles [preserve]: "preserves store_ok (process_due_cycles e)"
  unfolding process_due_cycles_def by (intro preserve)

lemma store_ok_access_status [preserve]: "preserves store_ok (get_access_status e tenant)"
  unfolding get_access_status_def by (intro preserve)

lemma store_ok_set_debug_sms_quota [preserve]: "preserves store_ok (set_debug_sms_quota t n)"
  unfolding set_debug_sms_quota_def by (intro preserve)

lemma store_ok_svc_debug_date [preserve]: "preserves store_ok (svc_set_debug_simulated_date e v out)"
  unfolding svc_set_debug_simulated_date_def by (intro preserve)

end
