(* ===== verification/Billing_Frame.thy ===== *)
theory Billing_Frame
  imports Billing_Integrity
begin

text \<open>
  What the subscription, invoice and mail operations leave alone: the clock, the catalog, the usage
  tables, the tenant schemas, the recorded payment events. \<open>frame w0\<close> holds of the states that agree
  with \<open>w0\<close> on those parts.
\<close>

definition frame :: "world \<Rightarrow> world \<Rightarrow> bool" where
  "frame w0 w \<longleftrightarrow>
     w_now w = w_now w0 \<and> w_simulated_date w = w_simulated_date w0 \<and> w_catalog w = w_catalog w0 \<and>
     w_question_usage w = w_question_usage w0 \<and> w_training_usage w = w_training_usage w0 \<and>
     w_question_totals w = w_question_totals w0 \<and> w_payment_events w = w_payment_events w0 \<and>
     w_next_event_id w = w_next_event_id w0 \<and> w_schemas w = w_schemas w0 \<and>
     w_current_schema w = w_current_schema w0 \<and> w_profile w = w_profile w0 \<and>
     w_debug_state w = w_debug_state w0 \<and> map tn_id (w_tenants w) = map tn_id (w_tenants w0) \<and>
     map tn_slug (w_tenants w) = map tn_slug (w_tenants w0)"

lemma frame_refl [simp]: "frame w w"
  by (simp add: frame_def)

lemma frame_clock:
  assumes "frame w0 w"
  shows "clock_now w = clock_now w0" "clock_today w = clock_today w0" "current_period w = current_period w0"
    "period_end_date w = period_end_date w0" "current_period_key w = current_period_key w0"
proof -
  show c: "clock_now w = clock_now w0"
    using assms by (cases "w_simulated_date w0") (simp_all add: frame_def clock_now_def)
  then show p: "current_period w = current_period w0" by (simp add: current_period_def)
  from c show "clock_today w = clock_today w0" by (simp add: clock_today_def)
  from p show "period_end_date w = period_end_date w0" "current_period_key w = current_period_key w0"
    by (simp_all add: period_end_date_def current_period_key_def)
qed

lemma frame_plans: "frame w0 w \<Longrightarrow> plan_map_of w = plan_map_of w0"
  by (simp add: frame_def plan_map_of_def repo_list_catalog_def)

lemma frame_events: "frame w0 w \<Longrightarrow> w_payment_events w = w_payment_events w0"
  by (simp add: frame_def)

lemma frame_tenants: "frame w0 w \<Longrightarrow> tenant_ids w = tenant_ids w0"
  unfolding frame_def tenant_ids_def by (metis list.set_map)

lemma frame_upd [simp]:
  "frame w0 (w\<lparr>w_subscriptions := a\<rparr>) = frame w0 w"
  "frame w0 (w\<lparr>w_invoices := b\<rparr>) = frame w0 w"
  "frame w0 (w\<lparr>w_next_invoice_id := c\<rparr>) = frame w0 w"
  "frame w0 (w\<lparr>w_cancellations := d\<rparr>) = frame w0 w"
  "frame w0 (w\<lparr>w_next_cancellation_id := c\<rparr>) = frame w0 w"
  "frame w0 (w\<lparr>w_tenant_configs := f\<rparr>) = frame w0 w"
  "frame w0 (w\<lparr>w_mails := g\<rparr>) = frame w0 w"
  "frame w0 (w\<lparr>w_charges := h\<rparr>) = frame w0 w"
  by (simp_all add: frame_def)

lemma clock_now_upd [simp]:
  "clock_now (w\<lparr>w_subscriptions := a\<rparr>) = clock_now w" "clock_now (w\<lparr>w_invoices := b\<rparr>) = clock_now w"
  "clock_now (w\<lparr>w_next_invoice_id := c\<rparr>) = clock_now w" "clock_now (w\<lparr>w_cancellations := d\<rparr>) = clock_now w"
  "clock_now (w\<lparr>w_tenant_configs := f\<rparr>) = clock_now w" "clock_now (w\<lparr>w_mails := g\<rparr>) = clock_now w"
  by (rule frame_clock(1), simp)+

lemma frame_upsert_subscription [preserve]: "preserves (frame w0) (upsert_subscription t p)"
  by (rule preservesI) (simp add: upsert_subscription_def Let_def split: option.splits)

lemma frame_upsert_from_existing [preserve]: "preserves (frame w0) (upsert_subscription_from_existing t s f)"
  unfolding upsert_subscription_from_existing_def by (rule preserve)

lemma frame_create_config [preserve]: "preserves (frame w0) (create_config t p fl l)"
  by (rule preservesI) (simp add: create_config_def Let_def)

lemma frame_create_invoice [preserve]: "preserves (frame w0) (create_invoice args)"
  by (rule preservesI) (simp add: create_invoice_def Let_def)

lemma frame_update_invoice [preserve]: "preserves (frame w0) (update_invoice_payment_status i s m ty ls)"
  by (rule preservesI) (simp add: update_invoice_payment_status_def Let_def split: option.splits)

lemma frame_create_cancellation [preserve]:
  "preserves (frame w0) (create_cancellation_request t sl u rc rt k st ea da)"
  by (rule preservesI) (simp add: create_cancellation_request_def Let_def)

lemma frame_update_cancellations: "preserves (frame w0) (update_cancellations p f)"
  by (rule preservesI) (simp add: update_cancellations_def split: prod.splits)

lemma frame_marks [preserve]:
  "preserves (frame w0) (mark_cancellation_notice_two_days_sent i t)"
  "preserves (frame w0) (mark_cancellation_notice_one_day_sent i t)"
  "preserves (frame w0) (mark_cancellation_notice_expired_sent i t)"
  "preserves (frame w0) (mark_cancellation_deactivated i t)"
  by (simp_all add: mark_cancellation_notice_two_days_sent_def mark_cancellation_notice_one_day_sent_def
      mark_cancellation_notice_expired_sent_def mark_cancellation_deactivated_def frame_update_cancellations)

lemma frame_restore [preserve]: "preserves (frame w0) (restore_latest_cancellation_request t c)"
  unfolding restore_latest_cancellation_request_def
  by (rule preservesI)
     (auto split: option.splits intro: preservesD [OF frame_update_cancellations])

lemma frame_tenant_active [preserve]:
  "preserves (frame w0) (tenant_activate t u)" "preserves (frame w0) (tenant_deactivate t u)"
  unfolding tenant_activate_def tenant_deactivate_def set_tenant_active_def
  by (rule preserves_modify, simp add: frame_def map_update_where)+

lemma frame_send_email [preserve]: "preserves (frame w0) (send_email e to b)"
  by (rule preservesI) (simp add: send_email_def Let_def)

lemma frame_execute_payment [preserve]: "preserves (frame w0) (execute_payment e a d m)"
proof (rule preservesI)
  fix w assume "frame w0 w"
  then show "frame w0 (snd (execute_payment e a d m w))"
    using execute_payment_run [of e a d m w] by auto
qed

section \<open>Operations\<close>

lemma frame_sync_tenant_config [preserve]: "preserves (frame w0) (sync_tenant_config tenant s)"
  unfolding sync_tenant_config_def by (intro preserve)

lemma frame_ensure_subscription [preserve]: "preserves (frame w0) (ensure_subscription tenant)"
  unfolding ensure_subscription_def by (intro preserve)

lemma frame_sync_status [preserve]: "preserves (frame w0) (sync_status t s)"
  unfolding sync_status_def by (intro preserve)

lemma frame_scheduled [preserve]: "preserves (frame w0) (apply_due_scheduled_plan_change t s)"
  unfolding apply_due_scheduled_plan_change_def by (intro preserve)

lemma frame_issue_request [preserve]: "preserves (frame w0) (issue_subscription_payment_request tenant s d k)"
  unfolding issue_subscription_payment_request_def by (intro preserve)

lemma frame_invoicing [preserve]: "preserves (frame w0) (invoicing_execute tenant s d)"
  unfolding invoicing_execute_def by (intro preserve)

lemma frame_cycle_tenant [preserve]: "preserves (frame w0) (cycle_tenant d row)"
  unfolding cycle_tenant_def cycle_tenant_body_def renewal_execute_def by (intro preserve)

lemma frame_process_cycle [preserve]: "preserves (frame w0) process_cycle"
  unfolding process_cycle_def by (intro preserve)

lemma frame_immediate [preserve]: "preserves (frame w0) (apply_immediate_plan_change tenant s p b u)"
  unfolding apply_immediate_plan_change_def by (intro preserve)

lemma frame_apply_upgrade_event [preserve]: "preserves (frame w0) (apply_upgrade_event ev prov eid m b t)"
  unfolding apply_upgrade_event_def by (intro preserve)

lemma frame_reactivate [preserve]: "preserves (frame w0) (reactivate_if_inactive tenant)"
  unfolding reactivate_if_inactive_def by (intro preserve)

lemma frame_settle [preserve]: "preserves (frame w0) (settle_debt_invoice_as_paid e tenant s i)"
  unfolding settle_debt_invoice_as_paid_def by (intro preserve)

lemma frame_failed_mail [preserve]: "preserves (frame w0) (send_payment_failed_owner_email e tenant i)"
  unfolding send_payment_failed_owner_email_def by (intro preserve)

lemma frame_mark_retry_meta [preserve]: "preserves (frame w0) (mark_invoice_retry_meta i d b)"
  unfolding mark_invoice_retry_meta_def by (intro preserve)

lemma frame_retry_mark_failed [preserve]: "preserves (frame w0) (retry_mark_failed tenant s d)"
  unfolding retry_mark_failed_def by (intro preserve)

lemma frame_retry_tenant [preserve]: "preserves (\<lambda>(s, c). frame w0 s) (retry_tenant e row)"
  unfolding retry_tenant_def retry_tenant_body_def by (intro preserve)

lemma frame_retry_daily [preserve]: "preserves (frame w0) (retry_failed_payments_daily e)"
  unfolding retry_failed_payments_daily_def by (intro preserve)

lemma frame_snd: "preserves (frame w) m \<Longrightarrow> frame w (snd (m w))"
  by (rule preservesD) simp_all

end
