(* ===== verification/Billing_Demo.thy ===== *)
theory Billing_Demo
  imports Billing_Frame
begin

text \<open>
  A small state for the witnesses: the seeded catalog, one tenant \<open>acme\<close> with its schema, and the
  clock, subscriptions and invoices of each example.
\<close>

definition demo_tenant_row :: tenant_row where
  "demo_tenant_row = \<lparr>tn_id = 1, tn_slug = ''acme'', tn_name = ''Acme'', tn_created_at = 0,
     tn_security_version = 0, tn_is_active = True, tn_updated_by = None\<rparr>"

definition demo_schema :: tenant_schema where
  "demo_schema = \<lparr>sc_users = [], sc_knowledge_bases = None, sc_ingest_items = None\<rparr>"

definition demo_world :: "datetime \<Rightarrow> subscription list \<Rightarrow> invoice list \<Rightarrow> world" where
  "demo_world now subs invoices =
     \<lparr>w_now = now, w_simulated_date = None, w_catalog = default_catalog_rows, w_subscriptions = subs,
      w_question_usage = [], w_training_usage = [], w_invoices = invoices, w_next_invoice_id = 100,
      w_cancellations = [], w_next_cancellation_id = 1, w_payment_events = [], w_next_event_id = 1,
      w_debug_state = None, w_tenants = [demo_tenant_row], w_tenant_configs = [],
      w_question_totals = [], w_traffic_usage = [], w_traffic_events = [], w_sms_sends = [], w_next_sms_id = 1,
      w_schemas = [''acme'' \<mapsto> demo_schema], w_current_schema = ''acme'', w_profile = Map.empty,
      w_mails = [], w_charges = []\<rparr>"

definition demo_invoice :: "int \<Rightarrow> string \<Rightarrow> string \<Rightarrow> string \<Rightarrow> datetime \<Rightarrow> invoice" where
  "demo_invoice i ty status period issued =
     \<lparr>inv_id = i, inv_tenant_id = 1, inv_type = ty, inv_period_key = period, inv_status = status,
      inv_currency = default_currency, inv_total_cents = 890000, inv_payment_method = ''pending'',
      inv_description = '''', inv_lines = [], inv_issued_at = issued, inv_due_at = issued\<rparr>"

definition demo_snapshot :: tenant_snapshot where
  "demo_snapshot = \<lparr>ts_tenant_id = 1, ts_slug = ''acme'', ts_name = ''Acme'', ts_created_at = Some 0,
     ts_is_active = True, ts_feature_flags = []\<rparr>"

definition demo_env :: "string \<Rightarrow> env" where
  "demo_env prov = \<lparr>env_billing_provider = Some prov, env_stripe_secret_key = Some ''sk'',
     env_stripe = (\<lambda>_ _. Stripe_reply 200 (Some (Some ''succeeded'', Some ''pi_1'', None))),
     env_send_email = (\<lambda>_ _. True), env_billing_disabled = None, env_has_engine = True,
     env_frontend_base_url = (\<lambda>s. ''https://'' @ s)\<rparr>"

text \<open>Dates of the examples.\<close>

lemma demo_valid [simp]: "valid_date (Date 2026 6 10)" "valid_date (Date 2026 6 20)" "valid_date (Date 2026 7 10)"
    "valid_date (Date 2026 6 12)"
  by (simp_all add: valid_date_def days_in_month_def)

lemma demo_clock_now [simp]: "clock_now (demo_world now subs invs) = now"
  by (simp add: clock_now_def demo_world_def)

lemma demo_key_ok: "key_ok cr_key default_catalog_rows"
  by (simp add: key_ok_def default_catalog_rows_def cr_key_def)

end
