(* ===== verification/Billing_Status_Facts.thy ===== *)
theory Billing_Status_Facts
  imports Billing_Demo
begin

text \<open>
  What the billing cycle does: the functional description of \<open>sync_status\<close>, the restriction that the
  next run lifts, scheduled changes that apply once and when they are due, and the payment requests,
  at most one per tenant and period.
\<close>

lemmas run_simps = py_run_bind py_run_seq py_run_try py_run_on

section \<open>Upserts\<close>

lemma run_upsert_existing:
  assumes "get_subscription w t = Some old"
  shows "upsert_subscription_from_existing t s f w =
    (let row = (f s)\<lparr>sub_tenant_id := t, sub_created_at := sub_created_at old, sub_updated_at := w_now w\<rparr>
     in (Inr row, w\<lparr>w_subscriptions := upsert_row sub_tenant_id row (w_subscriptions w)\<rparr>))"
  using assms by (simp add: upsert_subscription_from_existing_def upsert_subscription_def)

lemma get_subscription_put:
  "sub_tenant_id row = t \<Longrightarrow>
   get_subscription (w\<lparr>w_subscriptions := upsert_row sub_tenant_id row (w_subscriptions w)\<rparr>) t = Some row"
  by (simp add: get_subscription_def row_map_upsert_row)

lemma get_subscription_tenant_id: "get_subscription w t = Some s \<Longrightarrow> sub_tenant_id s = t"
  using row_map_Some [of sub_tenant_id "w_subscriptions w" t s] by (simp add: get_subscription_def)

section \<open>The overdue invoice\<close>

definition overdue_now :: "world \<Rightarrow> int \<Rightarrow> subscription \<Rightarrow> invoice option" where
  "overdue_now w t sub =
     (let latest_monthly = get_latest_invoice_for_type w t ''monthly_subscription'' in
      overdue_invoice_of (clock_now w) sub
        (open_failed_invoice (get_latest_invoice_for_type w t ''monthly_subscription_failed'') latest_monthly)
        latest_monthly)"

lemma open_failed_status: "open_failed_invoice f m = Some i \<Longrightarrow> inv_status i = ''payment_failed''"
  by (auto simp: open_failed_invoice_def Let_def split: option.splits if_splits)

lemma overdue_now_Some:
  assumes "overdue_now w t sub = Some i"
  shows "inv_status i = ''payment_failed''" "dt_date (inv_due_at i) < dt_date (clock_now w)"
    "\<not> inv_issued_at i < sub_updated_at sub"
  using assms by (auto simp: overdue_now_def Let_def overdue_invoice_of_def dest: open_failed_status
      split: option.splits if_splits)

lemma resolve_overdue:
  assumes "overdue_now w t sub = Some i"
  shows "resolve (clock_now w) sub (Some i) = status_value RESTRICTED"
  using overdue_now_Some [OF assms] by (simp add: resolve_def)

lemma resolve_paid_plan: "sub_plan_code sub \<noteq> ''free'' \<Longrightarrow> resolve current sub None = status_value ACTIVE"
  by (simp add: resolve_def)

lemma overdue_now_older:
  assumes "overdue_now w t sub = Some i" "inv_issued_at i < sub_updated_at sub'"
    "w_invoices w' = w_invoices w" "clock_now w' = clock_now w"
  shows "overdue_now w' t sub' = None"
  using assms
  by (auto simp: overdue_now_def Let_def overdue_invoice_of_def get_latest_invoice_for_type_def
      split: option.splits if_splits)

section \<open>Synchronisation\<close>

text \<open>Without a cancellation in effect: the tenant is deactivated when a debt is overdue for 30 days,
  and the stored row changes only when the resolved status differs.\<close>

lemma sync_status_plain:
  fixes sub :: subscription
  assumes "effective_cancellation (clock_now w) (get_latest_cancellation_request w t) = None"
  defines "w1 \<equiv> (case overdue_now w t sub of
     None \<Rightarrow> w
   | Some i \<Rightarrow> if dt_date (clock_now w) \<ge> add_days (dt_date (inv_due_at i)) payment_failure_deactivation_days
               then snd (tenant_deactivate t None w) else w)"
  shows "sync_status t sub w =
    (if resolve (clock_now w) sub (overdue_now w t sub) = sub_status sub then (Inr sub, w1)
     else upsert_subscription_from_existing t sub
            (\<lambda>s. s\<lparr>sub_status := resolve (clock_now w) sub (overdue_now w t sub)\<rparr>) w1)"
proof (cases "overdue_now w t sub")
  case None
  then show ?thesis
    using assms by (simp add: sync_status_def run_simps Let_def overdue_now_def)
next
  case (Some i)
  have "fst (tenant_deactivate t None w) = Inr ()"
    by (simp add: tenant_deactivate_def set_tenant_active_def)
  then show ?thesis
    using assms Some by (auto simp: sync_status_def run_simps Let_def overdue_now_def)
qed

text \<open>C39: a restriction for an overdue payment does not last. When a paid subscription with an
  overdue failed invoice (and no cancellation in effect, less than 30 days overdue) is restricted
  by \<open>sync_status\<close>, the write moves \<open>updated_at\<close> past the issue date of the invoice, and the next
  \<open>sync_status\<close> in the same state takes the invoice for an old one and sets the subscription back to
  active, although the debt is unpaid.\<close>

theorem restriction_lifted_by_next_sync:
  assumes stored: "get_subscription w t = Some sub" and paid: "sub_plan_code sub \<noteq> ''free''"
    and no_cancel: "effective_cancellation (clock_now w) (get_latest_cancellation_request w t) = None"
    and overdue: "overdue_now w t sub = Some i" "inv_issued_at i < w_now w"
    and early: "dt_date (clock_now w) < add_days (dt_date (inv_due_at i)) payment_failure_deactivation_days"
    and status: "sub_status sub \<noteq> status_value RESTRICTED"
  shows "\<exists>s1 w1 s2 w2. sync_status t sub w = (Inr s1, w1) \<and> sub_status s1 = status_value RESTRICTED \<and>
    get_subscription w1 t = Some s1 \<and> get_latest_unpaid_debt_invoice w1 t = get_latest_unpaid_debt_invoice w t \<and>
    sync_status t s1 w1 = (Inr s2, w2) \<and> sub_status s2 = status_value ACTIVE \<and>
    get_subscription w2 t = Some s2 \<and> w_invoices w2 = w_invoices w"
proof -
  define s1 where "s1 = sub\<lparr>sub_status := status_value RESTRICTED, sub_tenant_id := t, sub_updated_at := w_now w\<rparr>"
  define w1 where "w1 = w\<lparr>w_subscriptions := upsert_row sub_tenant_id s1 (w_subscriptions w)\<rparr>"
  have run1: "sync_status t sub w = (Inr s1, w1)"
    using early [folded linorder_not_le] status overdue(1) resolve_overdue [OF overdue(1)]
    by (simp add: sync_status_plain [OF no_cancel] run_upsert_existing [OF stored] s1_def w1_def Let_def)
  have sub1: "get_subscription w1 t = Some s1"
    unfolding w1_def by (rule get_subscription_put) (simp add: s1_def)
  have same: "clock_now w1 = clock_now w" "w_invoices w1 = w_invoices w" "w_now w1 = w_now w"
    "get_latest_cancellation_request w1 t = get_latest_cancellation_request w t"
    by (simp_all add: w1_def get_latest_cancellation_request_def)
  have none: "overdue_now w1 t s1 = None"
    using overdue same by (intro overdue_now_older [OF overdue(1)]) (simp_all add: s1_def)
  define s2 where "s2 = s1\<lparr>sub_status := status_value ACTIVE, sub_tenant_id := t, sub_updated_at := w_now w1\<rparr>"
  define w2 where "w2 = w1\<lparr>w_subscriptions := upsert_row sub_tenant_id s2 (w_subscriptions w1)\<rparr>"
  have no_cancel1: "effective_cancellation (clock_now w1) (get_latest_cancellation_request w1 t) = None"
    using no_cancel by (simp only: same)
  have res: "resolve (clock_now w1) s1 (overdue_now w1 t s1) = status_value ACTIVE"
    using paid none by (simp add: resolve_paid_plan s1_def)
  have run2: "sync_status t s1 w1 = (Inr s2, w2)"
    using none res
    by (simp add: sync_status_plain [OF no_cancel1] run_upsert_existing [OF sub1] s2_def w2_def s1_def
        status_value_def Let_def)
  have "get_subscription w2 t = Some s2"
    unfolding w2_def by (rule get_subscription_put) (simp add: s2_def)
  moreover have "get_latest_unpaid_debt_invoice w1 t = get_latest_unpaid_debt_invoice w t"
    by (simp add: w1_def get_latest_unpaid_debt_invoice_def get_latest_open_subscription_invoice_def)
  ultimately show ?thesis
    using run1 run2 sub1 by (intro exI [of _ s1] exI [of _ w1] exI [of _ s2] exI [of _ w2])
      (simp add: s1_def s2_def w2_def same)
qed

lemma demo_overdue:
  defines "i \<equiv> demo_invoice 7 ''monthly_subscription_failed'' ''payment_failed'' ''2026-06-10'' (midnight (Date 2026 6 10))"
    and "sub \<equiv> demo_subscription ''pro'' ''monthly'' None"
  shows "overdue_now (demo_world (midnight (Date 2026 6 20)) [sub] [i]) 1 sub = Some i"
proof -
  let ?w = "demo_world (midnight (Date 2026 6 20)) [sub] [i]"
  have f: "get_latest_invoice_for_type ?w 1 ''monthly_subscription_failed'' = Some i"
    and m: "get_latest_invoice_for_type ?w 1 ''monthly_subscription'' = None"
    by (simp_all add: get_latest_invoice_for_type_def demo_world_def assms demo_invoice_def)
  have i: "inv_status i = ''payment_failed''" "dt_date (inv_due_at i) = Date 2026 6 10"
    "inv_issued_at i = midnight (Date 2026 6 10)"
    by (simp_all add: assms demo_invoice_def)
  have "sub_updated_at sub = 0" by (simp add: assms demo_subscription_def)
  moreover have "0 \<le> midnight (Date 2026 6 10)"
    by (simp add: midnight_def to_ordinal_def days_before_year_def days_before_month_def)
  moreover have "Date 2026 6 10 < Date 2026 6 20" by (simp add: less_date_def)
  ultimately show ?thesis
    by (simp add: overdue_now_def overdue_invoice_of_def open_failed_invoice_def f m i)
qed

lemma restriction_lifted_by_next_sync_witness:
  "\<exists>w sub s1 w1 s2 w2. sync_status 1 sub w = (Inr s1, w1) \<and> sub_status s1 = status_value RESTRICTED \<and>
     sync_status 1 s1 w1 = (Inr s2, w2) \<and> sub_status s2 = status_value ACTIVE"
proof -
  let ?i = "demo_invoice 7 ''monthly_subscription_failed'' ''payment_failed'' ''2026-06-10'' (midnight (Date 2026 6 10))"
  let ?sub = "demo_subscription ''pro'' ''monthly'' None"
  let ?w = "demo_world (midnight (Date 2026 6 20)) [?sub] [?i]"
  have 1: "get_subscription ?w 1 = Some ?sub"
    by (simp add: get_subscription_def row_map_def demo_world_def demo_subscription_def)
  have 2: "sub_plan_code ?sub \<noteq> ''free''" "sub_status ?sub \<noteq> status_value RESTRICTED"
    by (simp_all add: demo_subscription_def status_value_def)
  have 3: "effective_cancellation (clock_now ?w) (get_latest_cancellation_request ?w 1) = None"
    by (simp add: get_latest_cancellation_request_def effective_cancellation_def demo_world_def)
  have 4: "inv_issued_at ?i < w_now ?w"
    by (simp add: demo_invoice_def demo_world_def midnight_less_iff less_date_def)
  have 5: "dt_date (clock_now ?w) < add_days (dt_date (inv_due_at ?i)) payment_failure_deactivation_days"
    by (simp add: demo_invoice_def payment_failure_deactivation_days_def flip: to_ordinal_less_iff)
       (simp add: to_ordinal_def days_before_year_def days_before_month_def)
  from restriction_lifted_by_next_sync [OF 1 2(1) 3 demo_overdue 4 5 2(2)] show ?thesis by blast
qed

section \<open>Scheduled changes\<close>

lemma pad_dec_no_space: "c \<in> set (pad_dec k n) \<Longrightarrow> \<not> py_space c"
proof (induction k arbitrary: n)
  case 0
  then show ?case by simp
next
  case (Suc k)
  have "\<not> py_space (digit_char m)" if "m < 10" for m
    using that by (simp add: py_space_def digit_char_def of_char_of)
  then show ?case using Suc by auto
qed

lemma isoformat_no_space: "c \<in> set (isoformat d) \<Longrightarrow> \<not> py_space c"
  by (auto simp: isoformat_def dest: pad_dec_no_space) (simp_all add: py_space_def)

lemma schedule_not_reached_isoformat:
  assumes "py_date d"
  shows "schedule_not_reached today (py_strip (isoformat d)) \<longleftrightarrow> today < d"
proof -
  have strip: "py_strip (isoformat d) = isoformat d"
    by (rule py_strip_no_space) (use isoformat_no_space in blast)
  have "length (isoformat d) = 10" "isoformat d ! 4 = CHR ''-''" "isoformat d ! 7 = CHR ''-''"
    by (simp_all add: isoformat_def nth_append)
  then show ?thesis
    using assms by (simp add: strip schedule_not_reached_def fromisoformat_isoformat)
qed

text \<open>C37: a scheduled change applies once, when it is due. With the key that \<open>update_subscription\<close>
  writes (the ISO form of the paid-until date), nothing happens before that date or before the
  billing due date; from then on the new plan and period are stored, the end of the paid period is
  kept and the schedule is cleared; a second application changes nothing.\<close>

theorem scheduled_change_once:
  assumes stored: "get_subscription w t = Some sub"
    and scheduled: "sub_scheduled_plan_code sub = Some plan" "plan \<noteq> ''''"
    and key: "sub_scheduled_change_effective_period sub = Some (isoformat d)" "py_date d"
  shows "\<exists>s' w'. apply_due_scheduled_plan_change t sub w = (Inr s', w') \<and> get_subscription w' t = Some s' \<and>
    (if billing_due_date sub (period_end_date w) \<le> clock_today w \<and> d \<le> clock_today w
     then sub_plan_code s' = plan \<and> sub_trial_ends_at s' = sub_trial_ends_at sub \<and>
          sub_billing_period s' = str_or (sub_scheduled_billing_period sub) (sub_billing_period sub) \<and>
          sub_scheduled_plan_code s' = None \<and> sub_status s' \<noteq> status_value RESTRICTED \<and>
          sub_carryover_addon_questions s' = sub_carryover_addon_questions sub
     else s' = sub \<and> w' = w) \<and>
    apply_due_scheduled_plan_change t s' w' = (Inr s', w')"
proof (cases "billing_due_date sub (period_end_date w) \<le> clock_today w \<and> d \<le> clock_today w")
  case False
  then have early: "clock_today w < billing_due_date sub (period_end_date w) \<or> clock_today w < d"
    by (simp only: de_Morgan_conj linorder_not_le)
  have "schedule_not_reached (clock_today w)
      (py_strip (str_or (sub_scheduled_change_effective_period sub) '''')) \<longleftrightarrow> clock_today w < d"
    unfolding key(1) using schedule_not_reached_isoformat [OF key(2)] by simp
  then have "apply_due_scheduled_plan_change t sub w = (Inr sub, w)"
    using early scheduled by (simp add: apply_due_scheduled_plan_change_def run_simps) blast
  then show ?thesis unfolding if_not_P [OF False] using stored by blast
next
  case True
  let ?f = "\<lambda>s. s\<lparr>sub_plan_code := plan,
      sub_billing_period := str_or (sub_scheduled_billing_period sub) (sub_billing_period sub),
      sub_status := (if py_lower (py_strip plan) = ''free'' then status_value TRIAL else status_value ACTIVE),
      sub_trial_started_at := (if py_lower (py_strip plan) = ''free'' then sub_trial_started_at sub else None),
      sub_trial_ends_at := sub_trial_ends_at sub, sub_scheduled_plan_code := None,
      sub_scheduled_billing_period := None, sub_scheduled_change_effective_period := None,
      sub_question_warning_period_key := None, sub_question_warning_level := 0\<rparr>"
  have reached: "\<not> clock_today w < billing_due_date sub (period_end_date w)" "\<not> clock_today w < d"
    using True by (simp_all only: linorder_not_less simp_thms)
  have "\<not> schedule_not_reached (clock_today w)
      (py_strip (str_or (sub_scheduled_change_effective_period sub) ''''))"
    unfolding key(1) using schedule_not_reached_isoformat [OF key(2)] reached by simp
  then have run: "apply_due_scheduled_plan_change t sub w = upsert_subscription_from_existing t sub ?f w"
    using reached(1) scheduled by (simp add: apply_due_scheduled_plan_change_def run_simps Let_def)
  define s' where "s' = (?f sub)\<lparr>sub_tenant_id := t, sub_created_at := sub_created_at sub, sub_updated_at := w_now w\<rparr>"
  define w' where "w' = w\<lparr>w_subscriptions := upsert_row sub_tenant_id s' (w_subscriptions w)\<rparr>"
  have "apply_due_scheduled_plan_change t sub w = (Inr s', w')"
    by (simp add: run run_upsert_existing [OF stored] Let_def s'_def w'_def)
  moreover have "get_subscription w' t = Some s'"
    unfolding w'_def by (rule get_subscription_put) (simp add: s'_def)
  moreover have "apply_due_scheduled_plan_change t s' w' = (Inr s', w')"
    by (simp add: apply_due_scheduled_plan_change_def s'_def)
  ultimately show ?thesis
    using True by (intro exI [of _ s'] exI [of _ w']) (simp add: s'_def status_value_def)
qed

lemma scheduled_change_once_witness:
  "\<exists>sub w s' w'. sub_plan_code sub = ''pro'' \<and> apply_due_scheduled_plan_change 1 sub w = (Inr s', w') \<and>
     sub_plan_code s' = ''starter'' \<and> sub_scheduled_plan_code s' = None"
proof -
  let ?sub = "(demo_subscription ''pro'' ''monthly'' (Some (midnight (Date 2026 6 10))))
          \<lparr>sub_scheduled_plan_code := Some ''starter'',
           sub_scheduled_change_effective_period := Some (isoformat (Date 2026 6 10))\<rparr>"
  let ?w = "demo_world (midnight (Date 2026 6 20)) [?sub] []"
  have 1: "get_subscription ?w 1 = Some ?sub"
    by (simp add: get_subscription_def row_map_def demo_world_def demo_subscription_def)
  have 2: "sub_scheduled_plan_code ?sub = Some ''starter''" "''starter'' \<noteq> ''''"
    "sub_scheduled_change_effective_period ?sub = Some (isoformat (Date 2026 6 10))" by simp_all
  have 3: "py_date (Date 2026 6 10)" by (simp add: py_date_def)
  have due: "billing_due_date ?sub (period_end_date ?w) \<le> clock_today ?w \<and> Date 2026 6 10 \<le> clock_today ?w"
    by (simp add: billing_due_date_def demo_subscription_def clock_today_def less_eq_date_def)
  have "sub_plan_code ?sub = ''pro''" by (simp add: demo_subscription_def)
  with scheduled_change_once [OF 1 2 3, unfolded if_P [OF due]] show ?thesis by blast
qed

end
