(* ===== verification/Billing_Invoicing_Facts.thy ===== *)
theory Billing_Invoicing_Facts
  imports Billing_Status_Facts
begin

text \<open>
  Payment requests: at most one per tenant and period, none for free, restricted or cancelled
  subscriptions; the cycle that issues them never fails as a whole; cancelling stops them and
  restoring lets them start again.
\<close>

section \<open>Reading inside a computation\<close>

lemma run_reader:
  "reads_only m \<Longrightarrow> py_bind m f w = (case fst (m w) of Inl e \<Rightarrow> (Inl e, w) | Inr x \<Rightarrow> f x w)"
  by (simp add: py_run_bind reads_onlyD split: sum.splits)

section \<open>One request per period\<close>

lemma create_invoice_cases:
  "(\<exists>e. create_invoice args w = (Inl e, w)) \<or>
   (get_invoice w (inv_tenant_id args) (inv_type args) (inv_period_key args) = None \<and>
    create_invoice args w =
      (Inr (args\<lparr>inv_id := w_next_invoice_id w\<rparr>),
       w\<lparr>w_invoices := w_invoices w @ [args\<lparr>inv_id := w_next_invoice_id w\<rparr>],
         w_next_invoice_id := w_next_invoice_id w + 1\<rparr>))"
  by (simp add: create_invoice_def Let_def)

definition new_request :: "world \<Rightarrow> int \<Rightarrow> string \<Rightarrow> invoice \<Rightarrow> world \<Rightarrow> bool" where
  "new_request w t key i w' \<longleftrightarrow>
     get_invoice w t ''monthly_subscription'' key = None \<and>
     w' = w\<lparr>w_invoices := w_invoices w @ [i], w_next_invoice_id := w_next_invoice_id w + 1\<rparr> \<and>
     inv_id i = w_next_invoice_id w \<and> inv_tenant_id i = t \<and> inv_type i = ''monthly_subscription'' \<and>
     inv_period_key i = key \<and> inv_status i = ''issued'' \<and> 0 < inv_total_cents i"

lemma new_request_stored:
  assumes "new_request w t key i w'"
  shows "get_invoice w' t ''monthly_subscription'' key = Some i"
proof -
  have "find (\<lambda>r. inv_key r = (t, ''monthly_subscription'', key)) (w_invoices w) = None"
    using assms by (simp add: new_request_def get_invoice_def row_map_def)
  then show ?thesis
    using assms by (simp add: new_request_def get_invoice_def row_map_def find_append inv_key_def)
qed

lemma issue_request_cases:
  assumes "key \<noteq> ''''"
  shows "snd (issue_subscription_payment_request tenant sub (Some bd) (Some key) w) = w \<or>
    (\<exists>i. fst (issue_subscription_payment_request tenant sub (Some bd) (Some key) w) = Inr (Some i) \<and>
         new_request w (ts_tenant_id tenant) key i
           (snd (issue_subscription_payment_request tenant sub (Some bd) (Some key) w)))"
proof (cases "sub_plan_code sub = ''free'' \<or> sub_status sub = status_value RESTRICTED \<or>
    get_invoice w (ts_tenant_id tenant) ''monthly_subscription'' key \<noteq> None")
  case True
  then show ?thesis
    using assms by (auto simp: issue_subscription_payment_request_def run_simps Let_def)
next
  case False
  let ?r = "load_resource_counts_for_tenant w (ts_slug tenant)"
  show ?thesis
  proof (cases "fst (plan_for (sub_plan_code sub) w)")
    case (Inl e)
    then show ?thesis using False assms
      by (simp add: issue_subscription_payment_request_def run_simps Let_def reads_onlyD [OF plan_for_reads])
  next
    case plan: (Inr plan)
    show ?thesis
    proof (cases "fst (estimate_next_invoice sub (Some ?r) w)")
      case (Inl e)
      then show ?thesis using False plan assms
        by (simp add: issue_subscription_payment_request_def run_simps Let_def
            reads_onlyD [OF plan_for_reads] reads_onlyD [OF estimate_next_invoice_reads])
    next
      case est: (Inr est)
      show ?thesis
      proof (cases "es_total_cents est \<le> 0")
        case True
        then show ?thesis using False plan est assms
          by (simp add: issue_subscription_payment_request_def run_simps Let_def
              reads_onlyD [OF plan_for_reads] reads_onlyD [OF estimate_next_invoice_reads])
      next
        case pos: False
        obtain args where run: "issue_subscription_payment_request tenant sub (Some bd) (Some key) w =
            py_bind (create_invoice args) (\<lambda>row. py_return (Some row)) w"
          and args: "inv_tenant_id args = ts_tenant_id tenant" "inv_type args = ''monthly_subscription''"
            "inv_period_key args = key" "inv_status args = ''issued''" "inv_total_cents args = es_total_cents est"
          using False plan est pos assms
          by (simp add: issue_subscription_payment_request_def run_simps Let_def
              reads_onlyD [OF plan_for_reads] reads_onlyD [OF estimate_next_invoice_reads])
        show ?thesis
          using create_invoice_cases [of args w] args pos False
          by (auto simp: run run_simps new_request_def)
      qed
    qed
  qed
qed

lemma invoicing_cases:
  fixes tenant sub d w
  defines "key \<equiv> subscription_period_key (billing_due_date sub d)" and "t \<equiv> ts_tenant_id tenant"
  shows "snd (invoicing_execute tenant sub d w) = w \<or>
    (fst (invoicing_execute tenant sub d w) = Inr () \<and>
     (\<exists>i. new_request w t key i (snd (invoicing_execute tenant sub d w))) \<and>
     sub_plan_code sub \<noteq> ''free'' \<and> sub_status sub \<noteq> status_value RESTRICTED \<and>
     \<not> cancellation_requested w t \<and> billing_due_date sub d \<le> clock_today w \<and>
     get_invoice w t ''monthly_subscription_failed'' key = None)"
proof -
  have "key \<noteq> ''''" by (simp add: key_def subscription_period_key_def)
  from issue_request_cases [OF this, of tenant sub "billing_due_date sub d" w]
  show ?thesis
    by (auto simp: invoicing_execute_def run_simps Let_def key_def [symmetric] t_def [symmetric]
        linorder_not_less split: sum.splits)
qed

text \<open>C11: payment requests are issued once. A run of the invoicing step either changes nothing or
  appends exactly one open request with a positive total for the due period, and only for a paid,
  unrestricted, uncancelled subscription whose due date has come; running it again changes nothing.\<close>

theorem payment_request_once:
  "let (r, w') = invoicing_execute tenant sub d w;
       t = ts_tenant_id tenant; key = subscription_period_key (billing_due_date sub d)
   in snd (invoicing_execute tenant sub d w') = w' \<and>
      (w' = w \<or>
       (\<exists>i. new_request w t key i w' \<and> get_invoice w' t ''monthly_subscription'' key = Some i \<and>
          sub_plan_code sub \<noteq> ''free'' \<and> sub_status sub \<noteq> status_value RESTRICTED \<and>
          \<not> cancellation_requested w t \<and> billing_due_date sub d \<le> clock_today w))"
proof -
  let ?w = "snd (invoicing_execute tenant sub d w)"
  let ?t = "ts_tenant_id tenant" and ?key = "subscription_period_key (billing_due_date sub d)"
  consider "?w = w" | i where "new_request w ?t ?key i ?w" "sub_plan_code sub \<noteq> ''free''"
    "sub_status sub \<noteq> status_value RESTRICTED" "\<not> cancellation_requested w ?t"
    "billing_due_date sub d \<le> clock_today w"
    using invoicing_cases [of tenant sub d w] by blast
  then show ?thesis
  proof cases
    case 1
    then show ?thesis by (simp add: split_beta Let_def)
  next
    case (2 i)
    have stored: "get_invoice ?w ?t ''monthly_subscription'' ?key = Some i"
      using 2(1) by (rule new_request_stored)
    have "snd (invoicing_execute tenant sub d ?w) = ?w"
      using invoicing_cases [of tenant sub d ?w] stored by (auto simp: new_request_def)
    with 2 stored show ?thesis by (auto simp: split_beta Let_def)
  qed
qed

section \<open>The cycle\<close>

lemma cycle_tenant_total: "total_py (cycle_tenant d row)"
  unfolding cycle_tenant_def by (intro total_py_try total_py_return)

lemma cycle_fold:
  "py_fold (\<lambda>row _. cycle_tenant d row) rows () w =
   (Inr (), fold (\<lambda>row w. snd (cycle_tenant d row w)) rows w)"
proof (induction rows arbitrary: w)
  case Nil
  then show ?case by simp
next
  case (Cons row rows)
  obtain u where "fst (cycle_tenant d row w) = Inr u"
    using cycle_tenant_total [of d row] by (auto simp: total_py_def)
  then show ?case by (simp add: run_simps Cons)
qed

text \<open>C12: one failing tenant does not stop the billing cycle. The cycle returns normally in every
  state and is the sequence of the steps of the active tenants, each either complete or abandoned at
  the exception it raised; and it keeps the constraints of the tables.\<close>

theorem process_cycle_isolates:
  "let next_charge_date = charge_date_before_expiry (period_end_date w) in
   process_cycle w =
     (Inr (), fold (\<lambda>row w. snd (cycle_tenant_body next_charge_date row w)) (list_active_tenants w) w) \<and>
   (store_ok w \<longrightarrow> store_ok (snd (process_cycle w)))"
proof -
  have step: "snd (cycle_tenant d row w') = snd (cycle_tenant_body d row w')" for d row w'
    by (simp add: cycle_tenant_def run_simps split: sum.splits)
  show ?thesis
    using preservesD [OF store_ok_process_cycle, of w]
    by (simp add: process_cycle_def run_simps cycle_fold step Let_def)
qed

lemma demo_store_ok: "store_ok (demo_world now [demo_subscription p b tr] [])"
  by (simp add: store_ok_defs demo_world_def key_ok_def catalog_ok_def demo_tenant_row_def
      demo_subscription_def demo_key_ok [unfolded key_ok_def])

lemma process_cycle_isolates_witness:
  "fst (process_cycle (demo_world 0 [demo_subscription ''pro'' ''monthly'' None] [])) = Inr () \<and>
   store_ok (snd (process_cycle (demo_world 0 [demo_subscription ''pro'' ''monthly'' None] [])))"
  using process_cycle_isolates [of "demo_world 0 [demo_subscription ''pro'' ''monthly'' None] []"]
    demo_store_ok [of 0 "''pro''" "''monthly''" None] unfolding Let_def by (metis fst_conv)

section \<open>Cancelling\<close>

lemma latest_by_append_max:
  assumes "\<And>y. y \<in> set xs \<Longrightarrow> k y < k x"
  shows "latest_by k (xs @ [x]) = Some x"
  using assms by (induction xs) (auto split: option.splits)

lemma latest_by_map:
  assumes "\<And>x. k (f x) = k x"
  shows "latest_by k (map f xs) = map_option f (latest_by k xs)"
  using assms by (induction xs) (auto split: option.splits)

lemma latest_by_update_where:
  assumes "\<And>x. k (f x) = k x" "\<And>x. q (f x) = q x"
  shows "latest_by k (filter q (update_where p f xs)) =
         map_option (\<lambda>x. if p x then f x else x) (latest_by k (filter q xs))"
proof -
  let ?g = "\<lambda>x. if p x then f x else x"
  have "filter q (map ?g xs) = map ?g (filter q xs)" using assms(2) by (induction xs) auto
  then show ?thesis using latest_by_map [of k ?g "filter q xs"] assms(1) by (simp add: update_where_def)
qed

lemma run_ensure_stored:
  "get_subscription w (ts_tenant_id tenant) = Some sub \<Longrightarrow> ensure_subscription tenant w = (Inr sub, w)"
  by (simp add: ensure_subscription_def run_simps)

lemma requested_literal: "py_lower ''deactivation_requested'' = ''deactivation_requested''"
  by (simp add: py_lower_def py_lower_char_def)

lemma restored_literal: "py_lower ''renewal_restored'' \<noteq> ''deactivation_requested''"
  by (simp add: py_lower_def py_lower_char_def)

text \<open>The state after a successful cancellation.\<close>

lemma cancel_run:
  assumes ok: "store_ok w" and past: "\<forall>c \<in> set (w_cancellations w). cx_requested_at c \<le> w_now w"
    and run: "cancel_subscription tenant reason txt user w = (Inr r, w1)"
    and stored: "get_subscription w (ts_tenant_id tenant) = Some sub"
  obtains c where "w1 = w\<lparr>w_cancellations := w_cancellations w @ [c], w_next_cancellation_id := w_next_cancellation_id w + 1\<rparr>"
    "cx_tenant_id c = ts_tenant_id tenant" "cx_status c = ''deactivation_requested''" "cx_deactivated_at c = None"
    "cx_effective_at c = Some (midnight (add_days (subscription_due_date w (ts_tenant_id tenant) sub (period_end_date w)) 1))"
    "cn_request_id r = Some (cx_id c)"
    "\<And>q. q c \<Longrightarrow> latest_by (\<lambda>r. (cx_requested_at r, cx_id r)) (filter q (w_cancellations w1)) = Some c"
proof -
  let ?t = "ts_tenant_id tenant"
  let ?due = "subscription_due_date w ?t sub (period_end_date w)"
  obtain res where res: "fst (load_resource_counts w) = Inr res"
    using run by (cases "fst (load_resource_counts w)")
      (simp_all add: cancel_subscription_def run_simps run_ensure_stored [OF stored])
  define c where "c = \<lparr>cx_id = w_next_cancellation_id w, cx_tenant_id = ?t,
     cx_tenant_slug = ts_slug tenant, cx_requested_by_user_id = user, cx_reason_code = py_lower (py_strip reason),
     cx_reason_text = take 2000 (py_strip txt), cx_active_kb_count = max 0 (rs_knowledge_bases res),
     cx_status = ''deactivation_requested'', cx_requested_at = w_now w,
     cx_effective_at = Some (midnight (add_days ?due 1)), cx_notice_two_days_sent_at = None,
     cx_notice_one_day_sent_at = None, cx_notice_expired_sent_at = None, cx_deactivated_at = None,
     cx_cleanup_completed_at = None\<rparr>"
  let ?w1 = "w\<lparr>w_cancellations := w_cancellations w @ [c], w_next_cancellation_id := w_next_cancellation_id w + 1\<rparr>"
  let ?r = "\<lparr>cn_status = ''deactivation_requested'', cn_active_kb_count = rs_knowledge_bases res,
     cn_request_id = Some (cx_id c), cn_current_period_end_iso = isoformat ?due\<rparr>"
  have "\<exists>e. cancel_subscription tenant reason txt user w = (Inl e, w) \<or>
      cancel_subscription tenant reason txt user w = (Inr ?r, ?w1)"
    using res
    by (simp add: cancel_subscription_def run_simps run_ensure_stored [OF stored] Let_def paid_until_of_def
        reads_onlyD [OF load_resource_counts_reads] create_cancellation_request_def c_def)
  then have eq: "r = ?r" "w1 = ?w1" using run by auto
  have c: "w1 = ?w1" "cx_tenant_id c = ?t" "cx_status c = ''deactivation_requested''" "cx_deactivated_at c = None"
    "cx_effective_at c = Some (midnight (add_days ?due 1))"
    "cn_request_id r = Some (cx_id c)" "cx_requested_at c = w_now w" "cx_id c = w_next_cancellation_id w"
    using eq by (simp_all add: c_def)
  have "latest_by (\<lambda>r. (cx_requested_at r, cx_id r)) (filter q (w_cancellations w1)) = Some c" if "q c" for q
  proof -
    have "(cx_requested_at y, cx_id y) < (cx_requested_at c, cx_id c)" if "y \<in> set (w_cancellations w)" for y
      using that past store_ok_refs(6) [OF ok that] c by (auto simp: less_prod_def le_less)
    then have "latest_by (\<lambda>r. (cx_requested_at r, cx_id r)) (filter q (w_cancellations w) @ [c]) = Some c"
      by (intro latest_by_append_max) simp
    then show ?thesis using that by (simp add: c(1))
  qed
  with c that show ?thesis by blast
qed

text \<open>A cancellation stops the payment requests. When \<open>cancel_subscription\<close> succeeds, the request
  is the latest one of the tenant with the day after the paid period as its effective day, and
  from then on the invoicing step does nothing; \<open>restore_subscription_renewal\<close> withdraws exactly that
  request, so that requests may be issued again, and a second restore changes nothing.\<close>

theorem cancel_stops_requests:
  assumes ok: "store_ok w" and past: "\<forall>c \<in> set (w_cancellations w). cx_requested_at c \<le> w_now w"
    and run: "cancel_subscription tenant reason txt user w = (Inr r, w1)"
    and stored: "get_subscription w (ts_tenant_id tenant) = Some sub"
  shows "cancellation_requested w1 (ts_tenant_id tenant) \<and>
    (\<exists>c. get_latest_cancellation_request w1 (ts_tenant_id tenant) = Some c \<and> cn_request_id r = Some (cx_id c) \<and>
      cx_deactivated_at c = None \<and> cx_effective_at c = Some (midnight (add_days
        (subscription_due_date w (ts_tenant_id tenant) sub (period_end_date w)) 1))) \<and>
    (\<forall>s d. invoicing_execute tenant s d w1 = (Inr (), w1)) \<and>
    (\<exists>r2 w2. restore_subscription_renewal tenant w1 = (Inr r2, w2) \<and> cn_status r2 = ''renewal_restored'' \<and>
       \<not> cancellation_requested w2 (ts_tenant_id tenant) \<and>
       snd (restore_subscription_renewal tenant w2) = w2)"
proof -
  let ?t = "ts_tenant_id tenant" and ?k = "\<lambda>r. (cx_requested_at r, cx_id r)"
  obtain c where w1: "w1 = w\<lparr>w_cancellations := w_cancellations w @ [c], w_next_cancellation_id := w_next_cancellation_id w + 1\<rparr>"
    and c: "cx_tenant_id c = ?t" "cx_status c = ''deactivation_requested''" "cx_deactivated_at c = None"
      "cx_effective_at c = Some (midnight (add_days (subscription_due_date w ?t sub (period_end_date w)) 1))"
      "cn_request_id r = Some (cx_id c)"
    and latest: "\<And>q. q c \<Longrightarrow> latest_by ?k (filter q (w_cancellations w1)) = Some c"
    by (rule cancel_run [OF assms], rule that)
  have l1: "get_latest_cancellation_request w1 ?t = Some c"
    unfolding get_latest_cancellation_request_def by (rule latest) (simp add: c)
  have l2: "latest_by ?k (filter (\<lambda>r. cx_tenant_id r = ?t \<and> cx_status r = ''deactivation_requested'') (w_cancellations w1)) = Some c"
    by (rule latest) (simp add: c)
  have req: "cancellation_requested w1 ?t" by (simp add: cancellation_requested_def l1 c requested_literal)
  have stored1: "get_subscription w1 ?t = Some sub" using stored by (simp add: w1 get_subscription_def)
  have idle: "invoicing_execute tenant s d w1 = (Inr (), w1)" for s d
    using req by (simp add: invoicing_execute_def run_simps)
  let ?p = "\<lambda>r. cx_id r = cx_id c \<and> cx_deactivated_at r = None"
  let ?f = "\<lambda>r. r\<lparr>cx_status := ''renewal_restored'', cx_cleanup_completed_at := Some (clock_now w1)\<rparr>"
  define w2 where "w2 = w1\<lparr>w_cancellations := update_where ?p ?f (w_cancellations w1)\<rparr>"
  have hit: "list_ex ?p (w_cancellations w1)" using c by (simp add: w1)
  have mark: "restore_latest_cancellation_request ?t (clock_now w1) w1 = (Inr True, w2)"
    using l2 hit by (simp add: restore_latest_cancellation_request_def update_cancellations_def sql_update_def w2_def)
  have "\<exists>r2. restore_subscription_renewal tenant w1 = (Inr r2, w2) \<and> cn_status r2 = ''renewal_restored''"
    using l1 c(2,3) mark
    by (simp add: restore_subscription_renewal_def run_simps run_ensure_stored [OF stored1] paid_until_of_def
        Let_def requested_literal)
  then obtain r2 where run2: "restore_subscription_renewal tenant w1 = (Inr r2, w2)" "cn_status r2 = ''renewal_restored''"
    by blast
  have l3: "get_latest_cancellation_request w2 ?t = Some (?f c)"
    using l1 c unfolding get_latest_cancellation_request_def w2_def
    by (simp add: latest_by_update_where)
  have stored2: "get_subscription w2 ?t = Some sub" using stored1 by (simp add: w2_def get_subscription_def)
  have "\<not> cancellation_requested w2 ?t" using restored_literal by (simp add: cancellation_requested_def l3)
  moreover have "snd (restore_subscription_renewal tenant w2) = w2"
    using l3 restored_literal
    by (simp add: restore_subscription_renewal_def run_simps run_ensure_stored [OF stored2] paid_until_of_def Let_def)
  ultimately show ?thesis using req l1 c idle run2 by blast
qed

lemma cancel_stops_requests_witness:
  "\<exists>w r w1. cancel_subscription demo_snapshot ''other'' '''' None w = (Inr r, w1) \<and>
     invoicing_execute demo_snapshot (demo_subscription ''pro'' ''monthly'' None) (Date 2026 6 10) w1 = (Inr (), w1) \<and>
     cancellation_requested w1 1"
proof -
  let ?sub = "demo_subscription ''pro'' ''monthly'' (Some (midnight (Date 2026 6 10)))"
  let ?w = "demo_world (midnight (Date 2026 6 10)) [?sub] []"
  have stored: "get_subscription ?w (ts_tenant_id demo_snapshot) = Some ?sub"
    by (simp add: get_subscription_def row_map_def demo_world_def demo_subscription_def demo_snapshot_def)
  have lit: "py_lower (py_strip ''other'') = ''other''" by code_simp
  have res: "\<exists>x. load_resource_counts ?w = (Inr x, ?w)"
    by (simp add: load_resource_counts_def demo_world_def)
  have fk: "tenant_exists ?w (ts_tenant_id demo_snapshot)"
    by (simp add: tenant_exists_def demo_world_def demo_tenant_row_def demo_snapshot_def)
  obtain r w1 where run: "cancel_subscription demo_snapshot ''other'' '''' None ?w = (Inr r, w1)"
    using res fk
    by (auto simp: cancel_subscription_def run_simps run_ensure_stored [OF stored] paid_until_of_def lit Let_def
        create_cancellation_request_def)
  have past: "\<forall>c \<in> set (w_cancellations ?w). cx_requested_at c \<le> w_now ?w" by (simp add: demo_world_def)
  from cancel_stops_requests [OF demo_store_ok past run stored] run show ?thesis
    by (intro exI [of _ ?w] exI [of _ r] exI [of _ w1]) (simp add: demo_snapshot_def)
qed

end
