(* ===== verification/Billing_Change_Facts.thy ===== *)
theory Billing_Change_Facts
  imports Billing_Invoicing_Facts
begin

text \<open>
  Payment events are taken once, whatever became of them, and what an immediate plan change does to
  the question quota.
\<close>

section \<open>Payment events\<close>

lemma record_known:
  assumes "row_map pe_key (w_payment_events w) (prov, eid) = Some old"
  shows "record_payment_event_once prov eid ty t payload w = (Inr (old, False), w)"
  using assms by (simp add: record_payment_event_once_def Let_def insert_once_def pe_key_def)

lemma record_unknown:
  assumes "row_map pe_key (w_payment_events w) (prov, eid) = None" "tenant_exists w t"
  obtains row w1 where "record_payment_event_once prov eid ty (Some t) payload w = (Inr (row, True), w1)"
    "row_map pe_key (w_payment_events w1) (prov, eid) = Some row" "pe_id row = w_next_event_id w"
proof -
  let ?row = "\<lparr>pe_id = w_next_event_id w, pe_provider = prov, pe_event_id = eid, pe_event_type = ty,
     pe_tenant_id = Some t, pe_status = ''processed'', pe_payload = payload\<rparr>"
  let ?tbl = "w_payment_events w @ [?row]"
  have "row_map pe_key ?tbl (prov, eid) = Some ?row"
    using assms(1) by (simp add: row_map_def find_append pe_key_def)
  then show ?thesis
    using assms by (intro that [of ?row "w\<lparr>w_payment_events := ?tbl, w_next_event_id := w_next_event_id w + 1\<rparr>"])
      (simp_all add: record_payment_event_once_def Let_def insert_once_def pe_key_def)
qed

text \<open>The guards of the handler.\<close>

definition event_tenant :: "webhook_payload \<Rightarrow> billing_error + int" where
  "event_tenant payload =
     jint (jor (jget (case wh_metadata payload of None \<Rightarrow> [] | Some m \<Rightarrow> m) ''tenant_id'')
               (jget (wh_fields payload) ''tenant_id'')) 0"

lemma process_known:
  assumes "py_lower (py_strip prov) \<noteq> ''''" "py_strip eid \<noteq> ''''" "event_tenant payload = Inr t" "0 < t"
    and "row_map pe_key (w_payment_events w) (py_lower (py_strip prov), py_strip eid) = Some old"
  shows "process_verified_payment_event prov eid ty payload w = (Inr Duplicate, w)"
  using assms(1-4)
  by (simp add: process_verified_payment_event_def Let_def run_simps record_known [OF assms(5)]
      event_tenant_def)

text \<open>C2: a payment event takes effect at most once. After any run of the webhook handler that
  passed its guards, whether it returned or raised, the event is on record, and every repetition
  returns \<open>duplicate\<close> and changes nothing. In particular an event whose plan change raised after it
  had been recorded is never applied by a redelivery.\<close>

theorem payment_event_once:
  assumes "process_verified_payment_event prov eid ty payload w = (r, w')"
    and guards: "py_lower (py_strip prov) \<noteq> ''''" "py_strip eid \<noteq> ''''" "event_tenant payload = Inr t" "0 < t"
    and tenant: "tenant_exists w t"
  shows "row_map pe_key (w_payment_events w') (py_lower (py_strip prov), py_strip eid) \<noteq> None \<and>
    (row_map pe_key (w_payment_events w) (py_lower (py_strip prov), py_strip eid) \<noteq> None \<longrightarrow>
       r = Inr Duplicate \<and> w' = w) \<and>
    (\<forall>ty2 w2. w_payment_events w2 = w_payment_events w' \<longrightarrow>
       process_verified_payment_event prov eid ty2 payload w2 = (Inr Duplicate, w2))"
proof -
  let ?k = "(py_lower (py_strip prov), py_strip eid)"
  have again: "process_verified_payment_event prov eid ty2 payload w2 = (Inr Duplicate, w2)"
    if "row_map pe_key (w_payment_events w2) ?k = Some old" for ty2 w2 old
    using process_known [OF guards that] .
  show ?thesis
  proof (cases "row_map pe_key (w_payment_events w) ?k")
    case (Some old)
    with assms(1) again [OF Some, of ty] have "r = Inr Duplicate" "w' = w" by auto
    with Some again show ?thesis by auto
  next
    case None
    obtain row w1 where rec: "record_payment_event_once (py_lower (py_strip prov)) (py_strip eid)
        (py_lower (py_strip ty)) (Some t) payload w = (Inr (row, True), w1)"
      and stored: "row_map pe_key (w_payment_events w1) ?k = Some row"
      using record_unknown [OF None tenant] by metis
    let ?meta = "case wh_metadata payload of None \<Rightarrow> [] | Some m \<Rightarrow> m"
    let ?rest = "\<lambda>flow. if flow \<noteq> ''plan_upgrade'' \<or> py_lower (py_strip ty) \<notin>
                   {''checkout.session.completed'', ''invoice.paid'', ''payment.succeeded''}
        then py_return Recorded
        else py_seq (apply_upgrade_event row (py_lower (py_strip prov)) (py_strip eid) ?meta (wh_fields payload) t)
               (py_return Processed)"
    obtain flow where eq: "process_verified_payment_event prov eid ty payload w = ?rest flow w1"
      using guards rec by (simp add: process_verified_payment_event_def Let_def run_simps event_tenant_def)
    have "frame w1 (snd (?rest flow w1))" by (rule frame_snd) (intro preserve)
    then have "w_payment_events w' = w_payment_events w1"
      using assms(1) unfolding eq by (metis frame_events snd_conv)
    with None stored again show ?thesis by auto
  qed
qed

lemma demo_plan_map: "plan_map_of (demo_world now subs invs) ''gold'' = None"
  by (simp add: plan_map_of_def repo_list_catalog_def list_catalog_def demo_world_def
      plan_map_from_catalog_def default_catalog_rows_def)

lemma payment_event_once_witness:
  "\<exists>payload w w'. process_verified_payment_event ''stripe'' ''evt_1'' ''invoice.paid'' payload w =
       (Inl (Value_error ''Ervenytelen webhook upgrade payload.''), w') \<and>
     process_verified_payment_event ''stripe'' ''evt_1'' ''invoice.paid'' payload w' = (Inr Duplicate, w')"
proof -
  let ?p = "\<lparr>wh_fields = [], wh_metadata = Some [(''tenant_id'', JInt 1), (''flow'', JStr ''plan_upgrade''),
     (''target_plan'', JStr ''gold'')]\<rparr>"
  let ?w = "demo_world 0 [demo_subscription ''pro'' ''monthly'' None] []"
  have g: "py_lower (py_strip ''stripe'') \<noteq> ''''" "py_strip ''evt_1'' \<noteq> ''''" by code_simp+
  have t: "event_tenant ?p = Inr 1" by code_simp
  have e: "tenant_exists ?w 1" by (simp add: tenant_exists_def demo_world_def demo_tenant_row_def)
  have lits: "py_lower (py_strip ''stripe'') = ''stripe''" "py_strip ''evt_1'' = ''evt_1''"
    "py_lower (py_strip ''invoice.paid'') = ''invoice.paid''" "py_lower (py_strip ''plan_upgrade'') = ''plan_upgrade''"
    "py_lower (py_strip ''gold'') = ''gold''" by code_simp+
  obtain w' where run: "process_verified_payment_event ''stripe'' ''evt_1'' ''invoice.paid'' ?p ?w =
       (Inl (Value_error ''Ervenytelen webhook upgrade payload.''), w')"
  proof -
    let ?row = "\<lparr>pe_id = 1, pe_provider = ''stripe'', pe_event_id = ''evt_1'', pe_event_type = ''invoice.paid'',
      pe_tenant_id = Some 1, pe_status = ''processed'', pe_payload = ?p\<rparr>"
    let ?w1 = "?w\<lparr>w_payment_events := [?row], w_next_event_id := 2\<rparr>"
    have rec: "record_payment_event_once ''stripe'' ''evt_1'' ''invoice.paid'' (Some 1) ?p ?w =
        (Inr (?row, True), ?w1)"
      using e by (simp add: record_payment_event_once_def Let_def insert_once_def row_map_def)
        (simp add: demo_world_def)
    have sub: "get_subscription ?w1 1 = Some (demo_subscription ''pro'' ''monthly'' None)"
      by (simp add: get_subscription_def row_map_def demo_world_def demo_subscription_def)
    have ten: "get_tenant_by_id ?w1 1 = Some demo_tenant_row"
      by (simp add: get_tenant_by_id_def row_map_def demo_world_def demo_tenant_row_def)
    have ens: "ensure_subscription (tenant_namespace demo_tenant_row) ?w1 =
        (Inr (demo_subscription ''pro'' ''monthly'' None), ?w1)"
      by (rule run_ensure_stored) (use sub in \<open>simp add: tenant_namespace_def demo_tenant_row_def\<close>)
    have "plan_map_of ?w1 = plan_map_of ?w" by (simp add: plan_map_of_def repo_list_catalog_def)
    then have prev: "svc_compute_upgrade_proration s ''gold'' b ?w1 = (Inr None, ?w1)" for s b
      using demo_plan_map [of 0 "[demo_subscription ''pro'' ''monthly'' None]" "[]"]
      by (simp add: svc_compute_upgrade_proration_def compute_upgrade_proration_def)
    have "process_verified_payment_event ''stripe'' ''evt_1'' ''invoice.paid'' ?p ?w =
       (Inl (Value_error ''Ervenytelen webhook upgrade payload.''), ?w1)"
      by (simp add: process_verified_payment_event_def apply_upgrade_event_def Let_def run_simps lits rec ten ens prev
          jget_def jor_def jtruthy_def jint_def jstr_def jval_str_def)
    then show ?thesis by (rule that)
  qed
  have "process_verified_payment_event ''stripe'' ''evt_1'' ''invoice.paid'' ?p w' = (Inr Duplicate, w')"
    using payment_event_once [OF run g t _ e] by simp
  with run show ?thesis by (intro exI conjI)
qed

section \<open>The quota after an upgrade\<close>

lemma run_bind_ok: "m w = (Inr x, w') \<Longrightarrow> py_bind m f w = f x w'"
  by (simp add: py_run_bind)

lemma summary_run:
  assumes "plan_or_free (plan_map_of w) (sub_plan_code s) = Inr p" "w_schemas w (w_current_schema w) = Some sc"
  shows "\<exists>l. question_usage_summary t s w =
    (Inr (quota_summary (current_period_key w) (questions_used_in_current_period w t)
            (bp_included_questions_monthly p) (sub_carryover_addon_questions s), l), w)"
  using assms by (simp add: question_usage_summary_def run_simps plan_for_def Let_def)

lemma frame_used: "frame w0 w \<Longrightarrow> questions_used_in_current_period w t = questions_used_in_current_period w0 t"
proof -
  assume f: "frame w0 w"
  have "list_question_usage w t k = list_question_usage w0 t k" for k
    using f by (simp add: list_question_usage_def frame_def)
  moreover have "w_question_totals w = w_question_totals w0" using f by (simp add: frame_def)
  ultimately show ?thesis
    using frame_clock(5) [OF f]
    by (cases "row_map qt_key (w_question_totals w0) (t, current_period_key w0)")
      (simp_all add: questions_used_in_current_period_def questions_used_in_period_def)
qed

lemma carryover_sum:
  assumes "0 \<le> included" "0 \<le> used" "0 \<le> (carry :: int)"
  shows "max 0 (carry - max 0 (used - included)) + max 0 (max 0 included - max 0 used) =
    max 0 (included + carry - used)"
  using assms by (simp add: max_def)

text \<open>The reads of the plan change come first; one write of the row and of the configuration follow.\<close>

lemma immediate_run:
  assumes plan: "plan_at plan w = (Inr np, w)"
    and sum: "question_usage_summary (ts_tenant_id tenant) sub w = (Inr (q, l), w)"
    and sms: "sms_carryover_from_started_month sub w = (Inr k, w)"
  obtains f where "apply_immediate_plan_change tenant sub plan period until w =
      py_bind (upsert_subscription_from_existing (ts_tenant_id tenant) sub f)
        (\<lambda>updated. py_seq (sync_tenant_config tenant updated) (py_return updated)) w"
    "sub_plan_code (f sub) = plan" "sub_carryover_addon_questions (f sub) = qs_remaining_addons q + k"
proof (rule that)
  let ?f = "\<lambda>s :: subscription. s
    \<lparr>sub_plan_code := plan, sub_billing_period := period,
     sub_status := (if plan \<noteq> ''free'' then status_value ACTIVE else status_value TRIAL),
     sub_trial_started_at := (if plan = ''free'' then sub_trial_started_at sub else None),
     sub_trial_ends_at := (if plan = ''free'' then sub_trial_ends_at sub else until),
     sub_carryover_training_chars := max (sub_carryover_training_chars sub) (bp_included_training_chars np),
     sub_carryover_addon_questions := qs_remaining_addons q + k,
     sub_scheduled_plan_code := None, sub_scheduled_billing_period := None,
     sub_scheduled_change_effective_period := None\<rparr>"
  show "apply_immediate_plan_change tenant sub plan period until w =
      py_bind (upsert_subscription_from_existing (ts_tenant_id tenant) sub ?f)
        (\<lambda>updated. py_seq (sync_tenant_config tenant updated) (py_return updated)) w"
    by (simp only: apply_immediate_plan_change_def run_bind_ok [where m = "plan_at plan", OF plan]
        run_bind_ok [where m = "question_usage_summary (ts_tenant_id tenant) sub", OF sum]
        run_bind_ok [where m = "sms_carryover_from_started_month sub", OF sms] Let_def prod.case)
qed simp_all

text \<open>C36: what an upgrade does to the question quota. The whole remaining quota of the old plan, included
  and bought questions together, is carried over as bought questions. The counter of the period is
  not reset, so what was used under the old plan is also counted against the new plan's included
  questions: what remains is the new inclusion plus the old remainder minus the old use.\<close>

theorem upgrade_keeps_remaining_quota:
  assumes run: "apply_immediate_plan_change tenant sub plan period until w = (Inr s', w')"
    and stored: "get_subscription w (ts_tenant_id tenant) = Some sub"
    and old: "plan_or_free (plan_map_of w) (sub_plan_code sub) = Inr p"
    and nonneg: "0 \<le> bp_included_questions_monthly p" "0 \<le> sub_carryover_addon_questions sub"
      "0 \<le> questions_used_in_current_period w (ts_tenant_id tenant)"
  shows "\<exists>np. plan_map_of w plan = Some np \<and>
    (let used = questions_used_in_current_period w (ts_tenant_id tenant);
         remaining = max 0 (bp_included_questions_monthly p + sub_carryover_addon_questions sub - used)
     in get_subscription w' (ts_tenant_id tenant) = Some s' \<and> sub_plan_code s' = plan \<and>
        sub_carryover_addon_questions s' = remaining \<and>
        (\<exists>u l. question_usage_summary (ts_tenant_id tenant) s' w' = (Inr (u, l), w') \<and>
           qs_remaining_total u = max 0 (bp_included_questions_monthly np + remaining - used)))"
proof -
  let ?t = "ts_tenant_id tenant"
  have tid: "sub_tenant_id sub = ?t" using stored by (rule get_subscription_tenant_id)
  obtain np where np: "plan_map_of w plan = Some np"
    using run by (cases "plan_map_of w plan") (simp_all add: apply_immediate_plan_change_def run_simps plan_at_def)
  obtain sc where sc: "w_schemas w (w_current_schema w) = Some sc"
    using run old np
    by (cases "w_schemas w (w_current_schema w)")
       (simp_all add: apply_immediate_plan_change_def run_simps plan_at_def question_usage_summary_def
         plan_for_def)
  define used where "used = questions_used_in_current_period w ?t"
  define rest where "rest = max 0 (bp_included_questions_monthly p + sub_carryover_addon_questions sub - used)"
  obtain l where sum: "question_usage_summary ?t sub w =
      (Inr (quota_summary (current_period_key w) used (bp_included_questions_monthly p)
              (sub_carryover_addon_questions sub), l), w)"
    using summary_run [OF old sc] used_def by metis
  have sms: "sms_carryover_from_started_month sub w =
      (Inr (questions_carryover_from_started_month (bp_included_questions_monthly p) used), w)"
    using old by (simp add: sms_carryover_from_started_month_def run_simps plan_for_def tid used_def)
  have val: "qs_remaining_addons (quota_summary (current_period_key w) used (bp_included_questions_monthly p)
        (sub_carryover_addon_questions sub)) +
      questions_carryover_from_started_month (bp_included_questions_monthly p) used = rest"
    using nonneg carryover_sum [of "bp_included_questions_monthly p" used "sub_carryover_addon_questions sub"]
    by (simp add: quota_summary_def questions_carryover_eq rest_def used_def Let_def)
  have "plan_at plan w = (Inr np, w)" using np by (simp add: plan_at_def)
  from immediate_run [OF this sum sms, of period until] obtain f
    where f: "apply_immediate_plan_change tenant sub plan period until w =
      py_bind (upsert_subscription_from_existing ?t sub f)
        (\<lambda>updated. py_seq (sync_tenant_config tenant updated) (py_return updated)) w"
    and fs: "sub_plan_code (f sub) = plan" "sub_carryover_addon_questions (f sub) = rest"
    unfolding val by blast
  define row where "row = (f sub)\<lparr>sub_tenant_id := ?t, sub_created_at := sub_created_at sub, sub_updated_at := w_now w\<rparr>"
  define w1 where "w1 = w\<lparr>w_subscriptions := upsert_row sub_tenant_id row (w_subscriptions w)\<rparr>"
  have w': "w' = snd (sync_tenant_config tenant row w1)" and s': "s' = row"
    using run unfolding f
    by (auto simp: run_simps run_upsert_existing [OF stored] Let_def row_def w1_def split: sum.splits)
  have fr: "frame w w'"
    using frame_snd [OF frame_immediate, of w tenant sub plan period until] run by simp
  have "w_subscriptions w' = w_subscriptions w1"
    unfolding w' by (auto simp: sync_tenant_config_def run_simps reads_onlyD [OF build_limits_reads]
        create_config_def Let_def split: sum.splits)
  then have got: "get_subscription w' ?t = Some s'"
    using get_subscription_put [of row ?t w] by (simp add: get_subscription_def w1_def s' row_def)
  have "plan_or_free (plan_map_of w') (sub_plan_code s') = Inr np"
    using np frame_plans [OF fr] fs by (simp add: plan_or_free_def s' row_def)
  moreover have "w_schemas w' (w_current_schema w') = Some sc" using fr sc by (simp add: frame_def)
  ultimately obtain l2 where "question_usage_summary ?t s' w' =
      (Inr (quota_summary (current_period_key w') used (bp_included_questions_monthly np) rest, l2), w')"
    using summary_run [of w' s' np sc ?t] frame_used [OF fr, of ?t] fs by (auto simp: used_def s' row_def)
  then show ?thesis
    using np got fs by (auto simp: Let_def s' row_def rest_def [symmetric] used_def [symmetric] quota_summary_def)
qed

lemma sync_config_ok:
  assumes "plan_or_free (plan_map_of w) (sub_plan_code s) = Inr p" "tenant_exists w (ts_tenant_id tenant)"
  shows "fst (sync_tenant_config tenant s w) = Inr ()"
  using assms by (simp add: sync_tenant_config_def build_limits_def available_training_chars_def plan_for_def
      run_simps create_config_def Let_def)

lemma apply_immediate_ok:
  assumes "plan_map_of w plan = Some np" "get_subscription w (ts_tenant_id tenant) = Some sub"
    "plan_or_free (plan_map_of w) (sub_plan_code sub) = Inr p" "w_schemas w (w_current_schema w) = Some sc"
    "tenant_exists w (ts_tenant_id tenant)"
  shows "\<exists>s' w'. apply_immediate_plan_change tenant sub plan period until w = (Inr s', w')"
proof -
  have tid: "sub_tenant_id sub = ts_tenant_id tenant" using assms(2) by (rule get_subscription_tenant_id)
  obtain q l where sum: "question_usage_summary (ts_tenant_id tenant) sub w = (Inr (q, l), w)"
    using summary_run [OF assms(3,4)] by blast
  obtain k where sms: "sms_carryover_from_started_month sub w = (Inr k, w)"
    using assms(3) tid by (simp add: sms_carryover_from_started_month_def run_simps plan_for_def)
  have "plan_at plan w = (Inr np, w)" using assms(1) by (simp add: plan_at_def)
  from immediate_run [OF this sum sms, of period until] obtain f
    where eq: "apply_immediate_plan_change tenant sub plan period until w =
      py_bind (upsert_subscription_from_existing (ts_tenant_id tenant) sub f)
        (\<lambda>updated. py_seq (sync_tenant_config tenant updated) (py_return updated)) w"
    and code: "sub_plan_code (f sub) = plan"
    by blast
  show ?thesis
    unfolding eq using assms(1,5) code
    by (simp add: run_simps run_upsert_existing [OF assms(2)] Let_def sync_config_ok [of _ _ np] plan_or_free_def
        plan_map_of_def repo_list_catalog_def tenant_exists_def)
qed

lemma upgrade_keeps_remaining_quota_witness:
  "\<exists>s' w'. apply_immediate_plan_change demo_snapshot (demo_subscription ''pro'' ''monthly'' None) ''business''
       ''monthly'' None (demo_world 0 [demo_subscription ''pro'' ''monthly'' None] []) = (Inr s', w') \<and>
     sub_carryover_addon_questions s' = 150 \<and>
     (\<exists>u l. question_usage_summary 1 s' w' = (Inr (u, l), w') \<and> qs_remaining_total u = 550)"
proof -
  let ?s = "demo_subscription ''pro'' ''monthly'' None"
  let ?w = "demo_world 0 [?s] []"
  obtain p np where plans: "plan_map_of ?w ''pro'' = Some p" "plan_map_of ?w ''business'' = Some np"
    and inc: "bp_included_questions_monthly p = 150" "bp_included_questions_monthly np = 400"
    by (simp add: plan_map_of_def repo_list_catalog_def list_catalog_def demo_world_def
      plan_map_from_catalog_def default_catalog_rows_def plan_of_row_def Let_def included_int_def)
  have stored: "get_subscription ?w (ts_tenant_id demo_snapshot) = Some ?s"
    by (simp add: get_subscription_def row_map_def demo_world_def demo_subscription_def demo_snapshot_def)
  have zero: "questions_used_in_current_period ?w (ts_tenant_id demo_snapshot) = 0"
    by (simp add: questions_used_in_current_period_def questions_used_in_period_def list_question_usage_def
        demo_world_def row_map_def)
  have old: "plan_or_free (plan_map_of ?w) (sub_plan_code ?s) = Inr p"
    using plans by (simp add: plan_or_free_def demo_subscription_def)
  have demo_tenant_exists: "tenant_exists ?w (ts_tenant_id demo_snapshot)"
    by (simp add: tenant_exists_def demo_world_def demo_tenant_row_def demo_snapshot_def)
  have sc: "w_schemas ?w (w_current_schema ?w) = Some demo_schema" by (simp add: demo_world_def)
  obtain s' w' where run: "apply_immediate_plan_change demo_snapshot ?s ''business'' ''monthly'' None ?w = (Inr s', w')"
    using apply_immediate_ok [OF plans(2) stored old sc demo_tenant_exists] by blast
  show ?thesis
    using upgrade_keeps_remaining_quota [OF run stored old] run inc zero plans
    by (simp add: Let_def demo_subscription_def demo_snapshot_def) 
qed

end
