(* ===== verification/Traffic_Usage.thy ===== *)
theory Traffic_Usage
  imports Billing_Integrity
begin

text \<open>
  \<open>backend/apps/traffic/repositories/TrafficQuestionUsageRepository.py\<close>: the reservation of one question (one
  outgoing message) against the quota of the tenant, in one database transaction that settles the
  bought questions of the previous period, checks the quota, counts the question for the user and for
  the tenant and appends an event.

  The rows are those of the world of the billing service. \<open>NOW()\<close> is \<open>w_now\<close>; the row locks are the
  atomicity of a step.
\<close>

section \<open>Transactions\<close>

text \<open>Commit or roll back: an exception and a result that is not committed restore the state.\<close>

definition db_transaction :: "('a \<Rightarrow> bool) \<Rightarrow> 'a billing \<Rightarrow> 'a billing" where
  "db_transaction commits m = (\<lambda>w. case m w of
     (Inl err, _) \<Rightarrow> (Inl err, w)
   | (Inr x, w') \<Rightarrow> (Inr x, if commits x then w' else w))"

lemma preserves_transaction [preserve]: "preserves P m \<Longrightarrow> preserves P (db_transaction c m)"
  by (auto simp: preserves_def db_transaction_def split: prod.splits sum.splits)

section \<open>The included quota\<close>

definition active_plan_row :: "world \<Rightarrow> string \<Rightarrow> catalog_row option" where
  "active_plan_row w code =
     find (\<lambda>r. cr_entry_type r = ''plan'' \<and> cr_code r = code \<and> cr_is_active r) (w_catalog w)"

definition monthly_included_for_plan :: "world \<Rightarrow> string \<Rightarrow> int" where
  "monthly_included_for_plan w plan_code =
     (let plan = active_plan_row w plan_code;
          plan = (if plan = None \<and> plan_code \<noteq> ''free'' then active_plan_row w ''free'' else plan);
          included = (case plan of None \<Rightarrow> [] | Some row \<Rightarrow> cr_included row)
      in max 0 (included_int included ''questions_monthly''))"

text \<open>\<open>str((subscription or {}).get("plan_code") or "free")\<close>.\<close>

definition traffic_plan_code :: "world \<Rightarrow> int \<Rightarrow> string" where
  "traffic_plan_code w t = str_or (map_option sub_plan_code (get_subscription w t)) ''free''"

definition load_monthly_included :: "world \<Rightarrow> int \<Rightarrow> int" where
  "load_monthly_included w t = monthly_included_for_plan w (traffic_plan_code w t)"

definition stored_carryover :: "world \<Rightarrow> int \<Rightarrow> int" where
  "stored_carryover w t =
     (case get_subscription w t of None \<Rightarrow> 0 | Some s \<Rightarrow> sub_carryover_addon_questions s)"

section \<open>Settling the previous period\<close>

definition previous_total :: "world \<Rightarrow> int \<Rightarrow> string \<Rightarrow> question_total option" where
  "previous_total w t period_key =
     latest_by qt_period_key
       (filter (\<lambda>r. qt_tenant_id r = t \<and> qt_period_key r < period_key) (w_question_totals w))"

definition set_carryover :: "int \<Rightarrow> int \<Rightarrow> unit billing" where
  "set_carryover t n = py_modify (\<lambda>w. w\<lparr>w_subscriptions :=
     update_where (\<lambda>s. sub_tenant_id s = t)
       (\<lambda>s. s\<lparr>sub_carryover_addon_questions := n, sub_updated_at := w_now w\<rparr>) (w_subscriptions w)\<rparr>)"

text \<open>\<open>INSERT \<dots> ON CONFLICT DO NOTHING\<close>.\<close>

definition insert_total :: "int \<Rightarrow> string \<Rightarrow> unit billing" where
  "insert_total t period_key = (\<lambda>w.
     let row = \<lparr>qt_tenant_id = t, qt_period_key = period_key, qt_question_count = 0\<rparr> in
     if \<not> tenant_exists w t then (Inl (Integrity_error ''tenants''), w)
     else (Inr (), w\<lparr>w_question_totals := snd (insert_once qt_key row (w_question_totals w))\<rparr>))"

definition settle_addon_carryover_for_new_period :: "int \<Rightarrow> string \<Rightarrow> int billing" where
  "settle_addon_carryover_for_new_period t period_key =
     py_bind (py_gets (\<lambda>w. (stored_carryover w t, load_monthly_included w t))) (\<lambda>(carryover, monthly_included).
     py_bind (py_gets (\<lambda>w. row_map qt_key (w_question_totals w) (t, period_key))) (\<lambda>existing.
     if existing \<noteq> None then py_return carryover
     else
       py_bind (py_gets (\<lambda>w. previous_total w t period_key)) (\<lambda>previous.
       py_bind (case previous of
           None \<Rightarrow> py_return carryover
         | Some row \<Rightarrow>
             (let prev_used = max 0 (qt_question_count row);
                  consumed_from_addons = max 0 (prev_used - monthly_included);
                  remaining_extras = max 0 (carryover - consumed_from_addons)
              in if remaining_extras \<noteq> carryover
                 then py_seq (set_carryover t remaining_extras) (py_return remaining_extras)
                 else py_return carryover)) (\<lambda>carryover.
       py_seq (insert_total t period_key) (py_return carryover)))))"

definition ensure_addon_carryover_for_period :: "int \<Rightarrow> string \<Rightarrow> int billing" where
  "ensure_addon_carryover_for_period t period_key =
     db_transaction (\<lambda>_. True) (settle_addon_carryover_for_new_period t period_key)"

section \<open>Reserving a question\<close>

record reservation =
  rv_allowed :: bool
  rv_reason :: "string option"
  rv_period_key :: string
  rv_used_total :: int
  rv_available_total :: int
  rv_remaining_total :: int

definition question_limit_exceeded_message :: string where
  "question_limit_exceeded_message =
     ''Elfogyott a megkeresesszam kereted. Vasarolj extra megkeresescsomagot.''"

text \<open>The three writes of an allowed reservation.\<close>

definition count_user_question :: "int \<Rightarrow> int \<Rightarrow> string \<Rightarrow> unit billing" where
  "count_user_question t user period_key = (\<lambda>w.
     if \<not> tenant_exists w t then (Inl (Integrity_error ''tenants''), w)
     else
       let row = (case row_map qu_key (w_traffic_usage w) (t, user, period_key) of
            None \<Rightarrow> \<lparr>qu_tenant_id = t, qu_user_id = user, qu_period_key = period_key,
                     qu_question_count = 1, qu_last_question_at = Some (w_now w)\<rparr>
          | Some old \<Rightarrow> old\<lparr>qu_question_count := qu_question_count old + 1,
                           qu_last_question_at := Some (w_now w)\<rparr>)
       in (Inr (), w\<lparr>w_traffic_usage := upsert_row qu_key row (w_traffic_usage w)\<rparr>))"

definition count_total_question :: "int \<Rightarrow> string \<Rightarrow> unit billing" where
  "count_total_question t period_key = py_modify (\<lambda>w. w\<lparr>w_question_totals :=
     update_where (\<lambda>r. qt_key r = (t, period_key)) (\<lambda>r. r\<lparr>qt_question_count := qt_question_count r + 1\<rparr>)
       (w_question_totals w)\<rparr>)"

definition append_reserved_event :: "int \<Rightarrow> int \<Rightarrow> string \<Rightarrow> jdict \<Rightarrow> unit billing" where
  "append_reserved_event t user period_key ctx = (\<lambda>w.
     if \<not> tenant_exists w t then (Inl (Integrity_error ''tenants''), w)
     else (Inr (), w\<lparr>w_traffic_events := w_traffic_events w @
        [\<lparr>te_tenant_id = t, te_user_id = user, te_period_key = period_key, te_event_type = ''reserved'',
          te_question_delta = 1, te_request_context = ctx\<rparr>]\<rparr>))"

definition reserve_question :: "int \<Rightarrow> int \<Rightarrow> string \<Rightarrow> jdict \<Rightarrow> reservation billing" where
  "reserve_question t user period_key ctx =
     db_transaction rv_allowed
       (py_bind (settle_addon_carryover_for_new_period t period_key) (\<lambda>addon_carryover.
        py_bind (py_gets (\<lambda>w. load_monthly_included w t)) (\<lambda>monthly_included.
        let available_total = max 0 (monthly_included + addon_carryover) in
        py_bind (py_gets (\<lambda>w. row_map qt_key (w_question_totals w) (t, period_key))) (\<lambda>total_row.
        case total_row of
          None \<Rightarrow> py_raise (Database_error ''traffic_question_usage_totals'')
        | Some row \<Rightarrow>
            (let used_total = qt_question_count row in
             if available_total \<le> 0 \<or> used_total \<ge> available_total then
               py_return \<lparr>rv_allowed = False, rv_reason = Some question_limit_exceeded_message,
                 rv_period_key = period_key, rv_used_total = used_total,
                 rv_available_total = max 0 available_total, rv_remaining_total = 0\<rparr>
             else
               py_seq (count_user_question t user period_key)
               (py_seq (count_total_question t period_key)
               (py_seq (append_reserved_event t user period_key ctx)
                 (let new_total = used_total + 1 in
                  py_return \<lparr>rv_allowed = True, rv_reason = None, rv_period_key = period_key,
                    rv_used_total = new_total, rv_available_total = available_total,
                    rv_remaining_total = max 0 (available_total - new_total)\<rparr>))))))))"

end
