(* ===== verification/Traffic_Usage_Facts.thy ===== *)
theory Traffic_Usage_Facts
  imports Traffic_Usage Billing_Invoicing_Facts
begin

text \<open>
  The quota is enforced exactly and the counters stay consistent; a new period keeps only what is
  left of the bought questions.
\<close>

section \<open>Updates of the counters\<close>

lemma row_map_update_where:
  assumes "\<And>r. key (f r) = key r"
  shows "row_map key (update_where (\<lambda>r. key r = k) f tbl) k' =
    (if k' = k then map_option f (row_map key tbl k) else row_map key tbl k')"
  using assms by (induction tbl) (auto simp: row_map_def update_where_def)

lemma user_count_append: "user_count (xs @ ys) t p = user_count xs t p + user_count ys t p"
  by (simp add: user_count_def)

lemma user_count_update:
  assumes "key_ok qu_key usage" "row_map qu_key usage (t, u, p) = Some old" "qu_key row = (t, u, p)"
  shows "user_count (update_where (\<lambda>r. qu_key r = (t, u, p)) (\<lambda>_. row) usage) t' p' =
    user_count usage t' p' +
      (if t' = t \<and> p' = p then qu_question_count row - qu_question_count old else 0)"
  using assms(1,2)
proof (induction usage)
  case Nil
  then show ?case by (simp add: row_map_def)
next
  case (Cons a usage)
  show ?case
  proof (cases "qu_key a = (t, u, p)")
    case True
    with Cons.prems have a: "a = old" by (simp add: row_map_def)
    have "update_where (\<lambda>r. qu_key r = (t, u, p)) (\<lambda>_. row) usage = usage"
      using Cons.prems(1) True by (auto simp: key_ok_def update_where_def intro!: map_idI) (metis image_eqI)
    then show ?thesis using True a assms(3)
      by (auto simp: user_count_def update_where_def qu_key_def)
  next
    case False
    with Cons.prems have "row_map qu_key usage (t, u, p) = Some old" "key_ok qu_key usage"
      by (simp_all add: row_map_def key_ok_def)
    from Cons.IH [OF this(2,1)] False show ?thesis
      by (auto simp: user_count_def update_where_def)
  qed
qed

lemma event_count_append: "event_count (xs @ ys) t p = event_count xs t p + event_count ys t p"
  by (simp add: event_count_def)

section \<open>The settlement as a function of the state\<close>

definition settled_carryover :: "world \<Rightarrow> int \<Rightarrow> string \<Rightarrow> int" where
  "settled_carryover w t p =
     (let carry = stored_carryover w t in
      if row_map qt_key (w_question_totals w) (t, p) \<noteq> None then carry
      else case previous_total w t p of
        None \<Rightarrow> carry
      | Some row \<Rightarrow> max 0 (carry - max 0 (max 0 (qt_question_count row) - load_monthly_included w t)))"

definition settled_world :: "world \<Rightarrow> int \<Rightarrow> string \<Rightarrow> world" where
  "settled_world w t p =
     (if row_map qt_key (w_question_totals w) (t, p) \<noteq> None then w
      else w\<lparr>w_subscriptions := (if settled_carryover w t p = stored_carryover w t then w_subscriptions w
               else update_where (\<lambda>s. sub_tenant_id s = t)
                 (\<lambda>s. s\<lparr>sub_carryover_addon_questions := settled_carryover w t p, sub_updated_at := w_now w\<rparr>)
                 (w_subscriptions w)),
             w_question_totals := w_question_totals w @
               [\<lparr>qt_tenant_id = t, qt_period_key = p, qt_question_count = 0\<rparr>]\<rparr>)"

lemma settle_run:
  assumes "tenant_exists w t"
  shows "settle_addon_carryover_for_new_period t p w = (Inr (settled_carryover w t p), settled_world w t p)"
proof (cases "row_map qt_key (w_question_totals w) (t, p)")
  case (Some r)
  then show ?thesis
    by (simp add: settle_addon_carryover_for_new_period_def run_simps settled_carryover_def settled_world_def)
next
  case None
  have ins: "insert_total t p v = (Inr (), v\<lparr>w_question_totals := w_question_totals w @
      [\<lparr>qt_tenant_id = t, qt_period_key = p, qt_question_count = 0\<rparr>]\<rparr>)"
    if "w_question_totals v = w_question_totals w" "w_tenants v = w_tenants w" for v
    using None assms that by (simp add: insert_total_def insert_once_def qt_key_def tenant_exists_def)
  show ?thesis
  proof (cases "previous_total w t p")
    case None
    then show ?thesis using \<open>row_map qt_key (w_question_totals w) (t, p) = None\<close>
      by (simp add: settle_addon_carryover_for_new_period_def run_simps settled_carryover_def
          settled_world_def ins)
  next
    case (Some row)
    then show ?thesis using \<open>row_map qt_key (w_question_totals w) (t, p) = None\<close>
      by (simp add: settle_addon_carryover_for_new_period_def run_simps settled_carryover_def
          settled_world_def ins set_carryover_def Let_def)
  qed
qed

lemma stored_carryover_set:
  assumes "get_subscription w t = Some s"
    and "w_subscriptions v = update_where (\<lambda>s. sub_tenant_id s = t) (\<lambda>s. s\<lparr>sub_carryover_addon_questions := n, sub_updated_at := x\<rparr>)
      (w_subscriptions w)"
  shows "get_subscription v t = Some (s\<lparr>sub_carryover_addon_questions := n, sub_updated_at := x\<rparr>)"
  using assms row_map_update_where [of sub_tenant_id "\<lambda>s. s\<lparr>sub_carryover_addon_questions := n, sub_updated_at := x\<rparr>"
      t "w_subscriptions w" t]
  by (simp add: get_subscription_def)

lemma settled_world_carryover:
  "stored_carryover (settled_world w t p) t = settled_carryover w t p \<and>
   traffic_plan_code (settled_world w t p) t = traffic_plan_code w t"
proof (cases "get_subscription w t")
  case None
  then have "find (\<lambda>s. sub_tenant_id s = t) (w_subscriptions w) = None" by (simp add: get_subscription_def row_map_def)
  then have "update_where (\<lambda>s. sub_tenant_id s = t) f (w_subscriptions w) = w_subscriptions w" for f
    by (auto simp: update_where_def find_None_iff_all intro!: map_idI)
  moreover have "settled_carryover w t p = 0"
    using None by (simp add: settled_carryover_def stored_carryover_def Let_def split: option.splits)
  ultimately show ?thesis using None
    by (simp add: settled_world_def stored_carryover_def traffic_plan_code_def get_subscription_def)
next
  case (Some s)
  show ?thesis
  proof (cases "row_map qt_key (w_question_totals w) (t, p) \<noteq> None \<or> settled_carryover w t p = stored_carryover w t")
    case True
    then show ?thesis
      by (auto simp: settled_world_def stored_carryover_def traffic_plan_code_def get_subscription_def
          settled_carryover_def Let_def)
  next
    case False
    then have "w_subscriptions (settled_world w t p) = update_where (\<lambda>s. sub_tenant_id s = t)
        (\<lambda>s. s\<lparr>sub_carryover_addon_questions := settled_carryover w t p, sub_updated_at := w_now w\<rparr>) (w_subscriptions w)"
      by (simp add: settled_world_def)
    from stored_carryover_set [OF Some this] Some show ?thesis
      by (simp add: stored_carryover_def traffic_plan_code_def)
  qed
qed

lemma settled_world_same [simp]:
  "w_now (settled_world w t p) = w_now w" "w_catalog (settled_world w t p) = w_catalog w"
  "w_tenants (settled_world w t p) = w_tenants w" "w_traffic_usage (settled_world w t p) = w_traffic_usage w"
  "w_traffic_events (settled_world w t p) = w_traffic_events w"
  "tenant_exists (settled_world w t p) x = tenant_exists w x"
  by (simp_all add: settled_world_def tenant_exists_def)

lemma settled_world_included [simp]: "load_monthly_included (settled_world w t p) t = load_monthly_included w t"
proof -
  have "active_plan_row (settled_world w t p) = active_plan_row w"
    by (simp add: active_plan_row_def fun_eq_iff)
  then show ?thesis using settled_world_carryover [of w t p]
    by (simp add: load_monthly_included_def monthly_included_for_plan_def Let_def)
qed

lemma settled_world_total:
  "\<exists>r. row_map qt_key (w_question_totals (settled_world w t p)) (t, p) = Some r \<and>
     qt_question_count r = total_count (w_question_totals w) t p"
  by (cases "row_map qt_key (w_question_totals w) (t, p)")
    (auto simp: settled_world_def total_count_def row_map_def find_append qt_key_def)

lemma total_count_settled [simp]:
  "total_count (w_question_totals (settled_world w t p)) t' p' = total_count (w_question_totals w) t' p'"
  by (cases "row_map qt_key (w_question_totals w) (t, p)")
    (auto simp: settled_world_def total_count_def row_map_def find_append qt_key_def split: option.splits)

section \<open>A reservation as a function of the state\<close>

definition available_questions :: "world \<Rightarrow> int \<Rightarrow> string \<Rightarrow> int" where
  "available_questions w t p = max 0 (load_monthly_included w t + settled_carryover w t p)"

definition used_questions :: "world \<Rightarrow> int \<Rightarrow> string \<Rightarrow> int" where
  "used_questions w t p = total_count (w_question_totals w) t p"

definition counted_row :: "world \<Rightarrow> int \<Rightarrow> int \<Rightarrow> string \<Rightarrow> question_usage" where
  "counted_row w t u p = (case row_map qu_key (w_traffic_usage w) (t, u, p) of
      None \<Rightarrow> \<lparr>qu_tenant_id = t, qu_user_id = u, qu_period_key = p, qu_question_count = 1,
               qu_last_question_at = Some (w_now w)\<rparr>
    | Some old \<Rightarrow> old\<lparr>qu_question_count := qu_question_count old + 1, qu_last_question_at := Some (w_now w)\<rparr>)"

definition reserved_world :: "world \<Rightarrow> int \<Rightarrow> int \<Rightarrow> string \<Rightarrow> jdict \<Rightarrow> world" where
  "reserved_world w t u p ctx =
     (let w1 = settled_world w t p in
      w1\<lparr>w_traffic_usage := upsert_row qu_key (counted_row w t u p) (w_traffic_usage w),
         w_question_totals := update_where (\<lambda>r. qt_key r = (t, p))
           (\<lambda>r. r\<lparr>qt_question_count := qt_question_count r + 1\<rparr>) (w_question_totals w1),
         w_traffic_events := w_traffic_events w @
           [\<lparr>te_tenant_id = t, te_user_id = u, te_period_key = p, te_event_type = ''reserved'',
             te_question_delta = 1, te_request_context = ctx\<rparr>]\<rparr>)"

lemma used_questions_nonneg: "store_ok w \<Longrightarrow> 0 \<le> used_questions w t p"
proof -
  assume ok: "store_ok w"
  then have "0 \<le> user_count (w_traffic_usage w) t p"
    unfolding user_count_def by (intro sum_list_nonneg) (auto simp: store_ok_def counts_ok_def)
  then show ?thesis using ok by (simp add: store_ok_def counts_ok_def used_questions_def)
qed

lemma reserve_run:
  assumes "tenant_exists w t" "0 \<le> used_questions w t p"
  shows "reserve_question t u p ctx w =
    (let avail = available_questions w t p; used = used_questions w t p in
     if used < avail
     then (Inr \<lparr>rv_allowed = True, rv_reason = None, rv_period_key = p, rv_used_total = used + 1,
             rv_available_total = avail, rv_remaining_total = max 0 (avail - (used + 1))\<rparr>,
           reserved_world w t u p ctx)
     else (Inr \<lparr>rv_allowed = False, rv_reason = Some question_limit_exceeded_message, rv_period_key = p,
             rv_used_total = used, rv_available_total = avail, rv_remaining_total = 0\<rparr>, w))"
proof -
  let ?w1 = "settled_world w t p"
  obtain r where r: "row_map qt_key (w_question_totals ?w1) (t, p) = Some r"
      "qt_question_count r = used_questions w t p"
    using settled_world_total unfolding used_questions_def by blast
  have ten: "tenant_exists v t" if "w_tenants v = w_tenants ?w1" for v
    using assms that by (simp add: tenant_exists_def)
  have user: "count_user_question t u p ?w1 =
      (Inr (), ?w1\<lparr>w_traffic_usage := upsert_row qu_key (counted_row w t u p) (w_traffic_usage w)\<rparr>)"
    using assms
    by (cases "row_map qt_key (w_question_totals w) (t, p)"; cases "row_map qu_key (w_traffic_usage w) (t, u, p)")
      (simp_all add: count_user_question_def counted_row_def Let_def)
  show ?thesis
  proof (cases "used_questions w t p < available_questions w t p")
    case True
    then have "\<not> available_questions w t p \<le> 0" "\<not> available_questions w t p \<le> used_questions w t p"
      using assms(2) by simp_all
    with True show ?thesis using r
      by (simp add: reserve_question_def db_transaction_def run_simps settle_run [OF assms(1)] Let_def
          available_questions_def user count_total_question_def append_reserved_event_def ten
          reserved_world_def)
  next
    case False
    then have "available_questions w t p \<le> 0 \<or> available_questions w t p \<le> used_questions w t p" by simp
    then show ?thesis using r False
      by (simp add: reserve_question_def db_transaction_def run_simps settle_run [OF assms(1)] Let_def
          available_questions_def)
  qed
qed

lemma row_map_bump: "row_map qt_key (update_where (\<lambda>r. qt_key r = k) (\<lambda>r. r\<lparr>qt_question_count := qt_question_count r + 1\<rparr>) tbl) k' =
    (if k' = k then map_option (\<lambda>r. r\<lparr>qt_question_count := qt_question_count r + 1\<rparr>) (row_map qt_key tbl k)
     else row_map qt_key tbl k')"
  by (rule row_map_update_where) (simp add: qt_key_def)

lemma reserved_world_total:
  "total_count (w_question_totals (reserved_world w t u p ctx)) t' p' =
     total_count (w_question_totals w) t' p' + (if t' = t \<and> p' = p then 1 else 0)"
proof -
  obtain r where r: "row_map qt_key (w_question_totals (settled_world w t p)) (t, p) = Some r"
    using settled_world_total by blast
  have eq: "row_map qt_key (w_question_totals (reserved_world w t u p ctx)) k =
    (if k = (t, p) then Some (r\<lparr>qt_question_count := qt_question_count r + 1\<rparr>)
     else row_map qt_key (w_question_totals (settled_world w t p)) k)" for k
    using r by (simp add: reserved_world_def Let_def row_map_bump)
  show ?thesis
    using total_count_settled [of w t p t' p'] r unfolding total_count_def eq by auto
qed

lemma reserved_world_stable:
  "available_questions (reserved_world w t u p ctx) t p = available_questions w t p"
proof -
  let ?w = "reserved_world w t u p ctx" and ?w1 = "settled_world w t p"
  have same: "w_subscriptions ?w = w_subscriptions ?w1" "w_catalog ?w = w_catalog ?w1"
    by (simp_all add: reserved_world_def Let_def)
  have "row_map qt_key (w_question_totals ?w) (t, p) \<noteq> None"
    using settled_world_total [of w t p]
    by (auto simp: reserved_world_def Let_def row_map_bump)
  then have "settled_carryover ?w t p = stored_carryover ?w t" by (simp add: settled_carryover_def Let_def)
  also have "\<dots> = settled_carryover w t p"
    using settled_world_carryover [of w t p] same by (simp add: stored_carryover_def get_subscription_def)
  finally have carry: "settled_carryover ?w t p = settled_carryover w t p" .
  have "active_plan_row ?w = active_plan_row ?w1" "traffic_plan_code ?w t = traffic_plan_code ?w1 t"
    using same by (simp_all add: active_plan_row_def traffic_plan_code_def get_subscription_def fun_eq_iff)
  then have "load_monthly_included ?w t = load_monthly_included ?w1 t"
    by (simp add: load_monthly_included_def monthly_included_for_plan_def Let_def)
  with carry show ?thesis by (simp add: available_questions_def)
qed

section \<open>The constraints of the tables\<close>

lemma store_ok_settled:
  assumes ok: "store_ok w" and t: "tenant_exists w t"
  shows "store_ok (settled_world w t p)"
proof (cases "row_map qt_key (w_question_totals w) (t, p)")
  case (Some r)
  then show ?thesis using ok by (simp add: settled_world_def)
next
  case None
  let ?new = "\<lparr>qt_tenant_id = t, qt_period_key = p, qt_question_count = 0\<rparr>"
  let ?subs = "w_subscriptions (settled_world w t p)"
  have subs: "map sub_tenant_id ?subs = map sub_tenant_id (w_subscriptions w)"
    by (simp add: settled_world_def map_update_where)
  then have "sub_tenant_id ` set ?subs = sub_tenant_id ` set (w_subscriptions w)" by (metis list.set_map)
  moreover have tot: "w_question_totals (settled_world w t p) = w_question_totals w @ [?new]"
    using None by (simp add: settled_world_def)
  moreover have "key_ok qt_key (w_question_totals w @ [?new])"
    using ok None by (intro key_ok_append1) (simp_all add: store_ok_defs qt_key_def)
  moreover have "counts_ok (w_question_totals (settled_world w t p)) (w_traffic_usage w) (w_traffic_events w)"
    using ok by (simp add: store_ok_def counts_ok_def)
  ultimately show ?thesis
    using ok t None subs
    by (simp add: store_ok_defs settled_world_def tenant_exists_iff key_ok_def)
qed

lemma user_count_reserved:
  assumes "key_ok qu_key (w_traffic_usage w)"
  shows "user_count (upsert_row qu_key (counted_row w t u p) (w_traffic_usage w)) t' p' =
    user_count (w_traffic_usage w) t' p' + (if t' = t \<and> p' = p then 1 else 0)"
proof (cases "row_map qu_key (w_traffic_usage w) (t, u, p)")
  case None
  then have "upsert_row qu_key (counted_row w t u p) (w_traffic_usage w) = w_traffic_usage w @ [counted_row w t u p]"
    by (simp add: upsert_row_def counted_row_def qu_key_def row_map_def)
  then show ?thesis using None by (auto simp: user_count_append) (auto simp: user_count_def counted_row_def)
next
  case (Some old)
  have key: "qu_key (counted_row w t u p) = (t, u, p)"
    using Some row_map_Some [OF Some] by (simp add: counted_row_def qu_key_def)
  then have "upsert_row qu_key (counted_row w t u p) (w_traffic_usage w) =
      update_where (\<lambda>r. qu_key r = (t, u, p)) (\<lambda>_. counted_row w t u p) (w_traffic_usage w)"
    using Some by (simp add: upsert_row_def row_map_def)
  then show ?thesis
    using user_count_update [OF assms Some key, of t' p'] Some by (simp add: counted_row_def)
qed

lemma store_ok_reserved:
  assumes ok: "store_ok w" and t: "tenant_exists w t"
  shows "store_ok (reserved_world w t u p ctx)"
proof -
  let ?w1 = "settled_world w t p" and ?w = "reserved_world w t u p ctx"
  have ok1: "store_ok ?w1" using assms by (rule store_ok_settled)
  have tot: "map qt_key (w_question_totals ?w) = map qt_key (w_question_totals ?w1)"
    by (simp add: reserved_world_def Let_def map_update_where qt_key_def)
  then have keys: "key_ok qt_key (w_question_totals ?w)" using ok1 by (simp add: key_ok_def store_ok_defs)
  have "fst ` qt_key ` set (w_question_totals ?w) = fst ` qt_key ` set (w_question_totals ?w1)"
    using tot by (metis list.set_map)
  then have refs: "qt_tenant_id ` set (w_question_totals ?w) = qt_tenant_id ` set (w_question_totals ?w1)"
    by (simp add: image_image qt_key_def)
  have "qu_key (counted_row w t u p) = (t, u, p)"
    by (cases "row_map qu_key (w_traffic_usage w) (t, u, p)")
      (auto simp: counted_row_def qu_key_def dest: row_map_Some)
  then have ten: "qu_tenant_id (counted_row w t u p) = t" by (simp add: qu_key_def)
  have ku: "key_ok qu_key (w_traffic_usage w)" using ok by (simp add: store_ok_defs)
  have nonneg: "\<forall>r \<in> set (w_traffic_usage w). 0 \<le> qu_question_count r" using ok by (simp add: store_ok_def counts_ok_def)
  have "0 \<le> qu_question_count (counted_row w t u p)"
    using nonneg by (auto simp: counted_row_def dest!: row_map_Some split: option.splits)
  with nonneg have "\<forall>r \<in> set (w_traffic_usage ?w). 0 \<le> qu_question_count r"
    by (auto simp: reserved_world_def Let_def dest: set_upsert_row)
  moreover have "user_count (w_traffic_usage ?w) t' p' = total_count (w_question_totals ?w) t' p' \<and>
      event_count (w_traffic_events ?w) t' p' = total_count (w_question_totals ?w) t' p'" for t' p'
    unfolding reserved_world_total
    using ok by (simp add: reserved_world_def Let_def user_count_reserved [OF ku] event_count_append)
      (simp add: event_count_def store_ok_def counts_ok_def)
  ultimately have counts: "counts_ok (w_question_totals ?w) (w_traffic_usage ?w) (w_traffic_events ?w)"
    by (simp add: counts_ok_def)
  have rest: "w_traffic_usage ?w = upsert_row qu_key (counted_row w t u p) (w_traffic_usage ?w1)"
    "te_tenant_id ` set (w_traffic_events ?w) = insert t (te_tenant_id ` set (w_traffic_events ?w1))"
    "w_tenants ?w = w_tenants ?w1" "w_catalog ?w = w_catalog ?w1" "w_subscriptions ?w = w_subscriptions ?w1"
    "w_question_usage ?w = w_question_usage ?w1" "w_training_usage ?w = w_training_usage ?w1"
    "w_invoices ?w = w_invoices ?w1" "w_cancellations ?w = w_cancellations ?w1"
    "w_payment_events ?w = w_payment_events ?w1" "w_tenant_configs ?w = w_tenant_configs ?w1"
    "w_sms_sends ?w = w_sms_sends ?w1" "w_next_invoice_id ?w = w_next_invoice_id ?w1"
    "w_next_cancellation_id ?w = w_next_cancellation_id ?w1" "w_next_event_id ?w = w_next_event_id ?w1"
    by (simp_all add: reserved_world_def Let_def)
  have "t \<in> tenant_ids ?w1" using t by (simp add: tenant_exists_iff tenant_ids_def)
  then have "unique_ok ?w" "ids_ok ?w" "references_ok ?w"
    using ok1 keys refs ten unfolding store_ok_def unique_ok_def ids_ok_def references_ok_def tenant_ids_def rest
    by (simp_all add: key_ok_upsert_row in_subset_image_upsert)
  with counts show ?thesis by (simp add: store_ok_def)
qed

lemma store_ok_settle [preserve]: "preserves store_ok (settle_addon_carryover_for_new_period t p)"
proof (rule preservesI)
  fix w assume ok: "store_ok w"
  show "store_ok (snd (settle_addon_carryover_for_new_period t p w))"
  proof (cases "tenant_exists w t")
    case True
    then show ?thesis using ok by (simp add: settle_run store_ok_settled)
  next
    case False
    have "get_subscription w t = None"
      using get_subscription_tenant(2) [OF ok] False by (cases "get_subscription w t") (auto simp: tenant_exists_iff)
    then have "stored_carryover w t = 0" by (simp add: stored_carryover_def)
    then show ?thesis using False ok
      by (auto simp: settle_addon_carryover_for_new_period_def run_simps insert_total_def Let_def
          split: option.splits)
  qed
qed

section \<open>The quota\<close>

text \<open>A sequence of reservation requests of one tenant, in the order in which their transactions run.\<close>

fun reserve_many :: "int \<Rightarrow> string \<Rightarrow> (int \<times> jdict) list \<Rightarrow> world \<Rightarrow> bool list \<times> world" where
  "reserve_many t p [] w = ([], w)"
| "reserve_many t p ((u, ctx) # qs) w =
     (let (r, w1) = reserve_question t u p ctx w;
          (answers, w2) = reserve_many t p qs w1
      in ((case r of Inl _ \<Rightarrow> False | Inr rv \<Rightarrow> rv_allowed rv) # answers, w2))"

lemma tenant_exists_reserved: "tenant_exists (reserved_world w t u p ctx) x = tenant_exists w x"
  by (simp add: reserved_world_def Let_def tenant_exists_def)

lemma reserve_many_full:
  assumes "tenant_exists w t" "0 \<le> used_questions w t p" "available_questions w t p \<le> used_questions w t p"
  shows "reserve_many t p qs w = (replicate (length qs) False, w)"
  using assms by (induction qs) (auto simp: reserve_run Let_def)

text \<open>C8: the quota is granted to the last question and not beyond. In a consistent store, a sequence of
  reservations of any users of a tenant in one period is answered yes exactly for the first
  \<open>available - used\<close> requests and no for the others, the counter grows by the number of granted
  requests, so it never passes the quota, what is available stays the same, and the counters of the
  users, the events and the tables stay consistent.\<close>

theorem quota_filled_exactly:
  assumes "store_ok w" "tenant_exists w t"
  shows "let (answers, w') = reserve_many t p qs w;
             free = nat (available_questions w t p - used_questions w t p);
             granted = min (length qs) free
    in answers = replicate granted True @ replicate (length qs - granted) False \<and>
       used_questions w' t p = used_questions w t p + int granted \<and>
       used_questions w' t p \<le> max (used_questions w t p) (available_questions w t p) \<and>
       available_questions w' t p = available_questions w t p \<and> store_ok w'"
  using assms
proof (induction qs arbitrary: w)
  case Nil
  then show ?case by simp
next
  case (Cons q qs)
  obtain u ctx where q: "q = (u, ctx)" by (cases q)
  have nonneg: "0 \<le> used_questions w t p" using Cons.prems(1) by (rule used_questions_nonneg)
  show ?case
  proof (cases "used_questions w t p < available_questions w t p")
    case True
    let ?w1 = "reserved_world w t u p ctx"
    have used: "used_questions ?w1 t p = used_questions w t p + 1"
      by (simp add: used_questions_def reserved_world_total)
    obtain answers w' where rec: "reserve_many t p qs ?w1 = (answers, w')" by fastforce
    note IH = Cons.IH [OF store_ok_reserved [OF Cons.prems, of u p ctx],
        unfolded tenant_exists_reserved, OF Cons.prems(2)]
    let ?n = "nat (available_questions w t p - used_questions w t p - 1)"
    have "nat (available_questions w t p - used_questions w t p) = Suc ?n" using True by simp
    then show ?thesis using IH True rec nonneg
      by (simp add: q reserve_run [OF Cons.prems(2)] Let_def used reserved_world_stable diff_diff_eq)
  next
    case False
    then show ?thesis
      using reserve_many_full [OF Cons.prems(2) nonneg, of "q # qs"] Cons.prems(1) by simp
  qed
qed

lemma quota_filled_exactly_witness:
  "fst (reserve_many 1 ''2026-06'' [(7, []), (8, []), (7, []), (7, [])] (demo_world 0 [] [])) = [True, True, True, False]"
proof -
  let ?w = "demo_world 0 [] []"
  have ok: "store_ok ?w"
    by (simp add: store_ok_defs demo_world_def key_ok_def catalog_ok_def demo_tenant_row_def
      demo_key_ok [unfolded key_ok_def])
  have ten: "tenant_exists ?w 1" by (simp add: tenant_exists_def demo_world_def demo_tenant_row_def)
  have used: "used_questions ?w 1 ''2026-06'' = 0"
    by (simp add: used_questions_def total_count_def demo_world_def row_map_def)
  have free: "stored_carryover ?w 1 = 0" "traffic_plan_code ?w 1 = ''free''"
    by (simp_all add: stored_carryover_def traffic_plan_code_def get_subscription_def row_map_def demo_world_def str_or_def)
  have "monthly_included_for_plan ?w ''free'' = 3"
    by (simp add: monthly_included_for_plan_def active_plan_row_def demo_world_def default_catalog_rows_def included_int_def)
  then have avail: "available_questions ?w 1 ''2026-06'' = 3"
    using free by (simp add: available_questions_def settled_carryover_def previous_total_def load_monthly_included_def)
      (simp add: demo_world_def row_map_def)
  show ?thesis
    using quota_filled_exactly [OF ok ten, of "''2026-06''" "[(7, []), (8, []), (7, []), (7, [])]"]
    unfolding used avail Let_def
    by (auto split: prod.splits simp: numeral_eq_Suc)
qed

section \<open>A new period\<close>

text \<open>What a new period keeps. The first touch of a period after a period in which the tenant used
  \<open>used\<close> questions keeps the smaller of the bought questions and what was left in total: the included
  quota lapses and questions used beyond it were taken from the bought ones. The new period starts
  at zero with its included quota and the kept questions, and settling again changes nothing.\<close>

theorem new_period_keeps_bought:
  assumes ten: "tenant_exists w t" and new: "row_map qt_key (w_question_totals w) (t, p) = None"
    and prev: "previous_total w t p = Some row" "0 \<le> qt_question_count row" "0 \<le> stored_carryover w t"
  shows "\<exists>w' kept. ensure_addon_carryover_for_period t p w = (Inr kept, w') \<and>
    kept = max 0 (min (stored_carryover w t)
                   (load_monthly_included w t + stored_carryover w t - qt_question_count row)) \<and>
    stored_carryover w' t = kept \<and> used_questions w' t p = 0 \<and>
    available_questions w' t p = load_monthly_included w t + kept \<and>
    ensure_addon_carryover_for_period t p w' = (Inr kept, w')"
proof -
  let ?w = "settled_world w t p" and ?kept = "settled_carryover w t p"
  have run: "ensure_addon_carryover_for_period t p w = (Inr ?kept, ?w)"
    by (simp add: ensure_addon_carryover_for_period_def db_transaction_def settle_run [OF ten])
  obtain r where there: "row_map qt_key (w_question_totals ?w) (t, p) = Some r"
    using settled_world_total by blast
  have same: "settled_carryover ?w t p = ?kept" "settled_world ?w t p = ?w"
    using there settled_world_carryover [of w t p]
    by (simp_all add: settled_carryover_def settled_world_def [of ?w])
  have again: "ensure_addon_carryover_for_period t p ?w = (Inr ?kept, ?w)"
    using ten by (simp add: ensure_addon_carryover_for_period_def db_transaction_def settle_run same)
  have kept: "?kept = max 0 (min (stored_carryover w t)
      (load_monthly_included w t + stored_carryover w t - qt_question_count row))"
    using prev by (simp add: settled_carryover_def new Let_def)
  have "used_questions ?w t p = 0" using new by (simp add: used_questions_def total_count_def [of "w_question_totals w"])
  moreover have "0 \<le> load_monthly_included w t"
    by (simp add: load_monthly_included_def monthly_included_for_plan_def Let_def)
  then have "available_questions ?w t p = load_monthly_included w t + ?kept"
    using kept by (simp add: available_questions_def same)
  ultimately show ?thesis using run again kept settled_world_carryover [of w t p] by blast
qed

lemma new_period_keeps_bought_witness:
  "\<exists>w w'. ensure_addon_carryover_for_period 1 ''2026-06'' w = (Inr 5, w') \<and> stored_carryover w' 1 = 5"
proof -
  let ?s = "demo_subscription ''starter'' ''monthly'' None\<lparr>sub_carryover_addon_questions := 10\<rparr>"
  let ?row = "\<lparr>qt_tenant_id = 1, qt_period_key = ''2026-05'', qt_question_count = 45\<rparr>"
  let ?w = "demo_world 0 [?s] []\<lparr>w_question_totals := [?row]\<rparr>"
  have ten: "tenant_exists ?w 1" by (simp add: tenant_exists_def demo_world_def demo_tenant_row_def)
  have new: "row_map qt_key (w_question_totals ?w) (1, ''2026-06'') = None" by (simp add: row_map_def qt_key_def)
  have "''2026-05'' < ''2026-06''" by (simp add: list_less_def)
  then have prev: "previous_total ?w 1 ''2026-06'' = Some ?row" by (simp add: previous_total_def)
  have sub: "get_subscription ?w 1 = Some ?s"
    by (simp add: get_subscription_def row_map_def demo_world_def demo_subscription_def)
  have carry: "stored_carryover ?w 1 = 10" using sub by (simp add: stored_carryover_def)
  have "load_monthly_included ?w 1 = 40" using sub
    by (simp add: load_monthly_included_def traffic_plan_code_def monthly_included_for_plan_def
        active_plan_row_def str_or_def demo_subscription_def)
      (simp add: demo_world_def default_catalog_rows_def included_int_def)
  then show ?thesis using new_period_keeps_bought [OF ten new prev] carry by auto
qed

section \<open>The operations keep the store consistent\<close>

lemma settle_tenants: "w_tenants (snd (settle_addon_carryover_for_new_period t p w)) = w_tenants w"
proof -
  have "preserves (\<lambda>v. w_tenants v = w_tenants w) (settle_addon_carryover_for_new_period t p)"
    unfolding settle_addon_carryover_for_new_period_def Let_def
    by (intro preserve) (auto simp: set_carryover_def insert_total_def Let_def preserves_def)
  then show ?thesis by (simp add: preserves_def)
qed

lemma reserve_no_tenant:
  assumes "\<not> tenant_exists w t"
  shows "snd (reserve_question t u p ctx w) = w \<and>
    (\<forall>rv. fst (reserve_question t u p ctx w) = Inr rv \<longrightarrow> \<not> rv_allowed rv)"
proof -
  obtain r1 w1 where run: "settle_addon_carryover_for_new_period t p w = (r1, w1)" by fastforce
  have "\<not> tenant_exists w1 t" using assms settle_tenants [of t p w] run by (simp add: tenant_exists_def)
  then have count: "count_user_question t u p w1 = (Inl (Integrity_error ''tenants''), w1)"
    by (simp add: count_user_question_def)
  show ?thesis
  proof (cases r1)
    case (Inl err)
    then show ?thesis by (simp add: reserve_question_def db_transaction_def run_simps run)
  next
    case (Inr carry)
    show ?thesis
      by (cases "row_map qt_key (w_question_totals w1) (t, p)")
        (simp_all add: reserve_question_def db_transaction_def run_simps run Inr count Let_def)
  qed
qed

lemma store_ok_reserve_question [preserve]: "preserves store_ok (reserve_question t u p ctx)"
proof (rule preservesI)
  fix w assume ok: "store_ok w"
  show "store_ok (snd (reserve_question t u p ctx w))"
    using ok by (cases "tenant_exists w t")
      (simp_all add: reserve_run used_questions_nonneg store_ok_reserved Let_def reserve_no_tenant)
qed

lemma store_ok_ensure_carryover [preserve]: "preserves store_ok (ensure_addon_carryover_for_period t p)"
  unfolding ensure_addon_carryover_for_period_def by (intro preserve)

end
