(* ===== verification/Hu_Mobile.thy ===== *)
theory Hu_Mobile
  imports Hu_Tax_Id
begin

text \<open>
  \<open>backend/apps/traffic/domain/hu_mobile_phone.py\<close>: Hungarian mobile numbers. Every accepted spelling
  (international with \<open>+36\<close> or \<open>0036\<close>, national with \<open>06\<close>, or the nine local digits, with separators) is
  brought to the form \<open>+36\<close> and nine digits.

  The lemmas show the normal form, that normalising is idempotent, and that all spellings of a number meet.
\<close>

section \<open>The code\<close>

definition mobile_prefixes :: "string list" where
  "mobile_prefixes = [''20'', ''30'', ''31'', ''50'', ''70'']"

definition phone_separator :: "char \<Rightarrow> bool" where
  "phone_separator c \<longleftrightarrow> py_space c \<or> c \<in> set ''./()-''"

definition normalize_hu_mobile :: "string option \<Rightarrow> string" where
  "normalize_hu_mobile v =
     (let raw = filter (\<lambda>c. \<not> phone_separator c) (str_or v '''') in
      if raw = '''' then ''''
      else
        let raw = (if is_prefix ''00'' raw then ''+'' @ drop 2 raw else raw);
            digits = (if is_prefix ''+'' raw then filter is_digit (drop 1 raw)
              else let digits = filter is_digit raw in
                if is_prefix ''06'' digits then ''36'' @ drop 2 digits
                else if is_prefix ''6'' digits \<and> length digits = 10 then ''3'' @ digits
                else if length digits = 9 \<and> take 2 digits \<in> set mobile_prefixes then ''36'' @ digits
                else digits)
        in if \<not> is_prefix ''36'' digits then '''' else ''+'' @ digits)"

definition is_valid_hu_mobile :: "string option \<Rightarrow> bool" where
  "is_valid_hu_mobile v \<longleftrightarrow>
     (let normalized = normalize_hu_mobile v in
      if \<not> (is_prefix ''+36'' normalized \<and> length normalized = 12 \<and> list_all is_digit (drop 3 normalized)) then False
      else take 2 (drop 3 normalized) \<in> set mobile_prefixes)"

text \<open>The two messages: a wrong number of digits, or a prefix that is not a mobile one.\<close>

datatype mobile_error = Wrong_length | Wrong_prefix

definition hu_mobile_validation_error :: "string option \<Rightarrow> mobile_error" where
  "hu_mobile_validation_error v =
     (let digits = filter is_digit (str_or v '''');
          local_len = (if is_prefix ''06'' digits \<or> is_prefix ''36'' digits then length digits - 2
                       else length digits)
      in if local_len \<noteq> 9 then Wrong_length else Wrong_prefix)"

section \<open>Normal form\<close>

lemma is_prefix_iff: "is_prefix p s \<longleftrightarrow> (\<exists>t. s = p @ t)"
  by (induction p s rule: is_prefix.induct) auto

lemma digit_not_separator: "is_digit c \<Longrightarrow> \<not> phone_separator c"
  by (auto simp: is_digit_def phone_separator_def py_space_def Let_def)

lemma filter_digits_id: "list_all is_digit s \<Longrightarrow> filter is_digit s = s"
  by (simp add: list_all_iff filter_id_conv)

lemma filter_separators_id: "list_all is_digit s \<Longrightarrow> filter (\<lambda>c. \<not> phone_separator c) s = s"
  by (auto simp: list_all_iff filter_id_conv digit_not_separator)

lemma plus_not_separator [simp]: "\<not> phone_separator (CHR ''+'')"
  by (simp add: phone_separator_def py_space_def)

lemma plus_not_digit [simp]: "\<not> is_digit (CHR ''+'')"
  by (simp add: is_digit_def)

lemma digit_chars [simp]: "is_digit (CHR ''0'')" "is_digit (CHR ''3'')" "is_digit (CHR ''6'')"
  by (simp_all add: is_digit_def)

lemma digit_not_plus: "is_digit c \<Longrightarrow> c \<noteq> CHR ''+''"
  by (auto simp: is_digit_def)

text \<open>The result is empty or \<open>+36\<close> and digits.\<close>

lemma normalize_form: "normalize_hu_mobile v = '''' \<or> (\<exists>d. normalize_hu_mobile v = ''+36'' @ d \<and> list_all is_digit d)"
proof -
  let ?raw = "filter (\<lambda>c. \<not> phone_separator c) (str_or v '''')"
  let ?raw2 = "if is_prefix ''00'' ?raw then ''+'' @ drop 2 ?raw else ?raw"
  let ?nat = "filter is_digit ?raw2"
  define digits where "digits = (if is_prefix ''+'' ?raw2 then filter is_digit (drop 1 ?raw2)
              else let digits = ?nat in
                if is_prefix ''06'' digits then ''36'' @ drop 2 digits
                else if is_prefix ''6'' digits \<and> length digits = 10 then ''3'' @ digits
                else if length digits = 9 \<and> take 2 digits \<in> set mobile_prefixes then ''36'' @ digits
                else digits)"
  have all: "list_all is_digit digits"
    by (auto simp: digits_def Let_def list_all_iff dest: in_set_dropD)
  have norm: "normalize_hu_mobile v = (if ?raw = '''' then '''' else if \<not> is_prefix ''36'' digits then '''' else ''+'' @ digits)"
    by (simp add: normalize_hu_mobile_def Let_def digits_def)
  show ?thesis
  proof (cases "?raw = '''' \<or> \<not> is_prefix ''36'' digits")
    case True
    then show ?thesis unfolding norm by auto
  next
    case False
    then obtain d where "digits = ''36'' @ d" by (auto simp: is_prefix_iff)
    with False all show ?thesis unfolding norm by auto
  qed
qed

lemma normalize_plus: "list_all is_digit d \<Longrightarrow> normalize_hu_mobile (Some (''+36'' @ d)) = ''+36'' @ d"
  by (simp add: normalize_hu_mobile_def str_or_def filter_separators_id filter_digits_id Let_def digit_not_separator)

lemma normalize_idem: "normalize_hu_mobile (Some (normalize_hu_mobile v)) = normalize_hu_mobile v"
proof -
  have "normalize_hu_mobile (Some '''') = ''''" by (simp add: normalize_hu_mobile_def str_or_def)
  then show ?thesis using normalize_form [of v] normalize_plus by auto
qed

lemma normalize_separators:
  "normalize_hu_mobile (Some s) = normalize_hu_mobile (Some (filter (\<lambda>c. \<not> phone_separator c) s))"
  by (simp add: normalize_hu_mobile_def str_or_def split: if_splits)

lemma valid_form:
  "is_valid_hu_mobile v \<longleftrightarrow> (\<exists>p d. normalize_hu_mobile v = ''+36'' @ p @ d \<and> p \<in> set mobile_prefixes \<and>
     length d = 7 \<and> list_all is_digit (p @ d))"
proof
  assume valid: "is_valid_hu_mobile v"
  let ?n = "normalize_hu_mobile v"
  have n: "is_prefix ''+36'' ?n" "length ?n = 12" "list_all is_digit (drop 3 ?n)"
      "take 2 (drop 3 ?n) \<in> set mobile_prefixes"
    using valid by (auto simp: is_valid_hu_mobile_def Let_def split: if_splits)
  obtain l where l: "?n = ''+36'' @ l" using n(1) unfolding is_prefix_iff by blast
  with n have "length l = 9" "take 2 l \<in> set mobile_prefixes" "list_all is_digit (take 2 l @ drop 2 l)"
    by simp_all
  with l show "\<exists>p d. ?n = ''+36'' @ p @ d \<and> p \<in> set mobile_prefixes \<and> length d = 7 \<and> list_all is_digit (p @ d)"
    by (intro exI [of _ "take 2 l"] exI [of _ "drop 2 l"]) simp
next
  assume "\<exists>p d. normalize_hu_mobile v = ''+36'' @ p @ d \<and> p \<in> set mobile_prefixes \<and>
     length d = 7 \<and> list_all is_digit (p @ d)"
  then show "is_valid_hu_mobile v" by (auto simp: is_valid_hu_mobile_def Let_def mobile_prefixes_def)
qed

lemma valid_idem: "is_valid_hu_mobile (Some (normalize_hu_mobile v)) = is_valid_hu_mobile v"
  by (simp only: valid_form normalize_idem)

lemma mobile_prefix_chars: "p \<in> set mobile_prefixes \<Longrightarrow> \<exists>a b. p = [a, b] \<and> a \<in> set ''2357'' \<and> is_digit b"
  unfolding mobile_prefixes_def list.set by (elim insertE emptyE) (simp_all add: is_digit_def)

lemma spellings_meet:
  assumes "p \<in> set mobile_prefixes" "length d = 7" "list_all is_digit d"
    and "pre \<in> {''+36'', ''0036'', ''36'', ''06'', ''6'', ''''}"
  shows "normalize_hu_mobile (Some (pre @ p @ d)) = ''+36'' @ p @ d"
proof -
  obtain a b where p: "p = [a, b]" and a: "a \<in> set ''2357''" and b: "is_digit b"
    using mobile_prefix_chars [OF assms(1)] by blast
  have digit: "is_digit a" using a unfolding list.set by (elim insertE emptyE) (simp_all add: is_digit_def)
  have ne: "a \<noteq> CHR ''0''" "a \<noteq> CHR ''6''" "a \<noteq> CHR ''+''"
    using a unfolding list.set by (elim insertE emptyE; simp)+
  have known: "[a, b] \<in> set mobile_prefixes" using assms(1) p by simp
  note facts = ne digit b assms(2) filter_separators_id [OF assms(3)] filter_digits_id [OF assms(3)]
    digit_not_separator [OF digit] digit_not_separator [OF b]
  show ?thesis
    using assms(4)
  proof (elim insertE emptyE)
    assume "pre = ''''"
    then show ?thesis using facts known p
      by (simp add: normalize_hu_mobile_def str_or_def Let_def)
  qed (use facts p in \<open>simp_all add: normalize_hu_mobile_def str_or_def Let_def digit_not_separator\<close>)
qed

text \<open>A phone number is stored in one form. Normalising is idempotent and ignores separators; all the
  spellings of a mobile number, with the international or national prefix or none, give the same
  \<open>+36\<close> form, which is accepted; and what is accepted has a mobile prefix and nine digits.\<close>

theorem hu_mobile_spellings:
  "normalize_hu_mobile (Some (normalize_hu_mobile v)) = normalize_hu_mobile v \<and>
   is_valid_hu_mobile (Some (normalize_hu_mobile v)) = is_valid_hu_mobile v \<and>
   (is_valid_hu_mobile v \<longrightarrow> (\<exists>p d. normalize_hu_mobile v = ''+36'' @ p @ d \<and> p \<in> set mobile_prefixes \<and>
      length d = 7 \<and> list_all is_digit (p @ d))) \<and>
   (\<forall>p d s pre. p \<in> set mobile_prefixes \<and> length d = 7 \<and> list_all is_digit d \<and>
      pre \<in> {''+36'', ''0036'', ''36'', ''06'', ''6'', ''''} \<and>
      filter (\<lambda>c. \<not> phone_separator c) s = pre @ p @ d \<longrightarrow>
      normalize_hu_mobile (Some s) = ''+36'' @ p @ d \<and> is_valid_hu_mobile (Some s))"
proof (intro conjI allI impI, goal_cases)
  case 1
  show ?case by (rule normalize_idem)
next
  case 2
  show ?case by (rule valid_idem)
next
  case 3
  then show ?case by (simp only: valid_form)
next
  case (4 p d s pre)
  then show ?case using spellings_meet [of p d pre] normalize_separators [of s] by simp
next
  case (5 p d s pre)
  then have "normalize_hu_mobile (Some s) = ''+36'' @ p @ d"
    using spellings_meet [of p d pre] normalize_separators [of s] by simp
  moreover have "list_all is_digit p"
    using 5 unfolding mobile_prefixes_def list.set by (elim conjE insertE emptyE) (simp_all add: is_digit_def)
  ultimately show ?case unfolding valid_form using 5 by (intro exI [of _ p] exI [of _ d]) simp
qed

lemma hu_mobile_spellings_witness:
  "normalize_hu_mobile (Some ''06 20/123-4567'') = ''+36201234567'' \<and> is_valid_hu_mobile (Some ''06 20/123-4567'')"
proof -
  have "filter (\<lambda>c. \<not> phone_separator c) ''06 20/123-4567'' = ''06'' @ ''20'' @ ''1234567''"
    by code_simp
  moreover have "''20'' \<in> set mobile_prefixes" "list_all is_digit ''1234567''" by code_simp+
  ultimately show ?thesis
    using hu_mobile_spellings [of "Some ''''", THEN conjunct2, THEN conjunct2, THEN conjunct2,
        THEN spec, of "''20''", THEN spec, of "''1234567''", THEN spec, of "''06 20/123-4567''",
        THEN spec, of "''06''"] by simp
qed

end
