(* ===== verification/Traffic_Service.thy ===== *)
theory Traffic_Service
  imports Traffic_Usage_Facts Hu_Mobile
begin

text \<open>
  \<open>backend/apps/traffic/service/TrafficService.py\<close> with \<open>TrafficRepository.py\<close> and
  \<open>TrafficSmsSendRepository.py\<close>: the sending of a message (one question of the quota each) and the
  overview of the traffic page. The service uses the clock of the application (\<open>w_now\<close>), not the simulated
  one of the billing service.

  A catalog row is stored with an integer for every key of \<open>included\<close>; \<open>max_users\<close> is absent for
  unlimited. \<open>percent_used\<close> is rounded on the exact quotient.
\<close>

section \<open>Reads\<close>

definition traffic_period_key :: "world \<Rightarrow> string" where
  "traffic_period_key w = fst (current_month_period (w_now w))"

definition list_traffic_usage :: "world \<Rightarrow> int \<Rightarrow> string \<Rightarrow> question_usage list" where
  "list_traffic_usage w t period_key =
     sort_key (\<lambda>r. (- qu_question_count r, qu_user_id r))
       (filter (\<lambda>r. qu_tenant_id r = t \<and> qu_period_key r = period_key) (w_traffic_usage w))"

definition list_training_addon_invoice_lines :: "world \<Rightarrow> int \<Rightarrow> jdict list" where
  "list_training_addon_invoice_lines w t = concat (map inv_lines (list_training_addon_invoices w t))"

text \<open>\<open>plans.get(plan_code) or plans["free"]\<close>; an empty \<open>included\<close> is falsy.\<close>

definition traffic_plan_included :: "catalog_row list \<Rightarrow> string \<Rightarrow> (string \<times> int) list option" where
  "traffic_plan_included rows code =
     map_option cr_included (find (\<lambda>r. cr_entry_type r = ''plan'' \<and> cr_code r = code) (rev rows))"

definition current_plan :: "subscription option \<Rightarrow> catalog_row list \<Rightarrow> billing_error + (string \<times> int) list" where
  "current_plan subscription rows =
     (let plan_code = str_or (map_option sub_plan_code subscription) ''free'' in
      case traffic_plan_included rows plan_code of
        Some (e # es) \<Rightarrow> Inr (e # es)
      | _ \<Rightarrow> (case traffic_plan_included rows ''free'' of
                None \<Rightarrow> Inl (Key_error ''free'') | Some included \<Rightarrow> Inr included))"

definition subscription_int :: "subscription option \<Rightarrow> (subscription \<Rightarrow> int) \<Rightarrow> int" where
  "subscription_int s col = (case s of None \<Rightarrow> 0 | Some x \<Rightarrow> max 0 (col x))"

definition subscription_signed_int :: "subscription option \<Rightarrow> (subscription \<Rightarrow> int) \<Rightarrow> int" where
  "subscription_signed_int s col = (case s of None \<Rightarrow> 0 | Some x \<Rightarrow> col x)"

definition addon_chars :: "catalog_row list \<Rightarrow> string \<Rightarrow> int" where
  "addon_chars rows code =
     (case find (\<lambda>r. cr_entry_type r = ''addon'' \<and> cr_code r = code) (rev rows) of
        None \<Rightarrow> 1000000
      | Some row \<Rightarrow> (let n = included_int (cr_included row) ''training_chars'' in if n = 0 then 1000000 else n))"

definition traffic_addon_invoice_chars :: "world \<Rightarrow> int \<Rightarrow> catalog_row list \<Rightarrow> int" where
  "traffic_addon_invoice_chars w t rows =
     sum_list (map (\<lambda>line.
        let code = py_strip (jstr_or (jget line ''code'') '''') in
        if code \<notin> {''training_initial_500k'', ''training_extra_500k''} then 0
        else max 0 (addon_chars rows code) * max 1 (jint_or (jget line ''quantity'') 1))
       (list_training_addon_invoice_lines w t))"

definition traffic_available_training_chars ::
  "world \<Rightarrow> int \<Rightarrow> subscription option \<Rightarrow> catalog_row list \<Rightarrow> billing_error + int" where
  "traffic_available_training_chars w t subscription rows =
     rbind (current_plan subscription rows) (\<lambda>plan.
     let included = max 0 (included_int plan ''training_chars'');
         carryover = subscription_int subscription sub_carryover_training_chars;
         invoice_addon_chars = (if t \<noteq> 0 then traffic_addon_invoice_chars w t rows else 0)
     in Inr (max (max included carryover) (included + invoice_addon_chars)))"

definition traffic_build_limits :: "world \<Rightarrow> subscription option \<Rightarrow> catalog_row list \<Rightarrow> billing_error + billing_limits" where
  "traffic_build_limits w subscription rows =
     rbind (current_plan subscription rows) (\<lambda>plan.
     rbind (traffic_available_training_chars w 0 subscription rows) (\<lambda>chars.
     Inr \<lparr>lim_max_users = map_of plan ''max_users'',
          lim_knowledge_bases = included_int plan ''knowledge_bases'' + subscription_int subscription sub_extra_kb_count,
          lim_storage_gb = included_int plan ''storage_gb'' + subscription_int subscription sub_extra_storage_gb,
          lim_questions_monthly = included_int plan ''questions_monthly'',
          lim_addon_questions_carryover = subscription_signed_int subscription sub_carryover_addon_questions,
          lim_training_chars_available = chars, lim_trial_days = included_int plan ''trial_days''\<rparr>))"

section \<open>Summaries\<close>

definition traffic_question_summary ::
  "int \<Rightarrow> string \<Rightarrow> subscription option \<Rightarrow> catalog_row list \<Rightarrow>
   (question_summary \<times> (int \<times> string option \<times> string \<times> int) list) billing" where
  "traffic_question_summary t period_key subscription rows =
     py_bind (py_gets (\<lambda>w. list_traffic_usage w t period_key)) (\<lambda>usage_rows.
     py_bind (py_lift (current_plan subscription rows)) (\<lambda>plan.
     py_bind (\<lambda>w. (case w_schemas w (w_current_schema w) of
                      None \<Rightarrow> Inl (Database_error ''users'')
                    | Some sc \<Rightarrow> Inr (filter (\<lambda>u. \<not> ur_deleted u) (sc_users sc)), w)) (\<lambda>users.
     let used_total = sum_list (map qu_question_count usage_rows);
         by_user = map (\<lambda>row. case find (\<lambda>u. ur_id u = qu_user_id row) users of
            None \<Rightarrow> (qu_user_id row, None, '''', qu_question_count row)
          | Some u \<Rightarrow> (qu_user_id row, ur_name u, ur_email u, qu_question_count row)) usage_rows
     in py_return (quota_summary period_key used_total (included_int plan ''questions_monthly'')
                     (subscription_signed_int subscription sub_carryover_addon_questions), by_user))))"

record traffic_training =
  tt_trained_chars :: int
  tt_remaining :: int
  tt_available :: int
  tt_included :: int
  tt_addon :: int
  tt_storage_bytes :: int
  tt_storage_gb_used_rounded :: int

definition traffic_training_summary ::
  "world \<Rightarrow> int \<Rightarrow> string \<Rightarrow> subscription option \<Rightarrow> catalog_row list \<Rightarrow> billing_error + traffic_training" where
  "traffic_training_summary w t period_key subscription rows =
     (let training = get_training_usage w t period_key;
          (live_bytes, live_chars) = query_tenant_ingest_usage (w_schemas w (w_current_schema w));
          trained_chars = max (case training of None \<Rightarrow> 0 | Some r \<Rightarrow> tu_trained_chars r) live_chars;
          storage_bytes = max (case training of None \<Rightarrow> 0 | Some r \<Rightarrow> tu_storage_bytes r) live_bytes
      in rbind (current_plan subscription rows) (\<lambda>plan.
         let included_chars = max 0 (included_int plan ''training_chars'') in
         rbind (traffic_available_training_chars w t subscription rows) (\<lambda>available_chars.
         Inr \<lparr>tt_trained_chars = trained_chars, tt_remaining = max 0 (available_chars - trained_chars),
              tt_available = available_chars, tt_included = included_chars,
              tt_addon = max 0 (available_chars - included_chars), tt_storage_bytes = storage_bytes,
              tt_storage_gb_used_rounded = round_storage_gb (Some storage_bytes)\<rparr>)))"

record traffic_overview =
  to_period_key :: string
  to_period_start_iso :: string
  to_period_end_iso :: string
  to_catalog :: "catalog_entry_response list"
  to_plan_code :: string
  to_billing_period :: string
  to_status :: string
  to_limits :: billing_limits
  to_resources :: resources
  to_questions :: question_summary
  to_training :: traffic_training
  to_by_user :: "(int \<times> string option \<times> string \<times> int) list"

definition traffic_get_overview :: "tenant_snapshot \<Rightarrow> traffic_overview billing" where
  "traffic_get_overview tenant =
     (let t = ts_tenant_id tenant in
      py_bind (py_gets (\<lambda>w. current_month_period (w_now w))) (\<lambda>(period_key, period_start, period_end, _).
      py_seq (ensure_addon_carryover_for_period t period_key)
     (py_bind (py_gets (\<lambda>w. (repo_list_catalog w, get_subscription w t))) (\<lambda>(rows, subscription).
      py_bind (traffic_question_summary t period_key subscription rows) (\<lambda>(questions, by_user).
      py_bind (\<lambda>w. (traffic_training_summary w t period_key subscription rows, w)) (\<lambda>training.
      py_bind load_resource_counts (\<lambda>resources.
      py_bind (\<lambda>w. (traffic_build_limits w subscription rows, w)) (\<lambda>limits.
      py_return \<lparr>to_period_key = period_key, to_period_start_iso = isoformat (dt_date period_start),
        to_period_end_iso = isoformat (dt_date period_end), to_catalog = catalog_response_from_rows rows,
        to_plan_code = str_or (map_option sub_plan_code subscription) ''free'',
        to_billing_period = str_or (map_option sub_billing_period subscription) ''monthly'',
        to_status = str_or (map_option sub_status subscription) ''trial'',
        to_limits = limits, to_resources = resources, to_questions = questions, to_training = training,
        to_by_user = by_user\<rparr>))))))))"

section \<open>Messages\<close>

definition traffic_reserve_question :: "tenant_snapshot \<Rightarrow> int \<Rightarrow> jdict \<Rightarrow> reservation billing" where
  "traffic_reserve_question tenant user_id ctx =
     py_bind (py_gets traffic_period_key) (\<lambda>period_key.
     reserve_question (ts_tenant_id tenant) user_id period_key ctx)"

definition create_sms_row :: "int \<Rightarrow> int \<Rightarrow> string \<Rightarrow> string \<Rightarrow> datetime \<Rightarrow> string \<Rightarrow> string \<Rightarrow> sms_send billing" where
  "create_sms_row t user recipient_name phone scheduled_at status period_key = (\<lambda>w.
     let row = \<lparr>sm_id = w_next_sms_id w, sm_tenant_id = t, sm_created_by_user_id = user,
           sm_recipient_name = recipient_name, sm_phone = phone, sm_scheduled_at = scheduled_at,
           sm_status = status, sm_period_key = period_key, sm_created_at = w_now w\<rparr> in
     if \<not> tenant_exists w t then (Inl (Integrity_error ''tenants''), w)
     else (Inr row, w\<lparr>w_sms_sends := w_sms_sends w @ [row], w_next_sms_id := w_next_sms_id w + 1\<rparr>))"

definition list_sms_rows :: "world \<Rightarrow> int \<Rightarrow> int \<Rightarrow> sms_send list" where
  "list_sms_rows w t limit =
     take (nat (max 1 (min limit 500)))
       (rev (sort_key (\<lambda>r. (sm_created_at r, sm_id r)) (filter (\<lambda>r. sm_tenant_id r = t) (w_sms_sends w))))"

record sms_list =
  sl_items :: "sms_send list"
  sl_remaining_total :: int
  sl_available_total :: int
  sl_used_total :: int

definition list_sms_sends :: "tenant_snapshot \<Rightarrow> sms_list billing" where
  "list_sms_sends tenant =
     (let t = ts_tenant_id tenant in
      py_bind (py_gets traffic_period_key) (\<lambda>period_key.
      py_seq (ensure_addon_carryover_for_period t period_key)
     (py_bind (py_gets (\<lambda>w. (repo_list_catalog w, get_subscription w t))) (\<lambda>(rows, subscription).
      py_bind (traffic_question_summary t period_key subscription rows) (\<lambda>(usage, _).
      py_bind (py_gets (\<lambda>w. list_sms_rows w t 100)) (\<lambda>items.
      py_return \<lparr>sl_items = items, sl_remaining_total = qs_remaining_total usage,
        sl_available_total = qs_available_total usage, sl_used_total = qs_used_total usage\<rparr>))))))"

definition mobile_error_message :: "mobile_error \<Rightarrow> string" where
  "mobile_error_message e = (case e of
     Wrong_length \<Rightarrow> ''Ervenytelen magyar mobilszam. Formatum: 06 XX XXX XXXX (11 szamjegy), pl. 06201234567.''
   | Wrong_prefix \<Rightarrow> ''Ervenytelen magyar mobilszam. Csak 20/30/31/50/70-es elohivo fogadhato el.'')"

text \<open>\<open>scheduled_at\<close> is the instant after a missing zone was read as UTC, with its ISO form.\<close>

definition create_sms_send ::
  "tenant_snapshot \<Rightarrow> int \<Rightarrow> string \<Rightarrow> string \<Rightarrow> datetime \<Rightarrow> string \<Rightarrow> (sms_send \<times> reservation) billing" where
  "create_sms_send tenant user_id recipient phone_input scheduled_at scheduled_iso =
     (let recipient_name = py_strip recipient in
      if recipient_name = '''' then py_raise (Http_error 422 ''Az ugyfel neve kotelezo.'')
      else if \<not> is_valid_hu_mobile (Some phone_input)
      then py_raise (Http_error 422 (mobile_error_message (hu_mobile_validation_error (Some phone_input))))
      else
        let phone = normalize_hu_mobile (Some phone_input) in
        py_bind (traffic_reserve_question tenant user_id
           [(''source'', JStr ''traffic_sms''), (''phone'', JStr phone),
            (''recipient_name'', JStr recipient_name), (''scheduled_at'', JStr scheduled_iso)]) (\<lambda>reservation.
        if \<not> rv_allowed reservation
        then py_raise (Http_error 409 (str_or (rv_reason reservation) ''Nincs tobb SMS kuldesi keret.''))
        else
          py_bind (create_sms_row (ts_tenant_id tenant) user_id recipient_name phone scheduled_at ''sent''
                     (rv_period_key reservation)) (\<lambda>row.
          py_return (row, reservation))))"

end
