(* ===== verification/Traffic_Service_Facts.thy ===== *)
theory Traffic_Service_Facts
  imports Traffic_Service
begin

text \<open>
  A message is stored exactly when it took one question of the quota, and the quota that the traffic page
  shows is the one that the reservation enforces.
\<close>

section \<open>Sending\<close>

text \<open>A message costs exactly one question. If sending raises, nothing has changed; if it returns,
  the recipient has a name and an accepted mobile number in its normal form, one row has been
  appended for it, the quota was not exhausted and one question more is used, of the user, of the
  tenant and in the event log alike.\<close>

theorem sms_costs_one_question:
  assumes "store_ok w"
  shows "let (r, w') = create_sms_send tenant user recipient phone at_time at_iso w;
             t = ts_tenant_id tenant; p = traffic_period_key w
    in store_ok w' \<and>
       (case r of
          Inl err \<Rightarrow> w' = w
        | Inr (row, rv) \<Rightarrow>
            w_sms_sends w' = w_sms_sends w @ [row] \<and> sm_tenant_id row = t \<and> sm_period_key row = p \<and>
            sm_phone row = normalize_hu_mobile (Some phone) \<and> is_valid_hu_mobile (Some (sm_phone row)) \<and>
            sm_recipient_name row \<noteq> '''' \<and>
            used_questions w t p < available_questions w t p \<and>
            used_questions w' t p = used_questions w t p + 1 \<and> rv_used_total rv = used_questions w' t p)"
proof -
  let ?t = "ts_tenant_id tenant" and ?p = "traffic_period_key w" and ?phone = "normalize_hu_mobile (Some phone)"
  let ?ctx = "[(''source'', JStr ''traffic_sms''), (''phone'', JStr ?phone),
            (''recipient_name'', JStr (py_strip recipient)), (''scheduled_at'', JStr at_iso)]"
  let ?run = "create_sms_send tenant user recipient phone at_time at_iso w"
  show ?thesis
  proof (cases "py_strip recipient = '''' \<or> \<not> is_valid_hu_mobile (Some phone)")
    case True
    then show ?thesis using assms by (auto simp: create_sms_send_def Let_def)
  next
    case ok: False
    obtain r1 w1 where res: "reserve_question ?t user ?p ?ctx w = (r1, w1)" by fastforce
    have run: "?run = (case r1 of Inl e \<Rightarrow> (Inl e, w1)
      | Inr rv \<Rightarrow> if \<not> rv_allowed rv
          then (Inl (Http_error 409 (str_or (rv_reason rv) ''Nincs tobb SMS kuldesi keret.'')), w1)
          else py_bind (create_sms_row ?t user (py_strip recipient) ?phone at_time ''sent'' (rv_period_key rv))
                 (\<lambda>row. py_return (row, rv)) w1)"
      using ok res by (cases r1) (simp_all add: create_sms_send_def Let_def run_simps traffic_reserve_question_def)
    show ?thesis
    proof (cases "tenant_exists w ?t")
      case False
      from reserve_no_tenant [OF this, of user ?p ?ctx] res have "w1 = w" "\<forall>rv. r1 = Inr rv \<longrightarrow> \<not> rv_allowed rv"
        by simp_all
      then show ?thesis using assms unfolding run by (auto split: sum.splits)
    next
      case ten: True
      note rr = reserve_run [OF ten used_questions_nonneg [OF assms], where p = ?p and u = user and ctx = ?ctx,
          unfolded res Let_def]
      show ?thesis
      proof (cases "used_questions w ?t ?p < available_questions w ?t ?p")
        case False
        with rr have "w1 = w" "\<exists>rv. r1 = Inr rv \<and> \<not> rv_allowed rv" by simp_all
        then show ?thesis using assms unfolding run by auto
      next
        case True
        with rr have w1: "w1 = reserved_world w ?t user ?p ?ctx"
          and rv: "\<exists>rv. r1 = Inr rv \<and> rv_allowed rv \<and> rv_period_key rv = ?p \<and> rv_used_total rv = used_questions w ?t ?p + 1"
          by simp_all
        have ok1: "store_ok w1" unfolding w1 using assms ten by (rule store_ok_reserved)
        have ten1: "tenant_exists w1 ?t" using ten by (simp add: w1 tenant_exists_reserved)
        have used: "used_questions w1 ?t ?p = used_questions w ?t ?p + 1"
          by (simp add: w1 used_questions_def reserved_world_total)
        have sms: "w_sms_sends w1 = w_sms_sends w" by (simp add: w1 reserved_world_def settled_world_def Let_def)
        have put: "store_ok (w1\<lparr>w_sms_sends := w_sms_sends w @ [row], w_next_sms_id := n\<rparr>)"
          if "sm_tenant_id row = ?t" for row n
          using ok1 ten1 that unfolding sms [symmetric] by (simp add: store_ok_defs tenant_exists_iff)
        have valid: "is_valid_hu_mobile (Some ?phone)" using ok by (simp add: valid_idem)
        obtain rv where rv: "r1 = Inr rv" "rv_allowed rv" "rv_period_key rv = ?p"
            "rv_used_total rv = used_questions w ?t ?p + 1" using rv by blast
        show ?thesis
          using ok True ten1 used sms valid rv
          by (simp add: run run_simps create_sms_row_def Let_def put)
            (simp add: used_questions_def)
      qed
    qed
  qed
qed

lemma demo_empty_store_ok: "store_ok (demo_world now [] [])"
  by (simp add: store_ok_defs demo_world_def key_ok_def catalog_ok_def demo_tenant_row_def
      demo_key_ok [unfolded key_ok_def])

lemma sms_costs_one_question_witness:
  "store_ok (demo_world 0 [] []) \<and>
   store_ok (snd (create_sms_send demo_snapshot 7 ''Anna'' ''06201234567'' 0 ''1970'' (demo_world 0 [] [])))"
  using sms_costs_one_question [OF demo_empty_store_ok [of 0], of demo_snapshot 7 "''Anna''" "''06201234567''" 0 "''1970''"]
    demo_empty_store_ok [of 0] by (simp add: Let_def split: prod.splits)

section \<open>The quota shown\<close>

lemma find_eqI:
  assumes "\<And>x. x \<in> set xs \<and> P x \<longleftrightarrow> x \<in> set ys \<and> Q x"
    and "\<And>x y. x \<in> set xs \<Longrightarrow> P x \<Longrightarrow> y \<in> set xs \<Longrightarrow> P y \<Longrightarrow> x = y"
  shows "find P xs = find Q ys"
proof (cases "find P xs")
  case None
  then have "find Q ys = None" using assms(1) by (auto simp: find_None_iff_all)
  with None show ?thesis by simp
next
  case (Some x)
  then have x: "x \<in> set xs" "P x" using find_Some_set [OF Some] by auto
  then obtain y where y: "find Q ys = Some y" using assms(1) by (cases "find Q ys") (auto simp: find_None_iff_all)
  then have "y \<in> set xs" "P y" using find_Some_set [OF y] assms(1) by auto
  with x assms(2) have "y = x" by blast
  with Some y show ?thesis by simp
qed

lemma traffic_plan_included_active:
  assumes "store_ok w"
  shows "traffic_plan_included (repo_list_catalog w) code = map_option cr_included (active_plan_row w code)"
proof -
  have key: "key_ok cr_key (w_catalog w)" using assms by (simp add: store_ok_defs catalog_ok_def)
  have "find (\<lambda>r. cr_entry_type r = ''plan'' \<and> cr_code r = code) (rev (repo_list_catalog w)) = active_plan_row w code"
    unfolding active_plan_row_def
    by (rule find_eqI) (use key in \<open>auto simp: repo_list_catalog_def set_list_catalog key_ok_def cr_key_def
        dest: distinct_map_inj\<close>)
  then show ?thesis by (simp add: traffic_plan_included_def)
qed

definition plans_filled :: "world \<Rightarrow> bool" where
  "plans_filled w \<longleftrightarrow> (\<forall>r \<in> set (w_catalog w). cr_entry_type r = ''plan'' \<and> cr_is_active r \<longrightarrow>
     cr_included r \<noteq> [] \<and> 0 \<le> included_int (cr_included r) ''questions_monthly'')"

lemma current_plan_included:
  assumes ok: "store_ok w" and filled: "plans_filled w" and free: "active_plan_row w ''free'' = Some f"
  shows "\<exists>plan. current_plan (get_subscription w t) (repo_list_catalog w) = Inr plan \<and>
    included_int plan ''questions_monthly'' = load_monthly_included w t"
proof -
  have row: "cr_included r \<noteq> [] \<and> 0 \<le> included_int (cr_included r) ''questions_monthly''"
    if "active_plan_row w code = Some r" for code r
    using that filled find_Some_set [of _ "w_catalog w" r] by (auto simp: active_plan_row_def plans_filled_def)
  let ?code = "traffic_plan_code w t"
  have code: "str_or (map_option sub_plan_code (get_subscription w t)) ''free'' = ?code"
    by (simp add: traffic_plan_code_def)
  show ?thesis
  proof (cases "active_plan_row w ?code")
    case None
    then have "?code \<noteq> ''free''" using free by auto
    with None show ?thesis using row [OF free] free
      by (simp add: current_plan_def code Let_def traffic_plan_included_active [OF ok] load_monthly_included_def
          monthly_included_for_plan_def)
  next
    case (Some r)
    obtain e es where inc: "cr_included r = e # es" using row [OF Some] by (cases "cr_included r") auto
    with Some show ?thesis using row [OF Some]
      by (simp add: current_plan_def code Let_def traffic_plan_included_active [OF ok] load_monthly_included_def
          monthly_included_for_plan_def)
  qed
qed

lemma sum_insort_key: "sum_list (map f (insort_key k x xs)) = f x + sum_list (map f xs)" for f :: "'a \<Rightarrow> int"
  by (induction xs) simp_all

lemma sum_sort_key: "sum_list (map f (sort_key k xs)) = sum_list (map f xs)" for f :: "'a \<Rightarrow> int"
  by (induction xs) (simp_all add: sum_insort_key)

lemma sum_traffic_usage:
  "sum_list (map qu_question_count (list_traffic_usage w t p)) = user_count (w_traffic_usage w) t p"
  by (simp add: list_traffic_usage_def user_count_def sum_sort_key)

text \<open>C35: what the page shows is what the reservation grants. With a consistent store, a request schema and a
  catalog whose active plans state their quota, listing the messages settles the period, changes
  nothing else that counts, and shows as remaining exactly the number of further reservations that
  would be granted to the tenant.\<close>

theorem shown_quota_is_enforced:
  assumes ok: "store_ok w" and ten: "tenant_exists w (ts_tenant_id tenant)"
    and filled: "plans_filled w" and free: "active_plan_row w ''free'' = Some f"
    and schema: "w_schemas w (w_current_schema w) = Some sc"
  shows "\<exists>l w'. list_sms_sends tenant w = (Inr l, w') \<and>
    (let t = ts_tenant_id tenant; p = traffic_period_key w in
     sl_used_total l = used_questions w t p \<and> used_questions w' t p = used_questions w t p \<and>
     available_questions w' t p = available_questions w t p \<and>
     sl_remaining_total l = max 0 (available_questions w t p - used_questions w t p) \<and>
     (\<forall>qs. fst (reserve_many t p qs w') =
        replicate (min (length qs) (nat (sl_remaining_total l))) True @
        replicate (length qs - nat (sl_remaining_total l)) False))"
proof -
  let ?t = "ts_tenant_id tenant" and ?p = "traffic_period_key w"
  let ?w = "settled_world w ?t ?p"
  have ok': "store_ok ?w" using ok ten by (rule store_ok_settled)
  have ten': "tenant_exists ?w ?t" using ten by simp
  have free': "active_plan_row ?w ''free'' = Some f" "plans_filled ?w"
    using free filled by (simp_all add: active_plan_row_def plans_filled_def)
  obtain plan where plan: "current_plan (get_subscription ?w ?t) (repo_list_catalog ?w) = Inr plan"
      "included_int plan ''questions_monthly'' = load_monthly_included ?w ?t"
    using current_plan_included [OF ok' free'(2,1)] by blast
  have carry: "subscription_signed_int (get_subscription ?w ?t) sub_carryover_addon_questions = stored_carryover ?w ?t"
    by (simp add: subscription_signed_int_def stored_carryover_def split: option.splits)
  have sch: "w_schemas ?w (w_current_schema ?w) = Some sc" using schema by (simp add: settled_world_def)
  obtain by_user where sum: "traffic_question_summary ?t ?p (get_subscription ?w ?t) (repo_list_catalog ?w) ?w =
      (Inr (quota_summary ?p (user_count (w_traffic_usage w) ?t ?p) (load_monthly_included w ?t)
              (settled_carryover w ?t ?p), by_user), ?w)"
    using plan settled_world_carryover [of w ?t ?p]
    by (simp add: traffic_question_summary_def run_simps sch Let_def sum_traffic_usage carry)
  have used: "user_count (w_traffic_usage w) ?t ?p = used_questions w ?t ?p"
    using ok by (simp add: store_ok_def counts_ok_def used_questions_def)
  let ?u = "quota_summary ?p (used_questions w ?t ?p) (load_monthly_included w ?t) (settled_carryover w ?t ?p)"
  obtain items where run: "list_sms_sends tenant w = (Inr \<lparr>sl_items = items, sl_remaining_total = qs_remaining_total ?u,
        sl_available_total = qs_available_total ?u, sl_used_total = qs_used_total ?u\<rparr>, ?w)"
    by (simp add: list_sms_sends_def Let_def run_simps ensure_addon_carryover_for_period_def
        db_transaction_def settle_run [OF ten] sum [unfolded used])
  have rem: "qs_remaining_total ?u = max 0 (available_questions w ?t ?p - used_questions w ?t ?p)"
    "qs_used_total ?u = used_questions w ?t ?p"
    using used_questions_nonneg [OF ok, of ?t ?p]
    by (simp_all add: quota_summary_def available_questions_def Let_def)
  have stable: "used_questions ?w ?t ?p = used_questions w ?t ?p"
    "available_questions ?w ?t ?p = available_questions w ?t ?p"
    using settled_world_carryover [of w ?t ?p] settled_world_total [of w ?t ?p]
    by (auto simp: used_questions_def available_questions_def settled_carryover_def [of ?w])
  have nats: "nat (max 0 x) = nat x" "n - min n k = n - k" for x :: int and n k :: nat by simp_all
  have "fst (reserve_many ?t ?p qs ?w) =
        replicate (min (length qs) (nat (qs_remaining_total ?u))) True @
        replicate (length qs - nat (qs_remaining_total ?u)) False" for qs
    using quota_filled_exactly [OF ok' ten', of ?p qs] unfolding stable rem Let_def nats
    by (auto split: prod.splits)
  then show ?thesis using run rem stable by (simp add: Let_def)
qed

lemma shown_quota_is_enforced_witness:
  "\<exists>l w'. list_sms_sends demo_snapshot (demo_world 0 [] []) = (Inr l, w') \<and>
     fst (reserve_many 1 (traffic_period_key (demo_world 0 [] [])) [] w') = []"
proof -
  let ?w = "demo_world 0 [] []"
  have ten: "tenant_exists ?w (ts_tenant_id demo_snapshot)"
    by (simp add: tenant_exists_def demo_world_def demo_tenant_row_def demo_snapshot_def)
  have filled: "plans_filled ?w"
    by (simp add: plans_filled_def demo_world_def default_catalog_rows_def included_int_def)
  obtain f where free: "active_plan_row ?w ''free'' = Some f"
    by (simp add: active_plan_row_def demo_world_def default_catalog_rows_def)
  have schema: "w_schemas ?w (w_current_schema ?w) = Some demo_schema" by (simp add: demo_world_def)
  from shown_quota_is_enforced [OF demo_empty_store_ok ten filled free schema] show ?thesis
    by (auto simp: Let_def demo_snapshot_def)
qed

end
