(* ===== verification/Platform_Machine.thy ===== *)
theory Platform_Machine
  imports Billing_Integrity Traffic_Service_Facts
begin

text \<open>
  Billing and message traffic as one state machine. The web process and the billing worker call the services
  on the same tables in any order, each call with what the payment provider and the mail server happen to
  answer; time passes between the calls. Every state that is reached from a fresh installation keeps all
  constraints.
\<close>

section \<open>Steps\<close>

definition after :: "'a billing \<Rightarrow> world \<Rightarrow> world" where
  "after m w = snd (m w)"

inductive platform_step :: "world \<Rightarrow> world \<Rightarrow> bool" where
  tick: "0 \<le> d \<Longrightarrow> platform_step w (w\<lparr>w_now := w_now w + d\<rparr>)"
| seed: "platform_step w (after (repo_seed_catalog default_catalog_rows) w)"
| new_tenant: "\<not> tenant_exists w (tn_id row) \<Longrightarrow> tn_slug row \<notin> tn_slug ` set (w_tenants w) \<Longrightarrow>
    platform_step w (w\<lparr>w_tenants := w_tenants w @ [row]\<rparr>)"
| tenant_context: "platform_step w (w\<lparr>w_current_schema := slug, w_profile := profile\<rparr>)"
| tenant_data: "platform_step w (w\<lparr>w_schemas := schemas\<rparr>)"
| config: "platform_step w (after (create_config t package flags limits) w)"
| signup: "platform_step w (after (set_signup_subscription t slug code p) w)"
| access: "platform_step w (after (get_access_status e tenant) w)"
| preview: "platform_step w (after (get_upgrade_preview tenant code p) w)"
| change: "platform_step w (after (update_subscription e tenant code p) w)"
| checkout: "platform_step w (after (complete_upgrade_after_checkout e tenant code p) w)"
| webhook: "platform_step w (after (process_verified_payment_event prov eid ty payload) w)"
| settle: "platform_step w (after (settle_subscription e tenant) w)"
| addon: "platform_step w (after (purchase_addon e tenant code n) w)"
| create_user_check: "platform_step w (after (can_create_user tenant) w)"
| create_kb_check: "platform_step w (after (can_create_kb tenant) w)"
| question_check: "platform_step w (after (can_consume_question e tenant) w)"
| training_check: "platform_step w (after (can_consume_training_chars tenant n) w)"
| training: "platform_step w (after (record_training_ingest tenant n m) w)"
| question: "platform_step w (after (record_question e tenant u) w)"
| cancel: "platform_step w (after (cancel_subscription tenant code reason by_user) w)"
| restore: "platform_step w (after (restore_subscription_renewal tenant) w)"
| delete: "platform_step w (after (delete_service_access tenant by_user) w)"
| cycles: "platform_step w (after (process_due_cycles e) w)"
| cycle: "platform_step w (after process_cycle w)"
| lifecycle: "platform_step w (after (process_cancellation_lifecycle e) w)"
| retries: "platform_step w (after (retry_failed_payments_daily e) w)"
| simulate: "platform_step w (after (simulate_open_invoice_payments e outcome) w)"
| debug_date: "platform_step w (after (svc_set_debug_simulated_date e day out) w)"
| debug_quota: "platform_step w (after (set_debug_sms_quota t n) w)"
| sms: "platform_step w (after (create_sms_send tenant u name phone scheduled sched_iso) w)"
| sms_list: "platform_step w (after (list_sms_sends tenant) w)"
| reserve: "platform_step w (after (traffic_reserve_question tenant u ctx) w)"
| overview: "platform_step w (after (traffic_get_overview tenant) w)"

inductive_cases platform_stepE: "platform_step w w'"

text \<open>A fresh installation: no rows at all.\<close>

definition fresh_world :: "datetime \<Rightarrow> world" where
  "fresh_world now =
     \<lparr>w_now = now, w_simulated_date = None, w_catalog = [], w_subscriptions = [],
      w_question_usage = [], w_training_usage = [], w_invoices = [], w_next_invoice_id = 1,
      w_cancellations = [], w_next_cancellation_id = 1, w_payment_events = [], w_next_event_id = 1,
      w_debug_state = None, w_tenants = [], w_tenant_configs = [],
      w_question_totals = [], w_traffic_usage = [], w_traffic_events = [], w_sms_sends = [], w_next_sms_id = 1,
      w_schemas = Map.empty, w_current_schema = '''', w_profile = Map.empty,
      w_mails = [], w_charges = []\<rparr>"

section \<open>The constraints are an invariant\<close>

lemma preserves_after: "preserves store_ok m \<Longrightarrow> store_ok w \<Longrightarrow> store_ok (after m w)"
  unfolding after_def by (rule preservesD)

lemma store_ok_context:
  "store_ok (w\<lparr>w_now := n\<rparr>) = store_ok w" "store_ok (w\<lparr>w_schemas := sc\<rparr>) = store_ok w"
  "store_ok (w\<lparr>w_current_schema := slug, w_profile := pr\<rparr>) = store_ok w"
  by (simp_all add: store_ok_defs)

lemma store_ok_new_tenant:
  assumes "store_ok w" "\<not> tenant_exists w (tn_id row)" "tn_slug row \<notin> tn_slug ` set (w_tenants w)"
  shows "store_ok (w\<lparr>w_tenants := w_tenants w @ [row]\<rparr>)"
proof -
  have "tn_id row \<notin> tn_id ` set (w_tenants w)" using assms(2) by (auto simp: tenant_exists_iff tenant_ids_def)
  with assms show ?thesis by (auto simp: store_ok_defs key_ok_def tenant_ids_def)
qed

lemma store_ok_traffic [preserve]:
  "preserves store_ok (traffic_reserve_question tenant u ctx)"
  unfolding traffic_reserve_question_def by (intro preserve)

lemma store_ok_create_sms_row [preserve]: "preserves store_ok (create_sms_row t u name phone sched st p)"
  by (rule preservesI) (auto simp: create_sms_row_def Let_def store_ok_defs tenant_exists_iff)

lemma store_ok_create_sms_send [preserve]: "preserves store_ok (create_sms_send tenant u name phone sched sched_iso)"
  unfolding create_sms_send_def by (intro preserve)

lemma traffic_summary_reads [reads]: "reads_only (traffic_question_summary t p sub rows)"
  unfolding traffic_question_summary_def by (intro reads) (simp add: reads_only_def)

lemma reads_result [reads]: "reads_only (\<lambda>w. (f w, w))"
  by (simp add: reads_only_def)

lemma store_ok_list_sms [preserve]: "preserves store_ok (list_sms_sends tenant)"
  unfolding list_sms_sends_def Let_def by (intro preserve reads_only_preserves [of "traffic_question_summary _ _ _ _"] reads)

lemma store_ok_traffic_overview [preserve]: "preserves store_ok (traffic_get_overview tenant)"
  unfolding traffic_get_overview_def Let_def
  by (intro preserve reads_only_preserves [of "traffic_question_summary _ _ _ _"]
      reads_only_preserves [of "\<lambda>w. (f w, w)" for f] reads)

lemma store_ok_platform_step: "platform_step w w' \<Longrightarrow> store_ok w \<Longrightarrow> store_ok w'"
  by (erule platform_stepE)
    (auto simp: store_ok_context intro: store_ok_new_tenant elim!: preserves_after [rotated] intro!: preserve)

lemma reachable_store_ok: "platform_step\<^sup>*\<^sup>* w w' \<Longrightarrow> store_ok w \<Longrightarrow> store_ok w'"
  by (induction rule: rtranclp_induct) (auto intro: store_ok_platform_step)

lemma fresh_store_ok: "store_ok (fresh_world now)"
  by (simp add: store_ok_defs fresh_world_def total_count_def user_count_def event_count_def row_map_def
      key_ok_def catalog_ok_def)

text \<open>C1: the data of the platform stays consistent. Whatever calls the web process and the billing worker make,
  in any order, with any answers of the payment provider and the mail server, whether they return or
  raise: every reachable state has at most one subscription per tenant, at most one invoice per tenant,
  type and period, at most one record per payment event, no row of a tenant that does not exist, and in
  each period as many messages counted for a tenant as its users have sent and its log records.\<close>

theorem reachable_data_consistent:
  assumes "platform_step\<^sup>*\<^sup>* (fresh_world now) w"
  shows "store_ok w \<and> distinct (map sub_tenant_id (w_subscriptions w)) \<and>
    distinct (map (\<lambda>i. (inv_tenant_id i, inv_type i, inv_period_key i)) (w_invoices w)) \<and>
    distinct (map pe_key (w_payment_events w)) \<and>
    sub_tenant_id ` set (w_subscriptions w) \<union> inv_tenant_id ` set (w_invoices w) \<union>
      sm_tenant_id ` set (w_sms_sends w) \<subseteq> tn_id ` set (w_tenants w) \<and>
    (\<forall>t period. user_count (w_traffic_usage w) t period = total_count (w_question_totals w) t period \<and>
       event_count (w_traffic_events w) t period = total_count (w_question_totals w) t period)"
proof -
  have ok: "store_ok w" using assms fresh_store_ok by (rule reachable_store_ok)
  then have "key_ok inv_key (w_invoices w)" by (simp add: store_ok_def unique_ok_def)
  moreover have "inv_key = (\<lambda>i. (inv_tenant_id i, inv_type i, inv_period_key i))" by (simp add: fun_eq_iff inv_key_def)
  ultimately show ?thesis using ok
    by (auto simp: store_ok_def unique_ok_def references_ok_def counts_ok_def key_ok_def tenant_ids_def)
qed

lemma reachable_data_consistent_witness:
  "\<exists>w. platform_step\<^sup>*\<^sup>* (fresh_world 0) w \<and> w_tenants w = [demo_tenant_row] \<and> store_ok w"
proof -
  let ?w = "(fresh_world 0)\<lparr>w_tenants := [demo_tenant_row]\<rparr>"
  have "platform_step (fresh_world 0) ((fresh_world 0)\<lparr>w_tenants := w_tenants (fresh_world 0) @ [demo_tenant_row]\<rparr>)"
    by (rule new_tenant) (simp_all add: fresh_world_def tenant_exists_iff tenant_ids_def)
  then have "platform_step\<^sup>*\<^sup>* (fresh_world 0) ?w" by (simp add: fresh_world_def r_into_rtranclp)
  with reachable_data_consistent [OF this] show ?thesis by auto
qed

end
