(* ===== verification/Auth_Store.thy ===== *)
theory Auth_Store
  imports Table_Spec Py_Calendar
begin

text \<open>
  The state of authentication in one tenant schema and its repositories
  (\<open>backend/core/modules/auth/repository/\<close> and \<open>users/repository/persistence/user_repository.py\<close>): users, refresh
  sessions, pending second factors, emailed codes, attempt counters, authenticators and invitations.

  \<open>auth_db\<close> is what the surrounding transaction of a use case rolls back when an exception leaves it
  (\<open>kernel/db/session.py\<close> turns the commits of the repositories into flushes of one session); the clock, the
  sequences, the random values already drawn and the mails already sent by SMTP are outside.
\<close>

section \<open>Tables\<close>

record auth_user =
  au_id :: int
  au_email :: string
  au_password_hash :: string
  au_is_active :: bool
  au_role :: string
  au_failed_login_attempts :: int
  au_security_version :: int
  au_deleted :: bool
  au_created_at :: datetime
  au_name :: "string option"
  au_registration_completed_at :: "datetime option"
  au_preferred_locale :: "string option"
  au_preferred_theme :: "string option"
  au_credentials_password_set :: bool
  au_pending_email :: "string option"
  au_pending_email_token_hash :: "string option"
  au_pending_email_expires_at :: "datetime option"

record invite_token =
  iv_id :: int
  iv_user_id :: int
  iv_token_hash :: string
  iv_expires_at :: datetime
  iv_used_at :: "datetime option"

record session =
  ss_id :: int
  ss_user_id :: int
  ss_jti :: string
  ss_token_hash :: string
  ss_valid :: bool
  ss_ip :: "string option"
  ss_user_agent :: "string option"
  ss_expires_at :: datetime

record pending_2fa =
  p2_token :: string
  p2_user_id :: int
  p2_expires_at :: datetime

record two_factor_code =
  tf_id :: int
  tf_user_id :: int
  tf_code_hash :: string
  tf_email :: string
  tf_expires_at :: datetime
  tf_used :: bool

record two_factor_attempt =
  ta_scope :: string
  ta_scope_key :: string
  ta_attempts :: int
  ta_window_start_at :: datetime

record user_authenticator =
  ua_user_id :: int
  ua_secret_base32 :: "string option"
  ua_is_enabled :: bool
  ua_pending_secret_base32 :: "string option"
  ua_pending_expires_at :: "datetime option"

text \<open>An emailed code: address, code and pending token.\<close>

type_synonym code_mail = "string \<times> string \<times> string option"

record auth_db =
  ad_users :: "auth_user list"
  ad_sessions :: "session list"
  ad_pending :: "pending_2fa list"
  ad_codes :: "two_factor_code list"
  ad_attempts :: "two_factor_attempt list"
  ad_authenticators :: "user_authenticator list"
  ad_queued_mails :: "code_mail list"
  ad_invites :: "invite_token list"

text \<open>
  Kept outside the database: the allowlist of access tokens in Redis (a set per key with the moment the key
  expires) and in the memory of the process, and the cache of users.
\<close>

record web_state =
  wb_allow_redis :: "(string \<times> string list \<times> datetime) list"
  wb_allow_memory :: "((string option \<times> int) \<times> string list) list"
  wb_user_cache :: "(string \<times> auth_user \<times> datetime) list"

text \<open>A mail with a link: the address, the link and the language.\<close>

datatype link_mail =
    Set_password_mail string string "string option"
  | Email_change_mail string string "string option"
  | Demo_password_mail string string "string option"
  | Confirm_signup_mail string string "string option"

record auth_state =
  as_db :: auth_db
  as_now :: datetime
  as_drawn :: nat
  as_next_session :: int
  as_next_code :: int
  as_sent_mails :: "code_mail list"
  as_permissions_changed :: "((string \<times> int) \<times> datetime) list"
  as_next_user :: int
  as_next_invite :: int
  as_sent_links :: "link_mail list"
  as_web :: web_state

datatype auth_error = Too_many_attempts | Email_error | Token_error string | Auth_value_error string
  | Auth_integrity_error string | Invite_token_invalid | Invite_token_expired | Allowlist_unavailable
  | Auth_http_error int string

type_synonym 'a auth_op = "(auth_state, auth_error, 'a) py"

definition get_db :: "(auth_db \<Rightarrow> 'a) \<Rightarrow> 'a auth_op" where
  "get_db f = py_gets (\<lambda>s. f (as_db s))"

definition set_db :: "(auth_db \<Rightarrow> auth_db) \<Rightarrow> unit auth_op" where
  "set_db f = py_modify (\<lambda>s. s\<lparr>as_db := f (as_db s)\<rparr>)"

text \<open>\<open>with self._transaction()\<close>.\<close>

definition transaction :: "'a auth_op \<Rightarrow> 'a auth_op" where
  "transaction m = (\<lambda>s. case m s of
       (Inl e, s') \<Rightarrow> (Inl e, s'\<lparr>as_db := as_db s\<rparr>)
     | (Inr x, s') \<Rightarrow> (Inr x, s'))"

section \<open>Users\<close>

definition live_user :: "auth_db \<Rightarrow> int \<Rightarrow> auth_user option" where
  "live_user db i = find (\<lambda>u. au_id u = i \<and> \<not> au_deleted u) (ad_users db)"

definition user_by_email :: "auth_db \<Rightarrow> string \<Rightarrow> auth_user option" where
  "user_by_email db email =
     (let normalized_email = py_lower (py_strip email) in
      find (\<lambda>u. py_lower (au_email u) = normalized_email \<and> \<not> au_deleted u) (ad_users db))"

definition update_users :: "int \<Rightarrow> (auth_user \<Rightarrow> auth_user) \<Rightarrow> unit auth_op" where
  "update_users i f = set_db (\<lambda>db. db\<lparr>ad_users := update_where (\<lambda>u. au_id u = i) f (ad_users db)\<rparr>)"

definition increment_security_version :: "int \<Rightarrow> unit auth_op" where
  "increment_security_version i = update_users i (\<lambda>u. u\<lparr>au_security_version := au_security_version u + 1\<rparr>)"

text \<open>\<open>LoginSecurityPolicy.evaluate_failed_login\<close>: the new counter and whether to lock.\<close>

definition evaluate_failed_login :: "auth_user \<Rightarrow> int \<times> bool" where
  "evaluate_failed_login u =
     (let new_count = au_failed_login_attempts u + 1;
          should_lock = (new_count \<ge> 5 \<and> au_role u \<noteq> ''owner'')
      in (if should_lock then 0 else new_count, should_lock))"

definition record_failed_login :: "int \<Rightarrow> unit auth_op" where
  "record_failed_login i =
     py_bind (get_db (\<lambda>db. live_user db i)) (\<lambda>user.
     case user of
       None \<Rightarrow> py_return ()
     | Some u \<Rightarrow> (case evaluate_failed_login u of (n, lock) \<Rightarrow>
         update_users i (\<lambda>u. u\<lparr>au_failed_login_attempts := n, au_is_active := au_is_active u \<and> \<not> lock\<rparr>)))"

definition reset_failed_login :: "int \<Rightarrow> unit auth_op" where
  "reset_failed_login i =
     py_bind (get_db (\<lambda>db. live_user db i)) (\<lambda>user.
     case user of
       None \<Rightarrow> py_return ()
     | Some u \<Rightarrow> update_users i (\<lambda>u. u\<lparr>au_failed_login_attempts := 0\<rparr>))"

section \<open>Sessions\<close>

definition session_by_jti :: "auth_db \<Rightarrow> string \<Rightarrow> session option" where
  "session_by_jti db jti = find (\<lambda>s. ss_jti s = jti) (ad_sessions db)"

definition invalidate_session :: "session \<Rightarrow> session" where
  "invalidate_session s = s\<lparr>ss_valid := False\<rparr>"

definition is_expired_session :: "datetime \<Rightarrow> session \<Rightarrow> bool" where
  "is_expired_session now s \<longleftrightarrow> ss_expires_at s \<le> now"

definition create_session :: "int \<Rightarrow> string \<Rightarrow> string \<Rightarrow> datetime \<Rightarrow> string option \<Rightarrow> string option \<Rightarrow> unit auth_op" where
  "create_session user jti token_hash expires_at ip user_agent = py_modify (\<lambda>s.
     let row = \<lparr>ss_id = as_next_session s, ss_user_id = user, ss_jti = jti, ss_token_hash = token_hash,
           ss_valid = True, ss_ip = ip, ss_user_agent = user_agent, ss_expires_at = expires_at\<rparr>
     in s\<lparr>as_next_session := as_next_session s + 1,
          as_db := (as_db s)\<lparr>ad_sessions := ad_sessions (as_db s) @ [row]\<rparr>\<rparr>)"

definition invalidate_all_for_user :: "int \<Rightarrow> unit auth_op" where
  "invalidate_all_for_user user = set_db (\<lambda>db. db\<lparr>ad_sessions :=
     update_where (\<lambda>s. ss_user_id s = user \<and> ss_valid s) invalidate_session (ad_sessions db)\<rparr>)"

definition invalidate_by_hash :: "string \<Rightarrow> unit auth_op" where
  "invalidate_by_hash token_hash = set_db (\<lambda>db. db\<lparr>ad_sessions :=
     update_where (\<lambda>s. ss_token_hash s = token_hash \<and> ss_valid s) invalidate_session (ad_sessions db)\<rparr>)"

definition invalidate_by_jti :: "string \<Rightarrow> unit auth_op" where
  "invalidate_by_jti jti = set_db (\<lambda>db. db\<lparr>ad_sessions :=
     update_where (\<lambda>s. ss_jti s = jti) invalidate_session (ad_sessions db)\<rparr>)"

definition update_session :: "session \<Rightarrow> unit auth_op" where
  "update_session t = set_db (\<lambda>db. db\<lparr>ad_sessions := update_where (\<lambda>s. ss_id s = ss_id t)
     (\<lambda>s. s\<lparr>ss_valid := ss_valid t, ss_expires_at := ss_expires_at t, ss_ip := ss_ip t,
            ss_user_agent := ss_user_agent t\<rparr>) (ad_sessions db)\<rparr>)"

section \<open>Pending second factors\<close>

definition create_pending :: "string \<Rightarrow> int \<Rightarrow> datetime \<Rightarrow> unit auth_op" where
  "create_pending token user expires_at = set_db (\<lambda>db. db\<lparr>ad_pending := ad_pending db @
     [\<lparr>p2_token = token, p2_user_id = user, p2_expires_at = expires_at\<rparr>]\<rparr>)"

definition pending_user_id :: "auth_db \<Rightarrow> datetime \<Rightarrow> string \<Rightarrow> int option" where
  "pending_user_id db now token =
     map_option p2_user_id (find (\<lambda>p. p2_token p = token \<and> now < p2_expires_at p) (ad_pending db))"

definition consume_pending :: "string \<Rightarrow> unit auth_op" where
  "consume_pending token = set_db (\<lambda>db. db\<lparr>ad_pending := filter (\<lambda>p. p2_token p \<noteq> token) (ad_pending db)\<rparr>)"

section \<open>Emailed codes\<close>

definition create_code :: "int \<Rightarrow> string \<Rightarrow> string \<Rightarrow> datetime \<Rightarrow> unit auth_op" where
  "create_code user code_hash email expires_at = py_modify (\<lambda>s.
     let row = \<lparr>tf_id = as_next_code s, tf_user_id = user, tf_code_hash = code_hash, tf_email = email,
           tf_expires_at = expires_at, tf_used = False\<rparr>
     in s\<lparr>as_next_code := as_next_code s + 1,
          as_db := (as_db s)\<lparr>ad_codes := ad_codes (as_db s) @ [row]\<rparr>\<rparr>)"

definition get_valid_code :: "auth_db \<Rightarrow> datetime \<Rightarrow> int \<Rightarrow> string \<Rightarrow> two_factor_code option" where
  "get_valid_code db now user code_hash =
     find (\<lambda>c. tf_user_id c = user \<and> tf_code_hash c = code_hash \<and> \<not> tf_used c \<and> now < tf_expires_at c) (ad_codes db)"

definition invalidate_user_codes :: "int \<Rightarrow> unit auth_op" where
  "invalidate_user_codes user = set_db (\<lambda>db. db\<lparr>ad_codes :=
     update_where (\<lambda>c. tf_user_id c = user \<and> \<not> tf_used c) (\<lambda>c. c\<lparr>tf_used := True\<rparr>) (ad_codes db)\<rparr>)"

definition mark_code_used :: "int \<Rightarrow> unit auth_op" where
  "mark_code_used i = set_db (\<lambda>db. db\<lparr>ad_codes :=
     update_where (\<lambda>c. tf_id c = i) (\<lambda>c. c\<lparr>tf_used := True\<rparr>) (ad_codes db)\<rparr>)"

section \<open>Attempt counters\<close>

definition attempt_key :: "two_factor_attempt \<Rightarrow> string \<times> string" where
  "attempt_key a = (ta_scope a, ta_scope_key a)"

definition attempt_row :: "auth_db \<Rightarrow> string \<Rightarrow> string \<Rightarrow> two_factor_attempt option" where
  "attempt_row db scope key = row_map attempt_key (ad_attempts db) (scope, key)"

definition is_blocked :: "auth_db \<Rightarrow> datetime \<Rightarrow> string \<Rightarrow> string \<Rightarrow> int \<Rightarrow> int \<Rightarrow> bool" where
  "is_blocked db now scope key max_attempts window_minutes =
     (case attempt_row db scope key of
        None \<Rightarrow> False
      | Some row \<Rightarrow>
          if now - ta_window_start_at row > minutes window_minutes then False
          else ta_attempts row \<ge> max_attempts)"

definition get_or_create_attempt :: "auth_db \<Rightarrow> datetime \<Rightarrow> string \<Rightarrow> string \<Rightarrow> int \<Rightarrow> two_factor_attempt" where
  "get_or_create_attempt db now scope key window_minutes =
     (case attempt_row db scope key of
        None \<Rightarrow> \<lparr>ta_scope = scope, ta_scope_key = key, ta_attempts = 0, ta_window_start_at = now\<rparr>
      | Some row \<Rightarrow>
          if now - ta_window_start_at row > minutes window_minutes
          then row\<lparr>ta_attempts := 0, ta_window_start_at := now\<rparr> else row)"

definition record_failed :: "string \<Rightarrow> string \<Rightarrow> int \<Rightarrow> unit auth_op" where
  "record_failed scope key window_minutes = py_modify (\<lambda>s.
     let row = get_or_create_attempt (as_db s) (as_now s) scope key window_minutes
     in s\<lparr>as_db := (as_db s)\<lparr>ad_attempts :=
          upsert_row attempt_key (row\<lparr>ta_attempts := ta_attempts row + 1\<rparr>) (ad_attempts (as_db s))\<rparr>\<rparr>)"

definition reset_for_success :: "string \<Rightarrow> int \<Rightarrow> string option \<Rightarrow> unit auth_op" where
  "reset_for_success pending_token_key user ip = set_db (\<lambda>db. db\<lparr>ad_attempts :=
     filter (\<lambda>a. attempt_key a \<noteq> (''token'', pending_token_key) \<and> attempt_key a \<noteq> (''user'', str_of_int user) \<and>
         (case ip of None \<Rightarrow> True | Some x \<Rightarrow> x = '''' \<or> attempt_key a \<noteq> (''ip'', x))) (ad_attempts db)\<rparr>)"

section \<open>Authenticators\<close>

definition authenticator_of :: "auth_db \<Rightarrow> int \<Rightarrow> user_authenticator option" where
  "authenticator_of db user = row_map ua_user_id (ad_authenticators db) user"

definition put_authenticator :: "user_authenticator \<Rightarrow> auth_db \<Rightarrow> auth_db" where
  "put_authenticator row db = db\<lparr>ad_authenticators := upsert_row ua_user_id row (ad_authenticators db)\<rparr>"

definition upsert_pending_secret :: "int \<Rightarrow> string \<Rightarrow> datetime \<Rightarrow> unit auth_op" where
  "upsert_pending_secret user secret expires_at = set_db (\<lambda>db.
     put_authenticator (case authenticator_of db user of
         None \<Rightarrow> \<lparr>ua_user_id = user, ua_secret_base32 = None, ua_is_enabled = False,
                  ua_pending_secret_base32 = Some secret, ua_pending_expires_at = Some expires_at\<rparr>
       | Some row \<Rightarrow> row\<lparr>ua_pending_secret_base32 := Some secret, ua_pending_expires_at := Some expires_at\<rparr>) db)"

definition enable_secret :: "int \<Rightarrow> string \<Rightarrow> unit auth_op" where
  "enable_secret user secret = set_db (\<lambda>db. put_authenticator
     \<lparr>ua_user_id = user, ua_secret_base32 = Some secret, ua_is_enabled = True,
      ua_pending_secret_base32 = None, ua_pending_expires_at = None\<rparr> db)"

definition disable_authenticator_row :: "int \<Rightarrow> unit auth_op" where
  "disable_authenticator_row user = set_db (\<lambda>db. case authenticator_of db user of
       None \<Rightarrow> db
     | Some row \<Rightarrow> put_authenticator
         \<lparr>ua_user_id = user, ua_secret_base32 = None, ua_is_enabled = False,
          ua_pending_secret_base32 = None, ua_pending_expires_at = None\<rparr> db)"

definition get_enabled_secret :: "auth_db \<Rightarrow> int \<Rightarrow> string option" where
  "get_enabled_secret db user =
     (case authenticator_of db user of
        None \<Rightarrow> None
      | Some row \<Rightarrow> if ua_is_enabled row then strip_opt (ua_secret_base32 row) else None)"

definition get_pending_secret :: "auth_db \<Rightarrow> datetime \<Rightarrow> int \<Rightarrow> string option" where
  "get_pending_secret db now user =
     (case authenticator_of db user of
        None \<Rightarrow> None
      | Some row \<Rightarrow>
          if ua_pending_secret_base32 row \<in> {None, Some ''''} then None
          else (case ua_pending_expires_at row of
                  None \<Rightarrow> None
                | Some t \<Rightarrow> if t \<le> now then None else ua_pending_secret_base32 row))"

section \<open>Changed permissions\<close>

text \<open>\<open>permissions_changed_store\<close>: a flag that lives two minutes.\<close>

definition permissions_key :: "string option \<Rightarrow> int \<Rightarrow> string \<times> int" where
  "permissions_key slug user = (py_strip (str_or slug ''''), user)"

definition permissions_changed_set :: "string option \<Rightarrow> int \<Rightarrow> unit auth_op" where
  "permissions_changed_set slug user = py_modify (\<lambda>s. s\<lparr>as_permissions_changed :=
     (permissions_key slug user, as_now s + seconds 120) #
       filter (\<lambda>e. fst e \<noteq> permissions_key slug user) (as_permissions_changed s)\<rparr>)"

definition permissions_changed_get :: "auth_state \<Rightarrow> string option \<Rightarrow> int \<Rightarrow> bool" where
  "permissions_changed_get s slug user =
     (case map_of (as_permissions_changed s) (permissions_key slug user) of
        None \<Rightarrow> False | Some expiry \<Rightarrow> as_now s < expiry)"

end
