(* ===== verification/Auth_Tokens.thy ===== *)
theory Auth_Tokens
  imports Auth_Store "HOL-Library.Word"
begin

text \<open>
  \<open>service/token_service.py\<close> and the one-time passwords of \<open>use_cases/login_service.py\<close>. \<open>jwt.encode\<close>,
  \<open>jwt.decode\<close>, the password hash, SHA-256, HMAC-SHA1 and the random sources are fields of \<open>auth_env\<close>; the
  decoding of base 32, the counter bytes and the truncation of RFC 4226 are bytes and words.
\<close>

unbundle bit_operations_syntax

section \<open>Claims and the environment\<close>

text \<open>A payload as \<open>payload.get\<close> reads it: an absent version counts as 0, an absent \<open>al\<close> as false.\<close>

record claims =
  cl_sub :: "string option"
  cl_typ :: "string option"
  cl_jti :: "string option"
  cl_user_ver :: int
  cl_tenant_ver :: int
  cl_role :: "string option"
  cl_al :: bool
  cl_exp :: datetime
  cl_iat :: datetime
  cl_nbf :: datetime
  cl_iss :: "string option"
  cl_aud :: "string option"

datatype jwt_error = Expired_signature | Invalid_signature | Decode_error | Invalid_issuer | Invalid_audience
  | Other_invalid string

record token_service =
  tk_issuer :: "string option"
  tk_audience :: "string option"
  tk_access_exp :: int
  tk_refresh_exp :: int
  tk_refresh_session_exp :: "int option"

text \<open>\<open>ax_event_channel\<close>: \<open>None\<close> without a channel, otherwise whether it accepts the event; \<open>ax_send_mail\<close>:
  \<open>None\<close> when sending raises, otherwise its result.\<close>

record auth_env =
  ax_tokens :: token_service
  ax_uuid :: "nat \<Rightarrow> string"
  ax_randbelow :: "nat \<Rightarrow> nat"
  ax_random_bytes :: "nat \<Rightarrow> 8 word list"
  ax_sha256 :: "string \<Rightarrow> string"
  ax_jwt_encode :: "claims \<Rightarrow> string"
  ax_jwt_decode :: "bool \<Rightarrow> datetime \<Rightarrow> string \<Rightarrow> jwt_error + claims"
  ax_verify_password :: "string \<Rightarrow> string \<Rightarrow> bool"
  ax_hmac_sha1 :: "8 word list \<Rightarrow> 8 word list \<Rightarrow> 8 word list"
  ax_two_factor_enabled :: bool
  ax_max_attempts :: int
  ax_attempt_window_minutes :: int
  ax_code_expiry_minutes :: int
  ax_event_channel :: "bool option"
  ax_send_mail :: "code_mail \<Rightarrow> bool option"
  ax_token_urlsafe :: "nat \<Rightarrow> string"
  ax_token_hex :: "nat \<Rightarrow> string"
  ax_hash_password :: "nat \<Rightarrow> string \<Rightarrow> string"
  ax_email_service :: bool
  ax_invite_ttl_hours :: int
  ax_set_password_path :: "string option"
  ax_password_level :: "string option"

text \<open>One more value of a random source.\<close>

definition draw :: "(nat \<Rightarrow> 'a) \<Rightarrow> 'a auth_op" where
  "draw source = (\<lambda>s. (Inr (source (as_drawn s)), s\<lparr>as_drawn := as_drawn s + 1\<rparr>))"

section \<open>Tokens\<close>

definition refresh_session_exp :: "token_service \<Rightarrow> int" where
  "refresh_session_exp tk =
     (case tk_refresh_session_exp tk of None \<Rightarrow> max 60 (tk_refresh_exp tk) | Some m \<Rightarrow> m)"

definition hash_token :: "auth_env \<Rightarrow> string \<Rightarrow> string" where
  "hash_token e token = ax_sha256 e token"

definition make_access :: "auth_env \<Rightarrow> int \<Rightarrow> int \<Rightarrow> int \<Rightarrow> string \<Rightarrow> (string \<times> string) auth_op" where
  "make_access e user user_ver tenant_ver role =
     py_bind (py_gets as_now) (\<lambda>now.
     py_bind (draw (ax_uuid e)) (\<lambda>jti.
     py_return (ax_jwt_encode e
       \<lparr>cl_sub = Some (str_of_int user), cl_typ = Some ''access'', cl_jti = Some jti, cl_user_ver = user_ver,
        cl_tenant_ver = tenant_ver, cl_role = Some role, cl_al = False,
        cl_exp = now + minutes (tk_access_exp (ax_tokens e)), cl_iat = now, cl_nbf = now,
        cl_iss = tk_issuer (ax_tokens e), cl_aud = tk_audience (ax_tokens e)\<rparr>, jti)))"

definition refresh_claims :: "auth_env \<Rightarrow> datetime \<Rightarrow> string \<Rightarrow> int \<Rightarrow> bool \<Rightarrow> int \<Rightarrow> int \<Rightarrow> claims" where
  "refresh_claims e now jti user auto_login user_ver tenant_ver =
     \<lparr>cl_sub = Some (str_of_int user), cl_typ = Some ''refresh'', cl_jti = Some jti, cl_user_ver = user_ver,
      cl_tenant_ver = tenant_ver, cl_role = None, cl_al = auto_login,
      cl_exp = now + minutes (if auto_login then tk_refresh_exp (ax_tokens e) else refresh_session_exp (ax_tokens e)),
      cl_iat = now, cl_nbf = now, cl_iss = tk_issuer (ax_tokens e), cl_aud = tk_audience (ax_tokens e)\<rparr>"

definition make_refresh_pair :: "auth_env \<Rightarrow> int \<Rightarrow> bool \<Rightarrow> int \<Rightarrow> int \<Rightarrow> (string \<times> claims) auth_op" where
  "make_refresh_pair e user auto_login user_ver tenant_ver =
     py_bind (py_gets as_now) (\<lambda>now.
     py_bind (draw (ax_uuid e)) (\<lambda>jti.
     let payload = refresh_claims e now jti user auto_login user_ver tenant_ver in
     py_return (ax_jwt_encode e payload, payload)))"

definition verify :: "auth_env \<Rightarrow> datetime \<Rightarrow> string \<Rightarrow> jwt_error + claims" where
  "verify e now token = ax_jwt_decode e True now token"

definition decode_ignore_exp :: "auth_env \<Rightarrow> datetime \<Rightarrow> string \<Rightarrow> jwt_error + claims option" where
  "decode_ignore_exp e now token =
     (case ax_jwt_decode e False now token of
        Inr c \<Rightarrow> Inr (Some c)
      | Inl x \<Rightarrow> if x \<in> {Invalid_signature, Decode_error, Invalid_issuer, Invalid_audience} then Inr None else Inl x)"

section \<open>One-time passwords\<close>

definition ascii_alnum :: "char \<Rightarrow> bool" where
  "ascii_alnum c \<longleftrightarrow> (let n = of_char c :: nat in (48 \<le> n \<and> n \<le> 57) \<or> (65 \<le> n \<and> n \<le> 90) \<or> (97 \<le> n \<and> n \<le> 122))"

definition upper_char :: "char \<Rightarrow> char" where
  "upper_char c = (let n = of_char c :: nat in if 97 \<le> n \<and> n \<le> 122 then char_of (n - 32) else c)"

definition sanitize_totp_secret :: "string \<Rightarrow> string" where
  "sanitize_totp_secret secret = filter ascii_alnum (map upper_char secret)"

text \<open>\<open>base64.b32decode\<close> of a text without padding characters; \<open>None\<close> is \<open>binascii.Error\<close>.\<close>

definition b32_value :: "char \<Rightarrow> nat option" where
  "b32_value c = (let n = of_char c :: nat in
     if 65 \<le> n \<and> n \<le> 90 then Some (n - 65) else if 50 \<le> n \<and> n \<le> 55 then Some (n - 24) else None)"

definition bytes_of_nat :: "nat \<Rightarrow> nat \<Rightarrow> 8 word list" where
  "bytes_of_nat k n = map (\<lambda>i. word_of_nat (n div 256 ^ (k - 1 - i))) [0..<k]"

fun b32decode :: "string \<Rightarrow> 8 word list option" where
  "b32decode (a # b # c # d # e # f # g # h # rest) =
     (case (those (map b32_value [a, b, c, d, e, f, g, h]), b32decode rest) of
        (Some vs, Some bytes) \<Rightarrow> Some (bytes_of_nat 5 (fold (\<lambda>v acc. acc * 32 + v) vs 0) @ bytes)
      | _ \<Rightarrow> None)"
| "b32decode [] = Some []"
| "b32decode _ = None"

definition hotp_truncate :: "8 word list \<Rightarrow> 32 word" where
  "hotp_truncate digest =
     (let offset = unat (last digest AND 0x0F);
          binary = word_rcat (take 4 (drop offset digest)) :: 32 word
      in binary AND 0x7FFFFFFF)"

definition hotp :: "auth_env \<Rightarrow> string \<Rightarrow> int \<Rightarrow> string option" where
  "hotp e secret counter =
     (case b32decode (sanitize_totp_secret secret) of
        None \<Rightarrow> None
      | Some key \<Rightarrow>
          if counter < 0 \<or> 2 ^ 64 \<le> counter then None
          else
            let digest = ax_hmac_sha1 e key (bytes_of_nat 8 (nat counter));
                token = unat (hotp_truncate digest) mod 10 ^ 6
            in Some (pad_dec 6 token))"

text \<open>The system clock in units of 30 seconds since 1970.\<close>

definition unix_epoch :: datetime where
  "unix_epoch = midnight (Date 1970 1 1)"

definition now_counter :: "datetime \<Rightarrow> int" where
  "now_counter now = (now - unix_epoch) div seconds 30"

fun any_hotp :: "auth_env \<Rightarrow> string \<Rightarrow> string \<Rightarrow> int list \<Rightarrow> auth_error + bool" where
  "any_hotp e secret code [] = Inr False"
| "any_hotp e secret code (k # ks) =
     (case hotp e secret k of
        None \<Rightarrow> Inl (Auth_value_error ''secret'')
      | Some token \<Rightarrow> if token = code then Inr True else any_hotp e secret code ks)"

definition ascii_digit :: "char \<Rightarrow> bool" where
  "ascii_digit c \<longleftrightarrow> (let n = of_char c :: nat in 48 \<le> n \<and> n \<le> 57)"

definition verify_authenticator_code :: "auth_env \<Rightarrow> datetime \<Rightarrow> string \<Rightarrow> string \<Rightarrow> auth_error + bool" where
  "verify_authenticator_code e now secret code =
     (let normalized_code = filter ascii_digit code in
      if length normalized_code \<noteq> 6 then Inr False
      else any_hotp e secret normalized_code
             [now_counter now - 1, now_counter now, now_counter now + 1])"

definition b32_char :: "nat \<Rightarrow> char" where
  "b32_char v = (if v < 26 then char_of (v + 65) else char_of (v + 24))"

text \<open>\<open>b32encode\<close> of a whole number of five-byte groups, which needs no padding.\<close>

definition nat_of_bytes :: "8 word list \<Rightarrow> nat" where
  "nat_of_bytes bytes = fold (\<lambda>b acc. acc * 256 + unat b) bytes 0"

fun b32encode :: "8 word list \<Rightarrow> string" where
  "b32encode (a # b # c # d # e # rest) =
     (let n = nat_of_bytes [a, b, c, d, e]
      in map (\<lambda>i. b32_char (n div 32 ^ (7 - i) mod 32)) [0..<8] @ b32encode rest)"
| "b32encode _ = []"

definition base32_secret :: "auth_env \<Rightarrow> string auth_op" where
  "base32_secret e =
     py_bind (draw (ax_random_bytes e)) (\<lambda>a. py_bind (draw (ax_random_bytes e)) (\<lambda>b.
     py_return (b32encode (take 20 (a @ b)))))"

end
