(* ===== verification/Auth_Login.thy ===== *)
theory Auth_Login
  imports Auth_Tokens
begin

text \<open>
  The use cases of \<open>backend/core/modules/auth/use_cases/\<close>: \<open>two_factor_service.py\<close>, \<open>login_service.py\<close>,
  \<open>refresh_service.py\<close> and \<open>logout_service.py\<close>. Logs, metrics and audit entries are left out. Each public
  method of the last three runs in \<open>transaction\<close>.
\<close>

section \<open>Emailed codes\<close>

definition generate_code :: "auth_env \<Rightarrow> string auth_op" where
  "generate_code e = py_bind (draw (ax_randbelow e)) (\<lambda>n. py_return (str_of_int (int n + 100000)))"

definition deliver_code :: "auth_env \<Rightarrow> code_mail \<Rightarrow> unit auth_op" where
  "deliver_code e mail =
     (case ax_event_channel e of
        Some ok \<Rightarrow>
          if ok then set_db (\<lambda>db. db\<lparr>ad_queued_mails := ad_queued_mails db @ [mail]\<rparr>)
          else py_raise (Auth_value_error ''outbox'')
      | None \<Rightarrow>
          (case ax_send_mail e mail of
             None \<Rightarrow> py_raise Email_error
           | Some False \<Rightarrow> py_raise Email_error
           | Some True \<Rightarrow> py_modify (\<lambda>s. s\<lparr>as_sent_mails := as_sent_mails s @ [mail]\<rparr>)))"

definition create_and_send_code :: "auth_env \<Rightarrow> int \<Rightarrow> string \<Rightarrow> string option \<Rightarrow> unit auth_op" where
  "create_and_send_code e user email pending_token =
     py_seq (invalidate_user_codes user)
    (py_bind (generate_code e) (\<lambda>code.
     py_bind (py_gets as_now) (\<lambda>now.
     py_seq (create_code user (ax_sha256 e code) email (now + minutes (ax_code_expiry_minutes e)))
       (deliver_code e (email, code, pending_token)))))"

text \<open>The scopes of an attempt; a scope with an empty key is skipped.\<close>

definition attempt_scopes :: "string \<Rightarrow> int \<Rightarrow> string \<Rightarrow> (string \<times> string) list" where
  "attempt_scopes pending_token user ip =
     filter (\<lambda>(scope, key). key \<noteq> '''') [(''token'', pending_token), (''user'', str_of_int user), (''ip'', ip)]"

definition any_blocked :: "auth_state \<Rightarrow> int \<Rightarrow> int \<Rightarrow> (string \<times> string) list \<Rightarrow> bool" where
  "any_blocked s max_attempts window scopes \<longleftrightarrow>
     list_ex (\<lambda>(scope, key). is_blocked (as_db s) (as_now s) scope key max_attempts window) scopes"

fun record_all_failed :: "int \<Rightarrow> (string \<times> string) list \<Rightarrow> unit auth_op" where
  "record_all_failed window [] = py_return ()"
| "record_all_failed window ((scope, key) # rest) =
     py_seq (record_failed scope key window) (record_all_failed window rest)"

definition verify_code :: "auth_env \<Rightarrow> int \<Rightarrow> string \<Rightarrow> string option \<Rightarrow> string option \<Rightarrow> bool auth_op" where
  "verify_code e user code pending_token ip =
     (let scopes = attempt_scopes (str_or pending_token '''') user (str_or ip '''');
          window = ax_attempt_window_minutes e in
      py_bind (py_gets (\<lambda>s. any_blocked s (ax_max_attempts e) window scopes)) (\<lambda>blocked.
      if blocked then py_raise Too_many_attempts
      else py_bind (py_gets (\<lambda>s. get_valid_code (as_db s) (as_now s) user (ax_sha256 e code))) (\<lambda>valid_code.
      case valid_code of
        None \<Rightarrow>
          if str_or pending_token '''' \<noteq> '''' \<or> ip \<noteq> None
          then py_seq (record_all_failed window scopes) (py_return False)
          else py_return False
      | Some c \<Rightarrow>
          py_seq (reset_for_success (str_or pending_token '''') user ip)
            (py_seq (mark_code_used (tf_id c)) (py_return True)))))"

section \<open>Tokens for a user\<close>

definition issue_tokens ::
  "auth_env \<Rightarrow> int \<Rightarrow> string option \<Rightarrow> string option \<Rightarrow> bool \<Rightarrow> int \<Rightarrow> int \<Rightarrow> string \<Rightarrow> (string \<times> string \<times> string) auth_op" where
  "issue_tokens e user ip ua auto_login user_ver tenant_ver role =
     py_seq (invalidate_all_for_user user)
    (py_bind (make_refresh_pair e user auto_login user_ver tenant_ver) (\<lambda>(refresh_token, payload).
     py_seq (create_session user (the (cl_jti payload)) (hash_token e refresh_token) (cl_exp payload) ip ua)
    (py_bind (make_access e user user_ver tenant_ver role) (\<lambda>(access, access_jti).
     py_return (access, refresh_token, access_jti)))))"

section \<open>Login\<close>

record login_success =
  ls_access_token :: string
  ls_refresh_token :: string
  ls_user :: auth_user
  ls_access_jti :: string

text \<open>\<open>None\<close> is a refused login.\<close>

datatype login_result = Login_success login_success | Two_factor_required string string

record login_input =
  li_email :: "string option"
  li_password :: "string option"
  li_pending_token :: "string option"
  li_two_factor_code :: "string option"
  li_ip :: "string option"
  li_ua :: "string option"
  li_auto_login :: bool
  li_tenant_ver :: int

definition succeed :: "auth_env \<Rightarrow> login_input \<Rightarrow> auth_user \<Rightarrow> login_result option auth_op" where
  "succeed e inp u =
     py_bind (issue_tokens e (au_id u) (li_ip inp) (li_ua inp) (li_auto_login inp) (au_security_version u)
                (li_tenant_ver inp) (au_role u)) (\<lambda>(access, refresh_token, access_jti).
     py_return (Some (Login_success \<lparr>ls_access_token = access, ls_refresh_token = refresh_token,
        ls_user = u, ls_access_jti = access_jti\<rparr>)))"

definition login_step1 :: "auth_env \<Rightarrow> login_input \<Rightarrow> login_result option auth_op" where
  "login_step1 e inp =
     (let email = str_or (li_email inp) ''''; password = str_or (li_password inp) '''' in
      if email = '''' \<or> password = '''' then py_return None
      else py_bind (get_db (\<lambda>db. user_by_email db email)) (\<lambda>user.
      case user of
        None \<Rightarrow> py_return None
      | Some u \<Rightarrow>
          if \<not> au_is_active u then py_return None
          else if \<not> ax_verify_password e password (au_password_hash u)
          then py_seq (record_failed_login (au_id u)) (py_return None)
          else
            py_seq (reset_failed_login (au_id u))
           (py_bind (get_db (\<lambda>db. get_enabled_secret db (au_id u))) (\<lambda>authenticator_secret.
            if \<not> ax_two_factor_enabled e \<and> authenticator_secret = None then succeed e inp u
            else
              py_bind (draw (ax_uuid e)) (\<lambda>pending.
              py_bind (py_gets as_now) (\<lambda>now.
              py_seq (create_pending pending (au_id u) (now + minutes 10))
                (if authenticator_secret = None
                 then py_seq (create_and_send_code e (au_id u) (au_email u) (Some pending))
                        (py_return (Some (Two_factor_required pending ''email'')))
                 else py_return (Some (Two_factor_required pending ''authenticator''))))))))) "

definition authenticator_limits :: "auth_env \<Rightarrow> int \<times> int" where
  "authenticator_limits e =
     (max 1 (if ax_max_attempts e = 0 then 5 else ax_max_attempts e),
      max 1 (if ax_attempt_window_minutes e = 0 then 15 else ax_attempt_window_minutes e))"

definition authenticator_scopes :: "int \<Rightarrow> string \<Rightarrow> string option \<Rightarrow> (string \<times> string) list" where
  "authenticator_scopes user pending_token ip =
     attempt_scopes (py_strip pending_token) user (py_strip (str_or ip ''''))"

text \<open>Record the failure in each scope; whether one of them is blocked by it.\<close>

fun record_authenticator_failed :: "auth_env \<Rightarrow> (string \<times> string) list \<Rightarrow> bool \<Rightarrow> bool auth_op" where
  "record_authenticator_failed e [] blocked_now = py_return blocked_now"
| "record_authenticator_failed e ((scope, key) # rest) blocked_now =
     (case authenticator_limits e of (max_attempts, window) \<Rightarrow>
      py_seq (record_failed scope key window)
     (py_bind (py_gets (\<lambda>s. is_blocked (as_db s) (as_now s) scope key max_attempts window)) (\<lambda>blocked.
      record_authenticator_failed e rest (blocked_now \<or> blocked))))"

definition check_authenticator :: "auth_env \<Rightarrow> int \<Rightarrow> string \<Rightarrow> string \<Rightarrow> string \<Rightarrow> string option \<Rightarrow> bool auth_op" where
  "check_authenticator e user secret pending_token code ip =
     (let scopes = authenticator_scopes user pending_token ip in
      case authenticator_limits e of (max_attempts, window) \<Rightarrow>
      py_bind (py_gets (\<lambda>s. any_blocked s max_attempts window scopes)) (\<lambda>blocked.
      if blocked then py_raise Too_many_attempts
      else
        py_bind (\<lambda>s. (verify_authenticator_code e (as_now s) secret code, s)) (\<lambda>code_ok.
        if \<not> code_ok then
          py_bind (record_authenticator_failed e scopes False) (\<lambda>blocked_now.
          if blocked_now then py_raise Too_many_attempts else py_return False)
        else py_seq (reset_for_success pending_token user ip) (py_return True))))"

definition login_step2 :: "auth_env \<Rightarrow> login_input \<Rightarrow> string \<Rightarrow> string \<Rightarrow> login_result option auth_op" where
  "login_step2 e inp pending_token code =
     py_bind (py_gets (\<lambda>s. pending_user_id (as_db s) (as_now s) pending_token)) (\<lambda>found.
     case found of
       None \<Rightarrow> py_return None
     | Some user_id \<Rightarrow>
         if user_id = 0 then py_return None
         else py_bind (get_db (\<lambda>db. get_enabled_secret db user_id)) (\<lambda>authenticator_secret.
         py_bind
           (py_try
             (case authenticator_secret of
                Some secret \<Rightarrow> check_authenticator e user_id secret pending_token code (li_ip inp)
              | None \<Rightarrow> verify_code e user_id code (Some pending_token) (li_ip inp))
             (\<lambda>x. if x = Too_many_attempts then py_seq (consume_pending pending_token) (py_raise x) else py_raise x))
           (\<lambda>code_ok.
         if \<not> code_ok then py_return None
         else
           py_seq (consume_pending pending_token)
          (py_bind (get_db (\<lambda>db. live_user db user_id)) (\<lambda>user.
           case user of
             None \<Rightarrow> py_return None
           | Some u \<Rightarrow> if \<not> au_is_active u then py_return None else succeed e inp u)))))"

definition login :: "auth_env \<Rightarrow> login_input \<Rightarrow> login_result option auth_op" where
  "login e inp = transaction
     (let pending_token = str_or (li_pending_token inp) ''''; code = str_or (li_two_factor_code inp) '''' in
      if pending_token \<noteq> '''' \<and> code \<noteq> '''' then login_step2 e inp pending_token code
      else login_step1 e inp)"

definition issue_tokens_for_user :: "auth_env \<Rightarrow> login_input \<Rightarrow> auth_user \<Rightarrow> login_result option auth_op" where
  "issue_tokens_for_user e inp u = transaction (succeed e inp u)"

section \<open>Authenticator setup\<close>

definition start_authenticator_setup :: "auth_env \<Rightarrow> int \<Rightarrow> string auth_op" where
  "start_authenticator_setup e user =
     py_bind (base32_secret e) (\<lambda>secret.
     py_bind (py_gets as_now) (\<lambda>now.
     py_seq (upsert_pending_secret user secret (now + minutes 10)) (py_return secret)))"

definition revoke_sessions :: "int \<Rightarrow> unit auth_op" where
  "revoke_sessions user = py_seq (increment_security_version user) (invalidate_all_for_user user)"

definition confirm_authenticator_setup :: "auth_env \<Rightarrow> int \<Rightarrow> string \<Rightarrow> unit auth_op" where
  "confirm_authenticator_setup e user code =
     py_bind (py_gets (\<lambda>s. get_pending_secret (as_db s) (as_now s) user)) (\<lambda>pending_secret.
     case pending_secret of
       None \<Rightarrow> py_raise (Auth_value_error ''authenticator_setup_not_started'')
     | Some secret \<Rightarrow>
         py_bind (\<lambda>s. (verify_authenticator_code e (as_now s) secret code, s)) (\<lambda>ok.
         if \<not> ok then py_raise (Auth_value_error ''invalid_authenticator_code'')
         else py_seq (enable_secret user secret) (revoke_sessions user)))"

definition authenticator_status :: "auth_state \<Rightarrow> int \<Rightarrow> bool \<times> bool" where
  "authenticator_status s user =
     (case authenticator_of (as_db s) user of
        None \<Rightarrow> (False, False)
      | Some row \<Rightarrow>
          (ua_is_enabled row \<and> ua_secret_base32 row \<notin> {None, Some ''''},
           ua_pending_secret_base32 row \<notin> {None, Some ''''} \<and>
             (case ua_pending_expires_at row of None \<Rightarrow> False | Some t \<Rightarrow> as_now s < t)))"

definition disable_authenticator :: "int \<Rightarrow> unit auth_op" where
  "disable_authenticator user = py_seq (disable_authenticator_row user) (revoke_sessions user)"

section \<open>Refresh\<close>

datatype refresh_fail_reason = Expired_token | Invalid_token | Wrong_token_type | Security_version_mismatch
  | Unknown_session | Permissions_changed | Session_reuse_detected | Session_expired | Re_2fa_required

record refresh_success =
  rs_access_token :: string
  rs_refresh_token :: string
  rs_access_jti :: string
  rs_user :: "auth_user option"
  rs_auto_login :: bool

datatype refresh_result = Refresh_failed refresh_fail_reason | Refresh_success refresh_success

definition fingerprint_mismatch :: "session \<Rightarrow> string option \<Rightarrow> string option \<Rightarrow> bool" where
  "fingerprint_mismatch rec ip ua =
     (case (ss_ip rec, ss_user_agent rec) of
        (Some stored_ip, Some stored_ua) \<Rightarrow>
          (let current_ip = py_strip (str_or ip ''''); current_ua = py_strip (str_or ua '''');
               stored_ip = py_strip stored_ip; stored_ua = py_strip stored_ua in
           if stored_ip = '''' \<or> stored_ua = '''' then False
           else current_ip \<noteq> stored_ip \<and> current_ua \<noteq> stored_ua)
      | _ \<Rightarrow> False)"

text \<open>The tenant of the request: its slug and security version.\<close>

type_synonym tenant_context = "(string \<times> int) option"

definition context_ver :: "tenant_context \<Rightarrow> int" where
  "context_ver tenant = (case tenant of None \<Rightarrow> 0 | Some (_, v) \<Rightarrow> v)"

definition context_slug :: "tenant_context \<Rightarrow> string option" where
  "context_slug tenant = map_option fst tenant"

definition rotate ::
  "auth_env \<Rightarrow> session \<Rightarrow> int \<Rightarrow> auth_user option \<Rightarrow> bool \<Rightarrow> string option \<Rightarrow> string option \<Rightarrow> tenant_context \<Rightarrow>
   refresh_result auth_op" where
  "rotate e rec user_id user auto_login ip ua tenant =
     (let user_ver = (case user of None \<Rightarrow> 0 | Some u \<Rightarrow> au_security_version u); tenant_ver = context_ver tenant in
      py_seq (update_session (invalidate_session rec))
     (py_bind (make_refresh_pair e user_id auto_login user_ver tenant_ver) (\<lambda>(new_refresh, new_claims).
      py_seq (create_session user_id (the (cl_jti new_claims)) (hash_token e new_refresh) (cl_exp new_claims) ip ua)
     (py_bind (make_access e user_id user_ver tenant_ver (case user of None \<Rightarrow> ''user'' | Some u \<Rightarrow> au_role u))
        (\<lambda>(new_access, access_jti).
      py_return (Refresh_success \<lparr>rs_access_token = new_access, rs_refresh_token = new_refresh,
        rs_access_jti = access_jti, rs_user = user, rs_auto_login = auto_login\<rparr>))))))"

definition check_session ::
  "auth_env \<Rightarrow> session \<Rightarrow> int \<Rightarrow> auth_user option \<Rightarrow> bool \<Rightarrow> string option \<Rightarrow> string option \<Rightarrow> tenant_context \<Rightarrow>
   refresh_result auth_op" where
  "check_session e rec user_id user auto_login ip ua tenant =
     py_bind (py_gets (\<lambda>s. (as_now s, permissions_changed_get s (context_slug tenant) (ss_user_id rec)))) (\<lambda>(now, changed).
     if \<not> ss_valid rec then
       (if changed then py_return (Refresh_failed Permissions_changed)
        else py_seq (invalidate_all_for_user (ss_user_id rec)) (py_return (Refresh_failed Session_reuse_detected)))
     else if is_expired_session now rec then
       py_seq (update_session (invalidate_session rec)) (py_return (Refresh_failed Session_expired))
     else if fingerprint_mismatch rec ip ua then py_return (Refresh_failed Re_2fa_required)
     else rotate e rec user_id user auto_login ip ua tenant)"

text \<open>The claims of a refresh token against the tables. \<open>int(payload["sub"])\<close> can raise.\<close>

definition refresh_with ::
  "auth_env \<Rightarrow> claims \<Rightarrow> string option \<Rightarrow> string option \<Rightarrow> tenant_context \<Rightarrow> refresh_result auth_op" where
  "refresh_with e payload ip ua tenant =
     (if cl_typ payload \<noteq> Some ''refresh'' then py_return (Refresh_failed Wrong_token_type)
      else (case Option.bind (cl_sub payload) py_int of
        None \<Rightarrow> py_raise (Auth_value_error ''sub'')
      | Some user_id \<Rightarrow>
          py_bind (get_db (\<lambda>db. live_user db user_id)) (\<lambda>user.
          if cl_user_ver payload \<noteq> (case user of None \<Rightarrow> 0 | Some u \<Rightarrow> au_security_version u)
             \<or> cl_tenant_ver payload \<noteq> context_ver tenant
          then py_return (Refresh_failed Security_version_mismatch)
          else py_bind (get_db (\<lambda>db. case cl_jti payload of None \<Rightarrow> None | Some jti \<Rightarrow> session_by_jti db jti)) (\<lambda>rec.
          case rec of
            None \<Rightarrow> py_return (Refresh_failed Unknown_session)
          | Some rec \<Rightarrow> check_session e rec user_id user (cl_al payload) ip ua tenant))))"

definition token_error :: "jwt_error \<Rightarrow> auth_error" where
  "token_error x = Token_error (case x of Other_invalid s \<Rightarrow> s | _ \<Rightarrow> ''invalid token'')"

definition refresh :: "auth_env \<Rightarrow> string \<Rightarrow> string option \<Rightarrow> string option \<Rightarrow> tenant_context \<Rightarrow> refresh_result auth_op" where
  "refresh e token ip ua tenant = transaction
     (py_bind (py_gets as_now) (\<lambda>now.
      case verify e now token of
        Inl x \<Rightarrow>
          if x = Expired_signature then py_return (Refresh_failed Expired_token)
          else if x \<in> {Invalid_signature, Decode_error} then py_return (Refresh_failed Invalid_token)
          else py_raise (token_error x)
      | Inr payload \<Rightarrow> refresh_with e payload ip ua tenant))"

section \<open>Logout\<close>

definition invalidate_if_same :: "auth_env \<Rightarrow> string \<Rightarrow> string \<Rightarrow> unit auth_op" where
  "invalidate_if_same e token jti =
     py_bind (get_db (\<lambda>db. session_by_jti db jti)) (\<lambda>rec.
     case rec of
       None \<Rightarrow> py_return ()
     | Some rec \<Rightarrow>
         if ss_token_hash rec \<noteq> hash_token e token then py_return ()
         else update_session (invalidate_session rec))"

definition logout_with_expired_token :: "auth_env \<Rightarrow> datetime \<Rightarrow> string \<Rightarrow> unit auth_op" where
  "logout_with_expired_token e now token =
     (case decode_ignore_exp e now token of
        Inl x \<Rightarrow> py_raise (token_error x)
      | Inr None \<Rightarrow> py_return ()
      | Inr (Some payload) \<Rightarrow>
          (case (cl_jti payload, cl_sub payload) of
             (Some jti, Some sub) \<Rightarrow>
               if cl_typ payload = Some ''refresh'' \<and> jti \<noteq> '''' \<and> sub \<noteq> ''''
               then (case py_int sub of
                       None \<Rightarrow> py_raise (Auth_value_error ''sub'')
                     | Some _ \<Rightarrow> invalidate_if_same e token jti)
               else py_return ()
           | _ \<Rightarrow> py_return ()))"

definition logout :: "auth_env \<Rightarrow> string \<Rightarrow> bool auth_op" where
  "logout e token = transaction
     (py_bind (py_gets as_now) (\<lambda>now.
      case verify e now token of
        Inl x \<Rightarrow>
          if x = Expired_signature then py_seq (logout_with_expired_token e now token) (py_return True)
          else if x \<in> {Invalid_signature, Decode_error} then py_return True
          else py_raise (token_error x)
      | Inr payload \<Rightarrow>
          if cl_typ payload \<noteq> Some ''refresh'' then py_return True
          else (case Option.bind (cl_sub payload) py_int of
             None \<Rightarrow> py_raise (Auth_value_error ''sub'')
           | Some _ \<Rightarrow>
               (case cl_jti payload of
                  None \<Rightarrow> py_return True
                | Some jti \<Rightarrow> py_seq (invalidate_if_same e token jti) (py_return True)))))"

end
