(* ===== verification/Auth_Login_Facts.thy ===== *)
theory Auth_Login_Facts
  imports Auth_Login
begin

text \<open>
  What a login promises: no success without the factors that are configured, a pending token that works once,
  a lock after too many wrong emailed codes, and, for authenticator codes, the lock that the surrounding
  transaction undoes.
\<close>

lemmas auth_run = py_run_bind py_run_seq py_run_try get_db_def set_db_def draw_def

lemma transaction_Inr: "transaction m s = (Inr x, s') \<longleftrightarrow> m s = (Inr x, s')"
  by (auto simp: transaction_def split: prod.splits sum.splits)

lemma transaction_Inl: "transaction m s = (Inl x, s') \<longleftrightarrow> (\<exists>s1. m s = (Inl x, s1) \<and> s' = s1\<lparr>as_db := as_db s\<rparr>)"
  by (auto simp: transaction_def split: prod.splits sum.splits)

lemma bind_Inr: "py_bind m f s = (Inr y, s') \<longleftrightarrow> (\<exists>x s1. m s = (Inr x, s1) \<and> f x s1 = (Inr y, s'))"
  by (auto simp: py_run_bind split: sum.splits prod.splits) (metis prod.collapse)+

lemma seq_Inr: "py_seq m n s = (Inr y, s') \<longleftrightarrow> (\<exists>x s1. m s = (Inr x, s1) \<and> n s1 = (Inr y, s'))"
  by (auto simp: py_run_seq split: sum.splits prod.splits) (metis prod.collapse)+

lemma try_Inr: "py_try m h s = (Inr x, s') \<longleftrightarrow> m s = (Inr x, s') \<or> (\<exists>err s1. m s = (Inl err, s1) \<and> h err s1 = (Inr x, s'))"
  by (auto simp: py_run_try split: sum.splits prod.splits) (metis prod.collapse)+

lemma get_db_run [simp]: "get_db f s = (Inr (f (as_db s)), s)"
  by (simp add: get_db_def)

lemma set_db_run [simp]: "set_db f s = (Inr (), s\<lparr>as_db := f (as_db s)\<rparr>)"
  by (simp add: set_db_def)

lemma draw_run [simp]: "draw f s = (Inr (f (as_drawn s)), s\<lparr>as_drawn := as_drawn s + 1\<rparr>)"
  by (simp add: draw_def)

section \<open>What a success rests on\<close>

text \<open>The tokens of a user: the state after them.\<close>

definition issued_state :: "auth_env \<Rightarrow> int \<Rightarrow> string option \<Rightarrow> string option \<Rightarrow> bool \<Rightarrow> int \<Rightarrow> int \<Rightarrow> auth_state \<Rightarrow> auth_state" where
  "issued_state e user ip ua al uv tv s =
     (let c = refresh_claims e (as_now s) (ax_uuid e (as_drawn s)) user al uv tv;
          row = \<lparr>ss_id = as_next_session s, ss_user_id = user, ss_jti = ax_uuid e (as_drawn s),
                 ss_token_hash = hash_token e (ax_jwt_encode e c), ss_valid = True, ss_ip = ip,
                 ss_user_agent = ua, ss_expires_at = cl_exp c\<rparr>
      in s\<lparr>as_drawn := as_drawn s + 2, as_next_session := as_next_session s + 1,
           as_db := (as_db s)\<lparr>ad_sessions :=
             update_where (\<lambda>r. ss_user_id r = user \<and> ss_valid r) invalidate_session (ad_sessions (as_db s)) @ [row]\<rparr>\<rparr>)"

lemma issue_tokens_run:
  "\<exists>toks. issue_tokens e user ip ua al uv tv role s = (Inr toks, issued_state e user ip ua al uv tv s)"
  by (simp add: issue_tokens_def auth_run make_refresh_pair_def make_access_def create_session_def
      invalidate_all_for_user_def issued_state_def Let_def refresh_claims_def)

lemma succeed_run:
  "\<exists>r. succeed e inp u s = (Inr (Some (Login_success r)),
      issued_state e (au_id u) (li_ip inp) (li_ua inp) (li_auto_login inp) (au_security_version u) (li_tenant_ver inp) s) \<and>
    ls_user r = u"
proof -
  obtain a b c where "issue_tokens e (au_id u) (li_ip inp) (li_ua inp) (li_auto_login inp) (au_security_version u)
      (li_tenant_ver inp) (au_role u) s = (Inr (a, b, c),
      issued_state e (au_id u) (li_ip inp) (li_ua inp) (li_auto_login inp) (au_security_version u) (li_tenant_ver inp) s)"
    using issue_tokens_run by (metis prod_cases3)
  then show ?thesis by (simp add: succeed_def py_run_bind)
qed

lemma succeed_Inr:
  "succeed e inp u s = (Inr res, s') \<longleftrightarrow>
    (\<exists>r. res = Some (Login_success r) \<and> ls_user r = u \<and> succeed e inp u s = (Inr res, s') \<and>
      s' = issued_state e (au_id u) (li_ip inp) (li_ua inp) (li_auto_login inp) (au_security_version u) (li_tenant_ver inp) s)"
  using succeed_run [of e inp u s] by auto

definition password_ok :: "auth_env \<Rightarrow> auth_db \<Rightarrow> login_input \<Rightarrow> auth_user \<Rightarrow> bool" where
  "password_ok e db inp u \<longleftrightarrow> (\<exists>email password. li_email inp = Some email \<and> li_password inp = Some password \<and>
     user_by_email db email = Some u \<and> ax_verify_password e password (au_password_hash u))"

lemma str_or_neq: "str_or x [] = y \<Longrightarrow> y \<noteq> [] \<Longrightarrow> x = Some y"
  by (cases x) (auto simp: str_or_def split: if_splits)

text \<open>The second half of the first step, after the password.\<close>

definition after_password :: "auth_env \<Rightarrow> login_input \<Rightarrow> auth_user \<Rightarrow> login_result option auth_op" where
  "after_password e inp u =
     py_bind (get_db (\<lambda>db. get_enabled_secret db (au_id u))) (\<lambda>authenticator_secret.
     if \<not> ax_two_factor_enabled e \<and> authenticator_secret = None then succeed e inp u
     else
       py_bind (draw (ax_uuid e)) (\<lambda>pending.
       py_bind (py_gets as_now) (\<lambda>now.
       py_seq (create_pending pending (au_id u) (now + minutes 10))
         (if authenticator_secret = None
          then py_seq (create_and_send_code e (au_id u) (au_email u) (Some pending))
                 (py_return (Some (Two_factor_required pending ''email'')))
          else py_return (Some (Two_factor_required pending ''authenticator''))))))"

lemma login_step1_eq:
  "login_step1 e inp =
     (let email = str_or (li_email inp) []; password = str_or (li_password inp) [] in
      if email = [] \<or> password = [] then py_return None
      else py_bind (get_db (\<lambda>db. user_by_email db email)) (\<lambda>user.
      case user of
        None \<Rightarrow> py_return None
      | Some u \<Rightarrow>
          if \<not> au_is_active u then py_return None
          else if \<not> ax_verify_password e password (au_password_hash u)
          then py_seq (record_failed_login (au_id u)) (py_return None)
          else py_seq (reset_failed_login (au_id u)) (after_password e inp u)))"
  unfolding login_step1_def after_password_def by (rule refl)

lemma after_password_success:
  "after_password e inp u s = (Inr (Some (Login_success r)), s') \<Longrightarrow>
    ls_user r = u \<and> \<not> ax_two_factor_enabled e \<and> get_enabled_secret (as_db s) (au_id u) = None"
  unfolding after_password_def py_run_bind get_db_run fst_conv snd_conv sum.case
  using succeed_run [of e inp u s] by (auto simp: bind_Inr seq_Inr split: if_splits)

lemma step1_success:
  assumes "login_step1 e inp s = (Inr (Some (Login_success r)), s')"
  shows "au_is_active (ls_user r) \<and> password_ok e (as_db s) inp (ls_user r) \<and> \<not> ax_two_factor_enabled e \<and>
    get_enabled_secret (as_db (snd (reset_failed_login (au_id (ls_user r)) s))) (au_id (ls_user r)) = None"
proof -
  let ?email = "str_or (li_email inp) []" and ?pw = "str_or (li_password inp) []"
  have ne: "?email \<noteq> []" "?pw \<noteq> []" using assms unfolding login_step1_eq Let_def by (auto split: if_splits)
  obtain u where u: "user_by_email (as_db s) ?email = Some u"
    using assms ne unfolding login_step1_eq Let_def py_run_bind get_db_run
    by (cases "user_by_email (as_db s) ?email") simp_all
  have act: "au_is_active u"
    using assms ne u unfolding login_step1_eq Let_def py_run_bind get_db_run by (auto split: if_splits)
  have pw: "ax_verify_password e ?pw (au_password_hash u)"
    using assms ne u act unfolding login_step1_eq Let_def py_run_bind get_db_run
    by (cases "ax_verify_password e ?pw (au_password_hash u)") (auto simp: seq_Inr)
  have "fst (reset_failed_login (au_id u) s) = Inr ()"
    by (simp add: reset_failed_login_def update_users_def py_run_bind split: option.splits)
  then have "after_password e inp u (snd (reset_failed_login (au_id u) s)) = (Inr (Some (Login_success r)), s')"
    using assms ne u act pw by (simp add: login_step1_eq Let_def py_run_bind py_run_seq)
  from after_password_success [OF this] show ?thesis
    using act pw u str_or_neq [OF refl ne(1)] str_or_neq [OF refl ne(2)] by (auto simp: password_ok_def)
qed

lemma reset_failed_secret:
  "get_enabled_secret (as_db (snd (reset_failed_login i s))) j = get_enabled_secret (as_db s) j"
  by (simp add: reset_failed_login_def update_users_def py_run_bind get_enabled_secret_def authenticator_of_def
      split: option.splits)

section \<open>Second factors\<close>

text \<open>A check of a code changes only counters and codes.\<close>

definition without_counters :: "auth_state \<Rightarrow> auth_state" where
  "without_counters s = s\<lparr>as_db := (as_db s)\<lparr>ad_attempts := [], ad_codes := []\<rparr>\<rparr>"

definition only_counters :: "auth_state \<Rightarrow> auth_state \<Rightarrow> bool" where
  "only_counters s s' \<longleftrightarrow> without_counters s' = without_counters s"

lemma only_countersD:
  assumes "only_counters s s'"
  shows "as_now s' = as_now s" "ad_users (as_db s') = ad_users (as_db s)" "ad_pending (as_db s') = ad_pending (as_db s)"
    "ad_authenticators (as_db s') = ad_authenticators (as_db s)" "ad_sessions (as_db s') = ad_sessions (as_db s)"
proof -
  have eq: "without_counters s' = without_counters s" using assms by (simp add: only_counters_def)
  show "as_now s' = as_now s" using arg_cong [OF eq, of as_now] by (simp add: without_counters_def)
  show "ad_users (as_db s') = ad_users (as_db s)"
    using arg_cong [OF eq, of "ad_users \<circ> as_db"] by (simp add: without_counters_def)
  show "ad_pending (as_db s') = ad_pending (as_db s)"
    using arg_cong [OF eq, of "ad_pending \<circ> as_db"] by (simp add: without_counters_def)
  show "ad_authenticators (as_db s') = ad_authenticators (as_db s)"
    using arg_cong [OF eq, of "ad_authenticators \<circ> as_db"] by (simp add: without_counters_def)
  show "ad_sessions (as_db s') = ad_sessions (as_db s)"
    using arg_cong [OF eq, of "ad_sessions \<circ> as_db"] by (simp add: without_counters_def)
qed

lemma only_counters_refl: "only_counters s s"
  by (simp add: only_counters_def)

lemma only_counters_step: "(\<And>s. without_counters (snd (m s)) = without_counters s) \<Longrightarrow> preserves (only_counters s0) m"
  by (simp add: preserves_def only_counters_def)

lemma counters_record_failed [preserve]: "preserves (only_counters s0) (record_failed scope key window)"
  by (rule only_counters_step) (simp add: record_failed_def without_counters_def Let_def)

lemma counters_reset [preserve]: "preserves (only_counters s0) (reset_for_success tok user ip)"
  by (rule only_counters_step) (simp add: reset_for_success_def without_counters_def)

lemma counters_mark_used [preserve]: "preserves (only_counters s0) (mark_code_used i)"
  by (rule only_counters_step) (simp add: mark_code_used_def without_counters_def)

lemma counters_record_all [preserve]: "preserves (only_counters s0) (record_all_failed window scopes)"
proof (induction scopes)
  case Nil
  show ?case unfolding record_all_failed.simps by (rule preserves_return)
next
  case (Cons a scopes)
  then show ?case by (cases a) (simp add: preserves_seq counters_record_failed)
qed

lemma counters_record_authenticator [preserve]:
  "preserves (only_counters s0) (record_authenticator_failed e scopes blocked)"
proof (induction scopes arbitrary: blocked)
  case Nil
  show ?case unfolding record_authenticator_failed.simps by (rule preserves_return)
next
  case (Cons a scopes)
  obtain scope key where a: "a = (scope, key)" by (cases a)
  show ?case unfolding a record_authenticator_failed.simps
    by (intro preserve Cons.IH)
qed

lemma counters_verify_code [preserve]: "preserves (only_counters s0) (verify_code e user code tok ip)"
  unfolding verify_code_def by (intro preserve)

lemma counters_check_authenticator [preserve]:
  "preserves (only_counters s0) (check_authenticator e user secret tok code ip)"
  unfolding check_authenticator_def
  by (intro preserve reads_only_preserves [of "\<lambda>s. (f s, s)" for f]) (simp add: reads_only_def)

text \<open>An accepted code.\<close>

lemma verify_code_True:
  assumes "verify_code e user code tok ip s = (Inr True, s')"
  shows "\<not> any_blocked s (ax_max_attempts e) (ax_attempt_window_minutes e)
      (attempt_scopes (str_or tok []) user (str_or ip []))"
    "\<exists>c. get_valid_code (as_db s) (as_now s) user (ax_sha256 e code) = Some c"
proof -
  show nb: "\<not> any_blocked s (ax_max_attempts e) (ax_attempt_window_minutes e)
      (attempt_scopes (str_or tok []) user (str_or ip []))"
    using assms by (auto simp: verify_code_def py_run_bind Let_def split: if_splits)
  show "\<exists>c. get_valid_code (as_db s) (as_now s) user (ax_sha256 e code) = Some c"
  proof (rule ccontr)
    assume "\<not> ?thesis"
    then have "get_valid_code (as_db s) (as_now s) user (ax_sha256 e code) = None" by simp
    with nb assms show False by (auto simp: verify_code_def py_run_bind Let_def seq_Inr split: if_splits)
  qed
qed

lemma check_authenticator_True:
  assumes "check_authenticator e user secret tok code ip s = (Inr True, s')"
  shows "\<not> any_blocked s (fst (authenticator_limits e)) (snd (authenticator_limits e)) (authenticator_scopes user tok ip)"
    "verify_authenticator_code e (as_now s) secret code = Inr True"
proof -
  show nb: "\<not> any_blocked s (fst (authenticator_limits e)) (snd (authenticator_limits e)) (authenticator_scopes user tok ip)"
    using assms by (auto simp: check_authenticator_def py_run_bind Let_def split: if_splits prod.splits)
  show "verify_authenticator_code e (as_now s) secret code = Inr True"
    using assms nb by (cases "verify_authenticator_code e (as_now s) secret code")
      (auto simp: check_authenticator_def py_run_bind Let_def split: if_splits prod.splits sum.splits)
qed

text \<open>The second step after its check.\<close>

definition second_factor :: "auth_env \<Rightarrow> login_input \<Rightarrow> int \<Rightarrow> string option \<Rightarrow> string \<Rightarrow> string \<Rightarrow> bool auth_op" where
  "second_factor e inp user_id authenticator_secret pending_token code =
     py_try
       (case authenticator_secret of
          Some secret \<Rightarrow> check_authenticator e user_id secret pending_token code (li_ip inp)
        | None \<Rightarrow> verify_code e user_id code (Some pending_token) (li_ip inp))
       (\<lambda>x. if x = Too_many_attempts then py_seq (consume_pending pending_token) (py_raise x) else py_raise x)"

definition finish_login :: "auth_env \<Rightarrow> login_input \<Rightarrow> int \<Rightarrow> string \<Rightarrow> bool \<Rightarrow> login_result option auth_op" where
  "finish_login e inp user_id pending_token code_ok =
     (if \<not> code_ok then py_return None
      else
        py_seq (consume_pending pending_token)
       (py_bind (get_db (\<lambda>db. live_user db user_id)) (\<lambda>user.
        case user of
          None \<Rightarrow> py_return None
        | Some u \<Rightarrow> if \<not> au_is_active u then py_return None else succeed e inp u)))"

lemma login_step2_eq:
  "login_step2 e inp pending_token code =
     py_bind (py_gets (\<lambda>s. pending_user_id (as_db s) (as_now s) pending_token)) (\<lambda>found.
     case found of
       None \<Rightarrow> py_return None
     | Some user_id \<Rightarrow>
         if user_id = 0 then py_return None
         else py_bind (get_db (\<lambda>db. get_enabled_secret db user_id)) (\<lambda>authenticator_secret.
           py_bind (second_factor e inp user_id authenticator_secret pending_token code)
             (finish_login e inp user_id pending_token)))"
  unfolding login_step2_def second_factor_def finish_login_def by (rule refl)

lemma login_step2_run:
  assumes "pending_user_id (as_db s) (as_now s) tok = Some user" "user \<noteq> 0"
  shows "login_step2 e inp tok code s =
    py_bind (second_factor e inp user (get_enabled_secret (as_db s) user) tok code) (finish_login e inp user tok) s"
  using assms by (simp add: login_step2_eq py_run_bind)

lemma second_factor_True:
  assumes "second_factor e inp user secret tok code s = (Inr True, s')"
  shows "(case secret of
        Some x \<Rightarrow> verify_authenticator_code e (as_now s) x code = Inr True
      | None \<Rightarrow> (\<exists>c. get_valid_code (as_db s) (as_now s) user (ax_sha256 e code) = Some c))"
    "only_counters s s'"
proof -
  let ?m = "case secret of
      Some x \<Rightarrow> check_authenticator e user x tok code (li_ip inp)
    | None \<Rightarrow> verify_code e user code (Some tok) (li_ip inp)"
  have m: "?m s = (Inr True, s')"
    using assms unfolding second_factor_def try_Inr by (auto simp: seq_Inr split: if_splits)
  have "preserves (only_counters s) ?m" by (cases secret) (simp_all add: counters_verify_code counters_check_authenticator)
  from preservesD [OF this only_counters_refl] m show "only_counters s s'" by simp
  show "case secret of
        Some x \<Rightarrow> verify_authenticator_code e (as_now s) x code = Inr True
      | None \<Rightarrow> (\<exists>c. get_valid_code (as_db s) (as_now s) user (ax_sha256 e code) = Some c)"
    using m verify_code_True(2) check_authenticator_True(2) by (cases secret) fastforce+
qed

lemma live_user_cong: "ad_users db = ad_users db' \<Longrightarrow> live_user db = live_user db'"
  by (simp add: live_user_def fun_eq_iff)

lemma step2_success:
  assumes "login_step2 e inp tok code s = (Inr (Some (Login_success r)), s')"
  defines "u \<equiv> ls_user r"
  shows "\<exists>i. pending_user_id (as_db s) (as_now s) tok = Some i \<and> live_user (as_db s) i = Some u \<and> au_is_active u \<and>
    (case get_enabled_secret (as_db s) i of
        Some x \<Rightarrow> verify_authenticator_code e (as_now s) x code = Inr True
      | None \<Rightarrow> (\<exists>c. get_valid_code (as_db s) (as_now s) i (ax_sha256 e code) = Some c)) \<and>
    tok \<notin> p2_token ` set (ad_pending (as_db s'))"
proof -
  obtain i where i: "pending_user_id (as_db s) (as_now s) tok = Some i"
    using assms(1) by (cases "pending_user_id (as_db s) (as_now s) tok") (simp_all add: login_step2_eq py_run_bind)
  moreover have "i \<noteq> 0" using assms(1) i by (auto simp: login_step2_eq py_run_bind)
  ultimately obtain ok s1 where s1: "second_factor e inp i (get_enabled_secret (as_db s) i) tok code s = (Inr ok, s1)"
      "finish_login e inp i tok ok s1 = (Inr (Some (Login_success r)), s')"
    using assms(1) by (auto simp: login_step2_run bind_Inr)
  have ok: "ok" using s1(2) by (cases ok) (simp_all add: finish_login_def)
  let ?s2 = "snd (consume_pending tok s1)"
  obtain v where v: "live_user (as_db ?s2) i = Some v" "au_is_active v" "succeed e inp v ?s2 = (Inr (Some (Login_success r)), s')"
    using s1(2) ok
    by (auto simp: finish_login_def seq_Inr bind_Inr consume_pending_def split: option.splits if_splits)
  have "v = u" "ad_pending (as_db s') = ad_pending (as_db ?s2)"
    using succeed_run [of e inp v ?s2] v(3) by (auto simp: u_def issued_state_def Let_def)
  moreover have c: "only_counters s s1" using second_factor_True(2) s1(1) ok by auto
  moreover have "live_user (as_db ?s2) = live_user (as_db s)"
    using only_countersD(2) [OF c] by (intro live_user_cong) (simp add: consume_pending_def)
  ultimately show ?thesis
    using i v second_factor_True(1) [of e inp i _ tok code s s1] s1(1) ok by (auto simp: consume_pending_def)
qed

text \<open>C13: no login without its factors. If a login succeeds, then the user exists, is active and not deleted,
  and either it carried the user's address and password, the platform does not require a second factor
  and the user has no authenticator; or it carried a pending token that the first step had issued to this
  user and that has not expired, with the code that the authenticator shows (when there is one) or
  an unused, unexpired code mailed to the user. The pending token cannot be used again.\<close>

theorem login_needs_factors:
  assumes "login e inp s = (Inr (Some (Login_success r)), s')"
  defines "u \<equiv> ls_user r"
  shows "au_is_active u \<and> u \<in> set (ad_users (as_db s)) \<and> \<not> au_deleted u \<and>
    ((password_ok e (as_db s) inp u \<and> \<not> ax_two_factor_enabled e \<and> get_enabled_secret (as_db s) (au_id u) = None) \<or>
     (\<exists>tok code. li_pending_token inp = Some tok \<and> li_two_factor_code inp = Some code \<and>
        pending_user_id (as_db s) (as_now s) tok = Some (au_id u) \<and>
        (case get_enabled_secret (as_db s) (au_id u) of
           Some secret \<Rightarrow> verify_authenticator_code e (as_now s) secret code = Inr True
         | None \<Rightarrow> (\<exists>c \<in> set (ad_codes (as_db s)). tf_user_id c = au_id u \<and> tf_code_hash c = ax_sha256 e code \<and>
                      \<not> tf_used c \<and> as_now s < tf_expires_at c)) \<and>
        tok \<notin> p2_token ` set (ad_pending (as_db s'))))"
proof -
  let ?tok = "str_or (li_pending_token inp) []" and ?code = "str_or (li_two_factor_code inp) []"
  show ?thesis
  proof (cases "?tok \<noteq> [] \<and> ?code \<noteq> []")
    case True
    then have "login_step2 e inp ?tok ?code s = (Inr (Some (Login_success r)), s')"
      using assms(1) by (simp add: login_def transaction_Inr Let_def)
    from step2_success [OF this] obtain i where i: "pending_user_id (as_db s) (as_now s) ?tok = Some i"
        "live_user (as_db s) i = Some u" "au_is_active u"
        "case get_enabled_secret (as_db s) i of
           Some x \<Rightarrow> verify_authenticator_code e (as_now s) x ?code = Inr True
         | None \<Rightarrow> (\<exists>c. get_valid_code (as_db s) (as_now s) i (ax_sha256 e ?code) = Some c)"
        "?tok \<notin> p2_token ` set (ad_pending (as_db s'))" unfolding u_def by blast
    have u: "u \<in> set (ad_users (as_db s))" "au_id u = i" "\<not> au_deleted u"
      using find_Some_set [OF i(2) [unfolded live_user_def]] by simp_all
    have code: "\<exists>c \<in> set (ad_codes (as_db s)). tf_user_id c = i \<and> tf_code_hash c = ax_sha256 e ?code \<and>
        \<not> tf_used c \<and> as_now s < tf_expires_at c" if "get_enabled_secret (as_db s) i = None"
      using i(4) that find_Some_set unfolding get_valid_code_def by fastforce
    show ?thesis
      using i u code True str_or_neq [OF refl, of "li_pending_token inp"] str_or_neq [OF refl, of "li_two_factor_code inp"]
      by (intro conjI disjI2 exI [of _ ?tok] exI [of _ ?code]) (auto split: option.splits)
  next
    case False
    then have "login_step1 e inp s = (Inr (Some (Login_success r)), s')"
      using assms(1) by (auto simp: login_def transaction_Inr Let_def)
    from step1_success [OF this] have 1: "au_is_active u \<and> password_ok e (as_db s) inp u \<and> \<not> ax_two_factor_enabled e \<and>
        get_enabled_secret (as_db s) (au_id u) = None" by (simp add: u_def reset_failed_secret)
    then have "u \<in> set (ad_users (as_db s)) \<and> \<not> au_deleted u"
      using find_Some_set by (fastforce simp: password_ok_def user_by_email_def Let_def)
    with 1 show ?thesis by blast
  qed
qed

section \<open>Counting wrong codes\<close>

definition bumped_row :: "datetime \<Rightarrow> int \<Rightarrow> string \<times> string \<Rightarrow> two_factor_attempt option \<Rightarrow> two_factor_attempt" where
  "bumped_row now window sk row =
     (let r = (case row of
          None \<Rightarrow> \<lparr>ta_scope = fst sk, ta_scope_key = snd sk, ta_attempts = 0, ta_window_start_at = now\<rparr>
        | Some r \<Rightarrow> if now - ta_window_start_at r > minutes window
                     then r\<lparr>ta_attempts := 0, ta_window_start_at := now\<rparr> else r)
      in r\<lparr>ta_attempts := ta_attempts r + 1\<rparr>)"

definition bumped :: "datetime \<Rightarrow> int \<Rightarrow> string \<times> string \<Rightarrow> two_factor_attempt list \<Rightarrow> two_factor_attempt list" where
  "bumped now window sk rows = upsert_row attempt_key (bumped_row now window sk (row_map attempt_key rows sk)) rows"

definition with_attempts :: "(two_factor_attempt list \<Rightarrow> two_factor_attempt list) \<Rightarrow> auth_state \<Rightarrow> auth_state" where
  "with_attempts f s = s\<lparr>as_db := (as_db s)\<lparr>ad_attempts := f (ad_attempts (as_db s))\<rparr>\<rparr>"

lemma with_attempts_simps [simp]:
  "as_now (with_attempts f s) = as_now s" "ad_attempts (as_db (with_attempts f s)) = f (ad_attempts (as_db s))"
  "with_attempts g (with_attempts f s) = with_attempts (\<lambda>rows. g (f rows)) s" "with_attempts id s = s" "with_attempts (\<lambda>rows. rows) s = s"
  "pending_user_id (as_db (with_attempts f s)) = pending_user_id (as_db s)"
  "get_enabled_secret (as_db (with_attempts f s)) = get_enabled_secret (as_db s)"
  "get_valid_code (as_db (with_attempts f s)) = get_valid_code (as_db s)"
  "live_user (as_db (with_attempts f s)) = live_user (as_db s)"
  by (simp_all add: with_attempts_def fun_eq_iff pending_user_id_def get_enabled_secret_def authenticator_of_def
      get_valid_code_def live_user_def)

lemma record_failed_run:
  "record_failed scope key window s = (Inr (), with_attempts (bumped (as_now s) window (scope, key)) s)"
  by (auto simp: record_failed_def Let_def with_attempts_def bumped_def bumped_row_def get_or_create_attempt_def
      attempt_row_def split: option.splits)

lemma attempt_key_bumped:
  "(\<And>r. row = Some r \<Longrightarrow> attempt_key r = sk) \<Longrightarrow> attempt_key (bumped_row now window sk row) = sk"
  by (auto simp: bumped_row_def attempt_key_def Let_def split: option.splits)

lemma row_map_bumped:
  "row_map attempt_key (bumped now window sk rows) sk' =
    (if sk' = sk then Some (bumped_row now window sk (row_map attempt_key rows sk)) else row_map attempt_key rows sk')"
proof -
  have "attempt_key (bumped_row now window sk (row_map attempt_key rows sk)) = sk"
    by (rule attempt_key_bumped) (drule row_map_Some, simp)
  then show ?thesis by (auto simp: bumped_def row_map_upsert_row)
qed

lemma row_map_fold_bumped:
  "distinct scopes \<Longrightarrow> row_map attempt_key (fold (bumped now window) scopes rows) sk =
    (if sk \<in> set scopes then Some (bumped_row now window sk (row_map attempt_key rows sk)) else row_map attempt_key rows sk)"
proof (induction scopes arbitrary: rows)
  case (Cons a scopes)
  then show ?case by (simp add: row_map_bumped)
qed simp

lemma record_all_run:
  "record_all_failed window scopes s = (Inr (), with_attempts (fold (bumped (as_now s) window) scopes) s)"
proof (induction scopes arbitrary: s)
  case Nil
  show ?case by (simp add: with_attempts_def)
next
  case (Cons a scopes)
  then show ?case by (cases a) (simp add: py_run_seq record_failed_run o_def)
qed

lemma is_blocked_eq:
  "is_blocked db now scope key m w \<longleftrightarrow> (case row_map attempt_key (ad_attempts db) (scope, key) of
      None \<Rightarrow> False | Some r \<Rightarrow> now - ta_window_start_at r \<le> minutes w \<and> m \<le> ta_attempts r)"
  by (auto simp: is_blocked_def attempt_row_def split: option.splits)

lemma record_authenticator_run:
  fixes e :: auth_env
  assumes "distinct scopes"
  defines "m \<equiv> fst (authenticator_limits e)" and "w \<equiv> snd (authenticator_limits e)"
  shows "\<exists>b'. record_authenticator_failed e scopes b s =
      (Inr b', with_attempts (fold (bumped (as_now s) w) scopes) s) \<and>
    (\<not> b' \<longrightarrow> \<not> any_blocked (with_attempts (fold (bumped (as_now s) w) scopes) s) m w scopes)"
  using assms(1)
proof (induction scopes arbitrary: b s)
  case Nil
  show ?case by (simp add: with_attempts_def any_blocked_def)
next
  case (Cons a scopes)
  obtain scope key where a: "a = (scope, key)" by (cases a)
  let ?s1 = "with_attempts (bumped (as_now s) w a) s"
  let ?b1 = "b \<or> is_blocked (as_db ?s1) (as_now s) scope key m w"
  obtain b' where b': "record_authenticator_failed e scopes ?b1 ?s1 =
      (Inr b', with_attempts (fold (bumped (as_now s) w) scopes) ?s1)"
      "\<not> b' \<longrightarrow> \<not> any_blocked (with_attempts (fold (bumped (as_now s) w) scopes) ?s1) m w scopes"
    using Cons.IH [of ?b1 ?s1] Cons.prems by auto
  have run: "record_authenticator_failed e (a # scopes) b s =
      (Inr b', with_attempts (fold (bumped (as_now s) w) (a # scopes)) s)"
    using b'(1) by (cases "authenticator_limits e")
      (simp add: a py_run_seq py_run_bind record_failed_run m_def w_def o_def)
  have mono: "b0 \<longrightarrow> r" if "record_authenticator_failed e sc b0 u = (Inr r, u')" for sc b0 r u u'
    using that by (induction e sc b0 arbitrary: u rule: record_authenticator_failed.induct)
      (auto simp: py_run_seq py_run_bind record_failed_run split: prod.splits)
  have "\<not> is_blocked (as_db (with_attempts (fold (bumped (as_now s) w) (a # scopes)) s)) (as_now s) scope key m w" if "\<not> b'"
  proof -
    have "\<not> is_blocked (as_db ?s1) (as_now s) scope key m w" using mono [OF b'(1)] that by blast
    then show ?thesis using Cons.prems
      by (simp add: is_blocked_eq row_map_fold_bumped row_map_bumped a)
  qed
  then show ?case using run b'(2) by (auto simp: any_blocked_def a o_def)
qed

lemma distinct_scopes: "distinct (attempt_scopes tok user ip)"
  by (simp add: attempt_scopes_def)

lemma user_scope: "(''user'', str_of_int user) \<in> set (attempt_scopes tok user ip) \<longleftrightarrow> str_of_int user \<noteq> []"
  by (auto simp: attempt_scopes_def)

lemma str_of_int_not_Nil: "str_of_int n \<noteq> []"
  by (simp add: str_of_int_def str_of_nat.simps)

text \<open>Entering codes one after the other with one pending token.\<close>

definition enter_code :: "auth_env \<Rightarrow> login_input \<Rightarrow> string \<Rightarrow> auth_state \<Rightarrow> (auth_error + login_result option) \<times> auth_state" where
  "enter_code e inp code = login e (inp\<lparr>li_two_factor_code := Some code\<rparr>)"

definition enter_codes :: "auth_env \<Rightarrow> login_input \<Rightarrow> string list \<Rightarrow> auth_state \<Rightarrow> auth_state" where
  "enter_codes e inp codes s = fold (\<lambda>code s. snd (enter_code e inp code s)) codes s"

lemma enter_code_run:
  assumes "li_pending_token inp = Some tok" "tok \<noteq> []" "code \<noteq> []"
    "pending_user_id (as_db s) (as_now s) tok = Some i" "i \<noteq> 0"
  shows "enter_code e inp code s = transaction
    (py_bind (second_factor e inp i (get_enabled_secret (as_db s) i) tok code) (finish_login e (inp\<lparr>li_two_factor_code := Some code\<rparr>) i tok)) s"
proof -
  have "second_factor e (inp\<lparr>li_two_factor_code := Some code\<rparr>) = second_factor e inp"
    by (simp add: second_factor_def fun_eq_iff split: option.split)
  then show ?thesis
    using assms login_step2_run [OF assms(4,5), of e "inp\<lparr>li_two_factor_code := Some code\<rparr>" code]
    by (simp add: enter_code_def login_def str_or_def transaction_def)
qed

lemma restore_db: "s1\<lparr>as_db := d\<rparr>\<lparr>as_db := as_db s\<rparr> = s1\<lparr>as_db := as_db s\<rparr>"
  by simp

text \<open>A wrong authenticator code.\<close>

lemma enter_wrong_authenticator:
  assumes tok: "li_pending_token inp = Some tok" "tok \<noteq> []" "code \<noteq> []"
    "pending_user_id (as_db s) (as_now s) tok = Some i" "i \<noteq> 0"
    and secret: "get_enabled_secret (as_db s) i = Some secret"
    and wrong: "verify_authenticator_code e (as_now s) secret code = Inr False"
    and open_: "\<not> any_blocked s (fst (authenticator_limits e)) (snd (authenticator_limits e)) (authenticator_scopes i tok (li_ip inp))"
  shows "\<exists>f. snd (enter_code e inp code s) = with_attempts f s \<and>
    \<not> any_blocked (with_attempts f s) (fst (authenticator_limits e)) (snd (authenticator_limits e))
        (authenticator_scopes i tok (li_ip inp))"
proof -
  let ?scopes = "authenticator_scopes i tok (li_ip inp)"
  let ?w = "snd (authenticator_limits e)"
  let ?s1 = "with_attempts (fold (bumped (as_now s) ?w) ?scopes) s"
  obtain b where b: "record_authenticator_failed e ?scopes False s = (Inr b, ?s1)"
      "\<not> b \<longrightarrow> \<not> any_blocked ?s1 (fst (authenticator_limits e)) ?w ?scopes"
    using record_authenticator_run [of ?scopes e False s] by (auto simp: authenticator_scopes_def distinct_scopes)
  have check: "check_authenticator e i secret tok code (li_ip inp) s =
      (if b then (Inl Too_many_attempts, ?s1) else (Inr False, ?s1))"
    using open_ wrong b(1) by (cases "authenticator_limits e") (simp add: check_authenticator_def Let_def py_run_bind)
  show ?thesis
  proof (cases b)
    case True
    have "enter_code e inp code s = (Inl Too_many_attempts, s)"
      using check True secret
      by (simp add: enter_code_run [OF tok] transaction_def py_run_bind second_factor_def py_run_try py_run_seq
          consume_pending_def with_attempts_def)
    then show ?thesis using open_ by (intro exI [of _ id]) simp
  next
    case False
    have "enter_code e inp code s = (Inr None, ?s1)"
      using check False secret
      by (simp add: enter_code_run [OF tok] transaction_def py_run_bind second_factor_def py_run_try finish_login_def)
    then show ?thesis using b(2) False by auto
  qed
qed

text \<open>C28: the lock on authenticator codes never engages. The fifth wrong code raises the limit error inside the
  transaction of the login, which rolls its own count back. So, however many wrong codes were entered
  with a pending token, the correct one is still accepted: as long as the token lives the code of an
  authenticator can be guessed without limit.\<close>

theorem authenticator_guesses_unlimited:
  assumes tok: "li_pending_token inp = Some tok" "tok \<noteq> []" "pending_user_id (as_db s) (as_now s) tok = Some i" "i \<noteq> 0"
    and user: "live_user (as_db s) i = Some u" "au_is_active u"
    and secret: "get_enabled_secret (as_db s) i = Some secret"
    and open_: "\<not> any_blocked s (fst (authenticator_limits e)) (snd (authenticator_limits e)) (authenticator_scopes i tok (li_ip inp))"
    and wrong: "\<forall>c \<in> set codes. c \<noteq> [] \<and> verify_authenticator_code e (as_now s) secret c = Inr False"
    and right: "verify_authenticator_code e (as_now s) secret code = Inr True" "code \<noteq> []"
  shows "\<exists>r. fst (enter_code e inp code (enter_codes e inp codes s)) = Inr (Some (Login_success r)) \<and> ls_user r = u"
proof -
  have "\<exists>f. enter_codes e inp codes s = with_attempts f s \<and>
      \<not> any_blocked (with_attempts f s) (fst (authenticator_limits e)) (snd (authenticator_limits e))
          (authenticator_scopes i tok (li_ip inp))"
    using wrong
  proof (induction codes rule: rev_induct)
    case Nil
    show ?case using open_ by (intro exI [of _ id]) (simp add: enter_codes_def)
  next
    case (snoc c codes)
    then obtain f where f: "enter_codes e inp codes s = with_attempts f s"
        "\<not> any_blocked (with_attempts f s) (fst (authenticator_limits e)) (snd (authenticator_limits e))
            (authenticator_scopes i tok (li_ip inp))" by auto
    let ?u = "with_attempts f s"
    obtain g where "snd (enter_code e inp c ?u) = with_attempts g ?u"
        "\<not> any_blocked (with_attempts g ?u) (fst (authenticator_limits e)) (snd (authenticator_limits e))
            (authenticator_scopes i tok (li_ip inp))"
      using enter_wrong_authenticator [of inp tok c ?u i secret e] tok secret f(2) snoc.prems by auto
    then show ?case using f(1)
      by (intro exI [of _ "\<lambda>rows. g (f rows)"]) (simp add: enter_codes_def)
  qed
  then obtain f where f: "enter_codes e inp codes s = with_attempts f s"
      "\<not> any_blocked (with_attempts f s) (fst (authenticator_limits e)) (snd (authenticator_limits e))
          (authenticator_scopes i tok (li_ip inp))" by blast
  let ?u = "with_attempts f s"
  have check: "check_authenticator e i secret tok code (li_ip inp) ?u =
      (Inr True, snd (reset_for_success tok i (li_ip inp) ?u))"
    using f(2) right(1) by (cases "authenticator_limits e")
      (simp add: check_authenticator_def Let_def py_run_bind py_run_seq reset_for_success_def)
  let ?u1 = "snd (reset_for_success tok i (li_ip inp) ?u)"
  have live: "live_user (as_db (snd (consume_pending tok ?u1))) i = Some u"
    using user(1) by (simp add: reset_for_success_def consume_pending_def with_attempts_def live_user_def)
  obtain r where r: "fst (succeed e (inp\<lparr>li_two_factor_code := Some code\<rparr>) u (snd (consume_pending tok ?u1))) =
      Inr (Some (Login_success r))" "ls_user r = u" using succeed_run by (metis fst_conv)
  have fin: "fst (finish_login e (inp\<lparr>li_two_factor_code := Some code\<rparr>) i tok True ?u1) = Inr (Some (Login_success r))"
  proof -
    have "fst (consume_pending tok ?u1) = Inr ()" by (simp add: consume_pending_def)
    then show ?thesis using live user(2) r(1) by (simp add: finish_login_def py_run_seq py_run_bind)
  qed
  have "second_factor e inp i (Some secret) tok code ?u = (Inr True, ?u1)"
    using check by (simp add: second_factor_def py_run_try)
  then have "fst (enter_code e inp code ?u) = Inr (Some (Login_success r))"
    using enter_code_run [of inp tok code ?u i e] tok right(2) secret fin
    by (simp add: transaction_def py_run_bind split: prod.splits sum.splits)
  then show ?thesis using f(1) r(2) by auto
qed

text \<open>The counters after \<open>k\<close> wrong emailed codes.\<close>

definition counted :: "auth_env \<Rightarrow> datetime \<Rightarrow> nat \<Rightarrow> (string \<times> string) list \<Rightarrow> two_factor_attempt list \<Rightarrow> bool" where
  "counted e now k scopes rows \<longleftrightarrow> (\<forall>sk \<in> set scopes. row_map attempt_key rows sk =
     (if k = 0 then None else Some \<lparr>ta_scope = fst sk, ta_scope_key = snd sk,
        ta_attempts = min (int k) (ax_max_attempts e), ta_window_start_at = now\<rparr>))"

lemma counted_blocked:
  assumes "counted e now k scopes (ad_attempts (as_db s))" "scopes \<noteq> []" "1 \<le> ax_max_attempts e"
    "as_now s \<le> now + minutes (ax_attempt_window_minutes e)"
  shows "any_blocked s (ax_max_attempts e) (ax_attempt_window_minutes e) scopes \<longleftrightarrow> ax_max_attempts e \<le> int k"
proof -
  have "is_blocked (as_db s) (as_now s) scope key (ax_max_attempts e) (ax_attempt_window_minutes e) \<longleftrightarrow>
      ax_max_attempts e \<le> int k" if "(scope, key) \<in> set scopes" for scope key
    using assms(1,3,4) that by (auto simp: counted_def is_blocked_eq)
  then show ?thesis using assms(2) by (auto simp: any_blocked_def list_ex_iff neq_Nil_conv)
qed

lemma enter_emailed_blocked:
  assumes tok: "li_pending_token inp = Some tok" "tok \<noteq> []" "code \<noteq> []"
    "pending_user_id (as_db s) (as_now s) tok = Some i" "i \<noteq> 0"
    and secret: "get_enabled_secret (as_db s) i = None"
    and blocked: "any_blocked s (ax_max_attempts e) (ax_attempt_window_minutes e) (attempt_scopes tok i (str_or (li_ip inp) []))"
  shows "enter_code e inp code s = (Inl Too_many_attempts, s)"
proof -
  have "str_or (Some tok) [] = tok" using tok(2) by (simp add: str_or_def)
  then have "verify_code e i code (Some tok) (li_ip inp) s = (Inl Too_many_attempts, s)"
    using blocked by (simp add: verify_code_def Let_def py_run_bind)
  then show ?thesis using secret
    by (simp add: enter_code_run [OF tok] transaction_def py_run_bind second_factor_def py_run_try py_run_seq
        consume_pending_def)
qed

lemma enter_emailed_wrong:
  assumes tok: "li_pending_token inp = Some tok" "tok \<noteq> []" "code \<noteq> []"
    "pending_user_id (as_db s) (as_now s) tok = Some i" "i \<noteq> 0"
    and secret: "get_enabled_secret (as_db s) i = None"
    and wrong: "get_valid_code (as_db s) (as_now s) i (ax_sha256 e code) = None"
    and limits: "1 \<le> ax_max_attempts e" "0 \<le> ax_attempt_window_minutes e"
    and count: "counted e (as_now s) k (attempt_scopes tok i (str_or (li_ip inp) [])) (ad_attempts (as_db s))"
  shows "\<exists>f. snd (enter_code e inp code s) = with_attempts f s \<and>
    counted e (as_now s) (Suc k) (attempt_scopes tok i (str_or (li_ip inp) [])) (f (ad_attempts (as_db s)))"
proof -
  let ?scopes = "attempt_scopes tok i (str_or (li_ip inp) [])" and ?w = "ax_attempt_window_minutes e"
  have tok': "str_or (Some tok) [] = tok" using tok(2) by (simp add: str_or_def)
  have ne: "?scopes \<noteq> []" using tok(2) by (simp add: attempt_scopes_def)
  have now: "as_now s \<le> as_now s + minutes ?w" using limits(2) by (simp add: minutes_def)
  show ?thesis
  proof (cases "ax_max_attempts e \<le> int k")
    case True
    then have "snd (enter_code e inp code s) = s"
      using enter_emailed_blocked [OF tok secret] counted_blocked [OF count ne limits(1) now] by simp
    then show ?thesis using count True limits(1) by (intro exI [of _ id]) (auto simp: counted_def)
  next
    case False
    let ?f = "fold (bumped (as_now s) ?w) ?scopes"
    have "verify_code e i code (Some tok) (li_ip inp) s = (Inr False, with_attempts ?f s)"
      using counted_blocked [OF count ne limits(1) now] False wrong tok(2)
      by (simp add: verify_code_def Let_def py_run_bind py_run_seq record_all_run tok')
    then have "snd (enter_code e inp code s) = with_attempts ?f s" using secret
      by (simp add: enter_code_run [OF tok] transaction_def py_run_bind second_factor_def py_run_try finish_login_def)
    moreover have "counted e (as_now s) (Suc k) ?scopes (?f (ad_attempts (as_db s)))"
      using count False limits
      by (auto simp: counted_def row_map_fold_bumped [OF distinct_scopes] bumped_row_def minutes_def)
    ultimately show ?thesis by blast
  qed
qed

text \<open>C33: emailed codes do lock. After as many wrong codes as the limit allows, entered with a fresh pending
  token, every further attempt raises the limit error, also with the correct code, and changes nothing,
  until the window is over.\<close>

theorem emailed_codes_lock:
  assumes tok: "li_pending_token inp = Some tok" "tok \<noteq> []" "pending_user_id (as_db s) (as_now s) tok = Some i" "i \<noteq> 0"
    and secret: "get_enabled_secret (as_db s) i = None"
    and limits: "1 \<le> ax_max_attempts e" "0 \<le> ax_attempt_window_minutes e"
    and fresh: "\<forall>sk \<in> set (attempt_scopes tok i (str_or (li_ip inp) [])). row_map attempt_key (ad_attempts (as_db s)) sk = None"
    and wrong: "\<forall>c \<in> set codes. c \<noteq> [] \<and> get_valid_code (as_db s) (as_now s) i (ax_sha256 e c) = None"
    and enough: "ax_max_attempts e \<le> int (length codes)"
    and later: "t \<le> as_now s + minutes (ax_attempt_window_minutes e)" "pending_user_id (as_db s) t tok = Some i" "code \<noteq> []"
  defines "s' \<equiv> (enter_codes e inp codes s)\<lparr>as_now := t\<rparr>"
  shows "enter_code e inp code s' = (Inl Too_many_attempts, s')"
proof -
  let ?scopes = "attempt_scopes tok i (str_or (li_ip inp) [])"
  have "\<exists>f. enter_codes e inp codes s = with_attempts f s \<and>
      counted e (as_now s) (length codes) ?scopes (f (ad_attempts (as_db s)))"
    using wrong
  proof (induction codes rule: rev_induct)
    case Nil
    show ?case using fresh by (intro exI [of _ id]) (simp add: enter_codes_def counted_def)
  next
    case (snoc c codes)
    then obtain f where f: "enter_codes e inp codes s = with_attempts f s"
        "counted e (as_now s) (length codes) ?scopes (f (ad_attempts (as_db s)))" by auto
    let ?u = "with_attempts f s"
    obtain g where "snd (enter_code e inp c ?u) = with_attempts g ?u"
        "counted e (as_now s) (Suc (length codes)) ?scopes (g (f (ad_attempts (as_db s))))"
      using enter_emailed_wrong [of inp tok c ?u i e "length codes"] tok secret limits f(2) snoc.prems by auto
    then show ?case using f(1)
      by (intro exI [of _ "\<lambda>rows. g (f rows)"]) (simp add: enter_codes_def)
  qed
  then obtain f where f: "enter_codes e inp codes s = with_attempts f s"
      "counted e (as_now s) (length codes) ?scopes (f (ad_attempts (as_db s)))" by blast
  have db: "as_db s' = as_db (with_attempts f s)" "as_now s' = t" by (simp_all add: s'_def f(1))
  have "any_blocked s' (ax_max_attempts e) (ax_attempt_window_minutes e) ?scopes"
    using counted_blocked [of e "as_now s" "length codes" ?scopes s'] f(2) limits(1) enough later(1) tok(2)
    by (simp add: db attempt_scopes_def)
  then show ?thesis
    using tok later secret by (intro enter_emailed_blocked [of inp tok code s' i]) (simp_all add: db)
qed

section \<open>Examples\<close>

definition demo_auth_user :: auth_user where
  "demo_auth_user = \<lparr>au_id = 7, au_email = ''a@b.hu'', au_password_hash = ''h'', au_is_active = True, au_role = ''user'',
     au_failed_login_attempts = 0, au_security_version = 1, au_deleted = False, au_created_at = unix_epoch,
     au_name = None, au_registration_completed_at = Some unix_epoch, au_preferred_locale = None, au_preferred_theme = None,
     au_credentials_password_set = True, au_pending_email = None, au_pending_email_token_hash = None,
     au_pending_email_expires_at = None\<rparr>"

definition demo_authenticator :: user_authenticator where
  "demo_authenticator = \<lparr>ua_user_id = 7, ua_secret_base32 = Some ''AAAAAAAA'', ua_is_enabled = True,
     ua_pending_secret_base32 = None, ua_pending_expires_at = None\<rparr>"

definition demo_auth_db :: "user_authenticator list \<Rightarrow> auth_db" where
  "demo_auth_db authenticators = \<lparr>ad_users = [demo_auth_user], ad_sessions = [],
     ad_pending = [\<lparr>p2_token = ''tok'', p2_user_id = 7, p2_expires_at = unix_epoch + minutes 11\<rparr>], ad_codes = [],
     ad_attempts = [], ad_authenticators = authenticators, ad_queued_mails = [], ad_invites = []\<rparr>"

definition demo_auth_state :: "user_authenticator list \<Rightarrow> auth_state" where
  "demo_auth_state authenticators = \<lparr>as_db = demo_auth_db authenticators, as_now = unix_epoch + minutes 1, as_drawn = 0,
     as_next_session = 1, as_next_code = 1, as_sent_mails = [], as_permissions_changed = [], as_next_user = 8,
     as_next_invite = 1, as_sent_links = [],
     as_web = \<lparr>wb_allow_redis = [], wb_allow_memory = [], wb_user_cache = []\<rparr>\<rparr>"

definition demo_tokens :: token_service where
  "demo_tokens = \<lparr>tk_issuer = None, tk_audience = None, tk_access_exp = 15, tk_refresh_exp = 43200,
     tk_refresh_session_exp = Some 1440\<rparr>"

text \<open>A digest of zeros gives the code 000000 at every time; a token is its serial number.\<close>

definition demo_auth_env :: auth_env where
  "demo_auth_env = \<lparr>ax_tokens = demo_tokens, ax_uuid = (\<lambda>n. replicate n CHR ''u''), ax_randbelow = id,
     ax_random_bytes = (\<lambda>_. replicate 16 0), ax_sha256 = id, ax_jwt_encode = (\<lambda>c. the (cl_jti c)),
     ax_jwt_decode = (\<lambda>_ _ _. Inl Decode_error), ax_verify_password = (\<lambda>p h. p = h),
     ax_hmac_sha1 = (\<lambda>_ _. replicate 20 0), ax_two_factor_enabled = True, ax_max_attempts = 5,
     ax_attempt_window_minutes = 15, ax_code_expiry_minutes = 10, ax_event_channel = None,
     ax_send_mail = (\<lambda>_. Some True), ax_token_urlsafe = (\<lambda>n. replicate n CHR ''v''), ax_token_hex = (\<lambda>n. replicate n CHR ''f''),
     ax_hash_password = (\<lambda>n p. p), ax_email_service = True,
     ax_invite_ttl_hours = 4, ax_set_password_path = None, ax_password_level = None\<rparr>"

definition demo_login_input :: login_input where
  "demo_login_input = \<lparr>li_email = None, li_password = None, li_pending_token = Some ''tok'', li_two_factor_code = None,
     li_ip = Some ''10.0.0.1'', li_ua = None, li_auto_login = False, li_tenant_ver = 0\<rparr>"

lemma demo_hotp: "0 \<le> k \<Longrightarrow> k < 1000 \<Longrightarrow> hotp demo_auth_env ''AAAAAAAA'' k = Some ''000000''"
proof -
  assume k: "0 \<le> k" "k < 1000"
  have s: "sanitize_totp_secret ''AAAAAAAA'' = ''AAAAAAAA''"
    by (simp add: sanitize_totp_secret_def upper_char_def ascii_alnum_def)
  have z: "hotp_truncate (replicate 20 0) = 0"
    by (simp add: hotp_truncate_def Let_def word_rcat_def eval_nat_numeral)
  have h: "ax_hmac_sha1 demo_auth_env key msg = replicate 20 0" for key msg by (simp add: demo_auth_env_def)
  have v: "b32_value CHR ''A'' = Some 0" by (simp add: b32_value_def)
  have "those (map b32_value ''AAAAAAAA'') = Some [0, 0, 0, 0, 0, 0, 0, 0]" by (simp add: v)
  then have "b32decode ''AAAAAAAA'' = Some (bytes_of_nat 5 (fold (\<lambda>v acc. acc * 32 + v) [0, 0, 0, 0, 0, 0, 0, 0] 0) @ [])"
    by (subst b32decode.simps(1), subst b32decode.simps(2)) (simp only: option.case prod.case)
  then obtain key where key: "b32decode ''AAAAAAAA'' = Some key" by (rule that)
  moreover have "pad_dec 6 (0::nat) = ''000000''" by code_simp
  ultimately show ?thesis using k by (simp add: hotp_def s h z Let_def del: b32decode.simps)
qed

lemma demo_pending:
  "t \<le> unix_epoch + minutes 10 \<Longrightarrow> pending_user_id (as_db (demo_auth_state rows)) t ''tok'' = Some 7"
  by (simp add: pending_user_id_def demo_auth_state_def demo_auth_db_def minutes_def)

lemma demo_secret: "get_enabled_secret (as_db (demo_auth_state [demo_authenticator])) 7 = Some ''AAAAAAAA''"
  by (simp add: get_enabled_secret_def authenticator_of_def row_map_def demo_auth_state_def demo_auth_db_def
      demo_authenticator_def strip_opt_def str_or_def Let_def py_strip_def py_lstrip_def py_space_def)

lemma demo_no_secret: "get_enabled_secret (as_db (demo_auth_state [])) 7 = None"
  by (simp add: get_enabled_secret_def authenticator_of_def row_map_def demo_auth_state_def demo_auth_db_def)

lemma demo_user_found: "live_user (as_db (demo_auth_state rows)) 7 = Some demo_auth_user" "au_is_active demo_auth_user"
  by (simp_all add: live_user_def demo_auth_state_def demo_auth_db_def demo_auth_user_def)

lemma demo_not_blocked: "\<not> any_blocked (demo_auth_state rows) m w scopes"
  by (auto simp: any_blocked_def list_ex_iff is_blocked_def attempt_row_def row_map_def demo_auth_state_def demo_auth_db_def)

lemma demo_counter: "now_counter (as_now (demo_auth_state rows)) = 2"
  by (simp add: now_counter_def demo_auth_state_def minutes_def seconds_def)

lemma demo_right: "verify_authenticator_code demo_auth_env (as_now (demo_auth_state rows)) ''AAAAAAAA'' ''000000'' = Inr True"
  by (simp add: verify_authenticator_code_def demo_counter demo_hotp ascii_digit_def)

lemma demo_wrong: "verify_authenticator_code demo_auth_env (as_now (demo_auth_state rows)) ''AAAAAAAA'' ''111111'' = Inr False"
  by (simp add: verify_authenticator_code_def demo_counter demo_hotp ascii_digit_def)

lemma demo_input_token: "li_pending_token demo_login_input = Some ''tok''"
  by (simp add: demo_login_input_def)

text \<open>A thousand wrong codes, and the right one.\<close>

lemma authenticator_guesses_unlimited_witness:
  "\<exists>r. fst (enter_code demo_auth_env demo_login_input ''000000'' (enter_codes demo_auth_env demo_login_input
      (replicate 1000 ''111111'') (demo_auth_state [demo_authenticator]))) = Inr (Some (Login_success r)) \<and> ls_user r = demo_auth_user"
proof (rule authenticator_guesses_unlimited [OF demo_input_token _ _ _ demo_user_found demo_secret demo_not_blocked _ demo_right])
  show "pending_user_id (as_db (demo_auth_state [demo_authenticator])) (as_now (demo_auth_state [demo_authenticator])) ''tok'' = Some 7"
    by (rule demo_pending) (simp add: demo_auth_state_def minutes_def)
  show "\<forall>c \<in> set (replicate 1000 ''111111''). c \<noteq> [] \<and> verify_authenticator_code demo_auth_env
      (as_now (demo_auth_state [demo_authenticator])) ''AAAAAAAA'' c = Inr False"
    by (simp add: demo_wrong in_set_replicate)
qed simp_all

lemma emailed_codes_lock_witness:
  "fst (enter_code demo_auth_env demo_login_input ''123456'' ((enter_codes demo_auth_env demo_login_input
      (replicate 5 ''111111'') (demo_auth_state []))\<lparr>as_now := unix_epoch + minutes 10\<rparr>)) = Inl Too_many_attempts"
proof -
  let ?s = "demo_auth_state []"
  have now: "pending_user_id (as_db ?s) (as_now ?s) ''tok'' = Some 7"
    by (rule demo_pending) (simp add: demo_auth_state_def minutes_def)
  have limits: "1 \<le> ax_max_attempts demo_auth_env" "0 \<le> ax_attempt_window_minutes demo_auth_env"
    by (simp_all add: demo_auth_env_def)
  have fresh: "\<forall>sk \<in> set (attempt_scopes ''tok'' 7 (str_or (li_ip demo_login_input) [])).
      row_map attempt_key (ad_attempts (as_db ?s)) sk = None"
    by (simp add: row_map_def demo_auth_state_def demo_auth_db_def)
  have wrong: "\<forall>c \<in> set (replicate 5 ''111111''). c \<noteq> [] \<and>
      get_valid_code (as_db ?s) (as_now ?s) 7 (ax_sha256 demo_auth_env c) = None"
    by (simp add: get_valid_code_def demo_auth_state_def demo_auth_db_def in_set_replicate)
  have enough: "ax_max_attempts demo_auth_env \<le> int (length (replicate 5 ''111111''))" by (simp add: demo_auth_env_def)
  have later: "unix_epoch + minutes 10 \<le> as_now ?s + minutes (ax_attempt_window_minutes demo_auth_env)"
    by (simp add: demo_auth_state_def demo_auth_env_def minutes_def)
  show ?thesis
    using emailed_codes_lock [OF demo_input_token _ now _ demo_no_secret limits fresh wrong enough later demo_pending, of "''123456''"]
    by simp
qed

lemma login_needs_factors_witness:
  "\<exists>r s'. login demo_auth_env (demo_login_input\<lparr>li_two_factor_code := Some ''000000''\<rparr>) (demo_auth_state [demo_authenticator]) =
      (Inr (Some (Login_success r)), s') \<and> au_is_active (ls_user r) \<and> \<not> au_deleted (ls_user r)"
proof -
  let ?s = "demo_auth_state [demo_authenticator]"
  have now: "pending_user_id (as_db ?s) (as_now ?s) ''tok'' = Some 7"
    by (rule demo_pending) (simp add: demo_auth_state_def minutes_def)
  have "second_factor demo_auth_env demo_login_input 7 (Some ''AAAAAAAA'') ''tok'' ''000000'' ?s =
      (Inr True, snd (reset_for_success ''tok'' 7 (li_ip demo_login_input) ?s))"
    using demo_not_blocked demo_right
    by (cases "authenticator_limits demo_auth_env")
      (simp add: second_factor_def py_run_try check_authenticator_def Let_def py_run_bind py_run_seq reset_for_success_def)
  moreover have "\<exists>r. fst (finish_login demo_auth_env (demo_login_input\<lparr>li_two_factor_code := Some ''000000''\<rparr>) 7 ''tok'' True
      (snd (reset_for_success ''tok'' 7 (li_ip demo_login_input) ?s))) = Inr (Some (Login_success r))"
  proof -
    let ?u = "snd (consume_pending ''tok'' (snd (reset_for_success ''tok'' 7 (li_ip demo_login_input) ?s)))"
    have "live_user (as_db ?u) 7 = Some demo_auth_user"
      using demo_user_found(1) [of "[demo_authenticator]"] by (simp add: reset_for_success_def consume_pending_def live_user_def)
    moreover have "fst (consume_pending ''tok'' s) = Inr ()" for s by (simp add: consume_pending_def)
    moreover obtain r where "fst (succeed demo_auth_env (demo_login_input\<lparr>li_two_factor_code := Some ''000000''\<rparr>)
        demo_auth_user ?u) = Inr (Some (Login_success r))" using succeed_run by (metis fst_conv)
    ultimately show ?thesis using demo_user_found(2) by (simp add: finish_login_def py_run_seq py_run_bind)
  qed
  ultimately obtain r s' where run: "login demo_auth_env (demo_login_input\<lparr>li_two_factor_code := Some ''000000''\<rparr>) ?s =
      (Inr (Some (Login_success r)), s')"
    using enter_code_run [OF demo_input_token _ _ now, of "''000000''" demo_auth_env] demo_secret
    by (auto simp: enter_code_def transaction_def py_run_bind split: prod.splits sum.splits)
  then show ?thesis using login_needs_factors [OF run] by blast
qed

end
