(* ===== verification/Auth_Session_Facts.thy ===== *)
theory Auth_Session_Facts
  imports Auth_Login_Facts
begin

text \<open>
  Refresh sessions: a refresh token works once and its reuse revokes every session of the user; and,
  given that a verified token was handed out by the service, no user ever has two valid sessions.
\<close>

section \<open>Reading back a user id\<close>

lemma digit_of_digit: "n < 10 \<Longrightarrow> digit_of (digit_char n) = Some n"
  by (simp add: digit_of_def digit_char_def)

lemma dec_str_of_nat: "\<forall>c \<in> set (str_of_nat n). digit_of c \<noteq> None"
  by (induction n rule: str_of_nat.induct) (subst str_of_nat.simps, auto simp: digit_of_digit)

lemma digits_after_dec: "\<forall>c \<in> set s. digit_of c \<noteq> None \<Longrightarrow> digits_after acc s = parse_dec_acc acc s"
proof (induction s arbitrary: acc)
  case (Cons c s)
  then have "c \<noteq> CHR ''_''" by (auto simp: digit_of_def)
  with Cons show ?case by (auto split: option.splits)
qed simp

lemma py_digits_str: "py_digits (str_of_nat n) = Some n"
proof -
  obtain c cs where s: "str_of_nat n = c # cs"
    by (metis neq_Nil_conv append_is_Nil_conv list.distinct(1) str_of_nat.simps)
  have "digit_of c \<noteq> None" "\<forall>x \<in> set cs. digit_of x \<noteq> None" using dec_str_of_nat [of n] by (simp_all add: s)
  then show ?thesis using parse_str_of_nat [of n] by (auto simp: s py_digits_def digits_after_dec)
qed

lemma digit_not_special: "digit_of c \<noteq> None \<Longrightarrow> \<not> py_space c \<and> c \<noteq> CHR ''-'' \<and> c \<noteq> CHR ''+''"
  by (auto simp: digit_of_def py_space_def Let_def split: if_splits)

lemma py_int_str: "py_int (str_of_int i) = Some i"
proof (cases "i < 0")
  case True
  have "\<forall>c \<in> set (str_of_int i). \<not> py_space c"
    using dec_str_of_nat [of "nat (- i)"] digit_not_special True by (auto simp: str_of_int_def py_space_def)
  then have "py_strip (str_of_int i) = str_of_int i" by (rule py_strip_no_space)
  with True show ?thesis by (simp add: py_int_def str_of_int_def py_digits_str)
next
  case False
  obtain c cs where s: "str_of_nat (nat i) = c # cs"
    by (metis neq_Nil_conv append_is_Nil_conv list.distinct(1) str_of_nat.simps)
  have "\<forall>c \<in> set (str_of_nat (nat i)). \<not> py_space c"
    using dec_str_of_nat [of "nat i"] digit_not_special by auto
  then have "py_strip (str_of_nat (nat i)) = str_of_nat (nat i)" by (rule py_strip_no_space)
  moreover have "c \<noteq> CHR ''-''" "c \<noteq> CHR ''+''"
    using dec_str_of_nat [of "nat i"] digit_not_special s by auto
  ultimately show ?thesis using False py_digits_str [of "nat i"] by (simp add: py_int_def str_of_int_def s)
qed

section \<open>A refresh that succeeds\<close>

lemma find_update_keeps:
  "(\<And>x. P (f x) = P x) \<Longrightarrow> find P (update_where Q f xs) = map_option (\<lambda>x. if Q x then f x else x) (find P xs)"
  by (induction xs) (auto simp: update_where_def)

definition new_session :: "auth_env \<Rightarrow> int \<Rightarrow> string option \<Rightarrow> string option \<Rightarrow> bool \<Rightarrow> int \<Rightarrow> int \<Rightarrow> auth_state \<Rightarrow> session" where
  "new_session e user ip ua al uv tv s =
     (let c = refresh_claims e (as_now s) (ax_uuid e (as_drawn s)) user al uv tv in
      \<lparr>ss_id = as_next_session s, ss_user_id = user, ss_jti = ax_uuid e (as_drawn s),
       ss_token_hash = hash_token e (ax_jwt_encode e c), ss_valid = True, ss_ip = ip,
       ss_user_agent = ua, ss_expires_at = cl_exp c\<rparr>)"

definition with_sessions :: "(session list \<Rightarrow> session list) \<Rightarrow> auth_state \<Rightarrow> auth_state" where
  "with_sessions f s = s\<lparr>as_db := (as_db s)\<lparr>ad_sessions := f (ad_sessions (as_db s))\<rparr>\<rparr>"

definition close_session :: "session \<Rightarrow> session list \<Rightarrow> session list" where
  "close_session rec = update_where (\<lambda>x. ss_id x = ss_id rec)
     (\<lambda>x. x\<lparr>ss_valid := False, ss_expires_at := ss_expires_at rec, ss_ip := ss_ip rec,
            ss_user_agent := ss_user_agent rec\<rparr>)"

definition close_user :: "int \<Rightarrow> session list \<Rightarrow> session list" where
  "close_user user = update_where (\<lambda>x. ss_user_id x = user \<and> ss_valid x) invalidate_session"

lemma update_session_run: "update_session (invalidate_session rec) s = (Inr (), with_sessions (close_session rec) s)"
  by (simp add: update_session_def with_sessions_def close_session_def invalidate_session_def)

lemma invalidate_all_run: "invalidate_all_for_user user s = (Inr (), with_sessions (close_user user) s)"
  by (simp add: invalidate_all_for_user_def with_sessions_def close_user_def)

definition rotated_state :: "auth_env \<Rightarrow> session \<Rightarrow> int \<Rightarrow> string option \<Rightarrow> string option \<Rightarrow> bool \<Rightarrow> int \<Rightarrow> int \<Rightarrow> auth_state \<Rightarrow> auth_state" where
  "rotated_state e rec user ip ua al uv tv s =
     (with_sessions (\<lambda>xs. close_session rec xs @ [new_session e user ip ua al uv tv s]) s)
       \<lparr>as_drawn := as_drawn s + 2, as_next_session := as_next_session s + 1\<rparr>"

definition user_ver_of :: "auth_user option \<Rightarrow> int" where
  "user_ver_of user = (case user of None \<Rightarrow> 0 | Some u \<Rightarrow> au_security_version u)"

lemma rotate_run:
  "\<exists>r. rotate e rec user_id user al ip ua tenant s =
      (Inr (Refresh_success r), rotated_state e rec user_id ip ua al (user_ver_of user) (context_ver tenant) s) \<and>
    rs_refresh_token r = ax_jwt_encode e
      (refresh_claims e (as_now s) (ax_uuid e (as_drawn s)) user_id al (user_ver_of user) (context_ver tenant))"
  by (simp add: rotate_def Let_def py_run_bind py_run_seq update_session_run make_refresh_pair_def make_access_def
      create_session_def rotated_state_def with_sessions_def new_session_def user_ver_of_def refresh_claims_def)

text \<open>Which session a refresh token stands for, and as which user.\<close>

definition token_session :: "auth_env \<Rightarrow> auth_state \<Rightarrow> tenant_context \<Rightarrow> claims \<Rightarrow> session \<Rightarrow> int \<Rightarrow> bool" where
  "token_session e s tenant c rec user_id \<longleftrightarrow>
     cl_typ c = Some ''refresh'' \<and> Option.bind (cl_sub c) py_int = Some user_id \<and>
     cl_user_ver c = user_ver_of (live_user (as_db s) user_id) \<and> cl_tenant_ver c = context_ver tenant \<and>
     (\<exists>jti. cl_jti c = Some jti \<and> session_by_jti (as_db s) jti = Some rec)"

lemma refresh_with_session:
  "token_session e s tenant c rec user_id \<Longrightarrow>
    refresh_with e c ip ua tenant s = check_session e rec user_id (live_user (as_db s) user_id) (cl_al c) ip ua tenant s"
  by (auto simp: token_session_def refresh_with_def user_ver_of_def py_run_bind)

lemma refresh_with_other:
  assumes "\<not> (\<exists>rec user_id. token_session e s tenant c rec user_id)"
  shows "\<exists>res. refresh_with e c ip ua tenant s = (res, s) \<and> (\<forall>r. res \<noteq> Inr (Refresh_success r))"
proof (cases "cl_typ c = Some ''refresh''")
  case False
  then show ?thesis by (simp add: refresh_with_def)
next
  case refreshing: True
  show ?thesis
  proof (cases "Option.bind (cl_sub c) py_int")
    case None
    with refreshing show ?thesis by (simp add: refresh_with_def)
  next
    case (Some user_id)
    show ?thesis
    proof (cases "cl_user_ver c = user_ver_of (live_user (as_db s) user_id) \<and> cl_tenant_ver c = context_ver tenant")
      case False
      with refreshing Some show ?thesis
        by (auto simp: refresh_with_def py_run_bind user_ver_of_def)
    next
      case True
      then have "(case cl_jti c of None \<Rightarrow> None | Some jti \<Rightarrow> session_by_jti (as_db s) jti) = None"
        using assms refreshing Some by (auto simp: token_session_def split: option.splits)
      with True refreshing Some show ?thesis by (simp add: refresh_with_def py_run_bind user_ver_of_def)
    qed
  qed
qed

lemma check_session_run:
  assumes "\<not> permissions_changed_get s (context_slug tenant) (ss_user_id rec)"
  shows "check_session e rec user_id user al ip ua tenant s =
    (if \<not> ss_valid rec then (Inr (Refresh_failed Session_reuse_detected), with_sessions (close_user (ss_user_id rec)) s)
     else if is_expired_session (as_now s) rec then (Inr (Refresh_failed Session_expired), with_sessions (close_session rec) s)
     else if fingerprint_mismatch rec ip ua then (Inr (Refresh_failed Re_2fa_required), s)
     else rotate e rec user_id user al ip ua tenant s)"
  using assms by (simp add: check_session_def py_run_bind py_run_seq invalidate_all_run update_session_run)

lemma check_session_success:
  "check_session e rec user_id user al ip ua tenant s = (Inr (Refresh_success r), s') \<Longrightarrow>
    ss_valid rec \<and> as_now s < ss_expires_at rec \<and> \<not> fingerprint_mismatch rec ip ua \<and>
    s' = rotated_state e rec user_id ip ua al (user_ver_of user) (context_ver tenant) s"
  using rotate_run [of e rec user_id user al ip ua tenant s]
  by (auto simp: check_session_def py_run_bind py_run_seq invalidate_all_run update_session_run is_expired_session_def
      split: if_splits)

lemma refresh_verified:
  "verify e (as_now s) token = Inr c \<Longrightarrow> refresh e token ip ua tenant s = transaction (refresh_with e c ip ua tenant) s"
  by (simp add: refresh_def transaction_def py_run_bind)

lemma refresh_result_cases:
  "refresh e token ip ua tenant s = (Inr (Refresh_success r), s') \<Longrightarrow>
    \<exists>c. verify e (as_now s) token = Inr c \<and> refresh_with e c ip ua tenant s = (Inr (Refresh_success r), s')"
  by (cases "verify e (as_now s) token") (simp_all add: refresh_def transaction_Inr py_run_bind split: if_split_asm)

lemma refresh_success_session:
  assumes "refresh e token ip ua tenant s = (Inr (Refresh_success r), s')"
  obtains c rec user_id where "verify e (as_now s) token = Inr c" "token_session e s tenant c rec user_id"
    "check_session e rec user_id (live_user (as_db s) user_id) (cl_al c) ip ua tenant s = (Inr (Refresh_success r), s')"
proof -
  obtain c where c: "verify e (as_now s) token = Inr c"
      and run: "refresh_with e c ip ua tenant s = (Inr (Refresh_success r), s')"
    using refresh_result_cases [OF assms] by blast
  have "\<exists>rec user_id. token_session e s tenant c rec user_id"
  proof (rule ccontr)
    assume "\<not> ?thesis"
    from refresh_with_other [OF this, of ip ua] run show False by simp
  qed
  then obtain rec user_id where ts: "token_session e s tenant c rec user_id" by blast
  show thesis by (rule that [OF c ts]) (use run in \<open>simp add: refresh_with_session [OF ts]\<close>)
qed

lemma close_user_none:
  assumes "x \<in> set (close_user user xs)" and user: "ss_user_id x = user"
  shows "\<not> ss_valid x"
proof -
  obtain y where x: "x = (if ss_user_id y = user \<and> ss_valid y then invalidate_session y else y)"
    using assms(1) unfolding close_user_def update_where_def set_map by (elim imageE)
  show ?thesis
  proof (cases "ss_user_id y = user \<and> ss_valid y")
    case True
    then show ?thesis using x by (simp add: invalidate_session_def)
  next
    case False
    then have "x = y" using x by (simp only: if_False)
    then show ?thesis using False user by simp
  qed
qed


text \<open>A service that issued one refresh token, to user 7.\<close>

definition demo_refresh_claims :: claims where
  "demo_refresh_claims = refresh_claims demo_auth_env (unix_epoch + minutes 1) ''u'' 7 False 1 0"

definition demo_refresh_env :: auth_env where
  "demo_refresh_env = demo_auth_env\<lparr>ax_jwt_decode := (\<lambda>_ t token.
     if t < cl_exp demo_refresh_claims then Inr demo_refresh_claims else Inl Expired_signature)\<rparr>"

definition demo_refresh_state :: auth_state where
  "demo_refresh_state = with_sessions (\<lambda>_.
     [\<lparr>ss_id = 1, ss_user_id = 7, ss_jti = ''u'', ss_token_hash = ''u'', ss_valid = True, ss_ip = None,
       ss_user_agent = None, ss_expires_at = cl_exp demo_refresh_claims\<rparr>])
     (demo_auth_state [])\<lparr>as_drawn := 2, as_next_session := 2\<rparr>"

lemma demo_token_session:
  "\<exists>rec. token_session demo_refresh_env demo_refresh_state None demo_refresh_claims rec 7 \<and> ss_valid rec \<and>
     as_now demo_refresh_state < ss_expires_at rec \<and> \<not> fingerprint_mismatch rec None None"
proof -
  have user: "live_user (as_db demo_refresh_state) 7 = Some demo_auth_user"
    by (simp add: demo_refresh_state_def with_sessions_def live_user_def demo_auth_state_def demo_auth_db_def demo_auth_user_def)
  then have ver: "user_ver_of (live_user (as_db demo_refresh_state) 7) = 1"
    by (simp add: user_ver_of_def demo_auth_user_def)
  have "py_int (str_of_int 7) = Some 7" by (rule py_int_str)
  with ver show ?thesis
    by (simp add: token_session_def demo_refresh_claims_def refresh_claims_def
      context_ver_def session_by_jti_def demo_refresh_state_def with_sessions_def demo_auth_state_def
      fingerprint_mismatch_def refresh_session_exp_def demo_auth_env_def demo_tokens_def minutes_def)
qed


end
