(* ===== verification/Users_Store.thy ===== *)
theory Users_Store
  imports Auth_Login
begin

text \<open>
  The tables of users and invitations (\<open>core/modules/users/repository/persistence/\<close>) in the state of
  \<open>Auth_Store\<close>: the operations that login does not use. A row doubles as the \<open>User\<close> DTO. Each
  operation commits alone unless \<open>transaction\<close> surrounds it. The unique index on \<open>email\<close> compares
  exactly and covers deleted rows; the limits on the length of columns are left out.
\<close>

section \<open>Users\<close>

definition exists_owner :: "auth_db \<Rightarrow> bool" where
  "exists_owner db \<longleftrightarrow> list_ex (\<lambda>u. au_role u = ''owner'' \<and> \<not> au_deleted u) (ad_users db)"

definition get_owner :: "auth_db \<Rightarrow> auth_user option" where
  "get_owner db = find (\<lambda>u. au_role u = ''owner'' \<and> \<not> au_deleted u) (ad_users db)"

definition get_by_pending_email_token_hash :: "auth_db \<Rightarrow> string \<Rightarrow> auth_user option" where
  "get_by_pending_email_token_hash db token_hash =
     find (\<lambda>u. au_pending_email_token_hash u = Some token_hash \<and> \<not> au_deleted u) (ad_users db)"

definition list_users :: "auth_db \<Rightarrow> auth_user list" where
  "list_users db = sort_key (\<lambda>u. - au_created_at u) (filter (\<lambda>u. \<not> au_deleted u) (ad_users db))"

definition email_taken :: "auth_db \<Rightarrow> int option \<Rightarrow> string \<Rightarrow> bool" where
  "email_taken db row email \<longleftrightarrow> list_ex (\<lambda>u. Some (au_id u) \<noteq> row \<and> au_email u = email) (ad_users db)"

definition repo_create_user :: "auth_user \<Rightarrow> auth_user auth_op" where
  "repo_create_user u = (\<lambda>s.
     let row = \<lparr>au_id = as_next_user s, au_email = au_email u, au_password_hash = au_password_hash u,
           au_is_active = au_is_active u, au_role = au_role u, au_failed_login_attempts = 0,
           au_security_version = 0, au_deleted = False, au_created_at = as_now s, au_name = au_name u,
           au_registration_completed_at = au_registration_completed_at u, au_preferred_locale = None,
           au_preferred_theme = None, au_credentials_password_set = au_credentials_password_set u,
           au_pending_email = None, au_pending_email_token_hash = None, au_pending_email_expires_at = None\<rparr>;
         s' = s\<lparr>as_next_user := as_next_user s + 1\<rparr>
     in if email_taken (as_db s) None (au_email u) then (Inl (Auth_integrity_error ''users.email''), s')
        else (Inr (u\<lparr>au_id := au_id row, au_created_at := au_created_at row\<rparr>),
              s'\<lparr>as_db := (as_db s)\<lparr>ad_users := ad_users (as_db s) @ [row]\<rparr>\<rparr>))"

text \<open>The columns that \<open>update\<close> copies from the DTO; the password, the version and the deletion mark stay.\<close>

definition write_user :: "auth_user \<Rightarrow> auth_user \<Rightarrow> auth_user" where
  "write_user u row = row\<lparr>au_email := au_email u, au_is_active := au_is_active u, au_role := au_role u,
     au_name := au_name u, au_registration_completed_at := au_registration_completed_at u,
     au_failed_login_attempts := au_failed_login_attempts u, au_preferred_locale := au_preferred_locale u,
     au_preferred_theme := au_preferred_theme u, au_credentials_password_set := au_credentials_password_set u,
     au_pending_email := au_pending_email u, au_pending_email_token_hash := au_pending_email_token_hash u,
     au_pending_email_expires_at := au_pending_email_expires_at u\<rparr>"

definition repo_update_user :: "auth_user \<Rightarrow> auth_user auth_op" where
  "repo_update_user u =
     py_bind (get_db (\<lambda>db. (find (\<lambda>r. au_id r = au_id u) (ad_users db),
                              email_taken db (Some (au_id u)) (au_email u)))) (\<lambda>(row, taken).
     case row of
       None \<Rightarrow> py_raise (Auth_value_error ''User not found'')
     | Some row \<Rightarrow>
         if taken then py_raise (Auth_integrity_error ''users.email'')
         else py_seq (update_users (au_id u) (write_user u)) (py_return (write_user u row)))"

definition update_password :: "int \<Rightarrow> string \<Rightarrow> unit auth_op" where
  "update_password i password_hash =
     py_bind (get_db (\<lambda>db. find (\<lambda>r. au_id r = i) (ad_users db))) (\<lambda>row.
     if row = None then py_raise (Auth_value_error ''User not found'')
     else update_users i (\<lambda>u. u\<lparr>au_password_hash := password_hash, au_credentials_password_set := True\<rparr>))"

section \<open>Invitations\<close>

definition create_invite :: "int \<Rightarrow> string \<Rightarrow> datetime \<Rightarrow> int auth_op" where
  "create_invite user token_hash expires_at = (\<lambda>s.
     let row = \<lparr>iv_id = as_next_invite s, iv_user_id = user, iv_token_hash = token_hash,
           iv_expires_at = expires_at, iv_used_at = None\<rparr>;
         s' = s\<lparr>as_next_invite := as_next_invite s + 1\<rparr>
     in if list_ex (\<lambda>r. iv_token_hash r = token_hash) (ad_invites (as_db s))
        then (Inl (Auth_integrity_error ''user_invite_tokens.token_hash''), s')
        else (Inr (iv_id row), s'\<lparr>as_db := (as_db s)\<lparr>ad_invites := ad_invites (as_db s) @ [row]\<rparr>\<rparr>))"

definition get_by_token_hash :: "auth_db \<Rightarrow> string \<Rightarrow> invite_token option" where
  "get_by_token_hash db token_hash = find (\<lambda>r. iv_token_hash r = token_hash) (ad_invites db)"

definition mark_invites_used :: "(invite_token \<Rightarrow> bool) \<Rightarrow> datetime \<Rightarrow> auth_db \<Rightarrow> auth_db" where
  "mark_invites_used P now db = db\<lparr>ad_invites := update_where P (\<lambda>r. r\<lparr>iv_used_at := Some now\<rparr>) (ad_invites db)\<rparr>"

definition mark_used :: "int \<Rightarrow> unit auth_op" where
  "mark_used token_id = py_modify (\<lambda>s. s\<lparr>as_db := mark_invites_used (\<lambda>r. iv_id r = token_id) (as_now s) (as_db s)\<rparr>)"

definition invalidate_invites :: "int \<Rightarrow> unit auth_op" where
  "invalidate_invites user = py_modify (\<lambda>s. s\<lparr>as_db :=
     mark_invites_used (\<lambda>r. iv_user_id r = user \<and> iv_used_at r = None) (as_now s) (as_db s)\<rparr>)"

section \<open>Deletion\<close>

text \<open>A deleted user: the personal data is replaced, and everything that could let the user in again is closed.\<close>

definition anonymous :: "string \<Rightarrow> string \<Rightarrow> auth_user \<Rightarrow> auth_user" where
  "anonymous token_hex password row = row\<lparr>
     au_email := ''deleted-user-'' @ str_of_int (au_id row) @ ''-'' @ token_hex @ ''@deleted.local'',
     au_name := None, au_password_hash := password, au_is_active := False, au_role := ''user'',
     au_registration_completed_at := None, au_failed_login_attempts := 0, au_preferred_locale := None,
     au_preferred_theme := None, au_security_version := au_security_version row + 1, au_deleted := True\<rparr>"

definition close_user_rows :: "int \<Rightarrow> datetime \<Rightarrow> auth_db \<Rightarrow> auth_db" where
  "close_user_rows i now db = (mark_invites_used (\<lambda>r. iv_user_id r = i \<and> iv_used_at r = None) now db)
     \<lparr>ad_pending := update_where (\<lambda>p. p2_user_id p = i \<and> now < p2_expires_at p) (\<lambda>p. p\<lparr>p2_expires_at := now\<rparr>) (ad_pending db),
      ad_codes := update_where (\<lambda>c. tf_user_id c = i \<and> \<not> tf_used c) (\<lambda>c. c\<lparr>tf_used := True\<rparr>) (ad_codes db),
      ad_sessions := update_where (\<lambda>t. ss_user_id t = i \<and> ss_valid t) invalidate_session (ad_sessions db)\<rparr>"

definition repo_delete_user :: "auth_env \<Rightarrow> int \<Rightarrow> unit auth_op" where
  "repo_delete_user e i =
     py_bind (get_db (\<lambda>db. find (\<lambda>r. au_id r = i) (ad_users db))) (\<lambda>row.
     case row of
       None \<Rightarrow> py_raise (Auth_value_error ''User not found'')
     | Some row \<Rightarrow>
         py_bind (draw (ax_token_hex e)) (\<lambda>hex.
         py_bind (draw (ax_token_urlsafe e)) (\<lambda>password.
         py_bind (get_db (\<lambda>db. email_taken db (Some i) (au_email (anonymous hex password row)))) (\<lambda>taken.
         if taken then py_raise (Auth_integrity_error ''users.email'')
         else py_modify (\<lambda>s. s\<lparr>as_db := (close_user_rows i (as_now s) (as_db s))
                \<lparr>ad_users := update_where (\<lambda>r. au_id r = i) (anonymous hex password) (ad_users (as_db s))\<rparr>\<rparr>)))))"

end
