(* ===== verification/Users_Policy.thy ===== *)
theory Users_Policy
  imports Py_Prelude
begin

text \<open>
  The rules of \<open>shared/validation/\<close> for passwords and addresses, and the normalisation of locales and
  themes (\<open>users/domain/policies/profile_policy.py\<close>). The regular expressions are read as what they
  accept: character classes and labels between separators. The messages lose their accents.
\<close>

section \<open>Passwords\<close>

record password_policy =
  pp_min_len :: nat
  pp_max_len :: nat
  pp_require_lower :: bool
  pp_require_upper :: bool
  pp_require_digit :: bool
  pp_require_special :: bool

definition password_policies :: "(string \<times> password_policy) list" where
  "password_policies = [
     (''basic'', \<lparr>pp_min_len = 6, pp_max_len = 128, pp_require_lower = False, pp_require_upper = False,
        pp_require_digit = False, pp_require_special = False\<rparr>),
     (''standard'', \<lparr>pp_min_len = 6, pp_max_len = 128, pp_require_lower = True, pp_require_upper = True,
        pp_require_digit = True, pp_require_special = False\<rparr>),
     (''high'', \<lparr>pp_min_len = 10, pp_max_len = 128, pp_require_lower = True, pp_require_upper = True,
        pp_require_digit = True, pp_require_special = True\<rparr>)]"

text \<open>\<open>None\<close> for the \<open>ValueError\<close> of an unknown level.\<close>

definition get_password_policy :: "string option \<Rightarrow> password_policy option" where
  "get_password_policy security_level =
     map_of password_policies (py_lower (py_strip (str_or security_level ''standard'')))"

definition lower_letter :: "char \<Rightarrow> bool" where
  "lower_letter c \<longleftrightarrow> 97 \<le> (of_char c :: nat) \<and> of_char c \<le> (122 :: nat)"

definition upper_letter :: "char \<Rightarrow> bool" where
  "upper_letter c \<longleftrightarrow> 65 \<le> (of_char c :: nat) \<and> of_char c \<le> (90 :: nat)"

definition digit_letter :: "char \<Rightarrow> bool" where
  "digit_letter c \<longleftrightarrow> 48 \<le> (of_char c :: nat) \<and> of_char c \<le> (57 :: nat)"

definition alnum_letter :: "char \<Rightarrow> bool" where
  "alnum_letter c \<longleftrightarrow> lower_letter c \<or> upper_letter c \<or> digit_letter c"

datatype password_fault = Password_missing | Too_short nat | Too_long nat | No_lower | No_upper | No_digit | No_special

text \<open>The outer \<open>None\<close>: the level is unknown; the inner one: the password is accepted.\<close>

definition validate_password_policy :: "string option \<Rightarrow> string option \<Rightarrow> password_fault option option" where
  "validate_password_policy password security_level =
     (case password of
        None \<Rightarrow> Some (Some Password_missing)
      | Some [] \<Rightarrow> Some (Some Password_missing)
      | Some pw \<Rightarrow>
          map_option (\<lambda>policy.
            if length pw < pp_min_len policy then Some (Too_short (pp_min_len policy))
            else if length pw > pp_max_len policy then Some (Too_long (pp_max_len policy))
            else if pp_require_lower policy \<and> \<not> list_ex lower_letter pw then Some No_lower
            else if pp_require_upper policy \<and> \<not> list_ex upper_letter pw then Some No_upper
            else if pp_require_digit policy \<and> \<not> list_ex digit_letter pw then Some No_digit
            else if pp_require_special policy \<and> \<not> list_ex (\<lambda>c. \<not> alnum_letter c) pw then Some No_special
            else None) (get_password_policy security_level))"

section \<open>Email addresses\<close>

definition email_local_char :: "char \<Rightarrow> bool" where
  "email_local_char c \<longleftrightarrow> alnum_letter c \<or> c \<in> {CHR ''_'', CHR ''%'', CHR ''+'', CHR ''-''}"

definition email_label :: "string \<Rightarrow> bool" where
  "email_label s \<longleftrightarrow> s \<noteq> [] \<and> list_all (\<lambda>c. alnum_letter c \<or> c = CHR ''-'') s \<and>
     alnum_letter (hd s) \<and> alnum_letter (last s)"

definition email_tld :: "string \<Rightarrow> bool" where
  "email_tld s \<longleftrightarrow> 2 \<le> length s \<and> list_all (\<lambda>c. lower_letter c \<or> upper_letter c) s"

definition email_pattern :: "string \<Rightarrow> bool" where
  "email_pattern s \<longleftrightarrow>
     (case split_char CHR ''@'' s of
        [name, domain] \<Rightarrow>
          (let labels = split_char CHR ''.'' domain in
           list_all (\<lambda>p. p \<noteq> [] \<and> list_all email_local_char p) (split_char CHR ''.'' name) \<and>
           2 \<le> length labels \<and> list_all email_label (butlast labels) \<and> email_tld (last labels))
      | _ \<Rightarrow> False)"

definition is_valid_email :: "string option \<Rightarrow> bool" where
  "is_valid_email x = (let s = py_strip (str_or x []) in
     str_or x [] \<noteq> [] \<and> length s \<le> 255 \<and> 5 \<le> length s \<and> email_pattern s)"

section \<open>Locales and themes\<close>

definition supported_locales :: "string list" where
  "supported_locales = [''hu'', ''en'', ''es'']"

definition supported_themes :: "string list" where
  "supported_themes = [''light'', ''dark'']"

definition normalize_choice :: "string list \<Rightarrow> string option \<Rightarrow> string option" where
  "normalize_choice supported v =
     (case v of
        None \<Rightarrow> None
      | Some x \<Rightarrow> let y = py_lower (py_strip x) in if y \<in> set supported then Some y else None)"

definition normalize_locale :: "string option \<Rightarrow> string option" where
  "normalize_locale = normalize_choice supported_locales"

definition normalize_theme :: "string option \<Rightarrow> string option" where
  "normalize_theme = normalize_choice supported_themes"

definition normalize_invite_lang :: "string option \<Rightarrow> string option" where
  "normalize_invite_lang v =
     (let x = take 2 (py_lower (py_strip (str_or v []))) in if x \<in> set supported_locales then Some x else None)"

end
