(* ===== verification/Users_Service.thy ===== *)
theory Users_Service
  imports Users_Store Users_Policy
begin

text \<open>
  The services of the users module (\<open>core/modules/users/service/\<close>): administration of users, invitations and
  forgotten passwords, and the own profile. A \<open>User\<close> is a row of \<open>Auth_Store\<close>; a raised \<open>ValueError\<close> carries
  the start of its message. The mail service reports failures by its result, which these services ignore, so a
  mail is a record of what was handed over. Audit entries are left out.
\<close>

section \<open>Links and tokens\<close>

definition invite_ttl_hours :: "auth_env \<Rightarrow> int" where
  "invite_ttl_hours e = max 1 (min 24 (ax_invite_ttl_hours e))"

definition rstrip_slash :: "string \<Rightarrow> string" where
  "rstrip_slash s = rev (dropWhile (\<lambda>c. c = CHR ''/'') (rev s))"

definition build_set_password_link :: "auth_env \<Rightarrow> string option \<Rightarrow> string \<Rightarrow> string" where
  "build_set_password_link e request_base_url token =
     (let base = rstrip_slash (py_strip (str_or request_base_url []));
          path = py_strip (str_or (ax_set_password_path e) ''/set-password'');
          path = (if path \<noteq> [] \<and> \<not> is_prefix ''/'' path then ''/'' @ path else path)
      in if base = [] then [] else base @ path @ ''?token='' @ token)"

definition build_confirm_email_link :: "string option \<Rightarrow> string \<Rightarrow> string" where
  "build_confirm_email_link request_base_url token =
     (let base = rstrip_slash (py_strip (str_or request_base_url []))
      in if base = [] then [] else base @ ''/confirm-email?token='' @ token)"

text \<open>The raw token, its hash and the end of its life.\<close>

definition new_invite_token_payload :: "auth_env \<Rightarrow> (string \<times> string \<times> datetime) auth_op" where
  "new_invite_token_payload e =
     py_bind (draw (ax_token_urlsafe e)) (\<lambda>raw_token.
     py_bind (py_gets as_now) (\<lambda>now.
     py_return (raw_token, ax_sha256 e raw_token, now + minutes (60 * invite_ttl_hours e))))"

definition send_link :: "link_mail \<Rightarrow> unit auth_op" where
  "send_link mail = py_modify (\<lambda>s. s\<lparr>as_sent_links := as_sent_links s @ [mail]\<rparr>)"

definition owner_locale :: "auth_db \<Rightarrow> string option" where
  "owner_locale db = (case get_owner db of None \<Rightarrow> None | Some owner \<Rightarrow> au_preferred_locale owner)"

text \<open>\<open>a or b\<close> on optional strings.\<close>

definition or_str :: "string option \<Rightarrow> string option \<Rightarrow> string option" where
  "or_str a b = (if a = None \<or> a = Some [] then b else a)"

definition send_set_password_invite :: "auth_env \<Rightarrow> string \<Rightarrow> string \<Rightarrow> string option \<Rightarrow> unit auth_op" where
  "send_set_password_invite e to link lang =
     (if link \<noteq> [] \<and> ax_email_service e then
        py_bind (get_db owner_locale) (\<lambda>locale.
        send_link (Set_password_mail to link (normalize_invite_lang (or_str lang locale))))
      else py_return ())"

definition hash_password :: "auth_env \<Rightarrow> string \<Rightarrow> string auth_op" where
  "hash_password e password = draw (\<lambda>n. ax_hash_password e n password)"

section \<open>Administration of users\<close>

definition new_user :: "string \<Rightarrow> string \<Rightarrow> string \<Rightarrow> string option \<Rightarrow> datetime option \<Rightarrow> auth_user" where
  "new_user email password_hash role name completed =
     \<lparr>au_id = 0, au_email = email, au_password_hash = password_hash, au_is_active = True, au_role = role,
      au_failed_login_attempts = 0, au_security_version = 0, au_deleted = False, au_created_at = 0, au_name = name,
      au_registration_completed_at = completed, au_preferred_locale = None, au_preferred_theme = None,
      au_credentials_password_set = False, au_pending_email = None, au_pending_email_token_hash = None,
      au_pending_email_expires_at = None\<rparr>"

definition invite_user :: "auth_env \<Rightarrow> int \<Rightarrow> string option \<Rightarrow> string \<Rightarrow> string option \<Rightarrow> bool \<Rightarrow> unit auth_op" where
  "invite_user e user base to lang send =
     py_bind (new_invite_token_payload e) (\<lambda>(raw_token, token_hash, expires_at).
     py_seq (py_bind (create_invite user token_hash expires_at) (\<lambda>_. py_return ()))
       (if send then send_set_password_invite e to (build_set_password_link e base raw_token) lang
        else py_return ()))"

definition user_create ::
  "auth_env \<Rightarrow> string \<Rightarrow> string option \<Rightarrow> string \<Rightarrow> string option \<Rightarrow> bool \<Rightarrow> bool \<Rightarrow> string option \<Rightarrow> auth_user auth_op" where
  "user_create e email name role base send_invite_email activate_immediately invite_lang = transaction
     (let email = py_strip email in
      py_bind (get_db (\<lambda>db. (user_by_email db email, exists_owner db))) (\<lambda>(existing, owner_exists).
      if existing \<noteq> None then py_raise (Auth_value_error ''Email already exists'')
      else if role = ''owner'' \<and> owner_exists then py_raise (Auth_value_error ''Invalid role. Owner already exists'')
      else if role \<notin> {''owner'', ''user'', ''admin''} then py_raise (Auth_value_error ''Invalid role'')
      else
        py_bind (draw (ax_token_urlsafe e)) (\<lambda>placeholder_password.
        py_bind (hash_password e placeholder_password) (\<lambda>password_hash.
        py_bind (py_gets as_now) (\<lambda>now.
        py_bind (repo_create_user (new_user email password_hash role (or_str name None)
                   (if activate_immediately then Some now else None))) (\<lambda>created.
        if au_id created = 0 then py_raise (Auth_value_error ''Failed to create user'')
        else py_seq (if activate_immediately then py_return ()
                else invite_user e (au_id created) base email invite_lang send_invite_email)
          (py_return created)))))))"

text \<open>\<open>updates["name"]\<close>: the stripped name when it differs from the stored one.\<close>

definition new_name :: "string option \<Rightarrow> auth_user \<Rightarrow> string option option" where
  "new_name name u =
     (case name of
        None \<Rightarrow> None
      | Some n \<Rightarrow> if py_strip n \<noteq> py_strip (str_or (au_name u) []) then Some (Some (py_strip n)) else None)"

definition with_default :: "'a option \<Rightarrow> 'a \<Rightarrow> 'a" where
  "with_default x d = (case x of None \<Rightarrow> d | Some y \<Rightarrow> y)"

definition apply_user_update ::
  "auth_user \<Rightarrow> string option \<Rightarrow> bool option \<Rightarrow> string option \<Rightarrow> string option \<Rightarrow> auth_user auth_op" where
  "apply_user_update u name is_active email role =
     (let result = u\<lparr>au_name := with_default (new_name name u) (au_name u),
            au_is_active := with_default is_active (au_is_active u),
            au_email := with_default email (au_email u), au_role := with_default role (au_role u)\<rparr>
      in if new_name name u = None \<and> is_active = None \<and> (email = None \<or> email = Some (au_email u)) \<and> role = None
         then py_return u
         else py_bind (repo_update_user result) (\<lambda>result.
           py_seq (if au_role result \<noteq> au_role u \<or> au_is_active result \<noteq> au_is_active u
                   then py_seq (invalidate_all_for_user (au_id result)) (increment_security_version (au_id result))
                   else py_return ())
             (py_return result)))"

definition user_update ::
  "int \<Rightarrow> int \<Rightarrow> string option \<Rightarrow> bool option \<Rightarrow> string option \<Rightarrow> string option \<Rightarrow> auth_user auth_op" where
  "user_update user_id current_user_id name is_active email role = transaction
     (py_bind (get_db (\<lambda>db. live_user db user_id)) (\<lambda>user.
      case user of
        None \<Rightarrow> py_raise (Auth_value_error ''User not found'')
      | Some u \<Rightarrow>
          if au_role u = ''owner'' then
            (if current_user_id \<noteq> user_id then py_raise (Auth_value_error ''Az owner adatait csak az owner szerkesztheti.'')
             else if is_active \<noteq> None \<or> email \<noteq> None \<or> role \<noteq> None
             then py_raise (Auth_value_error ''Owner eseten csak a nev modosithato.'')
             else apply_user_update u name None None None)
          else if is_active \<noteq> None \<and> user_id = current_user_id
          then py_raise (Auth_value_error ''A sajat fiok aktivalasi allapotat nem modosithatod.'')
          else py_bind (get_db (\<lambda>db. Option.bind email (user_by_email db))) (\<lambda>existing.
            if (case existing of None \<Rightarrow> False | Some x \<Rightarrow> au_id x \<noteq> user_id)
            then py_raise (Auth_value_error ''Ez az email mar hasznalatban van.'')
            else if role \<noteq> None \<and> user_id = current_user_id \<and> au_role u = ''admin'' \<and> role \<noteq> Some ''admin''
            then py_raise (Auth_value_error ''A sajat adminisztrator szerepkorod nem modosithato.'')
            else apply_user_update u name is_active email role)))"

definition user_delete :: "auth_env \<Rightarrow> int \<Rightarrow> int \<Rightarrow> unit auth_op" where
  "user_delete e user_id current_user_id = transaction
     (if user_id = current_user_id then py_raise (Auth_value_error ''Sajat magad nem torolheted.'')
      else py_bind (get_db (\<lambda>db. live_user db user_id)) (\<lambda>user.
      case user of
        None \<Rightarrow> py_raise (Auth_value_error ''User not found'')
      | Some u \<Rightarrow>
          if au_role u = ''owner'' then py_raise (Auth_value_error ''Az ownert nem lehet torolni.'')
          else py_seq (invalidate_all_for_user user_id) (repo_delete_user e user_id)))"

section \<open>Passwords\<close>

definition change_password :: "auth_env \<Rightarrow> int \<Rightarrow> string \<Rightarrow> string \<Rightarrow> unit auth_op" where
  "change_password e user_id current_password new_password = transaction
     (py_bind (get_db (\<lambda>db. live_user db user_id)) (\<lambda>user.
      case user of
        None \<Rightarrow> py_raise (Auth_value_error ''user_not_found'')
      | Some u \<Rightarrow>
          if \<not> au_credentials_password_set u then py_raise (Auth_value_error ''credentials_password_not_set'')
          else if \<not> ax_verify_password e current_password (au_password_hash u)
          then py_raise (Auth_value_error ''current_password_wrong'')
          else py_bind (hash_password e new_password) (\<lambda>new_hash.
            py_seq (update_password user_id new_hash) (reset_failed_login user_id))))"

definition set_initial_password_demo :: "auth_env \<Rightarrow> int \<Rightarrow> string \<Rightarrow> bool \<Rightarrow> unit auth_op" where
  "set_initial_password_demo e user_id new_password tenant_demo_mode =
     (if \<not> tenant_demo_mode then py_raise (Auth_value_error ''not_demo_tenant'')
      else if validate_password_policy (Some new_password) (ax_password_level e) \<noteq> Some None
      then py_raise (Auth_value_error ''invalid_password'')
      else transaction
        (py_bind (get_db (\<lambda>db. live_user db user_id)) (\<lambda>user.
         case user of
           None \<Rightarrow> py_raise (Auth_value_error ''user_not_found'')
         | Some u \<Rightarrow>
             if au_credentials_password_set u then py_raise (Auth_value_error ''credentials_already_set'')
             else py_bind (hash_password e new_password) (\<lambda>new_hash.
               py_seq (update_password user_id new_hash)
              (py_seq (reset_failed_login user_id) (increment_security_version user_id))))))"

definition forgot_password :: "auth_env \<Rightarrow> string \<Rightarrow> string option \<Rightarrow> string option \<Rightarrow> unit auth_op" where
  "forgot_password e email base invite_lang = transaction
     (py_bind (get_db (\<lambda>db. user_by_email db (py_strip email))) (\<lambda>user.
      case user of
        None \<Rightarrow> py_return ()
      | Some u \<Rightarrow>
          py_seq (invalidate_invites (au_id u))
            (invite_user e (au_id u) base (au_email u) (or_str invite_lang (au_preferred_locale u)) True)))"

section \<open>Invitations\<close>

datatype invite_status = Invite_invalid | Invite_expired | Invite_valid "string option"

definition validate_invite_token_details :: "auth_env \<Rightarrow> string \<Rightarrow> invite_status auth_op" where
  "validate_invite_token_details e token =
     (if token = [] then py_return Invite_invalid
      else py_gets (\<lambda>s. case get_by_token_hash (as_db s) (ax_sha256 e token) of
          None \<Rightarrow> Invite_invalid
        | Some r \<Rightarrow>
            if iv_used_at r \<noteq> None then Invite_invalid
            else if iv_expires_at r < as_now s then Invite_expired
            else Invite_valid (case live_user (as_db s) (iv_user_id r) of
                None \<Rightarrow> None | Some u \<Rightarrow> strip_opt (Some (au_email u)))))"

definition set_password :: "auth_env \<Rightarrow> string \<Rightarrow> string \<Rightarrow> unit auth_op" where
  "set_password e token password = transaction
     (py_bind (py_gets (\<lambda>s. (get_by_token_hash (as_db s) (ax_sha256 e token), as_now s))) (\<lambda>(found, now).
      case found of
        None \<Rightarrow> py_raise Invite_token_invalid
      | Some r \<Rightarrow>
          if iv_used_at r \<noteq> None then py_raise Invite_token_invalid
          else if iv_expires_at r < now then py_raise Invite_token_expired
          else py_bind (hash_password e password) (\<lambda>password_hash.
            py_seq (update_password (iv_user_id r) password_hash)
           (py_seq (mark_used (iv_id r))
           (py_bind (get_db (\<lambda>db. (live_user db (iv_user_id r), exists_owner db))) (\<lambda>(user, owner_exists).
            case user of
              None \<Rightarrow> py_return ()
            | Some u \<Rightarrow>
                py_bind (repo_update_user (u\<lparr>au_is_active := True, au_registration_completed_at := Some now,
                    au_failed_login_attempts := 0,
                    au_role := (if owner_exists then au_role u else ''owner'')\<rparr>)) (\<lambda>_. py_return ())))))))"

definition resend_invite :: "auth_env \<Rightarrow> int \<Rightarrow> string option \<Rightarrow> string option \<Rightarrow> unit auth_op" where
  "resend_invite e user_id base invite_lang = transaction
     (py_bind (get_db (\<lambda>db. live_user db user_id)) (\<lambda>user.
      case user of
        None \<Rightarrow> py_raise (Auth_value_error ''User not found'')
      | Some u \<Rightarrow>
          if au_credentials_password_set u then py_raise (Auth_value_error ''A felhasznalo mar beallitott jelszot.'')
          else if au_role u = ''owner'' then py_raise (Auth_value_error ''Az owner mar aktiv.'')
          else py_seq (invalidate_invites user_id)
            (invite_user e user_id base (au_email u) (or_str invite_lang (au_preferred_locale u)) True)))"

end
