(* ===== verification/Users_Profile.thy ===== *)
theory Users_Profile
  imports Users_Service
begin

text \<open>
  The own profile of a user (\<open>users/service/profile_service.py\<close>, \<open>users/domain/policies/profile_policy.py\<close>). The
  service gets the user that the middleware put into the request, which may be a cached copy, and each of its
  repository calls commits alone.
\<close>

record profile_payload =
  pr_id :: int
  pr_email :: string
  pr_pending_email :: "string option"
  pr_pending_email_expires_at :: "datetime option"
  pr_role :: string
  pr_is_active :: bool
  pr_name :: "string option"
  pr_preferred_locale :: "string option"
  pr_preferred_theme :: "string option"
  pr_locale :: string
  pr_theme :: string

text \<open>The part that only the own profile shows.\<close>

record me_payload = profile_payload +
  pr_credentials_password_set :: bool
  pr_tenant_demo_mode :: bool
  pr_tenant_kb_has_training :: bool
  pr_tenant_name :: "string option"

definition effective_choice :: "string list \<Rightarrow> string \<Rightarrow> string option \<Rightarrow> string option \<Rightarrow> string" where
  "effective_choice supported fallback own owners =
     (let v = str_or (or_str own owners) fallback in if v \<in> set supported then v else fallback)"

definition effective_locale_theme :: "auth_user \<Rightarrow> auth_user option \<Rightarrow> string \<times> string" where
  "effective_locale_theme u owner =
     (effective_choice supported_locales ''hu'' (au_preferred_locale u) (Option.bind owner au_preferred_locale),
      effective_choice supported_themes ''light'' (au_preferred_theme u) (Option.bind owner au_preferred_theme))"

definition default_owner_settings :: "auth_user option \<Rightarrow> string \<times> string" where
  "default_owner_settings owner =
     (effective_choice supported_locales ''hu'' (Option.bind owner au_preferred_locale) None,
      effective_choice supported_themes ''light'' (Option.bind owner au_preferred_theme) None)"

definition build_profile_payload :: "auth_user \<Rightarrow> auth_user option \<Rightarrow> profile_payload" where
  "build_profile_payload u owner =
     (case effective_locale_theme u owner of (locale, theme) \<Rightarrow>
       \<lparr>pr_id = au_id u, pr_email = au_email u, pr_pending_email = au_pending_email u,
        pr_pending_email_expires_at = au_pending_email_expires_at u, pr_role = au_role u,
        pr_is_active = au_is_active u, pr_name = au_name u, pr_preferred_locale = au_preferred_locale u,
        pr_preferred_theme = au_preferred_theme u, pr_locale = locale, pr_theme = theme\<rparr>)"

text \<open>\<open>get_me\<close>: the demo flag and the name of the tenant, and what the reader of the training status answers.\<close>

definition get_me :: "auth_db \<Rightarrow> auth_user \<Rightarrow> bool \<Rightarrow> bool option \<Rightarrow> string option \<Rightarrow> string option \<Rightarrow> me_payload" where
  "get_me db u tenant_demo_mode has_training tenant_name tenant_slug =
     profile_payload.extend (build_profile_payload u (get_owner db))
       (me_payload.fields (au_credentials_password_set u) tenant_demo_mode
          (case has_training of None \<Rightarrow> True | Some b \<Rightarrow> b) (strip_opt (or_str tenant_name tenant_slug)))"

definition get_default_settings :: "auth_db \<Rightarrow> string \<times> string" where
  "get_default_settings db = default_owner_settings (get_owner db)"

text \<open>\<open>build_profile_updates\<close> applied to the user; \<open>None\<close> when there is nothing to change.\<close>

definition build_profile_updates :: "string option \<Rightarrow> string option \<Rightarrow> string option \<Rightarrow> auth_user \<Rightarrow> auth_user option" where
  "build_profile_updates name locale theme u =
     (if name = None \<and> locale = None \<and> theme = None then None
      else Some (u\<lparr>au_name := (case name of None \<Rightarrow> au_name u | Some n \<Rightarrow> strip_opt (Some n)),
         au_preferred_locale := (if locale = None then au_preferred_locale u else normalize_locale locale),
         au_preferred_theme := (if theme = None then au_preferred_theme u else normalize_theme theme)\<rparr>))"

definition update_me :: "auth_user \<Rightarrow> string option \<Rightarrow> string option \<Rightarrow> string option \<Rightarrow> profile_payload auth_op" where
  "update_me u name locale theme =
     (case build_profile_updates name locale theme u of
        None \<Rightarrow> get_db (\<lambda>db. build_profile_payload u (get_owner db))
      | Some updated \<Rightarrow>
          py_bind (get_db (\<lambda>db. if au_email updated = [] then live_user db (au_id u) else None)) (\<lambda>current.
          py_bind (repo_update_user
                (updated\<lparr>au_email := (case current of None \<Rightarrow> au_email updated | Some c \<Rightarrow> au_email c)\<rparr>)) (\<lambda>result.
          get_db (\<lambda>db. build_profile_payload result (get_owner db)))))"

definition without_pending_email :: "auth_user \<Rightarrow> auth_user" where
  "without_pending_email u = u\<lparr>au_pending_email := None, au_pending_email_token_hash := None,
     au_pending_email_expires_at := None\<rparr>"

definition request_email_change :: "auth_env \<Rightarrow> auth_user \<Rightarrow> string \<Rightarrow> string option \<Rightarrow> profile_payload auth_op" where
  "request_email_change e u new_email base =
     (let normalized = py_strip new_email in
      if normalized = [] then py_raise (Auth_value_error ''email_required'')
      else if py_lower normalized = py_lower (py_strip (au_email u)) then py_raise (Auth_value_error ''same_email'')
      else py_bind (get_db (\<lambda>db. user_by_email db normalized)) (\<lambda>existing.
      if (case existing of None \<Rightarrow> False | Some x \<Rightarrow> au_id x \<noteq> au_id u)
      then py_raise (Auth_value_error ''email_already_exists'')
      else if au_role u \<noteq> ''owner'' then
        py_bind (repo_update_user ((without_pending_email u)\<lparr>au_email := normalized\<rparr>)) (\<lambda>result.
        py_seq (invalidate_all_for_user (au_id result))
       (py_seq (increment_security_version (au_id result))
          (get_db (\<lambda>db. build_profile_payload result (get_owner db)))))
      else
        py_bind (new_invite_token_payload e) (\<lambda>(raw_token, token_hash, expires_at).
        py_bind (repo_update_user (u\<lparr>au_pending_email := Some normalized,
            au_pending_email_token_hash := Some token_hash, au_pending_email_expires_at := Some expires_at\<rparr>)) (\<lambda>result.
        py_seq (let link = build_confirm_email_link base raw_token in
                if link \<noteq> [] \<and> ax_email_service e then
                  py_bind (get_db owner_locale) (\<lambda>locale.
                  send_link (Email_change_mail normalized link (or_str (au_preferred_locale result) locale)))
                else py_return ())
          (get_db (\<lambda>db. build_profile_payload result (get_owner db)))))))"

definition confirm_email_change :: "auth_env \<Rightarrow> string \<Rightarrow> auth_user auth_op" where
  "confirm_email_change e token =
     py_bind (py_gets (\<lambda>s. (as_now s, get_by_pending_email_token_hash (as_db s) (ax_sha256 e token)))) (\<lambda>(now, found).
     case found of
       None \<Rightarrow> py_raise (Auth_value_error ''invalid_email_change_token'')
     | Some u \<Rightarrow>
         if str_or (au_pending_email u) [] = [] then py_raise (Auth_value_error ''invalid_email_change_token'')
         else if (case au_pending_email_expires_at u of None \<Rightarrow> True | Some t \<Rightarrow> t < now)
         then py_raise (Auth_value_error ''expired_email_change_token'')
         else
           (let new_email = py_strip (str_or (au_pending_email u) []) in
            py_bind (get_db (\<lambda>db. user_by_email db new_email)) (\<lambda>existing.
            if (case existing of None \<Rightarrow> False | Some x \<Rightarrow> au_id x \<noteq> au_id u)
            then py_raise (Auth_value_error ''email_already_exists'')
            else py_bind (repo_update_user ((without_pending_email u)\<lparr>au_email := new_email\<rparr>)) (\<lambda>result.
              py_seq (invalidate_all_for_user (au_id result))
             (py_seq (increment_security_version (au_id result)) (py_return result))))))"

end
