(* ===== verification/Auth_Web.thy ===== *)
theory Auth_Web
  imports Auth_Login
begin

text \<open>
  Access tokens at the border of a request: the allowlist (\<open>auth/repository/token_allowlist.py\<close>), the cache of
  users (\<open>users/cache/user_cache.py\<close>) and the middleware that turns a bearer token into a user
  (\<open>auth/middleware/auth_middleware.py\<close>), with the permissions of a role
  (\<open>kernel/security/permission_service.py\<close>, \<open>auth/domain/authorization_policy.py\<close>).

  How Redis answers is a parameter of each call: absent, failing or up. \<open>fail_closed\<close> is
  \<open>_fail_closed_active()\<close>. The cache of users is one table, whichever backend keeps it.
\<close>

section \<open>Allowlist\<close>

datatype redis_mode = Redis_absent | Redis_failing | Redis_up

record web_env =
  wx_redis :: redis_mode
  wx_fail_closed :: bool
  wx_access_ttl_min :: int
  wx_light_paths :: "string list"

definition allowlist_key :: "string option \<Rightarrow> int \<Rightarrow> string" where
  "allowlist_key slug user = ''allowlist:'' @ str_or slug [] @ '':'' @ str_of_int user"

definition redis_ttl_seconds :: "web_env \<Rightarrow> int" where
  "redis_ttl_seconds wx = wx_access_ttl_min wx * 60 + 60"

definition modify_web :: "(datetime \<Rightarrow> web_state \<Rightarrow> web_state) \<Rightarrow> unit auth_op" where
  "modify_web f = py_modify (\<lambda>s. s\<lparr>as_web := f (as_now s) (as_web s)\<rparr>)"

text \<open>The members of a Redis set that has not expired.\<close>

definition redis_members :: "datetime \<Rightarrow> string \<Rightarrow> web_state \<Rightarrow> string list" where
  "redis_members now key w =
     (case find (\<lambda>r. fst r = key \<and> now < snd (snd r)) (wb_allow_redis w) of None \<Rightarrow> [] | Some (_, jtis, _) \<Rightarrow> jtis)"

definition memory_members :: "string option \<times> int \<Rightarrow> web_state \<Rightarrow> string list" where
  "memory_members key w = (case map_of (wb_allow_memory w) key of None \<Rightarrow> [] | Some jtis \<Rightarrow> jtis)"

definition redis_delete :: "string \<Rightarrow> web_state \<Rightarrow> web_state" where
  "redis_delete key w = w\<lparr>wb_allow_redis := filter (\<lambda>r. fst r \<noteq> key) (wb_allow_redis w)\<rparr>"

definition memory_pop :: "string option \<times> int \<Rightarrow> web_state \<Rightarrow> web_state" where
  "memory_pop key w = w\<lparr>wb_allow_memory := filter (\<lambda>r. fst r \<noteq> key) (wb_allow_memory w)\<rparr>"

definition allowlist_add :: "web_env \<Rightarrow> string option \<Rightarrow> int \<Rightarrow> string \<Rightarrow> unit auth_op" where
  "allowlist_add wx slug user jti =
     (if wx_redis wx = Redis_up then
        modify_web (\<lambda>now w. let key = allowlist_key slug user; jtis = List.insert jti (redis_members now key w);
          w' = redis_delete key w
          in w'\<lparr>wb_allow_redis := (key, jtis, now + seconds (redis_ttl_seconds wx)) # wb_allow_redis w'\<rparr>)
      else if wx_fail_closed wx then py_raise Allowlist_unavailable
      else modify_web (\<lambda>now w. let key = (slug, user); jtis = List.insert jti (memory_members key w);
          w' = memory_pop key w in w'\<lparr>wb_allow_memory := (key, jtis) # wb_allow_memory w'\<rparr>))"

definition remove_by_user :: "web_env \<Rightarrow> string option \<Rightarrow> int \<Rightarrow> unit auth_op" where
  "remove_by_user wx slug user =
     (if wx_redis wx = Redis_up then modify_web (\<lambda>_. redis_delete (allowlist_key slug user))
      else if wx_fail_closed wx then py_return ()
      else modify_web (\<lambda>_. memory_pop (slug, user)))"

definition is_allowed :: "web_env \<Rightarrow> auth_state \<Rightarrow> string option \<Rightarrow> int \<Rightarrow> string \<Rightarrow> bool" where
  "is_allowed wx s slug user jti \<longleftrightarrow>
     (if wx_redis wx = Redis_up then jti \<in> set (redis_members (as_now s) (allowlist_key slug user) (as_web s))
      else if wx_fail_closed wx then False
      else jti \<in> set (memory_members (slug, user) (as_web s)))"

section \<open>Cached users\<close>

definition user_cache_key :: "string option \<Rightarrow> int \<Rightarrow> string" where
  "user_cache_key slug user = ''user:'' @ str_or slug [] @ '':'' @ str_of_int user"

text \<open>What \<open>user_from_cache_json (user_to_cache_json u)\<close> keeps of a user.\<close>

definition user_from_cache :: "datetime \<Rightarrow> auth_user \<Rightarrow> auth_user" where
  "user_from_cache now u = u\<lparr>au_password_hash := [], au_created_at := now, au_registration_completed_at := None,
     au_failed_login_attempts := 0, au_deleted := False, au_pending_email_token_hash := None,
     au_pending_email_expires_at := None\<rparr>"

definition invalidate_user_cache :: "string option \<Rightarrow> int \<Rightarrow> unit auth_op" where
  "invalidate_user_cache slug user =
     modify_web (\<lambda>_ w. w\<lparr>wb_user_cache := filter (\<lambda>r. fst r \<noteq> user_cache_key slug user) (wb_user_cache w)\<rparr>)"

definition set_cached_user :: "string option \<Rightarrow> auth_user \<Rightarrow> unit auth_op" where
  "set_cached_user slug u = modify_web (\<lambda>now w. let key = user_cache_key slug (au_id u) in
     w\<lparr>wb_user_cache := (key, u, now + seconds 60) # filter (\<lambda>r. fst r \<noteq> key) (wb_user_cache w)\<rparr>)"

definition get_cached_user :: "string option \<Rightarrow> int \<Rightarrow> auth_user option auth_op" where
  "get_cached_user slug user =
     py_bind (py_gets (\<lambda>s. (as_now s, find (\<lambda>r. fst r = user_cache_key slug user) (wb_user_cache (as_web s))))) (\<lambda>(now, row).
     case row of
       None \<Rightarrow> py_return None
     | Some (_, u, expires) \<Rightarrow>
         if now \<le> expires \<and> au_is_active u then py_return (Some (user_from_cache now u))
         else py_seq (invalidate_user_cache slug user) (py_return None))"

definition minimal_user_from_payload :: "datetime \<Rightarrow> claims \<Rightarrow> int \<Rightarrow> auth_user" where
  "minimal_user_from_payload now payload user =
     \<lparr>au_id = user, au_email = [], au_password_hash = [], au_is_active = True,
      au_role = (case cl_role payload of None \<Rightarrow> ''user'' | Some r \<Rightarrow> r), au_failed_login_attempts = 0,
      au_security_version = cl_user_ver payload, au_deleted = False, au_created_at = now, au_name = None,
      au_registration_completed_at = None, au_preferred_locale = None, au_preferred_theme = None,
      au_credentials_password_set = True, au_pending_email = None, au_pending_email_token_hash = None,
      au_pending_email_expires_at = None\<rparr>"

section \<open>The middleware\<close>

text \<open>What a request carries after the middleware: the payload, the user, and whether it took the light path.\<close>

record request_auth =
  rq_payload :: "claims option"
  rq_user :: "auth_user option"
  rq_light :: bool

definition anonymous_request :: request_auth where
  "anonymous_request = \<lparr>rq_payload = None, rq_user = None, rq_light = False\<rparr>"

definition fetch_user_from_db :: "auth_db \<Rightarrow> int \<Rightarrow> auth_user option" where
  "fetch_user_from_db db user =
     (case live_user db user of None \<Rightarrow> None | Some u \<Rightarrow> if au_is_active u then Some u else None)"

definition get_user_with_timing :: "string option \<Rightarrow> int \<Rightarrow> auth_user option auth_op" where
  "get_user_with_timing slug user =
     (if str_or slug [] = [] then get_db (\<lambda>db. fetch_user_from_db db user)
      else py_bind (get_cached_user slug user) (\<lambda>cached.
      case cached of
        Some u \<Rightarrow> py_return (Some u)
      | None \<Rightarrow>
          py_bind (get_db (\<lambda>db. fetch_user_from_db db user)) (\<lambda>found.
          case found of
            None \<Rightarrow> py_return None
          | Some u \<Rightarrow> py_seq (set_cached_user slug u) (py_return (Some u)))))"

text \<open>Every error of \<open>jwt\<close> is an \<open>InvalidTokenError\<close>; a \<open>sub\<close> that is no number leaves as \<open>ValueError\<close>.\<close>

definition resolve_request_user ::
  "auth_env \<Rightarrow> web_env \<Rightarrow> string \<Rightarrow> string option \<Rightarrow> string \<Rightarrow> request_auth auth_op" where
  "resolve_request_user e wx token slug path =
     py_bind (py_gets as_now) (\<lambda>now.
     case verify e now token of
       Inl _ \<Rightarrow> py_return anonymous_request
     | Inr payload \<Rightarrow>
         if cl_typ payload \<noteq> Some ''access'' \<or> str_or (cl_sub payload) [] = [] \<or> str_or (cl_jti payload) [] = []
         then py_return anonymous_request
         else (case Option.bind (cl_sub payload) py_int of
             None \<Rightarrow> py_raise (Auth_value_error ''sub'')
           | Some user \<Rightarrow>
               py_bind (py_gets (\<lambda>s. is_allowed wx s slug user (str_or (cl_jti payload) []))) (\<lambda>allowed.
               if \<not> allowed then py_return anonymous_request
               else if list_ex (\<lambda>p. is_prefix p path) (wx_light_paths wx)
               then py_return \<lparr>rq_payload = Some payload, rq_user = Some (minimal_user_from_payload now payload user),
                      rq_light = True\<rparr>
               else py_bind (get_user_with_timing slug user) (\<lambda>found.
                 py_return \<lparr>rq_payload = Some payload, rq_user = found, rq_light = False\<rparr>))))"

text \<open>The part of \<open>__call__\<close> before the application runs: the token of the header, and the security versions.\<close>

definition authenticate_request ::
  "auth_env \<Rightarrow> web_env \<Rightarrow> string option \<Rightarrow> string option \<Rightarrow> string \<Rightarrow> int \<Rightarrow> request_auth auth_op" where
  "authenticate_request e wx header slug path tenant_ver =
     (let token = (case header of
             Some h \<Rightarrow> if is_prefix ''Bearer '' h then remove_prefix ''Bearer '' h else []
           | None \<Rightarrow> [])
      in if token = [] then py_return anonymous_request
         else py_bind (resolve_request_user e wx token slug path) (\<lambda>rq.
           case rq_payload rq of
             None \<Rightarrow> py_return rq
           | Some payload \<Rightarrow>
               if rq_light rq then py_return rq
               else if (case rq_user rq of None \<Rightarrow> False
                          | Some u \<Rightarrow> cl_user_ver payload = au_security_version u \<and> cl_tenant_ver payload = tenant_ver)
               then py_return rq else py_return (rq\<lparr>rq_payload := None, rq_user := None\<rparr>)))"

section \<open>Permissions\<close>

definition role_permissions :: "(string \<times> string list) list" where
  "role_permissions = [
     (''owner'', [''*'']),
     (''admin'', [''auth.login'', ''auth.refresh'', ''auth.logout'', ''users.read'', ''users.write'', ''users.invite'',
        ''settings.read'', ''settings.write'', ''domain.read'', ''domain.write'', ''traffic.read'', ''traffic.write'']),
     (''user'', [''auth.login'', ''auth.refresh'', ''auth.logout''])]"

definition list_permissions_for_role :: "string list \<Rightarrow> string option \<Rightarrow> string list" where
  "list_permissions_for_role known role =
     (let normalized = str_or (Some (py_lower (py_strip (str_or role ''user'')))) ''user'';
          granted = (case map_of role_permissions normalized of None \<Rightarrow> [] | Some ps \<Rightarrow> ps)
      in if ''*'' \<in> set granted then known else filter (\<lambda>p. p \<in> set known) granted)"

definition has_role_permission :: "string list \<Rightarrow> string option \<Rightarrow> string \<Rightarrow> bool" where
  "has_role_permission known role permission \<longleftrightarrow>
     (let p = py_strip permission in p \<noteq> [] \<and> p \<in> set known \<and> p \<in> set (list_permissions_for_role known role))"

definition has_permission :: "string list \<Rightarrow> auth_user option \<Rightarrow> string \<Rightarrow> bool" where
  "has_permission known user permission \<longleftrightarrow>
     (case user of None \<Rightarrow> False
      | Some u \<Rightarrow> au_is_active u \<and> has_role_permission known (Some (au_role u)) permission)"

definition get_current_user :: "request_auth \<Rightarrow> auth_user auth_op" where
  "get_current_user rq =
     (case rq_user rq of
        None \<Rightarrow> py_raise (Auth_http_error 401 ''Missing or invalid token'')
      | Some u \<Rightarrow> if au_is_active u then py_return u else py_raise (Auth_http_error 401 ''permissions_changed''))"

definition require_permission :: "string list \<Rightarrow> string \<Rightarrow> request_auth \<Rightarrow> auth_user auth_op" where
  "require_permission known permission rq =
     py_bind (get_current_user rq) (\<lambda>u.
     if has_permission known (Some u) permission then py_return u
     else py_raise (Auth_http_error 403 (''Missing permission: '' @ permission)))"

end
