(* ===== verification/Auth_Limits.thy ===== *)
theory Auth_Limits
  imports Py_Prelude Py_Calendar
begin

text \<open>
  The limits of login attempts (\<open>auth/web/rate_limit/rate_limit_policy.py\<close>, \<open>auth_limits.py\<close>) and the
  throttle of \<open>kernel/security/rate_limit.py\<close>. A store maps a key to the moments of the attempts it counted;
  the sorted sets of Redis and the dictionaries of the process are two such stores with their own clocks and
  keys. Moments are microseconds; a call to Redis is atomic here, which two processes at once are not.
\<close>

section \<open>The policy\<close>

definition prune_old_timestamps :: "int list \<Rightarrow> int \<Rightarrow> int \<Rightarrow> int list" where
  "prune_old_timestamps timestamps window now = filter (\<lambda>t. now - t < window) timestamps"

definition is_within_limit :: "nat \<Rightarrow> int \<Rightarrow> bool" where
  "is_within_limit current_count max_count \<longleftrightarrow> int current_count < max_count"

definition email_mem_key :: "string option \<Rightarrow> string \<Rightarrow> string" where
  "email_mem_key slug email = str_or slug [] @ '':'' @ py_lower (py_strip email)"

definition pending_mem_key :: "string option \<Rightarrow> string \<Rightarrow> string" where
  "pending_mem_key slug token = str_or slug [] @ '':'' @ py_strip token"

definition email_redis_key :: "string option \<Rightarrow> string \<Rightarrow> string" where
  "email_redis_key slug email = ''rl:login_email:'' @ py_strip (str_or slug []) @ '':'' @ py_lower (py_strip email)"

definition pending_redis_key :: "string option \<Rightarrow> string \<Rightarrow> string" where
  "pending_redis_key slug token = ''rl:login_pending:'' @ py_strip (str_or slug []) @ '':'' @ py_strip token"

definition burst_mem_key :: "string option \<Rightarrow> string \<Rightarrow> string \<Rightarrow> string" where
  "burst_mem_key slug email ip =
     py_strip (str_or slug []) @ '':'' @ py_lower (py_strip email) @ '':'' @ py_strip ip"

definition burst_redis_key :: "string option \<Rightarrow> string \<Rightarrow> string \<Rightarrow> string" where
  "burst_redis_key slug email ip = ''rl:login_burst:'' @ burst_mem_key slug email ip"

definition failure_ban_mem_key :: "string option \<Rightarrow> string \<Rightarrow> string \<Rightarrow> string" where
  "failure_ban_mem_key slug email ip = burst_mem_key slug email ip"

definition failure_ban_redis_key :: "string option \<Rightarrow> string \<Rightarrow> string \<Rightarrow> string" where
  "failure_ban_redis_key slug email ip = ''rl:login_fail_ban:'' @ burst_mem_key slug email ip"

section \<open>The stores\<close>

type_synonym stamps = "string \<Rightarrow> int list"

text \<open>
  Memory: the moments not older than the window, one more when they are fewer than the limit. Redis:
  \<open>ZREMRANGEBYSCORE key -inf now-window\<close> removes a moment exactly one window old as well, so both keep
  \<open>now - t < window\<close>; the member \<open>now:n\<close> of \<open>ZADD\<close> is new, as \<open>n\<close> counts the members before it.
\<close>

definition attempt :: "int \<Rightarrow> int \<Rightarrow> string \<Rightarrow> int \<Rightarrow> stamps \<Rightarrow> bool \<times> stamps" where
  "attempt window limit key now st =
     (let kept = prune_old_timestamps (st key) window now in
      if is_within_limit (length kept) limit then (True, st(key := kept @ [now])) else (False, st(key := kept)))"

text \<open>What the process sees of Redis: \<open>None\<close> without a client or when a call raises.\<close>

record limit_state =
  lm_redis :: stamps
  lm_memory :: stamps

record limit_call =
  lc_redis_up :: bool
  lc_time :: int
  lc_monotonic :: int

definition limited :: "limit_call \<Rightarrow> int \<Rightarrow> int \<Rightarrow> string \<Rightarrow> string \<Rightarrow> limit_state \<Rightarrow> bool \<times> limit_state" where
  "limited c window limit redis_key mem_key s =
     (if lc_redis_up c then (case attempt window limit redis_key (lc_time c) (lm_redis s) of
          (ok, st) \<Rightarrow> (ok, s\<lparr>lm_redis := st\<rparr>))
      else (case attempt window limit mem_key (lc_monotonic c) (lm_memory s) of
          (ok, st) \<Rightarrow> (ok, s\<lparr>lm_memory := st\<rparr>)))"

text \<open>The four stores of the process are one here, under a prefix that keeps their keys apart.\<close>

definition check_login_step1_email :: "int \<Rightarrow> limit_call \<Rightarrow> string \<Rightarrow> string option \<Rightarrow> limit_state \<Rightarrow> bool \<times> limit_state" where
  "check_login_step1_email per_hour c email slug s =
     (if py_strip email = [] then (True, s)
      else limited c (seconds 3600) (max 1 (if per_hour = 0 then 10 else per_hour)) (email_redis_key slug email)
             (''email/'' @ email_mem_key slug email) s)"

definition check_login_step2_pending_token :: "limit_call \<Rightarrow> string \<Rightarrow> string option \<Rightarrow> limit_state \<Rightarrow> bool \<times> limit_state" where
  "check_login_step2_pending_token c token slug s =
     (if py_strip token = [] then (True, s)
      else limited c (seconds 60) 5 (pending_redis_key slug token) (''pending/'' @ pending_mem_key slug token) s)"

definition normalized_ip :: "string option \<Rightarrow> string" where
  "normalized_ip ip = str_or (Some (py_strip (str_or ip []))) ''unknown''"

definition check_login_burst :: "int \<Rightarrow> limit_call \<Rightarrow> string \<Rightarrow> string option \<Rightarrow> string option \<Rightarrow> limit_state \<Rightarrow> bool \<times> limit_state" where
  "check_login_burst per_10s c email ip slug s =
     (if py_strip email = [] then (True, s)
      else limited c (seconds 10) (max 1 per_10s) (burst_redis_key slug email (normalized_ip ip))
             (''burst/'' @ burst_mem_key slug email (normalized_ip ip)) s)"

text \<open>Every failed login is counted; the number of those in the window is the answer.\<close>

definition register_failed_login_attempt :: "int \<Rightarrow> limit_call \<Rightarrow> string \<Rightarrow> string option \<Rightarrow> string option \<Rightarrow> limit_state \<Rightarrow> nat \<times> limit_state" where
  "register_failed_login_attempt ban_window c email ip slug s =
     (if py_strip email = [] then (0, s)
      else
        (let window = seconds (max 60 ban_window); ip = normalized_ip ip in
         if lc_redis_up c then
           (let key = failure_ban_redis_key slug email ip; kept = prune_old_timestamps (lm_redis s key) window (lc_time c)
            in (length kept + 1, s\<lparr>lm_redis := (lm_redis s)(key := kept @ [lc_time c])\<rparr>))
         else
           (let key = ''failure/'' @ failure_ban_mem_key slug email ip;
                kept = prune_old_timestamps (lm_memory s key) window (lc_monotonic c)
            in (length kept + 1, s\<lparr>lm_memory := (lm_memory s)(key := kept @ [lc_monotonic c])\<rparr>))))"

section \<open>The throttle of other endpoints\<close>

text \<open>\<open>_bucket_allowed_memory\<close>: a queue whose head leaves when it is older than the window.\<close>

definition bucket_allowed_memory :: "string \<Rightarrow> int \<Rightarrow> nat \<Rightarrow> int \<Rightarrow> stamps \<Rightarrow> bool \<times> stamps" where
  "bucket_allowed_memory key window max_requests now st =
     (let bucket = dropWhile (\<lambda>t. now - t > window) (st key) in
      if length bucket \<ge> max_requests then (False, st(key := bucket)) else (True, st(key := bucket @ [now])))"

text \<open>\<open>_bucket_allowed_redis\<close>: one counter per key and window of the epoch.\<close>

definition bucket_allowed_redis :: "string \<Rightarrow> int \<Rightarrow> int \<Rightarrow> int \<Rightarrow> (string \<Rightarrow> int) \<Rightarrow> bool \<times> (string \<Rightarrow> int)" where
  "bucket_allowed_redis key window_sec max_requests now counters =
     (let redis_key = ''rl:fallback:'' @ key @ '':'' @ str_of_int (now div seconds window_sec);
          count = counters redis_key + 1
      in (count \<le> max_requests, counters(redis_key := count)))"

definition sensitive_routes :: "(string \<times> string) list" where
  "sensitive_routes = [(''GET'', ''/api/auth/csrf-token''), (''POST'', ''/api/auth/authenticator/setup''),
     (''POST'', ''/api/auth/authenticator/confirm''), (''DELETE'', ''/api/auth/authenticator''),
     (''GET'', ''/api/platform-admin/auth/csrf-token''), (''GET'', ''/api/chat/ws-token'')]"

definition enforce_fallback_throttle ::
  "bool \<Rightarrow> int \<Rightarrow> int \<Rightarrow> string \<Rightarrow> string \<Rightarrow> string \<Rightarrow> string option \<Rightarrow> (string \<Rightarrow> int) \<times> stamps \<Rightarrow> bool \<times> (string \<Rightarrow> int) \<times> stamps" where
  "enforce_fallback_throttle redis_up time monotonic http_method path slug ip = (\<lambda>(counters, buckets).
     if (http_method, path) \<notin> set sensitive_routes then (True, counters, buckets)
     else
       (let key = slug @ '':'' @ str_or ip ''unknown'' @ '':'' @ http_method @ '':'' @ path in
        if redis_up then (case bucket_allowed_redis key 60 120 time counters of (ok, c) \<Rightarrow> (ok, c, buckets))
        else (case bucket_allowed_memory key (seconds 60) 120 monotonic buckets of (ok, b) \<Rightarrow> (ok, counters, b))))"

end
