(* ===== verification/Users_Routes.thy ===== *)
theory Users_Routes
  imports Users_Profile Auth_Web Auth_Limits
begin

text \<open>
  The HTTP handlers of login and of users (\<open>auth/router/auth_router.py\<close>, \<open>users/router/\<close>): what they do around
  the services to the limits, the allowlist, the cache of users and the flag of changed permissions. A response
  is its data; an \<open>HTTPException\<close> is \<open>Auth_http_error\<close> with its status; an exception that no handler maps
  leaves as it is. Cookies and texts in several languages are left out, the request is validated as its
  pydantic model says, and the quota check of billing and the ban list of the administration are arguments.
\<close>

section \<open>Login, refresh, logout\<close>

record route_state =
  rt_auth :: auth_state
  rt_limits :: limit_state
  rt_bans :: "string list"

type_synonym 'a route = "(route_state, auth_error, 'a) py"

definition on_auth :: "'a auth_op \<Rightarrow> 'a route" where
  "on_auth m = (\<lambda>s. case m (rt_auth s) of (r, a) \<Rightarrow> (r, s\<lparr>rt_auth := a\<rparr>))"

definition on_limits :: "(limit_state \<Rightarrow> 'a \<times> limit_state) \<Rightarrow> 'a route" where
  "on_limits f = (\<lambda>s. case f (rt_limits s) of (r, l) \<Rightarrow> (Inr r, s\<lparr>rt_limits := l\<rparr>))"

record route_settings =
  rg_login_step1_per_hour :: int
  rg_login_burst_per_10s :: int
  rg_failure_ban_window_sec :: int
  rg_failure_ban_threshold :: int

datatype token_response = Token_response (tr_access: string) (tr_user: auth_user) | Two_factor_response string string

definition ensure_not_banned_ip :: "string option \<Rightarrow> unit route" where
  "ensure_not_banned_ip ip = py_bind (py_gets rt_bans) (\<lambda>bans.
     if str_or ip [] \<noteq> [] \<and> str_or ip [] \<in> set bans
     then py_raise (Auth_http_error 403 ''IP address is temporarily blocked'') else py_return ())"

definition login_limits :: "route_settings \<Rightarrow> limit_call \<Rightarrow> string option \<Rightarrow> login_input \<Rightarrow> unit route" where
  "login_limits g c slug inp =
     (if str_or (li_pending_token inp) [] \<noteq> [] \<and> str_or (li_two_factor_code inp) [] \<noteq> [] then
        py_bind (on_limits (check_login_step2_pending_token c (str_or (li_pending_token inp) []) slug)) (\<lambda>ok.
        if ok then py_return () else py_raise (Auth_http_error 429 ''auth_rate_limit''))
      else if str_or (li_email inp) [] \<noteq> [] then
        py_bind (on_limits (check_login_step1_email (rg_login_step1_per_hour g) c (str_or (li_email inp) []) slug)) (\<lambda>ok.
        if \<not> ok then py_raise (Auth_http_error 429 ''auth_rate_limit'')
        else py_bind (on_limits (check_login_burst (rg_login_burst_per_10s g) c (str_or (li_email inp) []) (li_ip inp) slug)) (\<lambda>ok.
        if ok then py_return () else py_raise (Auth_http_error 429 ''auth_rate_limit'')))
      else py_return ())"

definition login_errors :: "auth_error \<Rightarrow> auth_error" where
  "login_errors x = (case x of
       Email_error \<Rightarrow> Auth_http_error 503 ''two_factor_email_failed''
     | Too_many_attempts \<Rightarrow> Auth_http_error 429 ''two_factor_too_many_attempts''
     | _ \<Rightarrow> Auth_http_error 500 ''login_error'')"

definition failed_login :: "route_settings \<Rightarrow> limit_call \<Rightarrow> string option \<Rightarrow> login_input \<Rightarrow> token_response route" where
  "failed_login g c slug inp =
     py_bind (on_limits (register_failed_login_attempt (rg_failure_ban_window_sec g) c
                 (str_or (li_email inp) []) (li_ip inp) slug)) (\<lambda>failure_count.
     py_seq (if int failure_count \<ge> max 1 (rg_failure_ban_threshold g) \<and> str_or (li_ip inp) [] \<noteq> []
             then py_modify (\<lambda>s. s\<lparr>rt_bans := str_or (li_ip inp) [] # rt_bans s\<rparr>) else py_return ())
       (py_raise (Auth_http_error 401 ''invalid_credentials'')))"

definition build_token_response :: "web_env \<Rightarrow> string option \<Rightarrow> login_success \<Rightarrow> token_response auth_op" where
  "build_token_response wx slug r =
     py_seq (allowlist_add wx slug (au_id (ls_user r)) (ls_access_jti r))
       (py_return (Token_response (ls_access_token r) (ls_user r)))"

definition allowlist_errors :: "'a auth_op \<Rightarrow> 'a auth_op" where
  "allowlist_errors m = py_try m (\<lambda>x. py_raise
     (if x = Allowlist_unavailable then Auth_http_error 503 ''allowlist'' else x))"

definition login_route ::
  "auth_env \<Rightarrow> web_env \<Rightarrow> route_settings \<Rightarrow> limit_call \<Rightarrow> request_auth \<Rightarrow> string option \<Rightarrow> login_input \<Rightarrow> token_response route" where
  "login_route e wx g c rq slug inp =
     py_seq (ensure_not_banned_ip (li_ip inp))
       (if rq_user rq \<noteq> None then py_raise (Auth_http_error 409 ''already_logged_in'')
        else py_seq (login_limits g c slug inp)
         (py_bind (on_auth (py_try (login e inp) (\<lambda>x. py_raise (login_errors x)))) (\<lambda>result.
          case result of
            None \<Rightarrow> failed_login g c slug inp
          | Some (Two_factor_required pending challenge) \<Rightarrow> py_return (Two_factor_response pending challenge)
          | Some (Login_success r) \<Rightarrow> on_auth (allowlist_errors (build_token_response wx slug r)))))"

definition refresh_failure :: "refresh_fail_reason \<Rightarrow> auth_error" where
  "refresh_failure reason = Auth_http_error 401 (case reason of
       Re_2fa_required \<Rightarrow> ''re_2fa_required'' | Permissions_changed \<Rightarrow> ''permissions_changed''
     | _ \<Rightarrow> ''invalid_or_revoked_refresh'')"

definition refresh_route ::
  "auth_env \<Rightarrow> web_env \<Rightarrow> string option \<Rightarrow> string option \<Rightarrow> string option \<Rightarrow> tenant_context \<Rightarrow> token_response route" where
  "refresh_route e wx cookie ip ua tenant =
     py_seq (ensure_not_banned_ip ip)
       (if str_or cookie [] = [] then py_raise (Auth_http_error 401 ''no_refresh_token'')
        else on_auth (py_bind (refresh e (str_or cookie []) ip ua tenant) (\<lambda>result.
          case result of
            Refresh_failed reason \<Rightarrow> py_raise (refresh_failure reason)
          | Refresh_success r \<Rightarrow>
              (case rs_user r of
                 None \<Rightarrow> py_raise (Auth_value_error ''user'')
               | Some u \<Rightarrow> py_seq (allowlist_errors (allowlist_add wx (context_slug tenant) (au_id u) (rs_access_jti r)))
                   (py_return (Token_response (rs_access_token r) u))))))"

text \<open>\<open>finally\<close>: the allowlist entry goes, whatever the service does.\<close>

definition logout_user :: "auth_env \<Rightarrow> datetime \<Rightarrow> request_auth \<Rightarrow> string option \<Rightarrow> auth_error + int option" where
  "logout_user e now rq cookie =
     (case rq_user rq of
        Some u \<Rightarrow> if au_is_active u then Inr (Some (au_id u)) else Inr None
      | None \<Rightarrow>
          if str_or cookie [] = [] then Inr None
          else (case decode_ignore_exp e now (str_or cookie []) of
              Inl x \<Rightarrow> Inl (token_error x)
            | Inr None \<Rightarrow> Inr None
            | Inr (Some payload) \<Rightarrow>
                if cl_typ payload = Some ''refresh'' \<and> str_or (cl_sub payload) [] \<noteq> []
                then (case Option.bind (cl_sub payload) py_int of
                    None \<Rightarrow> Inl (Auth_value_error ''sub'') | Some user \<Rightarrow> Inr (Some user))
                else Inr None))"

definition logout_route :: "auth_env \<Rightarrow> web_env \<Rightarrow> request_auth \<Rightarrow> string option \<Rightarrow> string option \<Rightarrow> string option \<Rightarrow> unit route" where
  "logout_route e wx rq cookie ip slug =
     py_seq (ensure_not_banned_ip ip)
       (on_auth (py_bind (py_gets as_now) (\<lambda>now.
        py_bind (py_lift (logout_user e now rq cookie)) (\<lambda>user.
        let forget = (case user of None \<Rightarrow> py_return () | Some i \<Rightarrow> remove_by_user wx slug i) in
        py_seq (py_try (if str_or cookie [] = [] then py_return ()
                        else py_bind (logout e (str_or cookie [])) (\<lambda>_. py_return ()))
                  (\<lambda>x. py_seq forget (py_raise x)))
          forget))))"

section \<open>Users\<close>

text \<open>The validators of the request models: \<open>None\<close> is the answer 422 of the framework.\<close>

definition request_email :: "string option \<Rightarrow> string option option" where
  "request_email email =
     (case email of
        None \<Rightarrow> Some None
      | Some x \<Rightarrow> if length x \<le> 100 \<and> is_valid_email (Some (py_strip x)) then Some (Some (py_strip x)) else None)"

definition value_error_400 :: "'a auth_op \<Rightarrow> 'a auth_op" where
  "value_error_400 m = py_try m (\<lambda>x. py_raise
     (case x of Auth_value_error msg \<Rightarrow> Auth_http_error 400 msg | _ \<Rightarrow> x))"

text \<open>\<open>usage\<close>: what \<open>can_create_user\<close> answered; \<open>None\<close> when the service is missing or raised.\<close>

definition post_user ::
  "auth_env \<Rightarrow> string list \<Rightarrow> request_auth \<Rightarrow> (bool \<times> string) option \<Rightarrow> string \<Rightarrow> string \<Rightarrow> string \<Rightarrow> string option \<Rightarrow>
   string \<Rightarrow> auth_user auth_op" where
  "post_user e known rq usage email name role base lang =
     py_bind (require_permission known ''users.write'' rq) (\<lambda>current.
     if request_email (Some email) = None \<or> role \<notin> {''user'', ''admin'', ''owner''} \<or> length name > 100
     then py_raise (Auth_http_error 422 ''validation'')
     else (case usage of
         Some (False, reason) \<Rightarrow> py_raise (Auth_http_error 400 reason)
       | _ \<Rightarrow> value_error_400 (user_create e (py_strip email) (or_str (Some name) None) role base True False
               (or_str (au_preferred_locale current) (Some lang)))))"

definition put_user ::
  "web_env \<Rightarrow> string list \<Rightarrow> request_auth \<Rightarrow> string option \<Rightarrow> int \<Rightarrow> string option \<Rightarrow> bool option \<Rightarrow> string option \<Rightarrow>
   string option \<Rightarrow> auth_user auth_op" where
  "put_user wx known rq slug user_id name is_active email role =
     py_bind (require_permission known ''users.write'' rq) (\<lambda>current.
     case request_email email of
       None \<Rightarrow> py_raise (Auth_http_error 422 ''validation'')
     | Some email \<Rightarrow>
         if role \<notin> {None, Some ''user'', Some ''admin''} \<or> length (str_or name []) > 100
         then py_raise (Auth_http_error 422 ''validation'')
         else value_error_400
           (py_bind (user_update user_id (au_id current) name is_active email role) (\<lambda>user.
            py_seq (invalidate_user_cache slug user_id)
           (py_seq (if role \<noteq> None \<or> is_active \<noteq> None \<or> email \<noteq> None
                    then py_seq (remove_by_user wx slug user_id) (permissions_changed_set slug user_id)
                    else py_return ())
              (py_return user)))))"

definition delete_user_route :: "auth_env \<Rightarrow> web_env \<Rightarrow> string list \<Rightarrow> request_auth \<Rightarrow> string option \<Rightarrow> int \<Rightarrow> unit auth_op" where
  "delete_user_route e wx known rq slug user_id =
     py_bind (require_permission known ''users.write'' rq) (\<lambda>current.
     value_error_400 (py_seq (remove_by_user wx slug user_id) (user_delete e user_id (au_id current))))"

definition patch_me ::
  "request_auth \<Rightarrow> string option \<Rightarrow> string option \<Rightarrow> string option \<Rightarrow> string option \<Rightarrow> profile_payload auth_op" where
  "patch_me rq slug name locale theme =
     py_bind (get_current_user rq) (\<lambda>u.
     py_bind (update_me u name locale theme) (\<lambda>result.
     py_seq (invalidate_user_cache slug (au_id u)) (py_return result)))"

definition confirm_email_route :: "auth_env \<Rightarrow> web_env \<Rightarrow> string option \<Rightarrow> string \<Rightarrow> unit auth_op" where
  "confirm_email_route e wx slug token =
     py_bind (py_try (confirm_email_change e token) (\<lambda>x. py_raise (case x of
         Auth_value_error msg \<Rightarrow> Auth_http_error (if msg = ''expired_email_change_token'' then 410 else 400) msg
       | _ \<Rightarrow> x))) (\<lambda>u.
     py_seq (invalidate_user_cache slug (au_id u)) (remove_by_user wx (Some (str_or slug [])) (au_id u)))"

definition set_password_route :: "auth_env \<Rightarrow> string \<Rightarrow> string \<Rightarrow> unit auth_op" where
  "set_password_route e token password =
     (if py_strip token = [] \<or> validate_password_policy (Some password) (ax_password_level e) \<noteq> Some None
      then py_raise (Auth_http_error 422 ''validation'')
      else py_try (set_password e (py_strip token) password) (\<lambda>x. py_raise (case x of
          Invite_token_expired \<Rightarrow> Auth_http_error 410 ''expired''
        | Invite_token_invalid \<Rightarrow> Auth_http_error 400 ''invalid''
        | _ \<Rightarrow> x)))"

definition set_initial_password_route ::
  "auth_env \<Rightarrow> web_env \<Rightarrow> request_auth \<Rightarrow> string \<Rightarrow> int \<Rightarrow> bool \<Rightarrow> string \<Rightarrow> string option \<Rightarrow> string option \<Rightarrow> token_response auth_op" where
  "set_initial_password_route e wx rq slug tenant_ver demo_mode password ip ua =
     py_bind (get_current_user rq) (\<lambda>u.
     if validate_password_policy (Some password) (ax_password_level e) \<noteq> Some None
     then py_raise (Auth_http_error 422 ''validation'')
     else if \<not> demo_mode then py_raise (Auth_http_error 403 ''not_demo_tenant'')
     else py_seq (py_try (set_initial_password_demo e (au_id u) password demo_mode) (\<lambda>x. py_raise (case x of
         Auth_value_error msg \<Rightarrow> Auth_http_error (if msg = ''not_demo_tenant'' then 403
             else if msg = ''user_not_found'' then 404 else 400) msg
       | _ \<Rightarrow> x)))
      (py_seq (invalidate_user_cache (Some slug) (au_id u))
      (py_bind (get_db (\<lambda>db. live_user db (au_id u))) (\<lambda>updated.
       case updated of
         None \<Rightarrow> py_raise (Auth_http_error 404 ''User not found'')
       | Some v \<Rightarrow> py_bind (issue_tokens_for_user e
             \<lparr>li_email = None, li_password = None, li_pending_token = None, li_two_factor_code = None, li_ip = ip,
              li_ua = ua, li_auto_login = True, li_tenant_ver = tenant_ver\<rparr> v) (\<lambda>result.
           case result of
             Some (Login_success r) \<Rightarrow> build_token_response wx (Some slug) r
           | _ \<Rightarrow> py_raise (Auth_value_error ''result''))))))"

definition list_users_route :: "string list \<Rightarrow> request_auth \<Rightarrow> auth_user list auth_op" where
  "list_users_route known rq =
     py_bind (require_permission known ''users.read'' rq) (\<lambda>_. get_db list_users)"

definition get_user_route :: "string list \<Rightarrow> request_auth \<Rightarrow> int \<Rightarrow> auth_user auth_op" where
  "get_user_route known rq user_id =
     py_bind (require_permission known ''users.read'' rq) (\<lambda>_.
     py_bind (get_db (\<lambda>db. live_user db user_id)) (\<lambda>user.
     case user of None \<Rightarrow> py_raise (Auth_http_error 404 ''User not found'') | Some u \<Rightarrow> py_return u))"

definition resend_invite_route :: "auth_env \<Rightarrow> string list \<Rightarrow> request_auth \<Rightarrow> int \<Rightarrow> string option \<Rightarrow> auth_user auth_op" where
  "resend_invite_route e known rq user_id base =
     py_bind (require_permission known ''users.invite'' rq) (\<lambda>current.
     value_error_400 (py_seq (resend_invite e user_id base (au_preferred_locale current))
       (py_bind (get_db (\<lambda>db. live_user db user_id)) (\<lambda>user.
        case user of None \<Rightarrow> py_raise (Auth_http_error 404 ''User not found'') | Some u \<Rightarrow> py_return u))))"

definition validate_set_password_token :: "auth_env \<Rightarrow> string \<Rightarrow> string option auth_op" where
  "validate_set_password_token e token =
     py_bind (validate_invite_token_details e token) (\<lambda>status.
     case status of
       Invite_valid email \<Rightarrow> py_return email
     | Invite_expired \<Rightarrow> py_raise (Auth_http_error 410 ''expired'')
     | Invite_invalid \<Rightarrow> py_raise (Auth_http_error 400 ''invalid''))"

definition change_password_route :: "auth_env \<Rightarrow> request_auth \<Rightarrow> string \<Rightarrow> string \<Rightarrow> unit auth_op" where
  "change_password_route e rq current_password new_password =
     py_bind (get_current_user rq) (\<lambda>u.
     if current_password = [] \<or> validate_password_policy (Some new_password) (ax_password_level e) \<noteq> Some None
     then py_raise (Auth_http_error 422 ''validation'')
     else value_error_400 (change_password e (au_id u) current_password new_password))"

definition authenticator_confirm_route :: "auth_env \<Rightarrow> request_auth \<Rightarrow> string \<Rightarrow> unit auth_op" where
  "authenticator_confirm_route e rq code =
     py_bind (get_current_user rq) (\<lambda>u.
     if py_strip code = [] then py_raise (Auth_http_error 400 ''Authenticator code is required'')
     else py_try (confirm_authenticator_setup e (au_id u) (py_strip code)) (\<lambda>x. py_raise (case x of
         Auth_value_error msg \<Rightarrow> Auth_http_error 400
           (if msg = ''authenticator_setup_not_started'' then ''Authenticator setup was not started''
            else if msg = ''invalid_authenticator_code'' then ''Invalid authenticator code'' else ''Authenticator setup error'')
       | _ \<Rightarrow> x)))"

definition authenticator_disable_route :: "request_auth \<Rightarrow> unit auth_op" where
  "authenticator_disable_route rq = py_bind (get_current_user rq) (\<lambda>u. disable_authenticator (au_id u))"

end
