(* ===== verification/Users_Facts.thy ===== *)
theory Users_Facts
  imports Users_Routes Auth_Session_Facts
begin

text \<open>
  The table of users as a type: which rows it can hold, and that every operation of the users module and of
  login keeps it so. \<open>users_inv n\<close> is the invariant together with the lower bound \<open>n\<close> of the sequence of
  identifiers, which a rolled back transaction does not take back.
\<close>

section \<open>Rows and tables\<close>

definition live_owner :: "auth_user \<Rightarrow> bool" where
  "live_owner u \<longleftrightarrow> au_role u = ''owner'' \<and> \<not> au_deleted u"

definition user_row_ok :: "auth_user \<Rightarrow> bool" where
  "user_row_ok u \<longleftrightarrow> 0 < au_id u \<and> au_role u \<in> {''user'', ''admin'', ''owner''} \<and>
     au_preferred_locale u \<in> {None, Some ''hu'', Some ''en'', Some ''es''} \<and>
     au_preferred_theme u \<in> {None, Some ''light'', Some ''dark''} \<and>
     (if au_deleted u then \<not> au_is_active u \<and> au_role u = ''user'' else py_strip (au_email u) = au_email u)"

text \<open>Two rows of the table.\<close>

definition users_apart :: "auth_user \<Rightarrow> auth_user \<Rightarrow> bool" where
  "users_apart u v \<longleftrightarrow> au_id u \<noteq> au_id v \<and> au_email u \<noteq> au_email v \<and>
     (\<not> au_deleted u \<and> \<not> au_deleted v \<longrightarrow> py_lower (au_email u) \<noteq> py_lower (au_email v)) \<and>
     \<not> (live_owner u \<and> live_owner v)"

fun users_typed :: "auth_user list \<Rightarrow> bool" where
  "users_typed [] = True"
| "users_typed (u # us) = (user_row_ok u \<and> list_all (users_apart u) us \<and> users_typed us)"

definition users_ok :: "auth_state \<Rightarrow> bool" where
  "users_ok s \<longleftrightarrow> users_typed (ad_users (as_db s)) \<and> 0 < as_next_user s \<and>
     list_all (\<lambda>u. au_id u < as_next_user s) (ad_users (as_db s))"

definition users_inv :: "int \<Rightarrow> auth_state \<Rightarrow> bool" where
  "users_inv n s \<longleftrightarrow> users_ok s \<and> n \<le> as_next_user s"

lemma users_apart_sym: "users_apart u v = users_apart v u"
  by (auto simp: users_apart_def)

lemma users_typed_row: "users_typed us \<Longrightarrow> u \<in> set us \<Longrightarrow> user_row_ok u"
  by (induction us) auto

lemma users_typed_pair: "users_typed us \<Longrightarrow> u \<in> set us \<Longrightarrow> v \<in> set us \<Longrightarrow> u \<noteq> v \<Longrightarrow> users_apart u v"
  by (induction us) (auto simp: list_all_iff users_apart_sym)

lemma users_typed_append:
  "users_typed us \<Longrightarrow> user_row_ok u \<Longrightarrow> list_all (users_apart u) us \<Longrightarrow> users_typed (us @ [u])"
  by (induction us) (auto simp: list_all_iff users_apart_sym)

lemma users_typed_id: "users_typed us \<Longrightarrow> u \<in> set us \<Longrightarrow> v \<in> set us \<Longrightarrow> au_id u = au_id v \<Longrightarrow> u = v"
  using users_typed_pair by (fastforce simp: users_apart_def)

lemma update_where_none: "list_all (\<lambda>x. \<not> P x) xs \<Longrightarrow> update_where P f xs = xs"
  by (induction xs) (auto simp: update_where_def)

text \<open>Replacing one row.\<close>

lemma users_typed_update:
  assumes "users_typed us" and row: "\<And>r. r \<in> set us \<Longrightarrow> au_id r = i \<Longrightarrow> user_row_ok (f r) \<and> au_id (f r) = i"
    and apart: "\<And>r v. r \<in> set us \<Longrightarrow> au_id r = i \<Longrightarrow> v \<in> set us \<Longrightarrow> au_id v \<noteq> i \<Longrightarrow> users_apart (f r) v"
  shows "users_typed (update_where (\<lambda>u. au_id u = i) f us)"
  using assms
proof (induction us)
  case Nil
  then show ?case by (simp add: update_where_def)
next
  case (Cons a us)
  have others: "au_id v \<noteq> au_id a" if "v \<in> set us" for v
    using Cons.prems(1) that by (auto simp: list_all_iff users_apart_def)
  show ?case
  proof (cases "au_id a = i")
    case True
    have same: "update_where (\<lambda>u. au_id u = i) f us = us"
      using others True by (intro update_where_none) (auto simp: list_all_iff)
    have "list_all (users_apart (f a)) us"
      using Cons.prems(3) [of a] others True by (simp add: list_all_iff)
    then show ?thesis using Cons.prems(1) Cons.prems(2) [of a] True same
      by (simp add: update_where_def)
  next
    case False
    have IH: "users_typed (update_where (\<lambda>u. au_id u = i) f us)"
      using Cons.IH Cons.prems by (simp add: list_all_iff)
    have "list_all (users_apart a) (update_where (\<lambda>u. au_id u = i) f us)"
      using Cons.prems(1) Cons.prems(3) [of _ a] False
      by (auto simp: list_all_iff set_update_where users_apart_sym [of a])
    then show ?thesis using Cons.prems(1) False IH by (simp add: update_where_def)
  qed
qed

lemma ids_update:
  "list_all (\<lambda>u. au_id u < n) us \<Longrightarrow> (\<And>r. r \<in> set us \<Longrightarrow> au_id r = i \<Longrightarrow> au_id (f r) = i) \<Longrightarrow>
   list_all (\<lambda>u. au_id u < n) (update_where (\<lambda>u. au_id u = i) f us)"
  by (auto simp: list_all_iff set_update_where)

section \<open>Steps that keep the invariant\<close>

lemma users_inv_cong:
  "ad_users (as_db s') = ad_users (as_db s) \<Longrightarrow> as_next_user s' = as_next_user s \<Longrightarrow> users_inv n s' = users_inv n s"
  by (simp add: users_inv_def users_ok_def)

definition keeps_users :: "'a auth_op \<Rightarrow> bool" where
  "keeps_users m \<longleftrightarrow> (\<forall>s. ad_users (as_db (snd (m s))) = ad_users (as_db s) \<and> as_next_user (snd (m s)) = as_next_user s)"

lemma keeps_preserves: "keeps_users m \<Longrightarrow> preserves (users_inv n) m"
  unfolding keeps_users_def preserves_def users_inv_def users_ok_def by simp

lemma users_inv_transaction: "(\<And>n. preserves (users_inv n) m) \<Longrightarrow> preserves (users_inv n) (transaction m)"
proof (rule preservesI)
  fix s assume m: "\<And>n. preserves (users_inv n) m" and s: "users_inv n s"
  have n: "users_inv n (snd (m s))" using m s by (rule preservesD)
  have "users_inv (as_next_user s) s" using s by (simp add: users_inv_def)
  then have "users_inv (as_next_user s) (snd (m s))" by (rule preservesD [OF m])
  then have "as_next_user s \<le> as_next_user (snd (m s))" by (simp add: users_inv_def)
  then show "users_inv n (snd (transaction m s))" using s n
    by (auto simp: transaction_def users_inv_def users_ok_def list_all_iff split: prod.splits sum.splits)
qed

lemma keeps_basic [preserve]:
  "preserves (users_inv n) (get_db f)" "preserves (users_inv n) (draw g)"
  "preserves (users_inv n) (invalidate_all_for_user i)" "preserves (users_inv n) (create_session i j h x ip ua)"
  "preserves (users_inv n) (update_session t)" "preserves (users_inv n) (create_pending tok i x)"
  "preserves (users_inv n) (consume_pending tok)" "preserves (users_inv n) (create_code i h em x)"
  "preserves (users_inv n) (invalidate_user_codes i)" "preserves (users_inv n) (mark_code_used c)"
  "preserves (users_inv n) (record_failed sc k w)" "preserves (users_inv n) (reset_for_success pt i ipo)"
  "preserves (users_inv n) (mark_used c)" "preserves (users_inv n) (invalidate_invites i)"
  "preserves (users_inv n) (create_invite i h x)" "preserves (users_inv n) (send_link mail)"
  "preserves (users_inv n) (invalidate_user_cache slug i)" "preserves (users_inv n) (permissions_changed_set slug i)"
  "preserves (users_inv n) (modify_web g')"
  by (rule keeps_preserves, simp add: keeps_users_def invalidate_all_for_user_def create_session_def update_session_def
      create_pending_def consume_pending_def create_code_def invalidate_user_codes_def mark_code_used_def
      record_failed_def reset_for_success_def mark_used_def invalidate_invites_def mark_invites_used_def
      create_invite_def send_link_def invalidate_user_cache_def permissions_changed_set_def modify_web_def Let_def)+

text \<open>Updates of columns that the invariant does not read.\<close>

definition same_identity :: "auth_user \<Rightarrow> auth_user \<Rightarrow> bool" where
  "same_identity u v \<longleftrightarrow> au_id u = au_id v \<and> au_email u = au_email v \<and> au_role u = au_role v \<and>
     au_deleted u = au_deleted v \<and> (au_is_active u \<longrightarrow> au_is_active v) \<and>
     au_preferred_locale u = au_preferred_locale v \<and> au_preferred_theme u = au_preferred_theme v"

lemma same_identity_row: "same_identity u v \<Longrightarrow> user_row_ok v \<Longrightarrow> user_row_ok u"
  by (auto simp: same_identity_def user_row_ok_def split: if_splits)

lemma same_identity_apart: "same_identity u v \<Longrightarrow> users_apart u w = users_apart v w"
  by (simp add: same_identity_def users_apart_def live_owner_def)

lemma update_users_ok:
  assumes "users_inv n s"
    and row: "\<And>r. r \<in> set (ad_users (as_db s)) \<Longrightarrow> au_id r = i \<Longrightarrow> user_row_ok (f r) \<and> au_id (f r) = i"
    and apart: "\<And>r v. r \<in> set (ad_users (as_db s)) \<Longrightarrow> au_id r = i \<Longrightarrow> v \<in> set (ad_users (as_db s)) \<Longrightarrow>
      au_id v \<noteq> i \<Longrightarrow> users_apart (f r) v"
  shows "users_inv n (snd (update_users i f s))"
  using assms users_typed_update [of "ad_users (as_db s)" i f] ids_update [of "as_next_user s" "ad_users (as_db s)" i f]
  by (simp add: update_users_def users_inv_def users_ok_def)

lemma update_users_identity: "(\<And>u. same_identity (f u) u) \<Longrightarrow> preserves (users_inv n) (update_users i f)"
proof (rule preservesI, rule update_users_ok)
  fix s r assume f: "\<And>u. same_identity (f u) u" and s: "users_inv n s"
    and r: "r \<in> set (ad_users (as_db s))" "au_id r = i"
  have "user_row_ok r" using s r users_typed_row by (auto simp: users_inv_def users_ok_def)
  then show "user_row_ok (f r) \<and> au_id (f r) = i"
    using same_identity_row [OF f] f [of r] r by (simp add: same_identity_def)
next
  fix s r v assume f: "\<And>u. same_identity (f u) u" and s: "users_inv n s"
    and r: "r \<in> set (ad_users (as_db s))" "au_id r = i" "v \<in> set (ad_users (as_db s))" "au_id v \<noteq> i"
  then show "users_apart (f r) v"
    using same_identity_apart [OF f] users_typed_pair [of "ad_users (as_db s)" r v]
    by (auto simp: users_inv_def users_ok_def)
qed

lemma keeps_columns [preserve]:
  "preserves (users_inv n) (increment_security_version i)"
  "preserves (users_inv n) (update_password i h)"
  "preserves (users_inv n) (record_failed_login i)"
  "preserves (users_inv n) (reset_failed_login i)"
  unfolding increment_security_version_def update_password_def record_failed_login_def reset_failed_login_def case_prod_unfold
  by (intro preserve update_users_identity; simp add: same_identity_def)+

section \<open>Operations on the table of users\<close>

text \<open>What \<open>repo_update_user\<close> may write: a row of the type, whose address and ownership no other row has.\<close>

definition user_fits :: "auth_user list \<Rightarrow> auth_user \<Rightarrow> bool" where
  "user_fits us u \<longleftrightarrow> au_role u \<in> {''user'', ''admin'', ''owner''} \<and>
     au_preferred_locale u \<in> {None, Some ''hu'', Some ''en'', Some ''es''} \<and>
     au_preferred_theme u \<in> {None, Some ''light'', Some ''dark''} \<and> py_strip (au_email u) = au_email u \<and>
     (\<forall>v \<in> set us. au_id v \<noteq> au_id u \<and> \<not> au_deleted v \<longrightarrow>
        py_lower (au_email v) \<noteq> py_lower (au_email u) \<and> (au_role u = ''owner'' \<longrightarrow> au_role v \<noteq> ''owner''))"

lemma find_id: "find (\<lambda>r. au_id r = i) us = Some r \<Longrightarrow> r \<in> set us \<and> au_id r = i"
  using find_Some_set by fastforce

lemma live_userD: "live_user db i = Some u \<Longrightarrow> u \<in> set (ad_users db) \<and> au_id u = i \<and> \<not> au_deleted u"
  unfolding live_user_def using find_Some_set by fastforce

lemma email_taken_iff: "email_taken db row email \<longleftrightarrow> (\<exists>u \<in> set (ad_users db). Some (au_id u) \<noteq> row \<and> au_email u = email)"
  by (simp add: email_taken_def list_ex_iff)

lemma write_user_simps [simp]:
  "au_id (write_user u r) = au_id r" "au_email (write_user u r) = au_email u" "au_role (write_user u r) = au_role u"
  "au_is_active (write_user u r) = au_is_active u" "au_deleted (write_user u r) = au_deleted r"
  "au_preferred_locale (write_user u r) = au_preferred_locale u"
  "au_preferred_theme (write_user u r) = au_preferred_theme u"
  "au_security_version (write_user u r) = au_security_version r"
  "au_password_hash (write_user u r) = au_password_hash r"
  by (simp_all add: write_user_def)

lemma repo_update_ok:
  assumes inv: "users_inv n s" and live: "live_user (as_db s) (au_id u) = Some w" and fits: "user_fits (ad_users (as_db s)) u"
  shows "users_inv n (snd (repo_update_user u s))"
proof (cases "email_taken (as_db s) (Some (au_id u)) (au_email u)")
  case True
  then show ?thesis using inv by (simp add: repo_update_user_def py_run_bind split: option.splits)
next
  case False
  let ?us = "ad_users (as_db s)"
  have typed: "users_typed ?us" using inv by (simp add: users_inv_def users_ok_def)
  have w: "w \<in> set ?us" "au_id w = au_id u" "\<not> au_deleted w" using live_userD [OF live] by simp_all
  have same: "r = w" if "r \<in> set ?us" "au_id r = au_id u" for r
    using users_typed_id [OF typed that(1) w(1)] that(2) w(2) by simp
  have upd: "users_inv n (snd (update_users (au_id u) (write_user u) s))"
  proof (rule update_users_ok [OF inv])
    fix r assume r: "r \<in> set ?us" "au_id r = au_id u"
    then show "user_row_ok (write_user u r) \<and> au_id (write_user u r) = au_id u"
      using users_typed_row [OF typed w(1)] fits same [OF r] w by (simp add: user_row_ok_def user_fits_def)
  next
    fix r v assume r: "r \<in> set ?us" "au_id r = au_id u" and v: "v \<in> set ?us" "au_id v \<noteq> au_id u"
    have "au_email v \<noteq> au_email u" using False v by (auto simp: email_taken_iff)
    then show "users_apart (write_user u r) v"
      using fits v r(2) by (auto simp: users_apart_def live_owner_def user_fits_def)
  qed
  show ?thesis
  proof (cases "find (\<lambda>r. au_id r = au_id u) ?us")
    case None
    then show ?thesis using inv by (simp add: repo_update_user_def py_run_bind)
  next
    case (Some r)
    have "fst (update_users (au_id u) (write_user u) s) = Inr ()" by (simp add: update_users_def)
    then show ?thesis using upd Some False by (simp add: repo_update_user_def py_run_bind py_run_seq)
  qed
qed

lemma repo_create_ok:
  assumes inv: "users_inv n s" and fits: "user_fits (ad_users (as_db s)) (u\<lparr>au_id := as_next_user s\<rparr>)"
    and plain: "au_preferred_locale u = None" "au_preferred_theme u = None"
  shows "users_inv n (snd (repo_create_user u s))"
proof (cases "email_taken (as_db s) None (au_email u)")
  case True
  then show ?thesis using inv
    by (simp add: repo_create_user_def Let_def users_inv_def users_ok_def list_all_iff) fastforce
next
  case False
  let ?us = "ad_users (as_db s)"
  let ?row = "\<lparr>au_id = as_next_user s, au_email = au_email u, au_password_hash = au_password_hash u,
           au_is_active = au_is_active u, au_role = au_role u, au_failed_login_attempts = 0,
           au_security_version = 0, au_deleted = False, au_created_at = as_now s, au_name = au_name u,
           au_registration_completed_at = au_registration_completed_at u, au_preferred_locale = None,
           au_preferred_theme = None, au_credentials_password_set = au_credentials_password_set u,
           au_pending_email = None, au_pending_email_token_hash = None, au_pending_email_expires_at = None\<rparr>"
  have typed: "users_typed ?us" and pos: "0 < as_next_user s" and ids: "\<forall>v \<in> set ?us. au_id v < as_next_user s"
    and n: "n \<le> as_next_user s"
    using inv by (simp_all add: users_inv_def users_ok_def list_all_iff)
  have "list_all (users_apart ?row) ?us"
    unfolding list_all_iff
  proof
    fix v assume v: "v \<in> set ?us"
    then have "au_id v \<noteq> as_next_user s" using ids by fastforce
    moreover have "au_email v \<noteq> au_email u" using False v by (auto simp: email_taken_iff)
    ultimately show "users_apart ?row v" using fits v by (auto simp: users_apart_def live_owner_def user_fits_def)
  qed
  moreover have "user_row_ok ?row" using fits pos by (simp add: user_row_ok_def user_fits_def)
  ultimately have "users_typed (?us @ [?row])" using typed by (intro users_typed_append)
  then show ?thesis using False pos ids n
    by (simp add: repo_create_user_def Let_def users_inv_def users_ok_def list_all_iff) fastforce
qed

lemma repo_delete_ok [preserve]: "preserves (users_inv n) (repo_delete_user e i)"
proof (rule preservesI)
  fix s assume inv: "users_inv n s"
  show "users_inv n (snd (repo_delete_user e i s))"
  proof (cases "find (\<lambda>r. au_id r = i) (ad_users (as_db s))")
    case None
    then show ?thesis using inv by (simp add: repo_delete_user_def py_run_bind)
  next
    case (Some w)
    let ?us = "ad_users (as_db s)" and ?f = "anonymous (ax_token_hex e (as_drawn s)) (ax_token_urlsafe e (as_drawn s + 1))"
    let ?s = "s\<lparr>as_drawn := as_drawn s + 1 + 1\<rparr>"
    have typed: "users_typed ?us" using inv by (simp add: users_inv_def users_ok_def)
    have w: "w \<in> set ?us" "au_id w = i" using find_id [OF Some] by simp_all
    have same: "r = w" if "r \<in> set ?us" "au_id r = i" for r
      using users_typed_id [OF typed that(1) w(1)] that(2) w(2) by simp
    have inv': "users_inv n ?s" using inv by (simp add: users_inv_def users_ok_def)
    show ?thesis
    proof (cases "email_taken (as_db s) (Some i) (au_email (?f w))")
      case True
      then show ?thesis using inv' Some by (simp add: repo_delete_user_def py_run_bind draw_def)
    next
      case False
      have "users_inv n (snd (update_users i ?f ?s))"
      proof (rule update_users_ok [OF inv'])
        fix r assume "r \<in> set (ad_users (as_db ?s))" "au_id r = i"
        then show "user_row_ok (?f r) \<and> au_id (?f r) = i"
          using users_typed_row [OF typed, of r] by (simp add: anonymous_def user_row_ok_def)
      next
        fix r v assume "r \<in> set (ad_users (as_db ?s))" "au_id r = i" "v \<in> set (ad_users (as_db ?s))" "au_id v \<noteq> i"
        then show "users_apart (?f r) v" using False same [of r] w(2)
          by (auto simp: email_taken_iff users_apart_def live_owner_def anonymous_def)
      qed
      then show ?thesis using Some False
        by (simp add: repo_delete_user_def py_run_bind update_users_def users_inv_def users_ok_def)
    qed
  qed
qed

section \<open>The services\<close>

lemma user_by_email_None:
  "user_by_email db email = None \<longleftrightarrow>
     (\<forall>v \<in> set (ad_users db). \<not> au_deleted v \<longrightarrow> py_lower (au_email v) \<noteq> py_lower (py_strip email))"
  by (auto simp: user_by_email_def Let_def find_None_iff_all)

lemma user_by_email_Some:
  "user_by_email db email = Some u \<Longrightarrow>
     u \<in> set (ad_users db) \<and> \<not> au_deleted u \<and> py_lower (au_email u) = py_lower (py_strip email)"
  unfolding user_by_email_def Let_def using find_Some_set by fastforce

lemma exists_owner_iff: "exists_owner db \<longleftrightarrow> (\<exists>v \<in> set (ad_users db). au_role v = ''owner'' \<and> \<not> au_deleted v)"
  by (simp add: exists_owner_def list_ex_iff)

lemma inv_bind: "users_inv n (snd (m s)) \<Longrightarrow> (\<And>x. preserves (users_inv n) (f x)) \<Longrightarrow> users_inv n (snd (py_bind m f s))"
  by (auto simp: py_run_bind preserves_def split: sum.splits)

lemma inv_seq: "users_inv n (snd (m s)) \<Longrightarrow> preserves (users_inv n) k \<Longrightarrow> users_inv n (snd (py_seq m k s))"
  by (auto simp: py_run_seq preserves_def split: sum.splits)

lemma inv_draw: "users_inv n (s\<lparr>as_drawn := k\<rparr>) = users_inv n s"
  by (simp add: users_inv_def users_ok_def)

lemma preserves_hash_password [preserve]: "preserves (users_inv n) (hash_password e pw)"
  unfolding hash_password_def by (rule keeps_basic)

lemma preserves_invite_user [preserve]: "preserves (users_inv n) (invite_user e i base to lang send)"
  unfolding invite_user_def new_invite_token_payload_def send_set_password_invite_def by (intro preserve)

lemma preserves_user_create [preserve]:
  "preserves (users_inv n) (user_create e email name role base send act lang)"
  unfolding user_create_def Let_def
proof (rule users_inv_transaction, rule preservesI, goal_cases)
  case (1 n s)
  let ?em = "py_strip email" and ?s = "s\<lparr>as_drawn := as_drawn s + 1 + 1\<rparr>"
  let ?u = "new_user ?em (ax_hash_password e (as_drawn s + 1) (ax_token_urlsafe e (as_drawn s))) role (or_str name None)
     (if act then Some (as_now s) else None)"
  show ?case
  proof (cases "user_by_email (as_db s) ?em = None \<and> \<not> (role = ''owner'' \<and> exists_owner (as_db s)) \<and>
      role \<in> {''owner'', ''user'', ''admin''}")
    case False
    then show ?thesis using 1 by (auto simp: py_run_bind split: if_splits)
  next
    case True
    have "user_fits (ad_users (as_db ?s)) (?u\<lparr>au_id := as_next_user ?s\<rparr>)"
      using True by (auto simp: user_fits_def new_user_def user_by_email_None exists_owner_iff py_strip_idem)
    then have "users_inv n (snd (repo_create_user ?u ?s))"
      by (rule repo_create_ok [rotated]) (simp_all add: 1 inv_draw new_user_def)
    then have "users_inv n (snd (py_bind (repo_create_user ?u) (\<lambda>created.
        if au_id created = 0 then py_raise (Auth_value_error ''Failed to create user'')
        else py_seq (if act then py_return () else invite_user e (au_id created) base ?em lang send)
          (py_return created)) ?s))"
      by (rule inv_bind) (intro preserve)
    then show ?thesis using True 1
      by (cases act) (auto simp: py_run_bind [of "get_db f" for f] py_run_bind [of "draw f" for f]
          py_run_bind [of "py_gets f" for f] hash_password_def)
  qed
qed

text \<open>A user of the state, with other values in the columns that the service may write.\<close>

lemma user_fits_live:
  assumes inv: "users_inv n s" and u: "live_user (as_db s) (au_id u') = Some u"
    and "au_role u' \<in> {''user'', ''admin'', ''owner''}" "au_role u' = ''owner'' \<Longrightarrow> au_role u = ''owner''"
    and "au_preferred_locale u' \<in> {None, Some ''hu'', Some ''en'', Some ''es''}"
    and "au_preferred_theme u' \<in> {None, Some ''light'', Some ''dark''}"
    and email: "au_email u' = au_email u \<or>
      py_strip (au_email u') = au_email u' \<and> (case user_by_email (as_db s) (au_email u') of None \<Rightarrow> True | Some x \<Rightarrow> au_id x = au_id u')"
  shows "user_fits (ad_users (as_db s)) u'"
proof -
  let ?us = "ad_users (as_db s)"
  have typed: "users_typed ?us" using inv by (simp add: users_inv_def users_ok_def)
  have w: "u \<in> set ?us" "au_id u = au_id u'" "\<not> au_deleted u" using live_userD [OF u] by simp_all
  have strip: "py_strip (au_email u) = au_email u" using users_typed_row [OF typed w(1)] w(3) by (simp add: user_row_ok_def)
  have "py_lower (au_email v) \<noteq> py_lower (au_email u') \<and> (au_role u' = ''owner'' \<longrightarrow> au_role v \<noteq> ''owner'')"
    if v: "v \<in> set ?us" "au_id v \<noteq> au_id u'" "\<not> au_deleted v" for v
  proof -
    have apart: "users_apart u v" using users_typed_pair [OF typed w(1) v(1)] v(2) w(2) by auto
    then have "au_role u' = ''owner'' \<longrightarrow> au_role v \<noteq> ''owner''"
      using assms(4) v(3) w(3) by (auto simp: users_apart_def live_owner_def)
    moreover have "py_lower (au_email v) \<noteq> py_lower (au_email u')"
    proof (cases "au_email u' = au_email u")
      case True
      then show ?thesis using apart v(3) w(3) by (auto simp: users_apart_def)
    next
      case False
      then have st: "py_strip (au_email u') = au_email u'"
        and other: "case user_by_email (as_db s) (au_email u') of None \<Rightarrow> True | Some x \<Rightarrow> au_id x = au_id u'"
        using email by simp_all
      show ?thesis
      proof (cases "user_by_email (as_db s) (au_email u')")
        case None
        then show ?thesis using v st by (auto simp: user_by_email_None)
      next
        case (Some x)
        then have x: "x \<in> set ?us" "\<not> au_deleted x" "py_lower (au_email x) = py_lower (au_email u')" "au_id x = au_id u'"
          using user_by_email_Some [OF Some] st other by simp_all
        then have "users_apart x v" using users_typed_pair [OF typed x(1) v(1)] v(2) by auto
        then show ?thesis using x v(3) by (auto simp: users_apart_def)
      qed
    qed
    ultimately show ?thesis by simp
  qed
  then show ?thesis using assms(3,5,6) email strip by (auto simp: user_fits_def)
qed

lemma user_row_live: "users_inv n s \<Longrightarrow> live_user (as_db s) i = Some u \<Longrightarrow> user_row_ok u \<and> au_id u = i"
  using live_userD users_typed_row by (auto simp: users_inv_def users_ok_def)

lemma repo_update_live:
  assumes inv: "users_inv n s" and live: "live_user (as_db s) (au_id u') = Some u" and same: "au_role u' = au_role u"
    "au_email u' = au_email u" "au_preferred_locale u' = au_preferred_locale u" "au_preferred_theme u' = au_preferred_theme u"
  shows "users_inv n (snd (repo_update_user u' s))"
  using user_row_live [OF inv live] same
  by (intro repo_update_ok [OF inv live] user_fits_live [OF inv live]) (auto simp: user_row_ok_def)

lemma apply_user_update_ok:
  assumes inv: "users_inv n s" and live: "live_user (as_db s) (au_id u) = Some u"
    and role: "role \<in> {None, Some ''user'', Some ''admin''}"
    and email: "\<And>x. email = Some x \<Longrightarrow> py_strip x = x \<and>
      (case user_by_email (as_db s) x of None \<Rightarrow> True | Some v \<Rightarrow> au_id v = au_id u)"
  shows "users_inv n (snd (apply_user_update u name is_active email role s))"
proof -
  let ?r = "u\<lparr>au_name := with_default (new_name name u) (au_name u),
            au_is_active := with_default is_active (au_is_active u),
            au_email := with_default email (au_email u), au_role := with_default role (au_role u)\<rparr>"
  have row: "user_row_ok u" using user_row_live [OF inv live] by simp
  have "user_fits (ad_users (as_db s)) ?r"
  proof (rule user_fits_live [OF inv, where u = u])
    show "live_user (as_db s) (au_id ?r) = Some u" using live by simp
    show "au_role ?r \<in> {''user'', ''admin'', ''owner''}"
      using role row by (auto simp: with_default_def user_row_ok_def)
    show "au_role u = ''owner''" if "au_role ?r = ''owner''"
      using that role by (auto simp: with_default_def)
    show "au_preferred_locale ?r \<in> {None, Some ''hu'', Some ''en'', Some ''es''}"
      "au_preferred_theme ?r \<in> {None, Some ''light'', Some ''dark''}" using row by (simp_all add: user_row_ok_def)
    show "au_email ?r = au_email u \<or> py_strip (au_email ?r) = au_email ?r \<and>
        (case user_by_email (as_db s) (au_email ?r) of None \<Rightarrow> True | Some x \<Rightarrow> au_id x = au_id ?r)"
      using email by (cases email) (simp_all add: with_default_def split: option.splits)
  qed
  then have "users_inv n (snd (repo_update_user ?r s))"
    by (intro repo_update_ok [OF inv, where w = u]) (simp_all add: live)
  then have "users_inv n (snd (py_bind (repo_update_user ?r) (\<lambda>result.
           py_seq (if au_role result \<noteq> au_role u \<or> au_is_active result \<noteq> au_is_active u
                   then py_seq (invalidate_all_for_user (au_id result)) (increment_security_version (au_id result))
                   else py_return ()) (py_return result)) s))"
    by (rule inv_bind) (intro preserve)
  then show ?thesis using inv by (simp add: apply_user_update_def Let_def)
qed

lemma preserves_user_update:
  assumes role: "role \<in> {None, Some ''user'', Some ''admin''}" and email: "\<And>x. email = Some x \<Longrightarrow> py_strip x = x"
  shows "preserves (users_inv n) (user_update i cur name is_active email role)"
  unfolding user_update_def
proof (rule users_inv_transaction, rule preservesI, goal_cases)
  case (1 n s)
  show ?case
  proof (cases "live_user (as_db s) i")
    case None
    then show ?thesis using 1 by (simp add: py_run_bind)
  next
    case (Some u)
    then have u: "live_user (as_db s) (au_id u) = Some u" using live_userD [OF Some] by simp
    have id: "au_id u = i" using live_userD [OF Some] by simp
    have own: "users_inv n (snd (apply_user_update u name None None None s))"
      by (rule apply_user_update_ok [OF 1 u]) simp_all
    have other: "users_inv n (snd (apply_user_update u name is_active email role s))"
      if "case Option.bind email (user_by_email (as_db s)) of None \<Rightarrow> True | Some x \<Rightarrow> au_id x = i"
      by (rule apply_user_update_ok [OF 1 u role]) (use email that id in \<open>auto split: option.splits\<close>)
    show ?thesis
    proof (cases "case Option.bind email (user_by_email (as_db s)) of None \<Rightarrow> True | Some x \<Rightarrow> au_id x = i")
      case True
      then have "\<not> (case Option.bind email (user_by_email (as_db s)) of None \<Rightarrow> False | Some x \<Rightarrow> au_id x \<noteq> i)"
        by (auto split: option.splits)
      then show ?thesis using Some 1 own other [OF True] by (auto simp: py_run_bind)
    next
      case False
      then have "case Option.bind email (user_by_email (as_db s)) of None \<Rightarrow> False | Some x \<Rightarrow> au_id x \<noteq> i"
        by (auto split: option.splits)
      then show ?thesis using Some 1 own by (auto simp: py_run_bind)
    qed
  qed
qed

lemma preserves_user_delete [preserve]: "preserves (users_inv n) (user_delete e i cur)"
  unfolding user_delete_def by (intro users_inv_transaction preserve)

lemma preserves_change_password [preserve]: "preserves (users_inv n) (change_password e i old new)"
  unfolding change_password_def by (intro users_inv_transaction preserve)

lemma preserves_set_initial [preserve]: "preserves (users_inv n) (set_initial_password_demo e i pw demo)"
  unfolding set_initial_password_demo_def by (intro preserve users_inv_transaction)

lemma preserves_forgot [preserve]: "preserves (users_inv n) (forgot_password e email base lang)"
  unfolding forgot_password_def by (intro users_inv_transaction preserve)

lemma preserves_resend [preserve]: "preserves (users_inv n) (resend_invite e i base lang)"
  unfolding resend_invite_def by (intro users_inv_transaction preserve)

lemma preserves_get_then:
  "(\<And>s. users_inv n s \<Longrightarrow> users_inv n (snd (g (f (as_db s)) s))) \<Longrightarrow> preserves (users_inv n) (py_bind (get_db f) g)"
  by (rule preservesI) (simp add: py_run_bind)

lemma set_password_user_fits:
  assumes inv: "users_inv n s" and live: "live_user (as_db s) i = Some u"
    and new: "au_id u' = i" "au_email u' = au_email u" "au_preferred_locale u' = au_preferred_locale u"
      "au_preferred_theme u' = au_preferred_theme u" "au_role u' = (if exists_owner (as_db s) then au_role u else ''owner'')"
  shows "users_inv n (snd (repo_update_user u' s))"
proof (cases "exists_owner (as_db s)")
  case True
  then show ?thesis using live new by (intro repo_update_live [OF inv, where u = u]) simp_all
next
  case False
  let ?v = "u'\<lparr>au_role := au_role u\<rparr>"
  have row: "user_row_ok u" using user_row_live [OF inv live] by simp
  have "user_fits (ad_users (as_db s)) ?v"
  proof (rule user_fits_live [OF inv, where u = u])
    show "live_user (as_db s) (au_id ?v) = Some u" using live new(1) by simp
    show "au_email ?v = au_email u \<or> py_strip (au_email ?v) = au_email ?v \<and>
        (case user_by_email (as_db s) (au_email ?v) of None \<Rightarrow> True | Some x \<Rightarrow> au_id x = au_id ?v)"
      using new(2) by simp
  qed (use row new in \<open>simp_all add: user_row_ok_def\<close>)
  moreover have "au_role u' = ''owner''" "\<forall>v \<in> set (ad_users (as_db s)). \<not> au_deleted v \<longrightarrow> au_role v \<noteq> ''owner''"
    using False new(5) by (auto simp: exists_owner_iff)
  ultimately have "user_fits (ad_users (as_db s)) u'" by (simp add: user_fits_def)
  then show ?thesis using live new(1) by (intro repo_update_ok [OF inv, where w = u]) simp_all
qed

lemma set_password_finish:
  "preserves (users_inv n) (py_bind (get_db (\<lambda>db. (live_user db i, exists_owner db))) (\<lambda>(user, owner_exists).
     case user of
       None \<Rightarrow> py_return ()
     | Some u \<Rightarrow> py_bind (repo_update_user (u\<lparr>au_is_active := True, au_registration_completed_at := Some now,
         au_failed_login_attempts := 0, au_role := (if owner_exists then au_role u else ''owner'')\<rparr>)) (\<lambda>_. py_return ())))"
proof (rule preserves_get_then)
  fix s assume inv: "users_inv n s"
  let ?v = "\<lambda>u :: auth_user. u\<lparr>au_is_active := True, au_registration_completed_at := Some now,
         au_failed_login_attempts := 0, au_role := (if exists_owner (as_db s) then au_role u else ''owner'')\<rparr>"
  have "users_inv n (snd (py_bind (repo_update_user (?v u)) (\<lambda>_. py_return ()) s))"
    if "live_user (as_db s) i = Some u" for u
    using that live_userD [OF that]
    by (intro inv_bind set_password_user_fits [OF inv that] preserve) simp_all
  then show "users_inv n (snd ((case (live_user (as_db s) i, exists_owner (as_db s)) of (user, owner_exists) \<Rightarrow>
     case user of
       None \<Rightarrow> py_return ()
     | Some u \<Rightarrow> py_bind (repo_update_user (u\<lparr>au_is_active := True, au_registration_completed_at := Some now,
         au_failed_login_attempts := 0, au_role := (if owner_exists then au_role u else ''owner'')\<rparr>)) (\<lambda>_. py_return ())) s))"
    using inv by (cases "live_user (as_db s) i") simp_all
qed

lemma preserves_set_password [preserve]: "preserves (users_inv n) (set_password e token password)"
  unfolding set_password_def
  by (rule set_password_finish users_inv_transaction preserve)+

text \<open>The own profile, for a request whose user is the row of the table.\<close>

lemma normalize_choice_range: "normalize_choice xs v \<in> insert None (Some ` set xs)"
  by (auto simp: normalize_choice_def Let_def split: option.splits)

lemma preserves_payload [preserve]: "preserves (users_inv n) (get_db f)"
  by (rule keeps_basic)

lemma update_me_ok:
  assumes inv: "users_inv n s" and live: "live_user (as_db s) (au_id u) = Some u"
  shows "users_inv n (snd (update_me u name loc theme s))"
proof (cases "build_profile_updates name loc theme u")
  case None
  then show ?thesis using inv by (simp add: update_me_def)
next
  case (Some v)
  let ?c = "if au_email v = [] then live_user (as_db s) (au_id u) else None"
  let ?v = "v\<lparr>au_email := (case ?c of None \<Rightarrow> au_email v | Some c \<Rightarrow> au_email c)\<rparr>"
  have v: "au_id v = au_id u" "au_email v = au_email u" "au_role v = au_role u"
    "au_preferred_locale v \<in> {au_preferred_locale u, normalize_locale loc}"
    "au_preferred_theme v \<in> {au_preferred_theme u, normalize_theme theme}"
    using Some by (auto simp: build_profile_updates_def split: if_splits)
  have row: "user_row_ok u" using user_row_live [OF inv live] by simp
  have c: "au_email ?v = au_email u" using live v by simp
  have "user_fits (ad_users (as_db s)) ?v"
  proof (rule user_fits_live [OF inv, where u = u])
    show "live_user (as_db s) (au_id ?v) = Some u" using live v by simp
    show "au_preferred_locale ?v \<in> {None, Some ''hu'', Some ''en'', Some ''es''}"
      using row v normalize_choice_range [of supported_locales loc]
      by (auto simp: user_row_ok_def normalize_locale_def supported_locales_def)
    show "au_preferred_theme ?v \<in> {None, Some ''light'', Some ''dark''}"
      using row v normalize_choice_range [of supported_themes theme]
      by (auto simp: user_row_ok_def normalize_theme_def supported_themes_def)
  qed (use row v c in \<open>auto simp: user_row_ok_def\<close>)
  then have "users_inv n (snd (repo_update_user ?v s))"
    using live v by (intro repo_update_ok [OF inv, where w = u]) simp_all
  then have "users_inv n (snd (py_bind (repo_update_user ?v)
      (\<lambda>result. get_db (\<lambda>db. build_profile_payload result (get_owner db))) s))"
    by (rule inv_bind) (intro preserve)
  then show ?thesis using Some by (simp add: update_me_def py_run_bind [of "get_db f" for f])
qed

lemma live_userI:
  assumes inv: "users_inv n s" and u: "u \<in> set (ad_users (as_db s))" "\<not> au_deleted u"
  shows "live_user (as_db s) (au_id u) = Some u"
proof (cases "live_user (as_db s) (au_id u)")
  case None
  then show ?thesis using u by (auto simp: live_user_def find_None_iff_all)
next
  case (Some w)
  have "users_typed (ad_users (as_db s))" using inv by (simp add: users_inv_def users_ok_def)
  then have "w = u" using live_userD [OF Some] u(1) users_typed_id by blast
  then show ?thesis using Some by simp
qed

text \<open>A new address of a user, when it is free.\<close>

lemma change_email_ok:
  assumes inv: "users_inv n s" and live: "live_user (as_db s) (au_id u) = Some u"
    and free: "case user_by_email (as_db s) email of None \<Rightarrow> True | Some x \<Rightarrow> au_id x = au_id u"
    and new: "au_id v = au_id u" "au_role v = au_role u" "au_preferred_locale v = au_preferred_locale u"
      "au_preferred_theme v = au_preferred_theme u" "au_email v = email" "py_strip email = email"
  shows "users_inv n (snd (repo_update_user v s))"
proof -
  have row: "user_row_ok u" using user_row_live [OF inv live] by simp
  have "user_fits (ad_users (as_db s)) v"
  proof (rule user_fits_live [OF inv, where u = u])
    show "live_user (as_db s) (au_id v) = Some u" using live new(1) by simp
    show "au_email v = au_email u \<or> py_strip (au_email v) = au_email v \<and>
        (case user_by_email (as_db s) (au_email v) of None \<Rightarrow> True | Some x \<Rightarrow> au_id x = au_id v)"
      using free new by (auto split: option.splits)
  qed (use row new in \<open>simp_all add: user_row_ok_def\<close>)
  then show ?thesis using live new(1) by (intro repo_update_ok [OF inv, where w = u]) simp_all
qed

lemma without_pending_simps [simp]:
  "au_id (without_pending_email u) = au_id u" "au_role (without_pending_email u) = au_role u"
  "au_preferred_locale (without_pending_email u) = au_preferred_locale u"
  "au_preferred_theme (without_pending_email u) = au_preferred_theme u"
  by (simp_all add: without_pending_email_def)

lemma new_invite_run:
  "new_invite_token_payload e s = (Inr (ax_token_urlsafe e (as_drawn s), ax_sha256 e (ax_token_urlsafe e (as_drawn s)),
     as_now s + minutes (60 * invite_ttl_hours e)), s\<lparr>as_drawn := as_drawn s + 1\<rparr>)"
  by (simp add: new_invite_token_payload_def py_run_bind)

lemma request_email_change_ok:
  assumes inv: "users_inv n s" and live: "live_user (as_db s) (au_id u) = Some u"
  shows "users_inv n (snd (request_email_change e u new_email base s))"
proof -
  let ?em = "py_strip new_email"
  let ?v = "(without_pending_email u)\<lparr>au_email := ?em\<rparr>"
  let ?hash = "ax_sha256 e (ax_token_urlsafe e (as_drawn s))" and ?s = "s\<lparr>as_drawn := as_drawn s + 1\<rparr>"
  let ?w = "u\<lparr>au_pending_email := Some ?em, au_pending_email_token_hash := Some ?hash,
     au_pending_email_expires_at := Some (as_now s + minutes (60 * invite_ttl_hours e))\<rparr>"
  let ?link = "build_confirm_email_link base (ax_token_urlsafe e (as_drawn s))"
  show ?thesis
  proof (cases "case user_by_email (as_db s) ?em of None \<Rightarrow> False | Some x \<Rightarrow> au_id x \<noteq> au_id u")
    case True
    then show ?thesis using inv by (simp add: request_email_change_def Let_def py_run_bind)
  next
    case False
    then have free: "case user_by_email (as_db s) ?em of None \<Rightarrow> True | Some x \<Rightarrow> au_id x = au_id u"
      by (auto split: option.splits)
    have "users_inv n (snd (repo_update_user ?v s))"
      by (rule change_email_ok [OF inv live free]) (simp_all add: py_strip_idem)
    then have one: "users_inv n (snd (py_bind (repo_update_user ?v) (\<lambda>result.
        py_seq (invalidate_all_for_user (au_id result)) (py_seq (increment_security_version (au_id result))
          (get_db (\<lambda>db. build_profile_payload result (get_owner db))))) s))"
      by (rule inv_bind) (intro preserve)
    have "live_user (as_db ?s) (au_id ?w) = Some u" "users_inv n ?s" using live inv by (simp_all add: inv_draw)
    then have "users_inv n (snd (repo_update_user ?w ?s))" by (intro repo_update_live [where u = u]) simp_all
    then have two: "users_inv n (snd (py_bind (repo_update_user ?w) (\<lambda>result.
        py_seq (if ?link \<noteq> [] \<and> ax_email_service e then
                  py_bind (get_db owner_locale) (\<lambda>locale.
                  send_link (Email_change_mail ?em ?link (or_str (au_preferred_locale result) locale)))
                else py_return ())
          (get_db (\<lambda>db. build_profile_payload result (get_owner db)))) ?s))"
      by (rule inv_bind) (intro preserve)
    show ?thesis using inv one two False
      by (simp add: request_email_change_def Let_def new_invite_run
          py_run_bind [of "get_db f" for f] py_run_bind [of "new_invite_token_payload e"])
  qed
qed

lemma preserves_confirm_email [preserve]: "preserves (users_inv n) (confirm_email_change e token)"
proof (rule preservesI)
  fix s assume inv: "users_inv n s"
  show "users_inv n (snd (confirm_email_change e token s))"
  proof (cases "get_by_pending_email_token_hash (as_db s) (ax_sha256 e token)")
    case None
    then show ?thesis using inv by (simp add: confirm_email_change_def py_run_bind)
  next
    case (Some u)
    then have u: "u \<in> set (ad_users (as_db s))" "\<not> au_deleted u"
      unfolding get_by_pending_email_token_hash_def using find_Some_set by fastforce+
    let ?em = "py_strip (str_or (au_pending_email u) [])"
    let ?v = "(without_pending_email u)\<lparr>au_email := ?em\<rparr>"
    show ?thesis
    proof (cases "case user_by_email (as_db s) ?em of None \<Rightarrow> False | Some x \<Rightarrow> au_id x \<noteq> au_id u")
      case True
      then show ?thesis using inv Some by (simp add: confirm_email_change_def Let_def py_run_bind)
    next
      case False
      then have free: "case user_by_email (as_db s) ?em of None \<Rightarrow> True | Some x \<Rightarrow> au_id x = au_id u"
        by (auto split: option.splits)
      have "users_inv n (snd (repo_update_user ?v s))"
        by (rule change_email_ok [OF inv live_userI [OF inv u] free]) (simp_all add: py_strip_idem)
      then have "users_inv n (snd (py_bind (repo_update_user ?v) (\<lambda>result.
          py_seq (invalidate_all_for_user (au_id result))
            (py_seq (increment_security_version (au_id result)) (py_return result))) s))"
        by (rule inv_bind) (intro preserve)
      then show ?thesis using inv Some False
        by (simp add: confirm_email_change_def Let_def py_run_bind [of "get_db f" for f] py_run_bind [of "py_gets f" for f])
    qed
  qed
qed

section \<open>Login and the routes\<close>

lemma preserves_set_db: "(\<And>db. ad_users (f db) = ad_users db) \<Longrightarrow> preserves (users_inv n) (set_db f)"
  by (rule keeps_preserves) (simp add: keeps_users_def)

lemma preserves_authenticators [preserve]:
  "preserves (users_inv n) (upsert_pending_secret i sec x)" "preserves (users_inv n) (enable_secret i sec)"
  "preserves (users_inv n) (disable_authenticator_row i)"
  unfolding upsert_pending_secret_def enable_secret_def disable_authenticator_row_def
  by (rule preserves_set_db, simp add: put_authenticator_def split: option.splits)+

lemma preserves_record_all [preserve]: "preserves (users_inv n) (record_all_failed w scopes)"
  by (induction w scopes rule: record_all_failed.induct) (simp_all only: record_all_failed.simps preserve)

lemma preserves_record_authenticator [preserve]: "preserves (users_inv n) (record_authenticator_failed e scopes b)"
proof (induction scopes arbitrary: b)
  case Nil
  show ?case unfolding record_authenticator_failed.simps by (rule preserves_return)
next
  case (Cons a scopes)
  obtain scope key where a: "a = (scope, key)" by (cases a)
  show ?case unfolding a record_authenticator_failed.simps by (intro preserve Cons.IH)
qed

lemma preserves_pure_step: "preserves P (\<lambda>s. (f s, s))"
  by (simp add: preserves_def)

lemma preserves_deliver [preserve]: "preserves (users_inv n) (deliver_code e mail)"
proof -
  have q: "preserves (users_inv n) (set_db (\<lambda>db. db\<lparr>ad_queued_mails := ad_queued_mails db @ [mail]\<rparr>))"
    by (rule preserves_set_db) simp
  have m: "preserves (users_inv n) (py_modify (\<lambda>s. s\<lparr>as_sent_mails := as_sent_mails s @ [mail]\<rparr>))"
    by (rule preserves_modify) (simp add: users_inv_def users_ok_def)
  show ?thesis unfolding deliver_code_def
    using q m preserves_raise by (auto split: option.splits bool.splits)
qed

lemma preserves_succeed [preserve]: "preserves (users_inv n) (succeed e inp u)"
  unfolding succeed_def issue_tokens_def make_refresh_pair_def make_access_def Let_def by (intro preserve)

lemma preserves_login [preserve]: "preserves (users_inv n) (login e inp)"
proof -
  have codes: "preserves (users_inv n) (create_and_send_code e i em tok)" for n i em tok
    unfolding create_and_send_code_def generate_code_def by (intro preserve)
  have one: "preserves (users_inv n) (login_step1 e inp)" for n
    unfolding login_step1_def by (intro preserve codes)
  have auth: "preserves (users_inv n) (check_authenticator e i sec tok code ip)" for n i sec tok code ip
    unfolding check_authenticator_def by (intro preserve preserves_pure_step)
  have verify: "preserves (users_inv n) (verify_code e i code tok ip)" for n i code tok ip
    unfolding verify_code_def by (intro preserve)
  have two: "preserves (users_inv n) (login_step2 e inp tok code)" for n tok code
    unfolding login_step2_def by (intro preserve auth verify)
  show ?thesis unfolding login_def by (intro users_inv_transaction preserve one two)
qed

lemma preserves_refresh [preserve]: "preserves (users_inv n) (refresh e token ip ua tenant)"
proof -
  have rot: "preserves (users_inv n) (rotate e rec i user al ip ua tenant)" for n rec i user al ip ua
    unfolding rotate_def make_refresh_pair_def make_access_def Let_def by (intro preserve)
  have chk: "preserves (users_inv n) (check_session e rec i user al ip ua tenant)" for n rec i user al ip ua
    unfolding check_session_def by (intro preserve rot)
  have wth: "preserves (users_inv n) (refresh_with e c ip ua tenant)" for n c ip ua
    unfolding refresh_with_def by (intro preserve chk)
  have body: "preserves (users_inv n) (py_bind (py_gets as_now) (\<lambda>now. case verify e now token of
        Inl x \<Rightarrow>
          if x = Expired_signature then py_return (Refresh_failed Expired_token)
          else if x \<in> {Invalid_signature, Decode_error} then py_return (Refresh_failed Invalid_token)
          else py_raise (token_error x)
      | Inr payload \<Rightarrow> refresh_with e payload ip ua tenant))" for n
    by (rule preserves_bind [OF preserves_gets]) (auto split: sum.splits intro: preserve wth)
  show ?thesis unfolding refresh_def by (intro users_inv_transaction body)
qed

lemma preserves_sum: "(\<And>a. preserves P (f a)) \<Longrightarrow> (\<And>b. preserves P (g b)) \<Longrightarrow> preserves P (case_sum f g x)"
  by (cases x) simp_all

lemma preserves_logout [preserve]: "preserves (users_inv n) (logout e token)"
proof -
  have same: "preserves (users_inv n) (invalidate_if_same e token jti)" for n jti
    unfolding invalidate_if_same_def by (intro preserve)
  have old: "preserves (users_inv n) (logout_with_expired_token e now token)" for n now
    unfolding logout_with_expired_token_def by (intro preserves_sum preserve same)
  show ?thesis unfolding logout_def
    by (intro users_inv_transaction preserve preserves_sum same old)
qed

lemma preserves_authenticator_setup [preserve]:
  "preserves (users_inv n) (start_authenticator_setup e i)" "preserves (users_inv n) (confirm_authenticator_setup e i code)"
  "preserves (users_inv n) (disable_authenticator i)"
  unfolding start_authenticator_setup_def confirm_authenticator_setup_def disable_authenticator_def revoke_sessions_def
    base32_secret_def
  by (intro preserve preserves_pure_step)+

lemma preserves_web [preserve]:
  "preserves (users_inv n) (allowlist_add wx slug i jti)" "preserves (users_inv n) (remove_by_user wx slug i)"
  "preserves (users_inv n) (get_current_user rq)" "preserves (users_inv n) (require_permission known perm rq)"
  unfolding allowlist_add_def remove_by_user_def get_current_user_def require_permission_def
  by (intro preserve)+

lemma preserves_value_error: "preserves P m \<Longrightarrow> preserves P (value_error_400 m)"
  unfolding value_error_400_def by (intro preserve)

lemma request_email_stripped: "request_email email = Some (Some x) \<Longrightarrow> py_strip x = x"
  by (auto simp: request_email_def py_strip_idem split: option.splits if_splits)

lemma preserves_post_user: "preserves (users_inv n) (post_user e known rq usage email name role base lang)"
  unfolding post_user_def
  by (intro preserve preserves_value_error) (auto split: option.splits bool.splits intro!: preserve preserves_value_error)

lemma preserves_if_known:
  "(b \<Longrightarrow> preserves P m) \<Longrightarrow> (\<not> b \<Longrightarrow> preserves P k) \<Longrightarrow> preserves P (if b then m else k)"
  by simp

lemma preserves_option_known:
  "(y = None \<Longrightarrow> preserves P m) \<Longrightarrow> (\<And>x. y = Some x \<Longrightarrow> preserves P (f x)) \<Longrightarrow>
   preserves P (case y of None \<Rightarrow> m | Some x \<Rightarrow> f x)"
  by (cases y) simp_all

lemma preserves_put_user: "preserves (users_inv n) (put_user wx known rq slug i name act email role)"
  unfolding put_user_def
proof (intro preserves_bind preserves_web preserves_option_known preserves_if_known preserves_raise, goal_cases)
  case (1 cur em)
  then have "preserves (users_inv n) (user_update i (au_id cur) name act em role)"
    by (intro preserves_user_update) (auto dest: request_email_stripped)
  then show ?case by (intro preserves_value_error preserve)
qed

lemma preserves_issue [preserve]: "preserves (users_inv n) (issue_tokens_for_user e inp u)"
  unfolding issue_tokens_for_user_def by (intro users_inv_transaction preserve)

lemma preserves_login_result:
  "(\<And>r. preserves P (f r)) \<Longrightarrow> preserves P m \<Longrightarrow>
   preserves P (case x of Some (Login_success r) \<Rightarrow> f r | _ \<Rightarrow> m)"
  by (auto split: option.splits login_result.splits)

lemma preserves_user_routes:
  "preserves (users_inv n) (delete_user_route e wx known rq slug i)"
  "preserves (users_inv n) (confirm_email_route e wx slug token)"
  "preserves (users_inv n) (set_password_route e token pw)"
  "preserves (users_inv n) (set_initial_password_route e wx rq slug' tv demo pw ip ua)"
  unfolding delete_user_route_def confirm_email_route_def set_password_route_def set_initial_password_route_def
    build_token_response_def
  by (intro preserves_login_result preserves_value_error preserve)+

text \<open>
  The operations of a tenant's users, in any order and by any callers. The own profile is changed by a user that
  was read from the table; the other way a request gets its user, the cache, is the subject of a theorem below.
\<close>

inductive user_step :: "auth_env \<Rightarrow> web_env \<Rightarrow> string list \<Rightarrow> auth_state \<Rightarrow> auth_state \<Rightarrow> bool" for e wx known where
  step_post: "user_step e wx known s (snd (post_user e known rq usage email name role base lang s))"
| step_put: "user_step e wx known s (snd (put_user wx known rq slug i name act email role s))"
| step_delete: "user_step e wx known s (snd (delete_user_route e wx known rq slug i s))"
| step_resend: "user_step e wx known s (snd (resend_invite e i base lang s))"
| step_forgot: "user_step e wx known s (snd (forgot_password e email base lang s))"
| step_set_password: "user_step e wx known s (snd (set_password_route e token pw s))"
| step_initial: "user_step e wx known s (snd (set_initial_password_route e wx rq slug' tv demo pw ip ua s))"
| step_change_password: "user_step e wx known s (snd (change_password e i old pw s))"
| step_me: "live_user (as_db s) (au_id u) = Some u \<Longrightarrow>
    user_step e wx known s (snd (update_me u name loc theme s))"
| step_request_email: "live_user (as_db s) (au_id u) = Some u \<Longrightarrow>
    user_step e wx known s (snd (request_email_change e u email base s))"
| step_confirm_email: "user_step e wx known s (snd (confirm_email_route e wx slug token s))"
| step_login: "user_step e wx known s (snd (login e inp s))"
| step_refresh: "user_step e wx known s (snd (refresh e token ip ua tenant s))"
| step_logout: "user_step e wx known s (snd (logout e token s))"
| step_authenticator: "user_step e wx known s (snd (confirm_authenticator_setup e i code s))"
| step_time: "as_now s \<le> t \<Longrightarrow> user_step e wx known s (s\<lparr>as_now := t\<rparr>)"

lemma user_step_inv: "user_step e wx known s s' \<Longrightarrow> users_inv n s \<Longrightarrow> users_inv n s'"
proof (induction rule: user_step.induct)
  case (step_put s rq slug i name act email role)
  then show ?case by (rule preservesD [OF preserves_put_user])
next
  case (step_post s rq usage email name role base lang)
  then show ?case by (rule preservesD [OF preserves_post_user])
next
  case (step_me s u name loc theme)
  then show ?case by (intro update_me_ok)
next
  case (step_request_email s u email base)
  then show ?case by (intro request_email_change_ok)
next
  case (step_time s t)
  then show ?case by (simp add: users_inv_def users_ok_def)
qed (auto intro: preservesD preserves_user_routes preserve)


text \<open>A tenant with one user: a forgotten password, an attempt to set it, and a login.\<close>

lemma demo_users_ok: "users_ok (demo_auth_state rows)"
  by (simp add: users_ok_def demo_auth_state_def demo_auth_db_def demo_auth_user_def user_row_ok_def
      py_strip_no_space py_space_def)


end
