(* ===== verification/Users_Revocation.thy ===== *)
theory Users_Revocation
  imports Users_Facts
begin

text \<open>
  What ends the access of a user: deletion, and a change of role or activity by an administrator; and what a
  request must carry to count as a user at all.
\<close>

section \<open>Deletion\<close>

definition closed_sessions :: "int \<Rightarrow> auth_db \<Rightarrow> auth_db" where
  "closed_sessions i db = db\<lparr>ad_sessions := close_user i (ad_sessions db)\<rparr>"

lemma user_delete_Inr:
  assumes "user_delete e i cur s = (Inr (), s')"
  obtains u hex pw where "live_user (as_db s) i = Some u" "au_role u \<noteq> ''owner''" "i \<noteq> cur" "as_now s' = as_now s"
    "as_db s' = (close_user_rows i (as_now s) (closed_sessions i (as_db s)))
       \<lparr>ad_users := update_where (\<lambda>r. au_id r = i) (anonymous hex pw) (ad_users (as_db s))\<rparr>"
proof -
  obtain u where u: "live_user (as_db s) i = Some u" "au_role u \<noteq> ''owner''" "i \<noteq> cur"
    and run: "py_seq (invalidate_all_for_user i) (repo_delete_user e i) s = (Inr (), s')"
    using assms unfolding user_delete_def transaction_Inr
    by (cases "live_user (as_db s) i") (auto simp: py_run_bind split: if_splits)
  let ?s1 = "with_sessions (close_user i) s"
  have run1: "repo_delete_user e i ?s1 = (Inr (), s')" using run by (simp add: py_run_seq invalidate_all_run)
  obtain row where row: "find (\<lambda>r. au_id r = i) (ad_users (as_db s)) = Some row"
    using run1 by (cases "find (\<lambda>r. au_id r = i) (ad_users (as_db s))")
      (simp_all add: repo_delete_user_def py_run_bind with_sessions_def)
  let ?hex = "ax_token_hex e (as_drawn s)" and ?pw = "ax_token_urlsafe e (as_drawn s + 1)"
  have "as_now s' = as_now s \<and> as_db s' = (close_user_rows i (as_now s) (closed_sessions i (as_db s)))
       \<lparr>ad_users := update_where (\<lambda>r. au_id r = i) (anonymous ?hex ?pw) (ad_users (as_db s))\<rparr>"
    using run1 row
    by (cases "email_taken (as_db ?s1) (Some i) (au_email (anonymous ?hex ?pw row))")
      (auto simp: repo_delete_user_def py_run_bind with_sessions_def closed_sessions_def)
  then show ?thesis using u that by blast
qed

lemma update_where_cases:
  assumes "x \<in> set (update_where P f xs)"
  obtains y where "y \<in> set xs" "P y" "x = f y" | "x \<in> set xs" "\<not> P x"
proof -
  obtain y where "y \<in> set xs" "x = (if P y then f y else y)" using assms by (auto simp: set_update_where)
  then show thesis by (cases "P y") (simp_all add: that)
qed

lemma anonymous_row:
  "au_id (anonymous hex pw r) = au_id r \<and> au_deleted (anonymous hex pw r) \<and> \<not> au_is_active (anonymous hex pw r) \<and>
   au_name (anonymous hex pw r) = None \<and> is_prefix ''deleted-user-'' (au_email (anonymous hex pw r))"
  by (simp add: anonymous_def)

lemma deleted_rows:
  assumes "r \<in> set (update_where (\<lambda>r. au_id r = i) (anonymous hex pw) us)" "au_id r = i"
  shows "au_deleted r \<and> \<not> au_is_active r \<and> au_name r = None \<and> is_prefix ''deleted-user-'' (au_email r)"
  using assms(1)
proof (rule update_where_cases)
  fix y assume "r = anonymous hex pw y"
  then show ?thesis using anonymous_row [of hex pw y] by simp
qed (use assms(2) in simp)

lemma closed_pending:
  assumes "p \<in> set (update_where (\<lambda>p. p2_user_id p = i \<and> now < p2_expires_at p) (\<lambda>p. p\<lparr>p2_expires_at := now\<rparr>) ps)"
    "p2_user_id p = i"
  shows "p2_expires_at p \<le> now"
  using assms(1) by (rule update_where_cases) (use assms(2) in auto)

lemma closed_invites:
  assumes "r \<in> set (update_where (\<lambda>r. iv_user_id r = i \<and> iv_used_at r = None) (\<lambda>r. r\<lparr>iv_used_at := Some now\<rparr>) rs)"
    "iv_user_id r = i"
  shows "iv_used_at r \<noteq> None"
  using assms(1) by (rule update_where_cases) (use assms(2) in auto)

lemma closed_twice: "x \<in> set (update_where (\<lambda>t. ss_user_id t = i \<and> ss_valid t) invalidate_session xs) \<Longrightarrow> ss_user_id x = i \<Longrightarrow> \<not> ss_valid x"
  using close_user_none [of x i xs] by (simp add: close_user_def)

text \<open>The user of a successful login is a row of the table that is not deleted.\<close>

lemma login_user_live:
  assumes "login e inp s = (Inr (Some (Login_success r)), s')"
  shows "ls_user r \<in> set (ad_users (as_db s)) \<and> \<not> au_deleted (ls_user r)"
proof (cases "str_or (li_pending_token inp) [] \<noteq> [] \<and> str_or (li_two_factor_code inp) [] \<noteq> []")
  case True
  then have "login_step2 e inp (str_or (li_pending_token inp) []) (str_or (li_two_factor_code inp) []) s =
      (Inr (Some (Login_success r)), s')"
    using assms by (simp add: login_def transaction_Inr Let_def)
  from step2_success [OF this] show ?thesis by (auto dest: live_userD)
next
  case False
  then have "login_step1 e inp s = (Inr (Some (Login_success r)), s')"
    using assms by (auto simp: login_def transaction_Inr Let_def)
  from step1_success [OF this] show ?thesis by (auto simp: password_ok_def dest: user_by_email_Some)
qed

lemma used_invite_refused:
  "get_by_token_hash (as_db s) (ax_sha256 e token) = Some row \<Longrightarrow> iv_used_at row \<noteq> None \<Longrightarrow>
   set_password e token pw s = (Inl Invite_token_invalid, s)"
  by (simp add: set_password_def transaction_def py_run_bind)

text \<open>C7: a deleted user is locked out. After a user was deleted, at that moment and at any later one: no login returns
  that user, no pending second factor leads to the user, a refresh succeeds only on a session of somebody
  else, none of the user's set-password links works, and what is left of the user's rows is inactive,
  nameless and under an address of the form \<open>deleted-user-...\<close>.\<close>

theorem deleted_user_locked_out:
  assumes del: "user_delete e i cur s = (Inr (), s')" and t: "as_now s \<le> t"
  shows "(\<forall>inp r s2. login e inp (s'\<lparr>as_now := t\<rparr>) = (Inr (Some (Login_success r)), s2) \<longrightarrow> au_id (ls_user r) \<noteq> i) \<and>
    (\<forall>tok. pending_user_id (as_db s') t tok \<noteq> Some i) \<and>
    (\<forall>token ip ua tenant r s2. refresh e token ip ua tenant (s'\<lparr>as_now := t\<rparr>) = (Inr (Refresh_success r), s2) \<longrightarrow>
       (\<exists>c rec. verify e t token = Inr c \<and> Option.bind (cl_jti c) (session_by_jti (as_db s')) = Some rec \<and>
          ss_valid rec \<and> ss_user_id rec \<noteq> i)) \<and>
    (\<forall>token pw row. get_by_token_hash (as_db s') (ax_sha256 e token) = Some row \<longrightarrow> iv_user_id row = i \<longrightarrow>
       set_password e token pw (s'\<lparr>as_now := t\<rparr>) = (Inl Invite_token_invalid, s'\<lparr>as_now := t\<rparr>)) \<and>
    (\<forall>u \<in> set (ad_users (as_db s')). au_id u = i \<longrightarrow>
       au_deleted u \<and> \<not> au_is_active u \<and> au_name u = None \<and> is_prefix ''deleted-user-'' (au_email u))"
proof -
  obtain u hex pw where db: "as_db s' = (close_user_rows i (as_now s) (closed_sessions i (as_db s)))
       \<lparr>ad_users := update_where (\<lambda>r. au_id r = i) (anonymous hex pw) (ad_users (as_db s))\<rparr>"
    by (rule user_delete_Inr [OF del])
  let ?s = "s'\<lparr>as_now := t\<rparr>"
  have rows: "au_deleted r \<and> \<not> au_is_active r \<and> au_name r = None \<and> is_prefix ''deleted-user-'' (au_email r)"
    if "r \<in> set (ad_users (as_db s'))" "au_id r = i" for r
    using deleted_rows that unfolding db by simp
  have logins: "au_id (ls_user r) \<noteq> i" if "login e inp ?s = (Inr (Some (Login_success r)), s2)" for inp r s2
    using login_user_live [OF that] rows by auto
  have pending: "pending_user_id (as_db s') t tok \<noteq> Some i" for tok
  proof
    assume "pending_user_id (as_db s') t tok = Some i"
    then obtain p where p: "find (\<lambda>p. p2_token p = tok \<and> t < p2_expires_at p) (ad_pending (as_db s')) = Some p" "p2_user_id p = i"
      by (auto simp: pending_user_id_def)
    then have "p \<in> set (ad_pending (as_db s'))" "t < p2_expires_at p" using find_Some_set [OF p(1)] by simp_all
    then have "p2_expires_at p \<le> as_now s" using p(2) closed_pending unfolding db by (simp add: close_user_rows_def)
    then show False using \<open>t < p2_expires_at p\<close> t by simp
  qed
  have sessions: "\<exists>c rec. verify e t token = Inr c \<and> Option.bind (cl_jti c) (session_by_jti (as_db s')) = Some rec \<and>
      ss_valid rec \<and> ss_user_id rec \<noteq> i"
    if run: "refresh e token ip ua tenant ?s = (Inr (Refresh_success r), s2)" for token ip ua tenant r s2
  proof -
    obtain c rec j where c: "verify e (as_now ?s) token = Inr c" "token_session e ?s tenant c rec j"
      "check_session e rec j (live_user (as_db ?s) j) (cl_al c) ip ua tenant ?s = (Inr (Refresh_success r), s2)"
      by (rule refresh_success_session [OF run])
    have valid: "ss_valid rec" using check_session_success [OF c(3)] by simp
    obtain jti where jti: "cl_jti c = Some jti" "session_by_jti (as_db s') jti = Some rec"
      using c(2) by (auto simp: token_session_def)
    then have "rec \<in> set (ad_sessions (as_db s'))" using find_Some_set unfolding session_by_jti_def by fastforce
    then have "ss_user_id rec \<noteq> i" using valid closed_twice unfolding db by (auto simp: close_user_rows_def)
    then show ?thesis using c(1) jti valid by auto
  qed
  have invites: "set_password e token pw ?s = (Inl Invite_token_invalid, ?s)"
    if row: "get_by_token_hash (as_db s') (ax_sha256 e token) = Some row" "iv_user_id row = i" for token pw row
  proof -
    have "row \<in> set (ad_invites (as_db s'))" using find_Some_set [OF row(1) [unfolded get_by_token_hash_def]] by simp
    then have "iv_used_at row \<noteq> None"
      using row(2) closed_invites unfolding db by (simp add: close_user_rows_def mark_invites_used_def closed_sessions_def)
    then show ?thesis using row by (intro used_invite_refused [of _ e token row]) simp_all
  qed
  show ?thesis using logins pending sessions invites rows by blast
qed

lemma deleted_user_locked_out_witness:
  "\<exists>s'. user_delete demo_auth_env 7 1 (demo_auth_state []) = (Inr (), s') \<and>
     pending_user_id (as_db (demo_auth_state [])) (unix_epoch + minutes 5) ''tok'' = Some 7 \<and>
     pending_user_id (as_db s') (unix_epoch + minutes 5) ''tok'' \<noteq> Some 7"
proof -
  have "fst (user_delete demo_auth_env 7 1 (demo_auth_state [])) = Inr ()"
    by (simp add: user_delete_def transaction_def py_run_bind py_run_seq invalidate_all_for_user_def repo_delete_user_def
        live_user_def email_taken_def demo_auth_state_def demo_auth_db_def demo_auth_user_def split: prod.splits)
  then obtain s' where run: "user_delete demo_auth_env 7 1 (demo_auth_state []) = (Inr (), s')"
    by (metis prod.collapse)
  have "as_now (demo_auth_state []) \<le> unix_epoch + minutes 5" by (simp add: demo_auth_state_def minutes_def)
  from deleted_user_locked_out [OF run this] have "pending_user_id (as_db s') (unix_epoch + minutes 5) ''tok'' \<noteq> Some 7" by blast
  moreover have "pending_user_id (as_db (demo_auth_state [])) (unix_epoch + minutes 5) ''tok'' = Some 7"
    by (rule demo_pending) (simp add: minutes_def)
  ultimately show ?thesis using run by blast
qed

section \<open>A change of role or activity\<close>

text \<open>Whom a token names.\<close>

definition token_user :: "claims \<Rightarrow> int option" where
  "token_user c = Option.bind (cl_sub c) py_int"

lemma not_allowed_anonymous:
  assumes "verify e (as_now s) token = Inr c" "token_user c = Some i" "\<And>jti. \<not> is_allowed wx s slug i jti"
  shows "authenticate_request e wx (Some (''Bearer '' @ token)) slug path tv s = (Inr anonymous_request, s)"
  using assms by (auto simp: authenticate_request_def Let_def remove_prefix_def resolve_request_user_def py_run_bind
      token_user_def anonymous_request_def)

text \<open>Removing the access tokens of a user.\<close>

lemma remove_by_user_run:
  "\<exists>w. remove_by_user wx slug i s = (Inr (), s\<lparr>as_web := w\<rparr>) \<and>
     (\<forall>t jti s2. as_web s2 = w \<longrightarrow> \<not> is_allowed wx (s2\<lparr>as_now := t\<rparr>) slug i jti)"
proof (cases "wx_redis wx = Redis_up")
  case True
  let ?w = "redis_delete (allowlist_key slug i) (as_web s)"
  have "redis_members t (allowlist_key slug i) ?w = []" for t
    by (auto simp: redis_members_def redis_delete_def find_None_iff_all split: option.splits dest!: find_Some_set)
  then show ?thesis using True
    by (intro exI [of _ ?w]) (auto simp: remove_by_user_def modify_web_def is_allowed_def)
next
  case False
  show ?thesis
  proof (cases "wx_fail_closed wx")
    case True
    with False show ?thesis by (intro exI [of _ "as_web s"]) (auto simp: remove_by_user_def is_allowed_def)
  next
    case open': False
    let ?w = "memory_pop (slug, i) (as_web s)"
    have "memory_members (slug, i) ?w = []"
      by (auto simp: memory_members_def memory_pop_def split: option.splits dest!: map_of_SomeD)
    then show ?thesis using False open'
      by (intro exI [of _ ?w]) (auto simp: remove_by_user_def modify_web_def is_allowed_def)
  qed
qed

lemma find_update_where_sub:
  "(\<And>x. Q x \<Longrightarrow> P x) \<Longrightarrow> (\<And>x. P x \<Longrightarrow> Q (f x) = Q x) \<Longrightarrow> find Q (update_where P f xs) = map_option f (find Q xs)"
  by (induction xs) (auto simp: update_where_def)

lemma live_user_update:
  assumes "\<And>u. au_id (f u) = au_id u \<and> au_deleted (f u) = au_deleted u"
    and "ad_users db' = update_where (\<lambda>u. au_id u = i) f (ad_users db)"
  shows "live_user db' i = map_option f (live_user db i)"
  unfolding live_user_def assms(2) by (rule find_update_where_sub) (simp_all add: assms(1))

lemma repo_update_Inr:
  assumes "repo_update_user u s = (Inr v, s')"
  shows "s' = snd (update_users (au_id u) (write_user u) s)" "au_role v = au_role u" "au_is_active v = au_is_active u" "au_id v = au_id u"
proof -
  obtain row where row: "find (\<lambda>r. au_id r = au_id u) (ad_users (as_db s)) = Some row"
    using assms by (cases "find (\<lambda>r. au_id r = au_id u) (ad_users (as_db s))") (simp_all add: repo_update_user_def py_run_bind)
  then have r: "\<not> email_taken (as_db s) (Some (au_id u)) (au_email u)" "v = write_user u row"
    "s' = snd (update_users (au_id u) (write_user u) s)"
    using assms by (auto simp: repo_update_user_def py_run_bind py_run_seq update_users_def split: if_splits)
  then show "s' = snd (update_users (au_id u) (write_user u) s)" by simp
  show "au_role v = au_role u" "au_is_active v = au_is_active u" "au_id v = au_id u"
    using r(2) find_id [OF row] by simp_all
qed

text \<open>The rows after a change that revokes.\<close>

definition revoked :: "int \<Rightarrow> int \<Rightarrow> auth_state \<Rightarrow> bool" where
  "revoked i ver s \<longleftrightarrow> (\<exists>w. live_user (as_db s) i = Some w \<and> au_security_version w = ver) \<and>
     (\<forall>r \<in> set (ad_sessions (as_db s)). ss_user_id r = i \<longrightarrow> \<not> ss_valid r)"

lemma apply_user_update_changed:
  assumes run: "apply_user_update u name act email role s = (Inr v, s')" and live: "live_user (as_db s) (au_id u) = Some u"
    and changed: "au_role v \<noteq> au_role u \<or> au_is_active v \<noteq> au_is_active u"
  shows "revoked (au_id u) (au_security_version u + 1) s' \<and> as_web s' = as_web s \<and> as_now s' = as_now s"
proof -
  let ?r = "u\<lparr>au_name := with_default (new_name name u) (au_name u), au_is_active := with_default act (au_is_active u),
            au_email := with_default email (au_email u), au_role := with_default role (au_role u)\<rparr>"
  have "py_bind (repo_update_user ?r) (\<lambda>result.
           py_seq (if au_role result \<noteq> au_role u \<or> au_is_active result \<noteq> au_is_active u
                   then py_seq (invalidate_all_for_user (au_id result)) (increment_security_version (au_id result))
                   else py_return ())
             (py_return result)) s = (Inr v, s')"
    using run changed by (auto simp: apply_user_update_def Let_def split: if_splits)
  then obtain x s1 where x: "repo_update_user ?r s = (Inr x, s1)" and rest:
      "py_seq (if au_role x \<noteq> au_role u \<or> au_is_active x \<noteq> au_is_active u
                   then py_seq (invalidate_all_for_user (au_id x)) (increment_security_version (au_id x))
                   else py_return ()) (py_return x) s1 = (Inr v, s')"
    unfolding bind_Inr by blast
  have "x = v" using rest by (auto simp: seq_Inr)
  then have "s' = snd (increment_security_version (au_id u) (with_sessions (close_user (au_id u)) s1))"
    using rest changed repo_update_Inr(4) [OF x]
    by (simp add: py_run_seq invalidate_all_run increment_security_version_def update_users_def)
  moreover have "live_user (as_db s1) (au_id u) = map_option (write_user ?r) (live_user (as_db s) (au_id u))"
    by (rule live_user_update) (simp_all add: repo_update_Inr(1) [OF x] update_users_def)
  moreover have "live_user (as_db s') (au_id u) =
      map_option (\<lambda>u. u\<lparr>au_security_version := au_security_version u + 1\<rparr>) (live_user (as_db s1) (au_id u))"
    by (rule live_user_update) (simp_all add: calculation(1) increment_security_version_def update_users_def with_sessions_def)
  moreover have "as_web s1 = as_web s \<and> as_now s1 = as_now s" using repo_update_Inr(1) [OF x] by (simp add: update_users_def)
  ultimately show ?thesis
    using close_user_none [of _ "au_id u"] live
    by (simp add: revoked_def increment_security_version_def update_users_def with_sessions_def)
qed

lemma user_update_changed:
  assumes run: "user_update i cur name act email role s = (Inr v, s')" and live: "live_user (as_db s) i = Some u"
    and changed: "au_role v \<noteq> au_role u \<or> au_is_active v \<noteq> au_is_active u"
  shows "revoked i (au_security_version u + 1) s' \<and> as_web s' = as_web s \<and> as_now s' = as_now s"
proof -
  have id: "au_id u = i" "live_user (as_db s) (au_id u) = Some u" using live live_userD [OF live] by simp_all
  obtain nm a em ro where "apply_user_update u nm a em ro s = (Inr v, s')"
    using run live unfolding user_update_def transaction_Inr
    by (auto simp: py_run_bind split: if_splits)
  from apply_user_update_changed [OF this id(2) changed] id(1) show ?thesis by simp
qed

lemma apply_user_update_values:
  assumes run: "apply_user_update u name act email role s = (Inr v, s')"
  shows "au_role v = with_default role (au_role u) \<and> au_is_active v = with_default act (au_is_active u)"
proof (cases "new_name name u = None \<and> act = None \<and> (email = None \<or> email = Some (au_email u)) \<and> role = None")
  case True
  then show ?thesis using run by (auto simp: apply_user_update_def Let_def with_default_def)
next
  case False
  then obtain x s1 where "repo_update_user (u\<lparr>au_name := with_default (new_name name u) (au_name u),
      au_is_active := with_default act (au_is_active u), au_email := with_default email (au_email u),
      au_role := with_default role (au_role u)\<rparr>) s = (Inr x, s1)" "v = x"
    using run by (simp only: apply_user_update_def Let_def if_False bind_Inr) (auto simp: seq_Inr)
  from repo_update_Inr(2,3) [OF this(1)] this(2) show ?thesis by simp
qed

lemma user_update_changed_needs:
  assumes run: "user_update i cur name act email role s = (Inr v, s')" and live: "live_user (as_db s) i = Some u"
    and changed: "au_role v \<noteq> au_role u \<or> au_is_active v \<noteq> au_is_active u"
  shows "role \<noteq> None \<or> act \<noteq> None"
proof (rule ccontr)
  assume "\<not> ?thesis"
  then obtain em where "apply_user_update u name None em None s = (Inr v, s')"
    using run live unfolding user_update_def transaction_Inr
    by (auto simp: py_run_bind split: if_splits)
  from apply_user_update_values [OF this] changed show False by (simp add: with_default_def)
qed

text \<open>What the route does after the update.\<close>

lemma put_user_Inr:
  assumes put: "put_user wx known rq slug i name act email role s = (Inr v, s')"
    and live: "live_user (as_db s) i = Some u" and changed: "au_role v \<noteq> au_role u \<or> au_is_active v \<noteq> au_is_active u"
  obtains s1 where "revoked i (au_security_version u + 1) s1" "as_db s' = as_db s1"
    "\<And>t jti. \<not> is_allowed wx (s'\<lparr>as_now := t\<rparr>) slug i jti"
proof -
  obtain cur where cur: "require_permission known ''users.write'' rq s = (Inr cur, s)"
    using put reads_onlyD [of "require_permission known ''users.write'' rq" s]
    by (cases "require_permission known ''users.write'' rq s")
      (auto simp: put_user_def bind_Inr require_permission_def get_current_user_def py_run_bind split: option.splits if_splits)
  obtain em where em: "request_email email = Some em"
    using put cur by (cases "request_email email") (auto simp: put_user_def py_run_bind)
  obtain s1 where upd: "user_update i (au_id cur) name act em role s = (Inr v, s1)"
    and rest: "py_seq (invalidate_user_cache slug i)
           (py_seq (if role \<noteq> None \<or> act \<noteq> None \<or> em \<noteq> None
                    then py_seq (remove_by_user wx slug i) (permissions_changed_set slug i) else py_return ())
              (py_return v)) s1 = (Inr v, s')"
    using put cur em
    by (auto simp: put_user_def py_run_bind [of "require_permission k p r" for k p r] value_error_400_def try_Inr bind_Inr seq_Inr
        split: if_splits auth_error.splits)
  obtain s2 where s2: "invalidate_user_cache slug i s1 = (Inr (), s2)" "as_db s2 = as_db s1"
    by (simp add: invalidate_user_cache_def modify_web_def)
  have "role \<noteq> None \<or> act \<noteq> None" using user_update_changed_needs [OF upd live changed] .
  then have "py_seq (remove_by_user wx slug i) (permissions_changed_set slug i) s2 = (Inr (), s')"
    using rest s2 by (auto simp: seq_Inr)
  moreover obtain w where w: "remove_by_user wx slug i s2 = (Inr (), s2\<lparr>as_web := w\<rparr>)"
      "\<And>t jti s3. as_web s3 = w \<Longrightarrow> \<not> is_allowed wx (s3\<lparr>as_now := t\<rparr>) slug i jti"
    using remove_by_user_run by blast
  ultimately have s': "s' = snd (permissions_changed_set slug i (s2\<lparr>as_web := w\<rparr>))" by (simp add: py_run_seq)
  show thesis
  proof (rule that)
    show "revoked i (au_security_version u + 1) s1" using user_update_changed [OF upd live changed] by simp
    show "as_db s' = as_db s1" using s2 by (simp add: s' permissions_changed_set_def)
    show "\<not> is_allowed wx (s'\<lparr>as_now := t\<rparr>) slug i jti" for t jti
      by (rule w(2)) (simp add: s' permissions_changed_set_def)
  qed
qed


text \<open>An administrator of the demonstration tenant.\<close>

definition demo_admin :: auth_user where
  "demo_admin = demo_auth_user\<lparr>au_id := 1, au_role := ''admin''\<rparr>"

definition demo_request :: request_auth where
  "demo_request = \<lparr>rq_payload = None, rq_user = Some demo_admin, rq_light = False\<rparr>"

definition demo_web :: web_env where
  "demo_web = \<lparr>wx_redis = Redis_up, wx_fail_closed = True, wx_access_ttl_min = 15, wx_light_paths = []\<rparr>"

lemma demo_admin_permission: "has_permission [''users.write''] (Some demo_admin) ''users.write''"
  by code_simp

lemma demo_required: "require_permission [''users.write''] ''users.write'' demo_request s = (Inr demo_admin, s)"
  using demo_admin_permission
  by (simp add: require_permission_def get_current_user_def demo_request_def py_run_bind demo_admin_def demo_auth_user_def)

lemma demo_user_7: "live_user (as_db demo_refresh_state) 7 = Some demo_auth_user"
  by (simp add: demo_refresh_state_def with_sessions_def live_user_def demo_auth_state_def demo_auth_db_def demo_auth_user_def)

lemma demo_put_run:
  "\<exists>v s'. put_user demo_web [''users.write''] demo_request None 7 None None None (Some ''admin'') demo_refresh_state = (Inr v, s') \<and>
     au_role v = ''admin''"
proof -
  have e: "request_email None = Some None" by (simp add: request_email_def)
  have "\<exists>v s1. user_update 7 (au_id demo_admin) None None None (Some ''admin'') demo_refresh_state = (Inr v, s1) \<and> au_role v = ''admin''"
    using demo_user_7
    by (simp add: user_update_def transaction_def py_run_bind py_run_seq demo_auth_user_def demo_admin_def apply_user_update_def
        Let_def new_name_def with_default_def repo_update_user_def email_taken_def demo_refresh_state_def with_sessions_def
        demo_auth_state_def demo_auth_db_def update_users_def invalidate_all_for_user_def increment_security_version_def
        write_user_def split: prod.splits)
  then obtain v s1 where "user_update 7 (au_id demo_admin) None None None (Some ''admin'') demo_refresh_state = (Inr v, s1)" "au_role v = ''admin''"
    by blast
  then show ?thesis
    by (simp add: put_user_def py_run_bind demo_required e value_error_400_def py_run_try py_run_seq invalidate_user_cache_def
        modify_web_def remove_by_user_def demo_web_def permissions_changed_set_def)
qed


section \<open>What makes a request authenticated\<close>

lemma is_prefix_split: "is_prefix p s \<Longrightarrow> s = p @ drop (length p) s"
  by (induction p s rule: is_prefix.induct) auto

definition source_of_user :: "auth_state \<Rightarrow> string option \<Rightarrow> int \<Rightarrow> auth_user \<Rightarrow> bool" where
  "source_of_user s slug i u \<longleftrightarrow> live_user (as_db s) i = Some u \<or>
     (\<exists>w x. (user_cache_key slug i, w, x) \<in> set (wb_user_cache (as_web s)) \<and> as_now s \<le> x \<and> u = user_from_cache (as_now s) w)"

lemma fetch_user: "fetch_user_from_db db i = Some u \<longleftrightarrow> live_user db i = Some u \<and> au_is_active u"
  by (auto simp: fetch_user_from_db_def split: option.splits if_splits)

lemma get_cached_source:
  assumes "get_cached_user slug i s = (Inr (Some u), s')"
  shows "au_is_active u \<and> source_of_user s slug i u"
proof -
  obtain k w x where f: "find (\<lambda>r. fst r = user_cache_key slug i) (wb_user_cache (as_web s)) = Some (k, w, x)"
    using assms by (cases "find (\<lambda>r. fst r = user_cache_key slug i) (wb_user_cache (as_web s))")
      (auto simp: get_cached_user_def py_run_bind)
  then have "as_now s \<le> x" "au_is_active w" "u = user_from_cache (as_now s) w"
    using assms by (auto simp: get_cached_user_def py_run_bind py_run_seq invalidate_user_cache_def modify_web_def split: if_splits)
  moreover have "(user_cache_key slug i, w, x) \<in> set (wb_user_cache (as_web s))" using find_Some_set [OF f] by auto
  ultimately show ?thesis by (auto simp: source_of_user_def user_from_cache_def)
qed

lemma get_cached_db:
  "\<exists>r s'. get_cached_user slug i s = (Inr r, s') \<and> as_db s' = as_db s"
  by (auto simp: get_cached_user_def py_run_bind py_run_seq invalidate_user_cache_def modify_web_def split: option.splits prod.splits)

lemma get_user_source:
  assumes "get_user_with_timing slug i s = (Inr (Some u), s')"
  shows "au_is_active u \<and> source_of_user s slug i u"
proof (cases "str_or slug [] = []")
  case True
  then show ?thesis using assms by (auto simp: get_user_with_timing_def fetch_user source_of_user_def)
next
  case False
  obtain r s1 where r: "get_cached_user slug i s = (Inr r, s1)" "as_db s1 = as_db s" using get_cached_db by blast
  show ?thesis
  proof (cases r)
    case None
    then have "fetch_user_from_db (as_db s) i = Some u"
      using assms False r by (cases "fetch_user_from_db (as_db s) i")
        (auto simp: get_user_with_timing_def py_run_bind py_run_seq set_cached_user_def modify_web_def)
    then show ?thesis by (simp add: fetch_user source_of_user_def)
  next
    case (Some w)
    then have "w = u" using assms False r by (simp add: get_user_with_timing_def py_run_bind)
    then show ?thesis using get_cached_source r(1) Some by simp
  qed
qed

lemma resolve_user:
  assumes "resolve_request_user e wx token slug path s = (Inr rq, s')" "rq_user rq = Some u"
  obtains c i where "verify e (as_now s) token = Inr c" "cl_typ c = Some ''access''" "token_user c = Some i"
    "is_allowed wx s slug i (str_or (cl_jti c) [])" "rq_payload rq = Some c"
    "rq_light rq \<and> list_ex (\<lambda>p. is_prefix p path) (wx_light_paths wx) \<and> u = minimal_user_from_payload (as_now s) c i \<or>
     \<not> rq_light rq \<and> au_is_active u \<and> source_of_user s slug i u"
proof -
  obtain c where c: "verify e (as_now s) token = Inr c"
    using assms by (cases "verify e (as_now s) token") (auto simp: resolve_request_user_def py_run_bind anonymous_request_def)
  have acc: "cl_typ c = Some ''access''" "str_or (cl_sub c) [] \<noteq> []" "str_or (cl_jti c) [] \<noteq> []"
    using assms c by (auto simp: resolve_request_user_def py_run_bind anonymous_request_def split: if_splits)
  obtain i where i: "token_user c = Some i"
    using assms c acc by (cases "Option.bind (cl_sub c) py_int") (auto simp: resolve_request_user_def py_run_bind token_user_def)
  have allowed: "is_allowed wx s slug i (str_or (cl_jti c) [])"
    using assms c acc i by (auto simp: resolve_request_user_def py_run_bind anonymous_request_def token_user_def split: if_splits)
  show thesis
  proof (cases "list_ex (\<lambda>p. is_prefix p path) (wx_light_paths wx)")
    case True
    then have "rq = \<lparr>rq_payload = Some c, rq_user = Some (minimal_user_from_payload (as_now s) c i), rq_light = True\<rparr>"
      using assms c acc i allowed by (auto simp: resolve_request_user_def py_run_bind token_user_def)
    then show thesis using that c acc i allowed True assms(2) by simp
  next
    case False
    then obtain found where "get_user_with_timing slug i s = (Inr found, s')"
        "rq = \<lparr>rq_payload = Some c, rq_user = found, rq_light = False\<rparr>"
      using assms c acc i allowed by (auto simp: resolve_request_user_def py_run_bind [of "py_gets f" for f] token_user_def bind_Inr)
    then show thesis using that [OF c acc(1) i allowed] get_user_source assms(2) by simp
  qed
qed

text \<open>The last check of the middleware: the security versions.\<close>

definition rechecked :: "int \<Rightarrow> request_auth \<Rightarrow> request_auth" where
  "rechecked tv rq = (case rq_payload rq of None \<Rightarrow> rq | Some payload \<Rightarrow>
        if rq_light rq then rq
        else if (case rq_user rq of None \<Rightarrow> False
                   | Some u \<Rightarrow> cl_user_ver payload = au_security_version u \<and> cl_tenant_ver payload = tv)
        then rq else rq\<lparr>rq_payload := None, rq_user := None\<rparr>)"

lemma authenticate_request_eq:
  assumes "is_prefix ''Bearer '' h" "remove_prefix ''Bearer '' h \<noteq> []"
  shows "authenticate_request e wx (Some h) slug path tv =
    py_bind (resolve_request_user e wx (remove_prefix ''Bearer '' h) slug path) (\<lambda>rq. py_return (rechecked tv rq))"
proof -
  have "(\<lambda>rq. case rq_payload rq of
             None \<Rightarrow> py_return rq
           | Some payload \<Rightarrow>
               if rq_light rq then py_return rq
               else if (case rq_user rq of None \<Rightarrow> False
                          | Some u \<Rightarrow> cl_user_ver payload = au_security_version u \<and> cl_tenant_ver payload = tv)
               then py_return rq else py_return (rq\<lparr>rq_payload := None, rq_user := None\<rparr>)) =
    (\<lambda>rq. py_return (rechecked tv rq) :: request_auth auth_op)"
    by (rule ext) (auto simp: rechecked_def split: option.splits)
  then show ?thesis using assms by (simp add: authenticate_request_def Let_def)
qed

lemma rechecked_user:
  assumes "rq_user (rechecked tv rq) = Some u"
  shows "rechecked tv rq = rq \<and>
    (\<forall>c. rq_payload rq = Some c \<longrightarrow> \<not> rq_light rq \<longrightarrow> cl_user_ver c = au_security_version u \<and> cl_tenant_ver c = tv)"
  using assms by (auto simp: rechecked_def split: option.splits if_splits)

text \<open>C14: a user is in a request only through a token that is alive. If the middleware puts a user into a request, then
  the header carried a bearer token that verifies at that moment as an access token, and its identifier is
  in the allowlist of the user it names. Outside the paths that skip the database, the user is
  moreover active, was read from the table or from a copy in the cache that has not expired, and has the
  security version of the token, as has the tenant.\<close>

theorem request_needs_token:
  assumes run: "authenticate_request e wx header slug path tv s = (Inr rq, s')" and u: "rq_user rq = Some u"
  shows "\<exists>token c i. header = Some (''Bearer '' @ token) \<and> verify e (as_now s) token = Inr c \<and>
    cl_typ c = Some ''access'' \<and> token_user c = Some i \<and> is_allowed wx s slug i (str_or (cl_jti c) []) \<and>
    (if rq_light rq then list_ex (\<lambda>p. is_prefix p path) (wx_light_paths wx) \<and> u = minimal_user_from_payload (as_now s) c i
     else au_is_active u \<and> source_of_user s slug i u \<and> cl_user_ver c = au_security_version u \<and> cl_tenant_ver c = tv)"
proof -
  obtain h where h: "header = Some h" "is_prefix ''Bearer '' h" and ne: "remove_prefix ''Bearer '' h \<noteq> []"
    using run u by (cases header) (auto simp: authenticate_request_def Let_def anonymous_request_def split: if_splits)
  let ?token = "remove_prefix ''Bearer '' h"
  have header: "header = Some (''Bearer '' @ ?token)" using is_prefix_split [OF h(2)] h by (simp add: remove_prefix_def)
  obtain rq0 where rq0: "resolve_request_user e wx ?token slug path s = (Inr rq0, s')"
    and rq: "rq = rechecked tv rq0"
    using run unfolding h(1) authenticate_request_eq [OF h(2) ne] bind_Inr by auto
  have same: "rq = rq0" using rechecked_user u rq by simp
  obtain c i where ci: "verify e (as_now s) ?token = Inr c" "cl_typ c = Some ''access''" "token_user c = Some i"
    "is_allowed wx s slug i (str_or (cl_jti c) [])" "rq_payload rq0 = Some c"
    "rq_light rq0 \<and> list_ex (\<lambda>p. is_prefix p path) (wx_light_paths wx) \<and> u = minimal_user_from_payload (as_now s) c i \<or>
     \<not> rq_light rq0 \<and> au_is_active u \<and> source_of_user s slug i u"
    using resolve_user [OF rq0] u same by metis
  have "cl_user_ver c = au_security_version u \<and> cl_tenant_ver c = tv" if "\<not> rq_light rq0"
    using rechecked_user [of tv rq0 u] u rq ci(5) that by simp
  then show ?thesis using header ci same by auto
qed

text \<open>An access token of user 7 that is in the allowlist.\<close>

definition demo_access_claims :: claims where
  "demo_access_claims = \<lparr>cl_sub = Some (str_of_int 7), cl_typ = Some ''access'', cl_jti = Some ''j'', cl_user_ver = 1,
     cl_tenant_ver = 0, cl_role = Some ''user'', cl_al = False, cl_exp = unix_epoch + minutes 16, cl_iat = unix_epoch,
     cl_nbf = unix_epoch, cl_iss = None, cl_aud = None\<rparr>"

definition demo_access_env :: auth_env where
  "demo_access_env = demo_auth_env\<lparr>ax_jwt_decode := (\<lambda>_ _ _. Inr demo_access_claims)\<rparr>"

definition demo_access_state :: auth_state where
  "demo_access_state = (demo_auth_state [])\<lparr>as_web := \<lparr>wb_allow_redis = [(allowlist_key None 7, [''j''], unix_epoch + minutes 17)],
     wb_allow_memory = [], wb_user_cache = []\<rparr>\<rparr>"

lemma demo_access_allowed: "is_allowed demo_web demo_access_state None 7 ''j''"
  by (simp add: is_allowed_def demo_web_def redis_members_def demo_access_state_def demo_auth_state_def minutes_def)

lemma demo_authenticated:
  "authenticate_request demo_access_env demo_web (Some ''Bearer x'') None ''/'' 0 demo_access_state =
     (Inr \<lparr>rq_payload = Some demo_access_claims, rq_user = Some demo_auth_user, rq_light = False\<rparr>, demo_access_state)"
proof -
  have v: "verify demo_access_env t token = Inr demo_access_claims" for t token by (simp add: verify_def demo_access_env_def)
  have i: "cl_typ demo_access_claims = Some ''access''" "cl_sub demo_access_claims = Some (str_of_int 7)"
    "cl_jti demo_access_claims = Some ''j''" "cl_user_ver demo_access_claims = 1" "cl_tenant_ver demo_access_claims = 0"
    by (simp_all add: demo_access_claims_def)
  have l: "wx_light_paths demo_web = []" by (simp add: demo_web_def)
  have "live_user (as_db demo_access_state) 7 = Some demo_auth_user"
    using demo_user_found(1) [of "[]"] by (simp add: demo_access_state_def)
  then have f: "fetch_user_from_db (as_db demo_access_state) 7 = Some demo_auth_user"
    by (simp add: fetch_user_from_db_def demo_auth_user_def)
  have "resolve_request_user demo_access_env demo_web ''x'' None ''/'' demo_access_state =
      (Inr \<lparr>rq_payload = Some demo_access_claims, rq_user = Some demo_auth_user, rq_light = False\<rparr>, demo_access_state)"
    using demo_access_allowed f
    by (simp add: resolve_request_user_def py_run_bind v i l py_int_str str_of_int_not_Nil get_user_with_timing_def)
  then show ?thesis
    by (simp add: authenticate_request_def Let_def remove_prefix_def py_run_bind i demo_auth_user_def)
qed

lemma request_needs_token_witness:
  "\<exists>token c i. Some ''Bearer x'' = Some (''Bearer '' @ token) \<and>
     verify demo_access_env (as_now demo_access_state) token = Inr c \<and> token_user c = Some i \<and>
     is_allowed demo_web demo_access_state None i (str_or (cl_jti c) []) \<and>
     cl_user_ver c = au_security_version demo_auth_user"
  using request_needs_token [OF demo_authenticated, of demo_auth_user] by auto

end
