(* ===== verification/Users_Invites.thy ===== *)
theory Users_Invites
  imports Users_Revocation
begin

text \<open>
  Set-password links: each works once and only the latest one of a user works; what resetting a forgotten
  password does to an account; and what saving the own profile does when the user of the request came from
  the cache.
\<close>

section \<open>Links\<close>

text \<open>The invitations after some of them were marked as used.\<close>

lemma get_by_token_hash_marked:
  assumes "ad_invites db' = update_where P (\<lambda>r. r\<lparr>iv_used_at := Some now\<rparr>) (ad_invites db)"
  shows "get_by_token_hash db' h = map_option (\<lambda>r. if P r then r\<lparr>iv_used_at := Some now\<rparr> else r) (get_by_token_hash db h)"
  unfolding get_by_token_hash_def assms by (rule find_update_keeps) simp

lemma get_by_token_hash_append:
  "ad_invites db' = xs @ [row] \<Longrightarrow> find (\<lambda>r. iv_token_hash r = h) xs = Some r \<Longrightarrow> get_by_token_hash db' h = Some r"
  by (simp add: get_by_token_hash_def find_append)

lemma update_users_frame [simp]:
  "fst (update_users i f s) = Inr ()" "ad_invites (as_db (snd (update_users i f s))) = ad_invites (as_db s)"
  "ad_sessions (as_db (snd (update_users i f s))) = ad_sessions (as_db s)"
  "as_now (snd (update_users i f s)) = as_now s" "as_web (snd (update_users i f s)) = as_web s"
  "ad_users (as_db (snd (update_users i f s))) = update_where (\<lambda>u. au_id u = i) f (ad_users (as_db s))"
  "as_drawn (snd (update_users i f s)) = as_drawn s" "as_sent_links (snd (update_users i f s)) = as_sent_links s"
  by (simp_all add: update_users_def)

lemma update_password_frame:
  "ad_invites (as_db (snd (update_password i h s))) = ad_invites (as_db s)"
  "ad_sessions (as_db (snd (update_password i h s))) = ad_sessions (as_db s)"
  "as_now (snd (update_password i h s)) = as_now s"
  by (simp_all add: update_password_def py_run_bind)

lemma repo_update_frame:
  "ad_invites (as_db (snd (repo_update_user u s))) = ad_invites (as_db s)"
  "ad_sessions (as_db (snd (repo_update_user u s))) = ad_sessions (as_db s)"
  by (simp_all add: repo_update_user_def py_run_bind py_run_seq split: option.splits)

lemma hash_password_run: "hash_password e pw s = (Inr (ax_hash_password e (as_drawn s) pw), s\<lparr>as_drawn := as_drawn s + 1\<rparr>)"
  by (simp add: hash_password_def)

text \<open>A password set with a link: the link was unused and not expired, and is used now.\<close>

lemma set_password_Inr:
  assumes "set_password e token pw s = (Inr (), s')"
  obtains r where "get_by_token_hash (as_db s) (ax_sha256 e token) = Some r" "iv_used_at r = None" "as_now s \<le> iv_expires_at r"
    "ad_invites (as_db s') = update_where (\<lambda>x. iv_id x = iv_id r) (\<lambda>x. x\<lparr>iv_used_at := Some (as_now s)\<rparr>) (ad_invites (as_db s))"
    "ad_sessions (as_db s') = ad_sessions (as_db s)"
proof -
  obtain r where r: "get_by_token_hash (as_db s) (ax_sha256 e token) = Some r"
    using assms by (cases "get_by_token_hash (as_db s) (ax_sha256 e token)") (auto simp: set_password_def transaction_Inr py_run_bind)
  have ok: "iv_used_at r = None" "as_now s \<le> iv_expires_at r"
    using assms r by (auto simp: set_password_def transaction_Inr py_run_bind split: if_splits)
  let ?h = "ax_hash_password e (as_drawn s) pw" and ?s0 = "s\<lparr>as_drawn := as_drawn s + 1\<rparr>"
  let ?s1 = "snd (update_password (iv_user_id r) ?h ?s0)"
  let ?s2 = "snd (mark_used (iv_id r) ?s1)"
  have "fst (update_password (iv_user_id r) ?h ?s0) = Inr ()"
    using assms r ok by (auto simp: set_password_def transaction_Inr py_run_bind hash_password_run py_run_seq split: sum.splits)
  then have fin: "py_bind (get_db (\<lambda>db. (live_user db (iv_user_id r), exists_owner db))) (\<lambda>(user, owner_exists).
            case user of
              None \<Rightarrow> py_return ()
            | Some u \<Rightarrow>
                py_bind (repo_update_user (u\<lparr>au_is_active := True, au_registration_completed_at := Some (as_now s),
                    au_failed_login_attempts := 0,
                    au_role := (if owner_exists then au_role u else ''owner'')\<rparr>)) (\<lambda>_. py_return ())) ?s2 = (Inr (), s')"
    using assms r ok
    by (simp add: set_password_def transaction_Inr py_run_bind [of "py_gets f" for f] py_run_bind [of "hash_password e p" for p]
        hash_password_run py_run_seq mark_used_def)
  have i2: "ad_invites (as_db ?s2) = update_where (\<lambda>x. iv_id x = iv_id r) (\<lambda>x. x\<lparr>iv_used_at := Some (as_now s)\<rparr>) (ad_invites (as_db s))"
    "ad_sessions (as_db ?s2) = ad_sessions (as_db s)"
    by (simp_all add: mark_used_def mark_invites_used_def update_password_frame)
  have "ad_invites (as_db s') = ad_invites (as_db ?s2) \<and> ad_sessions (as_db s') = ad_sessions (as_db ?s2)"
  proof (cases "live_user (as_db ?s2) (iv_user_id r)")
    case None
    then show ?thesis using fin by (simp add: py_run_bind)
  next
    case (Some u)
    let ?v = "u\<lparr>au_is_active := True, au_registration_completed_at := Some (as_now s), au_failed_login_attempts := 0,
        au_role := (if exists_owner (as_db ?s2) then au_role u else ''owner'')\<rparr>"
    from Some fin have "py_bind (repo_update_user ?v) (\<lambda>_. py_return ()) ?s2 = (Inr (), s')"
      by (simp add: py_run_bind [of "get_db f" for f])
    then have "s' = snd (repo_update_user ?v ?s2)" by (auto simp: bind_Inr)
    then show ?thesis by (simp add: repo_update_frame)
  qed
  then show thesis using that r ok i2 by simp
qed

text \<open>A link is issued: the earlier ones of the user are marked, and one row is added.\<close>

definition latest_invite :: "auth_env \<Rightarrow> int \<Rightarrow> auth_state \<Rightarrow> invite_token" where
  "latest_invite e i s = \<lparr>iv_id = as_next_invite s, iv_user_id = i, iv_token_hash = ax_sha256 e (ax_token_urlsafe e (as_drawn s)),
     iv_expires_at = as_now s + minutes (60 * invite_ttl_hours e), iv_used_at = None\<rparr>"

definition replaced_invites :: "auth_env \<Rightarrow> int \<Rightarrow> auth_state \<Rightarrow> invite_token list" where
  "replaced_invites e i s = update_where (\<lambda>r. iv_user_id r = i \<and> iv_used_at r = None) (\<lambda>r. r\<lparr>iv_used_at := Some (as_now s)\<rparr>)
     (ad_invites (as_db s)) @ [latest_invite e i s]"

definition fresh_token :: "auth_env \<Rightarrow> auth_state \<Rightarrow> bool" where
  "fresh_token e s \<longleftrightarrow> (\<forall>r \<in> set (ad_invites (as_db s)). iv_token_hash r \<noteq> ax_sha256 e (ax_token_urlsafe e (as_drawn s)))"

lemma send_invite_frame:
  "fst (send_set_password_invite e to link lang s) = Inr ()"
  "as_db (snd (send_set_password_invite e to link lang s)) = as_db s"
  "as_now (snd (send_set_password_invite e to link lang s)) = as_now s"
  "as_drawn (snd (send_set_password_invite e to link lang s)) = as_drawn s"
  by (simp_all add: send_set_password_invite_def send_link_def py_run_bind)

lemma create_invite_run:
  "\<not> list_ex (\<lambda>r. iv_token_hash r = h) (ad_invites (as_db s)) \<Longrightarrow>
   create_invite i h x s = (Inr (as_next_invite s), s\<lparr>as_next_invite := as_next_invite s + 1, as_db := (as_db s)
     \<lparr>ad_invites := ad_invites (as_db s) @ [\<lparr>iv_id = as_next_invite s, iv_user_id = i, iv_token_hash = h,
        iv_expires_at = x, iv_used_at = None\<rparr>]\<rparr>\<rparr>)"
  by (simp add: create_invite_def Let_def)

lemma reissue_run:
  assumes "fresh_token e s"
  shows "\<exists>s'. py_seq (invalidate_invites i) (invite_user e i base to lang True) s = (Inr (), s') \<and>
    as_db s' = (as_db s)\<lparr>ad_invites := replaced_invites e i s\<rparr> \<and> as_now s' = as_now s \<and> as_drawn s' = as_drawn s + 1 \<and>
    s' = snd (send_set_password_invite e to (build_set_password_link e base (ax_token_urlsafe e (as_drawn s))) lang
      (s\<lparr>as_drawn := as_drawn s + 1, as_next_invite := as_next_invite s + 1, as_db := (as_db s)\<lparr>ad_invites := replaced_invites e i s\<rparr>\<rparr>))"
proof -
  let ?P = "\<lambda>r. iv_user_id r = i \<and> iv_used_at r = None"
  let ?h = "ax_sha256 e (ax_token_urlsafe e (as_drawn s))"
  have "\<not> list_ex (\<lambda>r. iv_token_hash r = ?h) (update_where ?P (\<lambda>r. r\<lparr>iv_used_at := Some (as_now s)\<rparr>) (ad_invites (as_db s)))"
    using assms by (auto simp: fresh_token_def list_ex_iff set_update_where)
  then show ?thesis
    by (simp add: py_run_seq py_run_bind invalidate_invites_def invite_user_def new_invite_run
        mark_invites_used_def create_invite_run send_invite_frame replaced_invites_def latest_invite_def)
      (simp add: prod_eq_iff send_invite_frame)
qed

text \<open>C31: a set-password link works once, and only the latest link of a user works. Whoever used a link cannot use it
  again, at any time and with any password. And when a user asks for a new link because the password is
  forgotten, every link that the user had been sent before is refused from then on.\<close>

theorem links_single_use:
  shows "(\<forall>token pw s s' t pw2. set_password e token pw s = (Inr (), s') \<longrightarrow>
      set_password e token pw2 (s'\<lparr>as_now := t\<rparr>) = (Inl Invite_token_invalid, s'\<lparr>as_now := t\<rparr>)) \<and>
    (\<forall>email base lang u s s' token r t pw. fresh_token e s \<longrightarrow> user_by_email (as_db s) (py_strip email) = Some u \<longrightarrow>
      get_by_token_hash (as_db s) (ax_sha256 e token) = Some r \<longrightarrow> iv_user_id r = au_id u \<longrightarrow>
      forgot_password e email base lang s = (Inr (), s') \<longrightarrow>
      set_password e token pw (s'\<lparr>as_now := t\<rparr>) = (Inl Invite_token_invalid, s'\<lparr>as_now := t\<rparr>))"
proof (intro conjI allI impI)
  fix token pw s s' t pw2 assume run: "set_password e token pw s = (Inr (), s')"
  obtain r where r: "get_by_token_hash (as_db s) (ax_sha256 e token) = Some r"
    "ad_invites (as_db s') = update_where (\<lambda>x. iv_id x = iv_id r) (\<lambda>x. x\<lparr>iv_used_at := Some (as_now s)\<rparr>) (ad_invites (as_db s))"
    by (rule set_password_Inr [OF run])
  have "get_by_token_hash (as_db s') (ax_sha256 e token) = Some (r\<lparr>iv_used_at := Some (as_now s)\<rparr>)"
    using get_by_token_hash_marked [OF r(2)] r(1) by simp
  then show "set_password e token pw2 (s'\<lparr>as_now := t\<rparr>) = (Inl Invite_token_invalid, s'\<lparr>as_now := t\<rparr>)"
    by (intro used_invite_refused [of _ e token "r\<lparr>iv_used_at := Some (as_now s)\<rparr>"]) simp_all
next
  fix email base lang u s s' token r t pw
  assume fresh: "fresh_token e s" and u: "user_by_email (as_db s) (py_strip email) = Some u"
    and r: "get_by_token_hash (as_db s) (ax_sha256 e token) = Some r" "iv_user_id r = au_id u"
    and run: "forgot_password e email base lang s = (Inr (), s')"
  have "py_seq (invalidate_invites (au_id u)) (invite_user e (au_id u) base (au_email u) (or_str lang (au_preferred_locale u)) True) s
      = (Inr (), s')" using run u by (simp add: forgot_password_def transaction_Inr py_run_bind)
  then have db: "ad_invites (as_db s') = replaced_invites e (au_id u) s"
    using reissue_run [OF fresh, of "au_id u" base "au_email u" "or_str lang (au_preferred_locale u)"] by auto
  let ?r = "if iv_used_at r = None then r\<lparr>iv_used_at := Some (as_now s)\<rparr> else r"
  have "get_by_token_hash (as_db s') (ax_sha256 e token) = Some ?r"
  proof (rule get_by_token_hash_append [OF db [unfolded replaced_invites_def]])
    show "find (\<lambda>r. iv_token_hash r = ax_sha256 e token) (update_where (\<lambda>r. iv_user_id r = au_id u \<and> iv_used_at r = None)
        (\<lambda>r. r\<lparr>iv_used_at := Some (as_now s)\<rparr>) (ad_invites (as_db s))) = Some ?r"
      using r by (subst find_update_keeps) (simp_all add: get_by_token_hash_def)
  qed
  then show "set_password e token pw (s'\<lparr>as_now := t\<rparr>) = (Inl Invite_token_invalid, s'\<lparr>as_now := t\<rparr>)"
    by (intro used_invite_refused [of _ e token ?r]) simp_all
qed

section \<open>Resetting a password\<close>

lemma own_email_free:
  assumes inv: "users_inv n s" and live: "live_user (as_db s) i = Some u"
  shows "\<not> email_taken (as_db s) (Some i) (au_email u)"
proof
  assume "email_taken (as_db s) (Some i) (au_email u)"
  then obtain v where v: "v \<in> set (ad_users (as_db s))" "au_id v \<noteq> i" "au_email v = au_email u"
    by (auto simp: email_taken_iff)
  have "users_typed (ad_users (as_db s))" using inv by (simp add: users_inv_def users_ok_def)
  from users_typed_pair [OF this v(1), of u] live_userD [OF live] v show False by (auto simp: users_apart_def)
qed

lemma live_user_row: "live_user db i = Some u \<Longrightarrow> find (\<lambda>r. au_id r = i) (ad_users db) \<noteq> None"
  by (auto simp: live_user_def find_None_iff_all dest!: find_Some_set)

lemma update_password_run:
  assumes "live_user (as_db s) i = Some u"
  shows "update_password i h s = (Inr (), snd (update_users i (\<lambda>u. u\<lparr>au_password_hash := h, au_credentials_password_set := True\<rparr>) s))"
  using live_user_row [OF assms] by (simp add: update_password_def py_run_bind prod_eq_iff)

lemma repo_update_run:
  assumes "users_inv n s" "live_user (as_db s) i = Some u" "au_id v = i" "au_email v = au_email u"
  shows "\<exists>x. repo_update_user v s = (Inr x, snd (update_users i (write_user v) s))"
  using own_email_free [OF assms(1,2)] live_user_row [OF assms(2)] assms(3,4)
  by (auto simp: repo_update_user_def py_run_bind py_run_seq)

lemma list_ex_update_where: "(\<And>x. Q (f x) = Q x) \<Longrightarrow> list_ex Q (update_where P f xs) = list_ex Q xs"
  by (induction xs) (auto simp: update_where_def)

lemma set_password_run:
  assumes inv: "users_inv n s" and r: "get_by_token_hash (as_db s) (ax_sha256 e token) = Some r" "iv_used_at r = None"
    "as_now s \<le> iv_expires_at r" and live: "live_user (as_db s) (iv_user_id r) = Some u"
  shows "\<exists>s2 v. set_password e token pw s = (Inr (), s2) \<and> live_user (as_db s2) (iv_user_id r) = Some v \<and> au_is_active v \<and>
    au_password_hash v = ax_hash_password e (as_drawn s) pw \<and> au_security_version v = au_security_version u \<and>
    au_role v = (if exists_owner (as_db s) then au_role u else ''owner'')"
proof -
  let ?i = "iv_user_id r" and ?h = "ax_hash_password e (as_drawn s) pw" and ?s0 = "s\<lparr>as_drawn := as_drawn s + 1\<rparr>"
  let ?f = "\<lambda>u :: auth_user. u\<lparr>au_password_hash := ?h, au_credentials_password_set := True\<rparr>"
  let ?s1 = "snd (update_users ?i ?f ?s0)"
  let ?s2 = "snd (mark_used (iv_id r) ?s1)"
  have inv2: "users_inv n ?s2"
  proof (rule preservesD [OF keeps_basic(13)])
    have "preserves (users_inv n) (update_users ?i ?f)" by (rule update_users_identity) (simp add: same_identity_def)
    then show "users_inv n ?s1" by (rule preservesD) (simp add: inv inv_draw)
  qed
  have live2: "live_user (as_db ?s2) ?i = Some (?f u)"
    by (subst live_user_update [of ?f _ ?i "as_db s"]) (simp_all add: live mark_used_def mark_invites_used_def)
  have owner: "exists_owner (as_db ?s2) = exists_owner (as_db s)"
    by (simp add: exists_owner_def mark_used_def mark_invites_used_def list_ex_update_where)
  let ?v = "(?f u)\<lparr>au_is_active := True, au_registration_completed_at := Some (as_now s), au_failed_login_attempts := 0,
      au_role := (if exists_owner (as_db s) then au_role u else ''owner'')\<rparr>"
  have "\<exists>x. repo_update_user ?v ?s2 = (Inr x, snd (update_users ?i (write_user ?v) ?s2))"
    using live_userD [OF live] by (intro repo_update_run [OF inv2 live2]) simp_all
  then have "set_password e token pw s = (Inr (), snd (update_users ?i (write_user ?v) ?s2))"
    using r live2 owner update_password_run [of ?s0 ?i u ?h] live
    by (auto simp: set_password_def transaction_Inr py_run_bind hash_password_run py_run_seq mark_used_def)
  moreover have "live_user (as_db (snd (update_users ?i (write_user ?v) ?s2))) ?i = Some (write_user ?v (?f u))"
    using live2 by (subst live_user_update [of "write_user ?v" _ ?i "as_db ?s2"]) simp_all
  ultimately show ?thesis by (intro exI [of _ "snd (update_users ?i (write_user ?v) ?s2)"] exI [of _ "write_user ?v (?f u)"]) simp
qed

lemma forgot_password_run:
  assumes "fresh_token e s" "user_by_email (as_db s) (py_strip email) = Some u"
  shows "\<exists>s'. forgot_password e email base lang s = (Inr (), s') \<and> as_now s' = as_now s \<and> as_drawn s' = as_drawn s + 1 \<and>
    as_db s' = (as_db s)\<lparr>ad_invites := replaced_invites e (au_id u) s\<rparr> \<and>
    get_by_token_hash (as_db s') (ax_sha256 e (ax_token_urlsafe e (as_drawn s))) = Some (latest_invite e (au_id u) s)"
proof -
  obtain s' where s': "py_seq (invalidate_invites (au_id u)) (invite_user e (au_id u) base (au_email u)
        (or_str lang (au_preferred_locale u)) True) s = (Inr (), s')"
      "as_db s' = (as_db s)\<lparr>ad_invites := replaced_invites e (au_id u) s\<rparr>" "as_now s' = as_now s" "as_drawn s' = as_drawn s + 1"
    using reissue_run [OF assms(1)] by meson
  have "find (\<lambda>r. iv_token_hash r = ax_sha256 e (ax_token_urlsafe e (as_drawn s)))
      (update_where (\<lambda>r. iv_user_id r = au_id u \<and> iv_used_at r = None) (\<lambda>r. r\<lparr>iv_used_at := Some (as_now s)\<rparr>) (ad_invites (as_db s))) = None"
    using assms(1) by (auto simp: fresh_token_def find_None_iff_all set_update_where)
  then have "get_by_token_hash (as_db s') (ax_sha256 e (ax_token_urlsafe e (as_drawn s))) = Some (latest_invite e (au_id u) s)"
    by (simp add: s'(2) get_by_token_hash_def replaced_invites_def find_append latest_invite_def)
  then show ?thesis using s' assms(2) by (auto simp: forgot_password_def transaction_Inr py_run_bind)
qed

text \<open>C29: a forgotten password brings a user back, deactivated or not, and ends nothing. Whoever reads the mail of a user
  that is not deleted can ask for a link and, while it lasts, set a new password with it. Afterwards the user
  is active, also when an administrator had deactivated the account, while every session and the security
  version are as before: a thief who is logged in stays logged in.\<close>

theorem reset_restores_access:
  assumes ok: "users_ok s" and u: "user_by_email (as_db s) (py_strip email) = Some u" and fresh: "fresh_token e s"
    and token: "token = ax_token_urlsafe e (as_drawn s)" "py_strip token = token" "token \<noteq> []"
    and pw: "validate_password_policy (Some pw) (ax_password_level e) = Some None"
    and t: "t \<le> as_now s + minutes (60 * invite_ttl_hours e)"
  shows "\<exists>s1 s2 v. forgot_password e email base lang s = (Inr (), s1) \<and>
    set_password_route e token pw (s1\<lparr>as_now := t\<rparr>) = (Inr (), s2) \<and>
    live_user (as_db s2) (au_id u) = Some v \<and> au_is_active v \<and> au_password_hash v = ax_hash_password e (as_drawn s + 1) pw \<and>
    au_security_version v = au_security_version u \<and> ad_sessions (as_db s2) = ad_sessions (as_db s) \<and>
    au_role v = (if exists_owner (as_db s) then au_role u else ''owner'')"
proof -
  obtain s1 where s1: "forgot_password e email base lang s = (Inr (), s1)" "as_now s1 = as_now s" "as_drawn s1 = as_drawn s + 1"
    "as_db s1 = (as_db s)\<lparr>ad_invites := replaced_invites e (au_id u) s\<rparr>"
    "get_by_token_hash (as_db s1) (ax_sha256 e token) = Some (latest_invite e (au_id u) s)"
    using forgot_password_run [OF fresh u] token(1) by metis
  let ?s = "s1\<lparr>as_now := t\<rparr>"
  have inv: "users_inv 0 s" using ok by (simp add: users_inv_def users_ok_def)
  then have "users_inv 0 s1" using preservesD [OF preserves_forgot inv, of e email base lang] s1(1) by simp
  then have inv1: "users_inv 0 ?s" by (simp add: users_inv_def users_ok_def)
  have "u \<in> set (ad_users (as_db s))" "\<not> au_deleted u" using user_by_email_Some [OF u] by simp_all
  then have "live_user (as_db s) (au_id u) = Some u" by (rule live_userI [OF inv])
  then have live: "live_user (as_db ?s) (au_id u) = Some u"
    using live_user_cong [of "as_db ?s" "as_db s"] s1(4) by simp
  have owner: "exists_owner (as_db ?s) = exists_owner (as_db s)" by (simp add: s1(4) exists_owner_def)
  have "get_by_token_hash (as_db ?s) (ax_sha256 e token) = Some (latest_invite e (au_id u) s)" using s1(5) by simp
  from set_password_run [OF inv1 this, of u pw] obtain s2 v where run: "set_password e token pw ?s = (Inr (), s2)"
      "live_user (as_db s2) (au_id u) = Some v" "au_is_active v" "au_password_hash v = ax_hash_password e (as_drawn ?s) pw"
      "au_security_version v = au_security_version u" "au_role v = (if exists_owner (as_db ?s) then au_role u else ''owner'')"
    using t live by (auto simp: latest_invite_def)
  have "ad_sessions (as_db s2) = ad_sessions (as_db ?s)" by (rule set_password_Inr [OF run(1)])
  moreover have "set_password_route e token pw ?s = (Inr (), s2)"
    using run(1) token(2,3) pw by (simp add: set_password_route_def py_run_try)
  ultimately show ?thesis using s1 run owner by (intro exI [of _ s1] exI [of _ s2] exI [of _ v] conjI) simp_all
qed

text \<open>User 7, deactivated by an administrator.\<close>

definition demo_inactive_state :: auth_state where
  "demo_inactive_state = demo_refresh_state\<lparr>as_db := (as_db demo_refresh_state)\<lparr>ad_users := [demo_auth_user\<lparr>au_is_active := False\<rparr>]\<rparr>\<rparr>"

lemma demo_inactive_ok: "users_ok demo_inactive_state"
  by (simp add: users_ok_def demo_inactive_state_def demo_refresh_state_def with_sessions_def demo_auth_state_def
      demo_auth_user_def user_row_ok_def py_strip_no_space py_space_def)

lemma demo_inactive_found: "user_by_email (as_db demo_inactive_state) (py_strip ''a@b.hu'') = Some (demo_auth_user\<lparr>au_is_active := False\<rparr>)"
  by (simp add: user_by_email_def demo_inactive_state_def demo_auth_user_def py_strip_no_space py_space_def)

lemma demo_inactive_fresh: "fresh_token demo_auth_env demo_inactive_state"
  by (simp add: fresh_token_def demo_inactive_state_def demo_refresh_state_def with_sessions_def demo_auth_state_def demo_auth_db_def)

lemma demo_token: "ax_token_urlsafe demo_auth_env (as_drawn demo_inactive_state) = ''vv''" "py_strip ''vv'' = ''vv''"
  by (simp_all add: demo_auth_env_def demo_inactive_state_def demo_refresh_state_def eval_nat_numeral py_strip_no_space py_space_def)

lemma demo_password_ok: "validate_password_policy (Some ''Abc123'') None = Some None"
  by code_simp

lemma demo_ttl: "as_now demo_inactive_state = unix_epoch + minutes 1" "invite_ttl_hours demo_auth_env = 4"
  by (simp_all add: demo_inactive_state_def demo_refresh_state_def with_sessions_def demo_auth_state_def invite_ttl_hours_def demo_auth_env_def)

lemma reset_restores_access_witness:
  "\<not> au_is_active (demo_auth_user\<lparr>au_is_active := False\<rparr>) \<and>
   (\<exists>s1 s2 v. forgot_password demo_auth_env ''a@b.hu'' None None demo_inactive_state = (Inr (), s1) \<and>
     set_password_route demo_auth_env ''vv'' ''Abc123'' (s1\<lparr>as_now := unix_epoch + minutes 60\<rparr>) = (Inr (), s2) \<and>
     live_user (as_db s2) 7 = Some v \<and> au_is_active v \<and> ad_sessions (as_db s2) = ad_sessions (as_db demo_inactive_state))"
proof -
  have "validate_password_policy (Some ''Abc123'') (ax_password_level demo_auth_env) = Some None"
    using demo_password_ok by (simp add: demo_auth_env_def)
  moreover have "unix_epoch + minutes 60 \<le> as_now demo_inactive_state + minutes (60 * invite_ttl_hours demo_auth_env)"
    by (simp add: demo_ttl minutes_def)
  moreover have "au_id (demo_auth_user\<lparr>au_is_active := False\<rparr>) = 7" by (simp add: demo_auth_user_def)
  ultimately show ?thesis
    using reset_restores_access [OF demo_inactive_ok demo_inactive_found demo_inactive_fresh demo_token(1) [symmetric] demo_token(2)]
    by fastforce
qed

lemma links_single_use_witness:
  "\<exists>s1 s2. set_password demo_auth_env ''vv'' ''Abc123'' s1 = (Inr (), s2) \<and>
     set_password demo_auth_env ''vv'' ''Other9'' s2 = (Inl Invite_token_invalid, s2)"
proof -
  let ?u = "demo_auth_user\<lparr>au_is_active := False\<rparr>"
  obtain s1 where s1: "forgot_password demo_auth_env ''a@b.hu'' None None demo_inactive_state = (Inr (), s1)"
    "as_now s1 = as_now demo_inactive_state" "as_db s1 = (as_db demo_inactive_state)\<lparr>ad_invites := replaced_invites demo_auth_env (au_id ?u) demo_inactive_state\<rparr>"
    "get_by_token_hash (as_db s1) (ax_sha256 demo_auth_env ''vv'') = Some (latest_invite demo_auth_env (au_id ?u) demo_inactive_state)"
    using forgot_password_run [OF demo_inactive_fresh demo_inactive_found] demo_token(1) by metis
  have inv: "users_inv 0 s1"
    using preservesD [OF preserves_forgot [of 0 demo_auth_env "''a@b.hu''" None None], of demo_inactive_state] s1(1) demo_inactive_ok
    by (simp add: users_inv_def users_ok_def)
  have live: "live_user (as_db s1) (iv_user_id (latest_invite demo_auth_env (au_id ?u) demo_inactive_state)) = Some ?u"
    by (simp add: s1(3) live_user_def demo_inactive_state_def demo_auth_user_def latest_invite_def)
  obtain s2 where s2: "set_password demo_auth_env ''vv'' ''Abc123'' s1 = (Inr (), s2)"
    using set_password_run [OF inv s1(4) _ _ live] s1(2) by (auto simp: latest_invite_def minutes_def demo_ttl)
  have "set_password demo_auth_env ''vv'' ''Other9'' (s2\<lparr>as_now := as_now s2\<rparr>) =
      (Inl Invite_token_invalid, s2\<lparr>as_now := as_now s2\<rparr>)"
    using links_single_use s2 by blast
  then show ?thesis using s2 by auto
qed

section \<open>The own profile of a cached user\<close>

lemma update_me_run:
  assumes inv: "users_inv n s" and live: "live_user (as_db s) (au_id u) = Some v" and email: "au_email u = au_email v" "au_email u \<noteq> []"
    and some: "build_profile_updates name loc theme u = Some w"
  shows "\<exists>p. update_me u name loc theme s = (Inr p, snd (update_users (au_id u) (write_user w) s))"
proof -
  have w: "au_id w = au_id u" "au_email w = au_email u" using some by (auto simp: build_profile_updates_def split: if_splits)
  obtain x where "repo_update_user w s = (Inr x, snd (update_users (au_id u) (write_user w) s))"
    using repo_update_run [OF inv live, of w] w email(1) by auto
  moreover have same: "w\<lparr>au_email := au_email v\<rparr> = w"
  proof -
    have "w\<lparr>au_email := au_email v\<rparr> = w\<lparr>au_email := au_email w\<rparr>" using w(2) email(1) by simp
    then show ?thesis by simp
  qed
  ultimately show ?thesis using some w email by (auto simp: update_me_def py_run_bind same)
qed

text \<open>C30: saving the own profile can undo what the tables know. The middleware may take the user of a request from a copy
  that is up to a minute old and lacks some columns, and the profile service writes the whole row from it.
  When a user with such a copy saves a name, language or theme, then whatever the row said by then, it
  afterwards says: active (also if wrong passwords had locked the account meanwhile), no failed logins,
  registration not completed, no token of a pending address change, and the role of the copy.\<close>

theorem cached_profile_overwrites:
  assumes ok: "users_ok s" and live: "live_user (as_db s) i = Some v" and w: "au_id w = i" "au_email w = au_email v" "au_email w \<noteq> []"
      "au_is_active w"
    and rq: "rq_user rq = Some (user_from_cache cached_at w)" and some: "\<not> (name = None \<and> loc = None \<and> theme = None)"
  shows "\<exists>p s' v'. patch_me rq slug name loc theme s = (Inr p, s') \<and> live_user (as_db s') i = Some v' \<and>
    au_is_active v' \<and> au_failed_login_attempts v' = 0 \<and> au_registration_completed_at v' = None \<and>
    au_pending_email_token_hash v' = None \<and> au_pending_email_expires_at v' = None \<and> au_role v' = au_role w"
proof -
  let ?c = "user_from_cache cached_at w"
  obtain x where x: "build_profile_updates name loc theme ?c = Some x" using some by (simp add: build_profile_updates_def)
  have xs: "au_is_active x" "au_failed_login_attempts x = 0" "au_registration_completed_at x = None"
    "au_pending_email_token_hash x = None" "au_pending_email_expires_at x = None" "au_role x = au_role w"
    using x w some by (auto simp: build_profile_updates_def user_from_cache_def)
  have c: "au_id ?c = i" "au_email ?c = au_email v" "au_is_active ?c" using w by (simp_all add: user_from_cache_def)
  have "users_inv 0 s" using ok by (simp add: users_inv_def users_ok_def)
  then obtain p where "update_me ?c name loc theme s = (Inr p, snd (update_users i (write_user x) s))"
    using update_me_run [of 0 s ?c v name loc theme x] live c w x by auto
  then have "\<exists>s'. patch_me rq slug name loc theme s = (Inr p, s') \<and> as_db s' = as_db (snd (update_users i (write_user x) s))"
    using rq c by (simp add: patch_me_def get_current_user_def py_run_bind py_run_seq invalidate_user_cache_def modify_web_def)
  then obtain s' where s': "patch_me rq slug name loc theme s = (Inr p, s')" "as_db s' = as_db (snd (update_users i (write_user x) s))"
    by blast
  have "live_user (as_db s') i = map_option (write_user x) (live_user (as_db s) i)"
    by (rule live_user_update) (simp_all add: s')
  then have "live_user (as_db s') i = Some (write_user x v)" using live by simp
  then show ?thesis using s'(1) xs by (auto simp: write_user_def)
qed

text \<open>The account of user 7 was locked after the copy was made.\<close>

lemma cached_profile_overwrites_witness:
  "\<exists>rq p s' v'. live_user (as_db demo_inactive_state) 7 = Some (demo_auth_user\<lparr>au_is_active := False\<rparr>) \<and>
     patch_me rq (Some ''t'') (Some ''Anna'') None None demo_inactive_state = (Inr p, s') \<and>
     live_user (as_db s') 7 = Some v' \<and> au_is_active v'"
proof -
  let ?rq = "\<lparr>rq_payload = None, rq_user = Some (user_from_cache 0 demo_auth_user), rq_light = False\<rparr>"
  have live: "live_user (as_db demo_inactive_state) 7 = Some (demo_auth_user\<lparr>au_is_active := False\<rparr>)"
    by (simp add: live_user_def demo_inactive_state_def demo_auth_user_def)
  have "\<exists>p s' v'. patch_me ?rq (Some ''t'') (Some ''Anna'') None None demo_inactive_state = (Inr p, s') \<and>
      live_user (as_db s') 7 = Some v' \<and> au_is_active v' \<and> au_failed_login_attempts v' = 0 \<and>
      au_registration_completed_at v' = None \<and> au_pending_email_token_hash v' = None \<and>
      au_pending_email_expires_at v' = None \<and> au_role v' = au_role demo_auth_user"
    by (rule cached_profile_overwrites [OF demo_inactive_ok live, of demo_auth_user]) (simp_all add: demo_auth_user_def)
  then show ?thesis using live by blast
qed

section \<open>A refused deletion\<close>

text \<open>
  The route forgets the access tokens before the service decides, so a deletion that is refused, as that of the
  owner, still logs the user out of the running session.
\<close>

lemma refused_delete_logs_out:
  assumes may: "require_permission known ''users.write'' rq s = (Inr cur, s)" and live: "live_user (as_db s) i = Some u"
    and owner: "au_role u = ''owner''" "i \<noteq> au_id cur"
  shows "\<exists>s' msg. delete_user_route e wx known rq slug i s = (Inl (Auth_http_error 400 msg), s') \<and> as_db s' = as_db s \<and>
    (\<forall>t jti. \<not> is_allowed wx (s'\<lparr>as_now := t\<rparr>) slug i jti)"
proof -
  obtain w where w: "remove_by_user wx slug i s = (Inr (), s\<lparr>as_web := w\<rparr>)"
      "\<forall>t jti s2. as_web s2 = w \<longrightarrow> \<not> is_allowed wx (s2\<lparr>as_now := t\<rparr>) slug i jti"
    using remove_by_user_run by blast
  have "delete_user_route e wx known rq slug i s =
      (Inl (Auth_http_error 400 ''Az ownert nem lehet torolni.''), s\<lparr>as_web := w\<rparr>)"
    using may w live owner
    by (simp add: delete_user_route_def py_run_bind value_error_400_def py_run_try py_run_seq user_delete_def transaction_def)
  then show ?thesis using w(2) by simp
qed

end
