(* ===== verification/Auth_Limits_Facts.thy ===== *)
theory Auth_Limits_Facts
  imports Auth_Limits
begin

text \<open>
  The sliding window of the login limits: what a store knows about a key at a moment are the accepted
  attempts younger than the window, so that no window of that length holds more of them than the limit.
\<close>

section \<open>One store\<close>

text \<open>How many of some moments lie in a window.\<close>

definition in_window :: "int \<Rightarrow> int \<Rightarrow> int list \<Rightarrow> nat" where
  "in_window window x ts = length (filter (\<lambda>t. x \<le> t \<and> t < x + window) ts)"

text \<open>A store against the list of all the attempts that were accepted under a key up to a moment.\<close>

definition counts :: "int \<Rightarrow> int \<Rightarrow> int list \<Rightarrow> int list \<Rightarrow> int \<Rightarrow> bool" where
  "counts window limit acc kept t0 \<longleftrightarrow>
     (\<forall>t \<ge> t0. prune_old_timestamps kept window t = prune_old_timestamps acc window t) \<and>
     (\<forall>x. int (in_window window x acc) \<le> limit) \<and> (\<forall>a \<in> set acc. a \<le> t0)"

lemma counts_empty: "0 \<le> limit \<Longrightarrow> counts window limit [] [] t0"
  by (simp add: counts_def in_window_def prune_old_timestamps_def)

lemma counts_later: "counts window limit acc kept t0 \<Longrightarrow> t0 \<le> t \<Longrightarrow> counts window limit acc kept t"
  by (fastforce simp: counts_def)

lemma prune_twice: "t \<le> u \<Longrightarrow> prune_old_timestamps (prune_old_timestamps ts w t) w u = prune_old_timestamps ts w u"
  by (auto simp: prune_old_timestamps_def intro!: filter_cong)

lemma prune_append: "prune_old_timestamps (xs @ ys) w t = prune_old_timestamps xs w t @ prune_old_timestamps ys w t"
  by (simp add: prune_old_timestamps_def)

lemma window_of_pruned:
  assumes "x \<le> t" "t < x + window" "\<forall>a \<in> set acc. a \<le> t"
  shows "in_window window x acc \<le> length (prune_old_timestamps acc window t)"
proof -
  have "filter (\<lambda>a. x \<le> a \<and> a < x + window) acc = filter (\<lambda>a. x \<le> a \<and> a < x + window) (prune_old_timestamps acc window t)"
    using assms by (auto simp: prune_old_timestamps_def intro!: filter_cong)
  then show ?thesis by (simp add: in_window_def)
qed

lemma counts_attempt:
  assumes c: "counts window limit acc (st k) t0" and t: "t0 \<le> t" and run: "attempt window limit key t st = (ok, st')"
  shows "counts window limit (if key = k \<and> ok then acc @ [t] else acc) (st' k) t"
proof (cases "key = k")
  case False
  then have "st' k = st k" using run by (auto simp: attempt_def Let_def split: if_splits)
  with False counts_later [OF c t] show ?thesis by simp
next
  case True
  let ?kept = "prune_old_timestamps (st k) window t"
  have kept: "?kept = prune_old_timestamps acc window t" and old: "\<forall>a \<in> set acc. a \<le> t"
    using c t by (auto simp: counts_def)
  show ?thesis
  proof (cases "is_within_limit (length ?kept) limit")
    case within: True
    then have st': "st' k = ?kept @ [t]" "ok" using run True by (auto simp: attempt_def Let_def)
    have "int (in_window window x (acc @ [t])) \<le> limit" for x
    proof (cases "x \<le> t \<and> t < x + window")
      case True
      then have "in_window window x acc \<le> length ?kept" using window_of_pruned old kept by simp
      then show ?thesis using True within by (simp add: in_window_def is_within_limit_def)
    next
      case False
      then have "in_window window x (acc @ [t]) = in_window window x acc" by (simp add: in_window_def)
      then show ?thesis using c by (simp add: counts_def)
    qed
    moreover have "prune_old_timestamps (?kept @ [t]) window u = prune_old_timestamps (acc @ [t]) window u" if "t \<le> u" for u
      using prune_twice [OF that, of acc window] by (simp add: kept prune_append)
    ultimately show ?thesis using st' True old by (auto simp: counts_def)
  next
    case False
    then have "st' k = ?kept" "\<not> ok" using run True by (auto simp: attempt_def Let_def)
    moreover have "prune_old_timestamps ?kept window u = prune_old_timestamps acc window u" if "t \<le> u" for u
      using prune_twice [OF that, of acc window] by (simp add: kept)
    ultimately show ?thesis using c t by (auto simp: counts_def)
  qed
qed

section \<open>Login attempts\<close>

text \<open>A sequence of first login steps, each with its call, address and tenant: the answers.\<close>

type_synonym login_attempt = "limit_call \<times> string \<times> string option"

primrec step1_answers :: "int \<Rightarrow> login_attempt list \<Rightarrow> limit_state \<Rightarrow> (login_attempt \<times> bool) list" where
  "step1_answers per_hour [] s = []"
| "step1_answers per_hour (a # rest) s =
     (case a of (c, email, slug) \<Rightarrow> case check_login_step1_email per_hour c email slug s of
        (ok, s') \<Rightarrow> (a, ok) # step1_answers per_hour rest s')"

text \<open>The moments at which attempts of one kind were let through.\<close>

definition let_through :: "(login_attempt \<Rightarrow> bool) \<Rightarrow> (limit_call \<Rightarrow> int) \<Rightarrow> (login_attempt \<times> bool) list \<Rightarrow> int list" where
  "let_through P clock answers = map (\<lambda>(a, _). clock (fst a)) (filter (\<lambda>(a, ok). ok \<and> P a) answers)"

definition same_login :: "bool \<Rightarrow> string \<Rightarrow> login_attempt \<Rightarrow> bool" where
  "same_login redis key = (\<lambda>(c, email, slug). lc_redis_up c = redis \<and> py_strip email \<noteq> [] \<and>
     (if redis then email_redis_key slug email = key else ''email/'' @ email_mem_key slug email = key))"

definition effective_limit :: "int \<Rightarrow> int" where
  "effective_limit per_hour = max 1 (if per_hour = 0 then 10 else per_hour)"

lemma check_step1_redis:
  assumes c: "counts (seconds 3600) (effective_limit per_hour) acc (lm_redis s key) t0"
    and run: "check_login_step1_email per_hour call email slug s = (ok, s')" and t: "lc_redis_up call \<Longrightarrow> t0 \<le> lc_time call"
  shows "counts (seconds 3600) (effective_limit per_hour)
    (if ok \<and> same_login True key (call, email, slug) then acc @ [lc_time call] else acc)
    (lm_redis s' key) (if lc_redis_up call then lc_time call else t0)"
proof (cases "py_strip email = [] \<or> \<not> lc_redis_up call")
  case True
  then have "lm_redis s' = lm_redis s"
    using run by (auto simp: check_login_step1_email_def limited_def split: if_splits prod.splits)
  then show ?thesis using True c counts_later [OF c t] by (auto simp: same_login_def)
next
  case False
  then obtain st where "attempt (seconds 3600) (effective_limit per_hour) (email_redis_key slug email) (lc_time call) (lm_redis s) = (ok, st)"
      "lm_redis s' = st"
    using run by (auto simp: check_login_step1_email_def limited_def effective_limit_def split: prod.splits)
  from counts_attempt [OF c t this(1)] this(2) False show ?thesis by (simp add: same_login_def conj_commute)
qed

lemma check_step1_memory:
  assumes c: "counts (seconds 3600) (effective_limit per_hour) acc (lm_memory s key) t0"
    and run: "check_login_step1_email per_hour call email slug s = (ok, s')" and t: "\<not> lc_redis_up call \<Longrightarrow> t0 \<le> lc_monotonic call"
  shows "counts (seconds 3600) (effective_limit per_hour)
    (if ok \<and> same_login False key (call, email, slug) then acc @ [lc_monotonic call] else acc)
    (lm_memory s' key) (if lc_redis_up call then t0 else lc_monotonic call)"
proof (cases "py_strip email = [] \<or> lc_redis_up call")
  case True
  then have "lm_memory s' = lm_memory s"
    using run by (auto simp: check_login_step1_email_def limited_def split: if_splits prod.splits)
  then show ?thesis using True c counts_later [OF c t] by (auto simp: same_login_def)
next
  case False
  then obtain st where "attempt (seconds 3600) (effective_limit per_hour) (''email/'' @ email_mem_key slug email) (lc_monotonic call) (lm_memory s) = (ok, st)"
      "lm_memory s' = st"
    using run by (auto simp: check_login_step1_email_def limited_def effective_limit_def split: prod.splits)
  from counts_attempt [OF c _ this(1)] t this(2) False show ?thesis by (simp add: same_login_def conj_commute)
qed

text \<open>The clocks of a sequence of calls never go back.\<close>

fun clocks_from :: "int \<Rightarrow> int \<Rightarrow> login_attempt list \<Rightarrow> bool" where
  "clocks_from t m [] = True"
| "clocks_from t m ((c, _) # rest) =
     (if lc_redis_up c then t \<le> lc_time c \<and> clocks_from (lc_time c) m rest
      else m \<le> lc_monotonic c \<and> clocks_from t (lc_monotonic c) rest)"

lemma step1_counts:
  assumes "clocks_from t m as" "counts (seconds 3600) (effective_limit p) acc (lm_redis s rk) t"
    "counts (seconds 3600) (effective_limit p) acc' (lm_memory s mk) m"
  shows "(\<forall>x. int (in_window (seconds 3600) x (acc @ let_through (same_login True rk) lc_time (step1_answers p as s))) \<le> effective_limit p) \<and>
    (\<forall>x. int (in_window (seconds 3600) x (acc' @ let_through (same_login False mk) lc_monotonic (step1_answers p as s))) \<le> effective_limit p)"
  using assms
proof (induction as arbitrary: t m acc acc' s)
  case Nil
  then show ?case by (simp add: let_through_def counts_def)
next
  case (Cons a rest)
  obtain c email slug where a: "a = (c, email, slug)" by (cases a)
  obtain ok s1 where run: "check_login_step1_email p c email slug s = (ok, s1)" by fastforce
  let ?acc = "if ok \<and> same_login True rk a then acc @ [lc_time c] else acc"
  let ?acc' = "if ok \<and> same_login False mk a then acc' @ [lc_monotonic c] else acc'"
  let ?t = "if lc_redis_up c then lc_time c else t" and ?m = "if lc_redis_up c then m else lc_monotonic c"
  have "counts (seconds 3600) (effective_limit p) ?acc (lm_redis s1 rk) ?t"
    using check_step1_redis [OF Cons.prems(2) run] Cons.prems(1) a by (auto split: if_splits)
  moreover have "counts (seconds 3600) (effective_limit p) ?acc' (lm_memory s1 mk) ?m"
    using check_step1_memory [OF Cons.prems(3) run] Cons.prems(1) a by (auto split: if_splits)
  moreover have "clocks_from ?t ?m rest" using Cons.prems(1) a by (auto split: if_splits)
  ultimately have IH: "(\<forall>x. int (in_window (seconds 3600) x (?acc @ let_through (same_login True rk) lc_time (step1_answers p rest s1))) \<le> effective_limit p) \<and>
    (\<forall>x. int (in_window (seconds 3600) x (?acc' @ let_through (same_login False mk) lc_monotonic (step1_answers p rest s1))) \<le> effective_limit p)"
    using Cons.IH by blast
  have "?acc @ let_through (same_login True rk) lc_time (step1_answers p rest s1) =
      acc @ let_through (same_login True rk) lc_time (step1_answers p (a # rest) s)"
    "?acc' @ let_through (same_login False mk) lc_monotonic (step1_answers p rest s1) =
      acc' @ let_through (same_login False mk) lc_monotonic (step1_answers p (a # rest) s)"
    using run a by (simp_all add: let_through_def)
  with IH show ?case by simp
qed

text \<open>C32: no more than the allowed logins in any hour. Take any sequence of first login steps on a process, from whatever
  tenants and addresses, whether Redis answers each of them or not. For one tenant and address, the attempts
  let through by Redis within any hour are at most the configured number, and so are those let through
  by the memory of the process while Redis was away.\<close>

theorem login_rate_bounded:
  assumes clocks: "clocks_from t m as" and empty: "lm_redis s rk = []" "lm_memory s mk = []"
  shows "int (in_window (seconds 3600) x (let_through (same_login True rk) lc_time (step1_answers per_hour as s)))
      \<le> max 1 (if per_hour = 0 then 10 else per_hour) \<and>
    int (in_window (seconds 3600) x (let_through (same_login False mk) lc_monotonic (step1_answers per_hour as s)))
      \<le> max 1 (if per_hour = 0 then 10 else per_hour)"
proof -
  have "0 \<le> effective_limit per_hour" by (simp add: effective_limit_def)
  then have "counts (seconds 3600) (effective_limit per_hour) [] (lm_redis s rk) t"
    "counts (seconds 3600) (effective_limit per_hour) [] (lm_memory s mk) m"
    by (simp_all add: empty counts_empty)
  from step1_counts [OF clocks this] show ?thesis by (simp add: effective_limit_def)
qed

text \<open>Two attempts at once with a limit of one: the second is refused.\<close>

definition demo_attempt :: login_attempt where
  "demo_attempt = (\<lparr>lc_redis_up = True, lc_time = 5, lc_monotonic = 5\<rparr>, ''a'', None)"

definition demo_limits :: limit_state where
  "demo_limits = \<lparr>lm_redis = (\<lambda>_. []), lm_memory = (\<lambda>_. [])\<rparr>"

lemma login_rate_bounded_witness:
  "map snd (step1_answers 1 [demo_attempt, demo_attempt] demo_limits) = [True, False] \<and>
   int (in_window (seconds 3600) 0 (let_through (same_login True (email_redis_key None ''a'')) lc_time
     (step1_answers 1 [demo_attempt, demo_attempt] demo_limits))) \<le> 1"
proof -
  have s: "py_strip ''a'' = ''a''" by (simp add: py_strip_no_space py_space_def)
  have "map snd (step1_answers 1 [demo_attempt, demo_attempt] demo_limits) = [True, False]"
    by (simp add: demo_attempt_def demo_limits_def check_login_step1_email_def limited_def attempt_def Let_def s
        prune_old_timestamps_def is_within_limit_def seconds_def)
  moreover have "clocks_from 0 0 [demo_attempt, demo_attempt]" by (simp add: demo_attempt_def)
  then have "int (in_window (seconds 3600) 0 (let_through (same_login True (email_redis_key None ''a'')) lc_time
     (step1_answers 1 [demo_attempt, demo_attempt] demo_limits))) \<le> 1"
    using login_rate_bounded [of 0 0 "[demo_attempt, demo_attempt]" demo_limits "email_redis_key None ''a''" "[]" 0 1]
    by (simp add: demo_limits_def)
  ultimately show ?thesis ..
qed

end
