(* ===== verification/Event_Outbox.thy ===== *)
theory Event_Outbox
  imports Table_Spec Py_Calendar "HOL-Library.List_Lexorder"
begin

text \<open>
  \<open>backend/core/kernel/events/outbox.py\<close>, \<open>outbox_models.py\<close> and \<open>outbox_queries.py\<close>: the persistent queue of
  platform events. Web processes append rows, workers claim them in batches, keep them by heartbeats
  and report success or failure. Each method is one transaction on the table; \<open>SKIP LOCKED\<close> makes
  concurrent claims sequential.

  Between the lookup of the idempotency key and the insert, \<open>append\<close> can be overtaken by another process:
  the first argument of \<open>outbox_append\<close> is what other transactions commit in between.
\<close>

section \<open>Rows\<close>

datatype json = Json_null | Json_bool bool | Json_int int | Json_str string
  | Json_arr "json list" | Json_obj "(string \<times> json) list"

type_synonym payload = "(string \<times> json) list"

record outbox_row =
  ob_id :: int
  ob_event_type :: string
  ob_payload :: payload
  ob_status :: string
  ob_attempts :: int
  ob_last_error :: "string option"
  ob_next_retry_at :: datetime
  ob_created_at :: datetime
  ob_updated_at :: datetime
  ob_processed_at :: "datetime option"
  ob_idempotency_key :: "string option"
  ob_locked_at :: "datetime option"
  ob_lock_owner :: "string option"
  ob_leased_by :: "string option"
  ob_lease_until :: "datetime option"
  ob_last_heartbeat_at :: "datetime option"
  ob_started_at :: "datetime option"
  ob_finished_at :: "datetime option"

record work_item =
  wi_id :: int
  wi_event_type :: string
  wi_payload :: payload
  wi_attempts :: int
  wi_lease_until :: "datetime option"

record outbox =
  ox_now :: datetime
  ox_rows :: "outbox_row list"
  ox_next_id :: int

datatype event_error =
    Event_value_error string
  | Event_integrity_error
  | Event_delivery_error string
  | Event_handler_error string
  | Event_timeout_error string

type_synonym 'a outbox_op = "(outbox, event_error, 'a) py"

section \<open>Queries\<close>

definition outbox_eligible :: "datetime \<Rightarrow> datetime \<Rightarrow> outbox_row \<Rightarrow> bool" where
  "outbox_eligible now stale_before row \<longleftrightarrow>
     (ob_status row \<in> {''pending'', ''retry''} \<and> ob_next_retry_at row \<le> now) \<or>
     (ob_status row = ''processing'' \<and>
        ((case ob_lease_until row of None \<Rightarrow> False | Some t \<Rightarrow> t < now) \<or>
         (case ob_locked_at row of None \<Rightarrow> False | Some t \<Rightarrow> t < stale_before)))"

definition to_work_item :: "outbox_row \<Rightarrow> work_item" where
  "to_work_item row = \<lparr>wi_id = ob_id row, wi_event_type = ob_event_type row, wi_payload = ob_payload row,
     wi_attempts = ob_attempts row, wi_lease_until = ob_lease_until row\<rparr>"

definition mark_claimed :: "datetime \<Rightarrow> string option \<Rightarrow> datetime option \<Rightarrow> outbox_row \<Rightarrow> outbox_row" where
  "mark_claimed now lock_owner lease_until row = row
     \<lparr>ob_status := ''processing'', ob_locked_at := Some now, ob_lock_owner := lock_owner,
      ob_leased_by := lock_owner, ob_lease_until := lease_until, ob_last_heartbeat_at := Some now,
      ob_started_at := (case ob_started_at row of None \<Rightarrow> Some now | Some t \<Rightarrow> Some t),
      ob_updated_at := now\<rparr>"

section \<open>Appending\<close>

definition row_by_key :: "outbox \<Rightarrow> string \<Rightarrow> outbox_row option" where
  "row_by_key s key = find (\<lambda>r. ob_idempotency_key r = Some key) (ox_rows s)"

definition new_outbox_row :: "outbox \<Rightarrow> string \<Rightarrow> payload \<Rightarrow> string option \<Rightarrow> outbox_row" where
  "new_outbox_row s event_type payload key =
     \<lparr>ob_id = ox_next_id s, ob_event_type = event_type, ob_payload = payload, ob_status = ''pending'',
      ob_attempts = 0, ob_last_error = None, ob_next_retry_at = ox_now s, ob_created_at = ox_now s,
      ob_updated_at = ox_now s, ob_processed_at = None, ob_idempotency_key = key, ob_locked_at = None,
      ob_lock_owner = None, ob_leased_by = None, ob_lease_until = None, ob_last_heartbeat_at = None,
      ob_started_at = None, ob_finished_at = None\<rparr>"

text \<open>\<open>INSERT\<close> and \<open>COMMIT\<close> under the unique index on the non-null keys; the id comes from a sequence, which
  a failed insert advances too.\<close>

definition insert_outbox_row :: "string \<Rightarrow> payload \<Rightarrow> string option \<Rightarrow> outbox_row outbox_op" where
  "insert_outbox_row event_type payload key = (\<lambda>s.
     let row = new_outbox_row s event_type payload key; s' = s\<lparr>ox_next_id := ox_next_id s + 1\<rparr> in
     case key of
       None \<Rightarrow> (Inr row, s'\<lparr>ox_rows := ox_rows s @ [row]\<rparr>)
     | Some k \<Rightarrow>
         (if row_by_key s k \<noteq> None then (Inl Event_integrity_error, s')
          else (Inr row, s'\<lparr>ox_rows := ox_rows s @ [row]\<rparr>)))"

definition outbox_append :: "(outbox \<Rightarrow> outbox) \<Rightarrow> string \<Rightarrow> payload \<Rightarrow> string option \<Rightarrow> outbox_row outbox_op" where
  "outbox_append others event_type payload idempotency_key =
     (let key = strip_opt idempotency_key in
      py_bind (py_gets (\<lambda>s. case key of None \<Rightarrow> None | Some k \<Rightarrow> row_by_key s k)) (\<lambda>existing.
      case existing of
        Some row \<Rightarrow> py_return row
      | None \<Rightarrow>
          py_seq (py_modify others)
            (py_try (insert_outbox_row event_type payload key) (\<lambda>e.
               py_bind (py_gets (\<lambda>s. case key of None \<Rightarrow> None | Some k \<Rightarrow> row_by_key s k)) (\<lambda>existing.
               case existing of Some row \<Rightarrow> py_return row | None \<Rightarrow> py_raise e)))))"

text \<open>\<open>IdempotencyService.publish_once\<close>.\<close>

definition publish_once :: "(outbox \<Rightarrow> outbox) \<Rightarrow> string \<Rightarrow> payload \<Rightarrow> string \<Rightarrow> outbox_row outbox_op" where
  "publish_once others event_type payload idempotency_key =
     (let key = py_strip idempotency_key in
      if key = '''' then py_raise (Event_value_error ''idempotency_key is required'')
      else outbox_append others event_type payload (Some key))"

section \<open>Claiming\<close>

definition claim_seconds :: "int \<Rightarrow> int" where
  "claim_seconds n = seconds (max 1 n)"

text \<open>The rows that a claim takes: eligible, by id, at most \<open>limit\<close>.\<close>

definition claim_rows :: "outbox \<Rightarrow> nat \<Rightarrow> int \<Rightarrow> outbox_row list" where
  "claim_rows s limit stale_lock_after_sec =
     take limit (sort_key ob_id
       (filter (outbox_eligible (ox_now s) (ox_now s - claim_seconds stale_lock_after_sec)) (ox_rows s)))"

definition claim_next_batch :: "nat \<Rightarrow> int \<Rightarrow> int \<Rightarrow> string option \<Rightarrow> work_item list outbox_op" where
  "claim_next_batch limit stale_lock_after_sec lease_seconds lock_owner = (\<lambda>s.
     let now = ox_now s; lease_until = now + claim_seconds lease_seconds; owner = strip_opt lock_owner;
         rows = claim_rows s limit stale_lock_after_sec in
     (Inr (map to_work_item rows),
      s\<lparr>ox_rows := update_where (\<lambda>r. ob_id r \<in> ob_id ` set rows)
           (mark_claimed now owner (Some lease_until)) (ox_rows s)\<rparr>))"

section \<open>One row\<close>

text \<open>\<open>db.get\<close>, and nothing when the row does not exist.\<close>

definition update_row :: "int \<Rightarrow> (datetime \<Rightarrow> outbox_row \<Rightarrow> outbox_row) \<Rightarrow> unit outbox_op" where
  "update_row i f = py_modify (\<lambda>s. s\<lparr>ox_rows := update_where (\<lambda>r. ob_id r = i) (f (ox_now s)) (ox_rows s)\<rparr>)"

definition release_lease :: "outbox_row \<Rightarrow> outbox_row" where
  "release_lease row = row\<lparr>ob_locked_at := None, ob_lock_owner := None, ob_leased_by := None, ob_lease_until := None\<rparr>"

definition heartbeat_row :: "string option \<Rightarrow> int \<Rightarrow> datetime \<Rightarrow> outbox_row \<Rightarrow> outbox_row" where
  "heartbeat_row owner lease_seconds now row =
     (if ob_status row \<noteq> ''processing'' then row
      else if (case owner of None \<Rightarrow> False
               | Some ow \<Rightarrow> (case ob_leased_by row of None \<Rightarrow> False | Some by \<Rightarrow> by \<noteq> '''' \<and> by \<noteq> ow)) then row
      else row\<lparr>ob_last_heartbeat_at := Some now, ob_lease_until := Some (now + claim_seconds lease_seconds),
               ob_updated_at := now\<rparr>)"

definition heartbeat :: "int \<Rightarrow> string option \<Rightarrow> int \<Rightarrow> unit outbox_op" where
  "heartbeat event_id lock_owner lease_seconds =
     update_row event_id (heartbeat_row (strip_opt lock_owner) lease_seconds)"

definition processed_row :: "datetime \<Rightarrow> outbox_row \<Rightarrow> outbox_row" where
  "processed_row now row = (release_lease row)\<lparr>ob_status := ''processed'', ob_processed_at := Some now,
     ob_finished_at := Some now, ob_updated_at := now, ob_last_error := None\<rparr>"

definition mark_processed :: "int \<Rightarrow> unit outbox_op" where
  "mark_processed event_id = update_row event_id processed_row"

definition failed_row :: "string \<Rightarrow> int \<Rightarrow> int \<Rightarrow> datetime \<Rightarrow> outbox_row \<Rightarrow> outbox_row" where
  "failed_row error max_attempts retry_delay_seconds now row =
     (let attempts = ob_attempts row + 1;
          row = (release_lease row)\<lparr>ob_attempts := attempts, ob_last_error := Some (take 4000 error),
                  ob_updated_at := now\<rparr> in
      if attempts \<ge> max_attempts then row\<lparr>ob_status := ''dead_letter'', ob_finished_at := Some now\<rparr>
      else row\<lparr>ob_status := ''retry'',
               ob_next_retry_at := now + seconds (max 1 retry_delay_seconds * attempts)\<rparr>)"

definition mark_failed :: "int \<Rightarrow> string \<Rightarrow> int \<Rightarrow> int \<Rightarrow> unit outbox_op" where
  "mark_failed event_id error max_attempts retry_delay_seconds =
     update_row event_id (failed_row error max_attempts retry_delay_seconds)"

definition outbox_retry :: "int \<Rightarrow> string \<Rightarrow> int \<Rightarrow> unit outbox_op" where
  "outbox_retry event_id error retry_delay_seconds =
     mark_failed event_id error (10 ^ 9) retry_delay_seconds"

definition dead_letter :: "int \<Rightarrow> string \<Rightarrow> unit outbox_op" where
  "dead_letter event_id error = update_row event_id (\<lambda>now row.
     (release_lease row)\<lparr>ob_attempts := ob_attempts row + 1, ob_last_error := Some (take 4000 error),
       ob_status := ''dead_letter'', ob_updated_at := now, ob_finished_at := Some now\<rparr>)"

definition requeue_job :: "int \<Rightarrow> bool outbox_op" where
  "requeue_job event_id =
     py_bind (py_gets (\<lambda>s. list_ex (\<lambda>r. ob_id r = event_id) (ox_rows s))) (\<lambda>found.
     py_seq (update_row event_id (\<lambda>now row.
       (release_lease row)\<lparr>ob_status := ''pending'', ob_next_retry_at := now, ob_updated_at := now,
         ob_last_error := None, ob_finished_at := None\<rparr>)) (py_return found))"

section \<open>Measures\<close>

definition backlog_size :: "outbox \<Rightarrow> int" where
  "backlog_size s =
     int (length (filter (\<lambda>r. ob_status r \<in> {''pending'', ''retry'', ''processing''}) (ox_rows s)))"

definition status_count :: "outbox \<Rightarrow> string \<Rightarrow> int" where
  "status_count s status = int (length (filter (\<lambda>r. ob_status r = status) (ox_rows s)))"

record queue_snapshot =
  qs_pending_jobs :: int
  qs_running_jobs :: int
  qs_failed_jobs :: int
  qs_dead_letter_jobs :: int
  qs_oldest_pending_age :: int
  qs_stuck_leases :: int
  qs_attempts_total :: int
  qs_worker_heartbeat_at :: "datetime option"

text \<open>Ages in microseconds; \<open>average_attempt_count\<close> is this total over the number of rows.\<close>

definition outbox_queue_snapshot :: "outbox \<Rightarrow> queue_snapshot" where
  "outbox_queue_snapshot s =
     (let now = ox_now s;
          pending = map ob_created_at (filter (\<lambda>r. ob_status r \<in> {''pending'', ''retry''}) (ox_rows s));
          beats = List.map_filter ob_last_heartbeat_at (filter (\<lambda>r. ob_status r = ''processing'') (ox_rows s))
      in \<lparr>qs_pending_jobs = status_count s ''pending'' + status_count s ''retry'',
          qs_running_jobs = status_count s ''processing'', qs_failed_jobs = status_count s ''failed'',
          qs_dead_letter_jobs = status_count s ''dead_letter'',
          qs_oldest_pending_age = (case pending of [] \<Rightarrow> 0 | t # ts \<Rightarrow> max 0 (now - fold min ts t)),
          qs_stuck_leases = int (length (filter (\<lambda>r. ob_status r = ''processing'' \<and>
             (case ob_lease_until r of None \<Rightarrow> False | Some t \<Rightarrow> t < now)) (ox_rows s))),
          qs_attempts_total = sum_list (map ob_attempts (ox_rows s)),
          qs_worker_heartbeat_at = (case beats of [] \<Rightarrow> None | t # ts \<Rightarrow> Some (fold max ts t))\<rparr>)"

definition list_jobs :: "outbox \<Rightarrow> string option \<Rightarrow> int option \<Rightarrow> outbox_row list" where
  "list_jobs s status limit =
     (let normalized_status = py_lower (py_strip (str_or status ''''));
          rows = rev (sort_key ob_id (ox_rows s));
          rows = (if normalized_status = '''' then rows else filter (\<lambda>r. ob_status r = normalized_status) rows);
          n = (case limit of None \<Rightarrow> 50 | Some k \<Rightarrow> if k = 0 then 50 else k)
      in take (nat (max 1 (min n 200))) rows)"

end
