(* ===== verification/Event_Outbox_Facts.thy ===== *)
theory Event_Outbox_Facts
  imports Event_Outbox
begin

text \<open>
  The queue as a step relation: whatever the processes do and in whatever order, ids and idempotency keys
  stay unique, a lease is held exactly by a running event, and no unfinished event is ever lost. What a
  claim excludes, and for how long, and what it does not exclude.
\<close>

section \<open>Steps\<close>

inductive outbox_step :: "outbox \<Rightarrow> outbox \<Rightarrow> bool" where
  step_tick: "0 \<le> d \<Longrightarrow> outbox_step s (s\<lparr>ox_now := ox_now s + d\<rparr>)"
| step_insert: "outbox_step s (snd (insert_outbox_row ty p k s))"
| step_claim: "outbox_step s (snd (claim_next_batch n stale lease own s))"
| step_heartbeat: "outbox_step s (snd (heartbeat i own lease s))"
| step_processed: "outbox_step s (snd (mark_processed i s))"
| step_failed: "outbox_step s (snd (mark_failed i err m d s))"
| step_dead: "outbox_step s (snd (dead_letter i err s))"
| step_requeue: "outbox_step s (snd (requeue_job i s))"

definition empty_outbox :: "datetime \<Rightarrow> outbox" where
  "empty_outbox now = \<lparr>ox_now = now, ox_rows = [], ox_next_id = 1\<rparr>"

section \<open>The invariant\<close>

definition row_ok :: "datetime \<Rightarrow> outbox_row \<Rightarrow> bool" where
  "row_ok now r \<longleftrightarrow>
     0 \<le> ob_attempts r \<and>
     ob_status r \<in> {''pending'', ''retry'', ''processing'', ''processed'', ''dead_letter''} \<and>
     (ob_status r = ''processing'' \<longleftrightarrow> ob_locked_at r \<noteq> None) \<and>
     (ob_status r = ''processing'' \<longleftrightarrow> ob_lease_until r \<noteq> None) \<and>
     (ob_status r = ''processed'' \<longrightarrow> ob_processed_at r \<noteq> None) \<and>
     (ob_status r \<in> {''processed'', ''dead_letter''} \<longrightarrow> ob_finished_at r \<noteq> None) \<and>
     (\<forall>t. ob_locked_at r = Some t \<longrightarrow> t \<le> now)"

definition keys_ok :: "outbox_row list \<Rightarrow> bool" where
  "keys_ok rows \<longleftrightarrow> distinct (List.map_filter ob_idempotency_key rows)"

definition outbox_ok :: "outbox \<Rightarrow> bool" where
  "outbox_ok s \<longleftrightarrow> key_ok ob_id (ox_rows s) \<and> (\<forall>r \<in> set (ox_rows s). ob_id r < ox_next_id s) \<and>
     keys_ok (ox_rows s) \<and> (\<forall>r \<in> set (ox_rows s). row_ok (ox_now s) r)"

lemma map_filter_update:
  assumes "\<And>r. key (f r) = key r"
  shows "List.map_filter key (update_where P f rows) = List.map_filter key rows"
  by (induction rows) (auto simp: update_where_def List.map_filter_simps assms split: option.splits)

lemma in_update_where: "x \<in> set (update_where P f xs) \<longleftrightarrow> (\<exists>y \<in> set xs. x = (if P y then f y else y))"
  by (auto simp: update_where_def)

text \<open>A write to rows that keeps the ids and the keys.\<close>

lemma outbox_ok_update:
  assumes ok: "outbox_ok s" and id: "\<And>r. ob_id (f r) = ob_id r"
    and key: "\<And>r. ob_idempotency_key (f r) = ob_idempotency_key r"
    and row: "\<And>r. row_ok (ox_now s) r \<Longrightarrow> row_ok (ox_now s) (f r)"
  shows "outbox_ok (s\<lparr>ox_rows := update_where P f (ox_rows s)\<rparr>)"
proof -
  have "map ob_id (update_where P f (ox_rows s)) = map ob_id (ox_rows s)" by (rule map_update_where) (rule id)
  then have "key_ok ob_id (update_where P f (ox_rows s))" using ok by (simp add: outbox_ok_def key_ok_def)
  moreover have "keys_ok (update_where P f (ox_rows s))"
    using ok map_filter_update [of ob_idempotency_key f P "ox_rows s", OF key] by (simp add: outbox_ok_def keys_ok_def)
  ultimately show ?thesis
    using ok row id by (auto simp: outbox_ok_def in_update_where)
qed

lemma row_ok_claimed: "row_ok now r \<Longrightarrow> row_ok now (mark_claimed now own (Some l) r)"
  by (simp add: row_ok_def mark_claimed_def)

lemma row_ok_heartbeat: "row_ok now r \<Longrightarrow> row_ok now (heartbeat_row own l now r)"
  by (auto simp: row_ok_def heartbeat_row_def)

lemma row_ok_processed: "row_ok now r \<Longrightarrow> row_ok now (processed_row now r)"
  by (simp add: row_ok_def processed_row_def release_lease_def)

lemma row_ok_failed: "row_ok now r \<Longrightarrow> row_ok now (failed_row err m d now r)"
  by (simp add: row_ok_def failed_row_def release_lease_def Let_def)

lemma row_key_claimed [simp]: "ob_id (mark_claimed now own l r) = ob_id r"
    "ob_idempotency_key (mark_claimed now own l r) = ob_idempotency_key r"
  by (simp_all add: mark_claimed_def)

lemma row_key_heartbeat [simp]: "ob_id (heartbeat_row own l now r) = ob_id r"
    "ob_idempotency_key (heartbeat_row own l now r) = ob_idempotency_key r"
  by (auto simp: heartbeat_row_def)

lemma row_key_processed [simp]: "ob_id (processed_row now r) = ob_id r"
    "ob_idempotency_key (processed_row now r) = ob_idempotency_key r"
  by (simp_all add: processed_row_def release_lease_def)

lemma row_key_failed [simp]: "ob_id (failed_row err m d now r) = ob_id r"
    "ob_idempotency_key (failed_row err m d now r) = ob_idempotency_key r"
  by (simp_all add: failed_row_def release_lease_def Let_def)

lemma row_by_key_None: "row_by_key s k = None \<longleftrightarrow> k \<notin> set (List.map_filter ob_idempotency_key (ox_rows s))"
  by (force simp: row_by_key_def find_None_iff_all List.map_filter_def)

lemma outbox_ok_insert: "outbox_ok s \<Longrightarrow> outbox_ok (snd (insert_outbox_row ty p k s))"
proof -
  assume ok: "outbox_ok s"
  let ?row = "new_outbox_row s ty p k"
  have later: "outbox_ok (s\<lparr>ox_next_id := ox_next_id s + 1\<rparr>)" using ok by (auto simp: outbox_ok_def)
  have put: "outbox_ok (s\<lparr>ox_next_id := ox_next_id s + 1, ox_rows := ox_rows s @ [?row]\<rparr>)"
    if "\<And>x. k = Some x \<Longrightarrow> row_by_key s x = None"
  proof -
    have "row_map ob_id (ox_rows s) (ob_id ?row) = None"
      using ok by (auto simp: row_map_None outbox_ok_def new_outbox_row_def)
    then have "key_ok ob_id (ox_rows s @ [?row])" using ok by (simp add: outbox_ok_def key_ok_append1)
    moreover have "keys_ok (ox_rows s @ [?row])"
      using ok that by (cases k) (auto simp: outbox_ok_def keys_ok_def List.map_filter_def new_outbox_row_def row_by_key_None)
    ultimately show ?thesis using ok by (auto simp: outbox_ok_def new_outbox_row_def row_ok_def)
  qed
  show ?thesis
    using later put by (auto simp: insert_outbox_row_def Let_def split: option.splits)
qed

lemma outbox_step_ok: "outbox_step s s' \<Longrightarrow> outbox_ok s \<Longrightarrow> outbox_ok s'"
proof (induction rule: outbox_step.induct)
  case (step_tick d s)
  then show ?case by (fastforce simp: outbox_ok_def row_ok_def)
next
  case (step_insert s ty p k)
  then show ?case by (rule outbox_ok_insert)
next
  case (step_claim s n stale lease own)
  then show ?case by (simp add: claim_next_batch_def Let_def outbox_ok_update row_ok_claimed)
next
  case (step_heartbeat s i own lease)
  then show ?case by (simp add: heartbeat_def update_row_def outbox_ok_update row_ok_heartbeat)
next
  case (step_processed s i)
  then show ?case by (simp add: mark_processed_def update_row_def outbox_ok_update row_ok_processed)
next
  case (step_failed s i err m d)
  then show ?case by (simp add: mark_failed_def update_row_def outbox_ok_update row_ok_failed)
next
  case (step_dead s i err)
  then show ?case unfolding dead_letter_def update_row_def py_run_modify snd_conv
    by (rule outbox_ok_update) (simp_all add: row_ok_def release_lease_def)
next
  case (step_requeue s i)
  then show ?case
    by (simp add: requeue_job_def update_row_def py_run_bind py_run_seq)
      (rule outbox_ok_update, simp_all add: row_ok_def release_lease_def)
qed

lemma outbox_steps_ok: "outbox_step\<^sup>*\<^sup>* s s' \<Longrightarrow> outbox_ok s \<Longrightarrow> outbox_ok s'"
  by (induction rule: rtranclp_induct) (auto intro: outbox_step_ok)

lemma outbox_ok_empty: "outbox_ok (empty_outbox now)"
  by (simp add: outbox_ok_def empty_outbox_def key_ok_def keys_ok_def List.map_filter_simps)

section \<open>No event is lost\<close>

text \<open>C3: no event is lost. In every state that the processes can reach from the empty queue, in any order
  of appends, claims, heartbeats, reports, requeues and time, the ids and the idempotency keys are
  unique, a lease is held exactly by the running rows, and every row is finished (processed or dead
  letter) or will be claimable at every moment from some time on, even if its worker died.\<close>

theorem no_event_lost:
  assumes "outbox_step\<^sup>*\<^sup>* (empty_outbox t0) s"
  shows "outbox_ok s \<and> (\<forall>r \<in> set (ox_rows s).
    ob_status r \<in> {''processed'', ''dead_letter''} \<or>
    (\<exists>t. \<forall>now stale_before. t \<le> now \<longrightarrow> outbox_eligible now stale_before r))"
proof (intro conjI ballI)
  show ok: "outbox_ok s" using assms outbox_ok_empty by (rule outbox_steps_ok)
  fix r assume "r \<in> set (ox_rows s)"
  with ok have row: "row_ok (ox_now s) r" by (simp add: outbox_ok_def)
  show "ob_status r \<in> {''processed'', ''dead_letter''} \<or>
    (\<exists>t. \<forall>now stale_before. t \<le> now \<longrightarrow> outbox_eligible now stale_before r)"
  proof (cases "ob_status r = ''processing''")
    case True
    then obtain l where "ob_lease_until r = Some l" using row by (auto simp: row_ok_def)
    then have "\<forall>now stale_before. l + 1 \<le> now \<longrightarrow> outbox_eligible now stale_before r"
      using True by (simp add: outbox_eligible_def)
    then show ?thesis by blast
  next
    case False
    then show ?thesis using row
      by (auto simp: row_ok_def outbox_eligible_def intro!: exI [of _ "ob_next_retry_at r"])
  qed
qed

lemma no_event_lost_witness:
  "\<exists>t. \<forall>now stale_before. t \<le> now \<longrightarrow>
     outbox_eligible now stale_before (new_outbox_row (empty_outbox 0) ''a'' [] None)"
proof -
  let ?s = "snd (insert_outbox_row ''a'' [] None (empty_outbox 0))"
  have "outbox_step\<^sup>*\<^sup>* (empty_outbox 0) ?s" by (rule r_into_rtranclp) (rule step_insert)
  then have "\<forall>r \<in> set (ox_rows ?s). ob_status r \<in> {''processed'', ''dead_letter''} \<or>
      (\<exists>t. \<forall>now stale_before. t \<le> now \<longrightarrow> outbox_eligible now stale_before r)"
    by (rule no_event_lost [THEN conjunct2])
  then show ?thesis by (simp add: insert_outbox_row_def Let_def empty_outbox_def new_outbox_row_def)
qed

section \<open>Publishing once\<close>

lemma row_by_key_Some: "row_by_key s k = Some r \<Longrightarrow> r \<in> set (ox_rows s) \<and> ob_idempotency_key r = Some k"
  unfolding row_by_key_def by (drule find_Some_set) simp

lemma distinct_map_filter_inj:
  "distinct (List.map_filter f xs) \<Longrightarrow> x \<in> set xs \<Longrightarrow> y \<in> set xs \<Longrightarrow> f x = Some k \<Longrightarrow> f y = Some k \<Longrightarrow> x = y"
proof (induction xs)
  case Nil
  then show ?case by simp
next
  case (Cons a xs)
  have other: "f z \<noteq> f a" if "z \<in> set xs" "f z = Some k" for z
    using Cons.prems(1) that by (force simp: List.map_filter_def split: if_splits)
  have "distinct (List.map_filter f xs)" using Cons.prems(1) by (auto simp: List.map_filter_def split: if_splits)
  with Cons other show ?case by (metis set_ConsD)
qed

lemma keys_ok_unique:
  "keys_ok rows \<Longrightarrow> r \<in> set rows \<Longrightarrow> r' \<in> set rows \<Longrightarrow> ob_idempotency_key r = Some k \<Longrightarrow>
   ob_idempotency_key r' = Some k \<Longrightarrow> r = r'"
  unfolding keys_ok_def by (rule distinct_map_filter_inj)



section \<open>What a claim excludes\<close>

lemma claim_run:
  "claim_next_batch n st l own s =
    (Inr (map to_work_item (claim_rows s n st)),
     s\<lparr>ox_rows := update_where (\<lambda>r. ob_id r \<in> ob_id ` set (claim_rows s n st))
        (mark_claimed (ox_now s) (strip_opt own) (Some (ox_now s + claim_seconds l))) (ox_rows s)\<rparr>)"
  by (simp add: claim_next_batch_def Let_def)

lemma claim_rows_eligible:
  assumes "r \<in> set (claim_rows s n st)"
  shows "r \<in> set (ox_rows s)" "outbox_eligible (ox_now s) (ox_now s - claim_seconds st) r"
  using in_set_takeD [OF assms [unfolded claim_rows_def]] by simp_all

lemma distinct_claim_rows: "key_ok ob_id (ox_rows s) \<Longrightarrow> distinct (map ob_id (claim_rows s n st))"
proof -
  assume "key_ok ob_id (ox_rows s)"
  then have "distinct (map ob_id (filter P (ox_rows s)))" for P by (simp add: key_ok_def distinct_map_filter)
  then have "distinct (map ob_id (sort_key ob_id (filter P (ox_rows s))))" for P
    by (simp add: distinct_map)
  then show ?thesis unfolding claim_rows_def take_map [symmetric] by (simp add: distinct_take)
qed

lemma claimed_not_eligible:
  assumes "t \<le> now + claim_seconds l" "t \<le> now + claim_seconds st"
  shows "\<not> outbox_eligible t (t - claim_seconds st) (mark_claimed now own (Some (now + claim_seconds l)) r)"
  using assms by (simp add: outbox_eligible_def mark_claimed_def)

text \<open>C27: what two workers can claim. A claim returns at most \<open>limit\<close> different events, each eligible, and
  until the shorter of its lease and the stale-lock limit of the second worker has passed, a claim of
  any other worker returns none of them.\<close>

theorem claims_are_disjoint:
  assumes ok: "outbox_ok s" and first: "claim_next_batch n st l own s = (Inr items, s1)"
    and second: "claim_next_batch n2 st2 l2 own2 (s1\<lparr>ox_now := t\<rparr>) = (Inr items2, s2)"
    and window: "t \<le> ox_now s + claim_seconds l" "t \<le> ox_now s + claim_seconds st2"
  shows "length items \<le> n \<and> distinct (map wi_id items) \<and>
    (\<forall>i \<in> set items. \<exists>r \<in> set (ox_rows s). i = to_work_item r \<and>
        outbox_eligible (ox_now s) (ox_now s - claim_seconds st) r) \<and>
    wi_id ` set items \<inter> wi_id ` set items2 = {}"
proof -
  let ?c = "claim_rows s n st"
  have items: "items = map to_work_item ?c" and rows1: "ox_rows s1 =
      update_where (\<lambda>r. ob_id r \<in> ob_id ` set ?c)
        (mark_claimed (ox_now s) (strip_opt own) (Some (ox_now s + claim_seconds l))) (ox_rows s)"
    using first by (auto simp: claim_run)
  have ids: "map wi_id items = map ob_id ?c" by (simp add: items to_work_item_def)
  have "ob_id r \<notin> ob_id ` set ?c" if "r \<in> set (claim_rows (s1\<lparr>ox_now := t\<rparr>) n2 st2)" for r
  proof
    assume taken: "ob_id r \<in> ob_id ` set ?c"
    have "r \<in> set (ox_rows s1)" and el: "outbox_eligible t (t - claim_seconds st2) r"
      using claim_rows_eligible [OF that] by simp_all
    then obtain r0 where r0: "r = (if ob_id r0 \<in> ob_id ` set ?c
        then mark_claimed (ox_now s) (strip_opt own) (Some (ox_now s + claim_seconds l)) r0 else r0)"
      unfolding rows1 in_update_where by blast
    with taken have "r = mark_claimed (ox_now s) (strip_opt own) (Some (ox_now s + claim_seconds l)) r0"
      by (auto split: if_splits)
    with claimed_not_eligible [OF window] el show False by blast
  qed
  moreover have "wi_id ` set items2 = ob_id ` set (claim_rows (s1\<lparr>ox_now := t\<rparr>) n2 st2)"
    using second by (auto simp: claim_run to_work_item_def image_image)
  moreover have "wi_id ` set items = ob_id ` set ?c" by (simp add: items to_work_item_def image_image)
  ultimately have "wi_id ` set items \<inter> wi_id ` set items2 = {}" by (metis (no_types, lifting) disjoint_iff imageE)
  moreover have "distinct (map wi_id items)" using ok by (simp add: ids distinct_claim_rows outbox_ok_def)
  moreover have "length items \<le> n" by (simp add: items claim_rows_def)
  ultimately show ?thesis using claim_rows_eligible [of _ s n st] by (auto simp: items)
qed

lemma claims_are_disjoint_witness:
  "\<exists>items s1 items2 s2.
     claim_next_batch 1 300 300 (Some ''w1'') (snd (insert_outbox_row ''a'' [] None (empty_outbox 0))) = (Inr items, s1) \<and>
     claim_next_batch 10 300 300 (Some ''w2'') (s1\<lparr>ox_now := 60000000\<rparr>) = (Inr items2, s2) \<and>
     wi_id ` set items \<inter> wi_id ` set items2 = {}"
proof -
  let ?s = "snd (insert_outbox_row ''a'' [] None (empty_outbox 0))"
  obtain items s1 where c1: "claim_next_batch 1 300 300 (Some ''w1'') ?s = (Inr items, s1)" by (simp add: claim_run)
  obtain items2 s2 where c2: "claim_next_batch 10 300 300 (Some ''w2'') (s1\<lparr>ox_now := 60000000\<rparr>) = (Inr items2, s2)"
    by (simp add: claim_run)
  have "60000000 \<le> ox_now ?s + claim_seconds 300"
    by (simp add: insert_outbox_row_def Let_def empty_outbox_def claim_seconds_def seconds_def)
  then have "wi_id ` set items \<inter> wi_id ` set items2 = {}"
    using claims_are_disjoint [OF outbox_ok_insert [OF outbox_ok_empty] c1 c2] by blast
  with c1 c2 show ?thesis by blast
qed

end
