(* ===== verification/Event_Worker.thy ===== *)
theory Event_Worker
  imports Event_Outbox "HOL-Library.AList"
begin

text \<open>
  The processes around the queue (\<open>backend/core/kernel/events/\<close>): \<open>event_channel.py\<close> and \<open>event_payload.py\<close>
  publish, \<open>dispatcher.py\<close> routes an event to its handlers, \<open>worker_policy.py\<close> gives each event type its
  limits, and \<open>worker_loop.py\<close> and \<open>worker.py\<close> claim, dispatch and report.

  The state of a worker is the queue and what the handlers act on (a type parameter). A handler is any
  computation on the latter. How long the handlers of an event run, and what other processes do to the
  queue meanwhile, are fields of the worker record. A handler that runs past its limit is not stopped by
  the code: the model lets it finish too.
\<close>

section \<open>Publishing\<close>

fun json_true :: "json \<Rightarrow> bool" where
  "json_true Json_null = False"
| "json_true (Json_bool b) = b"
| "json_true (Json_int i) = (i \<noteq> 0)"
| "json_true (Json_str s) = (s \<noteq> '''')"
| "json_true (Json_arr xs) = (xs \<noteq> [])"
| "json_true (Json_obj m) = (m \<noteq> [])"

definition json_get :: "payload \<Rightarrow> string \<Rightarrow> json" where
  "json_get m k = (case map_of m k of None \<Rightarrow> Json_null | Some v \<Rightarrow> v)"

definition setdefault :: "string \<Rightarrow> json \<Rightarrow> payload \<Rightarrow> payload" where
  "setdefault k v m = (if map_of m k = None then m @ [(k, v)] else m)"

text \<open>\<open>dict(payload.get("_meta") or {})\<close>; a true value that is no mapping raises.\<close>

definition payload_meta :: "payload \<Rightarrow> event_error + payload" where
  "payload_meta m = (case json_get m ''_meta'' of
       Json_obj meta \<Rightarrow> Inr meta
     | v \<Rightarrow> if json_true v then Inl (Event_value_error ''_meta'') else Inr [])"

text \<open>The observability context of the request, its tenant schema and the role of the instance.\<close>

record publish_context =
  pc_observability :: payload
  pc_tenant_schema :: json
  pc_instance_role :: "string option"

definition enrich_event_payload :: "publish_context \<Rightarrow> string \<Rightarrow> payload \<Rightarrow> event_error + payload" where
  "enrich_event_payload ctx event_type payload =
     rbind (payload_meta payload) (\<lambda>meta.
     let get = json_get (pc_observability ctx);
         slug = (if json_true (get ''tenant_slug'') then get ''tenant_slug'' else pc_tenant_schema ctx);
         role = (case pc_instance_role ctx of None \<Rightarrow> Json_null | Some r \<Rightarrow> Json_str r);
         meta = setdefault ''correlation_id'' (get ''correlation_id'') meta;
         meta = setdefault ''request_id'' (get ''request_id'') meta;
         meta = setdefault ''tenant_id'' (get ''tenant_id'') meta;
         meta = setdefault ''tenant_slug'' slug meta;
         meta = setdefault ''user_id'' (get ''user_id'') meta;
         meta = setdefault ''event_name'' (Json_str event_type) meta;
         meta = setdefault ''instance_role'' role meta
     in Inr (AList.update ''_meta'' (Json_obj meta) payload))"

definition backlog_limit :: "int option \<Rightarrow> int" where
  "backlog_limit setting = max 1 (case setting of None \<Rightarrow> 5000 | Some n \<Rightarrow> if n = 0 then 5000 else n)"

definition publish ::
  "publish_context \<Rightarrow> int option \<Rightarrow> (outbox \<Rightarrow> outbox) \<Rightarrow> string \<Rightarrow> payload \<Rightarrow> string option \<Rightarrow> unit outbox_op" where
  "publish ctx soft_limit others event_type payload idempotency_key =
     py_bind (py_lift (enrich_event_payload ctx event_type payload)) (\<lambda>enriched_payload.
     py_try
       (py_bind (py_gets backlog_size) (\<lambda>size.
        if size \<ge> backlog_limit soft_limit then py_raise (Event_delivery_error ''Outbox backlog limit reached'')
        else py_seq (outbox_append others event_type enriched_payload idempotency_key) (py_return ())))
       (\<lambda>e. py_raise (Event_delivery_error (''Esemeny outbox-ba irasa sikertelen: '' @ event_type))))"

section \<open>Dispatching\<close>

type_synonym 'e handler = "payload \<Rightarrow> ('e, event_error, unit) py"
type_synonym 'e registry = "(string \<times> 'e handler list) list"

definition register :: "string \<Rightarrow> 'e handler \<Rightarrow> 'e registry \<Rightarrow> 'e registry" where
  "register event_type handler handlers =
     AList.update event_type
       ((case map_of handlers event_type of None \<Rightarrow> [] | Some hs \<Rightarrow> hs) @ [handler]) handlers"

text \<open>The loop over the handlers: each is tried, the exceptions are collected.\<close>

fun run_handlers :: "'e handler list \<Rightarrow> payload \<Rightarrow> event_error list \<Rightarrow> ('e, event_error, event_error list) py" where
  "run_handlers [] payload errors = py_return errors"
| "run_handlers (h # hs) payload errors =
     py_bind (py_try (py_seq (h payload) (py_return errors)) (\<lambda>e. py_return (errors @ [e])))
       (run_handlers hs payload)"

definition dispatch :: "'e registry \<Rightarrow> string \<Rightarrow> payload \<Rightarrow> ('e, event_error, unit) py" where
  "dispatch handlers event_type payload =
     (case map_of handlers event_type of
        None \<Rightarrow> py_return ()
      | Some hs \<Rightarrow> py_bind (run_handlers hs payload []) (\<lambda>errors.
          case errors of [] \<Rightarrow> py_return () | e # _ \<Rightarrow> py_raise e))"

definition has_handler :: "'e registry \<Rightarrow> string \<Rightarrow> bool" where
  "has_handler handlers event_type =
     (case map_of handlers event_type of None \<Rightarrow> False | Some hs \<Rightarrow> hs \<noteq> [])"

definition registered_types :: "'e registry \<Rightarrow> string list" where
  "registered_types handlers = map fst handlers"

section \<open>Policy\<close>

record event_worker_policy =
  wp_handler_timeout_seconds :: int
  wp_lease_seconds :: int
  wp_heartbeat_interval_seconds :: int
  wp_execution_mode :: string

definition policy :: "int \<Rightarrow> int \<Rightarrow> int \<Rightarrow> event_worker_policy" where
  "policy timeout lease interval = \<lparr>wp_handler_timeout_seconds = timeout, wp_lease_seconds = lease,
     wp_heartbeat_interval_seconds = interval, wp_execution_mode = ''thread''\<rparr>"

definition default_policy :: event_worker_policy where
  "default_policy = policy 15 300 30"

definition event_policies :: "(string \<times> event_worker_policy) list" where
  "event_policies =
     [(''security.audit_event'', policy 15 60 10),
      (''email.notification'', policy 30 120 15),
      (''email_2fa'', policy 30 120 15),
      (''email_invite'', policy 30 120 15),
      (''knowledge.ingest_pipeline'', policy (30 * 60) (35 * 60) 30),
      (''knowledge.index_build'', policy (60 * 60) (65 * 60) 60),
      (''knowledge.ingest_item_reprocess'', policy (30 * 60) (35 * 60) 30),
      (''knowledge.recovery_sweep'', policy (10 * 60) (12 * 60) 30),
      (''kb.discovery_requested'', policy (30 * 60) (35 * 60) 30),
      (''kb.embedding_requested'', policy (30 * 60) (35 * 60) 30),
      (''kb.indexing_requested'', policy (60 * 60) (65 * 60) 60),
      (''url.fetch'', policy 120 180 15),
      (''file.parse'', policy (10 * 60) (12 * 60) 30)]"

definition worker_policy_for_event :: "string \<Rightarrow> int \<Rightarrow> event_worker_policy" where
  "worker_policy_for_event event_type default_timeout_seconds =
     (let default_timeout = max 1 default_timeout_seconds in
      case map_of event_policies (py_strip event_type) of
        None \<Rightarrow> \<lparr>wp_handler_timeout_seconds = default_timeout,
           wp_lease_seconds = max (wp_lease_seconds default_policy) (default_timeout + 60),
           wp_heartbeat_interval_seconds = wp_heartbeat_interval_seconds default_policy,
           wp_execution_mode = wp_execution_mode default_policy\<rparr>
      | Some p \<Rightarrow> \<lparr>wp_handler_timeout_seconds = max 1 (wp_handler_timeout_seconds p),
           wp_lease_seconds = max (wp_lease_seconds p) (wp_handler_timeout_seconds p + 30),
           wp_heartbeat_interval_seconds = max 5 (wp_heartbeat_interval_seconds p),
           wp_execution_mode = ''thread''\<rparr>)"

section \<open>The worker\<close>

record 'e worker =
  wk_handlers :: "'e registry"
  wk_poll_interval :: int
  wk_max_retries :: int
  wk_retry_delay_seconds :: int
  wk_batch_size :: nat
  wk_stale_lock_after_sec :: int
  wk_handler_timeout_seconds :: int
  wk_lease_seconds :: int
  wk_lock_owner :: "string option"
  wk_run_seconds :: "string \<Rightarrow> payload \<Rightarrow> nat"
  wk_others :: "outbox \<Rightarrow> outbox"
  wk_error_text :: "event_error \<Rightarrow> string"

type_synonym ('e, 'a) worker_op = "(outbox \<times> 'e, event_error, 'a) py"

definition py_effect :: "('e, 'x, 'a) py \<Rightarrow> ('s \<times> 'e, 'x, 'a) py" where
  "py_effect m = (\<lambda>(s, c). case m c of (r, c') \<Rightarrow> (r, (s, c')))"

text \<open>Time passes (in microseconds) while other processes work on the queue.\<close>

definition pass_time :: "'e worker \<Rightarrow> int \<Rightarrow> unit outbox_op" where
  "pass_time w d = py_modify (\<lambda>s. wk_others w (s\<lparr>ox_now := ox_now s + d\<rparr>))"

text \<open>The heartbeats that the second thread makes before \<open>limit\<close> seconds are over.\<close>

definition heartbeat_count :: "int \<Rightarrow> int \<Rightarrow> nat" where
  "heartbeat_count interval limit = nat ((limit - 1) div interval)"

primrec heartbeats :: "'e worker \<Rightarrow> int \<Rightarrow> int \<Rightarrow> int \<Rightarrow> nat \<Rightarrow> unit outbox_op" where
  "heartbeats w event_id lease interval 0 = py_return ()"
| "heartbeats w event_id lease interval (Suc n) =
     py_seq (pass_time w (seconds interval))
       (py_seq (heartbeat event_id (wk_lock_owner w) lease) (heartbeats w event_id lease interval n))"

definition dispatch_with_timeout :: "'e worker \<Rightarrow> int \<Rightarrow> string \<Rightarrow> payload \<Rightarrow> event_worker_policy \<Rightarrow> ('e, unit) worker_op" where
  "dispatch_with_timeout w event_id event_type payload p =
     (if wp_execution_mode p \<noteq> ''thread'' then
        py_raise (Event_value_error ''Unsupported outbox execution mode'')
      else
        let timeout = wp_handler_timeout_seconds p;
            run = int (wk_run_seconds w event_type payload); limit = min run timeout;
            interval = max 5 (if wp_heartbeat_interval_seconds p = 0 then 30 else wp_heartbeat_interval_seconds p);
            beats = heartbeat_count interval limit in
        py_bind (py_effect (\<lambda>e. case dispatch (wk_handlers w) event_type payload e of (r, e') \<Rightarrow> (Inr r, e'))) (\<lambda>outcome.
        py_seq (py_on (heartbeats w event_id (max 1 (wp_lease_seconds p)) interval beats))
          (py_seq (py_on (pass_time w (seconds (limit - int beats * interval))))
            (if run > timeout then py_raise (Event_timeout_error
                (''Outbox handler timeout ('' @ str_of_int timeout @ ''s) event_type='' @ event_type)) else py_lift outcome))))"

definition process_one :: "'e worker \<Rightarrow> work_item \<Rightarrow> ('e, unit) worker_op" where
  "process_one w item =
     (let p = worker_policy_for_event (wi_event_type item) (wk_handler_timeout_seconds w) in
      py_try
        (py_seq (dispatch_with_timeout w (wi_id item) (wi_event_type item) (wi_payload item) p)
          (py_on (mark_processed (wi_id item))))
        (\<lambda>exc. py_on (mark_failed (wi_id item) (wk_error_text w exc) (wk_max_retries w) (wk_retry_delay_seconds w))))"

fun process_items :: "'e worker \<Rightarrow> work_item list \<Rightarrow> ('e, unit) worker_op" where
  "process_items w [] = py_return ()"
| "process_items w (item # items) = py_seq (process_one w item) (process_items w items)"

definition process_batch :: "'e worker \<Rightarrow> ('e, nat) worker_op" where
  "process_batch w =
     py_bind (py_on (claim_next_batch (wk_batch_size w) (wk_stale_lock_after_sec w) (wk_lease_seconds w) (wk_lock_owner w)))
       (\<lambda>items. py_seq (process_items w items) (py_return (length items)))"

text \<open>The loop makes as many rounds as pass before the stop event is set; an idle round waits.\<close>

definition poll_round :: "'e worker \<Rightarrow> ('e, unit) worker_op" where
  "poll_round w =
     py_try
       (py_bind (process_batch w) (\<lambda>processed.
        if processed = 0 then py_on (pass_time w (wk_poll_interval w)) else py_return ()))
       (\<lambda>exc. py_on (pass_time w (wk_poll_interval w)))"

primrec run_poll_loop :: "'e worker \<Rightarrow> nat \<Rightarrow> ('e, unit) worker_op" where
  "run_poll_loop w 0 = py_return ()"
| "run_poll_loop w (Suc rounds) = py_seq (poll_round w) (run_poll_loop w rounds)"

section \<open>The life of the worker thread\<close>

text \<open>Whether the thread object exists and is alive, and the stop event.\<close>

record worker_thread =
  th_alive :: "bool option"
  th_stop :: bool

definition is_running :: "worker_thread \<Rightarrow> bool" where
  "is_running t \<longleftrightarrow> th_alive t = Some True \<and> \<not> th_stop t"

definition worker_status :: "worker_thread \<Rightarrow> string" where
  "worker_status t = (case th_alive t of
       None \<Rightarrow> ''not_started''
     | Some True \<Rightarrow> if \<not> th_stop t then ''running'' else ''stopping''
     | Some False \<Rightarrow> ''stopped'')"

definition start_thread :: "worker_thread \<Rightarrow> worker_thread" where
  "start_thread t = (if th_alive t = Some True then t else t\<lparr>th_stop := False, th_alive := Some True\<rparr>)"

text \<open>\<open>in_time\<close>: the thread ended before the join timed out.\<close>

definition stop_thread :: "bool \<Rightarrow> worker_thread \<Rightarrow> worker_thread" where
  "stop_thread in_time t =
     (let t = t\<lparr>th_stop := True\<rparr> in
      if th_alive t = Some True \<and> in_time then t\<lparr>th_alive := Some False\<rparr> else t)"

end
