(* ===== verification/Event_Worker_Facts.thy ===== *)
theory Event_Worker_Facts
  imports Event_Worker Event_Outbox_Facts
begin

text \<open>
  The worker against the queue: dispatching runs every handler, the limits of a policy fit together, the
  polling loop never raises and changes the queue only by the steps of \<open>outbox_step\<close>, and each claimed
  event is settled. The publisher respects the backlog limit.
\<close>

section \<open>Dispatching\<close>

definition handler_outcome :: "'e handler list \<Rightarrow> payload \<Rightarrow> 'e \<Rightarrow> nat \<Rightarrow> event_error + unit" where
  "handler_outcome hs p e k = fst ((hs ! k) p (fold (\<lambda>h. snd \<circ> h p) (take k hs) e))"

lemma run_handlers_run:
  "run_handlers hs p errors e =
     (Inr (errors @ List.map_filter (\<lambda>r. case r of Inl x \<Rightarrow> Some x | Inr _ \<Rightarrow> None)
        (map (handler_outcome hs p e) [0..<length hs])),
      fold (\<lambda>h. snd \<circ> h p) hs e)"
proof (induction hs arbitrary: errors e)
  case Nil
  then show ?case by (simp add: List.map_filter_simps)
next
  case (Cons h hs)
  have shift: "[0..<length (h # hs)] = 0 # map Suc [0..<length hs]"
    by (simp add: map_Suc_upt upt_conv_Cons del: upt_Suc)
  have rest: "handler_outcome (h # hs) p e \<circ> Suc = handler_outcome hs p (snd (h p e))"
    by (simp add: handler_outcome_def fun_eq_iff)
  show ?case unfolding shift
    by (cases "fst (h p e)")
      (simp_all add: py_run_bind py_run_try py_run_seq Cons.IH List.map_filter_simps rest handler_outcome_def [of _ _ _ 0]
        del: o_apply, simp_all only: o_apply)
qed

definition first_error :: "('x + unit) list \<Rightarrow> 'x + unit" where
  "first_error xs = (case List.map_filter (\<lambda>r. case r of Inl x \<Rightarrow> Some x | Inr _ \<Rightarrow> None) xs of
      [] \<Rightarrow> Inr () | x # _ \<Rightarrow> Inl x)"

lemma first_error_simps [simp]:
  "first_error [] = Inr ()" "first_error (Inl x # xs) = Inl x" "first_error (Inr u # xs) = first_error xs"
  by (simp_all add: first_error_def List.map_filter_simps)

lemma first_error_None: "first_error xs = Inr () \<longleftrightarrow> (\<forall>k < length xs. xs ! k = Inr ())"
proof (induction xs)
  case (Cons a xs)
  then show ?case by (cases a) (auto simp: All_less_Suc2)
qed simp

lemma first_error_Some:
  "first_error xs = Inl x \<longleftrightarrow> (\<exists>k < length xs. xs ! k = Inl x \<and> (\<forall>j < k. xs ! j = Inr ()))"
proof (induction xs)
  case (Cons a xs)
  then show ?case by (cases a) (auto simp: Ex_less_Suc2 All_less_Suc2)
qed simp

lemma first_error_upt:
  "first_error (map f [0..<n]) = Inr () \<longleftrightarrow> (\<forall>k < n. f k = Inr ())"
  "first_error (map f [0..<n]) = Inl x \<longleftrightarrow> (\<exists>k < n. f k = Inl x \<and> (\<forall>j < k. f j = Inr ()))"
  unfolding first_error_None first_error_Some by (simp, intro ex_cong1 conj_cong) auto

lemma dispatch_run:
  assumes "map_of handlers ty = Some hs"
  shows "dispatch handlers ty p e =
    (first_error (map (handler_outcome hs p e) [0..<length hs]), fold (\<lambda>h. snd \<circ> h p) hs e)"
  using assms
  by (simp add: dispatch_def py_run_bind run_handlers_run first_error_def split: list.splits)

text \<open>One failing handler does not keep the others from running. Dispatching an event runs every
  handler registered for its type, in the order of registration, each on what the earlier ones left;
  it raises exactly the exception of the first handler that failed, and nothing when all succeed.\<close>

theorem dispatch_runs_all:
  assumes "map_of handlers ty = Some hs"
  shows "snd (dispatch handlers ty p e) = fold (\<lambda>h. snd \<circ> h p) hs e \<and>
    (fst (dispatch handlers ty p e) = Inr () \<longleftrightarrow> (\<forall>k < length hs. handler_outcome hs p e k = Inr ())) \<and>
    (\<forall>x. fst (dispatch handlers ty p e) = Inl x \<longleftrightarrow>
      (\<exists>k < length hs. handler_outcome hs p e k = Inl x \<and> (\<forall>j < k. handler_outcome hs p e j = Inr ())))"
  unfolding dispatch_run [OF assms] fst_conv snd_conv first_error_upt by simp

definition demo_handlers :: "int handler list" where
  "demo_handlers = [\<lambda>p n. (Inl (Event_handler_error ''mail''), n + 1), \<lambda>p n. (Inr (), n * 10)]"

lemma dispatch_runs_all_witness:
  "dispatch (fold (register ''a'') demo_handlers []) ''a'' [] 4 = (Inl (Event_handler_error ''mail''), 50)"
proof -
  have m: "map_of (fold (register ''a'') demo_handlers []) ''a'' = Some demo_handlers"
    by (simp add: demo_handlers_def register_def)
  have "0 < length demo_handlers \<and> handler_outcome demo_handlers [] 4 0 = Inl (Event_handler_error ''mail'') \<and>
      (\<forall>j < (0::nat). handler_outcome demo_handlers [] 4 j = Inr ())"
    by (simp add: demo_handlers_def handler_outcome_def)
  then have "fst (dispatch (fold (register ''a'') demo_handlers []) ''a'' [] 4) = Inl (Event_handler_error ''mail'')"
    using dispatch_runs_all [OF m, of "[]" 4] by blast
  moreover have "snd (dispatch (fold (register ''a'') demo_handlers []) ''a'' [] 4) = 50"
    using dispatch_runs_all [OF m, of "[]" 4] by (simp add: demo_handlers_def)
  ultimately show ?thesis by (simp add: prod_eq_iff)
qed

section \<open>Limits\<close>

text \<open>The limits of an event type fit together. For every event type and every default the handlers get
  at least a second, the lease outlasts the handler limit by at least thirty seconds, and at least
  four heartbeats fit into a lease.\<close>

theorem worker_policy_fits:
  "let p = worker_policy_for_event ty d in
     1 \<le> wp_handler_timeout_seconds p \<and> wp_handler_timeout_seconds p + 30 \<le> wp_lease_seconds p \<and>
     5 \<le> wp_heartbeat_interval_seconds p \<and> 4 * wp_heartbeat_interval_seconds p \<le> wp_lease_seconds p \<and>
     wp_execution_mode p = ''thread''"
proof (cases "map_of event_policies (py_strip ty)")
  case None
  then show ?thesis
    by (simp add: worker_policy_for_event_def Let_def default_policy_def policy_def) linarith
next
  case (Some p)
  have "\<forall>q \<in> snd ` set event_policies. 1 \<le> wp_handler_timeout_seconds q \<and>
      4 * wp_heartbeat_interval_seconds q \<le> wp_lease_seconds q \<and> 20 \<le> wp_lease_seconds q"
    by (simp add: event_policies_def policy_def)
  moreover have "p \<in> snd ` set event_policies" using map_of_SomeD [OF Some] by force
  ultimately have "1 \<le> wp_handler_timeout_seconds p \<and> 4 * wp_heartbeat_interval_seconds p \<le> wp_lease_seconds p \<and>
      20 \<le> wp_lease_seconds p" by blast
  with Some show ?thesis by (simp add: worker_policy_for_event_def Let_def) linarith
qed

section \<open>The loop refines the steps of the queue\<close>

lemma preserves_effect [preserve]: "preserves (\<lambda>(s, e). P s) (py_effect m)"
  by (auto simp: preserves_def py_effect_def split: prod.splits)

lemma preserves_on_fst [preserve]: "preserves P m \<Longrightarrow> preserves (\<lambda>(s, e). P s) (py_on m)"
  by (rule preserves_on)

definition steps_from :: "outbox \<Rightarrow> outbox \<Rightarrow> bool" where
  "steps_from s0 s \<longleftrightarrow> outbox_step\<^sup>*\<^sup>* s0 s"

lemma steps_from_step: "(\<And>s. outbox_step s (snd (m s))) \<Longrightarrow> preserves (steps_from s0) m"
  unfolding preserves_def steps_from_def by (blast intro: rtranclp.rtrancl_into_rtrancl)

lemmas queue_steps = step_claim step_heartbeat step_processed step_failed

definition others_step :: "'e worker \<Rightarrow> bool" where
  "others_step w \<longleftrightarrow> 0 \<le> wk_poll_interval w \<and> (\<forall>s. outbox_step\<^sup>*\<^sup>* s (wk_others w s))"

lemma pass_time_steps: "others_step w \<Longrightarrow> 0 \<le> d \<Longrightarrow> preserves (steps_from s0) (pass_time w d)"
proof (rule preservesI)
  fix s assume w: "others_step w" and d: "0 \<le> d" and s: "steps_from s0 s"
  let ?s = "s\<lparr>ox_now := ox_now s + d\<rparr>"
  have "outbox_step\<^sup>*\<^sup>* s0 ?s" using s step_tick [OF d, of s] unfolding steps_from_def by (rule rtranclp.rtrancl_into_rtrancl)
  moreover have "outbox_step\<^sup>*\<^sup>* ?s (wk_others w ?s)" using w by (simp add: others_step_def)
  ultimately show "steps_from s0 (snd (pass_time w d s))"
    unfolding steps_from_def pass_time_def py_run_modify snd_conv by (rule rtranclp_trans)
qed

lemma heartbeats_steps:
  "others_step w \<Longrightarrow> 0 \<le> interval \<Longrightarrow> preserves (steps_from s0) (heartbeats w i lease interval n)"
proof (induction n)
  case 0
  then show ?case unfolding heartbeats.simps by (intro preserve)
next
  case (Suc n)
  have "preserves (steps_from s0) (pass_time w (seconds interval))"
    using Suc.prems by (intro pass_time_steps) (simp_all add: seconds_def)
  with Suc show ?case unfolding heartbeats.simps
    by (intro preserves_seq steps_from_step [of "heartbeat i (wk_lock_owner w) lease", OF step_heartbeat])
qed

lemma remaining_time: "0 < interval \<Longrightarrow> 0 \<le> limit \<Longrightarrow> 0 \<le> limit - int (heartbeat_count interval limit) * interval"
proof -
  assume a: "0 < interval" "0 \<le> limit"
  show ?thesis
  proof (cases "1 \<le> limit")
    case True
    have "(limit - 1) div interval * interval \<le> limit - 1"
      by (smt (verit) a(1) div_mult_mod_eq pos_mod_sign)
    with True a show ?thesis by (simp add: heartbeat_count_def pos_imp_zdiv_nonneg_iff)
  next
    case False
    with a have "limit = 0" by simp
    with a show ?thesis by (simp add: heartbeat_count_def div_eq_minus1)
  qed
qed

lemma rest_steps:
  "others_step w \<Longrightarrow> 0 \<le> limit \<Longrightarrow>
    preserves (steps_from s0) (pass_time w (seconds (limit - int (heartbeat_count (max 5 k) limit) * max 5 k)))"
  using remaining_time [of "max 5 k" limit] by (intro pass_time_steps) (simp_all add: seconds_def)

lemma dispatch_with_timeout_steps:
  "others_step w \<Longrightarrow> 0 \<le> wp_handler_timeout_seconds pol \<Longrightarrow> preserves (\<lambda>(s, e). steps_from s0 s) (dispatch_with_timeout w i ty p pol)"
  unfolding dispatch_with_timeout_def Let_def
  by (intro preserve rest_steps heartbeats_steps) simp_all

lemma process_one_steps:
  "others_step w \<Longrightarrow> preserves (\<lambda>(s, e). steps_from s0 s) (process_one w item)"
  unfolding process_one_def Let_def
  using worker_policy_fits [of "wi_event_type item" "wk_handler_timeout_seconds w"]
  by (intro preserve dispatch_with_timeout_steps steps_from_step step_processed step_failed) (simp_all add: Let_def)

lemma process_items_steps:
  "others_step w \<Longrightarrow> preserves (\<lambda>(s, e). steps_from s0 s) (process_items w items)"
proof (induction items)
  case Nil
  show ?case unfolding process_items.simps by (rule preserves_return)
next
  case (Cons item items)
  then show ?case unfolding process_items.simps by (intro preserves_seq process_one_steps)
qed

lemma poll_round_steps:
  "others_step w \<Longrightarrow> preserves (\<lambda>(s, e). steps_from s0 s) (poll_round w)"
  unfolding poll_round_def process_batch_def
  by (intro preserve process_items_steps pass_time_steps steps_from_step step_claim)
    (simp_all add: others_step_def)

lemma run_poll_loop_steps:
  "others_step w \<Longrightarrow> preserves (\<lambda>(s, e). steps_from s0 s) (run_poll_loop w n)"
proof (induction n)
  case 0
  show ?case unfolding run_poll_loop.simps by (rule preserves_return)
next
  case (Suc n)
  then show ?case unfolding run_poll_loop.simps by (intro preserves_seq poll_round_steps)
qed

lemma total_on: "total_py m \<Longrightarrow> total_py (py_on m)"
  by (auto simp: total_py_def py_run_on)

lemma total_seq: "total_py m \<Longrightarrow> total_py n \<Longrightarrow> total_py (py_seq m n)"
  unfolding total_py_def py_run_seq by (metis (no_types, lifting) old.sum.simps(6) prod.case_eq_if)

lemma total_update: "total_py (mark_failed i err m d)"
  by (simp add: total_py_def mark_failed_def update_row_def)

lemma total_pass: "total_py (pass_time w d)"
  by (simp add: total_py_def pass_time_def)

lemma total_process_one: "total_py (process_one w item)"
  unfolding process_one_def Let_def by (intro total_py_try total_on total_update)

lemma total_loop: "total_py (run_poll_loop w n)"
proof (induction n)
  case 0
  show ?case unfolding run_poll_loop.simps by (rule total_py_return)
next
  case (Suc n)
  then show ?case unfolding run_poll_loop.simps poll_round_def
    by (intro total_seq total_py_try total_on total_pass)
qed

text \<open>C4: whatever the handlers do, the polling loop returns without an exception after any number of
  rounds, and it changes the queue only by the steps that every process may make: its result is
  reachable from its start. So a queue that all processes started empty keeps its invariant and loses
  no event while any number of workers run.\<close>

theorem poll_loop_refines_queue:
  assumes "others_step w"
  shows "\<exists>s' e'. run_poll_loop w n (s, e) = (Inr (), (s', e')) \<and> outbox_step\<^sup>*\<^sup>* s s' \<and> (outbox_ok s \<longrightarrow> outbox_ok s')"
proof -
  obtain u s' e' where run: "run_poll_loop w n (s, e) = (Inr u, (s', e'))"
    using total_loop [of w n] by (metis prod.exhaust_sel total_py_def)
  have "outbox_step\<^sup>*\<^sup>* s s'"
    using preservesD [OF run_poll_loop_steps [OF assms, of s n], of "(s, e)"] run by (simp add: steps_from_def)
  with run show ?thesis using outbox_steps_ok by auto
qed

definition demo_worker :: "int registry \<Rightarrow> nat \<Rightarrow> int worker" where
  "demo_worker handlers sec = \<lparr>wk_handlers = handlers, wk_poll_interval = 100000, wk_max_retries = 10,
     wk_retry_delay_seconds = 5, wk_batch_size = 100, wk_stale_lock_after_sec = 300,
     wk_handler_timeout_seconds = 15, wk_lease_seconds = 300, wk_lock_owner = Some ''w1'',
     wk_run_seconds = (\<lambda>_ _. sec), wk_others = id, wk_error_text = (\<lambda>_. ''error'')\<rparr>"

lemma demo_others_step: "others_step (demo_worker handlers sec)"
  by (simp add: others_step_def demo_worker_def)

lemma poll_loop_refines_queue_witness:
  "\<exists>s' e'. run_poll_loop (demo_worker [(''a'', demo_handlers)] 3) 5 (snd (insert_outbox_row ''a'' [] None (empty_outbox 0)), 0) =
      (Inr (), (s', e')) \<and> outbox_ok s'"
  using poll_loop_refines_queue [OF demo_others_step, of _ _ 5 "snd (insert_outbox_row ''a'' [] None (empty_outbox 0))" 0]
    outbox_ok_insert [OF outbox_ok_empty] by blast

section \<open>One event\<close>

definition row_at :: "outbox \<Rightarrow> int \<Rightarrow> outbox_row option" where
  "row_at s = row_map ob_id (ox_rows s)"

lemma row_at_now [simp]: "row_at (s\<lparr>ox_now := t\<rparr>) = row_at s"
  by (simp add: row_at_def)

lemma find_update_id:
  assumes "\<And>r. ob_id (f r) = ob_id r"
  shows "find (\<lambda>r. ob_id r = k) (update_where (\<lambda>r. ob_id r = i) f rows) =
    (if k = i then map_option f (find (\<lambda>r. ob_id r = k) rows) else find (\<lambda>r. ob_id r = k) rows)"
  using assms by (induction rows) (auto simp: update_where_def)

lemma row_at_update:
  assumes "\<And>now r. ob_id (f now r) = ob_id r"
  shows "row_at (snd (update_row i f s)) k = (if k = i then map_option (f (ox_now s)) (row_at s k) else row_at s k)"
    "ox_now (snd (update_row i f s)) = ox_now s" "fst (update_row i f s) = Inr ()"
  using assms by (simp_all add: update_row_def row_at_def row_map_def find_update_id)

text \<open>What a heartbeat leaves of a row.\<close>

definition same_event :: "outbox_row \<Rightarrow> outbox_row \<Rightarrow> bool" where
  "same_event r r' \<longleftrightarrow> ob_id r' = ob_id r \<and> ob_event_type r' = ob_event_type r \<and> ob_payload r' = ob_payload r \<and>
     ob_status r' = ob_status r \<and> ob_attempts r' = ob_attempts r \<and> ob_locked_at r' = ob_locked_at r \<and>
     ob_idempotency_key r' = ob_idempotency_key r"

lemma same_event_refl: "same_event r r"
  by (simp add: same_event_def)

lemma same_event_heartbeat: "same_event r r' \<Longrightarrow> same_event r (heartbeat_row own l now r')"
  by (simp add: same_event_def heartbeat_row_def)

lemma heartbeats_alone:
  assumes "wk_others w = id" "row_at s i = Some r"
  shows "\<exists>s' r'. heartbeats w i l interval n s = (Inr (), s') \<and> ox_now s' = ox_now s + int n * seconds interval \<and>
    row_at s' = (row_at s)(i \<mapsto> r') \<and> same_event r r'"
  using assms(2)
proof (induction n arbitrary: s r)
  case 0
  then show ?case by (intro exI [of _ s] exI [of _ r]) (simp add: same_event_refl fun_upd_idem)
next
  case (Suc n)
  let ?s1 = "s\<lparr>ox_now := ox_now s + seconds interval\<rparr>"
  let ?s2 = "snd (heartbeat i (wk_lock_owner w) l ?s1)"
  let ?r2 = "heartbeat_row (strip_opt (wk_lock_owner w)) l (ox_now ?s1) r"
  have beat: "fst (heartbeat i (wk_lock_owner w) l ?s1) = Inr ()"
    by (simp add: heartbeat_def row_at_update)
  have at2: "row_at ?s2 = (row_at s)(i \<mapsto> ?r2)" and now2: "ox_now ?s2 = ox_now s + seconds interval"
    using Suc.prems by (auto simp: heartbeat_def row_at_update fun_eq_iff)
  obtain s' r' where rest: "heartbeats w i l interval n ?s2 = (Inr (), s')"
      "ox_now s' = ox_now ?s2 + int n * seconds interval" "row_at s' = (row_at ?s2)(i \<mapsto> r')" "same_event ?r2 r'"
    using Suc.IH [of ?s2 ?r2] at2 by (metis fun_upd_same)
  have at': "row_at s' = (row_at s)(i \<mapsto> r')" by (simp add: rest(3) at2)
  have "same_event r r'" using rest(4) same_event_heartbeat [OF same_event_refl, of r]
    by (simp add: same_event_def)
  then show ?case
    using rest(1,2) beat at' now2 assms(1)
    by (intro exI [of _ s'] exI [of _ r']) (simp add: py_run_seq pass_time_def algebra_simps)
qed

definition settled :: "'e worker \<Rightarrow> bool \<Rightarrow> datetime \<Rightarrow> outbox_row \<Rightarrow> outbox_row \<Rightarrow> bool" where
  "settled w success now r r' \<longleftrightarrow>
     ob_id r' = ob_id r \<and> ob_event_type r' = ob_event_type r \<and> ob_payload r' = ob_payload r \<and>
     ob_idempotency_key r' = ob_idempotency_key r \<and> ob_locked_at r' = None \<and> ob_lease_until r' = None \<and>
     (if success then ob_status r' = ''processed'' \<and> ob_attempts r' = ob_attempts r
      else ob_attempts r' = ob_attempts r + 1 \<and>
        (if ob_attempts r + 1 \<ge> wk_max_retries w then ob_status r' = ''dead_letter''
         else ob_status r' = ''retry'' \<and>
           ob_next_retry_at r' = now + seconds (max 1 (wk_retry_delay_seconds w) * (ob_attempts r + 1))))"

lemma settled_processed: "same_event r r' \<Longrightarrow> settled w True now r (processed_row now r')"
  by (simp add: settled_def same_event_def processed_row_def release_lease_def)

lemma settled_failed:
  "same_event r r' \<Longrightarrow> settled w False now r (failed_row err (wk_max_retries w) (wk_retry_delay_seconds w) now r')"
  by (simp add: settled_def same_event_def failed_row_def release_lease_def Let_def)

text \<open>Whether the handlers of an event succeed in time, and when the worker turns to the next.\<close>

definition succeeds :: "'e worker \<Rightarrow> work_item \<Rightarrow> 'e \<Rightarrow> bool" where
  "succeeds w item e \<longleftrightarrow>
     int (wk_run_seconds w (wi_event_type item) (wi_payload item)) \<le>
       wp_handler_timeout_seconds (worker_policy_for_event (wi_event_type item) (wk_handler_timeout_seconds w)) \<and>
     fst (dispatch (wk_handlers w) (wi_event_type item) (wi_payload item) e) = Inr ()"

definition run_limit :: "'e worker \<Rightarrow> work_item \<Rightarrow> int" where
  "run_limit w item = min (int (wk_run_seconds w (wi_event_type item) (wi_payload item)))
     (wp_handler_timeout_seconds (worker_policy_for_event (wi_event_type item) (wk_handler_timeout_seconds w)))"

lemma dispatch_with_timeout_alone:
  assumes alone: "wk_others w = id" and row: "row_at s (wi_id item) = Some r"
  defines "p \<equiv> worker_policy_for_event (wi_event_type item) (wk_handler_timeout_seconds w)"
  shows "\<exists>s' r' res. dispatch_with_timeout w (wi_id item) (wi_event_type item) (wi_payload item) p (s, e) =
      (res, (s', snd (dispatch (wk_handlers w) (wi_event_type item) (wi_payload item) e))) \<and>
    (res = Inr () \<longleftrightarrow> succeeds w item e) \<and> ox_now s' = ox_now s + seconds (run_limit w item) \<and>
    row_at s' = (row_at s)(wi_id item \<mapsto> r') \<and> same_event r r'"
proof -
  let ?run = "int (wk_run_seconds w (wi_event_type item) (wi_payload item))"
  let ?limit = "run_limit w item"
  let ?k = "max 5 (if wp_heartbeat_interval_seconds p = 0 then 30 else wp_heartbeat_interval_seconds p)"
  let ?n = "heartbeat_count ?k ?limit"
  let ?d = "dispatch (wk_handlers w) (wi_event_type item) (wi_payload item) e"
  have limit: "min ?run (wp_handler_timeout_seconds p) = ?limit" by (simp add: run_limit_def p_def)
  have thread: "wp_execution_mode p = ''thread''"
    using worker_policy_fits [of "wi_event_type item" "wk_handler_timeout_seconds w"] by (simp add: Let_def p_def)
  obtain s1 r1 where beats: "heartbeats w (wi_id item) (max 1 (wp_lease_seconds p)) ?k ?n s = (Inr (), s1)"
      "ox_now s1 = ox_now s + int ?n * seconds ?k" "row_at s1 = (row_at s)(wi_id item \<mapsto> r1)" "same_event r r1"
    using heartbeats_alone [OF alone row] by blast
  have time: "ox_now s1 + seconds (?limit - int ?n * ?k) = ox_now s + seconds ?limit"
    by (simp add: beats(2) seconds_def algebra_simps)
  have rest: "pass_time w (seconds (?limit - int ?n * ?k)) s1 = (Inr (), s1\<lparr>ox_now := ox_now s + seconds ?limit\<rparr>)"
    using alone time by (simp add: pass_time_def)
  let ?res = "if ?run > wp_handler_timeout_seconds p then Inl (Event_timeout_error
      (''Outbox handler timeout ('' @ str_of_int (wp_handler_timeout_seconds p) @ ''s) event_type='' @ wi_event_type item))
    else fst ?d"
  have "dispatch_with_timeout w (wi_id item) (wi_event_type item) (wi_payload item) p (s, e) =
      (?res, (s1\<lparr>ox_now := ox_now s + seconds ?limit\<rparr>, snd ?d))"
    unfolding dispatch_with_timeout_def Let_def limit
    using thread beats(1) rest
    by (cases ?d) (simp add: py_run_bind py_run_seq py_effect_def py_run_on)
  moreover have "?res = Inr () \<longleftrightarrow> succeeds w item e" by (auto simp: succeeds_def p_def)
  ultimately show ?thesis using beats(3,4) by fastforce
qed

text \<open>What happens to one claimed event when no other process touches it. The worker raises nothing; it
  keeps the event for the run of its handlers or for the limit of its type, whichever is shorter, and
  then leaves no lease. If the handlers succeeded in time the event is processed; otherwise its
  attempts grow by one and it is a dead letter exactly when they reach the maximum, and else to be
  tried again after a delay that grows linearly with the attempts. Other events are untouched.\<close>

theorem process_one_settles:
  assumes alone: "wk_others w = id" and row: "row_at s (wi_id item) = Some r"
  shows "\<exists>s' r'. process_one w item (s, e) =
      (Inr (), (s', snd (dispatch (wk_handlers w) (wi_event_type item) (wi_payload item) e))) \<and>
    ox_now s' = ox_now s + seconds (run_limit w item) \<and>
    row_at s' = (row_at s)(wi_id item \<mapsto> r') \<and> settled w (succeeds w item e) (ox_now s') r r'"
proof -
  let ?e' = "snd (dispatch (wk_handlers w) (wi_event_type item) (wi_payload item) e)"
  obtain s1 r1 res where d: "dispatch_with_timeout w (wi_id item) (wi_event_type item) (wi_payload item)
        (worker_policy_for_event (wi_event_type item) (wk_handler_timeout_seconds w)) (s, e) = (res, (s1, ?e'))"
      "res = Inr () \<longleftrightarrow> succeeds w item e" "ox_now s1 = ox_now s + seconds (run_limit w item)"
      "row_at s1 = (row_at s)(wi_id item \<mapsto> r1)" "same_event r r1"
    using dispatch_with_timeout_alone [OF alone row] by blast
  have fin: "\<exists>s' r'. process_one w item (s, e) = (Inr (), (s', ?e')) \<and>
      ox_now s' = ox_now s + seconds (run_limit w item) \<and>
      row_at s' = (row_at s)(wi_id item \<mapsto> r') \<and> settled w (succeeds w item e) (ox_now s') r r'"
    if "process_one w item (s, e) = (Inr (), (snd (update_row (wi_id item) f s1), ?e'))"
      "\<And>now x. ob_id (f now x) = ob_id x" "settled w (succeeds w item e) (ox_now s1) r (f (ox_now s1) r1)" for f
    using that d(3,4)
    by (intro exI [of _ "snd (update_row (wi_id item) f s1)"] exI [of _ "f (ox_now s1) r1"])
      (auto simp: row_at_update fun_eq_iff)
  show ?thesis
  proof (cases res)
    case (Inl x)
    let ?f = "failed_row (wk_error_text w x) (wk_max_retries w) (wk_retry_delay_seconds w)"
    have "process_one w item (s, e) = (Inr (), (snd (update_row (wi_id item) ?f s1), ?e'))"
      using d(1) Inl by (simp add: process_one_def py_run_try py_run_seq py_run_on mark_failed_def row_at_update)
    then show ?thesis by (rule fin) (use Inl d(2) settled_failed [OF d(5)] in simp_all)
  next
    case (Inr u)
    have "process_one w item (s, e) = (Inr (), (snd (update_row (wi_id item) processed_row s1), ?e'))"
      using d(1) Inr by (simp add: process_one_def py_run_try py_run_seq py_run_on mark_processed_def row_at_update)
    then show ?thesis by (rule fin) (use Inr d(2) settled_processed [OF d(5)] in simp_all)
  qed
qed

definition demo_queue :: outbox where
  "demo_queue = snd (claim_next_batch 100 300 300 (Some ''w1'') (snd (insert_outbox_row ''a'' [] None (empty_outbox 0))))"

definition demo_item :: work_item where
  "demo_item = \<lparr>wi_id = 1, wi_event_type = ''a'', wi_payload = [], wi_attempts = 0, wi_lease_until = None\<rparr>"

definition demo_row :: outbox_row where
  "demo_row = mark_claimed 0 (Some ''w1'') (Some (claim_seconds 300)) (new_outbox_row (empty_outbox 0) ''a'' [] None)"

lemma demo_queue: "demo_queue = \<lparr>ox_now = 0, ox_rows = [demo_row], ox_next_id = 2\<rparr>"
  by (simp add: demo_queue_def demo_row_def insert_outbox_row_def empty_outbox_def Let_def claim_next_batch_def
      claim_rows_def outbox_eligible_def new_outbox_row_def strip_opt_def str_or_def py_strip_def py_lstrip_def
      py_space_def update_where_def)

lemma demo_row_at: "row_at demo_queue 1 = Some demo_row"
  by (simp add: demo_queue row_at_def row_map_def demo_row_def mark_claimed_def new_outbox_row_def empty_outbox_def)

lemma process_one_settles_witness:
  "\<exists>s' r'. process_one (demo_worker [(''a'', demo_handlers)] 3) demo_item (demo_queue, 4) = (Inr (), (s', 50)) \<and>
     row_at s' 1 = Some r' \<and> ob_status r' = ''retry'' \<and> ob_attempts r' = 1 \<and> ob_next_retry_at r' = 8000000"
proof -
  let ?w = "demo_worker [(''a'', demo_handlers)] 3"
  have alone: "wk_others ?w = id" by (simp add: demo_worker_def)
  have d: "dispatch (wk_handlers ?w) ''a'' [] 4 = (Inl (Event_handler_error ''mail''), 50)"
    by (simp add: demo_worker_def demo_handlers_def dispatch_def py_run_bind py_run_try py_run_seq)
  have fail: "\<not> succeeds ?w demo_item 4" using d by (simp add: succeeds_def demo_item_def)
  have lim: "run_limit ?w demo_item = 3"
    by (simp add: run_limit_def demo_worker_def demo_item_def worker_policy_for_event_def event_policies_def
        py_strip_def py_lstrip_def py_space_def)
  obtain s' r' where "process_one ?w demo_item (demo_queue, 4) = (Inr (), (s', 50))"
      "ox_now s' = 3000000" "row_at s' 1 = Some r'" "settled ?w False (ox_now s') demo_row r'"
    using process_one_settles [OF alone, of demo_queue demo_item demo_row 4] demo_row_at d fail lim
    by (auto simp: demo_item_def demo_queue seconds_def)
  moreover have "ob_attempts demo_row = 0" by (simp add: demo_row_def mark_claimed_def new_outbox_row_def)
  ultimately show ?thesis by (intro exI [of _ s'] exI [of _ r']) (simp add: settled_def demo_worker_def seconds_def)
qed

section \<open>A batch\<close>

lemma process_items_alone:
  assumes "wk_others w = id" "distinct (map wi_id items)" "\<forall>i \<in> set items. row_at s (wi_id i) \<noteq> None"
  shows "\<exists>s' e'. process_items w items (s, e) = (Inr (), (s', e')) \<and>
    (\<forall>k. k \<notin> wi_id ` set items \<longrightarrow> row_at s' k = row_at s k) \<and>
    (\<forall>i \<in> set items. \<exists>r' success now. row_at s' (wi_id i) = Some r' \<and> settled w success now (the (row_at s (wi_id i))) r')"
  using assms(2,3)
proof (induction items arbitrary: s e)
  case Nil
  then show ?case by simp
next
  case (Cons i items)
  then obtain r where r: "row_at s (wi_id i) = Some r" by auto
  obtain s1 r1 e1 where one: "process_one w i (s, e) = (Inr (), (s1, e1))" "row_at s1 = (row_at s)(wi_id i \<mapsto> r1)"
      "settled w (succeeds w i e) (ox_now s1) r r1"
    using process_one_settles [OF assms(1) r] by blast
  have "distinct (map wi_id items)" "\<forall>j \<in> set items. row_at s1 (wi_id j) \<noteq> None" using Cons.prems one(2) by auto
  then obtain s' e' where rest: "process_items w items (s1, e1) = (Inr (), (s', e'))"
      "\<forall>k. k \<notin> wi_id ` set items \<longrightarrow> row_at s' k = row_at s1 k"
      "\<forall>i \<in> set items. \<exists>r' success now. row_at s' (wi_id i) = Some r' \<and> settled w success now (the (row_at s1 (wi_id i))) r'"
    using Cons.IH [of s1 e1] by blast
  have new: "wi_id i \<notin> wi_id ` set items" using Cons.prems(1) by auto
  have old: "row_at s1 (wi_id j) = row_at s (wi_id j)" if "j \<in> set items" for j
    using that new one(2) by (metis fun_upd_other image_eqI)
  show ?case
  proof (intro exI conjI)
    show "process_items w (i # items) (s, e) = (Inr (), (s', e'))" using one(1) rest(1) by (simp add: py_run_seq)
    show "\<forall>k. k \<notin> wi_id ` set (i # items) \<longrightarrow> row_at s' k = row_at s k" using rest(2) one(2) by auto
    show "\<forall>j \<in> set (i # items). \<exists>r' success now.
        row_at s' (wi_id j) = Some r' \<and> settled w success now (the (row_at s (wi_id j))) r'"
      using rest(2,3) one(2,3) old new r by auto
  qed
qed

lemma row_at_member: "key_ok ob_id (ox_rows s) \<Longrightarrow> r \<in> set (ox_rows s) \<Longrightarrow> row_at s (ob_id r) = Some r"
  unfolding row_at_def row_map_def key_ok_def
proof (induction "ox_rows s" arbitrary: s)
  case (Cons a rows)
  have "find (\<lambda>x. ob_id x = ob_id r) rows = Some r" if "r \<in> set rows"
    using Cons.hyps(1) [of "s\<lparr>ox_rows := rows\<rparr>"] Cons.prems Cons.hyps(2) [symmetric] that by simp
  then show ?case using Cons.prems Cons.hyps(2) [symmetric] by (auto simp: image_iff)
qed simp

lemma row_at_claimed:
  assumes "claim_next_batch n st l own s = (Inr items, s1)"
  shows "row_at s1 k = (if k \<in> ob_id ` set (claim_rows s n st)
    then map_option (mark_claimed (ox_now s) (strip_opt own) (Some (ox_now s + claim_seconds l))) (row_at s k)
    else row_at s k)"
proof -
  have upd: "find (\<lambda>r. ob_id r = k) (update_where (\<lambda>r. ob_id r \<in> A) f rows) =
      (if k \<in> A then map_option f (find (\<lambda>r. ob_id r = k) rows) else find (\<lambda>r. ob_id r = k) rows)"
    if "\<And>r. ob_id (f r) = ob_id r" for A f rows
    using that by (induction rows) (auto simp: update_where_def)
  let ?f = "mark_claimed (ox_now s) (strip_opt own) (Some (ox_now s + claim_seconds l))"
  have "ox_rows s1 = update_where (\<lambda>r. ob_id r \<in> ob_id ` set (claim_rows s n st)) ?f (ox_rows s)"
    using assms by (auto simp: claim_run)
  then show ?thesis
    unfolding row_at_def row_map_def using upd [of ?f "ob_id ` set (claim_rows s n st)" "ox_rows s"] by simp
qed

lemma settled_claimed: "settled w success now (mark_claimed t own l r) r' \<longleftrightarrow> settled w success now r r'"
  by (simp add: settled_def mark_claimed_def)

text \<open>A batch leaves nothing running. When no other process interferes, a worker raises nothing, counts the
  events it claimed, and settles each of them, whichever handlers failed or ran too long; the events it
  did not claim are as before.\<close>

theorem process_batch_settles:
  assumes alone: "wk_others w = id" and ok: "outbox_ok s"
  shows "\<exists>s' e'. process_batch w (s, e) =
      (Inr (length (claim_rows s (wk_batch_size w) (wk_stale_lock_after_sec w))), (s', e')) \<and>
    (\<forall>r \<in> set (claim_rows s (wk_batch_size w) (wk_stale_lock_after_sec w)).
      \<exists>r' success now. row_at s' (ob_id r) = Some r' \<and> settled w success now r r') \<and>
    (\<forall>k. k \<notin> ob_id ` set (claim_rows s (wk_batch_size w) (wk_stale_lock_after_sec w)) \<longrightarrow> row_at s' k = row_at s k)"
proof -
  let ?rows = "claim_rows s (wk_batch_size w) (wk_stale_lock_after_sec w)"
  let ?items = "map to_work_item ?rows"
  let ?claim = "claim_next_batch (wk_batch_size w) (wk_stale_lock_after_sec w) (wk_lease_seconds w) (wk_lock_owner w)"
  have keys: "key_ok ob_id (ox_rows s)" using ok by (simp add: outbox_ok_def)
  obtain s1 where claim: "?claim s = (Inr ?items, s1)" by (simp add: claim_run)
  have ids: "wi_id ` set ?items = ob_id ` set ?rows" "map wi_id ?items = map ob_id ?rows"
    by (auto simp: to_work_item_def image_iff)
  have at0: "row_at s (ob_id r) = Some r" if "r \<in> set ?rows" for r
    using row_at_member [OF keys claim_rows_eligible(1) [OF that]] .
  have at1: "row_at s1 (ob_id r) = Some (mark_claimed (ox_now s) (strip_opt (wk_lock_owner w))
      (Some (ox_now s + claim_seconds (wk_lease_seconds w))) r)" if "r \<in> set ?rows" for r
    using row_at_claimed [OF claim, of "ob_id r"] at0 [OF that] that by simp
  have found: "\<forall>i \<in> set ?items. row_at s1 (wi_id i) \<noteq> None" using at1 by (auto simp: to_work_item_def)
  obtain s' e' where run: "process_items w ?items (s1, e) = (Inr (), (s', e'))"
      "\<forall>k. k \<notin> wi_id ` set ?items \<longrightarrow> row_at s' k = row_at s1 k"
      "\<forall>i \<in> set ?items. \<exists>r' success now. row_at s' (wi_id i) = Some r' \<and> settled w success now (the (row_at s1 (wi_id i))) r'"
    using process_items_alone [OF alone _ found, of e] distinct_claim_rows [OF keys] unfolding ids(2) by blast
  show ?thesis
  proof (rule exI [of _ s'], rule exI [of _ e'], intro conjI ballI allI impI)
    show "process_batch w (s, e) = (Inr (length ?rows), (s', e'))"
      using claim run(1) by (simp add: process_batch_def py_run_bind py_run_seq py_run_on)
  next
    fix r assume r: "r \<in> set ?rows"
    then have "to_work_item r \<in> set ?items" by simp
    then show "\<exists>r' success now. row_at s' (ob_id r) = Some r' \<and> settled w success now r r'"
      using run(3) at1 [OF r] by (fastforce simp: to_work_item_def settled_claimed)
  next
    fix k assume "k \<notin> ob_id ` set ?rows"
    then show "row_at s' k = row_at s k" using run(2) row_at_claimed [OF claim] unfolding ids by simp
  qed
qed

lemma process_batch_settles_witness:
  "\<exists>s' e'. process_batch (demo_worker [(''a'', demo_handlers)] 3)
      (snd (insert_outbox_row ''a'' [] None (empty_outbox 0)), 4) = (Inr 1, (s', e'))"
proof -
  have "length (claim_rows (snd (insert_outbox_row ''a'' [] None (empty_outbox 0))) 100 300) = 1"
    by (simp add: insert_outbox_row_def empty_outbox_def Let_def claim_rows_def outbox_eligible_def new_outbox_row_def)
  then show ?thesis
    using process_batch_settles [of "demo_worker [(''a'', demo_handlers)] 3", OF _ outbox_ok_insert [OF outbox_ok_empty],
        of "''a''" "[]" None 0 4]
    by (auto simp: demo_worker_def)
qed

section \<open>Events claimed again\<close>

lemma claim_takes_eligible:
  assumes "row_at s i = Some r" "outbox_eligible (ox_now s) (ox_now s - claim_seconds st) r" "length (ox_rows s) \<le> n"
  shows "r \<in> set (claim_rows s n st)" "i \<in> wi_id ` set (map to_work_item (claim_rows s n st))"
proof -
  have r: "r \<in> set (ox_rows s)" "ob_id r = i" using assms(1) row_map_Some unfolding row_at_def by fast+
  let ?el = "filter (outbox_eligible (ox_now s) (ox_now s - claim_seconds st)) (ox_rows s)"
  have "length ?el \<le> n" using assms(3) length_filter_le order_trans by blast
  then have "claim_rows s n st = sort_key ob_id ?el" by (simp add: claim_rows_def)
  then show "r \<in> set (claim_rows s n st)" using r assms(2) by simp
  then show "i \<in> wi_id ` set (map to_work_item (claim_rows s n st))"
    using r(2) by (force simp: to_work_item_def)
qed

lemma length_rows_heartbeats:
  "wk_others w = id \<Longrightarrow> length (ox_rows (snd (heartbeats w i l interval n s))) = length (ox_rows s)"
proof (induction n arbitrary: s)
  case (Suc n)
  then show ?case by (simp add: py_run_seq pass_time_def heartbeat_def update_row_def)
qed simp

text \<open>C34: heartbeats keep the lease but not the claim. \<open>heartbeat\<close> renews \<open>lease_until\<close> and not \<open>locked_at\<close>,
  and a claim tests the age of either: so once a handler has run longer than the stale-lock limit, the
  next claim takes its event a second time, however many heartbeats the first worker has made. With the
  default limit of five minutes this holds for every event type whose handlers may run ten minutes or
  an hour.\<close>

theorem long_run_claimed_again:
  assumes alone: "wk_others w = id" and row: "row_at s i = Some r" "ob_status r = ''processing''" "ob_locked_at r = Some t0"
    and beats: "heartbeats w i lease interval k s = (res, s1)"
    and stale: "t0 + claim_seconds st < ox_now s + int k * seconds interval" and limit: "length (ox_rows s) \<le> n"
  shows "\<exists>items s2. claim_next_batch n st l own s1 = (Inr items, s2) \<and> i \<in> wi_id ` set items"
proof -
  obtain r1 where s1: "ox_now s1 = ox_now s + int k * seconds interval" "row_at s1 i = Some r1" "same_event r r1"
    using heartbeats_alone [OF alone row(1), of lease interval k] beats by auto
  have "outbox_eligible (ox_now s1) (ox_now s1 - claim_seconds st) r1"
    using s1 row stale by (simp add: outbox_eligible_def same_event_def)
  moreover have "length (ox_rows s1) \<le> n"
    using length_rows_heartbeats [OF alone, of i lease interval k s] beats limit by simp
  ultimately show ?thesis using claim_takes_eligible(2) [OF s1(2)] by (auto simp: claim_run)
qed

lemma long_run_claimed_again_witness:
  "\<exists>items s2. claim_next_batch 100 300 300 (Some ''w2'')
      (snd (heartbeats (demo_worker [] 3600) 1 3900 60 6 demo_queue)) = (Inr items, s2) \<and> 1 \<in> wi_id ` set items"
proof -
  have alone: "wk_others (demo_worker [] 3600) = id" by (simp add: demo_worker_def)
  have "ob_status demo_row = ''processing''" "ob_locked_at demo_row = Some 0"
    by (simp_all add: demo_row_def mark_claimed_def)
  moreover have "0 + claim_seconds 300 < ox_now demo_queue + int 6 * seconds 60" "length (ox_rows demo_queue) \<le> 100"
    by (simp_all add: demo_queue claim_seconds_def seconds_def)
  ultimately show ?thesis using long_run_claimed_again [OF alone demo_row_at _ _ surjective_pairing] by blast
qed

text \<open>Workers that die with their claims: each claims and is never heard of again, and the next comes when
  the lease is over.\<close>

primrec crashes :: "nat \<Rightarrow> int \<Rightarrow> int \<Rightarrow> string option \<Rightarrow> nat \<Rightarrow> outbox \<Rightarrow> outbox" where
  "crashes n st l own 0 s = s"
| "crashes n st l own (Suc k) s =
     (let s1 = snd (claim_next_batch n st l own (crashes n st l own k s))
      in s1\<lparr>ox_now := ox_now s1 + claim_seconds l + 1\<rparr>)"

text \<open>C38: The events of a dead worker are claimed again, without end. However many workers have claimed an
  event and died, the next claim after the lease takes it again, and its attempts have not grown: only a
  reported failure counts, so an event that kills its worker never becomes a dead letter.\<close>

theorem crashed_event_claimed_again:
  assumes row: "row_at s i = Some r" "outbox_eligible (ox_now s) (ox_now s - claim_seconds st) r"
    and limit: "length (ox_rows s) \<le> n"
  shows "\<exists>items s2. claim_next_batch n st l own (crashes n st l own k s) = (Inr items, s2) \<and>
    (\<exists>item \<in> set items. wi_id item = i \<and> wi_attempts item = ob_attempts r)"
proof -
  have "\<exists>r'. row_at (crashes n st l own k s) i = Some r' \<and> ob_id r' = i \<and> ob_attempts r' = ob_attempts r \<and>
      outbox_eligible (ox_now (crashes n st l own k s)) (ox_now (crashes n st l own k s) - claim_seconds st) r' \<and>
      length (ox_rows (crashes n st l own k s)) \<le> n"
  proof (induction k)
    case 0
    then show ?case using row limit row_map_Some unfolding row_at_def by fastforce
  next
    case (Suc k)
    let ?s = "crashes n st l own k s"
    obtain r' where r': "row_at ?s i = Some r'" "ob_id r' = i" "ob_attempts r' = ob_attempts r"
        "outbox_eligible (ox_now ?s) (ox_now ?s - claim_seconds st) r'" "length (ox_rows ?s) \<le> n"
      using Suc.IH by blast
    let ?m = "mark_claimed (ox_now ?s) (strip_opt own) (Some (ox_now ?s + claim_seconds l)) r'"
    obtain s1 where s1: "claim_next_batch n st l own ?s = (Inr (map to_work_item (claim_rows ?s n st)), s1)"
        "length (ox_rows s1) = length (ox_rows ?s)" "ox_now s1 = ox_now ?s" by (simp add: claim_run)
    have "i \<in> ob_id ` set (claim_rows ?s n st)"
      using claim_takes_eligible(1) [OF r'(1,4,5)] r'(2) by blast
    then have "row_at s1 i = Some ?m" using row_at_claimed [OF s1(1), of i] r'(1) by simp
    then show ?case using r'(2,3,5) s1
      by (simp add: Let_def) (simp add: mark_claimed_def outbox_eligible_def)
  qed
  then obtain r' where r': "row_at (crashes n st l own k s) i = Some r'" "ob_id r' = i" "ob_attempts r' = ob_attempts r"
      "r' \<in> set (claim_rows (crashes n st l own k s) n st)"
    using claim_takes_eligible(1) by blast
  then show ?thesis by (force simp: claim_run to_work_item_def)
qed

lemma crashed_event_claimed_again_witness:
  "\<exists>items s2. claim_next_batch 100 300 300 None
      (crashes 100 300 300 None 50 (demo_queue\<lparr>ox_now := 301000000\<rparr>)) = (Inr items, s2) \<and>
    (\<exists>item \<in> set items. wi_id item = 1 \<and> wi_attempts item = 0)"
proof -
  let ?s = "demo_queue\<lparr>ox_now := 301000000\<rparr>"
  have at: "row_at ?s 1 = Some demo_row" using demo_row_at by simp
  have "outbox_eligible (ox_now ?s) (ox_now ?s - claim_seconds 300) demo_row"
    by (simp add: outbox_eligible_def demo_row_def mark_claimed_def claim_seconds_def seconds_def)
  moreover have "length (ox_rows ?s) \<le> 100" by (simp add: demo_queue)
  moreover have "ob_attempts demo_row = 0" by (simp add: demo_row_def mark_claimed_def new_outbox_row_def)
  ultimately show ?thesis using crashed_event_claimed_again [OF at, of 300 100 300 None 50] by simp
qed

section \<open>Publishing\<close>

lemma setdefault_keeps: "map_of m k = Some v \<Longrightarrow> map_of (setdefault k' v' m) k = Some v"
  by (simp add: setdefault_def map_of_append map_add_def)

lemma enrich_run:
  assumes "payload_meta p = Inr meta"
  obtains meta' where "enrich_event_payload ctx ty p = Inr (AList.update ''_meta'' (Json_obj meta') p)"
    "\<And>k v. map_of meta k = Some v \<Longrightarrow> map_of meta' k = Some v" "\<exists>v. map_of meta' ''event_name'' = Some v"
proof
  let ?g = "json_get (pc_observability ctx)"
  let ?m3 = "setdefault ''tenant_id'' (?g ''tenant_id'') (setdefault ''request_id'' (?g ''request_id'')
      (setdefault ''correlation_id'' (?g ''correlation_id'') meta))"
  let ?m5 = "setdefault ''user_id'' (?g ''user_id'') (setdefault ''tenant_slug''
      (if json_true (?g ''tenant_slug'') then ?g ''tenant_slug'' else pc_tenant_schema ctx) ?m3)"
  let ?m7 = "setdefault ''instance_role'' (case pc_instance_role ctx of None \<Rightarrow> Json_null | Some r \<Rightarrow> Json_str r)
      (setdefault ''event_name'' (Json_str ty) ?m5)"
  show "enrich_event_payload ctx ty p = Inr (AList.update ''_meta'' (Json_obj ?m7) p)"
    using assms by (simp add: enrich_event_payload_def Let_def)
  show "map_of meta k = Some v \<Longrightarrow> map_of ?m7 k = Some v" for k v by (intro setdefault_keeps)
  have "\<exists>v. map_of (setdefault ''event_name'' (Json_str ty) ?m5) ''event_name'' = Some v"
    by (auto simp: setdefault_def [of "''event_name''"] map_of_append map_add_def)
  then show "\<exists>v. map_of ?m7 ''event_name'' = Some v" using setdefault_keeps by blast
qed

lemma backlog_insert:
  "insert_outbox_row ty p k s = (Inr row, s') \<Longrightarrow> backlog_size s' = backlog_size s + 1"
  by (auto simp: insert_outbox_row_def Let_def backlog_size_def new_outbox_row_def split: option.splits if_splits)

text \<open>Publishing and the backlog limit. Without interference and with a payload whose \<open>_meta\<close> is a mapping
  or empty, publishing raises the delivery error and writes nothing exactly when the open events have
  reached the limit; otherwise either the event with that key is already there and nothing changes, or
  one pending row is added, whose payload has the given fields and the given metadata, completed. The
  backlog never exceeds the limit by publishing.\<close>

theorem publish_respects_backlog:
  assumes meta: "payload_meta p = Inr meta"
  shows "(backlog_limit lim \<le> backlog_size s \<longrightarrow>
      publish ctx lim id ty p key s = (Inl (Event_delivery_error (''Esemeny outbox-ba irasa sikertelen: '' @ ty)), s)) \<and>
    (backlog_size s < backlog_limit lim \<longrightarrow> (case Option.bind (strip_opt key) (row_by_key s) of
        Some row \<Rightarrow> publish ctx lim id ty p key s = (Inr (), s)
      | None \<Rightarrow> \<exists>s' row meta'. publish ctx lim id ty p key s = (Inr (), s') \<and> backlog_size s' \<le> backlog_limit lim \<and>
          ox_rows s' = ox_rows s @ [row] \<and> ob_status row = ''pending'' \<and> ob_event_type row = ty \<and>
          ob_idempotency_key row = strip_opt key \<and>
          (\<forall>f. f \<noteq> ''_meta'' \<longrightarrow> map_of (ob_payload row) f = map_of p f) \<and>
          map_of (ob_payload row) ''_meta'' = Some (Json_obj meta') \<and> map_of meta \<subseteq>\<^sub>m map_of meta'))"
proof (intro conjI impI)
  obtain meta' where e: "enrich_event_payload ctx ty p = Inr (AList.update ''_meta'' (Json_obj meta') p)"
      "\<And>k v. map_of meta k = Some v \<Longrightarrow> map_of meta' k = Some v"
    using enrich_run [OF meta] by metis
  let ?p = "AList.update ''_meta'' (Json_obj meta') p"
  have sub: "map_of meta \<subseteq>\<^sub>m map_of meta'" using e(2) by (auto simp: map_le_def)
  {
    assume "backlog_limit lim \<le> backlog_size s"
    then show "publish ctx lim id ty p key s = (Inl (Event_delivery_error (''Esemeny outbox-ba irasa sikertelen: '' @ ty)), s)"
      by (simp add: publish_def e(1) py_run_bind py_run_try)
  next
    assume low: "backlog_size s < backlog_limit lim"
    then have run: "publish ctx lim id ty p key s = (case outbox_append id ty ?p key s of
        (Inl x, s') \<Rightarrow> (Inl (Event_delivery_error (''Esemeny outbox-ba irasa sikertelen: '' @ ty)), s')
      | (Inr row, s') \<Rightarrow> (Inr (), s'))"
      by (simp add: publish_def e(1) py_run_bind py_run_try py_run_seq split: prod.splits sum.splits)
    show "case Option.bind (strip_opt key) (row_by_key s) of
        Some row \<Rightarrow> publish ctx lim id ty p key s = (Inr (), s)
      | None \<Rightarrow> \<exists>s' row meta'. publish ctx lim id ty p key s = (Inr (), s') \<and> backlog_size s' \<le> backlog_limit lim \<and>
          ox_rows s' = ox_rows s @ [row] \<and> ob_status row = ''pending'' \<and> ob_event_type row = ty \<and>
          ob_idempotency_key row = strip_opt key \<and>
          (\<forall>f. f \<noteq> ''_meta'' \<longrightarrow> map_of (ob_payload row) f = map_of p f) \<and>
          map_of (ob_payload row) ''_meta'' = Some (Json_obj meta') \<and> map_of meta \<subseteq>\<^sub>m map_of meta'"
    proof (cases "Option.bind (strip_opt key) (row_by_key s)")
      case (Some row)
      then obtain k where "strip_opt key = Some k" "row_by_key s k = Some row" by (auto simp: bind_eq_Some_conv)
      then have "outbox_append id ty ?p key s = (Inr row, s)" by (simp add: outbox_append_def py_run_bind)
      with Some show ?thesis by (simp add: run)
    next
      case None
      let ?row = "new_outbox_row s ty ?p (strip_opt key)"
      let ?s' = "s\<lparr>ox_next_id := ox_next_id s + 1, ox_rows := ox_rows s @ [?row]\<rparr>"
      have ins: "insert_outbox_row ty ?p (strip_opt key) s = (Inr ?row, ?s')"
        using None by (auto simp: insert_outbox_row_def Let_def split: option.splits)
      then have "outbox_append id ty ?p key s = (Inr ?row, ?s')"
        using None by (cases "strip_opt key") (simp_all add: outbox_append_def py_run_bind py_run_seq py_run_try)
      then have "publish ctx lim id ty p key s = (Inr (), ?s')" by (simp add: run)
      moreover have "backlog_size ?s' \<le> backlog_limit lim" using backlog_insert [OF ins] low by simp
      ultimately show ?thesis unfolding None option.case using sub
        by (intro exI [of _ ?s'] exI [of _ ?row] exI [of _ meta']) (simp add: new_outbox_row_def update_conv')
    qed
  }
qed

lemma publish_respects_backlog_witness:
  "publish \<lparr>pc_observability = [], pc_tenant_schema = Json_null, pc_instance_role = None\<rparr> (Some 1) id ''a'' []
      None demo_queue = (Inl (Event_delivery_error ''Esemeny outbox-ba irasa sikertelen: a''), demo_queue)"
proof -
  have "backlog_limit (Some 1) \<le> backlog_size demo_queue"
    by (simp add: backlog_limit_def backlog_size_def demo_queue demo_row_def mark_claimed_def)
  then show ?thesis using publish_respects_backlog [of "[]" "[]"] by (simp add: payload_meta_def json_get_def)
qed

end
