(* ===== verification/Tenant_Slug.thy ===== *)
theory Tenant_Slug
  imports Py_Calendar
begin

text \<open>
  Names of tenants: the slug of a demo (\<open>tenant/slug/policy.py\<close>, \<open>shared/utils/slug.py\<close>,
  \<open>tenant/schema/ddl.py\<close>) and the link of a business (\<open>settings/domain/google_review_url.py\<close>). Regular
  expressions are read as the texts they accept or replace. The lemmas show that every name proposed for a demo
  is a valid slug and a safe schema name, and that one company is offered 9999 different names.
\<close>

section \<open>Pieces of \<open>re\<close> and \<open>unicodedata\<close>\<close>

text \<open>\<open>re.sub(r"[P]+", c, s)\<close>: every run of characters of the class becomes one \<open>c\<close>.\<close>

fun sub_runs :: "(char \<Rightarrow> bool) \<Rightarrow> char \<Rightarrow> bool \<Rightarrow> string \<Rightarrow> string" where
  "sub_runs P c in_run [] = []"
| "sub_runs P c in_run (x # xs) =
     (if P x then (if in_run then sub_runs P c True xs else c # sub_runs P c True xs)
      else x # sub_runs P c False xs)"

definition lstrip_char :: "char \<Rightarrow> string \<Rightarrow> string" where
  "lstrip_char c s = dropWhile (\<lambda>x. x = c) s"

definition rstrip_char :: "char \<Rightarrow> string \<Rightarrow> string" where
  "rstrip_char c s = rev (lstrip_char c (rev s))"

definition strip_char :: "char \<Rightarrow> string \<Rightarrow> string" where
  "strip_char c s = rstrip_char c (lstrip_char c s)"

text \<open>
  One character of \<open>unicodedata.normalize("NFKD", s).encode("ascii", "ignore")\<close>: letters lose their accents,
  compatibility characters become their plain text, everything else outside ASCII disappears.
\<close>

definition nfkd_ascii :: "char \<Rightarrow> string" where
  "nfkd_ascii c =
     (let n = of_char c :: nat in
      if n < 128 then [c]
      else if n \<in> {160, 168, 175, 180, 184} then '' ''
      else if n = 170 then ''a'' else if n = 186 then ''o''
      else if n = 185 then ''1'' else if n = 178 then ''2'' else if n = 179 then ''3''
      else if n = 188 then ''14'' else if n = 189 then ''12'' else if n = 190 then ''34''
      else if 192 \<le> n \<and> n \<le> 197 then ''A'' else if n = 199 then ''C''
      else if 200 \<le> n \<and> n \<le> 203 then ''E'' else if 204 \<le> n \<and> n \<le> 207 then ''I''
      else if n = 209 then ''N'' else if 210 \<le> n \<and> n \<le> 214 then ''O''
      else if 217 \<le> n \<and> n \<le> 220 then ''U'' else if n = 221 then ''Y''
      else if 224 \<le> n \<and> n \<le> 229 then ''a'' else if n = 231 then ''c''
      else if 232 \<le> n \<and> n \<le> 235 then ''e'' else if 236 \<le> n \<and> n \<le> 239 then ''i''
      else if n = 241 then ''n'' else if 242 \<le> n \<and> n \<le> 246 then ''o''
      else if 249 \<le> n \<and> n \<le> 252 then ''u'' else if n \<in> {253, 255} then ''y''
      else [])"

definition in_range :: "nat \<Rightarrow> nat \<Rightarrow> char \<Rightarrow> bool" where
  "in_range lo hi c \<longleftrightarrow> lo \<le> of_char c \<and> of_char c \<le> hi"

text \<open>\<open>[a-z0-9]\<close>, \<open>str.isdigit\<close> and \<open>str.isalnum\<close> of one character.\<close>

definition slug_alnum :: "char \<Rightarrow> bool" where
  "slug_alnum c \<longleftrightarrow> in_range 97 122 c \<or> in_range 48 57 c"

definition py_isdigit :: "char \<Rightarrow> bool" where
  "py_isdigit c \<longleftrightarrow> in_range 48 57 c \<or> of_char c \<in> {178, 179, 185 :: nat}"

definition py_isalnum :: "char \<Rightarrow> bool" where
  "py_isalnum c \<longleftrightarrow> in_range 97 122 c \<or> in_range 65 90 c \<or> py_isdigit c \<or>
     of_char c \<in> {170, 181, 186, 188, 189, 190 :: nat} \<or> (in_range 192 255 c \<and> of_char c \<notin> {215, 247 :: nat})"

section \<open>Slugs\<close>

definition demo_slug_base :: "string \<Rightarrow> string" where
  "demo_slug_base raw_name =
     (let ascii_name = py_lower (concat (map nfkd_ascii raw_name));
          hyphenated = strip_char CHR ''-'' (sub_runs (\<lambda>c. \<not> slug_alnum c) CHR ''-'' False ascii_name);
          hyphenated = sub_runs (\<lambda>c. c = CHR ''-'') CHR ''-'' False hyphenated
      in take 48 (if hyphenated = [] then ''demo'' else hyphenated))"

definition slug_matches_demo_base :: "string \<Rightarrow> string \<Rightarrow> bool" where
  "slug_matches_demo_base slug base =
     (let normalized_slug = py_lower (py_strip slug); normalized_base = py_lower (py_strip base) in
      if normalized_slug = [] \<or> normalized_base = [] then False
      else if normalized_slug = normalized_base then True
      else if \<not> is_prefix normalized_base normalized_slug then False
      else let suffix = drop (length normalized_base) normalized_slug
           in suffix \<noteq> [] \<and> list_all py_isdigit suffix)"

definition candidate_demo_slug :: "string \<Rightarrow> nat \<Rightarrow> string" where
  "candidate_demo_slug base suffix =
     (if suffix \<le> 1 then take 64 base
      else let suffix_text = str_of_nat suffix in take (64 - length suffix_text) base @ suffix_text)"

definition normalize_demo_locale :: "string option \<Rightarrow> string" where
  "normalize_demo_locale locale =
     (let normalized = py_lower (py_strip (str_or locale []))
      in if normalized \<in> {''hu'', ''en'', ''es''} then normalized else ''hu'')"

definition initial_demo_knowledge_base_name :: "string \<Rightarrow> string" where
  "initial_demo_knowledge_base_name locale =
     (if locale = ''en'' then ''Test knowledge base''
      else if locale = ''es'' then ''Base de conocimiento de prueba'' else ''Teszt NYZRating'')"

definition demo_trial_expires_at :: "datetime \<Rightarrow> int \<Rightarrow> datetime" where
  "demo_trial_expires_at now trial_days = now + days trial_days"

definition demo_host_hint :: "string \<Rightarrow> string \<Rightarrow> string" where
  "demo_host_hint slug tenant_base_domain = slug @ ''.'' @ tenant_base_domain"

definition normalize_slug :: "string \<Rightarrow> string" where
  "normalize_slug name =
     (let safe = filter (\<lambda>c. in_range 97 122 c \<or> in_range 65 90 c \<or> in_range 48 57 c \<or> py_space c \<or> c = CHR ''-'')
            (py_strip name);
          safe = strip_char CHR ''-'' (sub_runs py_space CHR ''-'' False safe)
      in take 64 (py_lower safe))"

text \<open>\<open>^[a-z0-9][a-z0-9_-]*$\<close>: \<open>$\<close> also matches before a final newline.\<close>

definition slug_pattern :: "string \<Rightarrow> bool" where
  "slug_pattern s = (case s of [] \<Rightarrow> False
     | c # cs \<Rightarrow> slug_alnum c \<and> list_all (\<lambda>x. slug_alnum x \<or> x \<in> {CHR ''_'', CHR ''-''}) cs)"

definition slug_is_valid :: "string \<Rightarrow> bool" where
  "slug_is_valid slug \<longleftrightarrow>
     (slug_pattern slug \<or> (slug \<noteq> [] \<and> last slug = char_of (10 :: nat) \<and> slug_pattern (butlast slug))) \<and>
     length slug \<le> 64"

text \<open>\<open>_safe_slug\<close>: the name of a schema as it goes into the SQL text; the other names raise \<open>ValueError\<close>.\<close>

definition schema_safe_slug :: "string \<Rightarrow> bool" where
  "schema_safe_slug slug \<longleftrightarrow> filter (\<lambda>c. py_isalnum c \<or> c \<in> {CHR ''_'', CHR ''-''}) slug = slug"

section \<open>The link of a business\<close>

definition normalize_google_review_url :: "string option \<Rightarrow> string" where
  "normalize_google_review_url x =
     (let normalized = py_strip (str_or x []) in if normalized = [] then [] else rstrip_char CHR ''/'' normalized)"

text \<open>\<open>^https://g\.page/r/[A-Za-z0-9_\-]+/review/?$\<close> without regard to case, on the link with a final slash.\<close>

definition is_valid_google_review_url :: "string option \<Rightarrow> bool" where
  "is_valid_google_review_url x =
     (let normalized = normalize_google_review_url x;
          url = normalized @ ''/'';
          key = takeWhile (\<lambda>c. c \<noteq> CHR ''/'') (drop 17 url);
          rest = drop (17 + length key) url in
      if normalized = [] then False
      else py_lower (take 17 url) = ''https://g.page/r/'' \<and> key \<noteq> [] \<and>
        list_all (\<lambda>c. in_range 97 122 c \<or> in_range 65 90 c \<or> in_range 48 57 c \<or> c \<in> {CHR ''_'', CHR ''-''}) key \<and>
        py_lower rest = ''/review/'')"

section \<open>Facts about slugs\<close>

lemma set_sub_runs: "set (sub_runs P c r s) \<subseteq> insert c {x \<in> set s. \<not> P x}"
  by (induction P c r s rule: sub_runs.induct) auto

lemma sub_runs_eq_Nil: "\<not> r \<Longrightarrow> sub_runs P c r s = [] \<longleftrightarrow> s = []"
  by (cases s) auto

lemma set_strip_char: "set (strip_char c s) \<subseteq> set s"
  by (auto simp: strip_char_def rstrip_char_def lstrip_char_def dest!: set_dropWhileD)

lemma hd_strip_char: "strip_char c s \<noteq> [] \<Longrightarrow> hd (strip_char c s) \<noteq> c"
proof -
  assume ne: "strip_char c s \<noteq> []"
  define l where "l = lstrip_char c s"
  define r where "r = rstrip_char c l"
  have r: "r \<noteq> []" using ne by (simp add: strip_char_def l_def r_def)
  have l: "r @ rev (takeWhile (\<lambda>x. x = c) (rev l)) = l"
    by (simp add: r_def rstrip_char_def lstrip_char_def rev_append [symmetric])
  with r have "l \<noteq> []" "hd r = hd l" by (auto simp del: rev_append) (metis hd_append2)
  then show ?thesis
    using hd_dropWhile_False [of "\<lambda>x. x = c" s] by (auto simp: strip_char_def r_def l_def lstrip_char_def)
qed

lemma hd_sub_runs: "s \<noteq> [] \<Longrightarrow> \<not> P (hd s) \<Longrightarrow> hd (sub_runs P c r s) = hd s"
  by (cases s) auto

definition demo_slug_char :: "char \<Rightarrow> bool" where
  "demo_slug_char c \<longleftrightarrow> slug_alnum c \<or> c = CHR ''-''"

lemma demo_slug_base_shape:
  "demo_slug_base name \<noteq> [] \<and> slug_alnum (hd (demo_slug_base name)) \<and>
   (\<forall>c \<in> set (demo_slug_base name). demo_slug_char c) \<and> length (demo_slug_base name) \<le> 48"
proof -
  define a where "a = py_lower (concat (map nfkd_ascii name))"
  define h where "h = strip_char CHR ''-'' (sub_runs (\<lambda>c. \<not> slug_alnum c) CHR ''-'' False a)"
  define g where "g = sub_runs (\<lambda>c. c = CHR ''-'') CHR ''-'' False h"
  have base: "demo_slug_base name = take 48 (if g = [] then ''demo'' else g)"
    by (simp add: demo_slug_base_def Let_def a_def h_def g_def)
  have h: "\<forall>c \<in> set h. demo_slug_char c"
    using set_strip_char set_sub_runs [of "\<lambda>c. \<not> slug_alnum c" "CHR ''-''" False a]
    unfolding h_def demo_slug_char_def by blast
  have g: "\<forall>c \<in> set g. demo_slug_char c"
    using set_sub_runs [of "\<lambda>c. c = CHR ''-''" "CHR ''-''" False h] h
    unfolding g_def demo_slug_char_def by blast
  have hd: "slug_alnum (hd g)" if "g \<noteq> []"
  proof -
    have ne: "h \<noteq> []" using that by (auto simp: g_def)
    then have "hd h \<noteq> CHR ''-''" unfolding h_def by (rule hd_strip_char)
    moreover have "hd h \<in> set h" using ne by simp
    ultimately show ?thesis using ne h by (auto simp: g_def hd_sub_runs demo_slug_char_def)
  qed
  have d: "\<forall>c \<in> set ''demo''. slug_alnum c" by (simp add: slug_alnum_def in_range_def)
  show ?thesis
  proof (cases "g = []")
    case True
    with d show ?thesis by (simp add: base demo_slug_char_def)
  next
    case False
    with g hd show ?thesis by (auto simp: base dest: in_set_takeD)
  qed
qed

lemma demo_slug_char_plain: "demo_slug_char c \<Longrightarrow> \<not> py_space c \<and> py_lower_char c = c"
  by (auto simp: demo_slug_char_def slug_alnum_def in_range_def py_space_def py_lower_char_def Let_def)

lemma py_lower_slug: "\<forall>c \<in> set s. demo_slug_char c \<Longrightarrow> py_lower s = s"
  using demo_slug_char_plain by (induction s) (auto simp: py_lower_def)

lemma py_strip_slug: "\<forall>c \<in> set s. demo_slug_char c \<Longrightarrow> py_strip s = s"
  using demo_slug_char_plain by (intro py_strip_no_space) blast

lemma digit_char_digit: "n < 10 \<Longrightarrow> in_range 48 57 (digit_char n)"
  by (simp add: in_range_def digit_char_def)

lemma str_of_nat_digits: "list_all (in_range 48 57) (str_of_nat n)"
  by (induction n rule: str_of_nat.induct)
    (subst str_of_nat.simps, auto simp: digit_char_digit)

lemma str_of_nat_not_Nil [simp]: "str_of_nat n \<noteq> []"
  by (subst str_of_nat.simps) simp

lemma Nil_not_str_of_nat [simp]: "[] \<noteq> str_of_nat n"
  using str_of_nat_not_Nil [of n] by (metis)

lemma str_of_nat_inj: "str_of_nat m = str_of_nat n \<longleftrightarrow> m = n"
  using parse_str_of_nat by (metis option.inject)

lemma length_str_of_nat: "n < 10 ^ k \<Longrightarrow> 0 < k \<Longrightarrow> length (str_of_nat n) \<le> k"
proof (induction k arbitrary: n)
  case 0
  then show ?case by simp
next
  case (Suc k)
  show ?case
  proof (cases "n < 10")
    case True
    then show ?thesis by (subst str_of_nat.simps) simp
  next
    case False
    then have "n div 10 < 10 ^ k" "0 < k" using Suc.prems by (auto intro!: less_mult_imp_div_less gr0I)
    then have "length (str_of_nat (n div 10)) \<le> k" by (rule Suc.IH)
    then show ?thesis using False by (subst str_of_nat.simps) simp
  qed
qed

lemma candidate_eq:
  assumes "length base \<le> 48" "n < 10000"
  shows "candidate_demo_slug base n = base @ (if n \<le> 1 then [] else str_of_nat n)"
proof -
  have "length (str_of_nat n) \<le> 4" using length_str_of_nat [of n 4] assms(2) by simp
  with assms(1) show ?thesis by (simp add: candidate_demo_slug_def Let_def)
qed

lemma candidate_chars:
  assumes "n < 10000"
  shows "\<forall>c \<in> set (candidate_demo_slug (demo_slug_base name) n). demo_slug_char c"
  using demo_slug_base_shape [of name] str_of_nat_digits [of n] assms
  by (auto simp: candidate_eq list_all_iff demo_slug_char_def slug_alnum_def)

text \<open>C10: the names proposed for a demo. Whatever the company is called, each of the 9999 candidates derived
  from its name is a valid slug of at most 52 characters, passes the check that guards the SQL text of the schema
  statements, is recognised as belonging to the company, and no two of them are equal.\<close>

theorem slug_candidates_valid:
  assumes "1 \<le> n" "n < 10000"
  shows "slug_is_valid (candidate_demo_slug (demo_slug_base name) n) \<and>
    length (candidate_demo_slug (demo_slug_base name) n) \<le> 52 \<and>
    schema_safe_slug (candidate_demo_slug (demo_slug_base name) n) \<and>
    slug_matches_demo_base (candidate_demo_slug (demo_slug_base name) n) (demo_slug_base name) \<and>
    (\<forall>m. 1 \<le> m \<longrightarrow> m < 10000 \<longrightarrow>
       candidate_demo_slug (demo_slug_base name) m = candidate_demo_slug (demo_slug_base name) n \<longrightarrow> m = n)"
proof -
  let ?b = "demo_slug_base name" and ?c = "candidate_demo_slug (demo_slug_base name) n"
  note b = demo_slug_base_shape [of name]
  have c: "?c = ?b @ (if n \<le> 1 then [] else str_of_nat n)" using b assms by (simp add: candidate_eq)
  have ch: "\<forall>c \<in> set ?c. demo_slug_char c" using assms by (intro candidate_chars) simp
  have len: "length ?c \<le> 52"
    using length_str_of_nat [of n 4] b assms by (auto simp: c)
  have pat: "slug_pattern ?c"
  proof (cases ?b)
    case Nil
    with b show ?thesis by simp
  next
    case (Cons x xs)
    with b ch c show ?thesis by (auto simp: slug_pattern_def list_all_iff demo_slug_char_def)
  qed
  have safe: "schema_safe_slug ?c"
    using ch by (auto simp: schema_safe_slug_def filter_id_conv demo_slug_char_def slug_alnum_def py_isalnum_def py_isdigit_def)
  have bl: "py_lower (py_strip ?b) = ?b" "py_lower (py_strip ?c) = ?c"
    using b ch by (simp_all add: py_lower_slug py_strip_slug)
  have dig: "list_all py_isdigit (str_of_nat n)"
    using str_of_nat_digits [of n] by (auto simp: list_all_iff py_isdigit_def)
  have match: "slug_matches_demo_base ?c ?b"
    unfolding slug_matches_demo_base_def bl using b dig by (auto simp: c Let_def)
  have "m = n" if "1 \<le> m" "m < 10000" "candidate_demo_slug ?b m = ?c" for m
    using that b assms by (auto simp: candidate_eq str_of_nat_inj dest: sym split: if_splits)
  with pat len safe match show ?thesis by (simp add: slug_is_valid_def)
qed

lemma slug_candidates_valid_witness:
  "candidate_demo_slug (demo_slug_base (''Kov'' @ [CHR 0xE1] @ ''cs Kft.'')) 12 = ''kovacs-kft12'' \<and>
   slug_is_valid (candidate_demo_slug (demo_slug_base (''Kov'' @ [CHR 0xE1] @ ''cs Kft.'')) 12) \<and>
   schema_safe_slug (candidate_demo_slug (demo_slug_base (''Kov'' @ [CHR 0xE1] @ ''cs Kft.'')) 12)"
proof -
  have "candidate_demo_slug (demo_slug_base (''Kov'' @ [CHR 0xE1] @ ''cs Kft.'')) 12 = ''kovacs-kft12''" by code_simp
  then show ?thesis using slug_candidates_valid [of 12 "''Kov'' @ [CHR 0xE1] @ ''cs Kft.''"] by simp
qed

end
