(* ===== verification/Settings_Service.thy ===== *)
theory Settings_Service
  imports Hu_Tax_Id Tenant_Slug "HOL-Library.AList"
begin

text \<open>
  The settings of one tenant: the table of keys and values (\<open>core/modules/settings/\<close>) and the settings
  application on top of it (\<open>apps/settings/\<close>: billing profile, fixed locale, facade, HTTP handlers). A result
  \<open>dict\<close> of texts is an association list in the order of the source. The user who writes is kept only where a
  check depends on the role; requests are validated as their pydantic models say.
\<close>

section \<open>The table\<close>

datatype settings_audit = Two_factor_changed bool bool | Keys_changed "string list"

record settings_store =
  se_rows :: "(string \<times> string) list"
  se_audit :: "settings_audit list"

datatype settings_error = Settings_value_error string | Settings_http_error int string

type_synonym 'a settings_op = "(settings_store, settings_error, 'a) py"

definition get_by_key :: "settings_store \<Rightarrow> string \<Rightarrow> string option" where
  "get_by_key s key = map_of (se_rows s) key"

definition set_value :: "string \<Rightarrow> string \<Rightarrow> unit settings_op" where
  "set_value key val = py_modify (\<lambda>s. s\<lparr>se_rows := AList.update key val (se_rows s)\<rparr>)"

section \<open>The service of the core\<close>

definition allowed_timezones :: "string list" where
  "allowed_timezones = [
     ''UTC'', ''Europe/London'', ''Europe/Paris'', ''Europe/Berlin'', ''Europe/Madrid'', ''Europe/Rome'',
     ''Europe/Amsterdam'', ''Europe/Zurich'', ''Europe/Vienna'', ''Europe/Prague'', ''Europe/Warsaw'',
     ''Europe/Budapest'', ''Europe/Athens'', ''Europe/Bucharest'', ''Europe/Istanbul'', ''Asia/Dubai'',
     ''Asia/Kolkata'', ''Asia/Singapore'', ''Asia/Hong_Kong'', ''Asia/Shanghai'', ''Asia/Seoul'', ''Asia/Tokyo'',
     ''Australia/Sydney'', ''America/Toronto'', ''America/New_York'', ''America/Chicago'', ''America/Denver'',
     ''America/Los_Angeles'', ''America/Mexico_City'', ''America/Sao_Paulo'', ''Africa/Cairo'',
     ''Africa/Johannesburg'']"

definition allowed_date_formats :: "string list" where
  "allowed_date_formats = [''YYYY-MM-DD'', ''DD.MM.YYYY'', ''DD/MM/YYYY'', ''MM/DD/YYYY'']"

definition allowed_time_formats :: "string list" where
  "allowed_time_formats = [''HH:mm'', ''HH:mm:ss'', ''hh:mm A'']"

definition is_two_factor_enabled :: "settings_store \<Rightarrow> bool" where
  "is_two_factor_enabled s =
     (case get_by_key s ''two_factor_enabled'' of None \<Rightarrow> False | Some v \<Rightarrow> py_lower v = ''true'')"

definition set_two_factor_enabled :: "bool \<Rightarrow> unit settings_op" where
  "set_two_factor_enabled enabled =
     py_bind (py_gets is_two_factor_enabled) (\<lambda>previous_value.
     py_seq (set_value ''two_factor_enabled'' (if enabled then ''true'' else ''false''))
       (if previous_value \<noteq> enabled
        then py_modify (\<lambda>s. s\<lparr>se_audit := se_audit s @ [Two_factor_changed previous_value enabled]\<rparr>)
        else py_return ()))"

definition update_two_factor_settings :: "bool option \<Rightarrow> bool settings_op" where
  "update_two_factor_settings two_factor_enabled =
     py_seq (case two_factor_enabled of None \<Rightarrow> py_return () | Some b \<Rightarrow> set_two_factor_enabled b)
       (py_gets is_two_factor_enabled)"

definition get_choice :: "string list \<Rightarrow> string \<Rightarrow> string \<Rightarrow> settings_store \<Rightarrow> string" where
  "get_choice allowed default_value key s =
     (case get_by_key s key of None \<Rightarrow> default_value | Some v \<Rightarrow> if v \<in> set allowed then v else default_value)"

definition get_timezone :: "settings_store \<Rightarrow> string" where
  "get_timezone = get_choice allowed_timezones ''UTC'' ''timezone''"

definition get_date_format :: "settings_store \<Rightarrow> string" where
  "get_date_format = get_choice allowed_date_formats ''YYYY-MM-DD'' ''date_format''"

definition get_time_format :: "settings_store \<Rightarrow> string" where
  "get_time_format = get_choice allowed_time_formats ''HH:mm'' ''time_format''"

definition set_choice :: "string list \<Rightarrow> string \<Rightarrow> string \<Rightarrow> string \<Rightarrow> unit settings_op" where
  "set_choice allowed message key val =
     (let normalized = py_strip val in
      if normalized \<notin> set allowed then py_raise (Settings_value_error message) else set_value key normalized)"

definition set_timezone :: "string \<Rightarrow> unit settings_op" where
  "set_timezone = set_choice allowed_timezones ''invalid_timezone'' ''timezone''"

definition set_date_format :: "string \<Rightarrow> unit settings_op" where
  "set_date_format = set_choice allowed_date_formats ''invalid_date_format'' ''date_format''"

definition set_time_format :: "string \<Rightarrow> unit settings_op" where
  "set_time_format = set_choice allowed_time_formats ''invalid_time_format'' ''time_format''"

definition get_locale_settings :: "settings_store \<Rightarrow> (string \<times> string) list" where
  "get_locale_settings s =
     [(''timezone'', get_timezone s), (''date_format'', get_date_format s), (''time_format'', get_time_format s)]"

definition get_text_setting :: "settings_store \<Rightarrow> string \<Rightarrow> string" where
  "get_text_setting s key = str_or (get_by_key s key) []"

definition set_text_setting :: "string \<Rightarrow> string option \<Rightarrow> unit settings_op" where
  "set_text_setting key v = (case v of None \<Rightarrow> py_return () | Some t \<Rightarrow> set_value key (take 500 (py_strip t)))"

definition get_billing_profile :: "settings_store \<Rightarrow> (string \<times> string) list" where
  "get_billing_profile s =
     (let text = get_text_setting s in
      [(''billing_customer_type'', if text ''billing_customer_type'' = [] then ''company'' else text ''billing_customer_type''),
       (''billing_full_name'', text ''billing_full_name''), (''billing_company_name'', text ''billing_company_name''),
       (''billing_tax_id'', text ''billing_tax_id''), (''billing_address_line'', text ''billing_address_line''),
       (''billing_postal_code'', text ''billing_postal_code''), (''billing_city'', text ''billing_city''),
       (''billing_region'', text ''billing_region''), (''billing_country'', text ''billing_country''),
       (''google_review_url'', text ''google_review_url'')])"

text \<open>The arguments of an update of the profile, as \<open>BillingSettingsUpdate\<close>.\<close>

record billing_update =
  bu_customer_type :: "string option"
  bu_full_name :: "string option"
  bu_company_name :: "string option"
  bu_tax_id :: "string option"
  bu_address_line :: "string option"
  bu_postal_code :: "string option"
  bu_city :: "string option"
  bu_region :: "string option"
  bu_country :: "string option"
  bu_google_review_url :: "string option"

definition update_items :: "billing_update \<Rightarrow> (string \<times> string option) list" where
  "update_items u =
     [(''billing_customer_type'', bu_customer_type u), (''billing_full_name'', bu_full_name u),
      (''billing_company_name'', bu_company_name u), (''billing_tax_id'', bu_tax_id u),
      (''billing_address_line'', bu_address_line u), (''billing_postal_code'', bu_postal_code u),
      (''billing_city'', bu_city u), (''billing_region'', bu_region u), (''billing_country'', bu_country u),
      (''google_review_url'', bu_google_review_url u)]"

definition no_update :: billing_update where
  "no_update = \<lparr>bu_customer_type = None, bu_full_name = None, bu_company_name = None, bu_tax_id = None,
     bu_address_line = None, bu_postal_code = None, bu_city = None, bu_region = None, bu_country = None,
     bu_google_review_url = None\<rparr>"

text \<open>The snapshot: the second factor, and the texts of locale and profile.\<close>

definition get_settings_snapshot :: "settings_store \<Rightarrow> bool \<times> (string \<times> string) list" where
  "get_settings_snapshot s = (is_two_factor_enabled s, get_locale_settings s @ get_billing_profile s)"

definition audit_settings_changed ::
  "bool \<times> (string \<times> string) list \<Rightarrow> bool \<times> (string \<times> string) list \<Rightarrow> unit settings_op" where
  "audit_settings_changed before after =
     (let changed_keys = map fst (filter (\<lambda>(key, v). map_of (snd before) key \<noteq> Some v) (snd after))
      in if changed_keys = [] then py_return ()
         else py_modify (\<lambda>s. s\<lparr>se_audit := se_audit s @ [Keys_changed changed_keys]\<rparr>))"

definition opt_set :: "(string \<Rightarrow> unit settings_op) \<Rightarrow> string option \<Rightarrow> unit settings_op" where
  "opt_set setter v = (case v of None \<Rightarrow> py_return () | Some t \<Rightarrow> setter t)"

definition update_locale_settings ::
  "string option \<Rightarrow> string option \<Rightarrow> string option \<Rightarrow> (string \<times> string) list settings_op" where
  "update_locale_settings timezone date_format time_format =
     py_bind (py_gets get_settings_snapshot) (\<lambda>before.
     py_seq (opt_set set_timezone timezone)
    (py_seq (opt_set set_date_format date_format)
    (py_seq (opt_set set_time_format time_format)
    (py_bind (py_gets get_settings_snapshot) (\<lambda>after.
     py_seq (audit_settings_changed before after) (py_gets get_locale_settings))))))"

definition set_text_settings :: "(string \<times> string option) list \<Rightarrow> unit settings_op" where
  "set_text_settings items = py_fold (\<lambda>(key, v) _. set_text_setting key v) items ()"

definition update_billing_profile :: "billing_update \<Rightarrow> (string \<times> string) list settings_op" where
  "update_billing_profile u =
     py_bind (py_gets get_settings_snapshot) (\<lambda>before.
     py_seq (set_text_settings (update_items u))
    (py_bind (py_gets get_settings_snapshot) (\<lambda>after.
     py_seq (audit_settings_changed before after) (py_gets get_billing_profile))))"

definition given :: "billing_update \<Rightarrow> bool" where
  "given u \<longleftrightarrow> list_ex (\<lambda>(_, v). v \<noteq> None) (update_items u)"

definition core_update_settings ::
  "bool option \<Rightarrow> string option \<Rightarrow> string option \<Rightarrow> string option \<Rightarrow> billing_update \<Rightarrow>
   (bool \<times> (string \<times> string) list) settings_op" where
  "core_update_settings two_factor_enabled timezone date_format time_format u =
     py_seq (if two_factor_enabled \<noteq> None then py_bind (update_two_factor_settings two_factor_enabled) (\<lambda>_. py_return ())
             else py_return ())
    (py_seq (if timezone \<noteq> None \<or> date_format \<noteq> None \<or> time_format \<noteq> None
             then py_bind (update_locale_settings timezone date_format time_format) (\<lambda>_. py_return ())
             else py_return ())
    (py_seq (if given u then py_bind (update_billing_profile u) (\<lambda>_. py_return ()) else py_return ())
       (py_gets get_settings_snapshot)))"

section \<open>The settings application\<close>

text \<open>\<open>BillingSettingsValidator.validate\<close>.\<close>

definition validate_billing :: "billing_update \<Rightarrow> settings_error + billing_update" where
  "validate_billing u =
     (let stripped = (\<lambda>v. py_strip (str_or v []));
          customer_type = (if stripped (bu_customer_type u) = [] then ''company'' else stripped (bu_customer_type u));
          url = map_option (\<lambda>v. normalize_google_review_url (Some v)) (bu_google_review_url u)
      in if customer_type \<noteq> ''company'' then Inl (Settings_http_error 422 ''Only company billing is supported.'')
         else if (case url of None \<Rightarrow> False | Some v \<Rightarrow> v \<noteq> [] \<and> \<not> is_valid_google_review_url (Some v))
         then Inl (Settings_http_error 422 ''Invalid Google review URL.'')
         else if list_ex (\<lambda>v. stripped v = [])
             [bu_company_name u, bu_tax_id u, bu_postal_code u, bu_city u, bu_address_line u]
         then Inl (Settings_http_error 422 ''All company billing fields are required.'')
         else if \<not> is_valid_hu_tax_id (bu_tax_id u)
         then Inl (Settings_http_error 422 ''Invalid Hungarian tax ID.'')
         else Inr \<lparr>bu_customer_type = Some ''company'', bu_full_name = Some [],
                bu_company_name = Some (stripped (bu_company_name u)), bu_tax_id = Some (normalize_hu_tax_id (bu_tax_id u)),
                bu_address_line = Some (stripped (bu_address_line u)), bu_postal_code = Some (stripped (bu_postal_code u)),
                bu_city = Some (stripped (bu_city u)), bu_region = Some [], bu_country = Some ''HU'',
                bu_google_review_url = url\<rparr>)"

text \<open>\<open>BillingSettingsState\<close> as the list of its fields; the empty customer type reads \<open>company\<close>.\<close>

definition coerce_billing_settings :: "(string \<times> string) list \<Rightarrow> (string \<times> string) list" where
  "coerce_billing_settings payload = map (\<lambda>(key, d). (key, str_or (map_of payload key) d))
     [(''billing_customer_type'', ''company''), (''billing_full_name'', []), (''billing_company_name'', []),
      (''billing_tax_id'', []), (''billing_address_line'', []), (''billing_postal_code'', []), (''billing_city'', []),
      (''billing_region'', []), (''billing_country'', []), (''google_review_url'', [])]"

definition get_billing_settings :: "settings_store \<Rightarrow> (string \<times> string) list" where
  "get_billing_settings s = coerce_billing_settings (get_billing_profile s)"

definition update_billing_settings :: "billing_update \<Rightarrow> (string \<times> string) list settings_op" where
  "update_billing_settings payload =
     py_bind (py_lift (validate_billing payload)) (\<lambda>valid_payload.
     py_bind (update_billing_profile valid_payload) (\<lambda>state.
     py_return (coerce_billing_settings state)))"

definition fixed_locale_settings :: "(string \<times> string) list" where
  "fixed_locale_settings = [(''timezone'', ''Europe/Budapest''), (''date_format'', ''YYYY-MM-DD''), (''time_format'', ''HH:mm'')]"

definition coerce_settings_state ::
  "bool \<times> (string \<times> string) list \<Rightarrow> bool \<times> (string \<times> string) list" where
  "coerce_settings_state payload =
     (fst payload, map (\<lambda>(key, d). (key, str_or (map_of (snd payload) key) d)) fixed_locale_settings @
        coerce_billing_settings (snd payload))"

definition facade_get_settings :: "settings_store \<Rightarrow> bool \<times> (string \<times> string) list" where
  "facade_get_settings s =
     (let state = coerce_settings_state (get_settings_snapshot s)
      in (fst state, fixed_locale_settings @ drop (length fixed_locale_settings) (snd state)))"

definition facade_update_locale_settings ::
  "string option \<Rightarrow> string option \<Rightarrow> string option \<Rightarrow> (string \<times> string) list settings_op" where
  "facade_update_locale_settings timezone date_format time_format = py_return fixed_locale_settings"

definition facade_update_settings ::
  "bool option \<Rightarrow> string option \<Rightarrow> string option \<Rightarrow> string option \<Rightarrow> billing_update \<Rightarrow>
   (bool \<times> (string \<times> string) list) settings_op" where
  "facade_update_settings two_factor_enabled timezone date_format time_format u =
     py_bind (if given u then py_lift (validate_billing u) else py_return u) (\<lambda>billing_payload.
     py_bind (core_update_settings two_factor_enabled timezone date_format time_format billing_payload) (\<lambda>state.
     py_return (coerce_settings_state state)))"

section \<open>HTTP handlers\<close>

text \<open>\<open>role\<close> is the role of the user that passed the permission \<open>settings.write\<close>.\<close>

definition patch_billing_settings :: "string \<Rightarrow> billing_update \<Rightarrow> (string \<times> string) list settings_op" where
  "patch_billing_settings role body =
     (if role \<notin> {''owner'', ''admin''}
      then py_raise (Settings_http_error 403 ''Only owner or admin can update billing settings.'')
      else update_billing_settings body)"

definition patch_settings ::
  "string \<Rightarrow> bool option \<Rightarrow> string option \<Rightarrow> string option \<Rightarrow> string option \<Rightarrow> billing_update \<Rightarrow>
   (bool \<times> (string \<times> string) list) settings_op" where
  "patch_settings role two_factor_enabled timezone date_format time_format body =
     (if given body \<and> role \<notin> {''owner'', ''admin''}
      then py_raise (Settings_http_error 403 ''Only owner or admin can update billing settings.'')
      else facade_update_settings two_factor_enabled timezone date_format time_format body)"

definition patch_two_factor_settings :: "bool option \<Rightarrow> bool settings_op" where
  "patch_two_factor_settings two_factor_enabled = update_two_factor_settings two_factor_enabled"

end
