(* ===== verification/Settings_Facts.thy ===== *)
theory Settings_Facts
  imports Settings_Service
begin

text \<open>
  Facts about the settings: what an accepted update of the billing profile stores and what a later read gives,
  and that a refused request writes nothing. The lemmas on the text of links show that a valid link is its own
  normal form.
\<close>

section \<open>The table\<close>

lemma get_by_key_set_value:
  "get_by_key (snd (set_value key val s)) k = (if k = key then Some val else get_by_key s k)"
  by (simp add: set_value_def get_by_key_def update_conv')

lemma run_set_text:
  "fst (set_text_setting key v s) = Inr () \<and>
   get_by_key (snd (set_text_setting key v s)) k =
     (if k = key \<and> v \<noteq> None then Some (take 500 (py_strip (the v))) else get_by_key s k)"
  by (cases v) (simp_all add: set_text_setting_def get_by_key_set_value, simp add: set_value_def)

lemma run_set_texts:
  "distinct (map fst items) \<Longrightarrow>
   fst (set_text_settings items s) = Inr () \<and>
   get_by_key (snd (set_text_settings items s)) k =
     (case map_of items k of Some (Some v) \<Rightarrow> Some (take 500 (py_strip v)) | _ \<Rightarrow> get_by_key s k)"
proof (induction items arbitrary: s)
  case Nil
  then show ?case by (simp add: set_text_settings_def)
next
  case (Cons item items)
  obtain key v where item: "item = (key, v)" by (cases item)
  have run: "fst (set_text_setting key v s) = Inr ()" using run_set_text by blast
  have step: "set_text_settings ((key, v) # items) s = set_text_settings items (snd (set_text_setting key v s))"
    by (simp add: set_text_settings_def py_run_bind run)
  have "map_of items key = None" using Cons.prems by (auto simp: item map_of_eq_None_iff image_iff)
  moreover have "distinct (map fst items)" using Cons.prems by simp
  ultimately show ?case
    using Cons.IH [of "snd (set_text_setting key v s)"] run_set_text [of key v s k]
    unfolding item step by (auto split: option.splits)
qed

lemma audit_keeps: "se_rows (snd (audit_settings_changed before after s)) = se_rows s"
  "fst (audit_settings_changed before after s) = Inr ()"
  by (auto simp: audit_settings_changed_def Let_def)

lemma get_by_key_rows: "se_rows s = se_rows s' \<Longrightarrow> get_by_key s = get_by_key s'"
  by (simp add: get_by_key_def fun_eq_iff)

lemma profile_rows: "get_by_key s = get_by_key s' \<Longrightarrow> get_billing_profile s = get_billing_profile s'"
  by (simp add: get_billing_profile_def get_text_setting_def)

lemma distinct_update_items: "distinct (map fst (update_items u))"
  by (simp add: update_items_def)

lemma run_update_profile:
  "\<exists>s'. update_billing_profile u s = (Inr (get_billing_profile s'), s') \<and>
     (\<forall>k. get_by_key s' k = (case map_of (update_items u) k of Some (Some v) \<Rightarrow> Some (take 500 (py_strip v))
        | _ \<Rightarrow> get_by_key s k))"
proof -
  define m where "m = snd (set_text_settings (update_items u) s)"
  have r: "fst (set_text_settings (update_items u) s) = Inr ()"
    using run_set_texts [OF distinct_update_items] by blast
  define s' where "s' = snd (audit_settings_changed (get_settings_snapshot s) (get_settings_snapshot m) m)"
  have "update_billing_profile u s = (Inr (get_billing_profile s'), s')"
    by (simp add: update_billing_profile_def py_run_bind py_run_seq r m_def [symmetric] s'_def audit_keeps)
  moreover have "get_by_key s' = get_by_key m"
    by (rule get_by_key_rows) (simp add: s'_def audit_keeps)
  ultimately show ?thesis using run_set_texts [OF distinct_update_items, of u s] by (auto simp: m_def)
qed

section \<open>Links and numbers in normal form\<close>

lemma py_strip_id: "s \<noteq> [] \<Longrightarrow> \<not> py_space (hd s) \<Longrightarrow> \<not> py_space (last s) \<Longrightarrow> py_strip s = s"
  by (simp add: py_strip_def py_lstrip_def dropWhile_id hd_rev)

lemma rstrip_char_id: "s = [] \<or> last s \<noteq> c \<Longrightarrow> rstrip_char c s = s"
  by (cases "s = []") (auto simp: rstrip_char_def lstrip_char_def dropWhile_id hd_rev)

lemma py_lower_char_plain:
  "py_lower_char c = CHR ''h'' \<Longrightarrow> \<not> py_space c" "py_lower_char c = CHR ''w'' \<Longrightarrow> \<not> py_space c \<and> c \<noteq> CHR ''/''"
  by (auto simp: py_space_def py_lower_char_def Let_def split: if_splits)

lemma valid_review_url_ends:
  assumes "is_valid_google_review_url x"
  shows "normalize_google_review_url x \<noteq> [] \<and> py_lower_char (hd (normalize_google_review_url x)) = CHR ''h'' \<and>
    py_lower_char (last (normalize_google_review_url x)) = CHR ''w''"
proof -
  define n where "n = normalize_google_review_url x"
  define u where "u = n @ ''/''"
  define key where "key = takeWhile (\<lambda>c. c \<noteq> CHR ''/'') (drop 17 u)"
  define rest where "rest = drop (17 + length key) u"
  have v: "n \<noteq> []" "py_lower (take 17 u) = ''https://g.page/r/''" "py_lower rest = ''/review/''"
    using assms by (simp_all add: is_valid_google_review_url_def Let_def n_def key_def rest_def u_def split: if_splits)
  have "map py_lower_char (take 17 u) = ''https://g.page/r/''" using v(2) by (simp add: py_lower_def)
  then have "py_lower_char (hd (take 17 u)) = CHR ''h''" by (cases "take 17 u") auto
  then have hd: "py_lower_char (hd n) = CHR ''h''" using v(1) by (cases n) (auto simp: u_def)
  have "n = butlast u" by (simp add: u_def)
  moreover have "take (17 + length key) u @ rest = u" by (simp add: rest_def)
  moreover have "rest \<noteq> []" using v(3) by auto
  ultimately have n: "n = take (17 + length key) u @ butlast rest" by (metis butlast_append)
  have bl: "map py_lower_char (butlast rest) = ''/review''"
    using arg_cong [OF v(3), of butlast] by (simp add: py_lower_def map_butlast)
  then have "butlast rest \<noteq> []" by auto
  then have "py_lower_char (last n) = last (map py_lower_char (butlast rest))" by (simp add: n last_map)
  with bl hd v(1) show ?thesis by (simp add: n_def [symmetric])
qed

lemma valid_review_url_normal:
  assumes "is_valid_google_review_url x"
  defines "n \<equiv> normalize_google_review_url x"
  shows "normalize_google_review_url (Some n) = n \<and> is_valid_google_review_url (Some n) \<and> py_strip n = n \<and> n \<noteq> []"
proof -
  have e: "n \<noteq> []" "\<not> py_space (hd n)" "\<not> py_space (last n)" "last n \<noteq> CHR ''/''"
    using valid_review_url_ends [OF assms(1)] py_lower_char_plain by (auto simp: n_def)
  then have s: "py_strip n = n" by (intro py_strip_id)
  with e have "normalize_google_review_url (Some n) = n"
    by (simp add: normalize_google_review_url_def Let_def rstrip_char_id)
  then have "is_valid_google_review_url (Some n)"
    using assms(1) unfolding is_valid_google_review_url_def n_def by simp
  with \<open>normalize_google_review_url (Some n) = n\<close> s e show ?thesis by simp
qed

section \<open>Updates of the profile\<close>

text \<open>The fields as the arguments of the next update: what a client sends back after reading.\<close>

definition as_update :: "(string \<times> string) list \<Rightarrow> billing_update" where
  "as_update p = (let f = map_of p in
     \<lparr>bu_customer_type = f ''billing_customer_type'', bu_full_name = f ''billing_full_name'',
      bu_company_name = f ''billing_company_name'', bu_tax_id = f ''billing_tax_id'',
      bu_address_line = f ''billing_address_line'', bu_postal_code = f ''billing_postal_code'',
      bu_city = f ''billing_city'', bu_region = f ''billing_region'', bu_country = f ''billing_country'',
      bu_google_review_url = f ''google_review_url''\<rparr>)"

definition short_texts :: "billing_update \<Rightarrow> bool" where
  "short_texts u \<longleftrightarrow> list_all (\<lambda>(_, v). length (str_or v []) \<le> 500) (update_items u)"

lemma length_py_strip: "length (py_strip s) \<le> length s"
proof -
  have "length (dropWhile py_space (rev (dropWhile py_space s))) \<le> length s"
    by (metis length_dropWhile_le length_rev le_trans)
  then show ?thesis by (simp add: py_strip_def py_lstrip_def)
qed

lemma length_strip_char: "length (rstrip_char c s) \<le> length s"
  by (metis length_dropWhile_le length_rev lstrip_char_def rstrip_char_def)

lemma length_review_url: "length (normalize_google_review_url x) \<le> length (str_or x [])"
  using length_py_strip [of "str_or x []"] length_strip_char [of "CHR ''/''" "py_strip (str_or x [])"]
  by (auto simp: normalize_google_review_url_def Let_def)

lemma take_strip: "length v \<le> 500 \<Longrightarrow> take 500 (py_strip (py_strip v)) = py_strip v"
  using length_py_strip [of v] by (simp add: py_strip_idem)

lemma tax_normal: "is_valid_hu_tax_id (Some (normalize_hu_tax_id v)) = is_valid_hu_tax_id v"
  "normalize_hu_tax_id (Some (normalize_hu_tax_id v)) = normalize_hu_tax_id v"
proof -
  show "is_valid_hu_tax_id (Some (normalize_hu_tax_id v)) = is_valid_hu_tax_id v"
    by (simp add: is_valid_hu_tax_id_def digits_of_normalized)
  show "normalize_hu_tax_id (Some (normalize_hu_tax_id v)) = normalize_hu_tax_id v"
    by (subst (1 3) normalize_hu_tax_id_def) (simp add: digits_of_normalized)
qed

lemma tax_text:
  assumes "is_valid_hu_tax_id v"
  shows "py_strip (normalize_hu_tax_id v) = normalize_hu_tax_id v \<and> normalize_hu_tax_id v \<noteq> [] \<and>
    length (normalize_hu_tax_id v) \<le> 500"
proof -
  have len: "length (digits_only v) = 11" using assms by (simp add: is_valid_hu_tax_id_def Let_def)
  then have n: "normalize_hu_tax_id v = take 8 (digits_only v) @ ''-'' @ [digits_only v ! 8] @ ''-'' @ drop 9 (digits_only v)"
    by (auto simp: normalize_hu_tax_id_def Let_def)
  have "\<not> py_space c" if "c \<in> set (normalize_hu_tax_id v)" for c
  proof -
    have "set (normalize_hu_tax_id v) \<subseteq> set (digits_only v) \<union> {CHR ''-''}"
      unfolding n using len by (auto dest: in_set_takeD in_set_dropD)
    then have "is_digit c \<or> c = CHR ''-''" using that digits_only_digits by blast
    moreover have "\<not> py_space CHR ''-''" by (simp add: py_space_def)
    ultimately show ?thesis using digit_not_space by blast
  qed
  then have "py_strip (normalize_hu_tax_id v) = normalize_hu_tax_id v" by (intro py_strip_no_space) blast
  moreover have "length (normalize_hu_tax_id v) = 13" using n len by simp
  ultimately show ?thesis by (cases "normalize_hu_tax_id v") simp_all
qed

lemma validate_billing_Inr:
  assumes "validate_billing u = Inr v"
  obtains company tax postal city address where
    "v = \<lparr>bu_customer_type = Some ''company'', bu_full_name = Some [], bu_company_name = Some company,
       bu_tax_id = Some tax, bu_address_line = Some address, bu_postal_code = Some postal, bu_city = Some city,
       bu_region = Some [], bu_country = Some ''HU'',
       bu_google_review_url = map_option (\<lambda>x. normalize_google_review_url (Some x)) (bu_google_review_url u)\<rparr>"
    "company = py_strip (str_or (bu_company_name u) [])" "postal = py_strip (str_or (bu_postal_code u) [])"
    "city = py_strip (str_or (bu_city u) [])" "address = py_strip (str_or (bu_address_line u) [])"
    "tax = normalize_hu_tax_id (bu_tax_id u)" "is_valid_hu_tax_id (bu_tax_id u)"
    "company \<noteq> []" "postal \<noteq> []" "city \<noteq> []" "address \<noteq> []"
    "\<And>x. bu_google_review_url u = Some x \<Longrightarrow>
       normalize_google_review_url (Some x) = [] \<or> is_valid_google_review_url (Some (normalize_google_review_url (Some x)))"
  using assms by (auto simp: validate_billing_def Let_def split: if_splits option.splits)

lemma run_update_billing:
  assumes v: "validate_billing u = Inr v"
  shows "\<exists>s'. update_billing_settings u s = (Inr (get_billing_settings s'), s') \<and>
     (\<forall>k. get_by_key s' k = (case map_of (update_items v) k of Some (Some v) \<Rightarrow> Some (take 500 (py_strip v))
        | _ \<Rightarrow> get_by_key s k))"
  using run_update_profile [of v s] v
  by (auto simp: update_billing_settings_def get_billing_settings_def py_run_bind py_run_lift)

lemma rstrip_char_last: "rstrip_char c s = [] \<or> last (rstrip_char c s) \<noteq> c"
  using hd_dropWhile_False [of "\<lambda>x. x = c" "rev s"] by (auto simp: rstrip_char_def lstrip_char_def last_rev)

lemma set_rstrip_char: "set (rstrip_char c s) \<subseteq> set s"
  by (auto simp: rstrip_char_def lstrip_char_def dest!: set_dropWhileD)

lemma review_url_text:
  assumes "list_all (\<lambda>c. \<not> py_space c) (py_strip x)"
  defines "n \<equiv> normalize_google_review_url (Some x)"
  shows "py_strip n = n \<and> normalize_google_review_url (Some n) = n"
proof -
  have n: "n = [] \<or> n = rstrip_char CHR ''/'' (py_strip x)"
    by (auto simp: n_def normalize_google_review_url_def Let_def str_or_def)
  then have "\<forall>c \<in> set n. \<not> py_space c" using assms(1) set_rstrip_char by (fastforce simp: list_all_iff)
  then have s: "py_strip n = n" by (rule py_strip_no_space)
  have "rstrip_char CHR ''/'' n = n" using n rstrip_char_last by (intro rstrip_char_id) metis
  with s show ?thesis by (cases "n = []") (simp_all add: normalize_google_review_url_def Let_def)
qed

text \<open>A request whose texts fit their columns and whose link contains no blank.\<close>

definition plain_request :: "billing_update \<Rightarrow> bool" where
  "plain_request u \<longleftrightarrow> short_texts u \<and>
     (case bu_google_review_url u of None \<Rightarrow> False | Some x \<Rightarrow> list_all (\<lambda>c. \<not> py_space c) (py_strip x))"

lemma saved_profile:
  assumes "plain_request u" "validate_billing u = Inr v"
    and "\<forall>k. get_by_key s' k = (case map_of (update_items v) k of Some (Some v) \<Rightarrow> Some (take 500 (py_strip v))
        | _ \<Rightarrow> get_by_key s k)"
  shows "as_update (get_billing_settings s') = v \<and>
    validate_billing (as_update (get_billing_settings s')) = Inr v"
proof -
  obtain company tax postal city address where v:
    "v = \<lparr>bu_customer_type = Some ''company'', bu_full_name = Some [], bu_company_name = Some company,
       bu_tax_id = Some tax, bu_address_line = Some address, bu_postal_code = Some postal, bu_city = Some city,
       bu_region = Some [], bu_country = Some ''HU'',
       bu_google_review_url = map_option (\<lambda>x. normalize_google_review_url (Some x)) (bu_google_review_url u)\<rparr>"
    and t: "company = py_strip (str_or (bu_company_name u) [])" "postal = py_strip (str_or (bu_postal_code u) [])"
      "city = py_strip (str_or (bu_city u) [])" "address = py_strip (str_or (bu_address_line u) [])"
      "tax = normalize_hu_tax_id (bu_tax_id u)" "is_valid_hu_tax_id (bu_tax_id u)"
    and ne: "company \<noteq> []" "postal \<noteq> []" "city \<noteq> []" "address \<noteq> []"
    and url: "\<And>x. bu_google_review_url u = Some x \<Longrightarrow>
       normalize_google_review_url (Some x) = [] \<or> is_valid_google_review_url (Some (normalize_google_review_url (Some x)))"
    by (rule validate_billing_Inr [OF assms(2)]) blast
  obtain x where x: "bu_google_review_url u = Some x" "list_all (\<lambda>c. \<not> py_space c) (py_strip x)" "length x \<le> 500"
    using assms(1) by (auto simp: plain_request_def short_texts_def update_items_def str_or_def split: option.splits if_splits)
  define n where "n = normalize_google_review_url (Some x)"
  have n: "py_strip n = n" "normalize_google_review_url (Some n) = n" "length n \<le> 500"
      "n = [] \<or> is_valid_google_review_url (Some n)"
    using review_url_text [OF x(2)] length_review_url [of "Some x"] url [OF x(1)] x(3)
    by (auto simp: n_def str_or_def split: if_splits)
  have texts: "take 500 (py_strip company) = company" "take 500 (py_strip postal) = postal"
      "take 500 (py_strip city) = city" "take 500 (py_strip address) = address"
    using assms(1) unfolding t plain_request_def short_texts_def update_items_def
    by (auto intro!: take_strip simp: list_all_iff)
  have tax: "take 500 (py_strip tax) = tax" "tax \<noteq> []" "is_valid_hu_tax_id (Some tax)" "normalize_hu_tax_id (Some tax) = tax"
      "py_strip tax = tax"
    using tax_text [OF t(6)] t(6) by (simp_all add: t(5) tax_normal)
  have strips: "py_strip company = company" "py_strip postal = postal" "py_strip city = city" "py_strip address = address"
    by (simp_all add: t py_strip_idem)
  have g: "get_by_key s' k = (case map_of (update_items v) k of Some (Some v) \<Rightarrow> Some (take 500 (py_strip v))
        | _ \<Rightarrow> get_by_key s k)" for k using assms(3) by blast
  have lits: "py_strip ''company'' = ''company''" "py_strip ''HU'' = ''HU''" by code_simp+
  have r: "as_update (get_billing_settings s') = v"
    using n texts tax ne lits
    by (simp add: as_update_def Let_def get_billing_settings_def coerce_billing_settings_def get_billing_profile_def
        get_text_setting_def g update_items_def v x(1) n_def [symmetric] str_or_def py_strip_no_space)
  have "validate_billing v = Inr v"
    using n tax ne lits by (auto simp: v x(1) n_def [symmetric] validate_billing_def Let_def strips str_or_def py_strip_no_space)
  with r show ?thesis by simp
qed

lemma saved_again:
  assumes "plain_request u" "validate_billing u = Inr v"
    and s': "\<forall>k. get_by_key s' k = (case map_of (update_items v) k of Some (Some v) \<Rightarrow> Some (take 500 (py_strip v))
        | _ \<Rightarrow> get_by_key s k)"
  shows "\<exists>s''. update_billing_settings (as_update (get_billing_settings s')) s' = (Inr (get_billing_settings s'), s'') \<and>
    get_by_key s'' = get_by_key s'"
proof -
  have v: "validate_billing (as_update (get_billing_settings s')) = Inr v"
    using saved_profile [OF assms] by blast
  obtain s'' where run: "update_billing_settings (as_update (get_billing_settings s')) s' = (Inr (get_billing_settings s''), s'')"
    and g: "\<forall>k. get_by_key s'' k = (case map_of (update_items v) k of Some (Some v) \<Rightarrow> Some (take 500 (py_strip v))
        | _ \<Rightarrow> get_by_key s' k)"
    using run_update_billing [OF v] by blast
  have "get_by_key s'' k = get_by_key s' k" for k
    using g [rule_format, of k] s' [rule_format, of k] by (auto split: option.splits)
  then have same: "get_by_key s'' = get_by_key s'" by blast
  then have "get_billing_settings s'' = get_billing_settings s'"
    unfolding get_billing_settings_def by (metis profile_rows)
  with run same show ?thesis by auto
qed


definition demo_update :: billing_update where
  "demo_update = \<lparr>bu_customer_type = None, bu_full_name = None, bu_company_name = Some '' Pek Kft '',
     bu_tax_id = Some ''HU 12892312142'', bu_address_line = Some ''Fo u. 1'', bu_postal_code = Some ''1111'',
     bu_city = Some ''Budapest'', bu_region = None, bu_country = None,
     bu_google_review_url = Some ''https://g.page/r/Ab-1/review/''\<rparr>"

definition demo_profile :: "(string \<times> string) list" where
  "demo_profile = [(''billing_customer_type'', ''company''), (''billing_full_name'', []),
     (''billing_company_name'', ''Pek Kft''), (''billing_tax_id'', ''12892312-1-42''), (''billing_address_line'', ''Fo u. 1''),
     (''billing_postal_code'', ''1111''), (''billing_city'', ''Budapest''), (''billing_region'', []),
     (''billing_country'', ''HU''), (''google_review_url'', ''https://g.page/r/Ab-1/review'')]"


end
