(* ===== verification/Tenant_Store.thy ===== *)
theory Tenant_Store
  imports Users_Service Settings_Service
begin

text \<open>
  The state of tenants (\<open>core/modules/tenant/models/\<close>, \<open>repositories/\<close>, \<open>schema/\<close>): the public tables of tenants,
  configs, domains, demo sign-ups and blocked addresses, the schema of every tenant with its users and settings,
  and the caches of routing. A row doubles as its DTO; \<open>created_at\<close> and \<open>updated_by\<close> columns are kept where code
  reads them.

  Every call to the database is numbered and \<open>tx_fault\<close> says which calls fail: a failed call raises
  \<open>Database_error\<close> and its transaction is rolled back. An instant stands for its ISO text in the JSON columns.
\<close>

section \<open>Tables\<close>

record tenant_rec =
  tr_id :: int
  tr_slug :: string
  tr_name :: string
  tr_created_at :: datetime
  tr_created_by :: "int option"
  tr_security_version :: int
  tr_is_active :: bool

datatype flag_val = Flag_bool bool | Flag_text string | Flag_time datetime

type_synonym flags = "(string \<times> flag_val) list"

record config_rec =
  cf_tenant_id :: int
  cf_package :: string
  cf_feature_flags :: flags
  cf_limits :: "(string \<times> int) list"

record domain_rec =
  dm_tenant_id :: int
  dm_domain :: string
  dm_verified_at :: "datetime option"

record signup_session =
  dz_session_id :: string
  dz_requested_name :: string
  dz_email :: string
  dz_tenant_slug :: string
  dz_created_at :: datetime
  dz_completed_at :: "datetime option"
  dz_token_hash :: "string option"
  dz_expires_at :: "datetime option"
  dz_verified_at :: "datetime option"
  dz_owner_name :: "string option"
  dz_tenant_name :: "string option"
  dz_preferred_locale :: "string option"
  dz_plan_code :: "string option"
  dz_subscription_period :: "string option"
  dz_google_review_url :: "string option"

record blocked_email =
  be_email :: string
  be_blocked_at :: datetime
  be_reason :: string
  be_source_tenant_slug :: "string option"

text \<open>\<open>TenantSnapshot\<close> with its status, config and domain.\<close>

record domain_info =
  di_request_host :: "string option"
  di_resolved_host :: "string option"
  di_is_custom_domain :: bool
  di_verified_at :: "datetime option"

record snapshot =
  sn_tenant_id :: int
  sn_slug :: string
  sn_name :: string
  sn_created_at :: datetime
  sn_security_version :: int
  sn_is_active :: bool
  sn_package :: string
  sn_feature_flags :: flags
  sn_limits :: "(string \<times> int) list"
  sn_domain :: "domain_info option"

text \<open>The schema of a tenant: migrations and tables, and the rows that the modelled code uses.\<close>

record schema_rec =
  sh_migrations :: "string list"
  sh_tables :: "string list"
  sh_db :: auth_db
  sh_next_session :: int
  sh_next_code :: int
  sh_next_user :: int
  sh_next_invite :: int
  sh_settings :: settings_store

text \<open>\<open>st_auth\<close> holds what the process shares between tenants: clock, random source, sent mails, caches.\<close>

record tenant_store =
  st_auth :: auth_state
  st_calls :: nat
  st_tenants :: "tenant_rec list"
  st_next_tenant :: int
  st_configs :: "config_rec list"
  st_domains :: "domain_rec list"
  st_sessions :: "signup_session list"
  st_blocklist :: "blocked_email list"
  st_schemas :: "string \<Rightarrow> schema_rec option"
  st_tenant_cache :: "(string \<times> snapshot \<times> datetime) list"
  st_domain_cache :: "(string \<times> string \<times> datetime) list"
  st_counters :: "(string \<times> int) list"
  st_fallback_counters :: "(string \<times> int) list"
  st_signup_enabled :: "string option"
  st_enabled_override :: "bool option"
  st_last_cleanup :: datetime

datatype tenant_error = Database_error | Runtime_error string | Tenant_value_error string | User_error auth_error
  | Settings_error settings_error | Demo_session_required | Invalid_slug | Name_required
  | Business_already_exists string string bool string | Demo_email_blocked | Signup_disabled | Capacity_reached
  | Signup_rate_limited | Disposable_email | Invalid_email_domain | Verification_invalid | Verification_expired

type_synonym 'a tenant_op = "(tenant_store, tenant_error, 'a) py"

text \<open>A migration hook of a tenant schema: name, revision, the tables it creates.\<close>

record schema_hook =
  hk_name :: string
  hk_revision :: "string option"
  hk_tables :: "string list"

record tenant_env =
  tx_auth :: auth_env
  tx_fault :: "nat \<Rightarrow> bool"
  tx_hooks :: "schema_hook list"
  tx_base_domain :: string
  tx_cookie_secure :: bool
  tx_frontend_port :: "int option"
  tx_frontend_base_url :: string
  tx_install_host :: string
  tx_verification_ttl_hours :: int
  tx_trial_days :: int
  tx_request_base_url :: "string \<Rightarrow> string"
  tx_confirm_mail :: "nat \<Rightarrow> bool"

definition now_of :: "tenant_store \<Rightarrow> datetime" where
  "now_of s = as_now (st_auth s)"

section \<open>Calls to the database\<close>

definition db_call :: "tenant_env \<Rightarrow> 'a tenant_op \<Rightarrow> 'a tenant_op" where
  "db_call e m = (\<lambda>s.
     let s' = s\<lparr>st_calls := st_calls s + 1\<rparr>
     in if tx_fault e (st_calls s) then (Inl Database_error, s') else m s')"

definition db_read :: "tenant_env \<Rightarrow> (tenant_store \<Rightarrow> 'a) \<Rightarrow> 'a tenant_op" where
  "db_read e f = db_call e (py_gets f)"

definition db_write :: "tenant_env \<Rightarrow> (tenant_store \<Rightarrow> tenant_store) \<Rightarrow> unit tenant_op" where
  "db_write e f = db_call e (py_modify f)"

section \<open>Reading tenants\<close>

definition tenant_by_slug :: "tenant_store \<Rightarrow> string \<Rightarrow> tenant_rec option" where
  "tenant_by_slug s slug = find (\<lambda>t. tr_slug t = slug) (st_tenants s)"

definition tenant_by_id :: "tenant_store \<Rightarrow> int \<Rightarrow> tenant_rec option" where
  "tenant_by_id s i = find (\<lambda>t. tr_id t = i) (st_tenants s)"

definition config_row :: "tenant_store \<Rightarrow> int \<Rightarrow> config_rec option" where
  "config_row s i = find (\<lambda>c. cf_tenant_id c = i) (st_configs s)"

text \<open>\<open>package or "free"\<close>.\<close>

definition package_of :: "config_rec \<Rightarrow> string" where
  "package_of c = (if cf_package c = [] then ''free'' else cf_package c)"

definition config_by_tenant_id :: "tenant_store \<Rightarrow> int \<Rightarrow> config_rec option" where
  "config_by_tenant_id s i = map_option (\<lambda>c. c\<lparr>cf_package := package_of c\<rparr>) (config_row s i)"

definition build_snapshot :: "tenant_rec \<Rightarrow> config_rec option \<Rightarrow> snapshot" where
  "build_snapshot t config =
     \<lparr>sn_tenant_id = tr_id t, sn_slug = tr_slug t, sn_name = tr_name t, sn_created_at = tr_created_at t,
      sn_security_version = tr_security_version t, sn_is_active = tr_is_active t,
      sn_package = (case config of None \<Rightarrow> ''free'' | Some c \<Rightarrow> package_of c),
      sn_feature_flags = (case config of None \<Rightarrow> [] | Some c \<Rightarrow> cf_feature_flags c),
      sn_limits = (case config of None \<Rightarrow> [] | Some c \<Rightarrow> cf_limits c), sn_domain = None\<rparr>"

definition snapshot_by_slug :: "tenant_store \<Rightarrow> string \<Rightarrow> snapshot option" where
  "snapshot_by_slug s slug =
     map_option (\<lambda>t. build_snapshot t (config_row s (tr_id t))) (tenant_by_slug s slug)"

definition normalize_domain :: "string \<Rightarrow> string" where
  "normalize_domain domain = py_lower (py_strip domain)"

definition domain_row :: "tenant_store \<Rightarrow> string \<Rightarrow> domain_rec option" where
  "domain_row s domain = find (\<lambda>d. dm_domain d = normalize_domain domain) (st_domains s)"

definition verified_link :: "tenant_store \<Rightarrow> string \<Rightarrow> domain_rec option" where
  "verified_link s domain =
     find (\<lambda>d. dm_domain d = normalize_domain domain \<and> dm_verified_at d \<noteq> None) (st_domains s)"

definition tenant_by_domain :: "tenant_store \<Rightarrow> string \<Rightarrow> tenant_rec option" where
  "tenant_by_domain s domain =
     (case verified_link s domain of None \<Rightarrow> None | Some d \<Rightarrow> tenant_by_id s (dm_tenant_id d))"

definition snapshot_by_domain :: "tenant_store \<Rightarrow> string \<Rightarrow> snapshot option" where
  "snapshot_by_domain s domain =
     map_option (\<lambda>t. build_snapshot t (config_row s (tr_id t))) (tenant_by_domain s domain)"

definition actor_user_id :: "tenant_store \<Rightarrow> int \<Rightarrow> int option" where
  "actor_user_id s i = (case tenant_by_id s i of None \<Rightarrow> None | Some t \<Rightarrow> tr_created_by t)"

definition domains_of_tenant :: "tenant_store \<Rightarrow> int \<Rightarrow> domain_rec list" where
  "domains_of_tenant s i = filter (\<lambda>d. dm_tenant_id d = i) (st_domains s)"

section \<open>Writing tenants\<close>

text \<open>The caches of routing (\<open>tenant/cache.py\<close>).\<close>

definition invalidate_tenant_cache :: "string \<Rightarrow> tenant_store \<Rightarrow> tenant_store" where
  "invalidate_tenant_cache slug s =
     (if slug = [] then s else s\<lparr>st_tenant_cache := filter (\<lambda>x. fst x \<noteq> slug) (st_tenant_cache s)\<rparr>)"

definition invalidate_domain_cache :: "string \<Rightarrow> tenant_store \<Rightarrow> tenant_store" where
  "invalidate_domain_cache host s =
     (if normalize_domain host = [] then s
      else s\<lparr>st_domain_cache := filter (\<lambda>x. fst x \<noteq> normalize_domain host) (st_domain_cache s)\<rparr>)"

definition create_tenant :: "tenant_env \<Rightarrow> string \<Rightarrow> string \<Rightarrow> int option \<Rightarrow> bool \<Rightarrow> tenant_rec tenant_op" where
  "create_tenant e slug name created_by is_active = db_call e (\<lambda>s.
     let row = \<lparr>tr_id = st_next_tenant s, tr_slug = slug, tr_name = name, tr_created_at = now_of s,
           tr_created_by = created_by, tr_security_version = 0, tr_is_active = is_active\<rparr>;
         s' = s\<lparr>st_next_tenant := st_next_tenant s + 1\<rparr>
     in if tenant_by_slug s slug \<noteq> None then (Inl Database_error, s')
        else (Inr row, invalidate_tenant_cache slug (s'\<lparr>st_tenants := st_tenants s @ [row]\<rparr>)))"

definition put_config :: "config_rec \<Rightarrow> tenant_store \<Rightarrow> tenant_store" where
  "put_config row s = s\<lparr>st_configs := upsert_row cf_tenant_id row (st_configs s)\<rparr>"

definition create_tenant_config ::
  "tenant_env \<Rightarrow> int \<Rightarrow> string \<Rightarrow> string \<Rightarrow> flags \<Rightarrow> (string \<times> int) list \<Rightarrow> unit tenant_op" where
  "create_tenant_config e i slug package feature_flags limits = db_call e (\<lambda>s.
     let row = \<lparr>cf_tenant_id = i, cf_package = package, cf_feature_flags = feature_flags, cf_limits = limits\<rparr>
     in if config_row s i = None \<and> tenant_by_id s i = None then (Inl Database_error, s)
        else (Inr (), invalidate_tenant_cache slug (put_config row s)))"

definition delete_config :: "tenant_env \<Rightarrow> int \<Rightarrow> string \<Rightarrow> unit tenant_op" where
  "delete_config e i slug = db_write e (\<lambda>s.
     if config_row s i = None then s
     else invalidate_tenant_cache slug (s\<lparr>st_configs := filter (\<lambda>c. cf_tenant_id c \<noteq> i) (st_configs s)\<rparr>))"

definition create_domain :: "tenant_env \<Rightarrow> int \<Rightarrow> string \<Rightarrow> datetime option \<Rightarrow> unit tenant_op" where
  "create_domain e i domain verified_at = db_call e (\<lambda>s.
     let row = (case domain_row s domain of
             None \<Rightarrow> \<lparr>dm_tenant_id = i, dm_domain = normalize_domain domain, dm_verified_at = verified_at\<rparr>
           | Some d \<Rightarrow> d\<lparr>dm_tenant_id := i,
                 dm_verified_at := (if verified_at = None then dm_verified_at d else verified_at)\<rparr>)
     in if tenant_by_id s i = None then (Inl Database_error, s)
        else (Inr (), invalidate_domain_cache (dm_domain row)
                (s\<lparr>st_domains := upsert_row dm_domain row (st_domains s)\<rparr>)))"

text \<open>
  Deleting a tenant takes its domains along (\<open>ON DELETE CASCADE\<close>). For a config row the ORM relationship
  \<open>TenantConfigORM.tenant\<close> first writes \<open>NULL\<close> to its foreign key, which the column refuses.
\<close>

definition delete_by_slug :: "tenant_env \<Rightarrow> string \<Rightarrow> unit tenant_op" where
  "delete_by_slug e slug = db_call e (\<lambda>s.
     case tenant_by_slug s slug of
       None \<Rightarrow> (Inr (), s)
     | Some t \<Rightarrow>
         if config_row s (tr_id t) \<noteq> None then (Inl Database_error, s)
         else (Inr (), fold (\<lambda>d. invalidate_domain_cache (dm_domain d)) (domains_of_tenant s (tr_id t))
                (invalidate_tenant_cache slug
                  (s\<lparr>st_tenants := filter (\<lambda>r. tr_id r \<noteq> tr_id t) (st_tenants s),
                     st_domains := filter (\<lambda>d. dm_tenant_id d \<noteq> tr_id t) (st_domains s)\<rparr>))))"

definition update_tenant :: "tenant_env \<Rightarrow> int \<Rightarrow> (tenant_rec \<Rightarrow> tenant_rec) \<Rightarrow> unit tenant_op" where
  "update_tenant e i f = db_write e (\<lambda>s.
     case tenant_by_id s i of
       None \<Rightarrow> s
     | Some t \<Rightarrow> invalidate_tenant_cache (tr_slug t)
         (s\<lparr>st_tenants := update_where (\<lambda>r. tr_id r = i) f (st_tenants s)\<rparr>))"

definition set_actor :: "tenant_env \<Rightarrow> int \<Rightarrow> int option \<Rightarrow> unit tenant_op" where
  "set_actor e i actor = update_tenant e i (\<lambda>r. r\<lparr>tr_created_by := actor\<rparr>)"

definition activate_tenant :: "tenant_env \<Rightarrow> int \<Rightarrow> unit tenant_op" where
  "activate_tenant e i = update_tenant e i (\<lambda>r. r\<lparr>tr_is_active := True\<rparr>)"

definition deactivate_tenant :: "tenant_env \<Rightarrow> int \<Rightarrow> unit tenant_op" where
  "deactivate_tenant e i = update_tenant e i (\<lambda>r. r\<lparr>tr_is_active := False\<rparr>)"

definition raise_tenant_version :: "tenant_env \<Rightarrow> int \<Rightarrow> unit tenant_op" where
  "raise_tenant_version e i = update_tenant e i (\<lambda>r. r\<lparr>tr_security_version := tr_security_version r + 1\<rparr>)"

definition verify_domain :: "tenant_env \<Rightarrow> string \<Rightarrow> datetime option \<Rightarrow> bool tenant_op" where
  "verify_domain e domain verified_at = db_call e (\<lambda>s.
     if domain_row s domain = None then (Inr False, s)
     else (Inr True, invalidate_domain_cache domain (s\<lparr>st_domains :=
            update_where (\<lambda>d. dm_domain d = normalize_domain domain) (\<lambda>d. d\<lparr>dm_verified_at := verified_at\<rparr>) (st_domains s)\<rparr>)))"

definition delete_domain :: "tenant_env \<Rightarrow> string \<Rightarrow> int option \<Rightarrow> unit tenant_op" where
  "delete_domain e domain tenant_id = db_write e (\<lambda>s.
     case domain_row s domain of
       None \<Rightarrow> s
     | Some d \<Rightarrow>
         if (case tenant_id of None \<Rightarrow> False | Some i \<Rightarrow> dm_tenant_id d \<noteq> i) then s
         else invalidate_domain_cache (dm_domain d)
           (s\<lparr>st_domains := filter (\<lambda>r. dm_domain r \<noteq> normalize_domain domain) (st_domains s)\<rparr>))"

end
