(* ===== verification/Tenant_Policy.thy ===== *)
theory Tenant_Policy
  imports Tenant_Store
begin

text \<open>
  The policies of tenants (\<open>tenant/domain/tenant_policy.py\<close>): which changes of the life cycle are allowed, and how
  a host name is read. \<open>suspended_reason\<close> of a status is never filled by the repository and kept as an argument.
\<close>

section \<open>Life cycle\<close>

record tenant_status =
  sx_is_active :: bool
  sx_suspended_reason :: "string option"

record lifecycle_state =
  lc_status :: string
  lc_is_routable :: bool
  lc_can_activate :: bool
  lc_can_suspend :: bool

definition status_of :: "tenant_rec \<Rightarrow> tenant_status" where
  "status_of t = \<lparr>sx_is_active = tr_is_active t, sx_suspended_reason = None\<rparr>"

definition resolve_state :: "tenant_status option \<Rightarrow> lifecycle_state" where
  "resolve_state status =
     (case status of
        None \<Rightarrow> \<lparr>lc_status = ''provisioning'', lc_is_routable = False, lc_can_activate = False, lc_can_suspend = False\<rparr>
      | Some st \<Rightarrow>
          if sx_is_active st
          then \<lparr>lc_status = ''active'', lc_is_routable = True, lc_can_activate = False, lc_can_suspend = True\<rparr>
          else if str_or (sx_suspended_reason st) [] \<noteq> []
          then \<lparr>lc_status = ''suspended'', lc_is_routable = False, lc_can_activate = True, lc_can_suspend = False\<rparr>
          else \<lparr>lc_status = ''provisioning'', lc_is_routable = False, lc_can_activate = True, lc_can_suspend = False\<rparr>)"

definition assert_transition :: "tenant_status option \<Rightarrow> string \<Rightarrow> tenant_error + unit" where
  "assert_transition status target_state =
     (let current = resolve_state status; normalized_target = py_lower (py_strip target_state) in
      if normalized_target = ''active'' \<and> lc_can_activate current then Inr ()
      else if normalized_target = ''suspended'' \<and> lc_can_suspend current then Inr ()
      else Inl (Tenant_value_error (''invalid_tenant_transition:'' @ lc_status current @ ''->'' @ normalized_target)))"

definition assert_routable :: "snapshot \<Rightarrow> tenant_error + unit" where
  "assert_routable sn =
     (let current = resolve_state (Some \<lparr>sx_is_active = sn_is_active sn, sx_suspended_reason = None\<rparr>) in
      if lc_is_routable current then Inr ()
      else Inl (Tenant_value_error (''tenant_not_routable:'' @ lc_status current)))"

section \<open>Host names\<close>

record routing_policy =
  rp_base_domain :: string
  rp_localhost_tenant :: "string option"

definition make_routing_policy :: "string \<Rightarrow> string option \<Rightarrow> routing_policy" where
  "make_routing_policy base localhost_tenant =
     \<lparr>rp_base_domain = py_lower (py_strip base),
      rp_localhost_tenant = (let t = py_lower (py_strip (str_or localhost_tenant [])) in if t = [] then None else Some t)\<rparr>"

definition ends_with :: "string \<Rightarrow> string \<Rightarrow> bool" where
  "ends_with s suffix \<longleftrightarrow> is_prefix (rev suffix) (rev s)"

definition primary_host_for_slug :: "routing_policy \<Rightarrow> string \<Rightarrow> string" where
  "primary_host_for_slug p slug = slug @ ''.'' @ rp_base_domain p"

definition normalize_custom_domain :: "routing_policy \<Rightarrow> string \<Rightarrow> tenant_error + string" where
  "normalize_custom_domain p domain =
     (let normalized = normalize_domain domain in
      if normalized = [] then Inl (Tenant_value_error ''domain_required'')
      else if normalized = rp_base_domain p \<or> ends_with normalized (''.'' @ rp_base_domain p)
      then Inl (Tenant_value_error ''platform_domain_reserved'')
      else Inr normalized)"

datatype host_kind = Missing_host | Platform_root | Platform_subdomain | Localhost | Custom_domain

definition host_kind_of :: "routing_policy \<Rightarrow> string \<Rightarrow> host_kind" where
  "host_kind_of p host =
     (let normalized = normalize_domain host in
      if normalized = [] then Missing_host
      else if normalized = rp_base_domain p then Platform_root
      else if ends_with normalized (''.'' @ rp_base_domain p) then Platform_subdomain
      else if rp_localhost_tenant p \<noteq> None \<and> normalized \<in> {''localhost'', ''127.0.0.1''} then Localhost
      else Custom_domain)"

definition resolve_platform_slug :: "routing_policy \<Rightarrow> string \<Rightarrow> string option" where
  "resolve_platform_slug p host =
     (let normalized = normalize_domain host in
      case host_kind_of p host of
        Platform_subdomain \<Rightarrow>
          (let slug = normalize_domain (take (length normalized - length (rp_base_domain p) - 1) normalized)
           in if slug = [] then None else Some slug)
      | Localhost \<Rightarrow> rp_localhost_tenant p
      | _ \<Rightarrow> None)"

definition classify_domain_record :: "routing_policy \<Rightarrow> domain_rec \<Rightarrow> string \<Rightarrow> string" where
  "classify_domain_record p d tenant_slug =
     (if normalize_domain (dm_domain d) = primary_host_for_slug p tenant_slug then ''platform_primary''
      else if dm_verified_at d \<noteq> None then ''custom_verified'' else ''custom_pending'')"

record routing_decision =
  rd_tenant_slug :: "string option"
  rd_is_custom_domain :: bool
  rd_is_routable :: bool
  rd_lifecycle_state :: string
  rd_reason :: string

definition route_for_platform_host :: "string option \<Rightarrow> routing_decision" where
  "route_for_platform_host tenant_slug =
     \<lparr>rd_tenant_slug = tenant_slug, rd_is_custom_domain = False, rd_is_routable = (tenant_slug \<noteq> None),
      rd_lifecycle_state = ''platform_host'',
      rd_reason = (if str_or tenant_slug [] \<noteq> [] then ''platform_host_resolved'' else ''platform_host_missing_slug'')\<rparr>"

definition route_for_custom_domain :: "domain_rec option \<Rightarrow> routing_decision" where
  "route_for_custom_domain domain =
     (case domain of
        None \<Rightarrow> \<lparr>rd_tenant_slug = None, rd_is_custom_domain = True, rd_is_routable = False,
                 rd_lifecycle_state = ''missing'', rd_reason = ''custom_domain_not_found''\<rparr>
      | Some d \<Rightarrow> \<lparr>rd_tenant_slug = Some (str_of_int (dm_tenant_id d)), rd_is_custom_domain = True,
                 rd_is_routable = (dm_verified_at d \<noteq> None),
                 rd_lifecycle_state = (if dm_verified_at d \<noteq> None then ''verified'' else ''pending_verification''),
                 rd_reason = (if dm_verified_at d \<noteq> None then ''custom_domain_verified''
                              else ''custom_domain_unverified'')\<rparr>)"

end
