(* ===== verification/Tenant_Routing.thy ===== *)
theory Tenant_Routing
  imports Tenant_Policy
begin

text \<open>
  From the host name of a request to a tenant (\<open>tenant/routing/resolution.py\<close>,
  \<open>tenant/middleware/tenant_middleware.py\<close>): the two caches with their time to live, the choice between platform
  host and custom domain, and what the middleware answers. The JSON text of a cached snapshot is left out: an entry
  holds the snapshot itself. Whether a tenant owes money is asked of billing and an argument here; metrics, logs and
  timing are left out. Entries of both caches are \<open>(key, value, end)\<close>.
\<close>

section \<open>Caches\<close>

definition tenant_ttl_sec :: int where "tenant_ttl_sec = 60"

definition domain2tenant_ttl_sec :: int where "domain2tenant_ttl_sec = 300"

definition cache_delete :: "string \<Rightarrow> (string \<times> 'a \<times> datetime) list \<Rightarrow> (string \<times> 'a \<times> datetime) list" where
  "cache_delete key c = filter (\<lambda>x. fst x \<noteq> key) c"

definition cache_get ::
  "datetime \<Rightarrow> string \<Rightarrow> (string \<times> 'a \<times> datetime) list \<Rightarrow> 'a option \<times> (string \<times> 'a \<times> datetime) list" where
  "cache_get now key c =
     (case find (\<lambda>x. fst x = key) c of
        None \<Rightarrow> (None, c)
      | Some (_, v, expires) \<Rightarrow> if now > expires then (None, cache_delete key c) else (Some v, c))"

definition cache_set ::
  "datetime \<Rightarrow> string \<Rightarrow> 'a \<Rightarrow> int \<Rightarrow> (string \<times> 'a \<times> datetime) list \<Rightarrow> (string \<times> 'a \<times> datetime) list" where
  "cache_set now key v ttl_sec c = (key, v, now + seconds ttl_sec) # cache_delete key c"

definition tenant_cache_get :: "string \<Rightarrow> snapshot option tenant_op" where
  "tenant_cache_get slug = (\<lambda>s. case cache_get (now_of s) slug (st_tenant_cache s) of
     (r, c) \<Rightarrow> (Inr r, s\<lparr>st_tenant_cache := c\<rparr>))"

definition tenant_cache_set :: "string \<Rightarrow> snapshot \<Rightarrow> unit tenant_op" where
  "tenant_cache_set slug sn =
     py_modify (\<lambda>s. s\<lparr>st_tenant_cache := cache_set (now_of s) slug sn tenant_ttl_sec (st_tenant_cache s)\<rparr>)"

definition domain_cache_get :: "string \<Rightarrow> string option tenant_op" where
  "domain_cache_get host = (\<lambda>s. case cache_get (now_of s) host (st_domain_cache s) of
     (r, c) \<Rightarrow> (Inr r, s\<lparr>st_domain_cache := c\<rparr>))"

definition domain_cache_set :: "string \<Rightarrow> string \<Rightarrow> unit tenant_op" where
  "domain_cache_set host slug =
     py_modify (\<lambda>s. s\<lparr>st_domain_cache := cache_set (now_of s) host slug domain2tenant_ttl_sec (st_domain_cache s)\<rparr>)"

section \<open>Resolution\<close>

text \<open>A host that is not in the cache: a host of the platform, or else a verified domain.\<close>

definition look_up_host :: "tenant_env \<Rightarrow> routing_policy \<Rightarrow> string \<Rightarrow> (string option \<times> bool) tenant_op" where
  "look_up_host e p host =
     (case resolve_platform_slug p host of
        Some slug \<Rightarrow> py_return (Some slug, host_kind_of p host = Custom_domain)
      | None \<Rightarrow> py_bind (db_read e (\<lambda>s. tenant_by_domain s host)) (\<lambda>tenant.
          py_return (map_option tr_slug tenant, tenant \<noteq> None)))"

definition get_slug_for_host :: "tenant_env \<Rightarrow> routing_policy \<Rightarrow> string \<Rightarrow> (string option \<times> bool) tenant_op" where
  "get_slug_for_host e p host =
     py_bind (domain_cache_get host) (\<lambda>cached.
     case cached of
       Some slug \<Rightarrow>
         py_return (if slug = [] then (None, False)
           else (Some slug, host_kind_of p host \<notin> {Platform_root, Platform_subdomain, Localhost}))
     | None \<Rightarrow>
         py_bind (look_up_host e p host) (\<lambda>(slug, is_custom_domain).
           py_seq (domain_cache_set host (str_or slug [])) (py_return (slug, is_custom_domain))))"

definition get_tenant_snapshot :: "tenant_env \<Rightarrow> string \<Rightarrow> snapshot option tenant_op" where
  "get_tenant_snapshot e slug =
     py_bind (tenant_cache_get slug) (\<lambda>cached.
     case cached of
       Some sn \<Rightarrow> py_return (Some sn)
     | None \<Rightarrow>
         py_bind (db_read e (\<lambda>s. snapshot_by_slug s slug)) (\<lambda>tenant.
         case tenant of
           None \<Rightarrow> py_return None
         | Some sn \<Rightarrow> py_seq (tenant_cache_set slug sn) (py_return (Some sn))))"

definition warm_tenant_cache :: "tenant_env \<Rightarrow> string \<Rightarrow> unit tenant_op" where
  "warm_tenant_cache e slug =
     py_bind (db_read e (\<lambda>s. snapshot_by_slug s slug)) (\<lambda>tenant.
     case tenant of None \<Rightarrow> py_return () | Some sn \<Rightarrow> tenant_cache_set slug sn)"

definition resolve_request ::
  "tenant_env \<Rightarrow> routing_policy \<Rightarrow> string \<Rightarrow> (string option \<times> bool \<times> snapshot option) tenant_op" where
  "resolve_request e p host =
     py_bind (get_slug_for_host e p host) (\<lambda>(slug, is_custom_domain).
     if str_or slug [] = [] then py_return (None, is_custom_domain, None)
     else py_bind (get_tenant_snapshot e (str_or slug [])) (\<lambda>sn. py_return (slug, is_custom_domain, sn)))"

section \<open>The middleware\<close>

definition tenant_optional_path_prefixes :: "string list" where
  "tenant_optional_path_prefixes = [''/api/health'', ''/api/health/live'', ''/api/health/ready'',
     ''/api/auth/csrf-token'', ''/api/metrics'', ''/api/platform-admin/'', ''/api/platform/lifecycle'', ''/api/installer/'']"

record middleware_env =
  mw_base_domain :: string
  mw_multi_tenant :: bool
  mw_install_host :: "string option"
  mw_single_tenant_slug :: "string option"
  mw_policy :: routing_policy
  mw_has_debt :: "int \<Rightarrow> bool"

text \<open>What happens to a request: an answer with this status, or the application, with the tenant in force and whether
  it is in the billing recovery mode.\<close>

datatype mw_outcome = Rejected int string | Served "snapshot option" bool

definition is_billing_recovery_path :: "string \<Rightarrow> bool" where
  "is_billing_recovery_path path \<longleftrightarrow>
     is_prefix ''/api/auth/'' path \<or> is_prefix ''/api/billing/'' path \<or>
     path = ''/api/settings'' \<or> is_prefix ''/api/settings/'' path"

text \<open>\<open>True\<close>, \<open>"blocked_path"\<close> or \<open>False\<close>.\<close>

datatype recovery = Recovery_allowed | Recovery_blocked_path | No_recovery

definition try_billing_recovery :: "middleware_env \<Rightarrow> snapshot \<Rightarrow> string \<Rightarrow> recovery" where
  "try_billing_recovery mw sn path =
     (if is_billing_recovery_path path then Recovery_allowed
      else if mw_has_debt mw (sn_tenant_id sn) then Recovery_blocked_path else No_recovery)"

definition serve_snapshot :: "middleware_env \<Rightarrow> string \<Rightarrow> string \<Rightarrow> bool \<Rightarrow> snapshot option \<Rightarrow> mw_outcome" where
  "serve_snapshot mw path host is_custom_domain snapshot =
     (case snapshot of
        None \<Rightarrow> Rejected 404 ''unknown_tenant''
      | Some sn \<Rightarrow>
          let sn' = sn\<lparr>sn_domain := Some \<lparr>di_request_host = Some host, di_resolved_host = Some host,
                di_is_custom_domain = is_custom_domain,
                di_verified_at = (case sn_domain sn of None \<Rightarrow> None | Some d \<Rightarrow> di_verified_at d)\<rparr>\<rparr> in
          (case assert_routable sn' of
             Inr _ \<Rightarrow> Served (Some sn') False
           | Inl _ \<Rightarrow>
               (case try_billing_recovery mw sn' path of
                  No_recovery \<Rightarrow> Rejected 404 ''inactive_tenant''
                | Recovery_blocked_path \<Rightarrow> Rejected 403 ''billing_recovery_blocked''
                | Recovery_allowed \<Rightarrow> Served (Some sn') True)))"

definition request_host_of :: "string option \<Rightarrow> string" where
  "request_host_of header = py_lower (py_strip (hd (split_char CHR '':'' (str_or header []))))"

definition allowed_install_hosts :: "middleware_env \<Rightarrow> string list" where
  "allowed_install_hosts mw =
     filter (\<lambda>h. h \<noteq> []) (map (\<lambda>h. py_lower (py_strip h)) [str_or (mw_install_host mw) [], mw_base_domain mw])"

text \<open>The paths that need no tenant, in the multi-tenant mode: \<open>None\<close> lets the request through without one.\<close>

definition optional_path_check :: "tenant_env \<Rightarrow> middleware_env \<Rightarrow> string \<Rightarrow> string \<Rightarrow> mw_outcome option tenant_op" where
  "optional_path_check e mw path host =
     (let hosts = allowed_install_hosts mw in
      if is_prefix ''/api/platform-admin/'' path then py_return None
      else if is_prefix ''/api/auth/csrf-token'' path \<and> host \<notin> set hosts
      then py_bind (resolve_request e (mw_policy mw) host) (\<lambda>(csrf_slug, _, _).
        py_return (if str_or csrf_slug [] = [] then Some (Rejected 400 ''install_host_rejected'') else None))
      else py_return (if hosts \<noteq> [] \<and> host \<notin> set hosts then Some (Rejected 400 ''install_host_rejected'') else None))"

definition tenant_middleware ::
  "tenant_env \<Rightarrow> middleware_env \<Rightarrow> string \<Rightarrow> string option \<Rightarrow> mw_outcome tenant_op" where
  "tenant_middleware e mw path header =
     (let host = request_host_of header;
          is_tenant_optional_path = list_ex (\<lambda>prefix. is_prefix prefix path) tenant_optional_path_prefixes;
          serve = (\<lambda>slug is_custom_domain snapshot.
            if str_or slug [] \<noteq> [] then serve_snapshot mw path host is_custom_domain snapshot
            else if is_prefix ''/api'' path \<and> \<not> is_tenant_optional_path then Rejected 400 ''missing_tenant''
            else Served None False)
      in
      if host = [] then
        py_return (if is_prefix ''/api'' path \<and> \<not> is_tenant_optional_path then Rejected 400 ''missing_host''
          else Served None False)
      else if mw_multi_tenant mw then
        (if is_tenant_optional_path
         then py_bind (optional_path_check e mw path host) (\<lambda>answer. py_return (case answer of
                Some r \<Rightarrow> r | None \<Rightarrow> serve None False None))
         else py_bind (resolve_request e (mw_policy mw) host) (\<lambda>(slug, is_custom_domain, snapshot).
                py_return (serve slug is_custom_domain snapshot)))
      else
        let install_host = (case mw_install_host mw of None \<Rightarrow> host | Some h \<Rightarrow> h);
            slug = (if is_prefix ''/api/installer/'' path then None else mw_single_tenant_slug mw) in
        if host \<noteq> install_host then py_return (Rejected 404 ''other_host'')
        else py_bind (case slug of None \<Rightarrow> py_return None | Some t \<Rightarrow> get_tenant_snapshot e t) (\<lambda>snapshot.
          py_return (serve slug False snapshot)))"

end
