(* ===== verification/Tenant_Schema.thy ===== *)
theory Tenant_Schema
  imports Tenant_Store
begin

text \<open>
  Tenant schemas (\<open>tenant/schema/\<close>): creation by the chain of migration hooks, every statement a call of its own,
  dropping, and the check for missing tables. \<open>in_schema\<close> runs the code of the users module with
  \<open>current_tenant_schema\<close> set to the slug, on the users and invitations of that schema. \<open>tx_hooks\<close> is what
  \<open>list_tenant_schema_hooks\<close> returns, already sorted.
\<close>

section \<open>Migrations\<close>

definition hook_revision :: "schema_hook \<Rightarrow> string" where
  "hook_revision h = py_strip (str_or (hk_revision h) (hk_name h))"

definition empty_auth_db :: auth_db where
  "empty_auth_db = \<lparr>ad_users = [], ad_sessions = [], ad_pending = [], ad_codes = [], ad_attempts = [],
     ad_authenticators = [], ad_queued_mails = [], ad_invites = []\<rparr>"

definition empty_schema :: schema_rec where
  "empty_schema = \<lparr>sh_migrations = [], sh_tables = [], sh_db = empty_auth_db, sh_next_session = 1, sh_next_code = 1,
     sh_next_user = 1, sh_next_invite = 1, sh_settings = \<lparr>se_rows = [], se_audit = []\<rparr>\<rparr>"

definition check_slug :: "string \<Rightarrow> unit tenant_op" where
  "check_slug slug = (if schema_safe_slug slug then py_return () else py_raise (Tenant_value_error ''Ervenytelen tenant slug''))"

definition update_schema :: "string \<Rightarrow> (schema_rec \<Rightarrow> schema_rec) \<Rightarrow> tenant_store \<Rightarrow> tenant_store" where
  "update_schema slug f s = s\<lparr>st_schemas := (st_schemas s)(slug := map_option f (st_schemas s slug))\<rparr>"

definition add_tables :: "string list \<Rightarrow> schema_rec \<Rightarrow> schema_rec" where
  "add_tables names sh = sh\<lparr>sh_tables := sh_tables sh @ filter (\<lambda>n. n \<notin> set (sh_tables sh)) names\<rparr>"

text \<open>Statements on a schema that does not exist fail.\<close>

definition schema_call :: "tenant_env \<Rightarrow> string \<Rightarrow> (schema_rec \<Rightarrow> schema_rec) \<Rightarrow> unit tenant_op" where
  "schema_call e slug f = db_call e (\<lambda>s.
     if st_schemas s slug = None then (Inl Database_error, s) else (Inr (), update_schema slug f s))"

definition ensure_tenant_schema :: "tenant_env \<Rightarrow> string \<Rightarrow> unit tenant_op" where
  "ensure_tenant_schema e slug = db_write e (\<lambda>s.
     if st_schemas s slug = None then s\<lparr>st_schemas := (st_schemas s)(slug \<mapsto> empty_schema)\<rparr> else s)"

definition ensure_tenant_migration_table :: "tenant_env \<Rightarrow> string \<Rightarrow> unit tenant_op" where
  "ensure_tenant_migration_table e slug =
     py_seq (ensure_tenant_schema e slug) (schema_call e slug (add_tables [''schema_migrations'']))"

definition list_applied_tenant_migrations :: "tenant_env \<Rightarrow> string \<Rightarrow> string list tenant_op" where
  "list_applied_tenant_migrations e slug =
     py_seq (ensure_tenant_migration_table e slug)
       (db_read e (\<lambda>s. case st_schemas s slug of None \<Rightarrow> [] | Some sh \<Rightarrow> sh_migrations sh))"

definition install_hook :: "tenant_env \<Rightarrow> string \<Rightarrow> schema_hook \<Rightarrow> unit tenant_op" where
  "install_hook e slug h =
     py_seq (schema_call e slug (add_tables (hk_tables h))) (schema_call e slug (\<lambda>sh. sh))"

definition record_tenant_migration :: "tenant_env \<Rightarrow> string \<Rightarrow> schema_hook \<Rightarrow> unit tenant_op" where
  "record_tenant_migration e slug h = schema_call e slug (\<lambda>sh.
     if hook_revision h \<in> set (sh_migrations sh) then sh
     else sh\<lparr>sh_migrations := sh_migrations sh @ [hook_revision h]\<rparr>)"

definition upgrade_tenant_schema :: "tenant_env \<Rightarrow> string \<Rightarrow> unit tenant_op" where
  "upgrade_tenant_schema e slug =
     py_seq (check_slug slug)
    (py_seq (ensure_tenant_migration_table e slug)
    (py_bind (list_applied_tenant_migrations e slug) (\<lambda>applied.
     py_bind (py_fold (\<lambda>h applied.
         if hook_revision h \<in> set applied then py_return applied
         else py_seq (install_hook e slug h)
             (py_seq (record_tenant_migration e slug h) (py_return (hook_revision h # applied))))
       (tx_hooks e) applied) (\<lambda>_. py_return ()))))"

section \<open>The schema manager\<close>

definition schema_exists :: "tenant_env \<Rightarrow> string \<Rightarrow> bool tenant_op" where
  "schema_exists e slug = py_seq (check_slug slug) (db_read e (\<lambda>s. st_schemas s slug \<noteq> None))"

definition schema_create :: "tenant_env \<Rightarrow> string \<Rightarrow> unit tenant_op" where
  "schema_create e slug = upgrade_tenant_schema e slug"

definition schema_drop :: "tenant_env \<Rightarrow> string \<Rightarrow> unit tenant_op" where
  "schema_drop e slug =
     py_seq (check_slug slug) (db_write e (\<lambda>s. s\<lparr>st_schemas := (st_schemas s)(slug := None)\<rparr>))"

definition tenant_schema_table_names :: "tenant_env \<Rightarrow> string list" where
  "tenant_schema_table_names e = rev (remdups (rev (concat (map hk_tables (tx_hooks e)))))"

definition list_missing_tables :: "tenant_env \<Rightarrow> string \<Rightarrow> string list tenant_op" where
  "list_missing_tables e slug =
     py_bind (schema_exists e slug) (\<lambda>found.
     if \<not> found then py_return []
     else if tenant_schema_table_names e = [] then py_seq (check_slug slug) (py_return [])
     else py_seq (check_slug slug) (db_read e (\<lambda>s.
       filter (\<lambda>n. n \<notin> set (case st_schemas s slug of None \<Rightarrow> [] | Some sh \<Rightarrow> sh_tables sh))
         (tenant_schema_table_names e))))"

section \<open>Code of other modules inside a schema\<close>

definition load_schema :: "schema_rec \<Rightarrow> auth_state \<Rightarrow> auth_state" where
  "load_schema sh a = a\<lparr>as_db := sh_db sh, as_next_session := sh_next_session sh, as_next_code := sh_next_code sh,
     as_next_user := sh_next_user sh, as_next_invite := sh_next_invite sh\<rparr>"

definition save_schema :: "auth_state \<Rightarrow> schema_rec \<Rightarrow> schema_rec" where
  "save_schema a sh = sh\<lparr>sh_db := as_db a, sh_next_session := as_next_session a, sh_next_code := as_next_code a,
     sh_next_user := as_next_user a, sh_next_invite := as_next_invite a\<rparr>"

text \<open>What remains of the process after a call inside a schema: everything but the rows and sequences.\<close>

definition leave_schema :: "auth_state \<Rightarrow> auth_state \<Rightarrow> auth_state" where
  "leave_schema a before = a\<lparr>as_db := as_db before, as_next_session := as_next_session before,
     as_next_code := as_next_code before, as_next_user := as_next_user before, as_next_invite := as_next_invite before\<rparr>"

definition in_schema :: "tenant_env \<Rightarrow> string \<Rightarrow> 'a auth_op \<Rightarrow> 'a tenant_op" where
  "in_schema e slug m = db_call e (\<lambda>s.
     case st_schemas s slug of
       None \<Rightarrow> (Inl Database_error, s)
     | Some sh \<Rightarrow>
         if \<not> {''users'', ''user_invite_tokens''} \<subseteq> set (sh_tables sh) then (Inl Database_error, s)
         else (case m (load_schema sh (st_auth s)) of
             (r, a) \<Rightarrow> (map_sum User_error (\<lambda>x. x) r,
               s\<lparr>st_auth := leave_schema a (st_auth s), st_schemas := (st_schemas s)(slug \<mapsto> save_schema a sh)\<rparr>)))"

text \<open>Code that needs no schema: the clock and random values.\<close>

definition on_process :: "'a auth_op \<Rightarrow> 'a tenant_op" where
  "on_process m = (\<lambda>s. case m (st_auth s) of (r, a) \<Rightarrow> (map_sum User_error (\<lambda>x. x) r, s\<lparr>st_auth := a\<rparr>))"

definition in_settings :: "tenant_env \<Rightarrow> string \<Rightarrow> 'a settings_op \<Rightarrow> 'a tenant_op" where
  "in_settings e slug m = db_call e (\<lambda>s.
     case st_schemas s slug of
       None \<Rightarrow> (Inl Database_error, s)
     | Some sh \<Rightarrow>
         if ''settings'' \<notin> set (sh_tables sh) then (Inl Database_error, s)
         else (case m (sh_settings sh) of
             (r, x) \<Rightarrow> (map_sum Settings_error (\<lambda>x. x) r,
               s\<lparr>st_schemas := (st_schemas s)(slug \<mapsto> sh\<lparr>sh_settings := x\<rparr>)\<rparr>)))"

end
