(* ===== verification/Tenant_Sessions.thy ===== *)
theory Tenant_Sessions
  imports Tenant_Schema
begin

text \<open>
  The repository of demo sign-ups (\<open>tenant/repositories/demo_signup_repository.py\<close>). \<open>session_id\<close> is the primary key
  and \<open>tenant_slug\<close> is unique, so an \<open>INSERT ... ON CONFLICT DO NOTHING\<close> is refused by either; the block list has
  its address as key. Of several rows with the newest \<open>created_at\<close> the first in table order is taken.
\<close>

section \<open>Text functions of SQL\<close>

definition sql_trim :: "string \<Rightarrow> string" where
  "sql_trim s = strip_char CHR '' '' s"

definition sql_lower_trim :: "string \<Rightarrow> string" where
  "sql_lower_trim s = py_lower (sql_trim s)"

definition norm_text :: "string \<Rightarrow> string" where
  "norm_text s = py_lower (py_strip s)"

text \<open>The link as the queries compare it: in SQL, and as the argument is prepared.\<close>

definition sql_review_url :: "string option \<Rightarrow> string" where
  "sql_review_url u = py_lower (rstrip_char CHR ''/'' (sql_trim (case u of None \<Rightarrow> [] | Some x \<Rightarrow> x)))"

definition review_argument :: "string \<Rightarrow> string" where
  "review_argument u = rstrip_char CHR ''/'' (py_strip u)"

definition newest :: "signup_session list \<Rightarrow> signup_session option" where
  "newest rows = latest_by dz_created_at rows"

section \<open>Reservation of slugs\<close>

definition session_row :: "tenant_store \<Rightarrow> string \<Rightarrow> signup_session option" where
  "session_row s session_id = find (\<lambda>r. dz_session_id r = session_id) (st_sessions s)"

definition reserved_slug :: "tenant_store \<Rightarrow> string \<Rightarrow> string option" where
  "reserved_slug s session_id = map_option dz_tenant_slug (session_row s session_id)"

definition is_slug_reserved :: "tenant_store \<Rightarrow> string \<Rightarrow> bool" where
  "is_slug_reserved s slug \<longleftrightarrow> norm_text slug \<noteq> [] \<and>
     list_ex (\<lambda>r. py_lower (dz_tenant_slug r) = norm_text slug \<and> dz_completed_at r = None) (st_sessions s)"

definition fresh_signup_session :: "string \<Rightarrow> string \<Rightarrow> string \<Rightarrow> string \<Rightarrow> datetime \<Rightarrow> signup_session" where
  "fresh_signup_session session_id requested_name email tenant_slug now =
     \<lparr>dz_session_id = session_id, dz_requested_name = requested_name, dz_email = email, dz_tenant_slug = tenant_slug,
      dz_created_at = now, dz_completed_at = None, dz_token_hash = None, dz_expires_at = None, dz_verified_at = None,
      dz_owner_name = None, dz_tenant_name = None, dz_preferred_locale = None, dz_plan_code = None,
      dz_subscription_period = None, dz_google_review_url = None\<rparr>"

definition reserve_slug :: "tenant_env \<Rightarrow> string \<Rightarrow> string \<Rightarrow> string \<Rightarrow> string \<Rightarrow> bool tenant_op" where
  "reserve_slug e session_id requested_name email tenant_slug = db_call e (\<lambda>s.
     if list_ex (\<lambda>r. dz_session_id r = session_id \<or> dz_tenant_slug r = tenant_slug) (st_sessions s) then (Inr False, s)
     else (Inr True, s\<lparr>st_sessions := st_sessions s @
            [fresh_signup_session session_id requested_name email tenant_slug (now_of s)]\<rparr>))"

definition delete_session :: "tenant_env \<Rightarrow> string \<Rightarrow> unit tenant_op" where
  "delete_session e session_id = db_write e (\<lambda>s. s\<lparr>st_sessions := filter (\<lambda>r. dz_session_id r \<noteq> session_id) (st_sessions s)\<rparr>)"

section \<open>Pending verification\<close>

definition save_pending_verification ::
  "tenant_env \<Rightarrow> string \<Rightarrow> string \<Rightarrow> datetime \<Rightarrow> string \<Rightarrow> string \<Rightarrow> string \<Rightarrow> string \<Rightarrow> string \<Rightarrow> string \<Rightarrow> unit tenant_op" where
  "save_pending_verification e session_id token_hash expires_at owner_name tenant_name locale plan period url =
     db_call e (\<lambda>s.
       let hit = (\<lambda>r. dz_session_id r = session_id \<and> dz_completed_at r = None) in
       if length (filter hit (st_sessions s)) \<noteq> 1
       then (Inl (Runtime_error ''Pending verification mentese sikertelen''), s)
       else (Inr (), s\<lparr>st_sessions := update_where hit (\<lambda>r. r\<lparr>dz_token_hash := Some token_hash,
              dz_expires_at := Some expires_at, dz_verified_at := None, dz_owner_name := Some owner_name,
              dz_tenant_name := Some tenant_name, dz_preferred_locale := Some locale, dz_plan_code := Some plan,
              dz_subscription_period := Some period, dz_google_review_url := Some url\<rparr>) (st_sessions s)\<rparr>))"

definition pending_by_token_hash :: "tenant_store \<Rightarrow> string \<Rightarrow> signup_session option" where
  "pending_by_token_hash s token_hash =
     (if norm_text token_hash = [] then None
      else find (\<lambda>r. dz_token_hash r = Some (norm_text token_hash)) (st_sessions s))"

definition latest_pending_by_email :: "tenant_store \<Rightarrow> string \<Rightarrow> signup_session option" where
  "latest_pending_by_email s email =
     (if norm_text email = [] then None
      else newest (filter (\<lambda>r. sql_lower_trim (dz_email r) = norm_text email \<and> dz_completed_at r = None \<and>
             dz_token_hash r \<noteq> None) (st_sessions s)))"

definition mark_session_verified :: "tenant_env \<Rightarrow> string \<Rightarrow> unit tenant_op" where
  "mark_session_verified e session_id = db_write e (\<lambda>s. s\<lparr>st_sessions :=
     update_where (\<lambda>r. dz_session_id r = session_id) (\<lambda>r. r\<lparr>dz_verified_at := Some (now_of s)\<rparr>) (st_sessions s)\<rparr>)"

definition mark_session_completed :: "tenant_env \<Rightarrow> string \<Rightarrow> unit tenant_op" where
  "mark_session_completed e session_id = db_write e (\<lambda>s. s\<lparr>st_sessions :=
     update_where (\<lambda>r. dz_session_id r = session_id) (\<lambda>r. r\<lparr>dz_completed_at := Some (now_of s),
       dz_verified_at := (case dz_verified_at r of None \<Rightarrow> Some (now_of s) | Some t \<Rightarrow> Some t)\<rparr>) (st_sessions s)\<rparr>)"

section \<open>Earlier sign-ups\<close>

definition latest_completed_slug_by_email :: "tenant_store \<Rightarrow> string \<Rightarrow> string option" where
  "latest_completed_slug_by_email s email =
     (if norm_text email = [] then None
      else map_option dz_tenant_slug (newest (filter (\<lambda>r. sql_lower_trim (dz_email r) = norm_text email \<and>
             dz_completed_at r \<noteq> None) (st_sessions s))))"

definition latest_completed_by_review_url :: "tenant_store \<Rightarrow> string \<Rightarrow> signup_session option" where
  "latest_completed_by_review_url s url =
     (if review_argument url = [] then None
      else newest (filter (\<lambda>r. sql_review_url (dz_google_review_url r) = py_lower (review_argument url) \<and>
             dz_completed_at r \<noteq> None \<and> sql_trim (dz_tenant_slug r) \<noteq> []) (st_sessions s)))"

definition latest_pending_by_review_url :: "tenant_store \<Rightarrow> string \<Rightarrow> signup_session option" where
  "latest_pending_by_review_url s url =
     (if review_argument url = [] then None
      else newest (filter (\<lambda>r. sql_review_url (dz_google_review_url r) = py_lower (review_argument url) \<and>
             dz_completed_at r = None \<and> dz_token_hash r \<noteq> None) (st_sessions s)))"

text \<open>Completed sign-ups first, then the newest.\<close>

definition review_url_by_slug :: "tenant_store \<Rightarrow> string \<Rightarrow> string option" where
  "review_url_by_slug s slug =
     (if norm_text slug = [] then None
      else
        let rows = filter (\<lambda>r. sql_lower_trim (dz_tenant_slug r) = norm_text slug \<and>
               sql_trim (case dz_google_review_url r of None \<Rightarrow> [] | Some x \<Rightarrow> x) \<noteq> []) (st_sessions s);
            row = (case newest (filter (\<lambda>r. dz_completed_at r \<noteq> None) rows) of
                     Some r \<Rightarrow> Some r | None \<Rightarrow> newest rows)
        in case row of
             None \<Rightarrow> None
           | Some r \<Rightarrow>
               let u = rstrip_char CHR ''/'' (py_strip (str_or (dz_google_review_url r) []))
               in if u = [] then None else Some u)"

definition count_completed_for_email :: "tenant_store \<Rightarrow> string \<Rightarrow> int" where
  "count_completed_for_email s email =
     (if norm_text email = [] then 0
      else int (length (filter (\<lambda>r. sql_lower_trim (dz_email r) = norm_text email \<and> dz_completed_at r \<noteq> None)
             (st_sessions s))))"

section \<open>Demo tenants\<close>

text \<open>\<open>feature_flags->>'demo_mode'\<close> is true; the moment under \<open>demo_expires_at\<close>, if there is one.\<close>

definition demo_mode :: "config_rec \<Rightarrow> bool" where
  "demo_mode c \<longleftrightarrow> map_of (cf_feature_flags c) ''demo_mode'' = Some (Flag_bool True)"

definition demo_expiry :: "config_rec \<Rightarrow> datetime option" where
  "demo_expiry c = (case map_of (cf_feature_flags c) ''demo_expires_at'' of Some (Flag_time t) \<Rightarrow> Some t | _ \<Rightarrow> None)"

definition active_demo_slug_by_email :: "tenant_store \<Rightarrow> string \<Rightarrow> string option" where
  "active_demo_slug_by_email s email =
     (if norm_text email = [] then None
      else map_option dz_tenant_slug (newest (filter (\<lambda>r.
             sql_lower_trim (dz_email r) = norm_text email \<and> dz_completed_at r \<noteq> None \<and>
             (case tenant_by_slug s (dz_tenant_slug r) of
                None \<Rightarrow> False
              | Some t \<Rightarrow> tr_is_active t \<and>
                  (case config_row s (tr_id t) of
                     None \<Rightarrow> False
                   | Some c \<Rightarrow> demo_mode c \<and> (case demo_expiry c of None \<Rightarrow> True | Some x \<Rightarrow> now_of s < x))))
           (st_sessions s))))"

definition cleanup_expired_pending_sessions :: "tenant_env \<Rightarrow> unit tenant_op" where
  "cleanup_expired_pending_sessions e = db_write e (\<lambda>s. s\<lparr>st_sessions := filter (\<lambda>r.
     \<not> (dz_completed_at r = None \<and> (case dz_expires_at r of None \<Rightarrow> False | Some t \<Rightarrow> t \<le> now_of s))) (st_sessions s)\<rparr>)"

text \<open>The update goes past the repository of tenants: no cache is invalidated.\<close>

definition demo_is_over :: "tenant_store \<Rightarrow> tenant_rec \<Rightarrow> bool" where
  "demo_is_over s t \<longleftrightarrow> tr_is_active t \<and>
     (case config_row s (tr_id t) of
        None \<Rightarrow> False
      | Some c \<Rightarrow> demo_mode c \<and> (case demo_expiry c of None \<Rightarrow> False | Some x \<Rightarrow> x \<le> now_of s))"

definition cleanup_expired_demo_tenants :: "tenant_env \<Rightarrow> unit tenant_op" where
  "cleanup_expired_demo_tenants e = db_write e (\<lambda>s. s\<lparr>st_tenants :=
     update_where (demo_is_over s) (\<lambda>t. t\<lparr>tr_is_active := False\<rparr>) (st_tenants s)\<rparr>)"

section \<open>The block list\<close>

definition blocklist_entry :: "tenant_store \<Rightarrow> string \<Rightarrow> blocked_email option" where
  "blocklist_entry s email =
     (if norm_text email = [] then None
      else find (\<lambda>b. sql_lower_trim (be_email b) = norm_text email) (st_blocklist s))"

definition is_email_blocked :: "tenant_store \<Rightarrow> string \<Rightarrow> bool" where
  "is_email_blocked s email \<longleftrightarrow> blocklist_entry s email \<noteq> None"

definition block_email :: "tenant_env \<Rightarrow> string \<Rightarrow> string \<Rightarrow> string \<Rightarrow> unit tenant_op" where
  "block_email e email source_tenant_slug reason =
     (if norm_text email = [] then py_return ()
      else db_write e (\<lambda>s. s\<lparr>st_blocklist := upsert_row be_email
             \<lparr>be_email = norm_text email, be_blocked_at = now_of s, be_reason = reason,
              be_source_tenant_slug = Some source_tenant_slug\<rparr> (st_blocklist s)\<rparr>))"

end
