(* ===== verification/Tenant_Demo.thy ===== *)
theory Tenant_Demo
  imports Tenant_Schema Auth_Login_Facts
begin

text \<open>
  Concrete stores and environments on which the theorems about tenants are applied: an empty platform, and one with
  a demo tenant whose trial has just ended, and one whose sign-up was completed in 1970. Texts are hashed to themselves and every source of tokens counts.
\<close>

definition demo_tenant_auth :: auth_env where
  "demo_tenant_auth = demo_auth_env\<lparr>ax_token_urlsafe := (\<lambda>n. CHR ''t'' # str_of_nat n)\<rparr>"

definition demo_hooks :: "schema_hook list" where
  "demo_hooks = [\<lparr>hk_name = ''users'', hk_revision = Some ''users-1'', hk_tables = [''users'', ''user_invite_tokens'']\<rparr>,
     \<lparr>hk_name = ''settings'', hk_revision = None, hk_tables = [''settings'']\<rparr>]"

definition demo_tenant_env :: "(nat \<Rightarrow> bool) \<Rightarrow> tenant_env" where
  "demo_tenant_env fault = \<lparr>tx_auth = demo_tenant_auth, tx_fault = fault, tx_hooks = demo_hooks,
     tx_base_domain = ''app.hu'', tx_cookie_secure = True, tx_frontend_port = None, tx_frontend_base_url = [],
     tx_install_host = ''app.hu'', tx_verification_ttl_hours = 24, tx_trial_days = 7,
     tx_request_base_url = (\<lambda>slug. ''https://'' @ slug @ ''.app.hu''), tx_confirm_mail = (\<lambda>_. True)\<rparr>"

definition demo_empty_platform :: tenant_store where
  "demo_empty_platform = \<lparr>st_auth = (demo_auth_state [])\<lparr>as_db := empty_auth_db\<rparr>, st_calls = 0, st_tenants = [],
     st_next_tenant = 1, st_configs = [], st_domains = [], st_sessions = [], st_blocklist = [],
     st_schemas = (\<lambda>_. None), st_tenant_cache = [], st_domain_cache = [], st_counters = [], st_fallback_counters = [],
     st_signup_enabled = None, st_enabled_override = None, st_last_cleanup = 0\<rparr>"

definition demo_expired_platform :: tenant_store where
  "demo_expired_platform = demo_empty_platform\<lparr>st_next_tenant := 2,
     st_tenants := [\<lparr>tr_id = 1, tr_slug = ''bolt1'', tr_name = ''Bolt'', tr_created_at = 0, tr_created_by = None,
       tr_security_version = 0, tr_is_active = True\<rparr>],
     st_configs := [\<lparr>cf_tenant_id = 1, cf_package = ''free'',
       cf_feature_flags = [(''demo_mode'', Flag_bool True), (''demo_expires_at'', Flag_time 0)], cf_limits = []\<rparr>]\<rparr>"

definition demo_completed_session :: signup_session where
  "demo_completed_session = \<lparr>dz_session_id = ''s1'', dz_requested_name = ''Bolt'', dz_email = ''a@b.hu'', dz_tenant_slug = ''bolt1'',
     dz_created_at = 0, dz_completed_at = Some 1, dz_token_hash = Some ''t1'', dz_expires_at = Some 2, dz_verified_at = Some 1,
     dz_owner_name = Some ''Bolt'', dz_tenant_name = Some ''Bolt'', dz_preferred_locale = Some ''hu'', dz_plan_code = Some ''free'',
     dz_subscription_period = Some ''monthly'', dz_google_review_url = None\<rparr>"

definition demo_owner :: auth_user where
  "demo_owner = demo_auth_user\<lparr>au_preferred_locale := Some ''hu''\<rparr>"

definition demo_owner_schema :: schema_rec where
  "demo_owner_schema = empty_schema\<lparr>sh_tables := [''users'', ''user_invite_tokens'', ''settings''], sh_next_user := 8,
     sh_db := empty_auth_db\<lparr>ad_users := [demo_owner]\<rparr>\<rparr>"

definition demo_completed_platform :: tenant_store where
  "demo_completed_platform = demo_expired_platform\<lparr>st_sessions := [demo_completed_session],
     st_schemas := [''bolt1'' \<mapsto> demo_owner_schema]\<rparr>"

end
