(* ===== verification/Tenant_Routing_Facts.thy ===== *)
theory Tenant_Routing_Facts
  imports Tenant_Routing Tenant_Sessions Tenant_Demo Table_Spec
begin

text \<open>
  The caches of routing as a state machine: requests, the writes of the repository of tenants and anything that
  touches neither tables nor caches, in every order. A cached entry always says what the tables say, so a request is
  served by the tenant that its host belongs to, as that tenant is now. The clean-up of expired demos writes past the
  repository and breaks this.
\<close>

section \<open>Lemmas on texts and tables\<close>

lemma of_char_lower: "(of_char (py_lower_char c) :: nat) =
    (let n = of_char c in if (65 \<le> n \<and> n \<le> 90) \<or> (192 \<le> n \<and> n \<le> 222 \<and> n \<noteq> 215) then n + 32 else n)"
  by (auto simp: py_lower_char_def Let_def)

lemma py_space_lower [simp]: "py_space (py_lower_char c) = py_space c"
  unfolding py_space_def of_char_lower by (auto simp: Let_def)

lemma py_lower_char_idem [simp]: "py_lower_char (py_lower_char c) = py_lower_char c"
proof -
  have "(of_char (py_lower_char (py_lower_char c)) :: nat) = of_char (py_lower_char c)"
    unfolding of_char_lower by (auto simp: Let_def)
  then show ?thesis by simp
qed

lemma py_strip_lower: "py_strip (py_lower s) = py_lower (py_strip s)"
  by (simp add: py_strip_def py_lstrip_def py_lower_def dropWhile_map rev_map comp_def)

lemma normalize_domain_idem [simp]: "normalize_domain (normalize_domain d) = normalize_domain d"
  by (simp add: normalize_domain_def py_strip_lower py_strip_idem) (simp add: py_lower_def)

lemma find_cong_set: "(\<And>x. x \<in> set xs \<Longrightarrow> P x = Q x) \<Longrightarrow> find P xs = find Q xs"
  by (induction xs) auto

lemma find_map_same:
  "(\<And>x. x \<in> set xs \<Longrightarrow> Q (g x) = Q x \<and> (Q x \<longrightarrow> g x = x)) \<Longrightarrow> find Q (map g xs) = find Q xs"
  by (induction xs) auto

lemma find_map_image:
  "(\<And>x. x \<in> set xs \<Longrightarrow> Q (g x) = Q x \<and> (Q x \<longrightarrow> h (g x) = h x)) \<Longrightarrow>
   map_option h (find Q (map g xs)) = map_option h (find Q xs)"
  by (induction xs) auto

lemma find_filter_same: "(\<And>x. x \<in> set xs \<Longrightarrow> Q x \<Longrightarrow> R x) \<Longrightarrow> find Q (filter R xs) = find Q xs"
  by (induction xs) auto

lemma find_upsert_row:
  "find (\<lambda>r. key r = j) (upsert_row key row tbl) = (if j = key row then Some row else find (\<lambda>r. key r = j) tbl)"
  using fun_cong [OF row_map_upsert_row [of key row tbl], of j] by (simp add: row_map_def)

section \<open>What the caches may hold\<close>

definition tables_wf :: "tenant_rec list \<Rightarrow> int \<Rightarrow> config_rec list \<Rightarrow> domain_rec list \<Rightarrow> bool" where
  "tables_wf ts n cs ds \<longleftrightarrow> distinct (map tr_id ts) \<and> distinct (map tr_slug ts) \<and> distinct (map dm_domain ds) \<and>
     (\<forall>t \<in> set ts. tr_id t < n) \<and> (\<forall>c \<in> set cs. cf_tenant_id c < n) \<and>
     (\<forall>d \<in> set ds. dm_tenant_id d < n \<and> normalize_domain (dm_domain d) = dm_domain d)"

definition store_wf :: "tenant_store \<Rightarrow> bool" where
  "store_wf s \<longleftrightarrow> tables_wf (st_tenants s) (st_next_tenant s) (st_configs s) (st_domains s)"

lemma tables_wf_next: "tables_wf ts n cs ds \<Longrightarrow> tables_wf ts (n + 1) cs ds"
  unfolding tables_wf_def by (meson less_add_one less_trans)

lemma tables_wf_new_tenant:
  "tables_wf ts n cs ds \<Longrightarrow> tr_slug t \<notin> tr_slug ` set ts \<Longrightarrow> tr_id t = n \<Longrightarrow> tables_wf (ts @ [t]) (n + 1) cs ds"
  by (frule tables_wf_next) (auto simp: tables_wf_def)

lemma tables_wf_tenants:
  "tables_wf ts n cs ds \<Longrightarrow> map tr_id us = map tr_id ts \<Longrightarrow> map tr_slug us = map tr_slug ts \<Longrightarrow> tables_wf us n cs ds"
  unfolding tables_wf_def by (metis (no_types, lifting) image_eqI image_iff set_map)

lemma tables_wf_config:
  "tables_wf ts n cs ds \<Longrightarrow> (\<And>c. c \<in> set cs' \<Longrightarrow> c \<in> set cs \<or> cf_tenant_id c < n) \<Longrightarrow> tables_wf ts n cs' ds"
  unfolding tables_wf_def by blast

lemma tables_wf_upsert_domain:
  assumes "tables_wf ts n cs ds" and "dm_tenant_id d < n" and "normalize_domain (dm_domain d) = dm_domain d"
  shows "tables_wf ts n cs (upsert_row dm_domain d ds)"
proof -
  have "distinct (map dm_domain (upsert_row dm_domain d ds))"
    using key_ok_upsert_row [of dm_domain ds d] assms(1) by (simp add: key_ok_def tables_wf_def)
  moreover have "set (upsert_row dm_domain d ds) \<subseteq> insert d (set ds)"
    by (auto simp: upsert_row_def update_where_def split: option.splits)
  ultimately show ?thesis using assms unfolding tables_wf_def by blast
qed

lemma tables_wf_update_domain:
  assumes "tables_wf ts n cs ds"
    and "\<And>d. dm_domain (f d) = dm_domain d" and "\<And>d. dm_tenant_id (f d) = dm_tenant_id d"
  shows "tables_wf ts n cs (update_where P f ds)"
  using assms by (auto simp: tables_wf_def map_update_where set_update_where)

lemma tables_wf_filter:
  assumes "tables_wf ts n cs ds"
  shows "tables_wf (filter P ts) n (filter Q cs) (filter R ds)"
  using assms by (simp add: tables_wf_def distinct_map_filter)

text \<open>The slug of a host by the tables, empty for an unknown host.\<close>

definition host_slug :: "routing_policy \<Rightarrow> tenant_store \<Rightarrow> string \<Rightarrow> string" where
  "host_slug p s host =
     (case resolve_platform_slug p host of
        Some slug \<Rightarrow> slug
      | None \<Rightarrow> str_or (map_option tr_slug (tenant_by_domain s host)) [])"

definition routing_ok :: "routing_policy \<Rightarrow> tenant_store \<Rightarrow> bool" where
  "routing_ok p s \<longleftrightarrow> store_wf s \<and>
     (\<forall>(slug, sn, x) \<in> set (st_tenant_cache s). slug \<noteq> [] \<and> snapshot_by_slug s slug = Some sn) \<and>
     (\<forall>(host, slug, x) \<in> set (st_domain_cache s).
        host \<noteq> [] \<and> normalize_domain host = host \<and> slug = host_slug p s host)"

text \<open>The part of the store that routing depends on.\<close>

definition routing_view ::
  "tenant_store \<Rightarrow> (tenant_rec list \<times> int \<times> config_rec list \<times> domain_rec list) \<times>
     (string \<times> snapshot \<times> datetime) list \<times> (string \<times> string \<times> datetime) list" where
  "routing_view s = ((st_tenants s, st_next_tenant s, st_configs s, st_domains s), st_tenant_cache s, st_domain_cache s)"

lemmas row_defs = tenant_by_slug_def tenant_by_id_def config_row_def domain_row_def verified_link_def

lemma view_reads:
  assumes "fst (routing_view s') = fst (routing_view s)"
  shows "snapshot_by_slug s' slug = snapshot_by_slug s slug" "tenant_by_domain s' host = tenant_by_domain s host"
    "host_slug p s' host = host_slug p s host" "store_wf s' = store_wf s"
proof -
  have e: "st_tenants s' = st_tenants s" "st_next_tenant s' = st_next_tenant s" "st_configs s' = st_configs s"
      "st_domains s' = st_domains s"
    using assms by (auto simp: routing_view_def)
  show "snapshot_by_slug s' slug = snapshot_by_slug s slug" by (simp add: snapshot_by_slug_def row_defs e)
  show d: "tenant_by_domain s' host = tenant_by_domain s host"
    by (simp add: tenant_by_domain_def row_defs e split: option.splits)
  show "host_slug p s' host = host_slug p s host" by (simp add: host_slug_def d split: option.splits)
  show "store_wf s' = store_wf s" by (simp add: store_wf_def e)
qed

lemma routing_ok_view: "routing_view s' = routing_view s \<Longrightarrow> routing_ok p s' = routing_ok p s"
proof -
  assume v: "routing_view s' = routing_view s"
  then have c: "st_tenant_cache s' = st_tenant_cache s" "st_domain_cache s' = st_domain_cache s"
    by (auto simp: routing_view_def)
  have "fst (routing_view s') = fst (routing_view s)" using v by simp
  then show ?thesis by (simp add: routing_ok_def view_reads [of s' s] c)
qed

lemma cache_reads [simp]:
  "snapshot_by_slug (s\<lparr>st_tenant_cache := tc\<rparr>) slug = snapshot_by_slug s slug"
  "snapshot_by_slug (s\<lparr>st_domain_cache := dc\<rparr>) slug = snapshot_by_slug s slug"
  "snapshot_by_slug (s\<lparr>st_calls := n\<rparr>) slug = snapshot_by_slug s slug"
  "tenant_by_domain (s\<lparr>st_tenant_cache := tc\<rparr>) host = tenant_by_domain s host"
  "tenant_by_domain (s\<lparr>st_domain_cache := dc\<rparr>) host = tenant_by_domain s host"
  "tenant_by_domain (s\<lparr>st_calls := n\<rparr>) host = tenant_by_domain s host"
  "host_slug p (s\<lparr>st_tenant_cache := tc\<rparr>) host = host_slug p s host"
  "host_slug p (s\<lparr>st_domain_cache := dc\<rparr>) host = host_slug p s host"
  "host_slug p (s\<lparr>st_calls := n\<rparr>) host = host_slug p s host"
  "store_wf (s\<lparr>st_tenant_cache := tc\<rparr>) = store_wf s" "store_wf (s\<lparr>st_domain_cache := dc\<rparr>) = store_wf s"
  "store_wf (s\<lparr>st_calls := n\<rparr>) = store_wf s"
  by (rule view_reads; simp add: routing_view_def)+

lemma tenant_entry:
  assumes "routing_ok p s" and "(slug, sn, x) \<in> set (st_tenant_cache s)"
  shows "slug \<noteq> []" "snapshot_by_slug s slug = Some sn"
proof -
  have "case (slug, sn, x) of (slug, sn, x) \<Rightarrow> slug \<noteq> [] \<and> snapshot_by_slug s slug = Some sn"
    using assms unfolding routing_ok_def by blast
  then show "slug \<noteq> []" "snapshot_by_slug s slug = Some sn" by simp_all
qed

lemma domain_entry:
  assumes "routing_ok p s" and "(host, slug, x) \<in> set (st_domain_cache s)"
  shows "host \<noteq> []" "normalize_domain host = host" "slug = host_slug p s host"
proof -
  have "case (host, slug, x) of (host, slug, x) \<Rightarrow> host \<noteq> [] \<and> normalize_domain host = host \<and> slug = host_slug p s host"
    using assms unfolding routing_ok_def by blast
  then show "host \<noteq> []" "normalize_domain host = host" "slug = host_slug p s host" by simp_all
qed

lemma routing_okI:
  assumes "store_wf s"
    and "\<And>slug sn x. (slug, sn, x) \<in> set (st_tenant_cache s) \<Longrightarrow> slug \<noteq> [] \<and> snapshot_by_slug s slug = Some sn"
    and "\<And>host slug x. (host, slug, x) \<in> set (st_domain_cache s) \<Longrightarrow>
      host \<noteq> [] \<and> normalize_domain host = host \<and> slug = host_slug p s host"
  shows "routing_ok p s"
  using assms unfolding routing_ok_def by blast

text \<open>A change that drops the entries whose answer it changes.\<close>

lemma routing_change:
  assumes ok: "routing_ok p s" and wf: "store_wf s'"
    and tc: "\<And>slug sn x. (slug, sn, x) \<in> set (st_tenant_cache s') \<Longrightarrow>
      (slug, sn, x) \<in> set (st_tenant_cache s) \<and> (slug \<noteq> [] \<longrightarrow> snapshot_by_slug s' slug = snapshot_by_slug s slug)"
    and dc: "\<And>host slug x. (host, slug, x) \<in> set (st_domain_cache s') \<Longrightarrow> (host, slug, x) \<in> set (st_domain_cache s) \<and>
      (host \<noteq> [] \<longrightarrow> normalize_domain host = host \<longrightarrow>
        map_option tr_slug (tenant_by_domain s' host) = map_option tr_slug (tenant_by_domain s host))"
  shows "routing_ok p s'"
proof (rule routing_okI [OF wf])
  fix slug sn x assume c: "(slug, sn, x) \<in> set (st_tenant_cache s')"
  then have "(slug, sn, x) \<in> set (st_tenant_cache s)" using tc by blast
  with c show "slug \<noteq> [] \<and> snapshot_by_slug s' slug = Some sn" using tenant_entry [OF ok] tc by metis
next
  fix host slug x assume c: "(host, slug, x) \<in> set (st_domain_cache s')"
  then have "(host, slug, x) \<in> set (st_domain_cache s)" using dc by blast
  note e = domain_entry [OF ok this]
  then have "host_slug p s' host = host_slug p s host" using dc [OF c] by (simp add: host_slug_def split: option.splits)
  with e show "host \<noteq> [] \<and> normalize_domain host = host \<and> slug = host_slug p s' host" by simp
qed

lemma routing_call:
  "(\<And>s. routing_ok p s \<Longrightarrow> routing_ok p (snd (m s))) \<Longrightarrow> routing_ok p s \<Longrightarrow> routing_ok p (snd (db_call e m s))"
proof -
  assume m: "\<And>s. routing_ok p s \<Longrightarrow> routing_ok p (snd (m s))" and ok: "routing_ok p s"
  have "routing_ok p (s\<lparr>st_calls := st_calls s + 1\<rparr>)" using ok by (subst routing_ok_view [of _ s]) (simp_all add: routing_view_def)
  then show ?thesis using m by (simp add: db_call_def Let_def)
qed

lemma routing_db_call [preserve]: "preserves (routing_ok p) m \<Longrightarrow> preserves (routing_ok p) (db_call e m)"
  unfolding preserves_def by (blast intro: routing_call)

lemma routing_db_read [preserve]: "preserves (routing_ok p) (db_read e f)"
  unfolding db_read_def by (intro preserve)

section \<open>Writes\<close>

lemma tenant_cache_gone [simp]:
  "st_tenants (invalidate_tenant_cache slug s) = st_tenants s"
  "st_next_tenant (invalidate_tenant_cache slug s) = st_next_tenant s"
  "st_configs (invalidate_tenant_cache slug s) = st_configs s"
  "st_domains (invalidate_tenant_cache slug s) = st_domains s"
  "st_domain_cache (invalidate_tenant_cache slug s) = st_domain_cache s"
  by (simp_all add: invalidate_tenant_cache_def)

lemma set_tenant_cache_gone:
  "slug' \<noteq> [] \<Longrightarrow> (slug', sn, x) \<in> set (st_tenant_cache (invalidate_tenant_cache slug s)) \<longleftrightarrow>
     slug' \<noteq> slug \<and> (slug', sn, x) \<in> set (st_tenant_cache s)"
  by (auto simp: invalidate_tenant_cache_def)

lemma set_tenant_cache_sub:
  "(slug', sn, x) \<in> set (st_tenant_cache (invalidate_tenant_cache slug s)) \<Longrightarrow> (slug', sn, x) \<in> set (st_tenant_cache s)"
  by (auto simp: invalidate_tenant_cache_def split: if_splits)

lemma domain_cache_gone [simp]:
  "st_tenants (invalidate_domain_cache d s) = st_tenants s"
  "st_next_tenant (invalidate_domain_cache d s) = st_next_tenant s"
  "st_configs (invalidate_domain_cache d s) = st_configs s"
  "st_domains (invalidate_domain_cache d s) = st_domains s"
  "st_tenant_cache (invalidate_domain_cache d s) = st_tenant_cache s"
  by (simp_all add: invalidate_domain_cache_def)

lemma set_domain_cache_gone:
  "host \<noteq> [] \<Longrightarrow> (host, slug, x) \<in> set (st_domain_cache (invalidate_domain_cache d s)) \<longleftrightarrow>
     host \<noteq> normalize_domain d \<and> (host, slug, x) \<in> set (st_domain_cache s)"
  by (auto simp: invalidate_domain_cache_def)

lemma set_domain_cache_sub:
  "(host, slug, x) \<in> set (st_domain_cache (invalidate_domain_cache d s)) \<Longrightarrow> (host, slug, x) \<in> set (st_domain_cache s)"
  by (auto simp: invalidate_domain_cache_def split: if_splits)

lemmas tenant_reads = snapshot_by_slug_def tenant_by_domain_def row_defs

lemma distinct_slug:
  assumes "store_wf s" and "t \<in> set (st_tenants s)" and "u \<in> set (st_tenants s)" and "tr_id t = tr_id u"
  shows "t = u"
  using assms distinct_map_inj [of tr_id "st_tenants s" t u] by (simp add: store_wf_def tables_wf_def)

lemma tenant_by_slug_mem: "tenant_by_slug s slug = Some t \<Longrightarrow> t \<in> set (st_tenants s) \<and> tr_slug t = slug"
  unfolding tenant_by_slug_def by (drule find_Some_set)

lemma tenant_by_id_mem: "tenant_by_id s i = Some t \<Longrightarrow> t \<in> set (st_tenants s) \<and> tr_id t = i"
  unfolding tenant_by_id_def by (drule find_Some_set)

lemma tenant_by_id_wf:
  assumes "store_wf s" and t: "t \<in> set (st_tenants s)"
  shows "tenant_by_id s (tr_id t) = Some t"
proof (cases "tenant_by_id s (tr_id t)")
  case None
  then have "\<forall>u \<in> set (st_tenants s). tr_id u \<noteq> tr_id t" by (simp add: tenant_by_id_def find_None_iff_all)
  then show ?thesis using t by blast
next
  case (Some u)
  then have "u = t" using tenant_by_id_mem [OF Some] distinct_slug [OF assms(1)] t by blast
  then show ?thesis using Some by simp
qed

lemma routing_create_tenant [preserve]: "preserves (routing_ok p) (create_tenant e slug name created_by active)"
  unfolding create_tenant_def
proof (intro preserve preservesI)
  fix s assume ok: "routing_ok p s"
  then have wf: "store_wf s" by (simp add: routing_ok_def)
  let ?row = "\<lparr>tr_id = st_next_tenant s, tr_slug = slug, tr_name = name, tr_created_at = now_of s,
       tr_created_by = created_by, tr_security_version = 0, tr_is_active = active\<rparr>"
  let ?s = "s\<lparr>st_next_tenant := st_next_tenant s + 1\<rparr>"
  let ?n = "invalidate_tenant_cache slug (?s\<lparr>st_tenants := st_tenants s @ [?row]\<rparr>)"
  have one: "routing_ok p ?s"
  proof (rule routing_change [OF ok])
    show "store_wf ?s" using wf by (simp add: store_wf_def tables_wf_next)
  next
    have "snapshot_by_slug ?s = snapshot_by_slug s" by (simp add: fun_eq_iff snapshot_by_slug_def row_defs)
    then show "(sl, sn, x) \<in> set (st_tenant_cache s) \<and> (sl \<noteq> [] \<longrightarrow> snapshot_by_slug ?s sl = snapshot_by_slug s sl)"
      if "(sl, sn, x) \<in> set (st_tenant_cache ?s)" for sl sn x using that by simp
  next
    have "tenant_by_domain ?s = tenant_by_domain s" by (simp add: fun_eq_iff tenant_by_domain_def row_defs split: option.splits)
    then show "(h, sl, x) \<in> set (st_domain_cache s) \<and> (h \<noteq> [] \<longrightarrow> normalize_domain h = h \<longrightarrow>
        map_option tr_slug (tenant_by_domain ?s h) = map_option tr_slug (tenant_by_domain s h))"
      if "(h, sl, x) \<in> set (st_domain_cache ?s)" for h sl x using that by simp
  qed
  have two: "routing_ok p ?n" if none: "tenant_by_slug s slug = None"
  proof (rule routing_change [OF ok])
    show "store_wf ?n"
      using wf none by (auto simp: store_wf_def tenant_by_slug_def find_None_iff_all intro!: tables_wf_new_tenant)
  next
    fix sl sn x assume c: "(sl, sn, x) \<in> set (st_tenant_cache ?n)"
    then have "(sl, sn, x) \<in> set (st_tenant_cache s)" by (drule_tac set_tenant_cache_sub) simp
    moreover have "snapshot_by_slug ?n sl = snapshot_by_slug s sl" if "sl \<noteq> []"
      using c that by (simp add: set_tenant_cache_gone) (auto simp: tenant_reads find_append split: option.splits)
    ultimately show "(sl, sn, x) \<in> set (st_tenant_cache s) \<and> (sl \<noteq> [] \<longrightarrow> snapshot_by_slug ?n sl = snapshot_by_slug s sl)"
      by blast
  next
    fix host sl x assume "(host, sl, x) \<in> set (st_domain_cache ?n)"
    moreover have "tenant_by_domain ?n host = tenant_by_domain s host"
      using wf by (auto simp: tenant_reads find_append store_wf_def tables_wf_def split: option.splits dest!: find_Some_set)
    ultimately show "(host, sl, x) \<in> set (st_domain_cache s) \<and> (host \<noteq> [] \<longrightarrow> normalize_domain host = host \<longrightarrow>
        map_option tr_slug (tenant_by_domain ?n host) = map_option tr_slug (tenant_by_domain s host))" by simp
  qed
  show "routing_ok p (snd (let row = ?row; s' = ?s in
      if tenant_by_slug s slug \<noteq> None then (Inl Database_error, s')
      else (Inr row, invalidate_tenant_cache slug (s'\<lparr>st_tenants := st_tenants s @ [row]\<rparr>))))"
    using one two by (cases "tenant_by_slug s slug") (auto simp: Let_def)
qed

text \<open>Entries of the tenant cache stay right when tenants keep ids and slugs and only the named one changes.\<close>

lemma routing_update_tenant [preserve]:
  assumes id: "\<And>r. tr_id (f r) = tr_id r" and sl: "\<And>r. tr_slug (f r) = tr_slug r"
  shows "preserves (routing_ok p) (update_tenant e i f)"
  unfolding update_tenant_def db_write_def
proof (intro preserve preserves_modify)
  fix s assume ok: "routing_ok p s"
  then have wf: "store_wf s" by (simp add: routing_ok_def)
  let ?ts = "update_where (\<lambda>r. tr_id r = i) f (st_tenants s)"
  show "routing_ok p (case tenant_by_id s i of None \<Rightarrow> s
      | Some t \<Rightarrow> invalidate_tenant_cache (tr_slug t) (s\<lparr>st_tenants := ?ts\<rparr>))"
  proof (cases "tenant_by_id s i")
    case None
    with ok show ?thesis by simp
  next
    case (Some t)
    let ?n = "invalidate_tenant_cache (tr_slug t) (s\<lparr>st_tenants := ?ts\<rparr>)"
    have "routing_ok p ?n"
    proof (rule routing_change [OF ok])
      show "store_wf ?n"
        using wf id sl by (simp add: store_wf_def) (erule tables_wf_tenants; simp add: map_update_where)
    next
      fix slug sn x assume c: "(slug, sn, x) \<in> set (st_tenant_cache ?n)"
      then have "(slug, sn, x) \<in> set (st_tenant_cache s)" by (drule_tac set_tenant_cache_sub) simp
      moreover have "snapshot_by_slug ?n slug = snapshot_by_slug s slug" if "slug \<noteq> []"
      proof -
        have ne: "slug \<noteq> tr_slug t" using c that by (simp add: set_tenant_cache_gone)
        have "tr_slug r = tr_slug t" if "r \<in> set (st_tenants s)" "tr_id r = i" for r
          using that Some tenant_by_id_wf [OF wf that(1)] by simp
        then have "find (\<lambda>r. tr_slug r = slug) ?ts = find (\<lambda>r. tr_slug r = slug) (st_tenants s)"
          unfolding update_where_def using ne sl by (intro find_map_same) auto
        then show ?thesis by (simp add: snapshot_by_slug_def tenant_by_slug_def config_row_def)
      qed
      ultimately show "(slug, sn, x) \<in> set (st_tenant_cache s) \<and>
          (slug \<noteq> [] \<longrightarrow> snapshot_by_slug ?n slug = snapshot_by_slug s slug)" by blast
    next
      fix h sg x assume "(h, sg, x) \<in> set (st_domain_cache ?n)"
      moreover have "map_option tr_slug (find (\<lambda>r. tr_id r = j) ?ts) = map_option tr_slug (find (\<lambda>r. tr_id r = j) (st_tenants s))" for j
        unfolding update_where_def using id sl by (intro find_map_image) auto
      then have "map_option tr_slug (tenant_by_domain ?n h) = map_option tr_slug (tenant_by_domain s h)"
        by (simp add: tenant_by_domain_def verified_link_def tenant_by_id_def split: option.splits)
      ultimately show "(h, sg, x) \<in> set (st_domain_cache s) \<and> (h \<noteq> [] \<longrightarrow> normalize_domain h = h \<longrightarrow>
          map_option tr_slug (tenant_by_domain ?n h) = map_option tr_slug (tenant_by_domain s h))" by simp
    qed
    with Some show ?thesis by simp
  qed
qed

lemma routing_tenant_columns [preserve]:
  "preserves (routing_ok p) (set_actor e i actor)" "preserves (routing_ok p) (activate_tenant e i)"
  "preserves (routing_ok p) (deactivate_tenant e i)" "preserves (routing_ok p) (raise_tenant_version e i)"
  unfolding set_actor_def activate_tenant_def deactivate_tenant_def raise_tenant_version_def
  by (rule routing_update_tenant; simp)+

text \<open>A config is written for a tenant under that tenant's slug.\<close>

definition slug_fits :: "int \<Rightarrow> string \<Rightarrow> tenant_store \<Rightarrow> bool" where
  "slug_fits i slug s \<longleftrightarrow> (\<forall>t \<in> set (st_tenants s). tr_id t = i \<longrightarrow> tr_slug t = slug)"

lemma routing_configs:
  assumes ok: "routing_ok p s" and fits: "slug_fits i slug s"
    and other: "\<And>j. j \<noteq> i \<Longrightarrow> find (\<lambda>c. cf_tenant_id c = j) cs = config_row s j"
    and new: "\<And>c. c \<in> set cs \<Longrightarrow> c \<in> set (st_configs s) \<or> cf_tenant_id c < st_next_tenant s"
  shows "routing_ok p (invalidate_tenant_cache slug (s\<lparr>st_configs := cs\<rparr>))"
proof (rule routing_change [OF ok])
  have wf: "store_wf s" using ok by (simp add: routing_ok_def)
  let ?n = "invalidate_tenant_cache slug (s\<lparr>st_configs := cs\<rparr>)"
  show "store_wf ?n" using wf new by (simp add: store_wf_def) (erule tables_wf_config, blast)
  show "(sg, sn, x) \<in> set (st_tenant_cache s) \<and> (sg \<noteq> [] \<longrightarrow> snapshot_by_slug ?n sg = snapshot_by_slug s sg)"
    if c: "(sg, sn, x) \<in> set (st_tenant_cache ?n)" for sg sn x
  proof
    show "(sg, sn, x) \<in> set (st_tenant_cache s)" using c by (drule_tac set_tenant_cache_sub) simp
    show "sg \<noteq> [] \<longrightarrow> snapshot_by_slug ?n sg = snapshot_by_slug s sg"
    proof
      assume "sg \<noteq> []"
      then have ne: "sg \<noteq> slug" using c by (simp add: set_tenant_cache_gone)
      have "config_row ?n (tr_id t) = config_row s (tr_id t)" if "tenant_by_slug s sg = Some t" for t
        using tenant_by_slug_mem [OF that] fits ne other [of "tr_id t"] by (auto simp: slug_fits_def config_row_def)
      then show "snapshot_by_slug ?n sg = snapshot_by_slug s sg"
        by (cases "tenant_by_slug s sg") (simp_all add: snapshot_by_slug_def tenant_by_slug_def)
    qed
  qed
  show "(h, sg, x) \<in> set (st_domain_cache s) \<and> (h \<noteq> [] \<longrightarrow> normalize_domain h = h \<longrightarrow>
      map_option tr_slug (tenant_by_domain ?n h) = map_option tr_slug (tenant_by_domain s h))"
    if "(h, sg, x) \<in> set (st_domain_cache ?n)" for h sg x
    using that by (simp add: tenant_by_domain_def verified_link_def tenant_by_id_def split: option.splits)
qed

lemma routing_called: "routing_ok p s \<Longrightarrow> routing_ok p (s\<lparr>st_calls := n\<rparr>)"
  by (subst routing_ok_view [of _ s]) (simp_all add: routing_view_def)

lemma routing_create_config:
  assumes ok: "routing_ok p s" and fits: "slug_fits i slug s"
  shows "routing_ok p (snd (create_tenant_config e i slug package fl lm s))"
proof -
  let ?s = "s\<lparr>st_calls := st_calls s + 1\<rparr>"
  let ?row = "\<lparr>cf_tenant_id = i, cf_package = package, cf_feature_flags = fl, cf_limits = lm\<rparr>"
  have ok': "routing_ok p ?s" using ok by (rule routing_called)
  have wf: "store_wf s" using ok by (simp add: routing_ok_def)
  have "routing_ok p (invalidate_tenant_cache slug (?s\<lparr>st_configs := upsert_row cf_tenant_id ?row (st_configs s)\<rparr>))"
    if there: "\<not> (config_row s i = None \<and> tenant_by_id s i = None)"
  proof (rule routing_configs [OF ok'])
    show "slug_fits i slug ?s" using fits by (simp add: slug_fits_def)
    show "find (\<lambda>c. cf_tenant_id c = j) (upsert_row cf_tenant_id ?row (st_configs s)) = config_row ?s j" if "j \<noteq> i" for j
      using that by (simp add: config_row_def find_upsert_row)
    have "i < st_next_tenant s"
    proof (cases "config_row s i")
      case None
      then obtain t where "tenant_by_id s i = Some t" using there by auto
      then show ?thesis using tenant_by_id_mem wf by (auto simp: store_wf_def tables_wf_def)
    next
      case (Some c)
      then have "c \<in> set (st_configs s)" "cf_tenant_id c = i" unfolding config_row_def by (auto dest: find_Some_set)
      then show ?thesis using wf by (auto simp: store_wf_def tables_wf_def)
    qed
    then show "c \<in> set (st_configs ?s) \<or> cf_tenant_id c < st_next_tenant ?s"
      if "c \<in> set (upsert_row cf_tenant_id ?row (st_configs s))" for c
      using that by (auto simp: upsert_row_def update_where_def split: option.splits if_splits)
  qed
  with ok' show ?thesis
    by (simp add: create_tenant_config_def db_call_def Let_def put_config_def config_row_def tenant_by_id_def)
qed

lemma routing_delete_config:
  assumes ok: "routing_ok p s" and fits: "slug_fits i slug s"
  shows "routing_ok p (snd (delete_config e i slug s))"
proof -
  let ?s = "s\<lparr>st_calls := st_calls s + 1\<rparr>"
  have ok': "routing_ok p ?s" using ok by (rule routing_called)
  have "routing_ok p (invalidate_tenant_cache slug (?s\<lparr>st_configs := filter (\<lambda>c. cf_tenant_id c \<noteq> i) (st_configs s)\<rparr>))"
  proof (rule routing_configs [OF ok'])
    show "slug_fits i slug ?s" using fits by (simp add: slug_fits_def)
    show "find (\<lambda>c. cf_tenant_id c = j) (filter (\<lambda>c. cf_tenant_id c \<noteq> i) (st_configs s)) = config_row ?s j" if "j \<noteq> i" for j
      using that by (auto simp: config_row_def intro: find_filter_same)
  qed simp
  with ok' show ?thesis
    by (simp add: delete_config_def db_write_def db_call_def Let_def)
qed

lemma routing_domains:
  assumes ok: "routing_ok p s" and wf: "tables_wf (st_tenants s) (st_next_tenant s) (st_configs s) ds"
    and same: "\<And>h. h \<noteq> [] \<Longrightarrow> normalize_domain h = h \<Longrightarrow> h \<noteq> normalize_domain d \<Longrightarrow>
      find (\<lambda>r. dm_domain r = h \<and> dm_verified_at r \<noteq> None) ds = verified_link s h"
  shows "routing_ok p (invalidate_domain_cache d (s\<lparr>st_domains := ds\<rparr>))"
proof (rule routing_change [OF ok])
  let ?n = "invalidate_domain_cache d (s\<lparr>st_domains := ds\<rparr>)"
  show "store_wf ?n" using wf by (simp add: store_wf_def)
  show "(sg, sn, x) \<in> set (st_tenant_cache s) \<and> (sg \<noteq> [] \<longrightarrow> snapshot_by_slug ?n sg = snapshot_by_slug s sg)"
    if "(sg, sn, x) \<in> set (st_tenant_cache ?n)" for sg sn x
    using that by (simp add: snapshot_by_slug_def row_defs)
  show "(h, sg, x) \<in> set (st_domain_cache s) \<and> (h \<noteq> [] \<longrightarrow> normalize_domain h = h \<longrightarrow>
      map_option tr_slug (tenant_by_domain ?n h) = map_option tr_slug (tenant_by_domain s h))"
    if c: "(h, sg, x) \<in> set (st_domain_cache ?n)" for h sg x
  proof (intro conjI impI)
    show "(h, sg, x) \<in> set (st_domain_cache s)" using c by (drule_tac set_domain_cache_sub) simp
    assume h: "h \<noteq> []" "normalize_domain h = h"
    then have "h \<noteq> normalize_domain d" using c by (simp add: set_domain_cache_gone)
    then have "verified_link ?n h = verified_link s h" using same h by (simp add: verified_link_def)
    then show "map_option tr_slug (tenant_by_domain ?n h) = map_option tr_slug (tenant_by_domain s h)"
      by (simp add: tenant_by_domain_def tenant_by_id_def split: option.splits)
  qed
qed

lemma store_wf_domains: "routing_ok p s \<Longrightarrow> tables_wf (st_tenants s) (st_next_tenant s) (st_configs s) (st_domains s)"
  by (simp add: routing_ok_def store_wf_def)

lemma find_other_domain:
  "h \<noteq> dm_domain row \<Longrightarrow> normalize_domain h = h \<Longrightarrow>
   find (\<lambda>r. dm_domain r = h \<and> dm_verified_at r \<noteq> None) (upsert_row dm_domain row ds) =
   find (\<lambda>r. dm_domain r = h \<and> dm_verified_at r \<noteq> None) ds"
  by (cases "find (\<lambda>r. dm_domain r = dm_domain row) ds")
    (simp add: upsert_row_def find_append split: option.splits,
     simp only: upsert_row_def option.case update_where_def, rule find_map_same, auto)

lemma domain_row_mem: "domain_row s d = Some r \<Longrightarrow> r \<in> set (st_domains s) \<and> dm_domain r = normalize_domain d"
  unfolding domain_row_def by (drule find_Some_set)

lemma routing_create_domain [preserve]: "preserves (routing_ok p) (create_domain e i domain verified_at)"
  unfolding create_domain_def
proof (intro preserve preservesI)
  fix s assume ok: "routing_ok p s"
  let ?row = "case domain_row s domain of
      None \<Rightarrow> \<lparr>dm_tenant_id = i, dm_domain = normalize_domain domain, dm_verified_at = verified_at\<rparr>
    | Some d \<Rightarrow> d\<lparr>dm_tenant_id := i, dm_verified_at := (if verified_at = None then dm_verified_at d else verified_at)\<rparr>"
  have row: "dm_domain ?row = normalize_domain domain" "dm_tenant_id ?row = i"
    by (auto split: option.splits dest: domain_row_mem)
  have "routing_ok p (invalidate_domain_cache (dm_domain ?row) (s\<lparr>st_domains := upsert_row dm_domain ?row (st_domains s)\<rparr>))"
    if "tenant_by_id s i \<noteq> None"
  proof (rule routing_domains [OF ok])
    have "i < st_next_tenant s"
      using that tenant_by_id_mem [of s i] store_wf_domains [OF ok] by (auto simp: tables_wf_def)
    then show "tables_wf (st_tenants s) (st_next_tenant s) (st_configs s) (upsert_row dm_domain ?row (st_domains s))"
      by (intro tables_wf_upsert_domain store_wf_domains [OF ok]) (simp_all add: row)
    show "find (\<lambda>r. dm_domain r = h \<and> dm_verified_at r \<noteq> None) (upsert_row dm_domain ?row (st_domains s)) = verified_link s h"
      if "h \<noteq> []" "normalize_domain h = h" "h \<noteq> normalize_domain (dm_domain ?row)" for h
      using that by (simp only: verified_link_def row normalize_domain_idem) (rule find_other_domain, simp_all add: row)
  qed
  then show "routing_ok p (snd (let row = ?row in if tenant_by_id s i = None then (Inl Database_error, s)
      else (Inr (), invalidate_domain_cache (dm_domain row) (s\<lparr>st_domains := upsert_row dm_domain row (st_domains s)\<rparr>))))"
    using ok by (simp only: Let_def) simp
qed

lemma routing_verify_domain [preserve]: "preserves (routing_ok p) (verify_domain e domain verified_at)"
  unfolding verify_domain_def
proof (intro preserve preservesI)
  fix s assume ok: "routing_ok p s"
  let ?ds = "update_where (\<lambda>d. dm_domain d = normalize_domain domain) (\<lambda>d. d\<lparr>dm_verified_at := verified_at\<rparr>) (st_domains s)"
  have "routing_ok p (invalidate_domain_cache domain (s\<lparr>st_domains := ?ds\<rparr>))"
  proof (rule routing_domains [OF ok])
    show "tables_wf (st_tenants s) (st_next_tenant s) (st_configs s) ?ds"
      by (rule tables_wf_update_domain [OF store_wf_domains [OF ok]]) simp_all
    show "find (\<lambda>r. dm_domain r = h \<and> dm_verified_at r \<noteq> None) ?ds = verified_link s h"
      if "h \<noteq> normalize_domain domain" "normalize_domain h = h" for h
      unfolding update_where_def verified_link_def using that by (simp only: that(2)) (rule find_map_same, auto)
  qed
  with ok show "routing_ok p (snd (if domain_row s domain = None then (Inr False, s)
      else (Inr True, invalidate_domain_cache domain (s\<lparr>st_domains := ?ds\<rparr>))))" by simp
qed

lemma routing_delete_domain [preserve]: "preserves (routing_ok p) (delete_domain e domain tenant_id)"
  unfolding delete_domain_def db_write_def
proof (intro preserve preserves_modify)
  fix s assume ok: "routing_ok p s"
  let ?ds = "filter (\<lambda>r. dm_domain r \<noteq> normalize_domain domain) (st_domains s)"
  have "routing_ok p (invalidate_domain_cache (dm_domain d) (s\<lparr>st_domains := ?ds\<rparr>))" if d: "domain_row s domain = Some d" for d
  proof (rule routing_domains [OF ok])
    show "tables_wf (st_tenants s) (st_next_tenant s) (st_configs s) ?ds"
      using tables_wf_filter [OF store_wf_domains [OF ok], of "\<lambda>_. True" "\<lambda>_. True"] by simp
    show "find (\<lambda>r. dm_domain r = h \<and> dm_verified_at r \<noteq> None) ?ds = verified_link s h"
      if "normalize_domain h = h" "h \<noteq> normalize_domain (dm_domain d)" for h
      unfolding verified_link_def using that domain_row_mem [OF d] by (simp only: that(1)) (rule find_filter_same, auto)
  qed
  with ok show "routing_ok p (case domain_row s domain of None \<Rightarrow> s
      | Some d \<Rightarrow> if (case tenant_id of None \<Rightarrow> False | Some i \<Rightarrow> dm_tenant_id d \<noteq> i) then s
          else invalidate_domain_cache (dm_domain d) (s\<lparr>st_domains := ?ds\<rparr>))"
    by (cases "domain_row s domain") simp_all
qed

lemma domains_gone [simp]:
  "st_tenants (fold (\<lambda>d. invalidate_domain_cache (dm_domain d)) ds s) = st_tenants s"
  "st_next_tenant (fold (\<lambda>d. invalidate_domain_cache (dm_domain d)) ds s) = st_next_tenant s"
  "st_configs (fold (\<lambda>d. invalidate_domain_cache (dm_domain d)) ds s) = st_configs s"
  "st_domains (fold (\<lambda>d. invalidate_domain_cache (dm_domain d)) ds s) = st_domains s"
  "st_tenant_cache (fold (\<lambda>d. invalidate_domain_cache (dm_domain d)) ds s) = st_tenant_cache s"
  by (induction ds arbitrary: s) simp_all

lemma domains_gone_entry:
  "(h, sg, x) \<in> set (st_domain_cache (fold (\<lambda>d. invalidate_domain_cache (dm_domain d)) ds s)) \<Longrightarrow>
   (h, sg, x) \<in> set (st_domain_cache s) \<and> (h \<noteq> [] \<longrightarrow> (\<forall>d \<in> set ds. h \<noteq> normalize_domain (dm_domain d)))"
proof (induction ds arbitrary: s)
  case Nil
  then show ?case by simp
next
  case (Cons d ds)
  let ?s = "invalidate_domain_cache (dm_domain d) s"
  have "(h, sg, x) \<in> set (st_domain_cache ?s) \<and> (h \<noteq> [] \<longrightarrow> (\<forall>d \<in> set ds. h \<noteq> normalize_domain (dm_domain d)))"
    using Cons.IH [of ?s] Cons.prems by simp
  then show ?case using set_domain_cache_sub [of h sg x] set_domain_cache_gone [of h sg x "dm_domain d" s] by auto
qed

lemma routing_delete_by_slug [preserve]: "preserves (routing_ok p) (delete_by_slug e slug)"
  unfolding delete_by_slug_def
proof (intro preserve preservesI)
  fix s assume ok: "routing_ok p s"
  have wf: "store_wf s" using ok by (simp add: routing_ok_def)
  have "routing_ok p (fold (\<lambda>d. invalidate_domain_cache (dm_domain d)) (domains_of_tenant s (tr_id t))
      (invalidate_tenant_cache slug (s\<lparr>st_tenants := filter (\<lambda>r. tr_id r \<noteq> tr_id t) (st_tenants s),
         st_domains := filter (\<lambda>d. dm_tenant_id d \<noteq> tr_id t) (st_domains s)\<rparr>)))"
    (is "routing_ok p ?n") if t: "tenant_by_slug s slug = Some t" for t
  proof (rule routing_change [OF ok])
    have ts: "st_tenants ?n = filter (\<lambda>r. tr_id r \<noteq> tr_id t) (st_tenants s)"
        "st_domains ?n = filter (\<lambda>d. dm_tenant_id d \<noteq> tr_id t) (st_domains s)" "st_configs ?n = st_configs s"
        "st_next_tenant ?n = st_next_tenant s"
      by simp_all
    show "store_wf ?n" unfolding store_wf_def ts
      using tables_wf_filter [OF store_wf_domains [OF ok], of _ "\<lambda>_. True"] by simp
    show "(sg, sn, x) \<in> set (st_tenant_cache s) \<and> (sg \<noteq> [] \<longrightarrow> snapshot_by_slug ?n sg = snapshot_by_slug s sg)"
      if c: "(sg, sn, x) \<in> set (st_tenant_cache ?n)" for sg sn x
    proof
      show "(sg, sn, x) \<in> set (st_tenant_cache s)" using c by (simp, drule_tac set_tenant_cache_sub) simp
      show "sg \<noteq> [] \<longrightarrow> snapshot_by_slug ?n sg = snapshot_by_slug s sg"
      proof
        assume "sg \<noteq> []"
        then have ne: "sg \<noteq> slug" using c by (simp add: set_tenant_cache_gone)
        have "find (\<lambda>r. tr_slug r = sg) (st_tenants ?n) = find (\<lambda>r. tr_slug r = sg) (st_tenants s)"
          unfolding ts
        proof (rule find_filter_same)
          fix r assume "r \<in> set (st_tenants s)" "tr_slug r = sg"
          then show "tr_id r \<noteq> tr_id t" using ne tenant_by_slug_mem [OF t] distinct_slug [OF wf, of r t] by auto
        qed
        then show "snapshot_by_slug ?n sg = snapshot_by_slug s sg"
          by (simp only: snapshot_by_slug_def tenant_by_slug_def config_row_def ts(3))
      qed
    qed
    show "(h, sg, x) \<in> set (st_domain_cache s) \<and> (h \<noteq> [] \<longrightarrow> normalize_domain h = h \<longrightarrow>
        map_option tr_slug (tenant_by_domain ?n h) = map_option tr_slug (tenant_by_domain s h))"
      if c: "(h, sg, x) \<in> set (st_domain_cache ?n)" for h sg x
    proof (intro conjI impI)
      note e = domains_gone_entry [OF c]
      then show "(h, sg, x) \<in> set (st_domain_cache s)" by simp
      assume h: "h \<noteq> []" "normalize_domain h = h"
      have "d \<in> set (st_domains s) \<Longrightarrow> dm_domain d = h \<Longrightarrow> dm_tenant_id d \<noteq> tr_id t" for d
        using e h store_wf_domains [OF ok] by (auto simp: domains_of_tenant_def tables_wf_def)
      then have "verified_link ?n h = verified_link s h" and keep: "\<And>d. verified_link s h = Some d \<Longrightarrow> dm_tenant_id d \<noteq> tr_id t"
        using h unfolding verified_link_def ts by (auto intro: find_filter_same dest!: find_Some_set)
      moreover have "tenant_by_id ?n j = tenant_by_id s j" if "j \<noteq> tr_id t" for j
        unfolding tenant_by_id_def ts using that by (intro find_filter_same) auto
      ultimately show "map_option tr_slug (tenant_by_domain ?n h) = map_option tr_slug (tenant_by_domain s h)"
        unfolding tenant_by_domain_def by (cases "verified_link s h") simp_all
    qed
  qed
  with ok show "routing_ok p (snd (case tenant_by_slug s slug of None \<Rightarrow> (Inr (), s) | Some t \<Rightarrow>
      if config_row s (tr_id t) \<noteq> None then (Inl Database_error, s)
      else (Inr (), fold (\<lambda>d. invalidate_domain_cache (dm_domain d)) (domains_of_tenant s (tr_id t))
        (invalidate_tenant_cache slug (s\<lparr>st_tenants := filter (\<lambda>r. tr_id r \<noteq> tr_id t) (st_tenants s),
           st_domains := filter (\<lambda>d. dm_tenant_id d \<noteq> tr_id t) (st_domains s)\<rparr>)))))"
    by (cases "tenant_by_slug s slug") simp_all
qed

section \<open>Requests\<close>

lemma routing_fewer_entries:
  assumes ok: "routing_ok p s" and tc: "set tc \<subseteq> set (st_tenant_cache s)" and dc: "set dc \<subseteq> set (st_domain_cache s)"
  shows "routing_ok p (s\<lparr>st_tenant_cache := tc, st_domain_cache := dc\<rparr>)"
proof (rule routing_change [OF ok])
  show "store_wf (s\<lparr>st_tenant_cache := tc, st_domain_cache := dc\<rparr>)" using ok by (simp add: routing_ok_def)
qed (use tc dc in auto)

lemma cache_get_set: "set (snd (cache_get now key c)) \<subseteq> set c"
  by (auto simp: cache_get_def cache_delete_def split: option.splits)

lemma cache_get_Some: "fst (cache_get now key c) = Some v \<Longrightarrow> \<exists>x. (key, v, x) \<in> set c \<and> now \<le> x"
  by (auto simp: cache_get_def split: option.splits if_splits dest!: find_Some_set)

lemma cache_set_set: "y \<in> set (cache_set now key v ttl c) \<Longrightarrow> y = (key, v, now + seconds ttl) \<or> y \<in> set c"
  by (auto simp: cache_set_def cache_delete_def)

text \<open>A request changes the caches only, and keeps them right.\<close>

definition cached_more :: "routing_policy \<Rightarrow> tenant_store \<Rightarrow> tenant_store \<Rightarrow> bool" where
  "cached_more p s s' \<longleftrightarrow> routing_ok p s' \<and> fst (routing_view s') = fst (routing_view s)"

lemma cached_more_reads:
  assumes "cached_more p s s'"
  shows "snapshot_by_slug s' slug = snapshot_by_slug s slug" "tenant_by_domain s' host = tenant_by_domain s host"
    "host_slug p s' host = host_slug p s host" "routing_ok p s'"
  using assms view_reads [of s' s] by (simp_all add: cached_more_def)

lemma cached_more_refl: "routing_ok p s \<Longrightarrow> cached_more p s s"
  by (simp add: cached_more_def)

lemma cached_more_trans: "cached_more p s s' \<Longrightarrow> cached_more p s' s'' \<Longrightarrow> cached_more p s s''"
  by (simp add: cached_more_def)

lemma cached_more_call: "routing_ok p s \<Longrightarrow> cached_more p s (snd (db_read e f s))"
  by (simp add: cached_more_def db_read_def db_call_def Let_def routing_called) (simp add: routing_view_def)

lemma db_read_value: "fst (db_read e f s) = Inr x \<Longrightarrow> x = f (s\<lparr>st_calls := st_calls s + 1\<rparr>)"
  by (simp add: db_read_def db_call_def Let_def split: if_splits)

lemma tenant_cache_get_ok:
  assumes ok: "routing_ok p s"
  shows "\<exists>r s'. tenant_cache_get slug s = (Inr r, s') \<and> cached_more p s s' \<and>
     (\<forall>sn. r = Some sn \<longrightarrow> snapshot_by_slug s slug = Some sn)"
proof -
  let ?c = "cache_get (now_of s) slug (st_tenant_cache s)"
  let ?s = "s\<lparr>st_tenant_cache := snd ?c\<rparr>"
  have "routing_ok p (s\<lparr>st_tenant_cache := snd ?c, st_domain_cache := st_domain_cache s\<rparr>)"
    using routing_fewer_entries [OF ok cache_get_set] by blast
  then have "cached_more p s ?s" by (simp add: cached_more_def routing_view_def)
  moreover have "snapshot_by_slug s slug = Some sn" if "fst ?c = Some sn" for sn
    using cache_get_Some [OF that] tenant_entry [OF ok] by blast
  ultimately show ?thesis by (intro exI [of _ "fst ?c"] exI [of _ ?s]) (simp add: tenant_cache_get_def split: prod.splits)
qed

lemma domain_cache_get_ok:
  assumes ok: "routing_ok p s"
  shows "\<exists>r s'. domain_cache_get host s = (Inr r, s') \<and> cached_more p s s' \<and>
     (\<forall>slug. r = Some slug \<longrightarrow> slug = host_slug p s host)"
proof -
  let ?c = "cache_get (now_of s) host (st_domain_cache s)"
  let ?s = "s\<lparr>st_domain_cache := snd ?c\<rparr>"
  have "routing_ok p (s\<lparr>st_tenant_cache := st_tenant_cache s, st_domain_cache := snd ?c\<rparr>)"
    using routing_fewer_entries [OF ok _ cache_get_set] by blast
  then have "cached_more p s ?s" by (simp add: cached_more_def routing_view_def)
  moreover have "slug = host_slug p s host" if "fst ?c = Some slug" for slug
    using cache_get_Some [OF that] domain_entry [OF ok] by blast
  ultimately show ?thesis by (intro exI [of _ "fst ?c"] exI [of _ ?s]) (simp add: domain_cache_get_def split: prod.splits)
qed

lemma tenant_cache_set_ok:
  assumes ok: "routing_ok p s" and sn: "slug \<noteq> []" "snapshot_by_slug s slug = Some sn"
  shows "cached_more p s (snd (tenant_cache_set slug sn s))"
proof -
  let ?c = "cache_set (now_of s) slug sn tenant_ttl_sec (st_tenant_cache s)"
  have "routing_ok p (s\<lparr>st_tenant_cache := ?c\<rparr>)"
  proof (rule routing_okI)
    show "store_wf (s\<lparr>st_tenant_cache := ?c\<rparr>)" using ok by (simp add: routing_ok_def)
    show "sg \<noteq> [] \<and> snapshot_by_slug (s\<lparr>st_tenant_cache := ?c\<rparr>) sg = Some n"
      if "(sg, n, x) \<in> set (st_tenant_cache (s\<lparr>st_tenant_cache := ?c\<rparr>))" for sg n x
      using that sn tenant_entry [OF ok, of sg n x] by (auto dest: cache_set_set)
    show "h \<noteq> [] \<and> normalize_domain h = h \<and> sg = host_slug p (s\<lparr>st_tenant_cache := ?c\<rparr>) h"
      if "(h, sg, x) \<in> set (st_domain_cache (s\<lparr>st_tenant_cache := ?c\<rparr>))" for h sg x
      using that domain_entry [OF ok, of h sg x] by auto
  qed
  then show ?thesis by (simp add: tenant_cache_set_def cached_more_def routing_view_def)
qed

lemma domain_cache_set_ok:
  assumes ok: "routing_ok p s" and h: "host \<noteq> []" "normalize_domain host = host" "slug = host_slug p s host"
  shows "cached_more p s (snd (domain_cache_set host slug s))"
proof -
  let ?c = "cache_set (now_of s) host slug domain2tenant_ttl_sec (st_domain_cache s)"
  have "routing_ok p (s\<lparr>st_domain_cache := ?c\<rparr>)"
  proof (rule routing_okI)
    show "store_wf (s\<lparr>st_domain_cache := ?c\<rparr>)" using ok by (simp add: routing_ok_def)
    show "sg \<noteq> [] \<and> snapshot_by_slug (s\<lparr>st_domain_cache := ?c\<rparr>) sg = Some n"
      if "(sg, n, x) \<in> set (st_tenant_cache (s\<lparr>st_domain_cache := ?c\<rparr>))" for sg n x
      using that tenant_entry [OF ok, of sg n x] by auto
    show "hh \<noteq> [] \<and> normalize_domain hh = hh \<and> sg = host_slug p (s\<lparr>st_domain_cache := ?c\<rparr>) hh"
      if "(hh, sg, x) \<in> set (st_domain_cache (s\<lparr>st_domain_cache := ?c\<rparr>))" for hh sg x
      using that h domain_entry [OF ok, of hh sg x] by (auto dest: cache_set_set)
  qed
  then show ?thesis by (simp add: domain_cache_set_def cached_more_def routing_view_def)
qed

lemma get_tenant_snapshot_ok:
  assumes ok: "routing_ok p s" and slug: "slug \<noteq> []"
  shows "cached_more p s (snd (get_tenant_snapshot e slug s))"
    and "fst (get_tenant_snapshot e slug s) = Inr (Some sn) \<Longrightarrow> snapshot_by_slug s slug = Some sn"
proof -
  obtain r s1 where g: "tenant_cache_get slug s = (Inr r, s1)" "cached_more p s s1"
      "\<And>sn. r = Some sn \<Longrightarrow> snapshot_by_slug s slug = Some sn"
    using tenant_cache_get_ok [OF ok] by blast
  let ?read = "db_read e (\<lambda>s. snapshot_by_slug s slug)"
  note c1 = cached_more_reads [OF g(2)]
  have c2: "cached_more p s (snd (?read s1))"
    using cached_more_trans [OF g(2) cached_more_call [OF c1(4)]] .
  have v: "x = snapshot_by_slug s slug" if "fst (?read s1) = Inr x" for x
    using db_read_value [OF that] c1 by simp
  have c3: "cached_more p s (snd (tenant_cache_set slug sn (snd (?read s1))))" if "snapshot_by_slug s slug = Some sn" for sn
    using cached_more_trans [OF c2 tenant_cache_set_ok] cached_more_reads [OF c2] slug that by simp
  show "cached_more p s (snd (get_tenant_snapshot e slug s))"
  proof (cases r)
    case (Some sn)
    then show ?thesis using g by (simp add: get_tenant_snapshot_def py_run_bind)
  next
    case None
    show ?thesis
    proof (cases "fst (?read s1)")
      case (Inl x)
      then show ?thesis using None g c2 by (simp add: get_tenant_snapshot_def py_run_bind)
    next
      case (Inr x)
      then show ?thesis using None g c2 c3 v [OF Inr]
        by (simp add: get_tenant_snapshot_def py_run_bind py_run_seq tenant_cache_set_def split: option.splits)
    qed
  qed
  show "snapshot_by_slug s slug = Some sn" if "fst (get_tenant_snapshot e slug s) = Inr (Some sn)"
    using that g v by (cases r; cases "fst (?read s1)")
      (auto simp: get_tenant_snapshot_def py_run_bind py_run_seq tenant_cache_set_def split: option.splits)
qed

lemma get_slug_ok:
  assumes ok: "routing_ok p s" and h: "host \<noteq> []" "normalize_domain host = host"
  shows "cached_more p s (snd (get_slug_for_host e p host s))"
    and "fst (get_slug_for_host e p host s) = Inr (slug, c) \<Longrightarrow> str_or slug [] = host_slug p s host"
proof -
  obtain r s1 where g: "domain_cache_get host s = (Inr r, s1)" "cached_more p s s1"
      "\<And>slug. r = Some slug \<Longrightarrow> slug = host_slug p s host"
    using domain_cache_get_ok [OF ok] by blast
  let ?look = "look_up_host e p host"
  note c1 = cached_more_reads [OF g(2)]
  have c2: "cached_more p s (snd (?look s1))"
    using g(2) cached_more_trans [OF g(2) cached_more_call [OF c1(4), of e "\<lambda>s. tenant_by_domain s host"]]
    by (auto simp: look_up_host_def py_run_bind split: option.splits sum.splits)
  have v: "str_or sg [] = host_slug p s host" if "fst (?look s1) = Inr (sg, b)" for sg b
    using that c1 by (auto simp: look_up_host_def host_slug_def py_run_bind str_or_def split: option.splits sum.splits dest!: db_read_value)
  have c3: "cached_more p s (snd (domain_cache_set host (host_slug p s host) (snd (?look s1))))"
    using cached_more_trans [OF c2 domain_cache_set_ok] cached_more_reads [OF c2] h by simp
  show "cached_more p s (snd (get_slug_for_host e p host s))"
  proof (cases r)
    case (Some sg)
    then show ?thesis using g by (simp add: get_slug_for_host_def py_run_bind)
  next
    case None
    show ?thesis
    proof (cases "fst (?look s1)")
      case (Inl x)
      then show ?thesis using None g c2 by (simp add: get_slug_for_host_def py_run_bind)
    next
      case (Inr x)
      then show ?thesis using None g c3 v
        by (cases x) (simp add: get_slug_for_host_def py_run_bind
            py_run_seq domain_cache_set_def)
    qed
  qed
  show "str_or slug [] = host_slug p s host" if a: "fst (get_slug_for_host e p host s) = Inr (slug, c)"
  proof (cases r)
    case (Some sg)
    then show ?thesis using a g by (auto simp: get_slug_for_host_def py_run_bind str_or_def split: if_splits)
  next
    case None
    then have "fst (?look s1) = Inr (slug, c)" using a g
      by (cases "fst (?look s1)") (auto simp: get_slug_for_host_def py_run_bind py_run_seq domain_cache_set_def split: prod.splits)
    then show ?thesis by (rule v)
  qed
qed

lemma resolve_request_ok:
  assumes ok: "routing_ok p s" and h: "host \<noteq> []" "normalize_domain host = host"
  shows "cached_more p s (snd (resolve_request e p host s))"
    and "fst (resolve_request e p host s) = Inr (slug, c, Some sn) \<Longrightarrow>
      str_or slug [] = host_slug p s host \<and> host_slug p s host \<noteq> [] \<and> snapshot_by_slug s (host_slug p s host) = Some sn"
proof -
  let ?get = "get_slug_for_host e p host s"
  note g = get_slug_ok [OF ok h, of e]
  note r = cached_more_reads [OF g(1)]
  show "cached_more p s (snd (resolve_request e p host s))"
  proof (cases "fst ?get")
    case (Inl x)
    then show ?thesis using g(1) by (simp add: resolve_request_def py_run_bind)
  next
    case (Inr y)
    then show ?thesis using g(1) cached_more_trans [OF g(1) get_tenant_snapshot_ok(1) [OF r(4)], of "str_or (fst y) []" e]
      by (cases y) (auto simp: resolve_request_def py_run_bind split: sum.splits)
  qed
  show "str_or slug [] = host_slug p s host \<and> host_slug p s host \<noteq> [] \<and> snapshot_by_slug s (host_slug p s host) = Some sn"
    if a: "fst (resolve_request e p host s) = Inr (slug, c, Some sn)"
  proof (cases "fst ?get")
    case (Inl x)
    then show ?thesis using a by (simp add: resolve_request_def py_run_bind)
  next
    case (Inr y)
    obtain sg b where y: "y = (sg, b)" by (cases y)
    have ne: "str_or sg [] \<noteq> []" and sl: "slug = sg"
        and get: "fst (get_tenant_snapshot e (str_or sg []) (snd ?get)) = Inr (Some sn)"
      using a Inr y by (auto simp: resolve_request_def py_run_bind split: if_splits sum.splits)
    have "str_or sg [] = host_slug p s host" using g(2) Inr y by simp
    moreover have "snapshot_by_slug s (str_or sg []) = Some sn"
      using get_tenant_snapshot_ok(2) [OF r(4) ne get] r(1) by simp
    ultimately show ?thesis using sl ne by simp
  qed
qed

lemma request_host_normal: "normalize_domain (request_host_of header) = request_host_of header"
  using normalize_domain_idem [of "hd (split_char CHR '':'' (str_or header []))"]
  by (simp add: request_host_of_def normalize_domain_def)

lemma optional_path_ok:
  assumes ok: "routing_ok (mw_policy mw) s" and h: "host \<noteq> []" "normalize_domain host = host"
  shows "cached_more (mw_policy mw) s (snd (optional_path_check e mw path host s))"
  using resolve_request_ok(1) [OF ok h, of e] cached_more_refl [OF ok]
  by (auto simp: optional_path_check_def Let_def py_run_bind split: sum.splits prod.splits)

lemma optional_path_answer:
  "fst (optional_path_check e mw path host s) = Inr (Some r) \<Longrightarrow> \<exists>status outcome. r = Rejected status outcome"
  by (auto simp: optional_path_check_def Let_def py_run_bind split: if_splits sum.splits prod.splits)

lemma middleware_caches:
  assumes ok: "routing_ok (mw_policy mw) s" and single: "mw_single_tenant_slug mw \<noteq> Some []"
  shows "cached_more (mw_policy mw) s (snd (tenant_middleware e mw path header s))"
proof (cases "request_host_of header = []")
  case True
  then show ?thesis using cached_more_refl [OF ok] by (simp add: tenant_middleware_def Let_def)
next
  case False
  note h = False request_host_normal [of header]
  show ?thesis
  proof (cases "mw_multi_tenant mw")
    case True
    then show ?thesis using resolve_request_ok(1) [OF ok h, of e] optional_path_ok [OF ok h, of e path] False
      by (auto simp: tenant_middleware_def Let_def py_run_bind split: sum.splits prod.splits)
  next
    case single_mode: False
    show ?thesis
      using False single_mode single cached_more_refl [OF ok] get_tenant_snapshot_ok(1) [OF ok, of _ e]
      by (auto simp: tenant_middleware_def Let_def py_run_bind split: sum.splits option.splits)
  qed
qed

lemma served_snapshot:
  assumes "serve_snapshot mw path host c snapshot = Served (Some sn) recovering"
  shows "\<exists>sn0. snapshot = Some sn0 \<and> sn = sn0\<lparr>sn_domain := sn_domain sn\<rparr> \<and>
     (if recovering then \<not> sn_is_active sn0 \<and> is_billing_recovery_path path else sn_is_active sn0)"
  using assms by (auto simp: serve_snapshot_def Let_def assert_routable_def resolve_state_def try_billing_recovery_def
      split: option.splits sum.splits if_splits recovery.splits)

lemma middleware_serves:
  assumes ok: "routing_ok (mw_policy mw) s" and multi: "mw_multi_tenant mw"
    and served: "fst (tenant_middleware e mw path header s) = Inr (Served (Some sn) recovering)"
  shows "\<exists>sn0. snapshot_by_slug s (host_slug (mw_policy mw) s (request_host_of header)) = Some sn0 \<and>
      host_slug (mw_policy mw) s (request_host_of header) \<noteq> [] \<and> sn = sn0\<lparr>sn_domain := sn_domain sn\<rparr> \<and>
      (if recovering then \<not> sn_is_active sn0 \<and> is_billing_recovery_path path else sn_is_active sn0)"
proof -
  have h: "request_host_of header \<noteq> []" using served by (auto simp: tenant_middleware_def Let_def split: if_splits)
  obtain slug c snapshot where res: "fst (resolve_request e (mw_policy mw) (request_host_of header) s) = Inr (slug, c, snapshot)"
      and serve: "serve_snapshot mw path (request_host_of header) c snapshot = Served (Some sn) recovering"
    using served multi h
    by (auto simp: tenant_middleware_def Let_def py_run_bind str_or_def
        split: if_splits sum.splits prod.splits option.splits dest!: optional_path_answer)
  obtain sn0 where "snapshot = Some sn0" and rest: "sn = sn0\<lparr>sn_domain := sn_domain sn\<rparr>"
      "if recovering then \<not> sn_is_active sn0 \<and> is_billing_recovery_path path else sn_is_active sn0"
    using served_snapshot [OF serve] by blast
  then have "snapshot_by_slug s (host_slug (mw_policy mw) s (request_host_of header)) = Some sn0"
      "host_slug (mw_policy mw) s (request_host_of header) \<noteq> []"
    using resolve_request_ok(2) [OF ok h request_host_normal, of e slug c sn0] res by simp_all
  with rest show ?thesis by blast
qed

section \<open>The state machine\<close>

text \<open>
  One step: a request, a write of the repository of tenants (the config of a tenant under its own slug, as all callers
  do), or anything that touches neither the tables of tenants nor the caches, the passing of time included.
\<close>

inductive routing_step :: "routing_policy \<Rightarrow> tenant_store \<Rightarrow> tenant_store \<Rightarrow> bool" for p where
  step_request: "mw_policy mw = p \<Longrightarrow> mw_single_tenant_slug mw \<noteq> Some [] \<Longrightarrow>
    routing_step p s (snd (tenant_middleware e mw path header s))"
| step_create: "routing_step p s (snd (create_tenant e slug name created_by active s))"
| step_config: "slug_fits i slug s \<Longrightarrow> routing_step p s (snd (create_tenant_config e i slug package fl lm s))"
| step_delete_config: "slug_fits i slug s \<Longrightarrow> routing_step p s (snd (delete_config e i slug s))"
| step_domain: "routing_step p s (snd (create_domain e i domain verified_at s))"
| step_verify: "routing_step p s (snd (verify_domain e domain verified_at s))"
| step_delete_domain: "routing_step p s (snd (delete_domain e domain tenant_id s))"
| step_delete: "routing_step p s (snd (delete_by_slug e slug s))"
| step_actor: "routing_step p s (snd (set_actor e i actor s))"
| step_activate: "routing_step p s (snd (activate_tenant e i s))"
| step_deactivate: "routing_step p s (snd (deactivate_tenant e i s))"
| step_version: "routing_step p s (snd (raise_tenant_version e i s))"
| step_other: "routing_view s' = routing_view s \<Longrightarrow> routing_step p s s'"

lemma routing_step_ok: "routing_step p s s' \<Longrightarrow> routing_ok p s \<Longrightarrow> routing_ok p s'"
proof (induction rule: routing_step.induct)
  case (step_request mw s e path header)
  then show ?case using middleware_caches cached_more_reads(4) by blast
next
  case (step_other s' s)
  then show ?case using routing_ok_view by blast
qed (blast intro: preservesD preserve routing_create_config routing_delete_config)+

lemma routing_reachable: "(routing_step p)\<^sup>*\<^sup>* s s' \<Longrightarrow> routing_ok p s \<Longrightarrow> routing_ok p s'"
  by (induction rule: rtranclp_induct) (auto intro: routing_step_ok)

lemma routing_start: "store_wf s \<Longrightarrow> st_tenant_cache s = [] \<Longrightarrow> st_domain_cache s = [] \<Longrightarrow> routing_ok p s"
  by (simp add: routing_ok_def)

lemma host_slug_meaning:
  assumes wf: "store_wf s" and t: "tenant_by_slug s (host_slug p s host) = Some t" and h: "host_slug p s host \<noteq> []"
  shows "resolve_platform_slug p host = Some (tr_slug t) \<or>
     (\<exists>d \<in> set (st_domains s). dm_domain d = normalize_domain host \<and> dm_verified_at d \<noteq> None \<and> dm_tenant_id d = tr_id t)"
proof (cases "resolve_platform_slug p host")
  case (Some slug)
  then show ?thesis using tenant_by_slug_mem [OF t] by (simp add: host_slug_def)
next
  case None
  then obtain u where u: "tenant_by_domain s host = Some u" "host_slug p s host = tr_slug u"
    using h by (cases "tenant_by_domain s host") (auto simp: host_slug_def str_or_def)
  then obtain d where d: "verified_link s host = Some d" "tenant_by_id s (dm_tenant_id d) = Some u"
    by (auto simp: tenant_by_domain_def split: option.splits)
  have "tr_slug t = tr_slug u" "t \<in> set (st_tenants s)" "u \<in> set (st_tenants s)"
    using u tenant_by_slug_mem [OF t] tenant_by_id_mem [OF d(2)] by auto
  then have "t = u" using wf distinct_map_inj [of tr_slug "st_tenants s" t u] by (simp add: store_wf_def tables_wf_def)
  then show ?thesis using d tenant_by_id_mem [OF d(2)] unfolding verified_link_def by (auto dest!: find_Some_set)
qed

lemma snapshot_tenant:
  assumes "snapshot_by_slug s slug = Some sn"
  shows "\<exists>t. tenant_by_slug s slug = Some t \<and> t \<in> set (st_tenants s) \<and> tr_slug t = slug \<and>
    sn_is_active sn = tr_is_active t \<and> sn_slug sn = slug \<and> sn_tenant_id sn = tr_id t \<and> sn\<lparr>sn_domain := None\<rparr> = sn"
  using assms tenant_by_slug_mem [of s slug] by (auto simp: snapshot_by_slug_def build_snapshot_def)


section \<open>The clean-up of expired demos\<close>

definition demo_middleware :: middleware_env where
  "demo_middleware = \<lparr>mw_base_domain = ''app.hu'', mw_multi_tenant = True, mw_install_host = Some ''app.hu'',
     mw_single_tenant_slug = None, mw_policy = make_routing_policy ''app.hu'' None, mw_has_debt = (\<lambda>_. False)\<rparr>"

abbreviation "demo_env_ok \<equiv> demo_tenant_env (\<lambda>_. False)"

definition demo_requested :: tenant_store where
  "demo_requested = snd (tenant_middleware demo_env_ok demo_middleware ''/api/kb'' (Some ''bolt1.app.hu'') demo_expired_platform)"

lemma demo_expired_wf: "store_wf demo_expired_platform" "st_tenant_cache demo_expired_platform = []"
    "st_domain_cache demo_expired_platform = []"
  by (simp_all add: store_wf_def tables_wf_def demo_expired_platform_def demo_empty_platform_def)

lemma demo_requested_reachable: "(routing_step (mw_policy demo_middleware))\<^sup>*\<^sup>* demo_expired_platform demo_requested"
  unfolding demo_requested_def by (rule r_into_rtranclp, rule step_request) (simp_all add: demo_middleware_def)

definition served_plainly :: "tenant_error + mw_outcome \<Rightarrow> bool" where
  "served_plainly r \<longleftrightarrow> (case r of Inl _ \<Rightarrow> False | Inr answer \<Rightarrow> (case answer of Rejected _ _ \<Rightarrow> False
     | Served sn recovering \<Rightarrow> sn \<noteq> None \<and> \<not> recovering))"

lemma served_plainly_iff: "served_plainly r \<longleftrightarrow> (\<exists>sn. r = Inr (Served (Some sn) False))"
  by (auto simp: served_plainly_def split: sum.splits mw_outcome.splits)

lemma demo_request_served:
  "served_plainly (fst (tenant_middleware demo_env_ok demo_middleware ''/api/kb'' (Some ''bolt1.app.hu'') demo_requested))"
  by code_simp



end
