(* ===== verification/Tenant_Provisioning.thy ===== *)
theory Tenant_Provisioning
  imports Tenant_Sessions Tenant_Policy
begin

text \<open>
  Creating a tenant (\<open>tenant/provisioning/\<close>): the steps that make sure of schema, tenant, owner, actor, config,
  domains and activation, the check of the result, and the compensation of what a failed run created. The steps work
  on the store and on the compensation plan, which survives the exception.
\<close>

section \<open>Requests and plans\<close>

record provisioning_request =
  pr_slug :: string
  pr_tenant_name :: string
  pr_owner_email :: string
  pr_owner_name :: "string option"
  pr_primary_domain :: string
  pr_custom_domain :: "string option"
  pr_package :: string
  pr_feature_flags :: flags
  pr_limits :: "(string \<times> int) list"
  pr_send_invite_email :: bool
  pr_activate_immediately :: bool
  pr_invite_lang :: "string option"

record validation =
  va_tenant_exists :: bool
  va_owner_exists :: bool
  va_config_exists :: bool
  va_primary_domain_exists :: bool
  va_custom_domain_exists :: bool
  va_schema_exists :: bool
  va_missing_schema_tables :: "string list"

definition is_consistent :: "validation \<Rightarrow> bool" where
  "is_consistent v \<longleftrightarrow> va_tenant_exists v \<and> va_owner_exists v \<and> va_config_exists v \<and> va_primary_domain_exists v \<and>
     va_schema_exists v \<and> va_missing_schema_tables v = [] \<and> va_custom_domain_exists v"

record compensation_plan =
  cp_schema_created :: bool
  cp_tenant_created :: bool
  cp_actor_changed :: bool
  cp_previous_actor :: "int option"
  cp_config_created :: bool
  cp_domains_created :: "string list"

definition empty_plan :: compensation_plan where
  "empty_plan = \<lparr>cp_schema_created = False, cp_tenant_created = False, cp_actor_changed = False,
     cp_previous_actor = None, cp_config_created = False, cp_domains_created = []\<rparr>"

type_synonym 'a provisioning = "(tenant_store \<times> compensation_plan, tenant_error, 'a) py"

section \<open>Validation\<close>

definition owner_exists_in :: "tenant_env \<Rightarrow> provisioning_request \<Rightarrow> bool tenant_op" where
  "owner_exists_in e r =
     py_bind (in_schema e (pr_slug r) (get_db (\<lambda>db. user_by_email db (pr_owner_email r)))) (\<lambda>owner.
     py_return (case owner of None \<Rightarrow> False | Some u \<Rightarrow> au_role u = ''owner''))"

definition owned_by :: "domain_rec option \<Rightarrow> tenant_rec option \<Rightarrow> bool" where
  "owned_by d t = (case (d, t) of (Some d, Some t) \<Rightarrow> dm_tenant_id d = tr_id t | _ \<Rightarrow> False)"

definition provisioning_validate :: "tenant_env \<Rightarrow> provisioning_request \<Rightarrow> validation tenant_op" where
  "provisioning_validate e r =
     py_bind (db_read e (\<lambda>s. tenant_by_slug s (pr_slug r))) (\<lambda>tenant.
     py_bind (case tenant of None \<Rightarrow> py_return False | Some _ \<Rightarrow> owner_exists_in e r) (\<lambda>owner_exists.
     py_bind (case tenant of None \<Rightarrow> py_return None
              | Some t \<Rightarrow> db_read e (\<lambda>s. config_by_tenant_id s (tr_id t))) (\<lambda>config.
     py_bind (db_read e (\<lambda>s. domain_row s (pr_primary_domain r))) (\<lambda>primary_domain.
     py_bind (case pr_custom_domain r of None \<Rightarrow> py_return None
              | Some d \<Rightarrow> if d = [] then py_return None else db_read e (\<lambda>s. domain_row s d)) (\<lambda>custom_domain.
     py_bind (schema_exists e (pr_slug r)) (\<lambda>schema_found.
     py_bind (if schema_found then list_missing_tables e (pr_slug r) else py_return []) (\<lambda>missing.
     py_return \<lparr>va_tenant_exists = (tenant \<noteq> None), va_owner_exists = owner_exists, va_config_exists = (config \<noteq> None),
       va_primary_domain_exists = owned_by primary_domain tenant,
       va_custom_domain_exists = (pr_custom_domain r = None \<or> owned_by custom_domain tenant),
       va_schema_exists = schema_found, va_missing_schema_tables = missing\<rparr>)))))))"

section \<open>The steps\<close>

definition ensure_schema :: "tenant_env \<Rightarrow> string \<Rightarrow> unit provisioning" where
  "ensure_schema e slug =
     py_bind (py_on (schema_exists e slug)) (\<lambda>schema_present_before.
     py_seq (py_on (schema_create e slug))
       (if schema_present_before then py_return ()
        else py_bind (py_on (schema_exists e slug)) (\<lambda>found.
          if found then py_count (\<lambda>p. p\<lparr>cp_schema_created := True\<rparr>) else py_return ())))"

definition ensure_tenant :: "tenant_env \<Rightarrow> provisioning_request \<Rightarrow> tenant_rec provisioning" where
  "ensure_tenant e r =
     py_bind (py_on (db_read e (\<lambda>s. tenant_by_slug s (pr_slug r)))) (\<lambda>tenant.
     case tenant of
       Some t \<Rightarrow> py_return t
     | None \<Rightarrow>
         py_bind (py_on (create_tenant e (pr_slug r) (pr_tenant_name r) None False)) (\<lambda>t.
         py_seq (py_count (\<lambda>p. p\<lparr>cp_tenant_created := True\<rparr>)) (py_return t)))"

definition ensure_owner :: "tenant_env \<Rightarrow> provisioning_request \<Rightarrow> auth_user tenant_op" where
  "ensure_owner e r =
     py_bind (in_schema e (pr_slug r) (get_db (\<lambda>db. user_by_email db (pr_owner_email r)))) (\<lambda>existing.
     case existing of
       Some u \<Rightarrow> py_return u
     | None \<Rightarrow> in_schema e (pr_slug r)
         (user_create (tx_auth e) (pr_owner_email r) (pr_owner_name r) ''owner'' (Some (tx_request_base_url e (pr_slug r)))
            (pr_send_invite_email r) (pr_activate_immediately r) (pr_invite_lang r)))"

definition ensure_actor :: "tenant_env \<Rightarrow> int \<Rightarrow> int \<Rightarrow> unit provisioning" where
  "ensure_actor e tenant_id owner_id =
     py_bind (py_on (db_read e (\<lambda>s. actor_user_id s tenant_id))) (\<lambda>previous_actor.
     if previous_actor = Some owner_id then py_return ()
     else py_seq (py_count (\<lambda>p. p\<lparr>cp_previous_actor := previous_actor\<rparr>))
         (py_seq (py_on (set_actor e tenant_id (Some owner_id))) (py_count (\<lambda>p. p\<lparr>cp_actor_changed := True\<rparr>))))"

definition ensure_config :: "tenant_env \<Rightarrow> provisioning_request \<Rightarrow> int \<Rightarrow> unit provisioning" where
  "ensure_config e r tenant_id =
     py_bind (py_on (db_read e (\<lambda>s. config_by_tenant_id s tenant_id))) (\<lambda>existing.
     py_seq (if existing = None then py_count (\<lambda>p. p\<lparr>cp_config_created := True\<rparr>) else py_return ())
       (py_on (create_tenant_config e tenant_id (pr_slug r) (pr_package r) (pr_feature_flags r) (pr_limits r))))"

definition ensure_domain :: "tenant_env \<Rightarrow> int \<Rightarrow> string option \<Rightarrow> unit provisioning" where
  "ensure_domain e tenant_id domain =
     (if str_or domain [] = [] then py_return ()
      else
        let domain = str_or domain [] in
        py_bind (py_on (db_read e (\<lambda>s. domain_row s domain))) (\<lambda>existing.
        case existing of
          None \<Rightarrow> py_seq (py_on (create_domain e tenant_id domain None))
                    (py_count (\<lambda>p. p\<lparr>cp_domains_created := cp_domains_created p @ [domain]\<rparr>))
        | Some d \<Rightarrow> if dm_tenant_id d \<noteq> tenant_id then py_raise (Tenant_value_error ''domain_taken'') else py_return ()))"

definition ensure_activation :: "tenant_env \<Rightarrow> int \<Rightarrow> string \<Rightarrow> unit tenant_op" where
  "ensure_activation e tenant_id slug =
     py_bind (db_read e (\<lambda>s. map_option status_of (tenant_by_slug s slug))) (\<lambda>status.
     if (case status of None \<Rightarrow> False | Some st \<Rightarrow> sx_is_active st) then py_return ()
     else py_seq (py_lift (assert_transition status ''active'')) (activate_tenant e tenant_id))"

section \<open>Compensation\<close>

definition delete_domains :: "tenant_env \<Rightarrow> string list \<Rightarrow> unit tenant_op" where
  "delete_domains e domains = py_fold (\<lambda>d _. delete_domain e d None) domains ()"

definition with_tenant :: "tenant_env \<Rightarrow> string \<Rightarrow> (int \<Rightarrow> unit tenant_op) \<Rightarrow> unit tenant_op" where
  "with_tenant e slug f =
     py_bind (db_read e (\<lambda>s. tenant_by_slug s slug)) (\<lambda>tenant.
     case tenant of None \<Rightarrow> py_return () | Some t \<Rightarrow> f (tr_id t))"

definition compensate :: "tenant_env \<Rightarrow> provisioning_request \<Rightarrow> compensation_plan \<Rightarrow> unit tenant_op" where
  "compensate e r p =
     py_seq (delete_domains e (rev (cp_domains_created p)))
    (py_seq (if cp_config_created p then with_tenant e (pr_slug r) (\<lambda>i. delete_config e i (pr_slug r)) else py_return ())
    (py_seq (if cp_actor_changed p then with_tenant e (pr_slug r) (\<lambda>i. set_actor e i (cp_previous_actor p)) else py_return ())
    (py_seq (if cp_tenant_created p then delete_by_slug e (pr_slug r) else py_return ())
       (if cp_schema_created p then schema_drop e (pr_slug r) else py_return ()))))"

section \<open>Provisioning\<close>

definition finish_provisioning :: "tenant_env \<Rightarrow> provisioning_request \<Rightarrow> snapshot tenant_op" where
  "finish_provisioning e r =
     py_bind (provisioning_validate e r) (\<lambda>validation.
     if \<not> is_consistent validation then py_raise (Runtime_error ''tenant_provisioning_inconsistent'')
     else py_bind (db_read e (\<lambda>s. snapshot_by_slug s (pr_slug r))) (\<lambda>sn.
       case sn of
         None \<Rightarrow> py_raise (Runtime_error ''tenant_snapshot_missing_after_provisioning'')
       | Some sn \<Rightarrow> py_return (sn\<lparr>sn_domain := Some \<lparr>di_request_host = Some (pr_primary_domain r),
             di_resolved_host = Some (pr_primary_domain r), di_is_custom_domain = False, di_verified_at = None\<rparr>\<rparr>)))"

definition provision_body :: "tenant_env \<Rightarrow> provisioning_request \<Rightarrow> snapshot provisioning" where
  "provision_body e r =
     py_seq (ensure_schema e (pr_slug r))
    (py_bind (ensure_tenant e r) (\<lambda>tenant.
     py_bind (py_on (ensure_owner e r)) (\<lambda>owner.
     py_seq (ensure_actor e (tr_id tenant) (au_id owner))
    (py_seq (ensure_config e r (tr_id tenant))
    (py_seq (ensure_domain e (tr_id tenant) (Some (pr_primary_domain r)))
    (py_seq (ensure_domain e (tr_id tenant) (pr_custom_domain r))
    (py_seq (py_on (ensure_activation e (tr_id tenant) (pr_slug r)))
       (py_on (finish_provisioning e r)))))))))"

definition provision :: "tenant_env \<Rightarrow> provisioning_request \<Rightarrow> snapshot tenant_op" where
  "provision e r = (\<lambda>s.
     case provision_body e r (s, empty_plan) of
       (Inr sn, (s', p)) \<Rightarrow> (Inr sn, s')
     | (Inl exc, (s', p)) \<Rightarrow>
         (case compensate e r p s' of (Inl exc', s'') \<Rightarrow> (Inl exc', s'') | (Inr _, s'') \<Rightarrow> (Inl exc, s'')))"

end
