(* ===== verification/Tenant_Provisioning_Facts.thy ===== *)
theory Tenant_Provisioning_Facts
  imports Tenant_Provisioning Tenant_Routing_Facts
begin

text \<open>
  Provisioning as all or nothing. \<open>undoable\<close> says what the steps may have changed so far and that the compensation
  plan knows about it; every step keeps it, whether it returns or raises, and the compensation brings the tables back
  from it as long as its own calls to the database succeed.
\<close>

section \<open>What the steps may change\<close>

text \<open>The same tables of tenants, and the same schemas but for one.\<close>

definition within :: "string \<Rightarrow> tenant_store \<Rightarrow> tenant_store \<Rightarrow> bool" where
  "within slug s s' \<longleftrightarrow> st_tenants s' = st_tenants s \<and> st_next_tenant s' = st_next_tenant s \<and>
     st_configs s' = st_configs s \<and> st_domains s' = st_domains s \<and> (\<forall>x. x \<noteq> slug \<longrightarrow> st_schemas s' x = st_schemas s x)"

lemma within_refl [simp]: "within slug s s"
  by (simp add: within_def)

lemma within_trans: "within slug s s' \<Longrightarrow> within slug s' s'' \<Longrightarrow> within slug s s''"
  by (simp add: within_def)

interpretation within: step_order "within slug" for slug
  by unfold_locales (auto intro: within_trans)

lemmas [stay] = within.moves_rules

abbreviation stays :: "string \<Rightarrow> 'a tenant_op \<Rightarrow> bool" where
  "stays slug \<equiv> moves (within slug)"

lemmas staysI = movesI [of "within slug" for slug]

lemmas staysD = movesD [of "within slug" for slug]

lemma stays_call [stay]: "stays slug m \<Longrightarrow> stays slug (db_call e m)"
proof (rule staysI)
  fix s assume m: "stays slug m"
  have "within slug s (s\<lparr>st_calls := st_calls s + 1\<rparr>)" by (simp add: within_def)
  then show "within slug s (snd (db_call e m s))"
    using within_trans [OF _ staysD [OF m]] by (simp add: db_call_def Let_def)
qed

lemma stays_read [stay]: "stays slug (db_read e f)"
  unfolding db_read_def by (intro stay)

lemma stays_schemas: "(\<And>s. within slug s (f s)) \<Longrightarrow> stays slug (db_write e f)"
  unfolding db_write_def by (intro stay staysI) simp

lemma stays_schema_call [stay]: "stays slug (schema_call e slug f)"
  unfolding schema_call_def by (intro stay staysI) (simp add: within_def update_schema_def)

lemma stays_ensure_schema [stay]: "stays slug (ensure_tenant_schema e slug)"
  unfolding ensure_tenant_schema_def by (rule stays_schemas) (simp add: within_def)

lemma stays_check [stay]: "stays slug (check_slug slug')"
  unfolding check_slug_def by (intro stay)

lemma stays_upgrade [stay]: "stays slug (schema_create e slug)"
  unfolding schema_create_def upgrade_tenant_schema_def list_applied_tenant_migrations_def ensure_tenant_migration_table_def
    install_hook_def record_tenant_migration_def
  by (intro stay)

lemma stays_exists [stay]: "stays slug (schema_exists e slug')"
  unfolding schema_exists_def by (intro stay)

lemma stays_drop [stay]: "stays slug (schema_drop e slug)"
  unfolding schema_drop_def by (intro stay stays_schemas) (simp add: within_def)

lemma stays_missing [stay]: "stays slug (list_missing_tables e slug')"
  unfolding list_missing_tables_def by (intro stay)

lemma stays_in_schema [stay]: "stays slug (in_schema e slug m)"
  unfolding in_schema_def by (intro stay staysI) (auto simp: within_def split: option.splits prod.splits)

lemma stays_owner [stay]: "stays (pr_slug r) (ensure_owner e r)"
  unfolding ensure_owner_def by (intro stay)

lemma stays_finish [stay]: "stays (pr_slug r) (finish_provisioning e r)"
  unfolding finish_provisioning_def provisioning_validate_def owner_exists_in_def by (intro stay)

section \<open>The steps keep the plan\<close>

definition undoable :: "provisioning_request \<Rightarrow> tenant_store \<Rightarrow> tenant_store \<times> compensation_plan \<Rightarrow> bool" where
  "undoable r s0 sp \<longleftrightarrow> (case sp of (s, p) \<Rightarrow>
     (if cp_tenant_created p
      then \<exists>row. st_tenants s = st_tenants s0 @ [row] \<and> tr_id row = st_next_tenant s0 \<and> tr_slug row = pr_slug r
      else st_tenants s = st_tenants s0 \<and> st_next_tenant s = st_next_tenant s0 \<and> st_configs s = st_configs s0 \<and>
        st_domains s = st_domains s0) \<and>
     filter (\<lambda>c. cf_tenant_id c \<noteq> st_next_tenant s0) (st_configs s) = st_configs s0 \<and>
     (\<not> cp_config_created p \<longrightarrow> st_configs s = st_configs s0) \<and>
     filter (\<lambda>d. dm_tenant_id d \<noteq> st_next_tenant s0) (st_domains s) = st_domains s0 \<and>
     (\<forall>d \<in> set (cp_domains_created p). \<forall>x \<in> set (st_domains s0). dm_domain x \<noteq> normalize_domain d) \<and>
     (\<forall>x. x \<noteq> pr_slug r \<longrightarrow> st_schemas s x = st_schemas s0 x) \<and>
     (cp_schema_created p \<longrightarrow> schema_safe_slug (pr_slug r)))"

text \<open>A slug and an id that nobody uses.\<close>

definition fresh_for :: "provisioning_request \<Rightarrow> tenant_store \<Rightarrow> bool" where
  "fresh_for r s \<longleftrightarrow> store_wf s \<and> tenant_by_slug s (pr_slug r) = None \<and> st_schemas s (pr_slug r) = None"

lemma fresh_ids:
  assumes "fresh_for r s"
  shows "\<forall>t \<in> set (st_tenants s). tr_id t \<noteq> st_next_tenant s \<and> tr_slug t \<noteq> pr_slug r"
    "\<forall>c \<in> set (st_configs s). cf_tenant_id c \<noteq> st_next_tenant s" "\<forall>d \<in> set (st_domains s). dm_tenant_id d \<noteq> st_next_tenant s"
  using assms by (auto simp: fresh_for_def store_wf_def tables_wf_def tenant_by_slug_def find_None_iff_all)

lemma undoable_start: "fresh_for r s \<Longrightarrow> undoable r s (s, empty_plan)"
  using fresh_ids [of r s] by (simp add: undoable_def empty_plan_def filter_id_conv)

lemma undoable_within: "within (pr_slug r) s s' \<Longrightarrow> undoable r s0 (s, p) \<Longrightarrow> undoable r s0 (s', p)"
  by (simp add: undoable_def within_def)

lemma undoable_on [preserve]: "stays (pr_slug r) m \<Longrightarrow> preserves (undoable r s0) (py_on m)"
proof (rule preservesI)
  fix sp :: "tenant_store \<times> compensation_plan"
  assume m: "stays (pr_slug r) m" and u: "undoable r s0 sp"
  obtain s p where sp: "sp = (s, p)" by (cases sp)
  show "undoable r s0 (snd (py_on m sp))"
    using undoable_within [OF staysD [OF m]] u by (simp add: sp py_run_on)
qed

text \<open>Once the tenant of the request is there, and with \<open>c\<close> its config, if one is given.\<close>

definition undoable_row :: "provisioning_request \<Rightarrow> tenant_store \<Rightarrow> config_rec option \<Rightarrow> tenant_store \<times> compensation_plan \<Rightarrow> bool" where
  "undoable_row r s0 c sp \<longleftrightarrow> undoable r s0 sp \<and> cp_tenant_created (snd sp) \<and>
     (c \<noteq> None \<longrightarrow> config_row (fst sp) (st_next_tenant s0) = c)"

lemma undoable_row_on [preserve]: "stays (pr_slug r) m \<Longrightarrow> preserves (undoable_row r s0 c) (py_on m)"
proof (rule preservesI)
  fix sp :: "tenant_store \<times> compensation_plan"
  assume m: "stays (pr_slug r) m" and u: "undoable_row r s0 c sp"
  obtain s p where sp: "sp = (s, p)" by (cases sp)
  have "undoable r s0 (snd (py_on m sp))" using u preservesD [OF undoable_on [OF m]] by (simp add: undoable_row_def)
  moreover have "config_row (snd (m s)) i = config_row s i" for i
    using staysD [OF m, of s] by (simp add: within_def config_row_def)
  ultimately show "undoable_row r s0 c (snd (py_on m sp))" using u sp by (simp add: undoable_row_def py_run_on)
qed

lemma bind_keeps:
  "P (snd (m s)) \<Longrightarrow> (\<And>x s'. m s = (Inr x, s') \<Longrightarrow> P (snd (f x s'))) \<Longrightarrow> P (snd (py_bind m f s))"
  by (cases "m s") (auto simp: py_bind_def split: sum.splits)

lemma on_InrE:
  assumes "py_on m (s, p) = (Inr x, sp)"
  obtains s' where "m s = (Inr x, s')" "sp = (s', p)"
  using assms by (auto simp: py_on_def split: prod.splits)

lemma read_Inr: "db_read e f s = (Inr x, s') \<Longrightarrow> s' = s\<lparr>st_calls := st_calls s + 1\<rparr> \<and> x = f s'"
  by (auto simp: db_read_def db_call_def Let_def split: if_splits)

lemma call_Inr: "db_call e m s = (Inr x, s') \<Longrightarrow> m (s\<lparr>st_calls := st_calls s + 1\<rparr>) = (Inr x, s')"
  by (auto simp: db_call_def Let_def split: if_splits)

lemma schema_exists_Inr:
  "schema_exists e slug s = (Inr b, s') \<Longrightarrow> schema_safe_slug slug \<and> b = (st_schemas s slug \<noteq> None) \<and> st_schemas s' = st_schemas s"
  unfolding schema_exists_def check_slug_def
  by (auto elim!: seq_InrE dest!: read_Inr split: if_splits)

subsection \<open>The schema\<close>

abbreviation has_schema :: "string \<Rightarrow> tenant_store \<Rightarrow> bool" where
  "has_schema slug s \<equiv> st_schemas s slug \<noteq> None"

lemma has_schema_call: "preserves (has_schema slug) m \<Longrightarrow> preserves (has_schema slug) (db_call e m)"
  unfolding preserves_def db_call_def Let_def by auto

lemma has_schema_rules:
  "preserves (has_schema slug) (db_read e f)" "preserves (has_schema slug) (schema_call e slug' g)"
  "preserves (has_schema slug) (check_slug slug')" "preserves (has_schema slug) (ensure_tenant_schema e slug')"
  unfolding db_read_def schema_call_def check_slug_def ensure_tenant_schema_def db_write_def
  by (intro preserve has_schema_call preservesI; auto simp: update_schema_def split: if_splits)+

lemma ensure_tenant_schema_there: "ensure_tenant_schema e slug s = (Inr x, s') \<Longrightarrow> has_schema slug s'"
  unfolding ensure_tenant_schema_def db_write_def by (auto dest!: call_Inr)

lemma preserves_Inr: "preserves P m \<Longrightarrow> P s \<Longrightarrow> m s = (r, s') \<Longrightarrow> P s'"
  using preservesD [of P m s] by simp

lemma schema_create_there:
  assumes "schema_create e slug s = (Inr x, s')"
  shows "has_schema slug s'"
proof -
  obtain s1 s2 where 1: "ensure_tenant_migration_table e slug s1 = (Inr (), s2)"
    and rest: "py_bind (list_applied_tenant_migrations e slug) (\<lambda>applied.
     py_bind (py_fold (\<lambda>h applied.
         if hook_revision h \<in> set applied then py_return applied
         else py_seq (install_hook e slug h)
             (py_seq (record_tenant_migration e slug h) (py_return (hook_revision h # applied))))
       (tx_hooks e) applied) (\<lambda>_. py_return ())) s2 = (Inr x, s')"
    using assms unfolding schema_create_def upgrade_tenant_schema_def by (elim seq_InrE) (rule that, simp_all)
  obtain y s3 where a: "ensure_tenant_schema e slug s1 = (Inr y, s3)"
    and b: "schema_call e slug (add_tables [''schema_migrations'']) s3 = (Inr (), s2)"
    by (rule seq_InrE [OF 1 [unfolded ensure_tenant_migration_table_def]])
  have "has_schema slug s2"
    by (rule preserves_Inr [OF has_schema_rules(2) _ b]) (rule ensure_tenant_schema_there [OF a])
  have keeps: "preserves (has_schema slug) (py_bind (list_applied_tenant_migrations e slug) (\<lambda>applied.
     py_bind (py_fold (\<lambda>h applied.
         if hook_revision h \<in> set applied then py_return applied
         else py_seq (install_hook e slug h)
             (py_seq (record_tenant_migration e slug h) (py_return (hook_revision h # applied))))
       (tx_hooks e) applied) (\<lambda>_. py_return ())))"
    unfolding list_applied_tenant_migrations_def ensure_tenant_migration_table_def install_hook_def record_tenant_migration_def
    by (intro preserve has_schema_rules)
  show ?thesis by (rule preserves_Inr [OF keeps \<open>has_schema slug s2\<close> rest])
qed

text \<open>\<open>_ensure_schema\<close> writes the schema it created into the plan, unless the creation itself raised.\<close>

lemma undoable_ensure_schema: "preserves (undoable r s0) (ensure_schema e (pr_slug r))"
proof (rule preservesI)
  fix sp :: "tenant_store \<times> compensation_plan"
  assume u: "undoable r s0 sp"
  obtain s p where sp: "sp = (s, p)" by (cases sp)
  note on = preservesD [OF undoable_on]
  show "undoable r s0 (snd (ensure_schema e (pr_slug r) sp))"
    unfolding ensure_schema_def sp
  proof (rule bind_keeps)
    show "undoable r s0 (snd (py_on (schema_exists e (pr_slug r)) (s, p)))" using u sp by (intro on stay) simp
    fix before sp1
    assume before: "py_on (schema_exists e (pr_slug r)) (s, p) = (Inr before, sp1)"
    then obtain s1 where s1: "schema_exists e (pr_slug r) s = (Inr before, s1)" "sp1 = (s1, p)" by (rule on_InrE)
    have u1: "undoable r s0 sp1" using before u sp on [OF stays_exists] by (metis snd_conv)
    have safe: "schema_safe_slug (pr_slug r)" using schema_exists_Inr [OF s1(1)] by simp
    have keeps: "preserves (undoable r s0) (py_count (\<lambda>p. p\<lparr>cp_schema_created := True\<rparr>))"
      by (rule preservesI) (auto simp: undoable_def safe split: prod.splits)
    have "preserves (undoable r s0) (py_seq (py_on (schema_create e (pr_slug r)))
       (if before then py_return ()
        else py_bind (py_on (schema_exists e (pr_slug r))) (\<lambda>found.
          if found then py_count (\<lambda>p. p\<lparr>cp_schema_created := True\<rparr>) else py_return ())))"
      by (intro preserve stay keeps)
    then show "undoable r s0 (snd (py_seq (py_on (schema_create e (pr_slug r)))
       (if before then py_return ()
        else py_bind (py_on (schema_exists e (pr_slug r))) (\<lambda>found.
          if found then py_count (\<lambda>p. p\<lparr>cp_schema_created := True\<rparr>) else py_return ())) sp1))"
      using u1 by (rule preservesD)
  qed
qed

lemma ensure_schema_Inr:
  assumes "ensure_schema e slug (s, p) = (Inr x, (s', p'))" and "st_schemas s slug = None"
  shows "cp_schema_created p'"
proof -
  obtain b sp1 where b: "py_on (schema_exists e slug) (s, p) = (Inr b, sp1)"
    and rest: "py_seq (py_on (schema_create e slug)) (if b then py_return ()
        else py_bind (py_on (schema_exists e slug)) (\<lambda>found.
          if found then py_count (\<lambda>p. p\<lparr>cp_schema_created := True\<rparr>) else py_return ())) sp1 = (Inr x, (s', p'))"
    by (rule bind_InrE [OF assms(1) [unfolded ensure_schema_def]])
  obtain y sp2 where c: "py_on (schema_create e slug) sp1 = (Inr y, sp2)"
    and f: "(if b then py_return () else py_bind (py_on (schema_exists e slug)) (\<lambda>found.
          if found then py_count (\<lambda>p. p\<lparr>cp_schema_created := True\<rparr>) else py_return ())) sp2 = (Inr x, (s', p'))"
    by (rule seq_InrE [OF rest])
  obtain s1 where s1: "schema_exists e slug s = (Inr b, s1)" "sp1 = (s1, p)" by (rule on_InrE [OF b])
  then have nb: "\<not> b" using schema_exists_Inr [OF s1(1)] assms(2) by simp
  obtain s2 where s2: "schema_create e slug s1 = (Inr y, s2)" "sp2 = (s2, p)" by (rule on_InrE [OF c [unfolded s1(2)]])
  have look: "py_bind (py_on (schema_exists e slug)) (\<lambda>found.
          if found then py_count (\<lambda>p. p\<lparr>cp_schema_created := True\<rparr>) else py_return ()) (s2, p) = (Inr x, (s', p'))"
    using f nb s2 by simp
  obtain found and sp3 :: "tenant_store \<times> compensation_plan" where s3': "py_on (schema_exists e slug) (s2, p) = (Inr found, sp3)"
    and g: "(if found then py_count (\<lambda>p. p\<lparr>cp_schema_created := True\<rparr>) else py_return ()) sp3 = (Inr x :: tenant_error + unit, (s', p'))"
    by (rule bind_InrE [OF look])
  obtain s3 where s3: "schema_exists e slug s2 = (Inr found, s3)" "sp3 = (s3, p)" by (rule on_InrE [OF s3'])
  have found using schema_exists_Inr [OF s3(1)] schema_create_there [OF s2(1)] by simp
  then show ?thesis using g s3(2) by auto
qed

subsection \<open>The rows\<close>

lemma cache_gone_rest [simp]:
  "st_schemas (invalidate_tenant_cache slug s) = st_schemas s" "st_calls (invalidate_tenant_cache slug s) = st_calls s"
  "st_schemas (invalidate_domain_cache d s) = st_schemas s" "st_calls (invalidate_domain_cache d s) = st_calls s"
  by (simp_all add: invalidate_tenant_cache_def invalidate_domain_cache_def)

lemma calls_reads [simp]:
  "tenant_by_slug (s\<lparr>st_calls := n\<rparr>) slug = tenant_by_slug s slug"
  "tenant_by_id (s\<lparr>st_calls := n\<rparr>) i = tenant_by_id s i"
  "config_row (s\<lparr>st_calls := n\<rparr>) i = config_row s i" "domain_row (s\<lparr>st_calls := n\<rparr>) d = domain_row s d"
  by (simp_all add: row_defs)

lemma undoable_calls [simp]: "undoable r s0 (s\<lparr>st_calls := n\<rparr>, p) = undoable r s0 (s, p)"
  by (simp add: undoable_def)

lemma undoable_tenant:
  assumes "undoable r s0 (s, p)" and "fresh_for r s0"
  shows "tenant_by_slug s (pr_slug r) = Some t \<Longrightarrow> cp_tenant_created p \<and> tr_id t = st_next_tenant s0"
    and "tenant_by_slug s (pr_slug r) = None \<Longrightarrow> \<not> cp_tenant_created p"
proof -
  have none: "find (\<lambda>t. tr_slug t = pr_slug r) (st_tenants s0) = None"
    using assms(2) by (simp add: fresh_for_def tenant_by_slug_def)
  show "tenant_by_slug s (pr_slug r) = Some t \<Longrightarrow> cp_tenant_created p \<and> tr_id t = st_next_tenant s0"
    "tenant_by_slug s (pr_slug r) = None \<Longrightarrow> \<not> cp_tenant_created p"
    using assms(1) none by (auto simp: undoable_def tenant_by_slug_def find_append split: if_splits)
qed

lemma ensure_tenant_ok:
  assumes u: "undoable r s0 sp" and f: "fresh_for r s0"
  shows "undoable r s0 (snd (ensure_tenant e r sp))"
    and "ensure_tenant e r sp = (Inr t, sp') \<Longrightarrow> tr_id t = st_next_tenant s0 \<and> cp_tenant_created (snd sp')"
proof -
  obtain s p where sp: "sp = (s, p)" by (cases sp)
  let ?s = "s\<lparr>st_calls := st_calls s + 2\<rparr>"
  let ?row = "\<lparr>tr_id = st_next_tenant s, tr_slug = pr_slug r, tr_name = pr_tenant_name r, tr_created_at = now_of ?s,
      tr_created_by = None, tr_security_version = 0, tr_is_active = False\<rparr>"
  let ?n = "invalidate_tenant_cache (pr_slug r) (?s\<lparr>st_next_tenant := st_next_tenant s + 1, st_tenants := st_tenants s @ [?row]\<rparr>)"
  note none = undoable_tenant(2) [OF u [unfolded sp] f]
  have new: "undoable r s0 (?n, p\<lparr>cp_tenant_created := True\<rparr>)" "st_next_tenant s = st_next_tenant s0"
    if "tenant_by_slug s (pr_slug r) = None"
    using u none [OF that] by (auto simp: undoable_def sp)
  show "undoable r s0 (snd (ensure_tenant e r sp))"
    using u new by (auto simp: sp ensure_tenant_def create_tenant_def db_read_def db_call_def Let_def py_run_bind py_run_on
        py_run_seq split: option.splits sum.splits)
  show "tr_id t = st_next_tenant s0 \<and> cp_tenant_created (snd sp')" if "ensure_tenant e r sp = (Inr t, sp')"
    using that new undoable_tenant(1) [OF u [unfolded sp] f]
    by (auto simp: sp ensure_tenant_def create_tenant_def db_read_def db_call_def Let_def py_run_bind py_run_on
        py_run_seq split: option.splits sum.splits if_splits)
qed

text \<open>The later steps are made for the id of this tenant.\<close>

lemma undoable_row_tenant:
  assumes "undoable_row r s0 c (s, p)" and "fresh_for r s0"
  obtains row where "st_tenants s = st_tenants s0 @ [row]" "tr_id row = st_next_tenant s0" "tr_slug row = pr_slug r"
    "tenant_by_id s (st_next_tenant s0) = Some row" "tenant_by_slug s (pr_slug r) = Some row"
proof -
  obtain row where row: "st_tenants s = st_tenants s0 @ [row]" "tr_id row = st_next_tenant s0" "tr_slug row = pr_slug r"
    using assms(1) by (auto simp: undoable_row_def undoable_def)
  have "find (\<lambda>t. tr_id t = st_next_tenant s0) (st_tenants s0) = None" "find (\<lambda>t. tr_slug t = pr_slug r) (st_tenants s0) = None"
    using fresh_ids(1) [OF assms(2)] by (auto simp: find_None_iff_all)
  then show thesis using that [OF row] row by (simp add: tenant_by_id_def tenant_by_slug_def find_append)
qed

lemma undoable_row_update [preserve]:
  assumes f: "fresh_for r s0" and id: "\<And>t. tr_id (g t) = tr_id t" and sl: "\<And>t. tr_slug (g t) = tr_slug t"
  shows "preserves (undoable_row r s0 c) (py_on (update_tenant e (st_next_tenant s0) g))"
proof (rule preservesI)
  fix sp :: "tenant_store \<times> compensation_plan"
  assume u: "undoable_row r s0 c sp"
  obtain s p where sp: "sp = (s, p)" by (cases sp)
  let ?s = "s\<lparr>st_calls := st_calls s + 1\<rparr>"
  obtain row where row: "st_tenants s = st_tenants s0 @ [row]" "tr_id row = st_next_tenant s0" "tr_slug row = pr_slug r"
      "tenant_by_id s (st_next_tenant s0) = Some row"
    using undoable_row_tenant [OF u [unfolded sp] f] by blast
  have upd: "update_where (\<lambda>t. tr_id t = st_next_tenant s0) g (st_tenants s) = st_tenants s0 @ [g row]"
    using fresh_ids(1) [OF f] row by (auto simp: update_where_def map_idI)
  let ?n = "invalidate_tenant_cache (tr_slug row) (?s\<lparr>st_tenants := st_tenants s0 @ [g row]\<rparr>)"
  have u': "undoable r s0 (?n, p)" using u row by (simp add: undoable_row_def undoable_def sp id sl)
  have "undoable_row r s0 c (?n, p)" "undoable_row r s0 c (?s, p)"
    using u u' by (simp_all add: undoable_row_def sp) (simp add: config_row_def)
  then show "undoable_row r s0 c (snd (py_on (update_tenant e (st_next_tenant s0) g) sp))"
    using row(4) upd by (simp add: sp py_run_on update_tenant_def db_write_def db_call_def Let_def)
qed

lemma undoable_row_count:
  assumes "\<And>p. cp_schema_created (g p) = cp_schema_created p" "\<And>p. cp_tenant_created (g p) = cp_tenant_created p"
    "\<And>p. cp_config_created p \<Longrightarrow> cp_config_created (g p)" "\<And>p. cp_domains_created (g p) = cp_domains_created p"
  shows "preserves (undoable_row r s0 c) (py_count g)"
proof (rule preservesI)
  fix sp :: "tenant_store \<times> compensation_plan"
  assume "undoable_row r s0 c sp"
  then show "undoable_row r s0 c (snd (py_count g sp))"
    using assms by (cases sp) (auto simp: undoable_row_def undoable_def)
qed

lemma undoable_ensure_actor: "fresh_for r s0 \<Longrightarrow> preserves (undoable_row r s0 c) (ensure_actor e (st_next_tenant s0) owner)"
  unfolding ensure_actor_def set_actor_def
  by (intro preserve stay undoable_row_count; simp)

definition request_config :: "provisioning_request \<Rightarrow> int \<Rightarrow> config_rec" where
  "request_config r i = \<lparr>cf_tenant_id = i, cf_package = pr_package r, cf_feature_flags = pr_feature_flags r, cf_limits = pr_limits r\<rparr>"

lemma filter_upsert_row:
  "filter (\<lambda>x. key x \<noteq> key row) (upsert_row key row tbl) = filter (\<lambda>x. key x \<noteq> key row) tbl"
proof (cases "find (\<lambda>r. key r = key row) tbl")
  case None
  then show ?thesis by (simp add: upsert_row_def)
next
  case (Some y)
  have "filter (\<lambda>x. key x \<noteq> key row) (update_where (\<lambda>r. key r = key row) (\<lambda>_. row) tbl) = filter (\<lambda>x. key x \<noteq> key row) tbl"
    by (induction tbl) (auto simp: update_where_def)
  with Some show ?thesis by (simp add: upsert_row_def)
qed

lemma undoable_create_config:
  assumes f: "fresh_for r s0" and u: "undoable_row r s0 c (s, p)" and flag: "cp_config_created p"
    and c: "c \<in> {None, Some (request_config r (st_next_tenant s0))}"
  shows "undoable_row r s0 c (snd (create_tenant_config e (st_next_tenant s0) (pr_slug r) (pr_package r) (pr_feature_flags r) (pr_limits r) s), p)"
    and "create_tenant_config e (st_next_tenant s0) (pr_slug r) (pr_package r) (pr_feature_flags r) (pr_limits r) s = (Inr x, s') \<Longrightarrow>
      config_row s' (st_next_tenant s0) = Some (request_config r (st_next_tenant s0))"
proof -
  let ?s = "s\<lparr>st_calls := st_calls s + 1\<rparr>" and ?row = "request_config r (st_next_tenant s0)"
  let ?n = "invalidate_tenant_cache (pr_slug r) (put_config ?row ?s)"
  obtain row where row: "tenant_by_id s (st_next_tenant s0) = Some row" using undoable_row_tenant [OF u f] by blast
  have cf: "cf_tenant_id ?row = st_next_tenant s0" by (simp add: request_config_def)
  have conf: "config_row ?n (st_next_tenant s0) = Some ?row"
    using cf by (simp add: config_row_def put_config_def find_upsert_row)
  have "filter (\<lambda>x. cf_tenant_id x \<noteq> st_next_tenant s0) (upsert_row cf_tenant_id ?row (st_configs s)) =
      filter (\<lambda>x. cf_tenant_id x \<noteq> st_next_tenant s0) (st_configs s)"
    using filter_upsert_row [of cf_tenant_id ?row "st_configs s"] cf by simp
  then have "undoable r s0 (?n, p)"
    using u flag by (simp add: undoable_row_def undoable_def put_config_def)
  then have n: "undoable_row r s0 c (?n, p)" using u conf c by (auto simp: undoable_row_def)
  moreover have "undoable_row r s0 c (?s, p)" using u by (simp add: undoable_row_def)
  moreover have call: "create_tenant_config e (st_next_tenant s0) (pr_slug r) (pr_package r) (pr_feature_flags r) (pr_limits r) s =
      (if tx_fault e (st_calls s) then (Inl Database_error, ?s) else (Inr (), ?n))"
    using row by (simp add: create_tenant_config_def db_call_def Let_def request_config_def)
  ultimately show "undoable_row r s0 c (snd (create_tenant_config e (st_next_tenant s0) (pr_slug r) (pr_package r)
      (pr_feature_flags r) (pr_limits r) s), p)" by simp
  show "config_row s' (st_next_tenant s0) = Some ?row"
    if "create_tenant_config e (st_next_tenant s0) (pr_slug r) (pr_package r) (pr_feature_flags r) (pr_limits r) s = (Inr x, s')"
    using that conf call by (auto split: if_splits)
qed

lemma ensure_config_ok:
  assumes f: "fresh_for r s0" and u: "undoable_row r s0 None sp"
  shows "undoable_row r s0 None (snd (ensure_config e r (st_next_tenant s0) sp))"
    and "ensure_config e r (st_next_tenant s0) sp = (Inr x, sp') \<Longrightarrow>
      undoable_row r s0 (Some (request_config r (st_next_tenant s0))) sp'"
proof -
  obtain s p where sp: "sp = (s, p)" by (cases sp)
  let ?i = "st_next_tenant s0"
  let ?s = "s\<lparr>st_calls := st_calls s + 1\<rparr>" and ?p = "if config_row s ?i = None then p\<lparr>cp_config_created := True\<rparr> else p"
  let ?create = "create_tenant_config e ?i (pr_slug r) (pr_package r) (pr_feature_flags r) (pr_limits r)"
  have u1: "undoable_row r s0 None (?s, p)" using u by (simp add: sp undoable_row_def)
  then have u2: "undoable_row r s0 None (?s, ?p)" by (auto simp: undoable_row_def undoable_def)
  have "cp_config_created p" if "config_row s ?i \<noteq> None"
  proof (rule ccontr)
    assume "\<not> cp_config_created p"
    then have "st_configs s = st_configs s0" using u by (simp add: sp undoable_row_def undoable_def)
    then have "config_row s ?i = None" using fresh_ids(2) [OF f] by (simp add: config_row_def find_None_iff_all)
    with that show False by simp
  qed
  then have flag: "cp_config_created ?p" by simp
  have run: "ensure_config e r ?i sp =
      (if tx_fault e (st_calls s) then (Inl Database_error, (?s, p)) else (fst (?create ?s), (snd (?create ?s), ?p)))"
    by (simp add: sp ensure_config_def py_run_bind py_run_seq py_run_on db_read_def db_call_def [of _ "py_gets _"] Let_def
        config_by_tenant_id_def)
  note create = undoable_create_config [OF f u2 flag]
  show "undoable_row r s0 None (snd (ensure_config e r ?i sp))"
    using u1 create(1) run by simp
  show "undoable_row r s0 (Some (request_config r ?i)) sp'" if a: "ensure_config e r ?i sp = (Inr x, sp')"
  proof -
    have n: "\<not> tx_fault e (st_calls s)" using a run by (auto split: if_splits)
    then have sp': "sp' = (snd (?create ?s), ?p)" and r: "fst (?create ?s) = Inr x" using a run by simp_all
    have "undoable_row r s0 None sp'" using create(1) sp' by simp
    moreover have "config_row (fst sp') ?i = Some (request_config r ?i)"
      using create(2) [where s' = "snd (?create ?s)"] r sp' by (simp add: prod_eq_iff)
    ultimately show ?thesis by (simp add: undoable_row_def)
  qed
qed

lemma undoable_ensure_config:
  "fresh_for r s0 \<Longrightarrow> preserves (undoable_row r s0 None) (ensure_config e r (st_next_tenant s0))"
  by (rule preservesI) (rule ensure_config_ok(1))

lemma undoable_create_domain:
  assumes f: "fresh_for r s0" and u: "undoable_row r s0 c (s, p)" and free: "domain_row s d = None"
  shows "undoable_row r s0 c (snd (py_seq (py_on (create_domain e (st_next_tenant s0) d None))
      (py_count (\<lambda>p. p\<lparr>cp_domains_created := cp_domains_created p @ [d]\<rparr>)) (s, p)))"
proof -
  let ?s = "s\<lparr>st_calls := st_calls s + 1\<rparr>"
  let ?row = "\<lparr>dm_tenant_id = st_next_tenant s0, dm_domain = normalize_domain d, dm_verified_at = None\<rparr>"
  let ?n = "invalidate_domain_cache (normalize_domain d) (?s\<lparr>st_domains := upsert_row dm_domain ?row (st_domains s)\<rparr>)"
  let ?p = "p\<lparr>cp_domains_created := cp_domains_created p @ [d]\<rparr>"
  obtain row where row: "tenant_by_id s (st_next_tenant s0) = Some row" using undoable_row_tenant [OF u f] by blast
  have app: "upsert_row dm_domain ?row (st_domains s) = st_domains s @ [?row]"
    using free by (simp add: upsert_row_def domain_row_def)
  have "\<forall>x \<in> set (st_domains s). dm_domain x \<noteq> normalize_domain d" using free by (simp add: domain_row_def find_None_iff_all)
  moreover have "set (st_domains s0) \<subseteq> set (st_domains s)"
    using u by (auto simp: undoable_row_def undoable_def simp flip: filter_is_subset) (metis filter_is_subset subsetD)+
  ultimately have "\<forall>x \<in> set (st_domains s0). dm_domain x \<noteq> normalize_domain d" by blast
  then have "undoable r s0 (?n, ?p)"
    using u app by (auto simp: undoable_row_def undoable_def)
  then have n: "undoable_row r s0 c (?n, ?p)" using u by (auto simp: undoable_row_def config_row_def)
  have "undoable_row r s0 c (?s, p)" using u by (simp add: undoable_row_def)
  moreover have "create_domain e (st_next_tenant s0) d None s = (if tx_fault e (st_calls s) then (Inl Database_error, ?s) else (Inr (), ?n))"
    using row free by (simp add: create_domain_def db_call_def Let_def)
  ultimately show ?thesis using n by (simp add: py_run_seq py_run_on)
qed

lemma undoable_ensure_domain:
  assumes f: "fresh_for r s0"
  shows "preserves (undoable_row r s0 c) (ensure_domain e (st_next_tenant s0) domain)"
proof (rule preservesI)
  fix sp :: "tenant_store \<times> compensation_plan"
  assume u: "undoable_row r s0 c sp"
  obtain s p where sp: "sp = (s, p)" by (cases sp)
  let ?s = "s\<lparr>st_calls := st_calls s + 1\<rparr>" and ?d = "str_or domain []"
  have u1: "undoable_row r s0 c (?s, p)" using u by (simp add: sp undoable_row_def)
  show "undoable_row r s0 c (snd (ensure_domain e (st_next_tenant s0) domain sp))"
  proof (cases "?d = [] \<or> tx_fault e (st_calls s) \<or> domain_row s ?d \<noteq> None")
    case True
    then show ?thesis using u u1
      by (auto simp: sp ensure_domain_def Let_def py_run_bind py_run_on db_read_def db_call_def)
  next
    case False
    then have "ensure_domain e (st_next_tenant s0) domain sp = py_seq (py_on (create_domain e (st_next_tenant s0) ?d None))
        (py_count (\<lambda>p. p\<lparr>cp_domains_created := cp_domains_created p @ [?d]\<rparr>)) (?s, p)"
      by (simp add: sp ensure_domain_def Let_def py_run_bind py_run_on db_read_def db_call_def [of _ "py_gets _"])
    then show ?thesis using undoable_create_domain [OF f u1, of ?d e] False by simp
  qed
qed

lemma undoable_activation:
  assumes f: "fresh_for r s0"
  shows "preserves (undoable_row r s0 c) (py_on (ensure_activation e (st_next_tenant s0) (pr_slug r)))"
proof (rule preservesI)
  fix sp :: "tenant_store \<times> compensation_plan"
  assume u: "undoable_row r s0 c sp"
  obtain s p where sp: "sp = (s, p)" by (cases sp)
  let ?s = "s\<lparr>st_calls := st_calls s + 1\<rparr>"
  have u1: "undoable_row r s0 c (?s, p)" using u by (simp add: sp undoable_row_def)
  have "undoable_row r s0 c (snd (activate_tenant e (st_next_tenant s0) ?s), p)"
    using preservesD [OF undoable_row_update [OF f, of "\<lambda>r. r\<lparr>tr_is_active := True\<rparr>" c e] u1]
    by (simp add: activate_tenant_def py_run_on)
  then show "undoable_row r s0 c (snd (py_on (ensure_activation e (st_next_tenant s0) (pr_slug r)) sp))"
    using u1 by (auto simp: sp ensure_activation_def py_run_bind py_run_seq py_run_on db_read_def db_call_def Let_def
        split: sum.splits option.splits)
qed

section \<open>The whole run\<close>

lemma seq_keeps: "P (snd (m s)) \<Longrightarrow> (\<And>x s'. m s = (Inr x, s') \<Longrightarrow> P (snd (n s'))) \<Longrightarrow> P (snd (py_seq m n s))"
  unfolding py_seq_def by (rule bind_keeps)

lemma undoable_row_weak: "undoable_row r s0 c sp \<Longrightarrow> undoable r s0 sp" "undoable_row r s0 c sp \<Longrightarrow> undoable_row r s0 None sp"
  by (simp_all add: undoable_row_def)

text \<open>The steps after the tenant: the invariant at the end, and the state that a run that returned went through.\<close>

definition later_steps :: "tenant_env \<Rightarrow> provisioning_request \<Rightarrow> int \<Rightarrow> snapshot provisioning" where
  "later_steps e r i =
     py_bind (py_on (ensure_owner e r)) (\<lambda>owner.
     py_seq (ensure_actor e i (au_id owner))
    (py_seq (ensure_config e r i)
    (py_seq (ensure_domain e i (Some (pr_primary_domain r)))
    (py_seq (ensure_domain e i (pr_custom_domain r))
    (py_seq (py_on (ensure_activation e i (pr_slug r)))
       (py_on (finish_provisioning e r)))))))"

lemma provision_body_eq:
  "provision_body e r = py_seq (ensure_schema e (pr_slug r)) (py_bind (ensure_tenant e r) (\<lambda>t. later_steps e r (tr_id t)))"
  by (simp add: provision_body_def later_steps_def)

lemma after_config:
  assumes f: "fresh_for r s0"
  shows "preserves (undoable_row r s0 c) (py_seq (ensure_domain e (st_next_tenant s0) (Some (pr_primary_domain r)))
    (py_seq (ensure_domain e (st_next_tenant s0) (pr_custom_domain r))
    (py_seq (py_on (ensure_activation e (st_next_tenant s0) (pr_slug r))) (py_on (finish_provisioning e r)))))"
  by (intro preserve stay undoable_ensure_domain [OF f] undoable_activation [OF f])

lemma later_steps_ok:
  assumes f: "fresh_for r s0" and u: "undoable_row r s0 None sp"
  shows "undoable r s0 (snd (later_steps e r (st_next_tenant s0) sp))"
  unfolding later_steps_def
proof (rule bind_keeps)
  have own: "undoable_row r s0 None (snd (py_on (ensure_owner e r) sp))"
    using u by (rule preservesD [OF undoable_row_on [OF stays_owner]])
  then show "undoable r s0 (snd (py_on (ensure_owner e r) sp))" by (rule undoable_row_weak)
  fix owner sp1 assume "py_on (ensure_owner e r) sp = (Inr owner, sp1)"
  with own have u1: "undoable_row r s0 None sp1" by simp
  note keep = undoable_ensure_actor [OF f] undoable_ensure_domain [OF f] undoable_activation [OF f]
  have all: "preserves (undoable_row r s0 None) (py_seq (ensure_actor e (st_next_tenant s0) (au_id owner))
      (py_seq (ensure_config e r (st_next_tenant s0))
      (py_seq (ensure_domain e (st_next_tenant s0) (Some (pr_primary_domain r)))
      (py_seq (ensure_domain e (st_next_tenant s0) (pr_custom_domain r))
      (py_seq (py_on (ensure_activation e (st_next_tenant s0) (pr_slug r))) (py_on (finish_provisioning e r)))))))"
    by (intro preserves_seq keep undoable_ensure_config [OF f] undoable_row_on stay)
  show "undoable r s0 (snd (py_seq (ensure_actor e (st_next_tenant s0) (au_id owner))
      (py_seq (ensure_config e r (st_next_tenant s0))
      (py_seq (ensure_domain e (st_next_tenant s0) (Some (pr_primary_domain r)))
      (py_seq (ensure_domain e (st_next_tenant s0) (pr_custom_domain r))
      (py_seq (py_on (ensure_activation e (st_next_tenant s0) (pr_slug r))) (py_on (finish_provisioning e r)))))) sp1))"
    by (rule undoable_row_weak(1) [OF preservesD [OF all u1]])
qed

lemma provision_body_undoable:
  assumes f: "fresh_for r s"
  shows "undoable r s (snd (provision_body e r (s, empty_plan)))"
  unfolding provision_body_eq
proof (rule seq_keeps)
  have 1: "undoable r s (snd (ensure_schema e (pr_slug r) (s, empty_plan)))"
    using undoable_start [OF f] by (rule preservesD [OF undoable_ensure_schema])
  then show "undoable r s (snd (ensure_schema e (pr_slug r) (s, empty_plan)))" .
  fix x sp assume "ensure_schema e (pr_slug r) (s, empty_plan) = (Inr x, sp)"
  with 1 have u: "undoable r s sp" by simp
  show "undoable r s (snd (py_bind (ensure_tenant e r) (\<lambda>t. later_steps e r (tr_id t)) sp))"
  proof (rule bind_keeps)
    show "undoable r s (snd (ensure_tenant e r sp))" by (rule ensure_tenant_ok(1) [OF u f])
    fix t sp' assume t: "ensure_tenant e r sp = (Inr t, sp')"
    have "undoable_row r s None sp'"
      using ensure_tenant_ok(1) [OF u f, of e] ensure_tenant_ok(2) [OF u f t] t by (simp add: undoable_row_def)
    then show "undoable r s (snd (later_steps e r (tr_id t) sp'))"
      using later_steps_ok [OF f] ensure_tenant_ok(2) [OF u f t] by simp
  qed
qed

section \<open>The compensation\<close>

definition no_faults :: "tenant_env \<Rightarrow> tenant_store \<Rightarrow> bool" where
  "no_faults e s \<longleftrightarrow> (\<forall>n \<ge> st_calls s. \<not> tx_fault e n)"

lemma no_faults_call: "no_faults e s \<Longrightarrow> db_call e m s = m (s\<lparr>st_calls := Suc (st_calls s)\<rparr>)"
  by (simp add: no_faults_def db_call_def Let_def)

lemma no_faults_next: "no_faults e s \<Longrightarrow> st_calls s \<le> st_calls s' \<Longrightarrow> no_faults e s'"
  unfolding no_faults_def by (meson le_trans)

lemma no_faults_calls [simp]: "no_faults e s \<Longrightarrow> st_calls s \<le> k \<Longrightarrow> no_faults e (s\<lparr>st_calls := k\<rparr>)"
  by (rule no_faults_next) simp_all

text \<open>One step of the compensation: it returns, and what is left is still undoable.\<close>

definition undoes :: "tenant_env \<Rightarrow> provisioning_request \<Rightarrow> tenant_store \<Rightarrow> compensation_plan \<Rightarrow>
    (tenant_store \<Rightarrow> bool) \<Rightarrow> (tenant_store \<Rightarrow> bool) \<Rightarrow> unit tenant_op \<Rightarrow> bool" where
  "undoes e r s0 p P Q m \<longleftrightarrow> (\<forall>s. no_faults e s \<and> undoable r s0 (s, p) \<and> P s \<longrightarrow>
     (\<exists>s'. m s = (Inr (), s') \<and> no_faults e s' \<and> undoable r s0 (s', p) \<and> Q s'))"

lemma undoes_seq: "undoes e r s0 p P Q m \<Longrightarrow> undoes e r s0 p Q R n \<Longrightarrow> undoes e r s0 p P R (py_seq m n)"
  unfolding undoes_def
proof (intro allI impI)
  fix s assume m: "\<forall>s. no_faults e s \<and> undoable r s0 (s, p) \<and> P s \<longrightarrow>
      (\<exists>s'. m s = (Inr (), s') \<and> no_faults e s' \<and> undoable r s0 (s', p) \<and> Q s')"
    and n: "\<forall>s. no_faults e s \<and> undoable r s0 (s, p) \<and> Q s \<longrightarrow>
      (\<exists>s'. n s = (Inr (), s') \<and> no_faults e s' \<and> undoable r s0 (s', p) \<and> R s')"
    and s: "no_faults e s \<and> undoable r s0 (s, p) \<and> P s"
  obtain s1 where s1: "m s = (Inr (), s1)" "no_faults e s1 \<and> undoable r s0 (s1, p) \<and> Q s1" using m s by blast
  then obtain s2 where "n s1 = (Inr (), s2)" "no_faults e s2 \<and> undoable r s0 (s2, p) \<and> R s2" using n by blast
  then show "\<exists>s'. py_seq m n s = (Inr (), s') \<and> no_faults e s' \<and> undoable r s0 (s', p) \<and> R s'"
    using s1 by (simp add: py_run_seq)
qed

lemma undoes_return: "(\<And>s. undoable r s0 (s, p) \<Longrightarrow> P s \<Longrightarrow> Q s) \<Longrightarrow> undoes e r s0 p P Q (py_return ())"
  by (auto simp: undoes_def)

lemma undo_domain:
  assumes d: "d \<in> set (cp_domains_created p)"
  shows "undoes e r s0 p (\<lambda>_. True) (\<lambda>_. True) (delete_domain e d None)"
  unfolding undoes_def
proof (intro allI impI)
  fix s assume a: "no_faults e s \<and> undoable r s0 (s, p) \<and> True"
  let ?s = "s\<lparr>st_calls := st_calls s + 1\<rparr>"
  let ?n = "\<lambda>x :: domain_rec. invalidate_domain_cache (dm_domain x) (?s\<lparr>st_domains := filter (\<lambda>r. dm_domain r \<noteq> normalize_domain d) (st_domains s)\<rparr>)"
  have "filter (\<lambda>x. dm_domain x \<noteq> normalize_domain d) (st_domains s0) = st_domains s0"
    using a d by (auto simp: undoable_def filter_id_conv)
  moreover have "filter (\<lambda>x. dm_tenant_id x \<noteq> st_next_tenant s0) (st_domains s) = st_domains s0"
    using a by (simp add: undoable_def)
  ultimately have "filter (\<lambda>x. dm_tenant_id x \<noteq> st_next_tenant s0) (filter (\<lambda>x. dm_domain x \<noteq> normalize_domain d) (st_domains s)) = st_domains s0"
    by (metis (no_types, lifting) filter_filter conj_commute filter_cong)
  then have n: "undoable r s0 (?n x, p)" for x
    using a \<open>filter (\<lambda>x. dm_domain x \<noteq> normalize_domain d) (st_domains s0) = st_domains s0\<close> by (auto simp: undoable_def)
  have nf: "no_faults e ?s" "no_faults e (?n x)" for x using a no_faults_next [of e s] by simp_all
  show "\<exists>s'. delete_domain e d None s = (Inr (), s') \<and> no_faults e s' \<and> undoable r s0 (s', p) \<and> True"
    using a n nf by (cases "domain_row s d") (simp_all add: delete_domain_def db_write_def no_faults_call)
qed

lemma undo_domains: "set ds \<subseteq> set (cp_domains_created p) \<Longrightarrow> undoes e r s0 p (\<lambda>_. True) (\<lambda>_. True) (delete_domains e ds)"
  unfolding delete_domains_def
proof (induction ds)
  case Nil
  show ?case unfolding py_fold.simps by (rule undoes_return) simp
next
  case (Cons d ds)
  then have "undoes e r s0 p (\<lambda>_. True) (\<lambda>_. True) (py_seq (delete_domain e d None) (py_fold (\<lambda>d _. delete_domain e d None) ds ()))"
    by (intro undoes_seq [OF undo_domain]) auto
  then show ?case by (simp add: py_seq_def)
qed

text \<open>The tenant of the plan, if it is there.\<close>

lemma with_tenant_run:
  assumes nf: "no_faults e s" and u: "undoable r s0 (s, p)" and f: "fresh_for r s0"
  shows "with_tenant e (pr_slug r) g s =
    (if cp_tenant_created p then g (st_next_tenant s0) else py_return ()) (s\<lparr>st_calls := st_calls s + 1\<rparr>)"
  using undoable_tenant [OF u f] nf
  by (auto simp: with_tenant_def py_run_bind db_read_def no_faults_call split: option.splits)

lemma undo_config:
  assumes f: "fresh_for r s0"
  shows "undoes e r s0 p (\<lambda>_. True) (\<lambda>s. st_configs s = st_configs s0)
    (if cp_config_created p then with_tenant e (pr_slug r) (\<lambda>i. delete_config e i (pr_slug r)) else py_return ())"
  unfolding undoes_def
proof (intro allI impI)
  fix s assume a: "no_faults e s \<and> undoable r s0 (s, p) \<and> True"
  let ?i = "st_next_tenant s0"
  let ?s = "\<lambda>n. s\<lparr>st_calls := st_calls s + n\<rparr>"
  let ?n = "invalidate_tenant_cache (pr_slug r) ((?s 2)\<lparr>st_configs := filter (\<lambda>c. cf_tenant_id c \<noteq> ?i) (st_configs s)\<rparr>)"
  have cs: "filter (\<lambda>c. cf_tenant_id c \<noteq> ?i) (st_configs s) = st_configs s0" using a by (simp add: undoable_def)
  have n: "undoable r s0 (?n, p)" "st_configs ?n = st_configs s0"
    using a cs fresh_ids(2) [OF f] by (auto simp: undoable_def filter_id_conv)
  have nf: "no_faults e (?s k)" "no_faults e ?n" for k using a no_faults_next [of e s] by simp_all
  have keep: "st_configs s = st_configs s0" if "config_row s ?i = None"
    using that cs by (simp add: config_row_def find_None_iff_all filter_id_conv [THEN iffD2])
  have same: "st_configs s = st_configs s0" if "\<not> (cp_config_created p \<and> cp_tenant_created p)"
    using a that by (auto simp: undoable_def split: if_splits)
  have del: "delete_config e ?i (pr_slug r) (?s 1) = (Inr (), if config_row s ?i = None then ?s 2 else ?n)"
    using a by (simp add: delete_config_def db_write_def no_faults_call)
  show "\<exists>s'. (if cp_config_created p then with_tenant e (pr_slug r) (\<lambda>i. delete_config e i (pr_slug r)) else py_return ()) s = (Inr (), s') \<and>
      no_faults e s' \<and> undoable r s0 (s', p) \<and> st_configs s' = st_configs s0"
    using a with_tenant_run [OF _ _ f, of e s p] del n nf keep same by (cases "cp_config_created p"; cases "cp_tenant_created p") auto
qed

lemma undo_actor:
  assumes f: "fresh_for r s0"
  shows "undoes e r s0 p (\<lambda>s. st_configs s = st_configs s0) (\<lambda>s. st_configs s = st_configs s0)
    (if cp_actor_changed p then with_tenant e (pr_slug r) (\<lambda>i. set_actor e i (cp_previous_actor p)) else py_return ())"
  unfolding undoes_def
proof (intro allI impI)
  fix s assume a: "no_faults e s \<and> undoable r s0 (s, p) \<and> st_configs s = st_configs s0"
  let ?i = "st_next_tenant s0" and ?s = "\<lambda>n. s\<lparr>st_calls := st_calls s + n\<rparr>"
  have nf: "no_faults e (?s k)" for k using a no_faults_next [of e s] by simp_all
  have run: "set_actor e ?i (cp_previous_actor p) (?s 1) = (Inr (), snd (set_actor e ?i (cp_previous_actor p) (?s 1)))"
    "st_configs (snd (set_actor e ?i (cp_previous_actor p) (?s 1))) = st_configs s"
    "st_calls (snd (set_actor e ?i (cp_previous_actor p) (?s 1))) = st_calls s + 2"
    using a by (simp_all add: set_actor_def update_tenant_def db_write_def no_faults_call split: option.splits)
  have u: "undoable r s0 (snd (set_actor e ?i (cp_previous_actor p) (?s 1)), p)" if c: "cp_tenant_created p"
  proof -
    have "undoable_row r s0 None (?s 1, p)" using a c by (simp add: undoable_row_def)
    from preservesD [OF undoable_row_update [OF f, of "\<lambda>t. t\<lparr>tr_created_by := cp_previous_actor p\<rparr>" None e] this]
    show ?thesis by (simp add: set_actor_def undoable_row_def py_run_on)
  qed
  show "\<exists>s'. (if cp_actor_changed p then with_tenant e (pr_slug r) (\<lambda>i. set_actor e i (cp_previous_actor p)) else py_return ()) s = (Inr (), s') \<and>
      no_faults e s' \<and> undoable r s0 (s', p) \<and> st_configs s' = st_configs s0"
    using a with_tenant_run [OF _ _ f, of e s p] run u nf no_faults_next [of e s]
    by (cases "cp_actor_changed p"; cases "cp_tenant_created p") auto
qed

lemma undo_last:
  assumes f: "fresh_for r s0" and nf: "no_faults e s" and u: "undoable r s0 (s, p)" and cs: "st_configs s = st_configs s0"
  shows "\<exists>s'. py_seq (if cp_tenant_created p then delete_by_slug e (pr_slug r) else py_return ())
      (if cp_schema_created p then schema_drop e (pr_slug r) else py_return ()) s = (Inr (), s') \<and>
    st_tenants s' = st_tenants s0 \<and> st_configs s' = st_configs s0 \<and> st_domains s' = st_domains s0 \<and>
    (\<forall>x. x \<noteq> pr_slug r \<longrightarrow> st_schemas s' x = st_schemas s0 x) \<and> (cp_schema_created p \<longrightarrow> st_schemas s' (pr_slug r) = None)"
proof -
  have del: "\<exists>s1. (if cp_tenant_created p then delete_by_slug e (pr_slug r) else py_return ()) s = (Inr (), s1) \<and> no_faults e s1 \<and>
      st_tenants s1 = st_tenants s0 \<and> st_configs s1 = st_configs s0 \<and> st_domains s1 = st_domains s0 \<and> st_schemas s1 = st_schemas s"
  proof (cases "cp_tenant_created p")
    case False
    then show ?thesis using u nf by (auto simp: undoable_def)
  next
    case True
    then have ur: "undoable_row r s0 None (s, p)" using u by (simp add: undoable_row_def)
    obtain row where row: "st_tenants s = st_tenants s0 @ [row]" "tr_id row = st_next_tenant s0" "tenant_by_slug s (pr_slug r) = Some row"
      using undoable_row_tenant [OF ur f] by blast
    have none: "config_row s (st_next_tenant s0) = None" using cs fresh_ids(2) [OF f] by (simp add: config_row_def find_None_iff_all)
    have ts: "filter (\<lambda>t. tr_id t \<noteq> st_next_tenant s0) (st_tenants s) = st_tenants s0"
      using fresh_ids(1) [OF f] row by (simp add: filter_id_conv)
    have ds: "filter (\<lambda>d. dm_tenant_id d \<noteq> st_next_tenant s0) (st_domains s) = st_domains s0" using u by (simp add: undoable_def)
    let ?s = "s\<lparr>st_calls := st_calls s + 1\<rparr>"
    let ?n = "fold (\<lambda>d. invalidate_domain_cache (dm_domain d)) (domains_of_tenant ?s (st_next_tenant s0))
        (invalidate_tenant_cache (pr_slug r) (?s\<lparr>st_tenants := st_tenants s0, st_domains := st_domains s0\<rparr>))"
    have rest: "st_schemas (fold (\<lambda>d. invalidate_domain_cache (dm_domain d)) xs y) = st_schemas y"
        "st_calls (fold (\<lambda>d. invalidate_domain_cache (dm_domain d)) xs y) = st_calls y" for xs y
      by (induction xs arbitrary: y) simp_all
    have "delete_by_slug e (pr_slug r) s = (Inr (), ?n)"
      using row none ts ds by (simp add: delete_by_slug_def no_faults_call [OF nf])
    then show ?thesis using True cs no_faults_next [OF nf, of ?n] by (simp add: rest)
  qed
  then obtain s1 where s1: "(if cp_tenant_created p then delete_by_slug e (pr_slug r) else py_return ()) s = (Inr (), s1)"
      "no_faults e s1" "st_tenants s1 = st_tenants s0" "st_configs s1 = st_configs s0" "st_domains s1 = st_domains s0"
      "st_schemas s1 = st_schemas s"
    by blast
  have oth: "\<forall>x. x \<noteq> pr_slug r \<longrightarrow> st_schemas s x = st_schemas s0 x" and safe: "cp_schema_created p \<longrightarrow> schema_safe_slug (pr_slug r)"
    using u by (simp_all add: undoable_def)
  have "schema_drop e (pr_slug r) s1 = (Inr (), s1\<lparr>st_calls := st_calls s1 + 1, st_schemas := (st_schemas s)(pr_slug r := None)\<rparr>)"
    if "cp_schema_created p"
    using that safe s1 by (simp add: schema_drop_def check_slug_def py_run_seq db_write_def no_faults_call)
  then show ?thesis using s1 oth by (cases "cp_schema_created p") (simp_all add: py_run_seq)
qed

lemma compensate_undoes:
  assumes f: "fresh_for r s0" and nf: "no_faults e s" and u: "undoable r s0 (s, p)"
  shows "\<exists>s'. compensate e r p s = (Inr (), s') \<and>
    st_tenants s' = st_tenants s0 \<and> st_configs s' = st_configs s0 \<and> st_domains s' = st_domains s0 \<and>
    (\<forall>x. x \<noteq> pr_slug r \<longrightarrow> st_schemas s' x = st_schemas s0 x) \<and> (cp_schema_created p \<longrightarrow> st_schemas s' (pr_slug r) = None)"
proof -
  obtain s1 where s1: "delete_domains e (rev (cp_domains_created p)) s = (Inr (), s1)" "no_faults e s1" "undoable r s0 (s1, p)"
    using undo_domains [of "rev (cp_domains_created p)" p e r s0] nf u by (auto simp: undoes_def)
  obtain s2 where s2: "(if cp_config_created p then with_tenant e (pr_slug r) (\<lambda>i. delete_config e i (pr_slug r)) else py_return ()) s1 = (Inr (), s2)"
      "no_faults e s2" "undoable r s0 (s2, p)" "st_configs s2 = st_configs s0"
    using undo_config [OF f, of e p] s1 unfolding undoes_def by blast
  obtain s3 where s3: "(if cp_actor_changed p then with_tenant e (pr_slug r) (\<lambda>i. set_actor e i (cp_previous_actor p)) else py_return ()) s2 = (Inr (), s3)"
      "no_faults e s3" "undoable r s0 (s3, p)" "st_configs s3 = st_configs s0"
    using undo_actor [OF f, of e p] s2 unfolding undoes_def by blast
  have "compensate e r p s = py_seq (if cp_tenant_created p then delete_by_slug e (pr_slug r) else py_return ())
      (if cp_schema_created p then schema_drop e (pr_slug r) else py_return ()) s3"
    unfolding compensate_def by (subst py_run_seq, simp only: s1(1) fst_conv snd_conv sum.case,
      subst py_run_seq, simp only: s2(1) fst_conv snd_conv sum.case, subst py_run_seq, simp only: s3(1) fst_conv snd_conv sum.case)
  with undo_last [OF f s3(2-4)] show ?thesis by simp
qed

section \<open>Provisioning that fails\<close>

lemma compensate_nothing: "compensate e r empty_plan s = (Inr (), s)"
  by (simp add: compensate_def empty_plan_def delete_domains_def py_run_seq)

lemma py_count_total: "fst (py_count g sp) = Inr ()"
  by (cases sp) simp

text \<open>A run of \<open>_ensure_schema\<close> that raises has not written to the plan.\<close>

lemma ensure_schema_Inl:
  assumes "ensure_schema e slug (s, p) = (Inl exc, (s', p'))"
  shows "p' = p"
  using assms
  by (auto simp: ensure_schema_def py_run_bind py_run_seq py_run_on py_count_total split: sum.splits if_splits)

lemma schema_flag_rules:
  "preserves (\<lambda>sp. cp_schema_created (snd sp)) (py_on m)"
  "(\<And>p. cp_schema_created p \<Longrightarrow> cp_schema_created (g p)) \<Longrightarrow> preserves (\<lambda>sp. cp_schema_created (snd sp)) (py_count g)"
  by (auto simp: preserves_def py_run_on)

lemma schema_flag_kept:
  "preserves (\<lambda>sp. cp_schema_created (snd sp)) (py_bind (ensure_tenant e r) (\<lambda>t. later_steps e r (tr_id t)))"
  unfolding ensure_tenant_def later_steps_def ensure_actor_def ensure_config_def ensure_domain_def
  by (intro preserve schema_flag_rules; simp)


section \<open>Provisioning that succeeds\<close>

text \<open>The checks at the end read only: they count their calls.\<close>

definition only_calls :: "tenant_store \<Rightarrow> tenant_store \<Rightarrow> bool" where
  "only_calls s s' \<longleftrightarrow> s' = s\<lparr>st_calls := st_calls s'\<rparr>"

lemma only_calls_trans: "only_calls s s' \<Longrightarrow> only_calls s' s'' \<Longrightarrow> only_calls s s''"
  unfolding only_calls_def by (metis (no_types, lifting) tenant_store.surjective tenant_store.update_convs(2))

lemma only_calls_refl: "only_calls s s"
  by (simp add: only_calls_def)

lemma only_calls_next: "only_calls s (s\<lparr>st_calls := n\<rparr>)"
  by (simp add: only_calls_def)

lemma only_calls_reads:
  assumes "only_calls s s'"
  shows "tenant_by_slug s' slug = tenant_by_slug s slug" "config_row s' i = config_row s i" "domain_row s' d = domain_row s d"
    "st_schemas s' = st_schemas s" "st_tenants s' = st_tenants s" "st_configs s' = st_configs s" "st_domains s' = st_domains s"
    "snapshot_by_slug s' slug = snapshot_by_slug s slug"
  by (subst assms [unfolded only_calls_def], simp)+

lemma read_calls: "db_read e f s = (Inr x, s') \<Longrightarrow> only_calls s s' \<and> x = f s'"
  by (auto dest!: read_Inr simp: only_calls_next)

lemma exists_calls: "schema_exists e slug s = (Inr b, s') \<Longrightarrow> only_calls s s' \<and> b = (st_schemas s slug \<noteq> None)"
  unfolding schema_exists_def check_slug_def by (auto elim!: seq_InrE dest!: read_Inr simp: only_calls_next split: if_splits)

lemma leave_load: "leave_schema (load_schema sh a) a = a" "save_schema (load_schema sh a) sh = sh"
  by (simp_all add: leave_schema_def load_schema_def save_schema_def)

lemma schema_read_calls:
  assumes "in_schema e slug (get_db f) s = (Inr x, s')"
  shows "only_calls s s'" "\<exists>sh. st_schemas s slug = Some sh \<and> x = f (sh_db sh)"
proof -
  let ?s = "s\<lparr>st_calls := st_calls s + 1\<rparr>"
  obtain sh where sh: "st_schemas s slug = Some sh"
    and run: "Inr x = map_sum User_error (\<lambda>x. x) (fst (get_db f (load_schema sh (st_auth s))))"
      "s' = ?s\<lparr>st_auth := leave_schema (snd (get_db f (load_schema sh (st_auth s)))) (st_auth s),
        st_schemas := (st_schemas s)(slug \<mapsto> save_schema (snd (get_db f (load_schema sh (st_auth s)))) sh)\<rparr>"
    using assms unfolding in_schema_def by (auto dest!: call_Inr split: option.splits if_splits prod.splits)
  have "(st_schemas s)(slug \<mapsto> sh) = st_schemas s" using sh by auto
  then have "s' = ?s" using run(2) by (simp add: get_db_def leave_load)
  then show "only_calls s s'" by (simp add: only_calls_next)
  show "\<exists>sh. st_schemas s slug = Some sh \<and> x = f (sh_db sh)" using sh run(1) by (simp add: get_db_def load_schema_def)
qed

lemma missing_calls:
  assumes "list_missing_tables e slug s = (Inr xs, s')"
  shows "only_calls s s'"
    "xs = [] \<Longrightarrow> st_schemas s slug = Some sh \<Longrightarrow> set (tenant_schema_table_names e) \<subseteq> set (sh_tables sh)"
proof -
  obtain b s1 where b: "schema_exists e slug s = (Inr b, s1)"
    and rest: "(if \<not> b then py_return [] else if tenant_schema_table_names e = [] then py_seq (check_slug slug) (py_return [])
     else py_seq (check_slug slug) (db_read e (\<lambda>s.
       filter (\<lambda>n. n \<notin> set (case st_schemas s slug of None \<Rightarrow> [] | Some sh \<Rightarrow> sh_tables sh)) (tenant_schema_table_names e)))) s1 = (Inr xs, s')"
    by (rule bind_InrE [OF assms [unfolded list_missing_tables_def]])
  note c = exists_calls [OF b]
  show "only_calls s s'" using c rest
    by (auto simp: check_slug_def split: if_splits elim!: seq_InrE dest!: read_calls intro: only_calls_trans)
  show "set (tenant_schema_table_names e) \<subseteq> set (sh_tables sh)" if "xs = []" "st_schemas s slug = Some sh"
    using c rest that only_calls_reads(4) [of s s1]
    by (auto simp: check_slug_def filter_empty_conv empty_filter_conv split: if_splits elim!: seq_InrE dest!: read_Inr)
qed

text \<open>What a validation that returned has seen.\<close>

definition checked :: "tenant_env \<Rightarrow> provisioning_request \<Rightarrow> tenant_store \<Rightarrow> bool" where
  "checked e r s \<longleftrightarrow> (\<exists>t c sh u. tenant_by_slug s (pr_slug r) = Some t \<and> config_row s (tr_id t) = Some c \<and>
     st_schemas s (pr_slug r) = Some sh \<and> set (tenant_schema_table_names e) \<subseteq> set (sh_tables sh) \<and>
     user_by_email (sh_db sh) (pr_owner_email r) = Some u \<and> au_role u = ''owner'' \<and>
     owned_by (domain_row s (pr_primary_domain r)) (Some t) \<and>
     (case pr_custom_domain r of None \<Rightarrow> True | Some d \<Rightarrow> owned_by (domain_row s d) (Some t)))"

lemma checked_calls: "only_calls s s' \<Longrightarrow> checked e r s' = checked e r s"
  by (simp only: checked_def only_calls_reads)

lemma owner_exists_calls:
  assumes "owner_exists_in e r s = (Inr b, s')"
  shows "only_calls s s'"
    "b \<Longrightarrow> \<exists>sh u. st_schemas s (pr_slug r) = Some sh \<and> user_by_email (sh_db sh) (pr_owner_email r) = Some u \<and> au_role u = ''owner''"
proof -
  obtain x s1 where x: "in_schema e (pr_slug r) (get_db (\<lambda>db. user_by_email db (pr_owner_email r))) s = (Inr x, s1)"
    and rest: "py_return (case x of None \<Rightarrow> False | Some u \<Rightarrow> au_role u = ''owner'') s1 = (Inr b :: tenant_error + bool, s')"
    by (rule bind_InrE [OF assms [unfolded owner_exists_in_def]])
  show "only_calls s s'" using schema_read_calls(1) [OF x] rest by simp
  show "\<exists>sh u. st_schemas s (pr_slug r) = Some sh \<and> user_by_email (sh_db sh) (pr_owner_email r) = Some u \<and> au_role u = ''owner''"
    if b using schema_read_calls(2) [OF x] rest that by (auto split: option.splits)
qed

lemma option_call:
  assumes "(case y of None \<Rightarrow> py_return v | Some t \<Rightarrow> db_read e (g t)) s = (Inr x, s')"
  shows "only_calls s s'" "x = (case y of None \<Rightarrow> v | Some t \<Rightarrow> g t s')"
  using assms by (auto split: option.splits simp: only_calls_refl dest!: read_calls)

lemma bind_Inr_iff: "py_bind m f s = (Inr y, s'') \<longleftrightarrow> (\<exists>x s'. m s = (Inr x, s') \<and> f x s' = (Inr y, s''))"
  by (auto simp: py_bind_def split: prod.splits sum.splits)

lemma validate_calls:
  assumes "provisioning_validate e r s = (Inr v, s')"
  shows "only_calls s s'" "is_consistent v \<Longrightarrow> checked e r s"
proof -
  obtain tenant s1 ow s2 cf s3 pd s4 cd s5 sf s6 mi s7 where t: "db_read e (\<lambda>s. tenant_by_slug s (pr_slug r)) s = (Inr tenant, s1)"
    and o: "(case tenant of None \<Rightarrow> py_return False | Some _ \<Rightarrow> owner_exists_in e r) s1 = (Inr ow, s2)"
    and c: "(case tenant of None \<Rightarrow> py_return None | Some t \<Rightarrow> db_read e (\<lambda>s. config_by_tenant_id s (tr_id t))) s2 = (Inr cf, s3)"
    and p: "db_read e (\<lambda>s. domain_row s (pr_primary_domain r)) s3 = (Inr pd, s4)"
    and d: "(case pr_custom_domain r of None \<Rightarrow> py_return None
        | Some d \<Rightarrow> if d = [] then py_return None else db_read e (\<lambda>s. domain_row s d)) s4 = (Inr cd, s5)"
    and h: "schema_exists e (pr_slug r) s5 = (Inr sf, s6)"
    and m7: "(if sf then list_missing_tables e (pr_slug r) else py_return []) s6 = (Inr mi, s7)"
    and v7: "py_return \<lparr>va_tenant_exists = (tenant \<noteq> None), va_owner_exists = ow, va_config_exists = (cf \<noteq> None),
       va_primary_domain_exists = owned_by pd tenant,
       va_custom_domain_exists = (pr_custom_domain r = None \<or> owned_by cd tenant),
       va_schema_exists = sf, va_missing_schema_tables = mi\<rparr> s7 = (Inr v :: tenant_error + validation, s')"
    using assms unfolding provisioning_validate_def bind_Inr_iff by (elim exE conjE) (rule that)
  have m: "(if sf then list_missing_tables e (pr_slug r) else py_return []) s6 = (Inr mi, s')" using m7 v7 by simp
  have v: "v = \<lparr>va_tenant_exists = (tenant \<noteq> None), va_owner_exists = ow, va_config_exists = (cf \<noteq> None),
       va_primary_domain_exists = owned_by pd tenant,
       va_custom_domain_exists = (pr_custom_domain r = None \<or> owned_by cd tenant),
       va_schema_exists = sf, va_missing_schema_tables = mi\<rparr>" using v7 by simp
  have 1: "only_calls s s1" "tenant = tenant_by_slug s1 (pr_slug r)" using read_calls [OF t] by simp_all
  have 2: "only_calls s1 s2" using o owner_exists_calls(1) by (cases tenant) (auto simp: only_calls_refl)
  note 3 = option_call [OF c] and 4 = read_calls [OF p]
  have 5: "only_calls s4 s5" using d by (auto simp: only_calls_refl split: option.splits if_splits dest!: read_calls)
  note 6 = exists_calls [OF h]
  have 7: "only_calls s6 s'" using m missing_calls(1) by (auto simp: only_calls_refl split: if_splits)
  note s2 = only_calls_trans [OF 1(1) 2]
  note s3 = only_calls_trans [OF s2 3(1)]
  note s4 = only_calls_trans [OF s3 conjunct1 [OF 4]]
  note s5 = only_calls_trans [OF s4 5]
  note s6 = only_calls_trans [OF s5 conjunct1 [OF 6]]
  show "only_calls s s'" by (rule only_calls_trans [OF s6 7])
  show "checked e r s" if con: "is_consistent v"
  proof -
    have vs: "tenant \<noteq> None" ow "cf \<noteq> None" "owned_by pd tenant" "pr_custom_domain r = None \<or> owned_by cd tenant" sf "mi = []"
      using con by (simp_all add: v is_consistent_def)
    obtain t where tt: "tenant = Some t" using vs(1) by auto
    have slug: "tenant_by_slug s (pr_slug r) = Some t" using tt 1 only_calls_reads(1) [OF 1(1)] by simp
    have "owner_exists_in e r s1 = (Inr ow, s2)" using o tt by simp
    from owner_exists_calls(2) [OF this vs(2)] only_calls_reads(4) [OF 1(1)] obtain sh u where
      sh: "st_schemas s (pr_slug r) = Some sh" "user_by_email (sh_db sh) (pr_owner_email r) = Some u" "au_role u = ''owner''" by auto
    have "cf = config_by_tenant_id s3 (tr_id t)" using 3(2) tt by simp
    then obtain c where conf: "config_row s (tr_id t) = Some c"
      using vs(3) only_calls_reads(2) [OF s3] by (auto simp: config_by_tenant_id_def)
    have prim: "owned_by (domain_row s (pr_primary_domain r)) (Some t)"
      using vs(4) 4 only_calls_reads(3) [OF s4] tt by simp
    have cust: "case pr_custom_domain r of None \<Rightarrow> True | Some d \<Rightarrow> owned_by (domain_row s d) (Some t)"
      using vs(5) d tt only_calls_reads(3) [OF s5]
      by (cases "pr_custom_domain r") (auto simp: owned_by_def split: if_splits dest!: read_calls)
    have "list_missing_tables e (pr_slug r) s6 = (Inr [], s')" using m vs(6,7) by simp
    then have "set (tenant_schema_table_names e) \<subseteq> set (sh_tables sh)"
      using missing_calls(2) sh(1) only_calls_reads(4) [OF s6] by auto
    then show ?thesis using slug sh conf prim cust unfolding checked_def by blast
  qed
qed

lemma finish_calls:
  assumes "finish_provisioning e r s = (Inr sn, s')"
  shows "only_calls s s'" "checked e r s"
    "\<exists>sn0. snapshot_by_slug s (pr_slug r) = Some sn0 \<and> sn = sn0\<lparr>sn_domain := sn_domain sn\<rparr>"
proof -
  obtain v s1 where v: "provisioning_validate e r s = (Inr v, s1)"
    and rest: "(if \<not> is_consistent v then py_raise (Runtime_error ''tenant_provisioning_inconsistent'')
     else py_bind (db_read e (\<lambda>s. snapshot_by_slug s (pr_slug r))) (\<lambda>sn.
       case sn of
         None \<Rightarrow> py_raise (Runtime_error ''tenant_snapshot_missing_after_provisioning'')
       | Some sn \<Rightarrow> py_return (sn\<lparr>sn_domain := Some \<lparr>di_request_host = Some (pr_primary_domain r),
             di_resolved_host = Some (pr_primary_domain r), di_is_custom_domain = False, di_verified_at = None\<rparr>\<rparr>))) s1 = (Inr sn, s')"
    by (rule bind_InrE [OF assms [unfolded finish_provisioning_def]])
  then have con: "is_consistent v" by (auto split: if_splits)
  obtain x s2 where x: "db_read e (\<lambda>s. snapshot_by_slug s (pr_slug r)) s1 = (Inr x, s2)" "s' = s2"
      "\<exists>sn0. x = Some sn0 \<and> sn = sn0\<lparr>sn_domain := sn_domain sn\<rparr>"
    using rest con by (auto simp: bind_Inr_iff split: option.splits)
  show "only_calls s s'" using validate_calls(1) [OF v] read_calls [OF x(1)] x(2) only_calls_trans by blast
  show "checked e r s" by (rule validate_calls(2) [OF v con])
  have "x = snapshot_by_slug s (pr_slug r)"
    using read_calls [OF x(1)] only_calls_reads(8) [OF only_calls_trans [OF validate_calls(1) [OF v]]] by metis
  then show "\<exists>sn0. snapshot_by_slug s (pr_slug r) = Some sn0 \<and> sn = sn0\<lparr>sn_domain := sn_domain sn\<rparr>" using x(3) by auto
qed

lemma activation_Inr:
  assumes f: "fresh_for r s0" and u: "undoable_row r s0 c (s, p)"
    and run: "ensure_activation e (st_next_tenant s0) (pr_slug r) s = (Inr x, s')"
  shows "\<exists>t. tenant_by_slug s' (pr_slug r) = Some t \<and> tr_is_active t"
proof -
  let ?s = "s\<lparr>st_calls := st_calls s + 1\<rparr>"
  have u1: "undoable_row r s0 c (?s, p)" using u by (simp add: undoable_row_def)
  obtain row where row: "st_tenants ?s = st_tenants s0 @ [row]" "tr_id row = st_next_tenant s0" "tr_slug row = pr_slug r"
      "tenant_by_id ?s (st_next_tenant s0) = Some row" "tenant_by_slug ?s (pr_slug r) = Some row"
    using undoable_row_tenant [OF u1 f] by blast
  show ?thesis
  proof (cases "tr_is_active row")
    case True
    then have "s' = ?s" using run row(5)
      by (auto simp: ensure_activation_def status_of_def bind_Inr_iff dest!: read_Inr split: if_splits)
    then show ?thesis using row True by simp
  next
    case False
    let ?t = "?s\<lparr>st_calls := st_calls s + 2\<rparr>"
    have upd: "update_where (\<lambda>t. tr_id t = st_next_tenant s0) (\<lambda>t. t\<lparr>tr_is_active := True\<rparr>) (st_tenants s) =
        st_tenants s0 @ [row\<lparr>tr_is_active := True\<rparr>]"
      using fresh_ids(1) [OF f] row by (auto simp: update_where_def map_idI)
    obtain st s1 where st: "db_read e (\<lambda>s. map_option status_of (tenant_by_slug s (pr_slug r))) s = (Inr st, s1)"
      and rest: "(if (case st of None \<Rightarrow> False | Some st \<Rightarrow> sx_is_active st) then py_return ()
        else py_seq (py_lift (assert_transition st ''active'')) (activate_tenant e (st_next_tenant s0))) s1 = (Inr x, s')"
      by (rule bind_InrE [OF run [unfolded ensure_activation_def]])
    have "s1 = ?s" "st = Some (status_of row)" using read_Inr [OF st] row(5) by auto
    then have "py_seq (py_lift (assert_transition st ''active'')) (activate_tenant e (st_next_tenant s0)) ?s = (Inr x, s')"
      using rest False by (simp add: status_of_def)
    then have "activate_tenant e (st_next_tenant s0) ?s = (Inr (), s')"
      by (rule seq_InrE) simp
    then have "st_tenants s' = st_tenants s0 @ [row\<lparr>tr_is_active := True\<rparr>]"
      using row(4) upd by (auto simp: activate_tenant_def update_tenant_def db_write_def dest!: call_Inr)
    moreover have "find (\<lambda>t. tr_slug t = pr_slug r) (st_tenants s0) = None"
      using fresh_ids(1) [OF f] by (auto simp: find_None_iff_all)
    ultimately show ?thesis using row(3) by (simp add: tenant_by_slug_def find_append)
  qed
qed

lemma later_steps_Inr:
  assumes f: "fresh_for r s0" and u: "undoable_row r s0 None sp"
    and run: "later_steps e r (st_next_tenant s0) sp = (Inr sn, (s', p'))"
  shows "undoable_row r s0 (Some (request_config r (st_next_tenant s0))) (s', p')" "checked e r s'"
    "\<exists>t. tenant_by_slug s' (pr_slug r) = Some t \<and> tr_is_active t"
    "\<exists>sn0. snapshot_by_slug s' (pr_slug r) = Some sn0 \<and> sn = sn0\<lparr>sn_domain := sn_domain sn\<rparr>"
proof -
  let ?i = "st_next_tenant s0" and ?c = "Some (request_config r (st_next_tenant s0))"
  obtain owner sp1 sp2 sp3 sp4 sp5 sp6 where o: "py_on (ensure_owner e r) sp = (Inr owner, sp1)"
    and a: "ensure_actor e ?i (au_id owner) sp1 = (Inr (), sp2)" and c: "ensure_config e r ?i sp2 = (Inr (), sp3)"
    and d: "ensure_domain e ?i (Some (pr_primary_domain r)) sp3 = (Inr (), sp4)"
    and cd: "ensure_domain e ?i (pr_custom_domain r) sp4 = (Inr (), sp5)"
    and ac: "py_on (ensure_activation e ?i (pr_slug r)) sp5 = (Inr (), sp6)"
    and fin: "py_on (finish_provisioning e r) sp6 = (Inr sn, (s', p'))"
    using run unfolding later_steps_def by (elim bind_InrE seq_InrE) (rule that, simp_all)
  note keep = preserves_Inr
  have 1: "undoable_row r s0 None sp1" by (rule preserves_Inr [OF undoable_row_on [OF stays_owner] u o])
  have 2: "undoable_row r s0 None sp2" by (rule preserves_Inr [OF undoable_ensure_actor [OF f] 1 a])
  have 3: "undoable_row r s0 ?c sp3" by (rule ensure_config_ok(2) [OF f 2 c])
  have 4: "undoable_row r s0 ?c sp4" by (rule preserves_Inr [OF undoable_ensure_domain [OF f] 3 d])
  have 5: "undoable_row r s0 ?c sp5" by (rule preserves_Inr [OF undoable_ensure_domain [OF f] 4 cd])
  have 6: "undoable_row r s0 ?c sp6" by (rule preserves_Inr [OF undoable_activation [OF f] 5 ac])
  show "undoable_row r s0 ?c (s', p')" by (rule preserves_Inr [OF undoable_row_on [OF stays_finish] 6 fin])
  obtain s5 p5 where sp5: "sp5 = (s5, p5)" by (cases sp5)
  obtain s6 where s6: "ensure_activation e ?i (pr_slug r) s5 = (Inr (), s6)" "sp6 = (s6, p5)" by (rule on_InrE [OF ac [unfolded sp5]])
  obtain s7 where s7: "finish_provisioning e r s6 = (Inr sn, s7)" "(s', p') = (s7, p5)" by (rule on_InrE [OF fin [unfolded s6(2)]])
  note fc = finish_calls [OF s7(1)]
  show "checked e r s'" using fc(1,2) checked_calls s7(2) by simp
  show "\<exists>t. tenant_by_slug s' (pr_slug r) = Some t \<and> tr_is_active t"
    using activation_Inr [OF f 5 [unfolded sp5] s6(1)] only_calls_reads(1) [OF fc(1)] s7(2) by simp
  show "\<exists>sn0. snapshot_by_slug s' (pr_slug r) = Some sn0 \<and> sn = sn0\<lparr>sn_domain := sn_domain sn\<rparr>"
    using fc(3) only_calls_reads(8) [OF fc(1)] s7(2) by simp
qed

text \<open>C17: what provisioning creates. When it returns, on a platform where neither the slug nor its schema existed,
  there is one more tenant, active, with the slug of the request and a new id, and the answer is its snapshot; the
  config is that of the request; the primary domain, and the custom domain if one is asked for, belong to it; its
  schema has every table of the migration hooks and a user with the address and the role of the owner. All other
  tenants, configs, domains and schemas are as before.\<close>

theorem provisioning_creates_tenant:
  assumes fresh: "fresh_for r s" and run: "provision e r s = (Inr sn, s')"
  shows "\<exists>t sh u. st_tenants s' = st_tenants s @ [t] \<and> tr_slug t = pr_slug r \<and> tr_id t = st_next_tenant s \<and> tr_is_active t \<and>
     filter (\<lambda>c. cf_tenant_id c \<noteq> tr_id t) (st_configs s') = st_configs s \<and>
     config_row s' (tr_id t) = Some (request_config r (tr_id t)) \<and>
     filter (\<lambda>d. dm_tenant_id d \<noteq> tr_id t) (st_domains s') = st_domains s \<and>
     owned_by (domain_row s' (pr_primary_domain r)) (Some t) \<and>
     (\<forall>d. pr_custom_domain r = Some d \<longrightarrow> owned_by (domain_row s' d) (Some t)) \<and>
     (\<forall>x. x \<noteq> pr_slug r \<longrightarrow> st_schemas s' x = st_schemas s x) \<and>
     st_schemas s' (pr_slug r) = Some sh \<and> set (tenant_schema_table_names e) \<subseteq> set (sh_tables sh) \<and>
     user_by_email (sh_db sh) (pr_owner_email r) = Some u \<and> au_role u = ''owner'' \<and>
     snapshot_by_slug s' (pr_slug r) = Some (sn\<lparr>sn_domain := None\<rparr>)"
proof -
  obtain p where body: "provision_body e r (s, empty_plan) = (Inr sn, (s', p))"
    using run by (auto simp: provision_def split: prod.splits sum.splits)
  obtain sp1 t sp2 where es: "ensure_schema e (pr_slug r) (s, empty_plan) = (Inr (), sp1)"
    and et: "ensure_tenant e r sp1 = (Inr t, sp2)" and ls: "later_steps e r (tr_id t) sp2 = (Inr sn, (s', p))"
    using body unfolding provision_body_eq by (elim bind_InrE seq_InrE) (rule that, simp_all)
  have u1: "undoable r s sp1" by (rule preserves_Inr [OF undoable_ensure_schema undoable_start [OF fresh] es])
  have id: "tr_id t = st_next_tenant s" and u2: "undoable_row r s None sp2"
    using ensure_tenant_ok(1) [OF u1 fresh, of e] ensure_tenant_ok(2) [OF u1 fresh et] et by (simp_all add: undoable_row_def)
  note done' = later_steps_Inr [OF fresh u2 ls [unfolded id]]
  obtain row where row: "st_tenants s' = st_tenants s @ [row]" "tr_id row = st_next_tenant s" "tr_slug row = pr_slug r"
      "tenant_by_slug s' (pr_slug r) = Some row"
    using undoable_row_tenant [OF done'(1) fresh] by blast
  have und: "undoable r s (s', p)" "config_row s' (st_next_tenant s) = Some (request_config r (st_next_tenant s))"
    using done'(1) by (simp_all add: undoable_row_def)
  obtain sh u where chk: "st_schemas s' (pr_slug r) = Some sh" "set (tenant_schema_table_names e) \<subseteq> set (sh_tables sh)"
     "user_by_email (sh_db sh) (pr_owner_email r) = Some u" "au_role u = ''owner''"
     "owned_by (domain_row s' (pr_primary_domain r)) (Some row)"
     "case pr_custom_domain r of None \<Rightarrow> True | Some d \<Rightarrow> owned_by (domain_row s' d) (Some row)"
    using done'(2) row(4) unfolding checked_def by auto
  obtain sn0 where "snapshot_by_slug s' (pr_slug r) = Some sn0" "sn = sn0\<lparr>sn_domain := sn_domain sn\<rparr>" using done'(4) by blast
  moreover from this(1) have "sn0\<lparr>sn_domain := None\<rparr> = sn0" using snapshot_tenant by blast
  moreover have "sn\<lparr>sn_domain := None\<rparr> = sn0\<lparr>sn_domain := None\<rparr>" by (subst \<open>sn = _\<close>) simp
  ultimately have "snapshot_by_slug s' (pr_slug r) = Some (sn\<lparr>sn_domain := None\<rparr>)" by simp
  moreover have "tr_is_active row" using done'(3) row(4) by simp
  moreover have "\<forall>d. pr_custom_domain r = Some d \<longrightarrow> owned_by (domain_row s' d) (Some row)" using chk(6) by auto
  ultimately show ?thesis using und row chk unfolding undoable_def by (intro exI [of _ row] exI [of _ sh] exI [of _ u]) simp
qed

section \<open>Examples\<close>

definition demo_bolt_request :: provisioning_request where
  "demo_bolt_request = \<lparr>pr_slug = ''bolt1'', pr_tenant_name = ''Bolt'', pr_owner_email = ''a@b.hu'', pr_owner_name = Some ''Anna'',
     pr_primary_domain = ''bolt1.app.hu'', pr_custom_domain = Some ''bolt.hu'', pr_package = ''free'',
     pr_feature_flags = [(''demo_mode'', Flag_bool True)], pr_limits = [], pr_send_invite_email = False,
     pr_activate_immediately = True, pr_invite_lang = None\<rparr>"

lemma demo_bolt_fresh: "fresh_for demo_bolt_request demo_empty_platform"
  by (simp add: fresh_for_def store_wf_def tables_wf_def demo_empty_platform_def tenant_by_slug_def)

text \<open>A run in which the call to the database with this number fails.\<close>

definition demo_failing_run :: "nat \<Rightarrow> (tenant_error + snapshot) \<times> tenant_store \<times> compensation_plan" where
  "demo_failing_run n = provision_body (demo_tenant_env (\<lambda>k. k = n)) demo_bolt_request (demo_empty_platform, empty_plan)"

definition database_failed :: "tenant_error + 'a \<Rightarrow> bool" where
  "database_failed r \<longleftrightarrow> (case r of Inl exc \<Rightarrow> exc = Database_error | Inr _ \<Rightarrow> False)"

definition returned :: "tenant_error + 'a \<Rightarrow> bool" where
  "returned r \<longleftrightarrow> (case r of Inl _ \<Rightarrow> False | Inr _ \<Rightarrow> True)"

lemma demo_failing_facts:
  "database_failed (fst (demo_failing_run 28))" "st_calls (fst (snd (demo_failing_run 28))) = 29"
  "returned (fst (ensure_schema (demo_tenant_env (\<lambda>k. k = 28)) ''bolt1'' (demo_empty_platform, empty_plan)))"
  by code_simp+


text \<open>A creation of the schema that is interrupted after its first statement leaves the schema.\<close>

lemma interrupted_schema_stays:
  "database_failed (fst (provision (demo_tenant_env (\<lambda>k. k = 4)) demo_bolt_request demo_empty_platform)) \<and>
   map_option sh_tables (st_schemas (snd (provision (demo_tenant_env (\<lambda>k. k = 4)) demo_bolt_request demo_empty_platform)) ''bolt1'') =
     Some [''schema_migrations'']"
  by code_simp

lemma demo_provision_returns: "returned (fst (provision demo_env_ok demo_bolt_request demo_empty_platform))"
  by code_simp

lemma provisioning_creates_tenant_witness:
  "\<exists>t. st_tenants (snd (provision demo_env_ok demo_bolt_request demo_empty_platform)) = [t] \<and> tr_slug t = ''bolt1'' \<and> tr_is_active t"
proof -
  obtain sn s' where run: "provision demo_env_ok demo_bolt_request demo_empty_platform = (Inr sn, s')"
    using demo_provision_returns unfolding returned_def
    by (cases "provision demo_env_ok demo_bolt_request demo_empty_platform") (auto split: sum.splits)
  from provisioning_creates_tenant [OF demo_bolt_fresh run]
  show ?thesis unfolding run by (auto simp: demo_bolt_request_def demo_empty_platform_def)
qed

end
