(* ===== verification/Tenant_Signup.thy ===== *)
theory Tenant_Signup
  imports Tenant_Provisioning Auth_Web
begin

text \<open>
  The sign-up of a demo tenant (\<open>tenant/signup/\<close>, \<open>tenant/slug/reservation.py\<close>): reserving a slug, the pending
  sign-up with its confirmation mail, confirmation and provisioning, the limits against abuse, the orchestrator in
  front of them, and the request for deletion. The hooks that applications register are an argument
  (\<open>tenant/extensions/tenant_hooks.py\<close>); audit entries and metrics are left out.
\<close>

section \<open>Reserving a slug\<close>

primrec reserve_from ::
  "tenant_env \<Rightarrow> string \<Rightarrow> string \<Rightarrow> string \<Rightarrow> string \<Rightarrow> nat list \<Rightarrow> string tenant_op" where
  "reserve_from e session_id requested_name email base [] = py_raise (Tenant_value_error ''slug_generation_failed'')"
| "reserve_from e session_id requested_name email base (suffix # rest) =
     (let candidate = candidate_demo_slug base suffix in
      py_bind (db_read e (\<lambda>s. tenant_by_slug s candidate)) (\<lambda>tenant.
      if tenant \<noteq> None then reserve_from e session_id requested_name email base rest
      else py_bind (reserve_slug e session_id requested_name email candidate) (\<lambda>reserved.
        if reserved then py_return candidate
        else py_bind (db_read e (\<lambda>s. reserved_slug s session_id)) (\<lambda>existing.
          if str_or existing [] \<noteq> [] \<and> slug_matches_demo_base (str_or existing []) base
          then py_return (str_or existing [])
          else py_seq (if str_or existing [] \<noteq> [] then delete_session e session_id else py_return ())
                 (reserve_from e session_id requested_name email base rest)))))"

definition reserve :: "tenant_env \<Rightarrow> string \<Rightarrow> string \<Rightarrow> string \<Rightarrow> string tenant_op" where
  "reserve e session_id requested_name email =
     (let base = demo_slug_base requested_name in
      py_bind (db_read e (\<lambda>s. reserved_slug s session_id)) (\<lambda>existing.
      if str_or existing [] \<noteq> [] \<and> slug_matches_demo_base (str_or existing []) base then py_return (str_or existing [])
      else py_seq (if str_or existing [] \<noteq> [] then delete_session e session_id else py_return ())
             (reserve_from e session_id requested_name email base [1..<10000])))"

section \<open>Links and mails\<close>

definition verification_ttl_hours :: "tenant_env \<Rightarrow> int" where
  "verification_ttl_hours e =
     max 1 (min 72 (if tx_verification_ttl_hours e = 0 then 24 else tx_verification_ttl_hours e))"

definition trial_days_of :: "tenant_env \<Rightarrow> int" where
  "trial_days_of e = max 1 (if tx_trial_days e = 0 then 7 else tx_trial_days e)"

definition scheme_of :: "tenant_env \<Rightarrow> string" where
  "scheme_of e = (if tx_cookie_secure e then ''https'' else ''http'')"

definition install_frontend_base_url :: "tenant_env \<Rightarrow> string" where
  "install_frontend_base_url e =
     (let configured = rstrip_slash (py_strip (tx_frontend_base_url e)); install_host = norm_text (tx_install_host e);
          base_domain = norm_text (tx_base_domain e)
      in if configured \<noteq> [] then configured
         else if install_host \<noteq> [] then scheme_of e @ ''://'' @ install_host
         else if base_domain \<noteq> [] then scheme_of e @ ''://www.'' @ base_domain else [])"

definition build_confirm_signup_link :: "tenant_env \<Rightarrow> string \<Rightarrow> string" where
  "build_confirm_signup_link e raw_token =
     (let base = install_frontend_base_url e
      in if base = [] then [] else base @ ''/confirm-signup?token='' @ raw_token)"

definition with_optional_frontend_port :: "tenant_env \<Rightarrow> string \<Rightarrow> string" where
  "with_optional_frontend_port e host =
     (let base = scheme_of e @ ''://'' @ host in
      case tx_frontend_port e of
        None \<Rightarrow> base
      | Some port \<Rightarrow> if port \<in> {80, 443} then base else base @ '':'' @ str_of_int port)"

definition tenant_frontend_base_url_by_slug :: "tenant_env \<Rightarrow> string \<Rightarrow> string" where
  "tenant_frontend_base_url_by_slug e slug =
     with_optional_frontend_port e (norm_text slug @ ''.'' @ tx_base_domain e)"

definition record_link :: "link_mail \<Rightarrow> unit tenant_op" where
  "record_link mail = on_process (send_link mail)"

text \<open>The answer of the mail service to the call with this number.\<close>

definition send_confirm_signup_email ::
  "tenant_env \<Rightarrow> string \<Rightarrow> string \<Rightarrow> string \<Rightarrow> unit tenant_op" where
  "send_confirm_signup_email e email preferred_locale raw_token =
     (let link = build_confirm_signup_link e raw_token in
      if link = [] then py_raise (Runtime_error ''Confirm-signup link nem generalhato'')
      else if \<not> ax_email_service (tx_auth e) then py_raise (Runtime_error ''Email service nincs konfiguralva'')
      else py_bind (\<lambda>s. (Inr (tx_confirm_mail e (st_calls s)), s\<lparr>st_calls := st_calls s + 1\<rparr>)) (\<lambda>ok.
        if \<not> ok then py_raise (Runtime_error ''A megerosito email kuldese sikertelen.'')
        else record_link (Confirm_signup_mail email link (Some preferred_locale))))"

definition send_demo_set_password_email ::
  "tenant_env \<Rightarrow> string \<Rightarrow> int \<Rightarrow> string \<Rightarrow> string \<Rightarrow> bool \<Rightarrow> string tenant_op" where
  "send_demo_set_password_email e tenant_slug user_id email preferred_locale send_email =
     py_bind (on_process (new_invite_token_payload (tx_auth e))) (\<lambda>(raw_token, token_hash, expires_at).
     py_seq (in_schema e tenant_slug (invalidate_invites user_id))
    (py_bind (in_schema e tenant_slug (create_invite user_id token_hash expires_at)) (\<lambda>_.
     let link = build_set_password_link (tx_auth e) (Some (tenant_frontend_base_url_by_slug e tenant_slug)) raw_token in
     py_seq (if send_email \<and> ax_email_service (tx_auth e) \<and> link \<noteq> []
             then record_link (Demo_password_mail email link (Some preferred_locale)) else py_return ())
       (py_return link))))"

section \<open>Owner and company profile\<close>

definition load_tenant_owner :: "tenant_env \<Rightarrow> string \<Rightarrow> string \<Rightarrow> string \<Rightarrow> auth_user option tenant_op" where
  "load_tenant_owner e tenant_slug email preferred_locale =
     py_bind (in_schema e tenant_slug (get_db (\<lambda>db. user_by_email db email))) (\<lambda>owner.
     case owner of
       None \<Rightarrow> py_return None
     | Some u \<Rightarrow>
         py_seq (if au_preferred_locale u \<noteq> Some preferred_locale
                 then py_bind (in_schema e tenant_slug
                        (repo_update_user (u\<lparr>au_preferred_locale := Some preferred_locale\<rparr>))) (\<lambda>_. py_return ())
                 else py_return ())
           (in_schema e tenant_slug (get_db (\<lambda>db. live_user db (au_id u)))))"

definition persist_signup_company_profile :: "tenant_env \<Rightarrow> string \<Rightarrow> string \<Rightarrow> string \<Rightarrow> unit tenant_op" where
  "persist_signup_company_profile e tenant_slug tenant_name google_review_url =
     (let review_url = normalize_google_review_url (Some google_review_url); company = py_strip tenant_name in
      if review_url = [] \<and> company = [] then py_return ()
      else py_bind (in_settings e tenant_slug (update_billing_profile (no_update\<lparr>
             bu_company_name := (if company = [] then None else Some company),
             bu_google_review_url := (if review_url = [] then None else Some review_url)\<rparr>))) (\<lambda>_. py_return ()))"

section \<open>Pending sign-ups\<close>

record signup_result =
  dr_slug :: string
  dr_host_hint :: string
  dr_created_new :: bool
  dr_resent_existing :: bool
  dr_awaiting_email_verification :: bool

record signup_data =
  sd_slug :: string
  sd_email :: string
  sd_owner_name :: string
  sd_tenant_name :: string
  sd_preferred_locale :: string
  sd_plan_code :: string
  sd_subscription_period :: string
  sd_session_id :: string
  sd_google_review_url :: string

definition start_pending :: "tenant_env \<Rightarrow> signup_data \<Rightarrow> signup_result tenant_op" where
  "start_pending e d =
     py_bind (on_process (new_invite_token_payload (tx_auth e))) (\<lambda>(raw_token, token_hash, _).
     py_bind (py_gets now_of) (\<lambda>now.
     py_try
       (py_seq (save_pending_verification e (sd_session_id d) token_hash (now + minutes (60 * verification_ttl_hours e))
            (sd_owner_name d) (sd_tenant_name d) (sd_preferred_locale d) (sd_plan_code d) (sd_subscription_period d)
            (sd_google_review_url d))
       (py_seq (send_confirm_signup_email e (sd_email d) (sd_preferred_locale d) raw_token)
         (py_return \<lparr>dr_slug = sd_slug d, dr_host_hint = demo_host_hint (sd_slug d) (tx_base_domain e),
            dr_created_new = True, dr_resent_existing = False, dr_awaiting_email_verification = True\<rparr>)))
       (\<lambda>exc. py_seq (delete_session e (sd_session_id d)) (py_raise exc))))"

text \<open>\<open>a or b or c\<close> on columns that may be empty.\<close>

definition first_text :: "string option \<Rightarrow> string option \<Rightarrow> string \<Rightarrow> string" where
  "first_text a b c = str_or a (str_or b c)"

definition short_locale :: "string \<Rightarrow> string" where
  "short_locale s = (let l = take 2 (norm_text s) in if l = [] then ''hu'' else l)"

definition resend_pending_verification :: "tenant_env \<Rightarrow> string \<Rightarrow> string option \<Rightarrow> signup_result tenant_op" where
  "resend_pending_verification e email preferred_locale =
     py_bind (db_read e (\<lambda>s. latest_pending_by_email s email)) (\<lambda>pending.
     case pending of
       None \<Rightarrow> py_raise Verification_invalid
     | Some r \<Rightarrow>
         py_bind (py_gets now_of) (\<lambda>now.
         if (case dz_expires_at r of None \<Rightarrow> False | Some t \<Rightarrow> t \<le> now)
         then py_seq (delete_session e (dz_session_id r)) (py_raise Verification_expired)
         else
           let slug = dz_tenant_slug r;
               locale = short_locale (first_text preferred_locale (dz_preferred_locale r) ''hu'') in
           py_bind (on_process (new_invite_token_payload (tx_auth e))) (\<lambda>(raw_token, token_hash, _).
           py_seq (save_pending_verification e (dz_session_id r) token_hash (now + minutes (60 * verification_ttl_hours e))
               (first_text (dz_owner_name r) (Some (dz_requested_name r)) slug)
               (first_text (dz_tenant_name r) (Some (dz_requested_name r)) slug) locale
               (str_or (dz_plan_code r) ''free'') (str_or (dz_subscription_period r) ''monthly'')
               (str_or (dz_google_review_url r) []))
          (py_seq (send_confirm_signup_email e (dz_email r) locale raw_token)
            (py_return \<lparr>dr_slug = slug, dr_host_hint = demo_host_hint slug (tx_base_domain e), dr_created_new = False,
               dr_resent_existing = True, dr_awaiting_email_verification = True\<rparr>)))))"

section \<open>Confirmation\<close>

record signup_context =
  sc_tenant_slug :: string
  sc_tenant_name :: string
  sc_tenant_id :: "int option"
  sc_owner_id :: int
  sc_owner_email :: string
  sc_locale :: string
  sc_plan_code :: string
  sc_subscription_period :: string
  sc_demo_session_id :: string
  sc_is_new_tenant :: bool

type_synonym signup_hook = "signup_context \<Rightarrow> unit tenant_op"

definition run_hooks :: "signup_hook list \<Rightarrow> signup_context \<Rightarrow> unit tenant_op" where
  "run_hooks hooks ctx = py_fold (\<lambda>hook _. hook ctx) hooks ()"

definition demo_provisioning_request :: "tenant_env \<Rightarrow> signup_data \<Rightarrow> datetime \<Rightarrow> provisioning_request" where
  "demo_provisioning_request e d demo_expires_at =
     \<lparr>pr_slug = sd_slug d, pr_tenant_name = sd_tenant_name d, pr_owner_email = sd_email d,
      pr_owner_name = or_str (Some (sd_owner_name d)) None,
      pr_primary_domain = demo_host_hint (sd_slug d) (tx_base_domain e), pr_custom_domain = None,
      pr_package = sd_plan_code d,
      pr_feature_flags = [(''demo_mode'', Flag_bool True), (''demo_expires_at'', Flag_time demo_expires_at)],
      pr_limits = [], pr_send_invite_email = False, pr_activate_immediately = True, pr_invite_lang = None\<rparr>"

text \<open>
  The common part of \<open>confirm_and_provision\<close> and \<open>execute\<close>: provision unless the tenant exists, load the owner, run
  the hooks, store the company profile, and make the link.
\<close>

definition provision_and_link ::
  "tenant_env \<Rightarrow> signup_hook list \<Rightarrow> signup_data \<Rightarrow> datetime \<Rightarrow> (tenant_rec option \<Rightarrow> bool) \<Rightarrow> bool \<Rightarrow> string tenant_op" where
  "provision_and_link e hooks d demo_expires_at is_new send_email =
     (let slug = sd_slug d in
      py_bind (db_read e (\<lambda>s. tenant_by_slug s slug)) (\<lambda>present.
      py_seq (if present = None
              then py_bind (provision e (demo_provisioning_request e d demo_expires_at)) (\<lambda>_. py_return ()) else py_return ())
     (py_bind (db_read e (\<lambda>s. tenant_by_slug s slug)) (\<lambda>tenant.
      py_bind (load_tenant_owner e slug (sd_email d) (sd_preferred_locale d)) (\<lambda>owner.
      case owner of
        None \<Rightarrow> py_raise (Runtime_error ''demo_owner_missing_after_signup'')
      | Some u \<Rightarrow>
          py_seq (run_hooks hooks \<lparr>sc_tenant_slug = slug, sc_tenant_name = sd_tenant_name d,
              sc_tenant_id = map_option tr_id tenant, sc_owner_id = au_id u, sc_owner_email = sd_email d,
              sc_locale = sd_preferred_locale d, sc_plan_code = sd_plan_code d,
              sc_subscription_period = sd_subscription_period d, sc_demo_session_id = sd_session_id d,
              sc_is_new_tenant = is_new tenant\<rparr>)
         (py_seq (persist_signup_company_profile e slug (sd_tenant_name d) (sd_google_review_url d))
           (send_demo_set_password_email e slug (au_id u) (sd_email d) (sd_preferred_locale d) send_email)))))))"

record confirm_result =
  fr_slug :: string
  fr_host_hint :: string
  fr_set_password_url :: string
  fr_email :: string

text \<open>The fields of a pending row as the confirmation reads them.\<close>

definition pending_data :: "signup_session \<Rightarrow> signup_data" where
  "pending_data r =
     \<lparr>sd_slug = dz_tenant_slug r, sd_email = norm_text (dz_email r),
      sd_owner_name = first_text (dz_owner_name r) (Some (dz_requested_name r)) (dz_tenant_slug r),
      sd_tenant_name = first_text (dz_tenant_name r) (Some (dz_requested_name r)) (dz_tenant_slug r),
      sd_preferred_locale = short_locale (str_or (dz_preferred_locale r) ''hu''),
      sd_plan_code = str_or (Some (norm_text (str_or (dz_plan_code r) ''free''))) ''free'',
      sd_subscription_period = str_or (Some (norm_text (str_or (dz_subscription_period r) ''monthly''))) ''monthly'',
      sd_session_id = dz_session_id r, sd_google_review_url = str_or (dz_google_review_url r) []\<rparr>"

text \<open>A sign-up that was completed before: the owner, when tenant and owner are still there.\<close>

definition completed_owner :: "tenant_env \<Rightarrow> signup_session \<Rightarrow> auth_user option tenant_op" where
  "completed_owner e r =
     (let d = pending_data r in
      if dz_completed_at r = None then py_return None
      else py_bind (db_read e (\<lambda>s. tenant_by_slug s (sd_slug d))) (\<lambda>tenant.
        if tenant = None then py_return None
        else py_try (load_tenant_owner e (sd_slug d) (sd_email d) (sd_preferred_locale d)) (\<lambda>_. py_return None)))"

definition confirm_and_provision :: "tenant_env \<Rightarrow> signup_hook list \<Rightarrow> string option \<Rightarrow> confirm_result tenant_op" where
  "confirm_and_provision e hooks token =
     (let raw = py_strip (str_or token []) in
      if raw = [] then py_raise Verification_invalid
      else py_bind (db_read e (\<lambda>s. pending_by_token_hash s (ax_sha256 (tx_auth e) raw))) (\<lambda>pending.
      case pending of
        None \<Rightarrow> py_raise Verification_invalid
      | Some r \<Rightarrow>
          let d = pending_data r;
              result = (\<lambda>url. \<lparr>fr_slug = sd_slug d, fr_host_hint = demo_host_hint (sd_slug d) (tx_base_domain e),
                 fr_set_password_url = url, fr_email = sd_email d\<rparr>) in
          py_bind (py_gets now_of) (\<lambda>now.
          py_bind (completed_owner e r) (\<lambda>owner.
          case owner of
            Some u \<Rightarrow>
              py_bind (send_demo_set_password_email e (sd_slug d) (au_id u) (sd_email d) (sd_preferred_locale d) False)
                (\<lambda>url. py_return (result url))
          | None \<Rightarrow>
              if (case dz_expires_at r of None \<Rightarrow> False | Some t \<Rightarrow> t \<le> now) \<and> dz_completed_at r = None
              then py_seq (delete_session e (sd_session_id d)) (py_raise Verification_expired)
              else
                py_bind (provision_and_link e hooks d (demo_trial_expires_at now (trial_days_of e)) (\<lambda>_. True) False) (\<lambda>url.
                py_seq (mark_session_verified e (sd_session_id d))
               (py_seq (mark_session_completed e (sd_session_id d)) (py_return (result url))))))))"

text \<open>\<open>execute\<close>: provisioning at once, used in the test environment.\<close>

definition execute_signup :: "tenant_env \<Rightarrow> signup_hook list \<Rightarrow> signup_data \<Rightarrow> signup_result tenant_op" where
  "execute_signup e hooks d =
     py_bind (py_gets now_of) (\<lambda>now.
     py_try
       (py_bind (provision_and_link e hooks d (demo_trial_expires_at now (trial_days_of e)) (\<lambda>t. t = None) True) (\<lambda>_.
        py_seq (mark_session_completed e (sd_session_id d))
          (py_return \<lparr>dr_slug = sd_slug d, dr_host_hint = demo_host_hint (sd_slug d) (tx_base_domain e),
             dr_created_new = True, dr_resent_existing = False, dr_awaiting_email_verification = False\<rparr>)))
       (\<lambda>exc. py_bind (db_read e (\<lambda>s. tenant_by_slug s (sd_slug d))) (\<lambda>tenant.
          py_seq (if tenant = None then delete_session e (sd_session_id d) else py_return ()) (py_raise exc))))"

end
