(* ===== verification/Tenant_Orchestrator.thy ===== *)
theory Tenant_Orchestrator
  imports Tenant_Signup
begin

text \<open>
  In front of the sign-up (\<open>tenant/signup/orchestrator.py\<close>, \<open>abuse_controls.py\<close>, \<open>unsubscribe.py\<close>, \<open>resend_demo.py\<close>,
  \<open>router/tenant_router.py\<close>): addresses and businesses that are refused, daily limits kept in Redis or in the process,
  the choice between a new sign-up and sending the confirmation again, the request for deletion, and the HTTP checks.
  Whether Redis answers and what DNS says are settings of the run; the expiry of the counters of past days is left out.
\<close>

section \<open>Abuse controls\<close>

datatype mx_answer = Mx_found | Mx_missing | Dns_failure

record signup_settings =
  sv_redis :: redis_mode
  sv_fail_closed :: bool
  sv_signups_enabled :: bool
  sv_max_per_day :: int
  sv_max_per_ip :: int
  sv_max_per_ip_email :: int
  sv_max_per_session :: int
  sv_max_per_email :: int
  sv_block_disposable :: bool
  sv_external_domains :: "string list"
  sv_require_mx :: bool
  sv_mx :: "string \<Rightarrow> mx_answer"
  sv_require_verify :: bool
  sv_monotonic :: datetime

definition is_demo_signup_enabled :: "signup_settings \<Rightarrow> tenant_store \<Rightarrow> bool" where
  "is_demo_signup_enabled g s =
     (let fallback = (case st_enabled_override s of None \<Rightarrow> sv_signups_enabled g | Some b \<Rightarrow> b) in
      case sv_redis g of
        Redis_absent \<Rightarrow> if sv_fail_closed g then False else fallback
      | Redis_failing \<Rightarrow> if sv_fail_closed g then False else fallback
      | Redis_up \<Rightarrow>
          (case st_signup_enabled s of
             None \<Rightarrow> sv_signups_enabled g
           | Some v \<Rightarrow> norm_text v \<in> {''1'', ''true'', ''yes'', ''on''}))"

definition set_demo_signup_enabled :: "signup_settings \<Rightarrow> bool \<Rightarrow> unit tenant_op" where
  "set_demo_signup_enabled g enabled =
     (case sv_redis g of
        Redis_up \<Rightarrow> py_modify (\<lambda>s. s\<lparr>st_signup_enabled := Some (if enabled then ''1'' else ''0'')\<rparr>)
      | _ \<Rightarrow> if sv_fail_closed g then py_raise (Runtime_error ''Demo signup control nem elerheto'')
             else py_modify (\<lambda>s. s\<lparr>st_enabled_override := Some enabled\<rparr>))"

definition day_key :: "datetime \<Rightarrow> string" where
  "day_key t = (let d = dt_date t in
     pad_dec 4 (nat (d_year d)) @ pad_dec 2 (nat (d_month d)) @ pad_dec 2 (nat (d_day d)))"

definition counter_key :: "datetime \<Rightarrow> string \<Rightarrow> string \<Rightarrow> string" where
  "counter_key now scope key =
     (let normalized_scope = str_or (Some (norm_text scope)) ''global'';
          normalized_key = str_or (Some (norm_text key)) ''default''
      in ''security:demo_signup:counter:'' @ day_key now @ '':'' @ normalized_scope @ '':'' @ normalized_key)"

definition count_of :: "(string \<times> int) list \<Rightarrow> string \<Rightarrow> int" where
  "count_of counters key = (case map_of counters key of None \<Rightarrow> 0 | Some n \<Rightarrow> n)"

definition bump_daily_counter :: "signup_settings \<Rightarrow> string \<Rightarrow> string \<Rightarrow> int tenant_op" where
  "bump_daily_counter g scope key = (\<lambda>s.
     let counter = counter_key (now_of s) scope key in
     case sv_redis g of
       Redis_up \<Rightarrow>
         let count = count_of (st_counters s) counter + 1
         in (Inr count, s\<lparr>st_counters := AList.update counter count (st_counters s)\<rparr>)
     | _ \<Rightarrow>
         if sv_fail_closed g then (Inl (Runtime_error ''Demo signup rate-limit nem elerheto''), s)
         else
           let count = count_of (st_fallback_counters s) counter + 1
           in (Inr count, s\<lparr>st_fallback_counters := AList.update counter count (st_fallback_counters s)\<rparr>))"

text \<open>\<open>max(1, int(setting or 100))\<close>.\<close>

definition limit_of :: "int \<Rightarrow> int" where
  "limit_of n = max 1 (if n = 0 then 100 else n)"

definition runtime_to_disabled :: "'a tenant_op \<Rightarrow> 'a tenant_op" where
  "runtime_to_disabled m = py_try m (\<lambda>exc. py_raise (case exc of Runtime_error _ \<Rightarrow> Signup_disabled | _ \<Rightarrow> exc))"

definition check_counter :: "signup_settings \<Rightarrow> string \<Rightarrow> string \<Rightarrow> int \<Rightarrow> tenant_error \<Rightarrow> unit tenant_op" where
  "check_counter g scope key limit exc =
     py_bind (bump_daily_counter g scope key) (\<lambda>n. if n > limit then py_raise exc else py_return ())"

definition enforce_signup_limits ::
  "tenant_env \<Rightarrow> signup_settings \<Rightarrow> string \<Rightarrow> string \<Rightarrow> string option \<Rightarrow> unit tenant_op" where
  "enforce_signup_limits e g email session_id remote_ip =
     py_bind (py_gets (is_demo_signup_enabled g)) (\<lambda>enabled.
     if \<not> enabled then py_raise Signup_disabled
     else py_bind (db_read e (\<lambda>s. count_completed_for_email s email)) (\<lambda>completed.
       if completed \<ge> limit_of (sv_max_per_email g) then py_raise Signup_rate_limited
       else
         let ip = str_or (Some (norm_text (str_or remote_ip []))) ''unknown'' in
         runtime_to_disabled
           (py_seq (check_counter g ''global'' ''all'' (limit_of (sv_max_per_day g)) Capacity_reached)
           (py_seq (check_counter g ''session'' session_id (limit_of (sv_max_per_session g)) Signup_rate_limited)
           (py_seq (check_counter g ''ip'' ip (limit_of (sv_max_per_ip g)) Signup_rate_limited)
              (check_counter g ''ip_email'' (ip @ '':'' @ email) (limit_of (sv_max_per_ip_email g)) Signup_rate_limited))))))"

section \<open>Refused addresses and businesses\<close>

definition disposable_email_domains :: "string list" where
  "disposable_email_domains = [''mailinator.com'', ''guerrillamail.com'', ''10minutemail.com'', ''tempmail.com'',
     ''yopmail.com'', ''dispostable.com'', ''trashmail.com'', ''sharklasers.com'', ''getnada.com'']"

definition validate_email_domain :: "signup_settings \<Rightarrow> string \<Rightarrow> unit tenant_op" where
  "validate_email_domain g email =
     (let domain = norm_text (last (split_char CHR ''@'' email)) in
      if domain = [] then py_raise Invalid_email_domain
      else if sv_block_disposable g \<and> (domain \<in> set disposable_email_domains \<or> domain \<in> set (sv_external_domains g))
      then py_raise Disposable_email
      else if \<not> sv_require_mx g then py_return ()
      else case sv_mx g domain of Mx_missing \<Rightarrow> py_raise Invalid_email_domain | _ \<Rightarrow> py_return ())"

definition business_reconnect_login_url :: "tenant_env \<Rightarrow> string \<Rightarrow> string" where
  "business_reconnect_login_url e tenant_slug =
     rstrip_slash (tenant_frontend_base_url_by_slug e tenant_slug) @ ''/login?redirect=%2Fadmin%2Fpricing''"

definition raise_business_already_exists :: "tenant_env \<Rightarrow> string \<Rightarrow> 'a tenant_op" where
  "raise_business_already_exists e tenant_slug =
     (let slug = norm_text tenant_slug in
      if slug = [] then py_raise (Business_already_exists [] [] False ''business_exists'')
      else py_bind (db_read e (\<lambda>s. tenant_by_slug s slug)) (\<lambda>tenant.
        py_raise (Business_already_exists slug (business_reconnect_login_url e slug)
          (case tenant of None \<Rightarrow> False | Some t \<Rightarrow> tr_is_active t) ''business_exists'')))"

definition assert_email_not_blocked :: "tenant_env \<Rightarrow> string \<Rightarrow> string \<Rightarrow> unit tenant_op" where
  "assert_email_not_blocked e email google_review_url =
     py_bind (db_read e (\<lambda>s. blocklist_entry s email)) (\<lambda>entry.
     case entry of
       None \<Rightarrow> py_return ()
     | Some b \<Rightarrow>
         let blocked_slug = norm_text (str_or (be_source_tenant_slug b) []) in
         if google_review_url = [] \<or> blocked_slug = [] then py_raise Demo_email_blocked
         else py_bind (db_read e (\<lambda>s. review_url_by_slug s blocked_slug)) (\<lambda>url.
           let blocked_url = normalize_google_review_url (Some (str_or url [])) in
           if blocked_url \<noteq> [] \<and> blocked_url = google_review_url then py_raise Demo_email_blocked
           else py_bind (db_read e (\<lambda>s. latest_completed_by_review_url s google_review_url)) (\<lambda>row.
             if (case row of None \<Rightarrow> False | Some r \<Rightarrow> norm_text (dz_tenant_slug r) = blocked_slug)
             then py_raise Demo_email_blocked else py_return ())))"

definition maybe_cleanup_expired_demos :: "tenant_env \<Rightarrow> signup_settings \<Rightarrow> unit tenant_op" where
  "maybe_cleanup_expired_demos e g =
     py_bind (py_gets st_last_cleanup) (\<lambda>last_cleanup_at.
     if sv_monotonic g - last_cleanup_at < seconds 300 then py_return ()
     else py_seq (py_modify (\<lambda>s. s\<lparr>st_last_cleanup := sv_monotonic g\<rparr>))
       (py_try (py_seq (cleanup_expired_pending_sessions e) (cleanup_expired_demo_tenants e)) (\<lambda>_. py_return ())))"

section \<open>The orchestrator\<close>

record signup_request =
  sq_email :: string
  sq_kb_name :: "string option"
  sq_name :: string
  sq_locale :: "string option"
  sq_company_name :: "string option"
  sq_plan_code :: "string option"
  sq_subscription_period :: "string option"
  sq_demo_session_id :: "string option"
  sq_remote_ip :: "string option"
  sq_google_review_url :: "string option"

definition is_slug_available :: "tenant_env \<Rightarrow> string \<Rightarrow> bool tenant_op" where
  "is_slug_available e slug =
     (if \<not> slug_is_valid slug then py_return False
      else py_bind (db_read e (\<lambda>s. tenant_by_slug s slug)) (\<lambda>tenant.
        if tenant \<noteq> None then py_return False
        else py_bind (db_read e (\<lambda>s. is_slug_reserved s slug)) (\<lambda>taken. py_return (\<not> taken))))"

text \<open>A pending sign-up for the same business: the same address gets its mail again, another one is refused.\<close>

definition same_business :: "tenant_env \<Rightarrow> string \<Rightarrow> string \<Rightarrow> signup_session \<Rightarrow> signup_result tenant_op" where
  "same_business e email preferred_locale r =
     (if norm_text (dz_email r) = email then resend_pending_verification e email (Some preferred_locale)
      else if py_strip (dz_tenant_slug r) \<noteq> [] then raise_business_already_exists e (py_strip (dz_tenant_slug r))
      else py_raise (Business_already_exists [] [] False ''business_registration_in_progress''))"

text \<open>What follows the reservation: the data of the sign-up and how it starts.\<close>

definition signup_with_slug ::
  "tenant_env \<Rightarrow> signup_settings \<Rightarrow> signup_hook list \<Rightarrow> signup_request \<Rightarrow> string \<Rightarrow> string \<Rightarrow> signup_result tenant_op" where
  "signup_with_slug e g hooks q session_id slug =
     (let owner_name = py_strip (sq_name q); company = py_strip (str_or (sq_company_name q) []);
          tenant_name = py_strip (str_or (Some company) (str_or (Some owner_name) (str_or (sq_kb_name q) slug)));
          d = \<lparr>sd_slug = slug, sd_email = norm_text (sq_email q), sd_owner_name = str_or (Some owner_name) company,
               sd_tenant_name = str_or (Some tenant_name) slug, sd_preferred_locale = normalize_demo_locale (sq_locale q),
               sd_plan_code = str_or (Some (norm_text (str_or (sq_plan_code q) ''free''))) ''free'',
               sd_subscription_period = str_or (Some (norm_text (str_or (sq_subscription_period q) ''monthly''))) ''monthly'',
               sd_session_id = session_id, sd_google_review_url = normalize_google_review_url (sq_google_review_url q)\<rparr>
      in if \<not> slug_is_valid slug then py_raise Invalid_slug
         else if sv_require_verify g then start_pending e d else execute_signup e hooks d)"

definition new_signup ::
  "tenant_env \<Rightarrow> signup_settings \<Rightarrow> signup_hook list \<Rightarrow> signup_request \<Rightarrow> string \<Rightarrow> string \<Rightarrow> signup_result tenant_op" where
  "new_signup e g hooks q session_id slug_source =
     (let email = norm_text (sq_email q); review_url = normalize_google_review_url (sq_google_review_url q) in
      py_seq (assert_email_not_blocked e email review_url)
     (py_seq (enforce_signup_limits e g email session_id (sq_remote_ip q))
     (py_bind (reserve e session_id slug_source email) (\<lambda>slug. signup_with_slug e g hooks q session_id slug))))"

definition signup ::
  "tenant_env \<Rightarrow> signup_settings \<Rightarrow> signup_hook list \<Rightarrow> signup_request \<Rightarrow> signup_result tenant_op" where
  "signup e g hooks q =
     (let email = norm_text (sq_email q); owner_name = py_strip (sq_name q);
          company = py_strip (str_or (sq_company_name q) []);
          review_url = normalize_google_review_url (sq_google_review_url q);
          slug_source = str_or (Some company) owner_name;
          session_id = py_strip (str_or (sq_demo_session_id q) []);
          preferred_locale = normalize_demo_locale (sq_locale q) in
      py_seq (maybe_cleanup_expired_demos e g)
     (py_seq (validate_email_domain g email)
       (if slug_source = [] then py_raise Name_required
        else if session_id = [] then py_raise Demo_session_required
        else
          py_bind (if review_url = [] then py_return None
                   else db_read e (\<lambda>s. latest_completed_by_review_url s review_url)) (\<lambda>existing_business.
          case existing_business of
            Some r \<Rightarrow> raise_business_already_exists e (dz_tenant_slug r)
          | None \<Rightarrow>
              py_bind (if review_url = [] then py_return None
                       else db_read e (\<lambda>s. latest_pending_by_review_url s review_url)) (\<lambda>pending_same_business.
              case pending_same_business of
                Some r \<Rightarrow> same_business e email preferred_locale r
              | None \<Rightarrow>
                  py_bind (if sv_require_verify g then db_read e (\<lambda>s. latest_pending_by_email s email)
                           else py_return None) (\<lambda>pending.
                  if (case pending of None \<Rightarrow> False
                      | Some r \<Rightarrow> let u = normalize_google_review_url (Some (str_or (dz_google_review_url r) []))
                                 in u \<noteq> [] \<and> u = review_url)
                  then resend_pending_verification e email (Some preferred_locale)
                  else new_signup e g hooks q session_id slug_source))))))"

definition confirm_signup ::
  "tenant_env \<Rightarrow> signup_settings \<Rightarrow> signup_hook list \<Rightarrow> string option \<Rightarrow> confirm_result tenant_op" where
  "confirm_signup e g hooks token =
     py_seq (maybe_cleanup_expired_demos e g) (confirm_and_provision e hooks token)"

section \<open>Deletion on request\<close>

definition put_flag :: "string \<Rightarrow> flag_val \<Rightarrow> flags \<Rightarrow> flags" where
  "put_flag key v fl = AList.update key v fl"

definition request_demo_unsubscribe ::
  "tenant_env \<Rightarrow> string \<Rightarrow> string \<Rightarrow> string option \<Rightarrow> (string \<times> datetime) tenant_op" where
  "request_demo_unsubscribe e tenant_slug email current_user_email =
     (let normalized_email = norm_text email; slug = norm_text tenant_slug in
      if slug = [] then py_raise (Tenant_value_error ''tenant_missing'')
      else if normalized_email = [] then py_raise (Tenant_value_error ''email_required'')
      else if (case current_user_email of None \<Rightarrow> False | Some c \<Rightarrow> normalized_email \<noteq> norm_text c)
      then py_raise (Tenant_value_error ''email_mismatch'')
      else py_bind (db_read e (\<lambda>s. tenant_by_slug s slug)) (\<lambda>tenant.
        case tenant of
          None \<Rightarrow> py_raise (Tenant_value_error ''tenant_not_found'')
        | Some t \<Rightarrow>
            py_bind (py_gets now_of) (\<lambda>now.
            let due_at = now + days 7 in
            py_bind (db_read e (\<lambda>s. snapshot_by_slug s slug)) (\<lambda>sn.
            let feature_flags = put_flag ''deletion_requested_email'' (Flag_text normalized_email)
                  (put_flag ''deletion_due_at'' (Flag_time due_at)
                  (put_flag ''deletion_requested_at'' (Flag_time now)
                  (put_flag ''deletion_requested'' (Flag_bool True)
                     (case sn of None \<Rightarrow> [] | Some x \<Rightarrow> sn_feature_flags x))));
                limits = (case sn of None \<Rightarrow> [] | Some x \<Rightarrow> sn_limits x);
                package = (case sn of None \<Rightarrow> ''free'' | Some x \<Rightarrow> if sn_package x = [] then ''free'' else sn_package x) in
            py_seq (create_tenant_config e (tr_id t) slug package feature_flags limits)
           (py_seq (deactivate_tenant e (tr_id t))
           (py_seq (block_email e normalized_email slug ''demo_unsubscribe'')
              (py_return (slug, due_at))))))))"

end
