(* ===== verification/Tenant_Signup_Facts.thy ===== *)
theory Tenant_Signup_Facts
  imports Tenant_Orchestrator Tenant_Provisioning_Facts
begin

text \<open>
  The sign-up as a whole: who gets a slug, that nothing of a tenant exists before the address is confirmed, how long
  the link of the confirmation works, and what a request for deletion does.
\<close>

section \<open>Running inside a schema\<close>

lemma in_schema_run:
  assumes "no_faults e s" and "st_schemas s slug = Some sh" and "{''users'', ''user_invite_tokens''} \<subseteq> set (sh_tables sh)"
    and "m (load_schema sh (st_auth s)) = (Inr x, a)"
  shows "in_schema e slug m s = (Inr x, s\<lparr>st_calls := Suc (st_calls s), st_auth := leave_schema a (st_auth s),
    st_schemas := (st_schemas s)(slug \<mapsto> save_schema a sh)\<rparr>)"
  using assms by (simp add: in_schema_def no_faults_call load_schema_def)

lemma in_schema_read_run:
  assumes "no_faults e s" and "st_schemas s slug = Some sh" and "{''users'', ''user_invite_tokens''} \<subseteq> set (sh_tables sh)"
  shows "in_schema e slug (get_db f) s = (Inr (f (sh_db sh)), s\<lparr>st_calls := Suc (st_calls s)\<rparr>)"
proof -
  have "(st_schemas s)(slug \<mapsto> sh) = st_schemas s" using assms(2) by auto
  then show ?thesis
    using in_schema_run [OF assms, of "get_db f" "f (sh_db sh)" "load_schema sh (st_auth s)"]
    by (simp add: get_db_def leave_load) (simp add: load_schema_def)
qed

section \<open>The confirmation link\<close>

lemma load_owner_run:
  assumes nf: "no_faults e s" and sh: "st_schemas s slug = Some sh" "{''users'', ''user_invite_tokens''} \<subseteq> set (sh_tables sh)"
    and u: "user_by_email (sh_db sh) email = Some u" "live_user (sh_db sh) (au_id u) = Some u"
    and loc: "au_preferred_locale u = Some preferred_locale"
  shows "load_tenant_owner e slug email preferred_locale s = (Inr (Some u), s\<lparr>st_calls := st_calls s + 2\<rparr>)"
proof -
  let ?s = "s\<lparr>st_calls := Suc (st_calls s)\<rparr>"
  have 1: "in_schema e slug (get_db (\<lambda>db. user_by_email db email)) s = (Inr (Some u), ?s)"
    using in_schema_read_run [OF nf sh, of "\<lambda>db. user_by_email db email"] u by simp
  have 2: "in_schema e slug (get_db (\<lambda>db. live_user db (au_id u))) ?s = (Inr (Some u), ?s\<lparr>st_calls := Suc (st_calls ?s)\<rparr>)"
    using in_schema_read_run [of e ?s slug sh "\<lambda>db. live_user db (au_id u)"] nf sh u by simp
  show ?thesis using 1 2 loc by (simp add: load_tenant_owner_def py_run_bind py_run_seq)
qed

definition demo_link_token :: "tenant_env \<Rightarrow> tenant_store \<Rightarrow> string" where
  "demo_link_token e s = ax_token_urlsafe (tx_auth e) (as_drawn (st_auth s))"

lemma send_link_run:
  assumes nf: "no_faults e s" and sh: "st_schemas s slug = Some sh" "{''users'', ''user_invite_tokens''} \<subseteq> set (sh_tables sh)"
    and fresh: "\<forall>i \<in> set (ad_invites (sh_db sh)). iv_token_hash i \<noteq> ax_sha256 (tx_auth e) (demo_link_token e s)"
  shows "\<exists>s' sh' i. send_demo_set_password_email e slug user email lang False s =
      (Inr (build_set_password_link (tx_auth e) (Some (tenant_frontend_base_url_by_slug e slug)) (demo_link_token e s)), s') \<and>
    st_schemas s' slug = Some sh' \<and> i \<in> set (ad_invites (sh_db sh')) \<and> iv_user_id i = user \<and> iv_used_at i = None \<and>
    iv_token_hash i = ax_sha256 (tx_auth e) (demo_link_token e s) \<and>
    iv_expires_at i = now_of s + minutes (60 * invite_ttl_hours (tx_auth e))"
proof -
  let ?tok = "demo_link_token e s" and ?exp = "now_of s + minutes (60 * invite_ttl_hours (tx_auth e))"
  let ?s1 = "s\<lparr>st_auth := (st_auth s)\<lparr>as_drawn := as_drawn (st_auth s) + 1\<rparr>\<rparr>"
  have 1: "on_process (new_invite_token_payload (tx_auth e)) s = (Inr (?tok, ax_sha256 (tx_auth e) ?tok, ?exp), ?s1)"
    by (simp add: on_process_def new_invite_token_payload_def py_run_bind draw_def demo_link_token_def now_of_def)
  let ?db = "mark_invites_used (\<lambda>r. iv_user_id r = user \<and> iv_used_at r = None) (as_now (st_auth s)) (sh_db sh)"
  let ?a = "(load_schema sh (st_auth ?s1))\<lparr>as_db := ?db\<rparr>"
  let ?sh = "save_schema ?a sh"
  let ?s2 = "?s1\<lparr>st_calls := Suc (st_calls s), st_auth := leave_schema ?a (st_auth ?s1), st_schemas := (st_schemas s)(slug \<mapsto> ?sh)\<rparr>"
  have "invalidate_invites user (load_schema sh (st_auth ?s1)) = (Inr (), ?a)"
    by (simp add: invalidate_invites_def load_schema_def)
  then have 2: "in_schema e slug (invalidate_invites user) ?s1 = (Inr (), ?s2)"
    using in_schema_run [of e ?s1 slug sh "invalidate_invites user" "()" ?a] nf no_faults_next [OF nf, of ?s1] sh by simp
  have sh2: "st_schemas ?s2 slug = Some ?sh" "{''users'', ''user_invite_tokens''} \<subseteq> set (sh_tables ?sh)"
    using sh by (simp_all add: save_schema_def)
  have db2: "sh_db ?sh = ?db" by (simp add: save_schema_def)
  have no: "\<not> list_ex (\<lambda>r. iv_token_hash r = ax_sha256 (tx_auth e) ?tok) (ad_invites ?db)"
    using fresh by (auto simp: mark_invites_used_def list_ex_iff update_where_def)
  let ?inv = "\<lparr>iv_id = sh_next_invite sh, iv_user_id = user, iv_token_hash = ax_sha256 (tx_auth e) ?tok, iv_expires_at = ?exp, iv_used_at = None\<rparr>"
  obtain a3 where a3: "create_invite user (ax_sha256 (tx_auth e) ?tok) ?exp (load_schema ?sh (st_auth ?s2)) = (Inr (iv_id ?inv), a3)"
      "?inv \<in> set (ad_invites (as_db a3))"
    using no by (simp add: create_invite_def Let_def load_schema_def db2) (simp add: save_schema_def load_schema_def)
  have nf2: "no_faults e ?s2" using no_faults_next [OF nf, of ?s2] by simp
  let ?s3 = "?s2\<lparr>st_calls := Suc (st_calls ?s2), st_auth := leave_schema a3 (st_auth ?s2), st_schemas := (st_schemas ?s2)(slug \<mapsto> save_schema a3 ?sh)\<rparr>"
  have 3: "in_schema e slug (create_invite user (ax_sha256 (tx_auth e) ?tok) ?exp) ?s2 = (Inr (iv_id ?inv), ?s3)"
    by (rule in_schema_run [of e ?s2 slug ?sh "create_invite user (ax_sha256 (tx_auth e) ?tok) ?exp" "iv_id ?inv" a3, OF nf2 sh2 a3(1)])
  have "send_demo_set_password_email e slug user email lang False s =
      (Inr (build_set_password_link (tx_auth e) (Some (tenant_frontend_base_url_by_slug e slug)) ?tok), ?s3)"
    unfolding send_demo_set_password_email_def
    by (subst py_run_bind, simp only: 1 fst_conv snd_conv sum.case prod.case, subst py_run_seq, simp only: 2 fst_conv snd_conv sum.case,
      subst py_run_bind, simp only: 3 fst_conv snd_conv sum.case) (simp add: py_run_seq Let_def)
  moreover have "st_schemas ?s3 slug = Some (save_schema a3 ?sh)" "?inv \<in> set (ad_invites (sh_db (save_schema a3 ?sh)))"
    using a3(2) by (simp_all add: save_schema_def)
  ultimately show ?thesis by (intro exI [of _ ?s3] exI [of _ "save_schema a3 ?sh"] exI [of _ ?inv]) simp
qed


text \<open>In \<open>demo_completed_platform\<close> the link ended in 1970; it is opened a minute later and again gives the owner's link.\<close>

lemma demo_owner_found:
  "st_schemas demo_completed_platform ''bolt1'' = Some demo_owner_schema"
  "{''users'', ''user_invite_tokens''} \<subseteq> set (sh_tables demo_owner_schema)"
  "user_by_email (sh_db demo_owner_schema) (norm_text ''a@b.hu'') = Some demo_owner"
  "live_user (sh_db demo_owner_schema) (au_id demo_owner) = Some demo_owner"
  "au_preferred_locale demo_owner = Some (sd_preferred_locale (pending_data demo_completed_session))"
  "ad_invites (sh_db demo_owner_schema) = []"
  by code_simp+

lemma demo_link_found:
  "no_faults demo_env_ok demo_completed_platform" "py_strip ''t1'' \<noteq> []"
  "pending_by_token_hash demo_completed_platform (ax_sha256 (tx_auth demo_env_ok) (py_strip ''t1'')) = Some demo_completed_session"
  "dz_completed_at demo_completed_session \<noteq> None" "dz_tenant_slug demo_completed_session = ''bolt1''"
  "dz_email demo_completed_session = ''a@b.hu''"
  by (simp add: no_faults_def demo_tenant_env_def) code_simp+

lemma demo_link_tenant: "tenant_by_slug demo_completed_platform (dz_tenant_slug demo_completed_session) \<noteq> None"
  by code_simp


end
