(* ===== verification/Admin_Store.thy ===== *)
theory Admin_Store
  imports Users_Routes
begin

text \<open>
  The tables of the platform administration (\<open>backend/admin/domain/admin_models.py\<close>) and the part of
  \<open>backend/admin/repository/platform_admin_repository.py\<close> that keeps them: administrators, invitations, refresh
  sessions, counters of second factors, blocked addresses and alerts. Each operation is one transaction. The stored
  JSON list of recovery codes is the list; the columns that say who changed a row are left out.

  The clock, the random sources and the allowlist of access tokens are those of the process (\<open>ps_process\<close>).
\<close>

section \<open>Tables\<close>

record admin_user =
  pu_id :: int
  pu_email :: string
  pu_name :: "string option"
  pu_password_hash :: string
  pu_is_active :: bool
  pu_role :: string
  pu_created_at :: datetime
  pu_deleted_at :: "datetime option"
  pu_registration_completed_at :: "datetime option"
  pu_failed_login_attempts :: int
  pu_security_version :: int
  pu_mfa_enabled :: bool
  pu_mfa_secret :: "string option"
  pu_mfa_pending_secret :: "string option"
  pu_mfa_pending_expires_at :: "datetime option"
  pu_recovery_hashes :: "string list"

record ip_ban =
  bn_ip :: string
  bn_reason :: "string option"
  bn_created_at :: datetime
  bn_created_by :: "int option"
  bn_expires_at :: "datetime option"
  bn_released_at :: "datetime option"

record security_alert =
  sa_id :: int
  sa_key :: string
  sa_severity :: string
  sa_signal :: string
  sa_value :: int
  sa_hit_count :: int
  sa_status :: string
  sa_first_seen_at :: datetime
  sa_last_seen_at :: datetime
  sa_acknowledged :: "(datetime \<times> int option) option"

record mfa_attempt =
  mt_scope :: string
  mt_scope_key :: string
  mt_attempts :: int
  mt_window_started_at :: datetime
  mt_blocked_until :: "datetime option"

record admin_db =
  pd_users :: "admin_user list"
  pd_invites :: "invite_token list"
  pd_sessions :: "session list"
  pd_attempts :: "mfa_attempt list"
  pd_bans :: "ip_ban list"
  pd_alerts :: "security_alert list"

datatype admin_mail = Admin_login_alert string string | Admin_lock_alert string string string | Admin_invite string string

record admin_state =
  ps_db :: admin_db
  ps_next_user :: int
  ps_next_invite :: int
  ps_next_session :: int
  ps_next_alert :: int
  ps_process :: auth_state
  ps_limits :: limit_state
  ps_mails :: "admin_mail list"

type_synonym 'a admin_op = "(admin_state, auth_error, 'a) py"

definition on_admin_process :: "'a auth_op \<Rightarrow> 'a admin_op" where
  "on_admin_process m = (\<lambda>s. case m (ps_process s) of (r, a) \<Rightarrow> (r, s\<lparr>ps_process := a\<rparr>))"

definition admin_now :: "admin_state \<Rightarrow> datetime" where
  "admin_now s = as_now (ps_process s)"

definition admin_query :: "(admin_db \<Rightarrow> 'a) \<Rightarrow> 'a admin_op" where
  "admin_query f = py_gets (\<lambda>s. f (ps_db s))"

definition admin_update :: "(datetime \<Rightarrow> admin_db \<Rightarrow> admin_db) \<Rightarrow> unit admin_op" where
  "admin_update f = py_modify (\<lambda>s. s\<lparr>ps_db := f (admin_now s) (ps_db s)\<rparr>)"

section \<open>Administrators\<close>

definition admin_by_id :: "admin_db \<Rightarrow> int \<Rightarrow> admin_user option" where
  "admin_by_id db i = find (\<lambda>u. pu_id u = i) (pd_users db)"

definition admin_by_email :: "admin_db \<Rightarrow> string \<Rightarrow> admin_user option" where
  "admin_by_email db email =
     (let normalized = py_lower (py_strip email) in find (\<lambda>u. py_lower (pu_email u) = normalized) (pd_users db))"

text \<open>The address is unique.\<close>

definition repo_create_admin ::
  "string \<Rightarrow> string option \<Rightarrow> string \<Rightarrow> bool \<Rightarrow> datetime option \<Rightarrow> admin_user admin_op" where
  "repo_create_admin email name password_hash is_active completed = (\<lambda>s.
     let address = py_lower (py_strip email);
         row = \<lparr>pu_id = ps_next_user s, pu_email = address, pu_name = strip_opt name,
           pu_password_hash = password_hash, pu_is_active = is_active, pu_role = ''admin'', pu_created_at = admin_now s,
           pu_deleted_at = None, pu_registration_completed_at = completed, pu_failed_login_attempts = 0,
           pu_security_version = 0, pu_mfa_enabled = False, pu_mfa_secret = None, pu_mfa_pending_secret = None,
           pu_mfa_pending_expires_at = None, pu_recovery_hashes = []\<rparr>;
         s' = s\<lparr>ps_next_user := ps_next_user s + 1\<rparr>
     in if list_ex (\<lambda>u. pu_email u = address) (pd_users (ps_db s)) then (Inl (Auth_integrity_error ''email''), s')
        else (Inr row, s'\<lparr>ps_db := (ps_db s)\<lparr>pd_users := pd_users (ps_db s) @ [row]\<rparr>\<rparr>))"

text \<open>The arguments of \<open>update_user\<close> that the service passes; \<open>None\<close> keeps the column.\<close>

record admin_change =
  ac_email :: "string option"
  ac_name :: "string option"
  ac_is_active :: "bool option"
  ac_password_hash :: "string option"
  ac_completed :: "datetime option"
  ac_failed_logins :: "int option"
  ac_bump_version :: bool

definition no_change :: admin_change where
  "no_change = \<lparr>ac_email = None, ac_name = None, ac_is_active = None, ac_password_hash = None, ac_completed = None,
     ac_failed_logins = None, ac_bump_version = False\<rparr>"

definition change_admin :: "admin_change \<Rightarrow> admin_user \<Rightarrow> admin_user" where
  "change_admin c u = u\<lparr>
     pu_email := (case ac_email c of None \<Rightarrow> pu_email u | Some x \<Rightarrow> py_lower (py_strip x)),
     pu_name := (case ac_name c of None \<Rightarrow> pu_name u | Some x \<Rightarrow> strip_opt (Some x)),
     pu_is_active := with_default (ac_is_active c) (pu_is_active u),
     pu_password_hash := with_default (ac_password_hash c) (pu_password_hash u),
     pu_registration_completed_at := (case ac_completed c of None \<Rightarrow> pu_registration_completed_at u | Some t \<Rightarrow> Some t),
     pu_failed_login_attempts := with_default (ac_failed_logins c) (pu_failed_login_attempts u),
     pu_security_version := pu_security_version u + (if ac_bump_version c then 1 else 0)\<rparr>"

definition put_admin :: "int \<Rightarrow> (admin_user \<Rightarrow> admin_user) \<Rightarrow> admin_db \<Rightarrow> admin_db" where
  "put_admin i f db = db\<lparr>pd_users := update_where (\<lambda>u. pu_id u = i) f (pd_users db)\<rparr>"

definition repo_update_admin :: "int \<Rightarrow> admin_change \<Rightarrow> admin_user option admin_op" where
  "repo_update_admin i c = (\<lambda>s.
     case admin_by_id (ps_db s) i of
       None \<Rightarrow> (Inr None, s)
     | Some u \<Rightarrow>
         if list_ex (\<lambda>x. pu_id x \<noteq> i \<and> pu_email x = pu_email (change_admin c u)) (pd_users (ps_db s)) \<and> ac_email c \<noteq> None
         then (Inl (Auth_integrity_error ''email''), s)
         else (Inr (Some (change_admin c u)), s\<lparr>ps_db := put_admin i (change_admin c) (ps_db s)\<rparr>))"

text \<open>The operations on one row answer the changed row, or nothing when there is none.\<close>

definition change_row :: "int \<Rightarrow> (datetime \<Rightarrow> admin_user \<Rightarrow> admin_user) \<Rightarrow> admin_user option admin_op" where
  "change_row i f = (\<lambda>s. case admin_by_id (ps_db s) i of
       None \<Rightarrow> (Inr None, s)
     | Some u \<Rightarrow> (Inr (Some (f (admin_now s) u)), s\<lparr>ps_db := put_admin i (f (admin_now s)) (ps_db s)\<rparr>))"

definition upsert_pending_mfa_secret :: "int \<Rightarrow> string \<Rightarrow> datetime \<Rightarrow> admin_user option admin_op" where
  "upsert_pending_mfa_secret i secret expires_at =
     change_row i (\<lambda>_ u. u\<lparr>pu_mfa_pending_secret := Some secret, pu_mfa_pending_expires_at := Some expires_at\<rparr>)"

definition enable_mfa :: "int \<Rightarrow> string \<Rightarrow> string list \<Rightarrow> admin_user option admin_op" where
  "enable_mfa i secret hashes = change_row i (\<lambda>_ u. u\<lparr>pu_mfa_enabled := True, pu_mfa_secret := Some secret,
     pu_mfa_pending_secret := None, pu_mfa_pending_expires_at := None,
     pu_recovery_hashes := filter (\<lambda>h. py_strip h \<noteq> []) hashes, pu_security_version := pu_security_version u + 1\<rparr>)"

definition repo_disable_mfa :: "int \<Rightarrow> admin_user option admin_op" where
  "repo_disable_mfa i = change_row i (\<lambda>_ u. u\<lparr>pu_mfa_enabled := False, pu_mfa_secret := None,
     pu_mfa_pending_secret := None, pu_mfa_pending_expires_at := None, pu_recovery_hashes := [],
     pu_security_version := pu_security_version u + 1\<rparr>)"

definition consume_mfa_recovery_code :: "int \<Rightarrow> string \<Rightarrow> bool admin_op" where
  "consume_mfa_recovery_code i code_hash = (\<lambda>s. case admin_by_id (ps_db s) i of
       None \<Rightarrow> (Inr False, s)
     | Some u \<Rightarrow>
         let hashes = filter (\<lambda>h. py_strip h \<noteq> []) (pu_recovery_hashes u) in
         if code_hash \<notin> set hashes then (Inr False, s)
         else (Inr True, s\<lparr>ps_db := put_admin i (\<lambda>u. u\<lparr>pu_recovery_hashes := filter (\<lambda>h. h \<noteq> code_hash) hashes\<rparr>) (ps_db s)\<rparr>))"

definition repo_delete_admin :: "int \<Rightarrow> bool admin_op" where
  "repo_delete_admin i = py_bind (change_row i (\<lambda>now u. u\<lparr>pu_is_active := False, pu_deleted_at := Some now,
     pu_security_version := pu_security_version u + 1\<rparr>)) (\<lambda>row. py_return (row \<noteq> None))"

section \<open>Invitations\<close>

text \<open>The invitations that were still open are closed; the hash is unique.\<close>

definition create_admin_invite :: "int \<Rightarrow> string \<Rightarrow> datetime \<Rightarrow> unit admin_op" where
  "create_admin_invite user token_hash expires_at = (\<lambda>s.
     let row = \<lparr>iv_id = ps_next_invite s, iv_user_id = user, iv_token_hash = token_hash, iv_expires_at = expires_at,
           iv_used_at = None\<rparr>;
         s' = s\<lparr>ps_next_invite := ps_next_invite s + 1\<rparr>
     in if list_ex (\<lambda>i. iv_token_hash i = token_hash) (pd_invites (ps_db s))
        then (Inl (Auth_integrity_error ''token_hash''), s')
        else (Inr (), s'\<lparr>ps_db := (ps_db s)\<lparr>pd_invites :=
          update_where (\<lambda>i. iv_user_id i = user \<and> iv_used_at i = None) (\<lambda>i. i\<lparr>iv_used_at := Some (admin_now s)\<rparr>)
            (pd_invites (ps_db s)) @ [row]\<rparr>\<rparr>))"

definition get_admin_invite :: "admin_db \<Rightarrow> string \<Rightarrow> invite_token option" where
  "get_admin_invite db token_hash = find (\<lambda>i. iv_token_hash i = token_hash) (pd_invites db)"

definition mark_invite_used :: "int \<Rightarrow> unit admin_op" where
  "mark_invite_used i = admin_update (\<lambda>now db. db\<lparr>pd_invites :=
     update_where (\<lambda>r. iv_id r = i) (\<lambda>r. r\<lparr>iv_used_at := Some now\<rparr>) (pd_invites db)\<rparr>)"

section \<open>Refresh sessions\<close>

definition create_refresh_session ::
  "int \<Rightarrow> string \<Rightarrow> string \<Rightarrow> datetime \<Rightarrow> string option \<Rightarrow> string option \<Rightarrow> unit admin_op" where
  "create_refresh_session user jti token_hash expires_at ip user_agent = (\<lambda>s.
     let row = \<lparr>ss_id = ps_next_session s, ss_user_id = user, ss_jti = jti, ss_token_hash = token_hash,
           ss_valid = True, ss_ip = ip, ss_user_agent = user_agent, ss_expires_at = expires_at\<rparr>;
         s' = s\<lparr>ps_next_session := ps_next_session s + 1\<rparr>
     in if list_ex (\<lambda>r. ss_jti r = jti) (pd_sessions (ps_db s)) then (Inl (Auth_integrity_error ''jti''), s')
        else (Inr (), s'\<lparr>ps_db := (ps_db s)\<lparr>pd_sessions := pd_sessions (ps_db s) @ [row]\<rparr>\<rparr>))"

definition refresh_session_by_jti :: "admin_db \<Rightarrow> string \<Rightarrow> session option" where
  "refresh_session_by_jti db jti = find (\<lambda>r. ss_jti r = jti) (pd_sessions db)"

definition update_refresh_session :: "session \<Rightarrow> unit admin_op" where
  "update_refresh_session t = admin_update (\<lambda>_ db. db\<lparr>pd_sessions := update_where (\<lambda>r. ss_id r = ss_id t)
     (\<lambda>r. r\<lparr>ss_valid := ss_valid t, ss_expires_at := ss_expires_at t, ss_ip := ss_ip t, ss_user_agent := ss_user_agent t\<rparr>)
     (pd_sessions db)\<rparr>)"

definition invalidate_all_refresh_sessions :: "int \<Rightarrow> unit admin_op" where
  "invalidate_all_refresh_sessions user = admin_update (\<lambda>_ db. db\<lparr>pd_sessions :=
     update_where (\<lambda>r. ss_user_id r = user \<and> ss_valid r) invalidate_session (pd_sessions db)\<rparr>)"

section \<open>Counters of second factors\<close>

definition mfa_key :: "mfa_attempt \<Rightarrow> string \<times> string" where
  "mfa_key a = (mt_scope a, mt_scope_key a)"

definition mfa_row :: "admin_db \<Rightarrow> string \<times> string \<Rightarrow> mfa_attempt option" where
  "mfa_row db k = find (\<lambda>a. mfa_key a = k) (pd_attempts db)"

definition in_future :: "datetime option \<Rightarrow> datetime \<Rightarrow> bool" where
  "in_future t now \<longleftrightarrow> (case t of None \<Rightarrow> False | Some x \<Rightarrow> now < x)"

definition stripped_scope :: "string \<times> string \<Rightarrow> string \<times> string" where
  "stripped_scope k = (py_strip (fst k), py_strip (snd k))"

definition mfa_scope_blocked :: "admin_db \<Rightarrow> datetime \<Rightarrow> string \<times> string \<Rightarrow> bool" where
  "mfa_scope_blocked db now scope =
     (let k = stripped_scope scope in
      if fst k = [] \<or> snd k = [] then False
      else (case mfa_row db k of None \<Rightarrow> False | Some row \<Rightarrow> in_future (mt_blocked_until row) now))"

text \<open>One failed attempt on a row that is not blocked: it counts within the window and opens a new one after it.\<close>

definition count_mfa_failure :: "int \<Rightarrow> int \<Rightarrow> int \<Rightarrow> datetime \<Rightarrow> mfa_attempt \<Rightarrow> mfa_attempt" where
  "count_mfa_failure max_attempts window_minutes lock_minutes now row =
     (let row = (if mt_window_started_at row + minutes window_minutes \<le> now
                 then row\<lparr>mt_attempts := 1, mt_window_started_at := now\<rparr>
                 else row\<lparr>mt_attempts := mt_attempts row + 1\<rparr>)
      in row\<lparr>mt_blocked_until := (if mt_attempts row \<ge> max_attempts then Some (now + minutes lock_minutes) else None)\<rparr>)"

definition record_mfa_failure :: "string \<times> string \<Rightarrow> int \<Rightarrow> int \<Rightarrow> int \<Rightarrow> bool admin_op" where
  "record_mfa_failure scope max_attempts window_minutes lock_minutes = (\<lambda>s.
     let k = stripped_scope scope; now = admin_now s in
     if fst k = [] \<or> snd k = [] then (Inr False, s)
     else
       let row = (case mfa_row (ps_db s) k of
             Some row \<Rightarrow> row
           | None \<Rightarrow> \<lparr>mt_scope = fst k, mt_scope_key = snd k, mt_attempts = 0, mt_window_started_at = now, mt_blocked_until = None\<rparr>)
       in if in_future (mt_blocked_until row) now then (Inr True, s)
          else
            let row' = count_mfa_failure (max 1 max_attempts) (max 1 window_minutes) (max 1 lock_minutes) now row
            in (Inr (mt_attempts row' \<ge> max 1 max_attempts),
                s\<lparr>ps_db := (ps_db s)\<lparr>pd_attempts := upsert_row mfa_key row' (pd_attempts (ps_db s))\<rparr>\<rparr>))"

definition reset_mfa_attempts :: "(string \<times> string) list \<Rightarrow> unit admin_op" where
  "reset_mfa_attempts scopes = admin_update (\<lambda>now db.
     let ks = filter (\<lambda>k. fst k \<noteq> [] \<and> snd k \<noteq> []) (map stripped_scope scopes) in
     db\<lparr>pd_attempts := update_where (\<lambda>a. mfa_key a \<in> set ks)
       (\<lambda>a. a\<lparr>mt_attempts := 0, mt_window_started_at := now, mt_blocked_until := None\<rparr>) (pd_attempts db)\<rparr>)"

section \<open>Blocked addresses\<close>

definition ban_row :: "admin_db \<Rightarrow> string \<Rightarrow> ip_ban option" where
  "ban_row db ip = find (\<lambda>b. bn_ip b = ip) (pd_bans db)"

definition repo_is_ip_banned :: "admin_db \<Rightarrow> datetime \<Rightarrow> string option \<Rightarrow> bool" where
  "repo_is_ip_banned db now ip =
     (let normalized = py_strip (str_or ip []) in
      if normalized = [] then False
      else (case ban_row db normalized of
          None \<Rightarrow> False
        | Some row \<Rightarrow> bn_released_at row = None \<and> (bn_expires_at row = None \<or> in_future (bn_expires_at row) now)))"

definition upsert_ip_ban :: "string \<Rightarrow> string option \<Rightarrow> int option \<Rightarrow> datetime option \<Rightarrow> ip_ban admin_op" where
  "upsert_ip_ban ip reason created_by expires_at = (\<lambda>s.
     let normalized = py_strip ip; now = admin_now s;
         row = (case ban_row (ps_db s) normalized of
             None \<Rightarrow> \<lparr>bn_ip = normalized, bn_reason = strip_opt reason, bn_created_at = now, bn_created_by = created_by,
               bn_expires_at = expires_at, bn_released_at = None\<rparr>
           | Some row \<Rightarrow> row\<lparr>bn_reason := (if strip_opt reason = None then bn_reason row else strip_opt reason),
               bn_created_by := created_by, bn_created_at := now, bn_expires_at := expires_at, bn_released_at := None\<rparr>)
     in (Inr row, s\<lparr>ps_db := (ps_db s)\<lparr>pd_bans := upsert_row bn_ip row (pd_bans (ps_db s))\<rparr>\<rparr>))"

definition repo_release_ip_ban :: "string \<Rightarrow> bool admin_op" where
  "repo_release_ip_ban ip = (\<lambda>s.
     let normalized = py_strip ip in
     case ban_row (ps_db s) normalized of
       None \<Rightarrow> (Inr False, s)
     | Some row \<Rightarrow> (Inr True, s\<lparr>ps_db := (ps_db s)\<lparr>pd_bans :=
         upsert_row bn_ip (row\<lparr>bn_released_at := Some (admin_now s)\<rparr>) (pd_bans (ps_db s))\<rparr>\<rparr>))"

section \<open>Alerts\<close>

text \<open>A signal of the monitoring: its name, severity and value.\<close>

record attack_signal =
  sg_signal :: string
  sg_severity :: "string option"
  sg_value :: int

definition alert_key_of :: "attack_signal \<Rightarrow> string" where
  "alert_key_of x = ''security:'' @ py_lower (py_strip (str_or (sg_severity x) ''medium'')) @ '':'' @ py_strip (sg_signal x)"

text \<open>A new alert is open; one that is known is opened again, also after it was acknowledged.\<close>

definition upsert_security_alert :: "attack_signal \<Rightarrow> datetime \<Rightarrow> security_alert admin_op" where
  "upsert_security_alert x now = (\<lambda>s.
     case find (\<lambda>a. sa_key a = alert_key_of x) (pd_alerts (ps_db s)) of
       None \<Rightarrow>
         let row = \<lparr>sa_id = ps_next_alert s, sa_key = alert_key_of x,
             sa_severity = py_lower (py_strip (str_or (sg_severity x) ''medium'')), sa_signal = py_strip (sg_signal x),
             sa_value = sg_value x, sa_hit_count = 1, sa_status = ''open'', sa_first_seen_at = now, sa_last_seen_at = now,
             sa_acknowledged = None\<rparr>
         in (Inr row, s\<lparr>ps_next_alert := ps_next_alert s + 1, ps_db := (ps_db s)\<lparr>pd_alerts := pd_alerts (ps_db s) @ [row]\<rparr>\<rparr>)
     | Some a \<Rightarrow>
         let row = a\<lparr>sa_value := sg_value x, sa_hit_count := sa_hit_count a + 1, sa_last_seen_at := now,
             sa_status := ''open'', sa_acknowledged := None\<rparr>
         in (Inr row, s\<lparr>ps_db := (ps_db s)\<lparr>pd_alerts := upsert_row sa_key row (pd_alerts (ps_db s))\<rparr>\<rparr>))"

definition upsert_security_alerts :: "attack_signal list \<Rightarrow> datetime \<Rightarrow> security_alert list admin_op" where
  "upsert_security_alerts signals now =
     py_fold (\<lambda>x alerts. py_bind (upsert_security_alert x now) (\<lambda>row. py_return (alerts @ [row]))) signals []"

definition repo_acknowledge_alert :: "int \<Rightarrow> int option \<Rightarrow> security_alert option admin_op" where
  "repo_acknowledge_alert i admin = (\<lambda>s.
     case find (\<lambda>a. sa_id a = i) (pd_alerts (ps_db s)) of
       None \<Rightarrow> (Inr None, s)
     | Some a \<Rightarrow>
         let row = a\<lparr>sa_status := ''acknowledged'', sa_acknowledged := Some (admin_now s, admin)\<rparr>
         in (Inr (Some row), s\<lparr>ps_db := (ps_db s)\<lparr>pd_alerts := update_where (\<lambda>a. sa_id a = i) (\<lambda>_. row) (pd_alerts (ps_db s))\<rparr>\<rparr>))"

end
