(* ===== verification/Admin_Service.thy ===== *)
theory Admin_Service
  imports Admin_Store Tenant_Slug
begin

text \<open>
  The services of the platform administration (\<open>backend/admin/service/platform_admin_service.py\<close>): the first
  administrator, login with a second factor and its locks, refresh and logout, the administration of administrators,
  passwords, blocked addresses and alerts. \<open>email.utils.parseaddr\<close>, which reads an address out of a header of RFC 5322,
  is the field \<open>px_parseaddr\<close>. A raised \<open>ValueError\<close> carries its code. A letter whose capital lies above U+00FF
  (U+00B5 and U+00FF) is left as it is by \<open>py_upper\<close>.
\<close>

section \<open>Environment\<close>

text \<open>The settings as they are read; 0 stands for a setting that is absent or empty.\<close>

record admin_settings =
  pg_bootstrap_email :: string
  pg_bootstrap_password :: string
  pg_max_failed_logins :: int
  pg_mfa_window_minutes :: int
  pg_mfa_lock_minutes :: int
  pg_totp_per_user :: int
  pg_totp_per_ip :: int
  pg_recovery_per_user :: int
  pg_recovery_per_ip :: int
  pg_alert_email :: string
  pg_frontend_base_url :: string

record admin_env =
  px_auth :: auth_env
  px_parseaddr :: "string \<Rightarrow> string"
  px_settings :: admin_settings

definition py_upper :: "string \<Rightarrow> string" where
  "py_upper s = concat (map (\<lambda>c. if of_char c = (223 :: nat) then ''SS''
     else if in_range 97 122 c \<or> (in_range 224 254 c \<and> of_char c \<noteq> (247 :: nat)) then [char_of ((of_char c :: nat) - 32)]
     else [c]) s)"

section \<open>Addresses and links\<close>

definition normalize_email :: "admin_env \<Rightarrow> string \<Rightarrow> string" where
  "normalize_email e email = py_lower (py_strip (px_parseaddr e (py_strip email)))"

definition ensure_valid_email :: "admin_env \<Rightarrow> string \<Rightarrow> string admin_op" where
  "ensure_valid_email e email =
     (let normalized = normalize_email e email in
      if normalized = [] \<or> CHR ''@'' \<notin> set normalized \<or> CHR ''.'' \<notin> set (last (split_char CHR ''@'' normalized))
      then py_raise (Auth_value_error ''invalid_email'') else py_return normalized)"

definition platform_admin_set_password_link :: "admin_env \<Rightarrow> string option \<Rightarrow> string \<Rightarrow> string" where
  "platform_admin_set_password_link e request_base_url token =
     (let base = rstrip_slash (py_strip (str_or (Some (pg_frontend_base_url (px_settings e))) (str_or request_base_url [])))
      in if base = [] then [] else base @ ''/platform-admin/set-password?token='' @ token)"

definition mail_admin :: "admin_mail \<Rightarrow> unit admin_op" where
  "mail_admin m = py_modify (\<lambda>s. s\<lparr>ps_mails := ps_mails s @ [m]\<rparr>)"

definition valid_password :: "admin_env \<Rightarrow> string \<Rightarrow> bool" where
  "valid_password e password \<longleftrightarrow> validate_password_policy (Some password) (ax_password_level (px_auth e)) = Some None"

definition bootstrap_first_admin :: "admin_env \<Rightarrow> unit admin_op" where
  "bootstrap_first_admin e =
     (let email = normalize_email e (pg_bootstrap_email (px_settings e));
          password = pg_bootstrap_password (px_settings e) in
      if email = [] \<or> password = [] then py_return ()
      else py_bind (admin_query (\<lambda>db. admin_by_email db email)) (\<lambda>existing.
        if existing \<noteq> None then py_return ()
        else if \<not> valid_password e password
        then py_raise (Auth_value_error ''Invalid platform admin bootstrap password'')
        else py_bind (on_admin_process (hash_password (px_auth e) password)) (\<lambda>password_hash.
          py_bind (py_gets admin_now) (\<lambda>now.
          py_bind (repo_create_admin email (Some ''Platform admin'') password_hash True (Some now)) (\<lambda>_. py_return ())))))"

section \<open>Second factors\<close>

definition normalize_mfa_code :: "string option \<Rightarrow> string" where
  "normalize_mfa_code code = py_upper (filter py_isalnum (str_or code []))"

definition recovery_hash :: "admin_env \<Rightarrow> string \<Rightarrow> string" where
  "recovery_hash e code = ax_sha256 (px_auth e) (py_upper (py_strip code))"

primrec new_recovery_codes :: "admin_env \<Rightarrow> nat \<Rightarrow> string list auth_op" where
  "new_recovery_codes e 0 = py_return []"
| "new_recovery_codes e (Suc n) =
     py_bind (draw (ax_token_hex (px_auth e))) (\<lambda>code.
     py_bind (new_recovery_codes e n) (\<lambda>codes. py_return (py_upper code # codes)))"

definition is_mfa_enabled :: "admin_user \<Rightarrow> bool" where
  "is_mfa_enabled u \<longleftrightarrow> pu_mfa_enabled u \<and> str_or (pu_mfa_secret u) [] \<noteq> []"

datatype mfa_kind = Totp | Recovery

definition mfa_attempt_kind :: "string option \<Rightarrow> mfa_kind" where
  "mfa_attempt_kind code = (if length (normalize_mfa_code code) \<ge> 8 then Recovery else Totp)"

definition normalized_admin_ip :: "string option \<Rightarrow> string" where
  "normalized_admin_ip ip = str_or (Some (take 64 (py_strip (str_or ip ''unknown'')))) ''unknown''"

definition user_scope :: "mfa_kind \<Rightarrow> int \<Rightarrow> string \<times> string" where
  "user_scope k user = (case k of Recovery \<Rightarrow> ''platform_admin_mfa_recovery_user'' | Totp \<Rightarrow> ''platform_admin_mfa_totp_user'',
     str_of_int user)"

definition ip_scope :: "mfa_kind \<Rightarrow> string option \<Rightarrow> string \<times> string" where
  "ip_scope k ip = (case k of Recovery \<Rightarrow> ''platform_admin_mfa_recovery_ip'' | Totp \<Rightarrow> ''platform_admin_mfa_totp_ip'',
     normalized_admin_ip ip)"

definition or_default :: "int \<Rightarrow> int \<Rightarrow> int" where
  "or_default x d = max 1 (if x = 0 then d else x)"

definition mfa_window :: "admin_env \<Rightarrow> int" where
  "mfa_window e = or_default (pg_mfa_window_minutes (px_settings e)) 15"

definition mfa_lock :: "admin_env \<Rightarrow> int" where
  "mfa_lock e = or_default (pg_mfa_lock_minutes (px_settings e)) 30"

definition mfa_user_limit :: "admin_env \<Rightarrow> mfa_kind \<Rightarrow> int" where
  "mfa_user_limit e k = (case k of Recovery \<Rightarrow> or_default (pg_recovery_per_user (px_settings e)) 3
     | Totp \<Rightarrow> or_default (pg_totp_per_user (px_settings e)) 5)"

definition mfa_ip_limit :: "admin_env \<Rightarrow> mfa_kind \<Rightarrow> int" where
  "mfa_ip_limit e k = (case k of Recovery \<Rightarrow> or_default (pg_recovery_per_ip (px_settings e)) 6
     | Totp \<Rightarrow> or_default (pg_totp_per_ip (px_settings e)) 10)"

definition mfa_blocked :: "admin_state \<Rightarrow> int \<Rightarrow> string option \<Rightarrow> mfa_kind \<Rightarrow> bool" where
  "mfa_blocked s user ip k \<longleftrightarrow>
     mfa_scope_blocked (ps_db s) (admin_now s) (user_scope k user) \<or>
     mfa_scope_blocked (ps_db s) (admin_now s) (ip_scope k ip)"

definition ensure_mfa_not_blocked :: "int \<Rightarrow> string option \<Rightarrow> mfa_kind \<Rightarrow> unit admin_op" where
  "ensure_mfa_not_blocked user ip k = py_bind (py_gets (\<lambda>s. mfa_blocked s user ip k)) (\<lambda>blocked.
     if blocked then py_raise (Auth_value_error ''platform_admin_mfa_locked'') else py_return ())"

text \<open>Both counters are raised; the answer is whether one of them is blocked now.\<close>

definition record_mfa_failures :: "admin_env \<Rightarrow> int \<Rightarrow> string option \<Rightarrow> mfa_kind \<Rightarrow> bool admin_op" where
  "record_mfa_failures e user ip k =
     py_bind (record_mfa_failure (user_scope k user) (mfa_user_limit e k) (mfa_window e) (mfa_lock e)) (\<lambda>a.
     py_bind (record_mfa_failure (ip_scope k ip) (mfa_ip_limit e k) (mfa_window e) (mfa_lock e)) (\<lambda>b.
     py_return (a \<or> b)))"

definition reset_all_mfa_attempts :: "int \<Rightarrow> string option \<Rightarrow> unit admin_op" where
  "reset_all_mfa_attempts user ip =
     reset_mfa_attempts [user_scope Totp user, ip_scope Totp ip, user_scope Recovery user, ip_scope Recovery ip]"

text \<open>A code is tried as a one-time password at any length, and as a recovery code from eight characters on.\<close>

definition verify_mfa :: "admin_env \<Rightarrow> admin_user \<Rightarrow> string option \<Rightarrow> bool admin_op" where
  "verify_mfa e u code =
     (let normalized = normalize_mfa_code code; secret = py_strip (str_or (pu_mfa_secret u) []) in
      if normalized = [] then py_return False
      else py_bind (py_gets admin_now) (\<lambda>now.
        case (if secret = [] then Inr False else verify_authenticator_code (px_auth e) now secret normalized) of
          Inl x \<Rightarrow> py_raise x
        | Inr True \<Rightarrow> py_return True
        | Inr False \<Rightarrow>
            if length normalized \<ge> 8 then consume_mfa_recovery_code (pu_id u) (recovery_hash e normalized)
            else py_return False))"

record mfa_status =
  ms_enabled :: bool
  ms_pending :: bool
  ms_recovery_codes_remaining :: nat

definition mfa_status_of :: "int \<Rightarrow> mfa_status admin_op" where
  "mfa_status_of user =
     py_bind (py_gets (\<lambda>s. (admin_by_id (ps_db s) user, admin_now s))) (\<lambda>(found, now).
     case found of
       None \<Rightarrow> py_raise (Auth_value_error ''user_not_found'')
     | Some u \<Rightarrow> py_return
         \<lparr>ms_enabled = is_mfa_enabled u,
          ms_pending = (str_or (pu_mfa_pending_secret u) [] \<noteq> [] \<and> in_future (pu_mfa_pending_expires_at u) now),
          ms_recovery_codes_remaining = length (filter (\<lambda>h. py_strip h \<noteq> []) (pu_recovery_hashes u))\<rparr>)"

text \<open>The new secret and the end of its life; the link for the application shows the secret.\<close>

definition start_mfa_setup :: "admin_env \<Rightarrow> int \<Rightarrow> (string \<times> datetime) admin_op" where
  "start_mfa_setup e user =
     py_bind (admin_query (\<lambda>db. admin_by_id db user)) (\<lambda>found.
     if found = None then py_raise (Auth_value_error ''user_not_found'')
     else py_bind (on_admin_process (base32_secret (px_auth e))) (\<lambda>secret.
       py_bind (py_gets admin_now) (\<lambda>now.
       py_bind (upsert_pending_mfa_secret user secret (now + minutes 10)) (\<lambda>updated.
       if updated = None then py_raise (Auth_value_error ''user_not_found'') else py_return (secret, now + minutes 10)))))"

definition confirm_mfa_setup :: "admin_env \<Rightarrow> int \<Rightarrow> string \<Rightarrow> string list admin_op" where
  "confirm_mfa_setup e user code =
     py_bind (py_gets (\<lambda>s. (admin_by_id (ps_db s) user, admin_now s))) (\<lambda>(found, now).
     case found of
       None \<Rightarrow> py_raise (Auth_value_error ''user_not_found'')
     | Some u \<Rightarrow>
         let secret = py_strip (str_or (pu_mfa_pending_secret u) []) in
         if secret = [] \<or> \<not> in_future (pu_mfa_pending_expires_at u) now
         then py_raise (Auth_value_error ''mfa_setup_not_started'')
         else (case verify_authenticator_code (px_auth e) now secret code of
           Inl x \<Rightarrow> py_raise x
         | Inr False \<Rightarrow> py_raise (Auth_value_error ''invalid_mfa_code'')
         | Inr True \<Rightarrow>
             py_bind (on_admin_process (new_recovery_codes e 8)) (\<lambda>codes.
             py_bind (enable_mfa user secret (map (recovery_hash e) codes)) (\<lambda>updated.
             if updated = None then py_raise (Auth_value_error ''user_not_found'')
             else py_seq (invalidate_all_refresh_sessions user) (py_return codes)))))"

definition disable_mfa :: "admin_env \<Rightarrow> int \<Rightarrow> string \<Rightarrow> unit admin_op" where
  "disable_mfa e user password =
     py_bind (admin_query (\<lambda>db. admin_by_id db user)) (\<lambda>found.
     case found of
       None \<Rightarrow> py_raise (Auth_value_error ''user_not_found'')
     | Some u \<Rightarrow>
         if \<not> ax_verify_password (px_auth e) password (pu_password_hash u)
         then py_raise (Auth_value_error ''invalid_password'')
         else py_bind (repo_disable_mfa user) (\<lambda>updated.
           if updated = None then py_raise (Auth_value_error ''user_not_found'')
           else invalidate_all_refresh_sessions user))"

section \<open>Tokens\<close>

definition admin_claims :: "admin_env \<Rightarrow> string \<Rightarrow> datetime \<Rightarrow> string \<Rightarrow> int \<Rightarrow> int \<Rightarrow> string option \<Rightarrow> int \<Rightarrow> claims" where
  "admin_claims e typ' now jti user user_ver role life =
     \<lparr>cl_sub = Some (str_of_int user), cl_typ = Some typ', cl_jti = Some jti, cl_user_ver = user_ver,
      cl_tenant_ver = 0, cl_role = role, cl_al = False, cl_exp = now + minutes life, cl_iat = now, cl_nbf = now,
      cl_iss = tk_issuer (ax_tokens (px_auth e)), cl_aud = tk_audience (ax_tokens (px_auth e))\<rparr>"

definition make_platform_admin_access :: "admin_env \<Rightarrow> int \<Rightarrow> int \<Rightarrow> string \<Rightarrow> (string \<times> string) auth_op" where
  "make_platform_admin_access e user user_ver role =
     py_bind (py_gets as_now) (\<lambda>now.
     py_bind (draw (ax_uuid (px_auth e))) (\<lambda>jti.
     py_return (ax_jwt_encode (px_auth e) (admin_claims e ''platform_admin_access'' now jti user user_ver (Some role)
       (tk_access_exp (ax_tokens (px_auth e)))), jti)))"

definition make_platform_admin_refresh_pair :: "admin_env \<Rightarrow> int \<Rightarrow> int \<Rightarrow> (string \<times> claims) auth_op" where
  "make_platform_admin_refresh_pair e user user_ver =
     py_bind (py_gets as_now) (\<lambda>now.
     py_bind (draw (ax_uuid (px_auth e))) (\<lambda>jti.
     let payload = admin_claims e ''platform_admin_refresh'' now jti user user_ver None (tk_refresh_exp (ax_tokens (px_auth e)))
     in py_return (ax_jwt_encode (px_auth e) payload, payload)))"

record admin_tokens =
  at_access :: string
  at_refresh :: string
  at_access_jti :: string
  at_user :: admin_user

definition issue_access_and_refresh :: "admin_env \<Rightarrow> admin_user \<Rightarrow> string option \<Rightarrow> string option \<Rightarrow> admin_tokens admin_op" where
  "issue_access_and_refresh e u ip ua =
     py_bind (on_admin_process (make_platform_admin_access e (pu_id u) (pu_security_version u)
         (str_or (Some (pu_role u)) ''admin''))) (\<lambda>(access_token, access_jti).
     py_bind (on_admin_process (make_platform_admin_refresh_pair e (pu_id u) (pu_security_version u))) (\<lambda>(refresh_token, payload).
     py_seq (create_refresh_session (pu_id u) (str_or (cl_jti payload) []) (hash_token (px_auth e) refresh_token)
         (cl_exp payload) ip ua)
       (py_return \<lparr>at_access = access_token, at_refresh = refresh_token, at_access_jti = access_jti, at_user = u\<rparr>)))"

section \<open>Login\<close>

definition alert_recipient :: "admin_env \<Rightarrow> string" where
  "alert_recipient e = (if ax_email_service (px_auth e) then py_strip (pg_alert_email (px_settings e)) else [])"

definition wrong_password :: "admin_env \<Rightarrow> admin_user \<Rightarrow> unit admin_op" where
  "wrong_password e u =
     (let failures = pu_failed_login_attempts u + 1;
          should_lock = (failures \<ge> max 1 (pg_max_failed_logins (px_settings e))) in
      py_bind (repo_update_admin (pu_id u) (no_change\<lparr>ac_failed_logins := Some failures,
          ac_is_active := (if should_lock then Some False else None), ac_bump_version := should_lock\<rparr>)) (\<lambda>_. py_return ()))"

text \<open>The alert of a lock-out and the lock itself: the sessions end and, when the allowlist answers, the tokens.\<close>

definition mfa_lockout :: "admin_env \<Rightarrow> web_env \<Rightarrow> admin_user \<Rightarrow> string option \<Rightarrow> mfa_kind \<Rightarrow> unit admin_op" where
  "mfa_lockout e wx u ip k =
     py_seq (invalidate_all_refresh_sessions (pu_id u))
    (py_seq (py_try (on_admin_process (remove_by_user wx None (pu_id u))) (\<lambda>_. py_return ()))
    (py_seq (if alert_recipient e = [] then py_return ()
             else mail_admin (Admin_lock_alert (alert_recipient e) (pu_email u) (case k of Recovery \<Rightarrow> ''recovery'' | Totp \<Rightarrow> ''totp'')))
      (py_raise (Auth_value_error ''platform_admin_mfa_locked''))))"

definition check_second_factor ::
  "admin_env \<Rightarrow> web_env \<Rightarrow> admin_user \<Rightarrow> string option \<Rightarrow> string option \<Rightarrow> unit admin_op" where
  "check_second_factor e wx u ip code =
     (if \<not> is_mfa_enabled u then py_return ()
      else if normalize_mfa_code code = [] then py_raise (Auth_value_error ''platform_admin_mfa_required'')
      else
        let k = mfa_attempt_kind code in
        py_seq (ensure_mfa_not_blocked (pu_id u) ip k)
       (py_bind (verify_mfa e u code) (\<lambda>ok.
        if \<not> ok then
          py_bind (record_mfa_failures e (pu_id u) ip k) (\<lambda>blocked_now.
          if blocked_now then mfa_lockout e wx u ip k
          else py_raise (Auth_value_error ''platform_admin_mfa_invalid''))
        else reset_all_mfa_attempts (pu_id u) ip)))"

definition admin_login ::
  "admin_env \<Rightarrow> web_env \<Rightarrow> string \<Rightarrow> string \<Rightarrow> string option \<Rightarrow> string option \<Rightarrow> string option \<Rightarrow> admin_tokens option admin_op" where
  "admin_login e wx email password ip ua code =
     py_bind (admin_query (\<lambda>db. admin_by_email db (normalize_email e email))) (\<lambda>found.
     case found of
       None \<Rightarrow> py_return None
     | Some u \<Rightarrow>
         if \<not> pu_is_active u \<or> pu_deleted_at u \<noteq> None then py_return None
         else if \<not> ax_verify_password (px_auth e) password (pu_password_hash u)
         then py_seq (wrong_password e u) (py_return None)
         else
           py_seq (check_second_factor e wx u ip code)
          (py_bind (repo_update_admin (pu_id u) (no_change\<lparr>ac_failed_logins := Some 0\<rparr>)) (\<lambda>updated.
           py_bind (issue_access_and_refresh e (with_default updated u) ip ua) (\<lambda>tokens.
           py_seq (if alert_recipient e = [] then py_return ()
                   else mail_admin (Admin_login_alert (alert_recipient e) (pu_email (at_user tokens))))
             (py_return (Some tokens))))))"

section \<open>Refresh, logout and the user of a token\<close>

text \<open>\<open>int(payload.get("sub"))\<close>, when it does not raise.\<close>

definition token_sub :: "claims \<Rightarrow> int option" where
  "token_sub payload = Option.bind (cl_sub payload) py_int"

definition admin_refresh ::
  "admin_env \<Rightarrow> string \<Rightarrow> string option \<Rightarrow> string option \<Rightarrow> admin_tokens option admin_op" where
  "admin_refresh e token ip ua =
     py_bind (py_gets (\<lambda>s. (ps_db s, admin_now s))) (\<lambda>(db, now).
     case verify (px_auth e) now token of
       Inl _ \<Rightarrow> py_return None
     | Inr payload \<Rightarrow>
         if cl_typ payload \<noteq> Some ''platform_admin_refresh'' then py_return None
         else (case token_sub payload of
           None \<Rightarrow> py_return None
         | Some user_id \<Rightarrow>
             (case refresh_session_by_jti db (str_or (cl_jti payload) []) of
                None \<Rightarrow> py_return None
              | Some t \<Rightarrow>
                  if \<not> ss_valid t \<or> is_expired_session now t then py_return None
                  else if ss_token_hash t \<noteq> hash_token (px_auth e) token
                  then py_seq (invalidate_all_refresh_sessions (ss_user_id t)) (py_return None)
                  else (case admin_by_id db user_id of
                    None \<Rightarrow> py_return None
                  | Some u \<Rightarrow>
                      if \<not> pu_is_active u \<or> pu_deleted_at u \<noteq> None \<or> cl_user_ver payload \<noteq> pu_security_version u
                      then py_return None
                      else py_seq (update_refresh_session (invalidate_session t))
                        (py_bind (issue_access_and_refresh e u ip ua) (\<lambda>tokens. py_return (Some tokens)))))))"

definition admin_logout :: "admin_env \<Rightarrow> string option \<Rightarrow> unit admin_op" where
  "admin_logout e token =
     (if str_or token [] = [] then py_return ()
      else py_bind (py_gets (\<lambda>s. (ps_db s, admin_now s))) (\<lambda>(db, now).
        case decode_ignore_exp (px_auth e) now (str_or token []) of
          Inl x \<Rightarrow> py_raise (token_error x)
        | Inr None \<Rightarrow> py_return ()
        | Inr (Some payload) \<Rightarrow>
            if cl_typ payload \<noteq> Some ''platform_admin_refresh'' then py_return ()
            else (case refresh_session_by_jti db (str_or (cl_jti payload) []) of
              None \<Rightarrow> py_return ()
            | Some t \<Rightarrow>
                if ss_token_hash t = hash_token (px_auth e) (str_or token [])
                then update_refresh_session (invalidate_session t) else py_return ())))"

definition verify_access_payload :: "admin_env \<Rightarrow> datetime \<Rightarrow> string \<Rightarrow> claims option" where
  "verify_access_payload e now token =
     (case verify (px_auth e) now token of
        Inl _ \<Rightarrow> None
      | Inr payload \<Rightarrow> if cl_typ payload = Some ''platform_admin_access'' then Some payload else None)"

definition resolve_token :: "admin_env \<Rightarrow> datetime \<Rightarrow> admin_db \<Rightarrow> string \<Rightarrow> admin_user option" where
  "resolve_token e now db token =
     (case verify_access_payload e now token of
        None \<Rightarrow> None
      | Some payload \<Rightarrow>
          (case token_sub payload of
             None \<Rightarrow> None
           | Some user_id \<Rightarrow>
               (case admin_by_id db user_id of
                  None \<Rightarrow> None
                | Some u \<Rightarrow>
                    if \<not> pu_is_active u \<or> pu_deleted_at u \<noteq> None \<or> cl_user_ver payload \<noteq> pu_security_version u
                    then None else Some u)))"

section \<open>Administrators\<close>

definition send_set_password_email :: "admin_env \<Rightarrow> int \<Rightarrow> string option \<Rightarrow> unit admin_op" where
  "send_set_password_email e user request_base_url =
     py_bind (admin_query (\<lambda>db. admin_by_id db user)) (\<lambda>found.
     case found of
       None \<Rightarrow> py_raise (Auth_value_error ''user_not_found'')
     | Some u \<Rightarrow>
         if pu_deleted_at u \<noteq> None then py_raise (Auth_value_error ''user_not_found'')
         else py_bind (on_admin_process (new_invite_token_payload (px_auth e))) (\<lambda>(raw_token, token_hash, expires_at).
           py_seq (create_admin_invite (pu_id u) token_hash expires_at)
             (let link = platform_admin_set_password_link e request_base_url raw_token in
              if link \<noteq> [] \<and> ax_email_service (px_auth e) then mail_admin (Admin_invite (pu_email u) link) else py_return ())))"

definition create_admin :: "admin_env \<Rightarrow> string \<Rightarrow> string \<Rightarrow> string option \<Rightarrow> admin_user admin_op" where
  "create_admin e email name request_base_url =
     py_bind (ensure_valid_email e email) (\<lambda>normalized.
     py_bind (admin_query (\<lambda>db. admin_by_email db normalized)) (\<lambda>existing.
     if existing \<noteq> None then py_raise (Auth_value_error ''email_already_exists'')
     else
       py_bind (on_admin_process (new_invite_token_payload (px_auth e))) (\<lambda>(raw_token, _, _).
       py_bind (on_admin_process (hash_password (px_auth e) raw_token)) (\<lambda>password_hash.
       py_bind (repo_create_admin normalized (Some name) password_hash False None) (\<lambda>u.
       py_seq (send_set_password_email e (pu_id u) request_base_url) (py_return u))))))"

definition update_admin ::
  "admin_env \<Rightarrow> int \<Rightarrow> string option \<Rightarrow> string option \<Rightarrow> bool option \<Rightarrow> admin_user admin_op" where
  "update_admin e user email name is_active =
     py_bind (admin_query (\<lambda>db. admin_by_id db user)) (\<lambda>found.
     case found of
       None \<Rightarrow> py_raise (Auth_value_error ''user_not_found'')
     | Some existing \<Rightarrow>
         if pu_deleted_at existing \<noteq> None then py_raise (Auth_value_error ''user_not_found'')
         else
           py_bind (if str_or email [] = [] then py_return None
                    else py_bind (ensure_valid_email e (str_or email [])) (\<lambda>x. py_return (Some x))) (\<lambda>normalized.
           py_bind (admin_query (\<lambda>db. Option.bind normalized (admin_by_email db))) (\<lambda>other.
           if normalized \<noteq> None \<and> normalized \<noteq> Some (normalize_email e (pu_email existing)) \<and>
              (case other of None \<Rightarrow> False | Some o' \<Rightarrow> pu_id o' \<noteq> user)
           then py_raise (Auth_value_error ''email_already_exists'')
           else
             py_bind (repo_update_admin user (no_change\<lparr>ac_email := normalized, ac_name := name,
                 ac_is_active := is_active, ac_bump_version := (is_active = Some False)\<rparr>)) (\<lambda>updated.
             case updated of None \<Rightarrow> py_raise (Auth_value_error ''user_not_found'') | Some u \<Rightarrow> py_return u))))"

definition delete_admin :: "int \<Rightarrow> int \<Rightarrow> unit admin_op" where
  "delete_admin user current_user_id =
     (if user = current_user_id then py_raise (Auth_value_error ''cannot_delete_self'')
      else py_bind (repo_delete_admin user) (\<lambda>ok.
        if \<not> ok then py_raise (Auth_value_error ''user_not_found'') else invalidate_all_refresh_sessions user))"

definition update_admin_profile :: "int \<Rightarrow> string \<Rightarrow> admin_user admin_op" where
  "update_admin_profile user name =
     py_bind (repo_update_admin user (no_change\<lparr>ac_name := Some name\<rparr>)) (\<lambda>updated.
     case updated of None \<Rightarrow> py_raise (Auth_value_error ''user_not_found'') | Some u \<Rightarrow> py_return u)"

definition change_admin_password :: "admin_env \<Rightarrow> int \<Rightarrow> string \<Rightarrow> string \<Rightarrow> unit admin_op" where
  "change_admin_password e user current_password new_password =
     py_bind (admin_query (\<lambda>db. admin_by_id db user)) (\<lambda>found.
     if (case found of None \<Rightarrow> True | Some u \<Rightarrow> \<not> ax_verify_password (px_auth e) current_password (pu_password_hash u))
     then py_raise (Auth_value_error ''invalid_current_password'')
     else if \<not> valid_password e new_password then py_raise (Auth_value_error ''weak_password'')
     else
       py_bind (on_admin_process (hash_password (px_auth e) new_password)) (\<lambda>password_hash.
       py_bind (repo_update_admin user (no_change\<lparr>ac_password_hash := Some password_hash, ac_bump_version := True\<rparr>)) (\<lambda>_.
       invalidate_all_refresh_sessions user)))"

text \<open>\<open>"invalid"\<close>, \<open>"expired"\<close> or \<open>"valid"\<close>.\<close>

definition validate_admin_password_token :: "admin_env \<Rightarrow> string \<Rightarrow> string admin_op" where
  "validate_admin_password_token e token =
     py_bind (py_gets (\<lambda>s. (get_admin_invite (ps_db s) (ax_sha256 (px_auth e) token), admin_now s))) (\<lambda>(rec, now).
     case rec of
       None \<Rightarrow> py_return ''invalid''
     | Some r \<Rightarrow>
         if iv_used_at r \<noteq> None then py_return ''invalid''
         else if iv_expires_at r < now then py_return ''expired'' else py_return ''valid'')"

definition set_admin_password :: "admin_env \<Rightarrow> string \<Rightarrow> string \<Rightarrow> unit admin_op" where
  "set_admin_password e token password =
     py_bind (py_gets (\<lambda>s. (get_admin_invite (ps_db s) (ax_sha256 (px_auth e) token), admin_now s))) (\<lambda>(rec, now).
     case rec of
       None \<Rightarrow> py_raise (Auth_value_error ''invalid_token'')
     | Some r \<Rightarrow>
         if iv_used_at r \<noteq> None then py_raise (Auth_value_error ''invalid_token'')
         else if iv_expires_at r < now then py_raise (Auth_value_error ''expired_token'')
         else if \<not> valid_password e password then py_raise (Auth_value_error ''weak_password'')
         else
           py_bind (on_admin_process (hash_password (px_auth e) password)) (\<lambda>password_hash.
           py_bind (repo_update_admin (iv_user_id r) (no_change\<lparr>ac_password_hash := Some password_hash,
               ac_is_active := Some True, ac_completed := Some now, ac_failed_logins := Some 0, ac_bump_version := True\<rparr>)) (\<lambda>_.
           py_seq (mark_invite_used (iv_id r)) (invalidate_all_refresh_sessions (iv_user_id r)))))"

section \<open>Blocked addresses and alerts\<close>

definition ban_ip :: "string \<Rightarrow> string option \<Rightarrow> int option \<Rightarrow> int option \<Rightarrow> (ip_ban \<times> bool) admin_op" where
  "ban_ip ip reason expires_hours admin =
     (if py_strip ip = [] then py_raise (Auth_value_error ''invalid_ip'')
      else py_bind (py_gets admin_now) (\<lambda>now.
        py_bind (upsert_ip_ban (py_strip ip) reason admin
          (case expires_hours of None \<Rightarrow> None | Some h \<Rightarrow> if h = 0 then None else Some (now + minutes (60 * h)))) (\<lambda>row.
        py_return (row, bn_released_at row = None \<and> (bn_expires_at row = None \<or> in_future (bn_expires_at row) now)))))"

definition release_ip_ban :: "string \<Rightarrow> unit admin_op" where
  "release_ip_ban ip = py_bind (repo_release_ip_ban ip) (\<lambda>ok.
     if ok then py_return () else py_raise (Auth_value_error ''ip_not_found''))"

definition acknowledge_security_alert :: "int \<Rightarrow> int option \<Rightarrow> security_alert admin_op" where
  "acknowledge_security_alert alert admin = py_bind (repo_acknowledge_alert alert admin) (\<lambda>row.
     case row of None \<Rightarrow> py_raise (Auth_value_error ''alert_not_found'') | Some a \<Rightarrow> py_return a)"

end
