(* ===== verification/Admin_Routes.thy ===== *)
theory Admin_Routes
  imports Admin_Service
begin

text \<open>
  The handlers of \<open>/api/platform-admin\<close> (\<open>backend/admin/router/admin_router.py\<close>): login, refresh and logout with the
  limits of login attempts, the list of permitted addresses and the blocked ones; the gate in front of all other
  handlers; second factors, profile and password of the administrator, blocked addresses and alerts. A response is its
  data, an \<open>HTTPException\<close> is \<open>Auth_http_error\<close>; audit, metrics, cookies and the limits of the framework are left out.
  The body of a request satisfies its pydantic model, 422 otherwise. The handlers that read statistics, the debug
  handlers of billing and the switch of the sign-ups are not here.
\<close>

section \<open>Requests\<close>

record admin_request =
  aq_path :: string
  aq_ip :: "string option"
  aq_user_agent :: "string option"
  aq_authorization :: "string option"
  aq_cookie :: "string option"

text \<open>\<open>aw_limit_call\<close>: how Redis and the clocks answer the login limits in this request.\<close>

record admin_web =
  aw_web :: web_env
  aw_limits :: route_settings
  aw_limit_call :: limit_call
  aw_ban_hours :: int
  aw_mfa_required :: bool
  aw_ip_allowlist_enabled :: bool
  aw_allowed_ips :: string

definition on_admin_limits :: "(limit_state \<Rightarrow> 'a \<times> limit_state) \<Rightarrow> 'a admin_op" where
  "on_admin_limits f = (\<lambda>s. case f (ps_limits s) of (r, l) \<Rightarrow> (Inr r, s\<lparr>ps_limits := l\<rparr>))"

definition platform_admin_slug :: "string option" where
  "platform_admin_slug = Some ''__platform_admin__''"

definition ensure_ip_allowlist :: "admin_web \<Rightarrow> admin_request \<Rightarrow> unit admin_op" where
  "ensure_ip_allowlist w q =
     (if \<not> aw_ip_allowlist_enabled w then py_return ()
      else
        let allowed = filter (\<lambda>p. p \<noteq> []) (map py_strip (split_char CHR '','' (aw_allowed_ips w))) in
        if allowed = [] then py_raise (Auth_http_error 503 ''Platform admin IP allowlist is not configured'')
        else if str_or (aq_ip q) [] = [] \<or> str_or (aq_ip q) [] \<notin> set allowed
        then py_raise (Auth_http_error 403 ''Platform admin login is restricted for this IP'')
        else py_return ())"

definition ensure_admin_ip_not_banned :: "admin_request \<Rightarrow> unit admin_op" where
  "ensure_admin_ip_not_banned q =
     py_bind (py_gets (\<lambda>s. repo_is_ip_banned (ps_db s) (admin_now s) (aq_ip q))) (\<lambda>banned.
     if banned then py_raise (Auth_http_error 403 ''IP address is temporarily blocked'') else py_return ())"

section \<open>The gate\<close>

definition mfa_setup_paths :: "string list" where
  "mfa_setup_paths = [''/api/platform-admin/auth/me'', ''/api/platform-admin/auth/logout'',
     ''/api/platform-admin/auth/mfa/status'', ''/api/platform-admin/auth/mfa/setup'',
     ''/api/platform-admin/auth/mfa/confirm'']"

text \<open>\<open>authorization.split(" ", 1)[1].strip()\<close> after the prefix \<open>Bearer\<close> and a blank.\<close>

definition bearer_token :: "string option \<Rightarrow> string option" where
  "bearer_token authorization =
     (let a = str_or authorization [] in if is_prefix ''Bearer '' a then Some (py_strip (drop 7 a)) else None)"

definition current_platform_admin :: "admin_env \<Rightarrow> admin_web \<Rightarrow> admin_request \<Rightarrow> admin_user admin_op" where
  "current_platform_admin e w q =
     (case bearer_token (aq_authorization q) of
        None \<Rightarrow> py_raise (Auth_http_error 401 ''Missing platform admin token'')
      | Some token \<Rightarrow>
          py_bind (py_gets id) (\<lambda>s.
          case verify_access_payload e (admin_now s) token of
            None \<Rightarrow> py_raise (Auth_http_error 401 ''Invalid platform admin token'')
          | Some payload \<Rightarrow>
              (case token_sub payload of
                 None \<Rightarrow> py_raise (Auth_http_error 401 ''Invalid platform admin token'')
               | Some user_id \<Rightarrow>
                   if \<not> is_allowed (aw_web w) (ps_process s) None user_id (str_or (cl_jti payload) [])
                   then py_raise (Auth_http_error 401 ''Invalid platform admin token'')
                   else (case resolve_token e (admin_now s) (ps_db s) token of
                     None \<Rightarrow> py_raise (Auth_http_error 401 ''Invalid platform admin token'')
                   | Some u \<Rightarrow>
                       if aw_mfa_required w \<and> \<not> is_mfa_enabled u \<and> aq_path q \<notin> set mfa_setup_paths
                       then py_raise (Auth_http_error 403 ''Platform admin MFA setup required.'')
                       else py_return u))))"

section \<open>Login, refresh, logout\<close>

definition admin_login_errors :: "auth_error \<Rightarrow> auth_error" where
  "admin_login_errors x =
     (if x = Auth_value_error ''platform_admin_mfa_required'' then Auth_http_error 401 ''mfa_required''
      else if x = Auth_value_error ''platform_admin_mfa_invalid'' then Auth_http_error 401 ''mfa_invalid''
      else if x = Auth_value_error ''platform_admin_mfa_locked'' then Auth_http_error 429 ''mfa_locked''
      else x)"

definition failed_admin_login :: "admin_web \<Rightarrow> admin_request \<Rightarrow> string \<Rightarrow> 'a admin_op" where
  "failed_admin_login w q email =
     py_bind (on_admin_limits (register_failed_login_attempt (rg_failure_ban_window_sec (aw_limits w)) (aw_limit_call w)
         email (aq_ip q) platform_admin_slug)) (\<lambda>failure_count.
     py_seq (if int failure_count \<ge> max 1 (rg_failure_ban_threshold (aw_limits w)) \<and> str_or (aq_ip q) [] \<noteq> []
             then py_try (py_bind (ban_ip (str_or (aq_ip q) []) (Some ''platform_admin_login_bruteforce_detected'')
                 (Some (max 1 (aw_ban_hours w))) None) (\<lambda>_. py_return ())) (\<lambda>_. py_return ())
             else py_return ())
       (py_raise (Auth_http_error 401 ''invalid_credentials'')))"

text \<open>The token is allowed only now; without an allowlist that answers the request fails.\<close>

definition admit_admin :: "admin_web \<Rightarrow> admin_tokens \<Rightarrow> admin_tokens admin_op" where
  "admit_admin w tokens =
     py_seq (on_admin_process (allowlist_errors (allowlist_add (aw_web w) None (pu_id (at_user tokens)) (at_access_jti tokens))))
       (py_return tokens)"

definition admin_login_route ::
  "admin_env \<Rightarrow> admin_web \<Rightarrow> admin_request \<Rightarrow> string \<Rightarrow> string \<Rightarrow> string option \<Rightarrow> admin_tokens admin_op" where
  "admin_login_route e w q email password code =
     py_seq (ensure_ip_allowlist w q)
    (py_seq (ensure_admin_ip_not_banned q)
    (py_bind (on_admin_limits (check_login_step1_email (rg_login_step1_per_hour (aw_limits w)) (aw_limit_call w) email
        platform_admin_slug)) (\<lambda>ok.
     if \<not> ok then py_raise (Auth_http_error 429 ''rate_limited'')
     else py_bind (on_admin_limits (check_login_burst (rg_login_burst_per_10s (aw_limits w)) (aw_limit_call w) email
        (aq_ip q) platform_admin_slug)) (\<lambda>ok.
     if \<not> ok then py_raise (Auth_http_error 429 ''burst_rate_limited'')
     else py_bind (py_try (admin_login e (aw_web w) email password (aq_ip q) (aq_user_agent q) code)
         (\<lambda>x. py_raise (admin_login_errors x))) (\<lambda>result.
       case result of
         None \<Rightarrow> failed_admin_login w q email
       | Some tokens \<Rightarrow> admit_admin w tokens)))))"

definition admin_refresh_route :: "admin_env \<Rightarrow> admin_web \<Rightarrow> admin_request \<Rightarrow> admin_tokens admin_op" where
  "admin_refresh_route e w q =
     py_seq (ensure_ip_allowlist w q)
    (py_seq (ensure_admin_ip_not_banned q)
    (if str_or (aq_cookie q) [] = [] then py_raise (Auth_http_error 401 ''Missing refresh token'')
     else py_bind (admin_refresh e (str_or (aq_cookie q) []) (aq_ip q) (aq_user_agent q)) (\<lambda>result.
       case result of
         None \<Rightarrow> py_raise (Auth_http_error 401 ''Invalid refresh token'')
       | Some tokens \<Rightarrow> admit_admin w tokens)))"

text \<open>
  The service ends the session of a refresh token of an administrator; the handler then empties the allowlist of the
  \<open>sub\<close> of whatever signed token the cookie holds.
\<close>

definition admin_logout_route :: "admin_env \<Rightarrow> admin_web \<Rightarrow> admin_request \<Rightarrow> unit admin_op" where
  "admin_logout_route e w q =
     py_seq (ensure_admin_ip_not_banned q)
    (py_seq (admin_logout e (aq_cookie q))
    (if str_or (aq_cookie q) [] = [] then py_return ()
     else py_bind (py_gets admin_now) (\<lambda>now.
       case decode_ignore_exp (px_auth e) now (str_or (aq_cookie q) []) of
         Inl x \<Rightarrow> py_raise (token_error x)
       | Inr None \<Rightarrow> py_return ()
       | Inr (Some payload) \<Rightarrow>
           (case token_sub payload of
              None \<Rightarrow> py_return ()
            | Some user_id \<Rightarrow> on_admin_process (remove_by_user (aw_web w) None user_id)))))"

section \<open>The administrator's own account\<close>

definition value_errors :: "(string \<Rightarrow> auth_error option) \<Rightarrow> 'a admin_op \<Rightarrow> 'a admin_op" where
  "value_errors f m = py_try m (\<lambda>x. py_raise
     (case x of Auth_value_error code \<Rightarrow> with_default (f code) x | _ \<Rightarrow> x))"

definition mfa_setup_route :: "admin_env \<Rightarrow> admin_web \<Rightarrow> admin_request \<Rightarrow> (string \<times> datetime) admin_op" where
  "mfa_setup_route e w q = py_bind (current_platform_admin e w q) (\<lambda>u. start_mfa_setup e (pu_id u))"

definition mfa_confirm_route :: "admin_env \<Rightarrow> admin_web \<Rightarrow> admin_request \<Rightarrow> string \<Rightarrow> string list admin_op" where
  "mfa_confirm_route e w q code = py_bind (current_platform_admin e w q) (\<lambda>u.
     value_errors (\<lambda>c. if c = ''mfa_setup_not_started'' then Some (Auth_http_error 400 ''MFA setup was not started'')
         else if c = ''invalid_mfa_code'' then Some (Auth_http_error 400 ''Invalid MFA code'') else None)
       (confirm_mfa_setup e (pu_id u) code))"

definition mfa_disable_route :: "admin_env \<Rightarrow> admin_web \<Rightarrow> admin_request \<Rightarrow> string \<Rightarrow> unit admin_op" where
  "mfa_disable_route e w q password = py_bind (current_platform_admin e w q) (\<lambda>u.
     value_errors (\<lambda>c. if c = ''invalid_password'' then Some (Auth_http_error 400 ''Invalid password'') else None)
       (disable_mfa e (pu_id u) password))"

definition admin_profile_route :: "admin_env \<Rightarrow> admin_web \<Rightarrow> admin_request \<Rightarrow> string \<Rightarrow> admin_user admin_op" where
  "admin_profile_route e w q name = py_bind (current_platform_admin e w q) (\<lambda>u. update_admin_profile (pu_id u) name)"

definition admin_password_route :: "admin_env \<Rightarrow> admin_web \<Rightarrow> admin_request \<Rightarrow> string \<Rightarrow> string \<Rightarrow> unit admin_op" where
  "admin_password_route e w q current_password new_password = py_bind (current_platform_admin e w q) (\<lambda>u.
     value_errors (\<lambda>c. Some (Auth_http_error 400 c)) (change_admin_password e (pu_id u) current_password new_password))"

section \<open>Blocked addresses and alerts\<close>

definition ban_ip_route ::
  "admin_env \<Rightarrow> admin_web \<Rightarrow> admin_request \<Rightarrow> string \<Rightarrow> string option \<Rightarrow> int option \<Rightarrow> (ip_ban \<times> bool) admin_op" where
  "ban_ip_route e w q ip reason expires_hours = py_bind (current_platform_admin e w q) (\<lambda>u.
     value_errors (\<lambda>c. Some (Auth_http_error 400 c)) (ban_ip ip reason expires_hours (Some (pu_id u))))"

definition unban_ip_route :: "admin_env \<Rightarrow> admin_web \<Rightarrow> admin_request \<Rightarrow> string \<Rightarrow> unit admin_op" where
  "unban_ip_route e w q ip = py_bind (current_platform_admin e w q) (\<lambda>u.
     value_errors (\<lambda>_. Some (Auth_http_error 404 ''IP ban not found'')) (release_ip_ban ip))"

definition ack_alert_route :: "admin_env \<Rightarrow> admin_web \<Rightarrow> admin_request \<Rightarrow> int \<Rightarrow> security_alert admin_op" where
  "ack_alert_route e w q alert = py_bind (current_platform_admin e w q) (\<lambda>u.
     value_errors (\<lambda>_. Some (Auth_http_error 404 ''Alert not found'')) (acknowledge_security_alert alert (Some (pu_id u))))"

end
