(* ===== verification/Admin_Facts.thy ===== *)
theory Admin_Facts
  imports Admin_Routes Users_Revocation
begin

text \<open>
  The platform administration over time. \<open>evolves\<close> is what every operation does to the rows of administrators and of
  refresh sessions: the security version never falls, an account that was inactive stays so unless the operation may
  activate, and a session that was closed stays closed. From it follow the theorems about accounts that were
  locked, tokens that were revoked and refresh tokens that were used.
\<close>

section \<open>What the operations do to the rows\<close>

text \<open>\<open>b\<close>: whether accounts may be activated.\<close>

definition user_follows :: "bool \<Rightarrow> admin_user \<Rightarrow> admin_user \<Rightarrow> bool" where
  "user_follows b u v \<longleftrightarrow> pu_id v = pu_id u \<and> pu_security_version u \<le> pu_security_version v \<and>
     (pu_deleted_at u \<noteq> None \<longrightarrow> pu_deleted_at v \<noteq> None) \<and> (b \<or> (pu_is_active v \<longrightarrow> pu_is_active u))"

definition session_follows :: "session option \<Rightarrow> session option \<Rightarrow> bool" where
  "session_follows x y \<longleftrightarrow> (case x of None \<Rightarrow> True
     | Some t \<Rightarrow> (case y of None \<Rightarrow> False | Some t' \<Rightarrow> ss_user_id t' = ss_user_id t \<and> (ss_valid t' \<longrightarrow> ss_valid t)))"

definition evolves :: "bool \<Rightarrow> admin_state \<Rightarrow> admin_state \<Rightarrow> bool" where
  "evolves b s s' \<longleftrightarrow> ps_next_user s \<le> ps_next_user s' \<and>
     (\<forall>v \<in> set (pd_users (ps_db s')). ps_next_user s \<le> pu_id v \<or> (\<exists>u \<in> set (pd_users (ps_db s)). user_follows b u v)) \<and>
     (\<forall>j. session_follows (refresh_session_by_jti (ps_db s) j) (refresh_session_by_jti (ps_db s') j))"

lemma user_follows_refl [simp]: "user_follows b u u"
  by (simp add: user_follows_def)

lemma user_follows_trans: "user_follows b u v \<Longrightarrow> user_follows b v w \<Longrightarrow> user_follows b u w"
  by (auto simp: user_follows_def)

lemma session_follows_refl [simp]: "session_follows x x"
  by (simp add: session_follows_def split: option.splits)

lemma session_follows_trans: "session_follows x y \<Longrightarrow> session_follows y z \<Longrightarrow> session_follows x z"
  by (auto simp: session_follows_def split: option.splits)

lemma evolves_refl [simp]: "evolves b s s"
  by (auto simp: evolves_def intro: user_follows_refl)

lemma evolves_trans:
  assumes 1: "evolves b s s'" and 2: "evolves b s' s''"
  shows "evolves b s s''"
  unfolding evolves_def
proof (intro conjI ballI allI)
  show "ps_next_user s \<le> ps_next_user s''" using 1 2 by (simp add: evolves_def)
  fix v assume "v \<in> set (pd_users (ps_db s''))"
  then consider "ps_next_user s' \<le> pu_id v" | w where "w \<in> set (pd_users (ps_db s'))" "user_follows b w v"
    using 2 by (auto simp: evolves_def)
  then show "ps_next_user s \<le> pu_id v \<or> (\<exists>u \<in> set (pd_users (ps_db s)). user_follows b u v)"
  proof cases
    case 1 then show ?thesis using \<open>evolves b s s'\<close> by (simp add: evolves_def)
  next
    case 2
    then consider "ps_next_user s \<le> pu_id w" | u where "u \<in> set (pd_users (ps_db s))" "user_follows b u w"
      using 1 by (auto simp: evolves_def)
    then show ?thesis using 2(2) by cases (auto simp: user_follows_def intro: user_follows_trans)
  qed
next
  fix j
  show "session_follows (refresh_session_by_jti (ps_db s) j) (refresh_session_by_jti (ps_db s'') j)"
    using 1 2 by (auto simp: evolves_def intro: session_follows_trans)
qed

interpretation evolves: step_order "evolves b" for b
  by unfold_locales (auto intro: evolves_trans)

lemmas [stay] = evolves.moves_rules

text \<open>Changes of anything else, of rows of administrators, and of sessions.\<close>

lemma evolves_same:
  "pd_users (ps_db s') = pd_users (ps_db s) \<Longrightarrow> pd_sessions (ps_db s') = pd_sessions (ps_db s) \<Longrightarrow>
   ps_next_user s' = ps_next_user s \<Longrightarrow> evolves b s s'"
  by (auto simp: evolves_def refresh_session_by_jti_def intro: user_follows_refl)

lemma evolves_users:
  "(\<And>u. user_follows b u (f u)) \<Longrightarrow> evolves b s (s\<lparr>ps_db := put_admin i f (ps_db s)\<rparr>)"
  by (auto simp: evolves_def put_admin_def set_update_where refresh_session_by_jti_def)
    (metis user_follows_refl)+

lemma evolves_sessions:
  assumes "\<And>t. ss_jti (f t) = ss_jti t \<and> ss_user_id (f t) = ss_user_id t \<and> (ss_valid (f t) \<longrightarrow> ss_valid t)"
  shows "evolves b s (s\<lparr>ps_db := (ps_db s)\<lparr>pd_sessions := update_where p f (pd_sessions (ps_db s))\<rparr>\<rparr>)"
proof -
  have "find (\<lambda>r. ss_jti r = j) (update_where p f xs) =
      map_option (\<lambda>t. if p t then f t else t) (find (\<lambda>r. ss_jti r = j) xs)" for j xs
    using assms by (induction xs) (auto simp: update_where_def)
  then show ?thesis using assms
    by (auto simp: evolves_def refresh_session_by_jti_def session_follows_def split: option.splits intro: user_follows_refl)
qed

lemma moves_on_process [stay]: "moves (evolves b) (on_admin_process m)"
  by (rule movesI) (auto simp: on_admin_process_def split: prod.splits intro!: evolves_same)

lemma moves_on_limits [stay]: "moves (evolves b) (on_admin_limits f)"
  by (rule movesI) (auto simp: on_admin_limits_def split: prod.splits intro!: evolves_same)

lemma moves_mail [stay]: "moves (evolves b) (mail_admin m)"
  unfolding mail_admin_def by (intro moves_modify evolves_same) simp_all

lemma moves_query [stay]: "moves (evolves b) (admin_query f)"
  unfolding admin_query_def by (intro stay)

lemma moves_create_admin [stay]: "moves (evolves b) (repo_create_admin email name password_hash is_active completed)"
  by (rule movesI) (auto simp: repo_create_admin_def Let_def evolves_def refresh_session_by_jti_def intro: user_follows_refl)

lemma moves_update_admin [stay]:
  "b \<or> ac_is_active c \<noteq> Some True \<Longrightarrow> moves (evolves b) (repo_update_admin i c)"
  by (rule movesI) (auto simp: repo_update_admin_def change_admin_def user_follows_def with_default_def
      split: option.splits intro!: evolves_users)

lemma moves_change_row: "(\<And>now u. user_follows b u (f now u)) \<Longrightarrow> moves (evolves b) (change_row i f)"
  by (rule movesI) (auto simp: change_row_def split: option.splits intro!: evolves_users)

lemma moves_mfa_rows [stay]:
  "moves (evolves b) (upsert_pending_mfa_secret i secret t)" "moves (evolves b) (enable_mfa i secret hashes)"
  "moves (evolves b) (repo_disable_mfa i)"
  unfolding upsert_pending_mfa_secret_def enable_mfa_def repo_disable_mfa_def
  by (intro moves_change_row; simp add: user_follows_def)+

lemma moves_delete_admin [stay]: "moves (evolves b) (repo_delete_admin i)"
  unfolding repo_delete_admin_def by (intro stay moves_change_row) (simp add: user_follows_def)

lemma moves_consume_code [stay]: "moves (evolves b) (consume_mfa_recovery_code i h)"
  by (rule movesI) (auto simp: consume_mfa_recovery_code_def Let_def user_follows_def split: option.splits
      intro!: evolves_users)

lemma moves_invites [stay]:
  "moves (evolves b) (create_admin_invite user h t)" "moves (evolves b) (mark_invite_used k)"
  by (rule movesI; simp add: create_admin_invite_def mark_invite_used_def admin_update_def Let_def evolves_same)+

lemma moves_create_session [stay]: "moves (evolves b) (create_refresh_session user jti h t ip ua)"
proof (rule movesI)
  fix s
  have "find p (xs @ [x]) = (case find p xs of None \<Rightarrow> if p x then Some x else None | Some y \<Rightarrow> Some y)"
    for p :: "session \<Rightarrow> bool" and xs x by (induction xs) auto
  then show "evolves b s (snd (create_refresh_session user jti h t ip ua s))"
    by (auto simp: create_refresh_session_def Let_def evolves_def refresh_session_by_jti_def session_follows_def
      split: option.splits intro: user_follows_refl)
qed

lemma moves_sessions [stay]:
  "moves (evolves b) (update_refresh_session (invalidate_session t))" "moves (evolves b) (invalidate_all_refresh_sessions user)"
  unfolding update_refresh_session_def invalidate_all_refresh_sessions_def admin_update_def
  by (intro moves_modify evolves_sessions; simp add: invalidate_session_def)+

lemma moves_counters [stay]:
  "moves (evolves b) (record_mfa_failure scope m w l)" "moves (evolves b) (reset_mfa_attempts scopes)"
  by (rule movesI; simp add: record_mfa_failure_def reset_mfa_attempts_def admin_update_def Let_def evolves_same)+

lemma moves_bans [stay]:
  "moves (evolves b) (upsert_ip_ban ip reason by' t)" "moves (evolves b) (repo_release_ip_ban ip)"
  "moves (evolves b) (repo_acknowledge_alert k a)"
  by (rule movesI; simp add: upsert_ip_ban_def repo_release_ip_ban_def repo_acknowledge_alert_def Let_def evolves_same
      split: option.splits)+

section \<open>The services and the handlers\<close>

lemma moves_login_parts [stay]:
  "moves (evolves b) (wrong_password e u)" "moves (evolves b) (mfa_lockout e wx u ip k)"
  "moves (evolves b) (verify_mfa e u code)" "moves (evolves b) (issue_access_and_refresh e u ip ua)"
  unfolding wrong_password_def mfa_lockout_def verify_mfa_def issue_access_and_refresh_def Let_def
  by (intro stay; simp add: no_change_def)+

lemma moves_second_factor [stay]: "moves (evolves b) (check_second_factor e wx u ip code)"
  unfolding check_second_factor_def ensure_mfa_not_blocked_def record_mfa_failures_def reset_all_mfa_attempts_def Let_def
  by (intro stay)

lemma moves_admin_login [stay]: "moves (evolves b) (admin_login e wx email password ip ua code)"
  unfolding admin_login_def by (intro stay) (simp add: no_change_def)

lemma moves_admin_refresh [stay]: "moves (evolves b) (admin_refresh e token ip ua)"
  unfolding admin_refresh_def by (intro stay)

lemma moves_admin_logout [stay]: "moves (evolves b) (admin_logout e token)"
  unfolding admin_logout_def by (intro stay)

lemma moves_gate [stay]: "moves (evolves b) (current_platform_admin e w q)"
  unfolding current_platform_admin_def by (intro stay)

lemma moves_ensure [stay]: "moves (evolves b) (ensure_ip_allowlist w q)" "moves (evolves b) (ensure_admin_ip_not_banned q)"
  unfolding ensure_ip_allowlist_def ensure_admin_ip_not_banned_def Let_def by (intro stay)+

lemma moves_ban_ip [stay]: "moves (evolves b) (ban_ip ip reason h a)"
  unfolding ban_ip_def by (intro stay)

lemma moves_own_account [stay]:
  "moves (evolves b) (start_mfa_setup e i)" "moves (evolves b) (confirm_mfa_setup e i code)"
  "moves (evolves b) (disable_mfa e i password)" "moves (evolves b) (update_admin_profile i name)"
  "moves (evolves b) (change_admin_password e i old new)"
  unfolding start_mfa_setup_def confirm_mfa_setup_def disable_mfa_def update_admin_profile_def
    change_admin_password_def Let_def
  by (intro stay; simp add: no_change_def)+

lemma moves_value_errors [stay]: "moves (evolves b) m \<Longrightarrow> moves (evolves b) (value_errors f m)"
  unfolding value_errors_def by (intro stay)

lemma moves_routes [stay]:
  "moves (evolves b) (admin_login_route e w q email password code)" "moves (evolves b) (admin_refresh_route e w q)"
  "moves (evolves b) (admin_logout_route e w q)" "moves (evolves b) (mfa_setup_route e w q)"
  "moves (evolves b) (mfa_confirm_route e w q text')" "moves (evolves b) (mfa_disable_route e w q password)"
  "moves (evolves b) (admin_profile_route e w q name)" "moves (evolves b) (admin_password_route e w q old new)"
  "moves (evolves b) (ban_ip_route e w q ip reason h)" "moves (evolves b) (unban_ip_route e w q ip)"
  "moves (evolves b) (ack_alert_route e w q alert)"
  unfolding admin_login_route_def admin_refresh_route_def admin_logout_route_def mfa_setup_route_def mfa_confirm_route_def
    mfa_disable_route_def admin_profile_route_def admin_password_route_def ban_ip_route_def unban_ip_route_def
    ack_alert_route_def failed_admin_login_def admit_admin_def release_ip_ban_def acknowledge_security_alert_def
  by (intro stay)+

section \<open>Runs\<close>

text \<open>
  What anyone can do to the administration over HTTP, at any time: a call of a handler, a restart of the process (which
  runs \<open>bootstrap_first_admin\<close>), or anything that changes only what the process shares (the clock, the allowlist, the
  limits). The services that no handler calls are \<open>admin_service_call\<close>.
\<close>

inductive admin_call :: "admin_env \<Rightarrow> admin_state \<Rightarrow> admin_state \<Rightarrow> bool" for e where
  call_login: "admin_call e s (snd (admin_login_route e w q email password code s))"
| call_refresh: "admin_call e s (snd (admin_refresh_route e w q s))"
| call_logout: "admin_call e s (snd (admin_logout_route e w q s))"
| call_mfa_setup: "admin_call e s (snd (mfa_setup_route e w q s))"
| call_mfa_confirm: "admin_call e s (snd (mfa_confirm_route e w q text s))"
| call_mfa_disable: "admin_call e s (snd (mfa_disable_route e w q password s))"
| call_profile: "admin_call e s (snd (admin_profile_route e w q name s))"
| call_password: "admin_call e s (snd (admin_password_route e w q old new s))"
| call_ban: "admin_call e s (snd (ban_ip_route e w q ip reason h s))"
| call_unban: "admin_call e s (snd (unban_ip_route e w q ip s))"
| call_ack: "admin_call e s (snd (ack_alert_route e w q alert s))"
| call_startup: "admin_call e s (snd (bootstrap_first_admin e s))"
| call_elsewhere: "admin_call e s (s\<lparr>ps_process := process, ps_limits := limits\<rparr>)"

inductive admin_service_call :: "admin_env \<Rightarrow> admin_state \<Rightarrow> admin_state \<Rightarrow> bool" for e where
  service_create: "admin_service_call e s (snd (create_admin e email name base s))"
| service_update: "admin_service_call e s (snd (update_admin e i email' name' is_active s))"
| service_delete: "admin_service_call e s (snd (delete_admin i current s))"
| service_invite: "admin_service_call e s (snd (send_set_password_email e i base s))"
| service_password: "admin_service_call e s (snd (set_admin_password e token password s))"
| service_alerts: "admin_service_call e s (snd (upsert_security_alerts signals now s))"

lemma moves_alerts [stay]: "moves (evolves b) (upsert_security_alerts signals now)"
  unfolding upsert_security_alerts_def
  by (intro stay movesI) (auto simp: upsert_security_alert_def Let_def split: option.splits intro!: evolves_same)

lemma moves_startup [stay]: "moves (evolves b) (bootstrap_first_admin e)"
  unfolding bootstrap_first_admin_def Let_def by (intro stay)

lemma moves_unrouted [stay]:
  "moves (evolves b) (ensure_valid_email e email)" "moves (evolves b) (send_set_password_email e i base)"
  "moves (evolves True) (set_admin_password e token password)" "moves (evolves b) (delete_admin i current)"
  unfolding ensure_valid_email_def send_set_password_email_def set_admin_password_def delete_admin_def Let_def
  by (intro stay; simp)+

lemma moves_unrouted_users [stay]:
  "moves (evolves b) (create_admin e email name base)" "moves (evolves True) (update_admin e i email' name' is_active)"
  unfolding create_admin_def update_admin_def by (intro stay; simp)+

lemma call_evolves: "admin_call e s s' \<Longrightarrow> evolves b s s'"
  by (induction rule: admin_call.induct) (rule movesD, intro stay | simp add: evolves_same)+

lemma service_evolves: "admin_service_call e s s' \<Longrightarrow> evolves True s s'"
  by (induction rule: admin_service_call.induct) (rule movesD, intro stay)+

lemma run_evolves: "R\<^sup>*\<^sup>* s s' \<Longrightarrow> (\<And>s s'. R s s' \<Longrightarrow> evolves b s s') \<Longrightarrow> evolves b s s'"
  by (induction rule: rtranclp_induct) (auto intro: evolves_trans)

section \<open>Calls that returned\<close>

lemma admin_by_id_Some: "admin_by_id db i = Some u \<Longrightarrow> u \<in> set (pd_users db) \<and> pu_id u = i"
  by (auto simp: admin_by_id_def find_Some_iff)

lemma admin_by_email_Some: "admin_by_email db email = Some u \<Longrightarrow> u \<in> set (pd_users db)"
  by (auto simp: admin_by_email_def find_Some_iff Let_def)

lemma resolve_token_Some:
  assumes "resolve_token e now db token = Some u"
  obtains payload where "verify (px_auth e) now token = Inr payload" "cl_typ payload = Some ''platform_admin_access''"
    "token_sub payload = Some (pu_id u)" "admin_by_id db (pu_id u) = Some u" "pu_is_active u" "pu_deleted_at u = None"
    "cl_user_ver payload = pu_security_version u"
proof -
  obtain payload where v: "verify_access_payload e now token = Some payload"
    using assms by (cases "verify_access_payload e now token") (simp_all add: resolve_token_def)
  then obtain i where i: "token_sub payload = Some i"
    using assms by (cases "token_sub payload") (simp_all add: resolve_token_def)
  then obtain w where w: "admin_by_id db i = Some w"
    using assms v by (cases "admin_by_id db i") (simp_all add: resolve_token_def)
  have u: "w = u" "pu_is_active u" "pu_deleted_at u = None" "cl_user_ver payload = pu_security_version u"
    using assms v i w by (simp_all add: resolve_token_def split: if_splits)
  have "verify (px_auth e) now token = Inr payload" "cl_typ payload = Some ''platform_admin_access''"
    using v by (auto simp: verify_access_payload_def split: sum.splits if_splits)
  then show thesis using that i w u admin_by_id_Some [OF w] by simp
qed

lemma gate_Inr:
  assumes "current_platform_admin e w q s = (Inr u, s')"
  obtains token payload where "s' = s" "bearer_token (aq_authorization q) = Some token"
    "verify (px_auth e) (admin_now s) token = Inr payload" "cl_typ payload = Some ''platform_admin_access''"
    "token_sub payload = Some (pu_id u)" "is_allowed (aw_web w) (ps_process s) None (pu_id u) (str_or (cl_jti payload) [])"
    "admin_by_id (ps_db s) (pu_id u) = Some u" "pu_is_active u" "pu_deleted_at u = None"
    "cl_user_ver payload = pu_security_version u" "aw_mfa_required w \<longrightarrow> is_mfa_enabled u \<or> aq_path q \<in> set mfa_setup_paths"
proof -
  obtain token where token: "bearer_token (aq_authorization q) = Some token"
    using assms by (cases "bearer_token (aq_authorization q)") (auto simp: current_platform_admin_def)
  obtain payload where p: "verify_access_payload e (admin_now s) token = Some payload"
    using assms token by (cases "verify_access_payload e (admin_now s) token") (auto simp: current_platform_admin_def py_run_bind)
  obtain i where i: "token_sub payload = Some i"
    using assms token p by (cases "token_sub payload") (auto simp: current_platform_admin_def py_run_bind)
  have allowed: "is_allowed (aw_web w) (ps_process s) None i (str_or (cl_jti payload) [])"
    using assms token p i by (auto simp: current_platform_admin_def py_run_bind split: if_splits)
  have u: "resolve_token e (admin_now s) (ps_db s) token = Some u" "s' = s"
      "aw_mfa_required w \<longrightarrow> is_mfa_enabled u \<or> aq_path q \<in> set mfa_setup_paths"
    using assms token p i allowed
    by (cases "resolve_token e (admin_now s) (ps_db s) token"; auto simp: current_platform_admin_def py_run_bind split: if_splits)+
  obtain p' where p': "verify (px_auth e) (admin_now s) token = Inr p'" "cl_typ p' = Some ''platform_admin_access''"
      "token_sub p' = Some (pu_id u)" "admin_by_id (ps_db s) (pu_id u) = Some u" "pu_is_active u" "pu_deleted_at u = None"
      "cl_user_ver p' = pu_security_version u"
    using u(1) by (rule resolve_token_Some)
  have "p' = payload" using p p'(1,2) by (simp add: verify_access_payload_def)
  then show thesis using that u token p' i allowed by simp
qed

lemma login_Some:
  assumes "admin_login e wx email password ip ua code s = (Inr (Some tk), s')"
  obtains u s1 v s2 s3 where "admin_by_email (ps_db s) (normalize_email e email) = Some u" "pu_is_active u"
    "pu_deleted_at u = None" "ax_verify_password (px_auth e) password (pu_password_hash u)"
    "check_second_factor e wx u ip code s = (Inr (), s1)"
    "repo_update_admin (pu_id u) (no_change\<lparr>ac_failed_logins := Some 0\<rparr>) s1 = (Inr v, s2)"
    "issue_access_and_refresh e (with_default v u) ip ua s2 = (Inr tk, s3)" "ps_db s' = ps_db s3"
    "ps_process s' = ps_process s3"
proof -
  let ?found = "admin_by_email (ps_db s) (normalize_email e email)"
  obtain u where u: "?found = Some u"
    using assms by (cases ?found) (auto simp: admin_login_def admin_query_def py_run_bind)
  have ok: "pu_is_active u" "pu_deleted_at u = None" "ax_verify_password (px_auth e) password (pu_password_hash u)"
    using assms u by (auto simp: admin_login_def admin_query_def py_run_bind py_run_seq split: if_splits sum.splits)
  have "py_seq (check_second_factor e wx u ip code)
          (py_bind (repo_update_admin (pu_id u) (no_change\<lparr>ac_failed_logins := Some 0\<rparr>)) (\<lambda>updated.
           py_bind (issue_access_and_refresh e (with_default updated u) ip ua) (\<lambda>tokens.
           py_seq (if alert_recipient e = [] then py_return ()
                   else mail_admin (Admin_login_alert (alert_recipient e) (pu_email (at_user tokens))))
             (py_return (Some tokens))))) s = (Inr (Some tk), s')"
    using assms u ok by (simp add: admin_login_def admin_query_def py_run_bind)
  then obtain x s1 v s2 tk' s3 y s4 where r: "check_second_factor e wx u ip code s = (Inr x, s1)"
      "repo_update_admin (pu_id u) (no_change\<lparr>ac_failed_logins := Some 0\<rparr>) s1 = (Inr v, s2)"
      "issue_access_and_refresh e (with_default v u) ip ua s2 = (Inr tk', s3)"
      "(if alert_recipient e = [] then py_return ()
        else mail_admin (Admin_login_alert (alert_recipient e) (pu_email (at_user tk')))) s3 = (Inr y, s4)"
      "tk' = tk" "s4 = s'"
    by (elim seq_InrE bind_InrE) (rule that, simp_all)
  have "ps_db s' = ps_db s3" "ps_process s' = ps_process s3" "tk' = tk"
    using r(4-6) by (auto simp: mail_admin_def split: if_splits)
  then show thesis using that u ok r(1-3) by simp
qed

end
