(* ===== verification/Admin_Access_Facts.thy ===== *)
theory Admin_Access_Facts
  imports Admin_Facts
begin

text \<open>
  Who gets into the platform administration and who stays outside: accounts locked by wrong passwords, tokens that
  were revoked, refresh tokens that were used, tokens of tenants in the cookie of an administrator, and what a login
  needs.
\<close>

section \<open>Inactive accounts\<close>

definition inactive_admin :: "int \<Rightarrow> admin_state \<Rightarrow> bool" where
  "inactive_admin i s \<longleftrightarrow> (\<forall>v \<in> set (pd_users (ps_db s)). pu_id v = i \<longrightarrow> \<not> pu_is_active v) \<and> i < ps_next_user s"

lemma inactive_evolves: "inactive_admin i s \<Longrightarrow> evolves False s s' \<Longrightarrow> inactive_admin i s'"
  by (force simp: inactive_admin_def evolves_def user_follows_def)

lemma inactive_no_gate: "inactive_admin i s \<Longrightarrow> current_platform_admin e w q s = (Inr v, s') \<Longrightarrow> pu_id v \<noteq> i"
  by (elim gate_Inr) (auto simp: inactive_admin_def dest: admin_by_id_Some)

lemma issue_Inr:
  assumes "issue_access_and_refresh e u ip ua s = (Inr tk, s')"
  shows "at_user tk = u" "pd_users (ps_db s') = pd_users (ps_db s)"
  using assms by (auto simp: issue_access_and_refresh_def create_refresh_session_def on_admin_process_def Let_def
      elim!: bind_InrE seq_InrE split: prod.splits if_splits)

lemma update_admin_Inr:
  assumes "repo_update_admin i c s = (Inr v, s')"
  shows "(case admin_by_id (ps_db s) i of None \<Rightarrow> v = None \<and> s' = s
    | Some u \<Rightarrow> v = Some (change_admin c u) \<and> s' = s\<lparr>ps_db := put_admin i (change_admin c) (ps_db s)\<rparr>)"
  using assms by (auto simp: repo_update_admin_def split: option.splits if_splits)

lemma change_admin_id [simp]: "pu_id (change_admin c u) = pu_id u"
  by (simp add: change_admin_def)

lemma login_user:
  assumes "admin_login e wx email password ip ua code s = (Inr (Some tk), s')"
  obtains u where "admin_by_email (ps_db s) (normalize_email e email) = Some u" "pu_is_active u" "pu_id (at_user tk) = pu_id u"
proof -
  obtain u s1 v s2 s3 where u: "admin_by_email (ps_db s) (normalize_email e email) = Some u" "pu_is_active u"
      "repo_update_admin (pu_id u) (no_change\<lparr>ac_failed_logins := Some 0\<rparr>) s1 = (Inr v, s2)"
      "issue_access_and_refresh e (with_default v u) ip ua s2 = (Inr tk, s3)"
    using assms by (rule login_Some)
  have "pu_id (with_default v u) = pu_id u"
    using update_admin_Inr [OF u(3)] by (auto simp: with_default_def split: option.splits dest: admin_by_id_Some)
  then show thesis using that u issue_Inr(1) [OF u(4)] by simp
qed

lemma inactive_no_login:
  "inactive_admin i s \<Longrightarrow> admin_login e wx email password ip ua code s = (Inr (Some tk), s') \<Longrightarrow> pu_id (at_user tk) \<noteq> i"
  by (elim login_user) (auto simp: inactive_admin_def dest: admin_by_email_Some)

lemma refresh_Some:
  assumes "admin_refresh e token ip ua s = (Inr (Some tk), s')"
  obtains payload t u where "verify (px_auth e) (admin_now s) token = Inr payload"
    "cl_typ payload = Some ''platform_admin_refresh''" "token_sub payload = Some (pu_id u)"
    "refresh_session_by_jti (ps_db s) (str_or (cl_jti payload) []) = Some t" "ss_valid t"
    "ss_token_hash t = hash_token (px_auth e) token" "admin_by_id (ps_db s) (pu_id u) = Some u" "pu_is_active u"
    "pu_deleted_at u = None" "cl_user_ver payload = pu_security_version u"
    "issue_access_and_refresh e u ip ua (snd (update_refresh_session (invalidate_session t) s)) = (Inr tk, s')"
proof -
  obtain payload where p: "verify (px_auth e) (admin_now s) token = Inr payload"
      "cl_typ payload = Some ''platform_admin_refresh''"
    using assms by (cases "verify (px_auth e) (admin_now s) token") (auto simp: admin_refresh_def py_run_bind split: if_splits)
  obtain i where i: "token_sub payload = Some i"
    using assms p by (cases "token_sub payload") (auto simp: admin_refresh_def py_run_bind)
  obtain t where t: "refresh_session_by_jti (ps_db s) (str_or (cl_jti payload) []) = Some t"
    using assms p i by (cases "refresh_session_by_jti (ps_db s) (str_or (cl_jti payload) [])")
      (auto simp: admin_refresh_def py_run_bind)
  have v: "ss_valid t" "\<not> is_expired_session (admin_now s) t" "ss_token_hash t = hash_token (px_auth e) token"
    using assms p i t
    by (auto simp: admin_refresh_def py_run_bind py_run_seq invalidate_all_refresh_sessions_def admin_update_def split: if_splits)
  obtain u where u: "admin_by_id (ps_db s) i = Some u"
    using assms p i t v by (cases "admin_by_id (ps_db s) i") (auto simp: admin_refresh_def py_run_bind)
  have a: "pu_is_active u" "pu_deleted_at u = None" "cl_user_ver payload = pu_security_version u"
    using assms p i t v u by (auto simp: admin_refresh_def py_run_bind split: if_splits)
  have "py_seq (update_refresh_session (invalidate_session t))
      (py_bind (issue_access_and_refresh e u ip ua) (\<lambda>tokens. py_return (Some tokens))) s = (Inr (Some tk), s')"
    using assms p i t v u a by (simp add: admin_refresh_def py_run_bind)
  then obtain x s1 tk' s2 where r: "update_refresh_session (invalidate_session t) s = (Inr x, s1)"
      "issue_access_and_refresh e u ip ua s1 = (Inr tk', s2)" "tk' = tk" "s2 = s'"
    by (elim seq_InrE bind_InrE) (rule that, simp_all)
  moreover have "pu_id u = i" using admin_by_id_Some [OF u] by simp
  ultimately show thesis using that [of payload u t] p i t v u a r(1) by simp
qed

lemma inactive_no_refresh:
  "inactive_admin i s \<Longrightarrow> admin_refresh e token ip ua s = (Inr (Some tk), s') \<Longrightarrow> pu_id (at_user tk) \<noteq> i"
  by (elim refresh_Some) (auto simp: inactive_admin_def dest: admin_by_id_Some issue_Inr(1))

lemma login_route_Inr:
  assumes "admin_login_route e w q email password code s = (Inr tk, s')"
  obtains l s1 where "admin_login e (aw_web w) email password (aq_ip q) (aq_user_agent q) code (s\<lparr>ps_limits := l\<rparr>) = (Inr (Some tk), s1)"
    "admit_admin w tk s1 = (Inr tk, s')" "fst (ensure_ip_allowlist w q s) = Inr ()"
    "\<not> repo_is_ip_banned (ps_db s) (admin_now s) (aq_ip q)"
proof -
  let ?limit1 = "on_admin_limits (check_login_step1_email (rg_login_step1_per_hour (aw_limits w)) (aw_limit_call w) email platform_admin_slug)"
  let ?limit2 = "on_admin_limits (check_login_burst (rg_login_burst_per_10s (aw_limits w)) (aw_limit_call w) email (aq_ip q) platform_admin_slug)"
  let ?login = "admin_login e (aw_web w) email password (aq_ip q) (aq_user_agent q) code"
  obtain x s1 y s2 where g: "ensure_ip_allowlist w q s = (Inr x, s1)" "ensure_admin_ip_not_banned q s1 = (Inr y, s2)"
    and rest: "py_bind ?limit1 (\<lambda>ok. if \<not> ok then py_raise (Auth_http_error 429 ''rate_limited'')
     else py_bind ?limit2 (\<lambda>ok. if \<not> ok then py_raise (Auth_http_error 429 ''burst_rate_limited'')
     else py_bind (py_try ?login (\<lambda>x. py_raise (admin_login_errors x))) (\<lambda>result.
       case result of None \<Rightarrow> failed_admin_login w q email | Some tokens \<Rightarrow> admit_admin w tokens))) s2 = (Inr tk, s')"
    using assms unfolding admin_login_route_def by (elim seq_InrE) (rule that)
  have s: "s1 = s" "s2 = s" "\<not> repo_is_ip_banned (ps_db s) (admin_now s) (aq_ip q)"
    using g by (auto simp: ensure_ip_allowlist_def ensure_admin_ip_not_banned_def Let_def py_run_bind split: if_splits)
  obtain a s3 where 1: "?limit1 s2 = (Inr a, s3)" "a"
    and rest2: "py_bind ?limit2 (\<lambda>ok. if \<not> ok then py_raise (Auth_http_error 429 ''burst_rate_limited'')
     else py_bind (py_try ?login (\<lambda>x. py_raise (admin_login_errors x))) (\<lambda>result.
       case result of None \<Rightarrow> failed_admin_login w q email | Some tokens \<Rightarrow> admit_admin w tokens)) s3 = (Inr tk, s')"
    using rest by (elim bind_InrE) (auto split: if_splits)
  obtain b s4 where 2: "?limit2 s3 = (Inr b, s4)" "b"
    and rest3: "py_bind (py_try ?login (\<lambda>x. py_raise (admin_login_errors x))) (\<lambda>result.
       case result of None \<Rightarrow> failed_admin_login w q email | Some tokens \<Rightarrow> admit_admin w tokens) s4 = (Inr tk, s')"
    using rest2 by (elim bind_InrE) (auto split: if_splits)
  have s4: "s4 = s\<lparr>ps_limits := ps_limits s4\<rparr>" using 1 2 s by (auto simp: on_admin_limits_def split: prod.splits)
  obtain r s5 where 3: "py_try ?login (\<lambda>x. py_raise (admin_login_errors x)) s4 = (Inr r, s5)"
    "(case r of None \<Rightarrow> failed_admin_login w q email | Some tokens \<Rightarrow> admit_admin w tokens) s5 = (Inr tk, s')"
    using rest3 by (elim bind_InrE) (rule that)
  have l: "?login s4 = (Inr r, s5)" using 3(1) by (cases "?login s4") (auto simp: py_run_try split: sum.splits)
  have "r = Some tk" "admit_admin w tk s5 = (Inr tk, s')"
    using 3(2) by (cases r; auto simp: failed_admin_login_def admit_admin_def elim!: bind_InrE seq_InrE)+
  then show thesis using that [of "ps_limits s4" s5] l s4 s g by simp
qed

lemma refresh_route_Inr:
  assumes "admin_refresh_route e w q s = (Inr tk, s')"
  obtains s1 where "admin_refresh e (str_or (aq_cookie q) []) (aq_ip q) (aq_user_agent q) s = (Inr (Some tk), s1)"
    "admit_admin w tk s1 = (Inr tk, s')"
proof -
  obtain x s1 y s2 where g: "ensure_ip_allowlist w q s = (Inr x, s1)" "ensure_admin_ip_not_banned q s1 = (Inr y, s2)"
    and rest: "(if str_or (aq_cookie q) [] = [] then py_raise (Auth_http_error 401 ''Missing refresh token'')
     else py_bind (admin_refresh e (str_or (aq_cookie q) []) (aq_ip q) (aq_user_agent q)) (\<lambda>result.
       case result of None \<Rightarrow> py_raise (Auth_http_error 401 ''Invalid refresh token'')
       | Some tokens \<Rightarrow> admit_admin w tokens)) s2 = (Inr tk, s')"
    using assms unfolding admin_refresh_route_def by (elim seq_InrE) (rule that)
  have s: "s2 = s" using g by (auto simp: ensure_ip_allowlist_def ensure_admin_ip_not_banned_def Let_def py_run_bind split: if_splits)
  obtain r s3 where r: "admin_refresh e (str_or (aq_cookie q) []) (aq_ip q) (aq_user_agent q) s = (Inr r, s3)"
      "(case r of None \<Rightarrow> py_raise (Auth_http_error 401 ''Invalid refresh token'') | Some tokens \<Rightarrow> admit_admin w tokens) s3 = (Inr tk, s')"
    using rest s by (auto elim!: bind_InrE split: if_splits)
  have "r = Some tk" "admit_admin w tk s3 = (Inr tk, s')"
    using r(2) by (cases r; auto simp: admit_admin_def elim!: seq_InrE)+
  then show thesis using that r(1) by simp
qed

section \<open>An account locked by wrong passwords\<close>

text \<open>C25: a password that is wrong once too often locks the account for good. Whatever handlers anybody calls afterwards,
  and however often the process restarts, no login and no refresh gives a token for this account and the gate of the
  administration lets nobody through as it: no handler activates an account. Anyone who knows the address of an
  administrator can bring this about.\<close>

theorem locked_out_for_good:
  assumes u: "admin_by_email (ps_db s) (normalize_email e email) = Some u" "pu_is_active u" "pu_deleted_at u = None"
    and wrong: "\<not> ax_verify_password (px_auth e) password (pu_password_hash u)"
    and limit: "max 1 (pg_max_failed_logins (px_settings e)) \<le> pu_failed_login_attempts u + 1"
    and ids: "key_ok pu_id (pd_users (ps_db s))" "pu_id u < ps_next_user s"
    and login: "admin_login e wx email password ip ua code s = (r, s1)" and run: "(admin_call e)\<^sup>*\<^sup>* s1 s2"
  shows "r = Inr None \<and>
    (\<forall>w q em pw c tk s3. admin_login_route e w q em pw c s2 = (Inr tk, s3) \<longrightarrow> pu_id (at_user tk) \<noteq> pu_id u) \<and>
    (\<forall>w q tk s3. admin_refresh_route e w q s2 = (Inr tk, s3) \<longrightarrow> pu_id (at_user tk) \<noteq> pu_id u) \<and>
    (\<forall>w q v s3. current_platform_admin e w q s2 = (Inr v, s3) \<longrightarrow> pu_id v \<noteq> pu_id u)"
proof -
  let ?c = "no_change\<lparr>ac_failed_logins := Some (pu_failed_login_attempts u + 1), ac_is_active := Some False, ac_bump_version := True\<rparr>"
  have found: "admin_by_id (ps_db s) (pu_id u) = Some u"
    using ids(1) admin_by_email_Some [OF u(1)] row_map_member [of pu_id "pd_users (ps_db s)" u]
    by (simp add: admin_by_id_def row_map_def)
  have "admin_login e wx email password ip ua code s = (Inr None, s\<lparr>ps_db := put_admin (pu_id u) (change_admin ?c) (ps_db s)\<rparr>)"
    using u wrong limit found
    by (simp add: admin_login_def admin_query_def py_run_bind py_run_seq wrong_password_def repo_update_admin_def no_change_def Let_def)
  then have r: "r = Inr None" "s1 = s\<lparr>ps_db := put_admin (pu_id u) (change_admin ?c) (ps_db s)\<rparr>" using login by simp_all
  have "inactive_admin (pu_id u) s1"
    using ids(2) by (auto simp: r inactive_admin_def put_admin_def set_update_where change_admin_def with_default_def no_change_def)
  moreover have "evolves False s1 s2" by (rule run_evolves [OF run]) (rule call_evolves)
  ultimately have locked: "inactive_admin (pu_id u) s2" by (rule inactive_evolves)
  then have locked': "inactive_admin (pu_id u) (s2\<lparr>ps_limits := l\<rparr>)" for l by (simp add: inactive_admin_def)
  have "pu_id (at_user tk) \<noteq> pu_id u" if "admin_login_route e w q em pw c s2 = (Inr tk, s3)" for w q em pw c tk s3
    using that by (rule login_route_Inr) (rule inactive_no_login [OF locked'])
  moreover have "pu_id (at_user tk) \<noteq> pu_id u" if "admin_refresh_route e w q s2 = (Inr tk, s3)" for w q tk s3
    using that by (rule refresh_route_Inr) (rule inactive_no_refresh [OF locked])
  ultimately show ?thesis using r(1) inactive_no_gate [OF locked] by blast
qed

section \<open>Revoked tokens\<close>

text \<open>What revokes the tokens of the administrator \<open>i\<close>.\<close>

inductive revokes :: "admin_env \<Rightarrow> int \<Rightarrow> admin_state \<Rightarrow> admin_state \<Rightarrow> bool" for e where
  revoke_password: "change_admin_password e i old new s = (Inr (), s') \<Longrightarrow> revokes e i s s'"
| revoke_enable: "confirm_mfa_setup e i text s = (Inr codes, s') \<Longrightarrow> revokes e i s s'"
| revoke_disable: "disable_mfa e i password s = (Inr (), s') \<Longrightarrow> revokes e i s s'"
| revoke_deactivate: "update_admin e i email' name' (Some False) s = (Inr v, s') \<Longrightarrow> revokes e i s s'"
| revoke_delete: "delete_admin i current s = (Inr (), s') \<Longrightarrow> revokes e i s s'"
| revoke_reset: "get_admin_invite (ps_db s) (ax_sha256 (px_auth e) token) = Some r \<Longrightarrow> iv_user_id r = i \<Longrightarrow>
    set_admin_password e token password s = (Inr (), s') \<Longrightarrow> revokes e i s s'"

text \<open>The version of every row of \<open>i\<close> is at least \<open>n\<close>.\<close>

definition version_from :: "int \<Rightarrow> int \<Rightarrow> admin_state \<Rightarrow> bool" where
  "version_from i n s \<longleftrightarrow> (\<forall>v \<in> set (pd_users (ps_db s)). pu_id v = i \<longrightarrow> n \<le> pu_security_version v) \<and> i < ps_next_user s"

lemma version_evolves:
  assumes s: "version_from i n s" and e: "evolves b s s'"
  shows "version_from i n s'"
  unfolding version_from_def
proof (intro conjI ballI impI)
  show "i < ps_next_user s'" using s e by (simp add: version_from_def evolves_def)
  fix v assume v: "v \<in> set (pd_users (ps_db s'))" "pu_id v = i"
  then have "\<exists>u \<in> set (pd_users (ps_db s)). user_follows b u v"
    using s e by (fastforce simp: version_from_def evolves_def)
  then show "n \<le> pu_security_version v"
    using s v(2) unfolding version_from_def user_follows_def by (metis order_trans)
qed

lemma version_put:
  assumes "version_from i n s" and "\<And>u. pu_id (f u) = pu_id u \<and> pu_security_version (f u) = pu_security_version u + 1"
  shows "version_from i (n + 1) (s\<lparr>ps_db := put_admin i f (ps_db s)\<rparr>)"
proof -
  have "n + 1 \<le> pu_security_version v" if v: "v \<in> set (pd_users (put_admin i f (ps_db s)))" "pu_id v = i" for v
  proof -
    obtain u where u: "u \<in> set (pd_users (ps_db s))" "v = (if pu_id u = i then f u else u)"
      using v(1) by (auto simp: put_admin_def update_where_def)
    then have "pu_id u = i" "v = f u" using v(2) assms(2) [of u] by (auto split: if_splits)
    then show ?thesis using assms(1) assms(2) [of u] u(1) by (auto simp: version_from_def)
  qed
  then show ?thesis using assms(1) by (simp add: version_from_def)
qed

lemma version_update:
  assumes "version_from i n s" and "repo_update_admin i c s = (Inr v, s')" and "ac_bump_version c"
  shows "version_from i (n + 1) s'"
proof (cases "admin_by_id (ps_db s) i")
  case None
  then have "\<forall>v \<in> set (pd_users (ps_db s)). pu_id v \<noteq> i" by (simp add: admin_by_id_def find_None_iff_all)
  then show ?thesis using assms update_admin_Inr [OF assms(2)] None by (auto simp: version_from_def)
next
  case (Some u)
  then show ?thesis using update_admin_Inr [OF assms(2)] version_put [OF assms(1), of "change_admin c"] assms(3)
    by (simp add: change_admin_def)
qed

lemma version_change_row:
  assumes "version_from i n s" and "change_row i f s = (Inr v, s')"
    and "\<And>now u. pu_id (f now u) = pu_id u \<and> pu_security_version (f now u) = pu_security_version u + 1"
  shows "version_from i (n + 1) s'"
proof (cases "admin_by_id (ps_db s) i")
  case None
  then have "\<forall>v \<in> set (pd_users (ps_db s)). pu_id v \<noteq> i" by (simp add: admin_by_id_def find_None_iff_all)
  then show ?thesis using assms(1,2) None by (auto simp: version_from_def change_row_def)
next
  case (Some u)
  then show ?thesis using assms(2) version_put [OF assms(1), of "f (admin_now s)"] assms(3) by (simp add: change_row_def)
qed

text \<open>An operation that gave an answer raised the version of \<open>i\<close>.\<close>

definition bumps :: "int \<Rightarrow> 'a admin_op \<Rightarrow> bool" where
  "bumps i m \<longleftrightarrow> (\<forall>s r s' n. m s = (Inr r, s') \<longrightarrow> version_from i n s \<longrightarrow> version_from i (n + 1) s')"

lemma bumpsD: "bumps i m \<Longrightarrow> m s = (Inr r, s') \<Longrightarrow> version_from i n s \<Longrightarrow> version_from i (n + 1) s'"
  unfolding bumps_def by blast

lemma bumps_raise: "bumps i (py_raise x)"
  by (simp add: bumps_def)

lemma bumps_if: "bumps i m \<Longrightarrow> bumps i m' \<Longrightarrow> bumps i (if b then m else m')"
  by simp

lemma bumps_option: "bumps i m \<Longrightarrow> (\<And>x. bumps i (f x)) \<Longrightarrow> bumps i (case y of None \<Rightarrow> m | Some x \<Rightarrow> f x)"
  by (cases y) simp_all

lemma bumps_bool: "bumps i m \<Longrightarrow> bumps i m' \<Longrightarrow> bumps i (case b of True \<Rightarrow> m | False \<Rightarrow> m')"
  by (cases b) simp_all

lemma bumps_sum: "(\<And>x. bumps i (f x)) \<Longrightarrow> (\<And>y. bumps i (g y)) \<Longrightarrow> bumps i (case r of Inl x \<Rightarrow> f x | Inr y \<Rightarrow> g y)"
  by (cases r) simp_all

lemma bumps_prod: "(\<And>x y. bumps i (f x y)) \<Longrightarrow> bumps i (case p of (x, y) \<Rightarrow> f x y)"
  by (cases p) simp

lemma version_moves: "moves (evolves True) m \<Longrightarrow> m s = (r, s') \<Longrightarrow> version_from i n s \<Longrightarrow> version_from i n s'"
  using version_evolves [of i n s True s'] movesD [of "evolves True" m s] by simp

lemma bumps_later: "moves (evolves True) m \<Longrightarrow> (\<And>x. bumps i (f x)) \<Longrightarrow> bumps i (py_bind m f)"
  unfolding bumps_def by (blast elim: bind_InrE dest: version_moves)

lemma bumps_first: "bumps i m \<Longrightarrow> (\<And>x. moves (evolves True) (f x)) \<Longrightarrow> bumps i (py_bind m f)"
  unfolding bumps_def by (blast elim: bind_InrE dest: version_moves)

lemma bumps_update: "ac_bump_version c \<Longrightarrow> bumps i (repo_update_admin i c)"
  unfolding bumps_def using version_update by blast

lemma bumps_change_row:
  assumes "\<And>now u. pu_id (f now u) = pu_id u \<and> pu_security_version (f now u) = pu_security_version u + 1"
  shows "bumps i (change_row i f)"
  unfolding bumps_def by (intro allI impI) (rule version_change_row [OF _ _ assms])

lemma bumps_rows: "bumps i (enable_mfa i secret hashes)" "bumps i (repo_disable_mfa i)" "bumps i (repo_delete_admin i)"
  unfolding enable_mfa_def repo_disable_mfa_def repo_delete_admin_def
  by (intro bumps_change_row bumps_first stay; simp)+

lemma bumps_services:
  "bumps i (change_admin_password e i old new)" "bumps i (confirm_mfa_setup e i text)" "bumps i (disable_mfa e i password)"
  "bumps i (update_admin e i email' name' (Some False))" "bumps i (delete_admin i current)"
proof -
  note steps = bumps_raise bumps_if bumps_option bumps_bool bumps_sum bumps_prod
  show "bumps i (change_admin_password e i old new)"
    unfolding change_admin_password_def
    by (rule bumps_later, intro stay, intro steps, rule bumps_later, intro stay, rule bumps_first, rule bumps_update)
      (simp, intro stay)
  show "bumps i (confirm_mfa_setup e i text)"
    unfolding confirm_mfa_setup_def Let_def
    by (rule bumps_later, intro stay, intro steps, rule bumps_later, intro stay, rule bumps_first, rule bumps_rows, intro stay)
  show "bumps i (disable_mfa e i password)"
    unfolding disable_mfa_def
    by (rule bumps_later, intro stay, intro steps, rule bumps_first, rule bumps_rows, intro stay)
  show "bumps i (update_admin e i email' name' (Some False))"
    unfolding update_admin_def
    by (rule bumps_later, intro stay, intro steps, rule bumps_later, intro stay, rule bumps_later, intro stay, intro steps,
        rule bumps_first, rule bumps_update) (simp, intro stay)
  show "bumps i (delete_admin i current)"
    unfolding delete_admin_def by (intro steps, rule bumps_first, rule bumps_rows, intro stay)
qed

lemma bumps_reset:
  assumes r: "get_admin_invite (ps_db s) (ax_sha256 (px_auth e) token) = Some r" "iv_user_id r = i"
    and set: "set_admin_password e token password s = (Inr (), s1)" and v: "version_from i n s"
  shows "version_from i (n + 1) s1"
proof -
  define m where "m = py_bind (on_admin_process (hash_password (px_auth e) password)) (\<lambda>password_hash.
     py_bind (repo_update_admin i (no_change\<lparr>ac_password_hash := Some password_hash,
       ac_is_active := Some True, ac_completed := Some (admin_now s), ac_failed_logins := Some 0, ac_bump_version := True\<rparr>)) (\<lambda>_.
     py_seq (mark_invite_used (iv_id r)) (invalidate_all_refresh_sessions i)))"
  have "m s = (Inr (), s1)"
    using set r by (auto simp: set_admin_password_def m_def py_run_bind split: if_splits)
  moreover have "bumps i m"
    unfolding m_def by (rule bumps_later, intro stay, rule bumps_first, rule bumps_update) (simp, intro stay)
  ultimately show ?thesis by (rule bumpsD [OF _ _ v, rotated])
qed

lemma revokes_bump:
  assumes "revokes e i s s1" and "version_from i n s"
  shows "version_from i (n + 1) s1"
  using assms(1)
proof cases
  case (revoke_reset token r password)
  then show ?thesis using assms(2) by (rule bumps_reset)
qed (rule bumpsD [OF _ _ assms(2)], rule bumps_services, assumption)+

inductive admin_step :: "admin_env \<Rightarrow> admin_state \<Rightarrow> admin_state \<Rightarrow> bool" for e where
  step_call: "admin_call e s s' \<Longrightarrow> admin_step e s s'"
| step_service: "admin_service_call e s s' \<Longrightarrow> admin_step e s s'"

lemma step_evolves: "admin_step e s s' \<Longrightarrow> evolves True s s'"
  by (induction rule: admin_step.induct) (auto intro: call_evolves service_evolves)

text \<open>C23: after the password of an administrator was changed or set, a second factor switched on or off, or the account
  deactivated or deleted, no token of before is good for anything, whatever happens later: the gate refuses it and no
  refresh takes it. The versions of a token's claims are what the row said when it was issued.\<close>

theorem revoked_tokens_refused:
  assumes revoked: "revokes e i s s1" and u: "admin_by_id (ps_db s) i = Some u"
    and ids: "key_ok pu_id (pd_users (ps_db s))" "i < ps_next_user s"
    and token: "\<forall>now payload. verify (px_auth e) now token = Inr payload \<longrightarrow>
      token_sub payload = Some i \<and> cl_user_ver payload \<le> pu_security_version u"
    and run: "(admin_step e)\<^sup>*\<^sup>* s1 s2"
  shows "(\<forall>w q. bearer_token (aq_authorization q) = Some token \<longrightarrow> fst (current_platform_admin e w q s2) =
      Inl (Auth_http_error 401 ''Invalid platform admin token'')) \<and>
    (\<forall>ip ua. fst (admin_refresh e token ip ua s2) = Inr None)"
proof -
  have "v = u" if "v \<in> set (pd_users (ps_db s))" "pu_id v = i" for v
    using row_map_member [OF ids(1) that(1)] u that(2) by (simp add: admin_by_id_def row_map_def)
  then have "version_from i (pu_security_version u) s" using ids(2) by (auto simp: version_from_def)
  then have "version_from i (pu_security_version u + 1) s1" by (rule revokes_bump [OF revoked])
  moreover have "evolves True s1 s2" by (rule run_evolves [OF run]) (rule step_evolves)
  ultimately have v: "version_from i (pu_security_version u + 1) s2" by (rule version_evolves)
  have old: "pu_security_version u < pu_security_version v" if "admin_by_id (ps_db s2) i = Some v" for v
    using v admin_by_id_Some [OF that] by (force simp: version_from_def)
  have "resolve_token e (admin_now s2) (ps_db s2) token = None"
  proof (rule ccontr)
    assume "resolve_token e (admin_now s2) (ps_db s2) token \<noteq> None"
    then obtain w where "resolve_token e (admin_now s2) (ps_db s2) token = Some w" by blast
    then show False by (rule resolve_token_Some) (use token old in fastforce)
  qed
  then have "fst (current_platform_admin e w q s2) = Inl (Auth_http_error 401 ''Invalid platform admin token'')"
    if "bearer_token (aq_authorization q) = Some token" for w q
    using that by (simp add: current_platform_admin_def py_run_bind split: option.splits)
  moreover have "fst (admin_refresh e token ip ua s2) = Inr None" for ip ua
  proof (cases "verify (px_auth e) (admin_now s2) token")
    case (Inl x)
    then show ?thesis by (simp add: admin_refresh_def py_run_bind)
  next
    case (Inr payload)
    with token have t: "token_sub payload = Some i" "cl_user_ver payload \<le> pu_security_version u" by auto
    have "cl_user_ver payload \<noteq> pu_security_version v" if "admin_by_id (ps_db s2) i = Some v" for v
      using t(2) old [OF that] by simp
    then show ?thesis using Inr t(1)
      by (simp add: admin_refresh_def py_run_bind py_run_seq invalidate_all_refresh_sessions_def admin_update_def
          split: option.splits)
  qed
  ultimately show ?thesis by blast
qed

section \<open>Refresh tokens\<close>

lemma closed_session:
  assumes "refresh_session_by_jti (ps_db s) j = Some t"
    and "evolves b (snd (update_refresh_session (invalidate_session t) s)) s'"
  shows "\<exists>t'. refresh_session_by_jti (ps_db s') j = Some t' \<and> \<not> ss_valid t'"
proof -
  have "\<exists>t'. refresh_session_by_jti (ps_db (snd (update_refresh_session (invalidate_session t) s))) j = Some t' \<and> \<not> ss_valid t'"
    using assms(1)
    by (simp add: refresh_session_by_jti_def update_refresh_session_def admin_update_def invalidate_session_def find_update_keeps)
  then show ?thesis using assms(2) unfolding evolves_def session_follows_def
    by (metis (no_types, lifting) option.case(2) option.exhaust option.case(1))
qed

text \<open>C24: a refresh token of an administrator is taken once. After a refresh, whatever is called from then on, the same
  token gives no tokens any more, from any address and at any time; the identifier in its claims does not depend on the
  time at which it is decoded.\<close>

theorem admin_refresh_single_use:
  assumes used: "admin_refresh e token ip ua s = (Inr (Some tk), s1)" and run: "(admin_step e)\<^sup>*\<^sup>* s1 s2"
    and jti: "\<forall>t t' p p'. verify (px_auth e) t token = Inr p \<longrightarrow> verify (px_auth e) t' token = Inr p' \<longrightarrow> cl_jti p = cl_jti p'"
  shows "admin_refresh e token ip' ua' s2 = (Inr None, s2)"
proof -
  obtain payload t u where p: "verify (px_auth e) (admin_now s) token = Inr payload"
      "refresh_session_by_jti (ps_db s) (str_or (cl_jti payload) []) = Some t"
      "issue_access_and_refresh e u ip ua (snd (update_refresh_session (invalidate_session t) s)) = (Inr tk, s1)"
    using used by (rule refresh_Some)
  have "evolves True (snd (update_refresh_session (invalidate_session t) s)) s1"
    using movesD [OF moves_login_parts(4)] p(3) by (metis snd_conv)
  moreover have "evolves True s1 s2" by (rule run_evolves [OF run]) (rule step_evolves)
  ultimately have "evolves True (snd (update_refresh_session (invalidate_session t) s)) s2" by (rule evolves_trans)
  then obtain t' where t': "refresh_session_by_jti (ps_db s2) (str_or (cl_jti payload) []) = Some t'" "\<not> ss_valid t'"
    using closed_session [OF p(2)] by blast
  show ?thesis
  proof (cases "verify (px_auth e) (admin_now s2) token")
    case (Inl x)
    then show ?thesis by (simp add: admin_refresh_def py_run_bind)
  next
    case (Inr p2)
    then have "cl_jti p2 = cl_jti payload" using jti p(1) by blast
    then show ?thesis using Inr t'
      by (simp add: admin_refresh_def py_run_bind split: option.splits)
  qed
qed

section \<open>Logout with a token of somebody else\<close>

text \<open>C26: the logout of the administration takes the \<open>sub\<close> of any token with a good signature. With a token of another
  kind in the cookie, such as a refresh token of a tenant's user, no session ends, but the access tokens of
  the administrator who has the same number are refused from then on.\<close>

theorem foreign_token_logs_admin_out:
  assumes ip: "\<not> repo_is_ip_banned (ps_db s) (admin_now s) (aq_ip q)" and cookie: "aq_cookie q = Some token" "token \<noteq> []"
    and payload: "decode_ignore_exp (px_auth e) (admin_now s) token = Inr (Some payload)"
      "cl_typ payload \<noteq> Some ''platform_admin_refresh''" "token_sub payload = Some i"
  shows "\<exists>s'. admin_logout_route e w q s = (Inr (), s') \<and> ps_db s' = ps_db s \<and>
    (\<forall>t q2 token2 p. bearer_token (aq_authorization q2) = Some token2 \<longrightarrow>
       verify_access_payload e t token2 = Some p \<longrightarrow> token_sub p = Some i \<longrightarrow>
       fst (current_platform_admin e w q2 (s'\<lparr>ps_process := (ps_process s')\<lparr>as_now := t\<rparr>\<rparr>)) =
         Inl (Auth_http_error 401 ''Invalid platform admin token''))"
proof -
  obtain x where x: "remove_by_user (aw_web w) None i (ps_process s) = (Inr (), (ps_process s)\<lparr>as_web := x\<rparr>)"
    "\<forall>t jti s2. as_web s2 = x \<longrightarrow> \<not> is_allowed (aw_web w) (s2\<lparr>as_now := t\<rparr>) None i jti"
    using remove_by_user_run [of "aw_web w" None i "ps_process s"] by blast
  have "admin_logout_route e w q s = (Inr (), s\<lparr>ps_process := (ps_process s)\<lparr>as_web := x\<rparr>\<rparr>)"
    using ip cookie payload x(1)
    by (simp add: admin_logout_route_def ensure_admin_ip_not_banned_def admin_logout_def py_run_bind py_run_seq str_or_def
        on_admin_process_def)
  then show ?thesis using x(2) by (auto simp: current_platform_admin_def py_run_bind admin_now_def)
qed

section \<open>What a login needs\<close>

definition recovery_left :: "admin_db \<Rightarrow> int \<Rightarrow> string \<Rightarrow> bool" where
  "recovery_left db i h \<longleftrightarrow> (\<exists>v \<in> set (pd_users db). pu_id v = i \<and> h \<in> set (pu_recovery_hashes v))"

lemma consumed_code:
  assumes "consume_mfa_recovery_code i h s = (Inr True, s')"
  shows "recovery_left (ps_db s) i h" "\<not> recovery_left (ps_db s') i h"
proof -
  obtain u where u: "admin_by_id (ps_db s) i = Some u"
    using assms by (cases "admin_by_id (ps_db s) i") (auto simp: consume_mfa_recovery_code_def)
  then have "h \<in> set (pu_recovery_hashes u)" and s': "s' = s\<lparr>ps_db := put_admin i (\<lambda>v. v\<lparr>pu_recovery_hashes :=
      filter (\<lambda>x. x \<noteq> h) (filter (\<lambda>x. py_strip x \<noteq> []) (pu_recovery_hashes u))\<rparr>) (ps_db s)\<rparr>"
    using assms by (simp_all add: consume_mfa_recovery_code_def Let_def split: if_splits)
  then show "recovery_left (ps_db s) i h" "\<not> recovery_left (ps_db s') i h"
    using admin_by_id_Some [OF u] by (auto simp: recovery_left_def put_admin_def update_where_def)
qed

lemma verify_mfa_True:
  assumes "verify_mfa e u code s = (Inr True, s')"
  shows "verify_authenticator_code (px_auth e) (admin_now s) (py_strip (str_or (pu_mfa_secret u) [])) (normalize_mfa_code code) = Inr True \<or>
    8 \<le> length (normalize_mfa_code code) \<and> recovery_left (ps_db s) (pu_id u) (recovery_hash e (normalize_mfa_code code)) \<and>
    \<not> recovery_left (ps_db s') (pu_id u) (recovery_hash e (normalize_mfa_code code))"
proof -
  let ?c = "normalize_mfa_code code" and ?secret = "py_strip (str_or (pu_mfa_secret u) [])"
  let ?check = "if ?secret = [] then Inr False else verify_authenticator_code (px_auth e) (admin_now s) ?secret ?c"
  have c: "?c \<noteq> []" using assms by (auto simp: verify_mfa_def Let_def)
  then have run: "(case ?check of Inl x \<Rightarrow> py_raise x | Inr True \<Rightarrow> py_return True
      | Inr False \<Rightarrow> if 8 \<le> length ?c then consume_mfa_recovery_code (pu_id u) (recovery_hash e ?c) else py_return False) s = (Inr True, s')"
    using assms by (simp add: verify_mfa_def py_run_bind Let_def)
  consider x where "?check = Inl x" | "?check = Inr True" | "?check = Inr False" by (cases ?check) auto
  then show ?thesis
  proof cases
    case 1 then show ?thesis using run by simp
  next
    case 2 then show ?thesis by (simp split: if_splits)
  next
    case 3
    then have "8 \<le> length ?c" "consume_mfa_recovery_code (pu_id u) (recovery_hash e ?c) s = (Inr True, s')"
      using run by (simp_all del: py_strip_def split: if_splits)
    then show ?thesis using consumed_code by blast
  qed
qed

lemma second_factor_Inr:
  assumes "check_second_factor e wx u ip code s = (Inr x, s')" and "is_mfa_enabled u"
  obtains s1 where "\<not> mfa_blocked s (pu_id u) ip (mfa_attempt_kind code)" "verify_mfa e u code s = (Inr True, s1)"
    "pd_users (ps_db s') = pd_users (ps_db s1)"
proof -
  obtain y s1 ok s2 where r: "ensure_mfa_not_blocked (pu_id u) ip (mfa_attempt_kind code) s = (Inr y, s1)"
      "verify_mfa e u code s1 = (Inr ok, s2)"
      "(if \<not> ok then py_bind (record_mfa_failures e (pu_id u) ip (mfa_attempt_kind code)) (\<lambda>blocked_now.
          if blocked_now then mfa_lockout e wx u ip (mfa_attempt_kind code)
          else py_raise (Auth_value_error ''platform_admin_mfa_invalid''))
        else reset_all_mfa_attempts (pu_id u) ip) s2 = (Inr x, s')"
    using assms by (auto simp: check_second_factor_def Let_def split: if_splits elim!: seq_InrE bind_InrE)
  have "s1 = s" "\<not> mfa_blocked s (pu_id u) ip (mfa_attempt_kind code)"
    using r(1) by (auto simp: ensure_mfa_not_blocked_def py_run_bind split: if_splits)
  moreover have "ok" using r(3)
    by (auto simp: mfa_lockout_def split: if_splits elim!: seq_InrE bind_InrE)
  ultimately show thesis using that [of s2] r
    by (auto simp: reset_all_mfa_attempts_def reset_mfa_attempts_def admin_update_def Let_def)
qed

lemma recovery_left_users: "pd_users db = pd_users db' \<Longrightarrow> recovery_left db i h = recovery_left db' i h"
  by (simp add: recovery_left_def)

lemma recovery_left_update:
  assumes "repo_update_admin j c s = (Inr v, s')"
  shows "recovery_left (ps_db s') i h = recovery_left (ps_db s) i h"
proof -
  have "(\<exists>v \<in> set (map (\<lambda>u. if pu_id u = j then change_admin c u else u) us). pu_id v = i \<and> h \<in> set (pu_recovery_hashes v)) =
      (\<exists>v \<in> set us. pu_id v = i \<and> h \<in> set (pu_recovery_hashes v))" for us
  proof (induction us)
    case (Cons u us)
    have "pu_recovery_hashes (change_admin c u) = pu_recovery_hashes u" by (simp add: change_admin_def)
    then show ?case using Cons by simp
  qed simp
  then have "recovery_left (put_admin j (change_admin c) db) i h = recovery_left db i h" for db
    by (simp add: recovery_left_def put_admin_def update_where_def)
  then show ?thesis using update_admin_Inr [OF assms] by (cases "admin_by_id (ps_db s) j") simp_all
qed

text \<open>C22: whoever gets tokens from the login came from a permitted address that is not blocked and knew the password
  of an account that is active and not deleted. Where the account has a second factor, neither the account nor the
  address was locked for this kind of code, and the code was a one-time password of now or one of the recovery codes that
  were left, which is then gone.\<close>

theorem admin_login_needs_factors:
  assumes login: "admin_login_route e w q email password code s = (Inr tk, s')"
  shows "fst (ensure_ip_allowlist w q s) = Inr () \<and> \<not> repo_is_ip_banned (ps_db s) (admin_now s) (aq_ip q) \<and>
    (\<exists>u. admin_by_email (ps_db s) (normalize_email e email) = Some u \<and> pu_id (at_user tk) = pu_id u \<and>
       pu_is_active u \<and> pu_deleted_at u = None \<and> ax_verify_password (px_auth e) password (pu_password_hash u) \<and>
       (is_mfa_enabled u \<longrightarrow> \<not> mfa_blocked s (pu_id u) (aq_ip q) (mfa_attempt_kind code) \<and>
          (verify_authenticator_code (px_auth e) (admin_now s) (py_strip (str_or (pu_mfa_secret u) []))
             (normalize_mfa_code code) = Inr True \<or>
           8 \<le> length (normalize_mfa_code code) \<and>
           recovery_left (ps_db s) (pu_id u) (recovery_hash e (normalize_mfa_code code)) \<and>
           \<not> recovery_left (ps_db s') (pu_id u) (recovery_hash e (normalize_mfa_code code)))))"
proof -
  obtain l s1 where l: "admin_login e (aw_web w) email password (aq_ip q) (aq_user_agent q) code (s\<lparr>ps_limits := l\<rparr>) = (Inr (Some tk), s1)"
      "admit_admin w tk s1 = (Inr tk, s')" "fst (ensure_ip_allowlist w q s) = Inr ()"
      "\<not> repo_is_ip_banned (ps_db s) (admin_now s) (aq_ip q)"
    using login by (rule login_route_Inr)
  let ?s = "s\<lparr>ps_limits := l\<rparr>"
  obtain u s2 v s3 s4 where u: "admin_by_email (ps_db ?s) (normalize_email e email) = Some u" "pu_is_active u"
      "pu_deleted_at u = None" "ax_verify_password (px_auth e) password (pu_password_hash u)"
    and run: "check_second_factor e (aw_web w) u (aq_ip q) code ?s = (Inr (), s2)"
      "repo_update_admin (pu_id u) (no_change\<lparr>ac_failed_logins := Some 0\<rparr>) s2 = (Inr v, s3)"
      "issue_access_and_refresh e (with_default v u) (aq_ip q) (aq_user_agent q) s3 = (Inr tk, s4)" "ps_db s1 = ps_db s4"
    using l(1) by (rule login_Some)
  have id: "pu_id (at_user tk) = pu_id u"
    using update_admin_Inr [OF run(2)] issue_Inr(1) [OF run(3)]
    by (auto simp: with_default_def split: option.splits dest: admin_by_id_Some)
  have "ps_db s' = ps_db s1"
    using l(2) by (auto simp: admit_admin_def on_admin_process_def split: prod.splits elim!: seq_InrE)
  then have left: "recovery_left (ps_db s') i h = recovery_left (ps_db s2) i h" for i h
    using recovery_left_update [OF run(2)] recovery_left_users [OF issue_Inr(2) [OF run(3)]] run(4) by simp
  let ?c = "normalize_mfa_code code"
  have "\<not> mfa_blocked s (pu_id u) (aq_ip q) (mfa_attempt_kind code) \<and>
      (verify_authenticator_code (px_auth e) (admin_now s) (py_strip (str_or (pu_mfa_secret u) [])) ?c = Inr True \<or>
       8 \<le> length ?c \<and> recovery_left (ps_db s) (pu_id u) (recovery_hash e ?c) \<and>
       \<not> recovery_left (ps_db s') (pu_id u) (recovery_hash e ?c))" if mfa: "is_mfa_enabled u"
  proof -
    obtain s5 where "\<not> mfa_blocked ?s (pu_id u) (aq_ip q) (mfa_attempt_kind code)" "verify_mfa e u code ?s = (Inr True, s5)"
        "pd_users (ps_db s2) = pd_users (ps_db s5)"
      using run(1) mfa by (rule second_factor_Inr)
    then show ?thesis using verify_mfa_True [of e u code ?s s5] recovery_left_users [of "ps_db s2" "ps_db s5"]
      by (simp add: left mfa_blocked_def admin_now_def)
  qed
  then show ?thesis using l(3,4) u id by simp
qed

section \<open>Examples\<close>

definition demo_platform_admin :: admin_user where
  "demo_platform_admin = \<lparr>pu_id = 1, pu_email = ''a@b.hu'', pu_name = None, pu_password_hash = ''h'', pu_is_active = True,
     pu_role = ''admin'', pu_created_at = unix_epoch, pu_deleted_at = None, pu_registration_completed_at = Some unix_epoch,
     pu_failed_login_attempts = 0, pu_security_version = 0, pu_mfa_enabled = True, pu_mfa_secret = Some ''AAAAAAAA'',
     pu_mfa_pending_secret = None, pu_mfa_pending_expires_at = None, pu_recovery_hashes = [''ABCDEFGH'']\<rparr>"

definition demo_admin_claims :: claims where
  "demo_admin_claims = \<lparr>cl_sub = Some ''1'', cl_typ = Some ''platform_admin_refresh'', cl_jti = Some ''j'', cl_user_ver = 0,
     cl_tenant_ver = 0, cl_role = None, cl_al = False, cl_exp = unix_epoch + minutes 60, cl_iat = unix_epoch,
     cl_nbf = unix_epoch, cl_iss = None, cl_aud = None\<rparr>"

definition demo_admin_env :: "claims \<Rightarrow> admin_env" where
  "demo_admin_env c = \<lparr>px_auth = demo_auth_env\<lparr>ax_jwt_decode := (\<lambda>_ _ _. Inr c)\<rparr>, px_parseaddr = id,
     px_settings = \<lparr>pg_bootstrap_email = [], pg_bootstrap_password = [], pg_max_failed_logins = 1,
       pg_mfa_window_minutes = 15, pg_mfa_lock_minutes = 30, pg_totp_per_user = 5, pg_totp_per_ip = 10,
       pg_recovery_per_user = 3, pg_recovery_per_ip = 6, pg_alert_email = [], pg_frontend_base_url = []\<rparr>\<rparr>"

definition demo_admin_state :: admin_state where
  "demo_admin_state = \<lparr>ps_db = \<lparr>pd_users = [demo_platform_admin], pd_invites = [],
       pd_sessions = [\<lparr>ss_id = 1, ss_user_id = 1, ss_jti = ''j'', ss_token_hash = ''r'', ss_valid = True, ss_ip = None,
         ss_user_agent = None, ss_expires_at = unix_epoch + minutes 60\<rparr>],
       pd_attempts = [], pd_bans = [], pd_alerts = []\<rparr>,
     ps_next_user = 2, ps_next_invite = 1, ps_next_session = 2, ps_next_alert = 1, ps_process = demo_auth_state [],
     ps_limits = \<lparr>lm_redis = (\<lambda>_. []), lm_memory = (\<lambda>_. [])\<rparr>, ps_mails = []\<rparr>"

definition demo_admin_web :: admin_web where
  "demo_admin_web = \<lparr>aw_web = demo_web, aw_limits = \<lparr>rg_login_step1_per_hour = 5, rg_login_burst_per_10s = 5,
       rg_failure_ban_window_sec = 60, rg_failure_ban_threshold = 5\<rparr>,
     aw_limit_call = \<lparr>lc_redis_up = True, lc_time = 5, lc_monotonic = 5\<rparr>, aw_ban_hours = 24, aw_mfa_required = True,
     aw_ip_allowlist_enabled = False, aw_allowed_ips = []\<rparr>"

definition demo_admin_request :: admin_request where
  "demo_admin_request = \<lparr>aq_path = ''/api'', aq_ip = Some ''10.0.0.1'', aq_user_agent = None,
     aq_authorization = Some ''Bearer t'', aq_cookie = Some ''t''\<rparr>"

lemma demo_admin_found: "admin_by_email (ps_db demo_admin_state) (normalize_email (demo_admin_env c) ''a@b.hu'') = Some demo_platform_admin"
  by code_simp

lemma locked_out_for_good_witness:
  "fst (current_platform_admin (demo_admin_env demo_admin_claims) demo_admin_web demo_admin_request
     (snd (admin_login (demo_admin_env demo_admin_claims) demo_web ''a@b.hu'' ''x'' None None None demo_admin_state)))
   \<noteq> Inr demo_platform_admin"
proof -
  let ?e = "demo_admin_env demo_admin_claims"
  obtain r s1 where r: "admin_login ?e demo_web ''a@b.hu'' ''x'' None None None demo_admin_state = (r, s1)" by fastforce
  have env: "\<not> ax_verify_password (px_auth ?e) ''x'' (pu_password_hash demo_platform_admin)"
      "max 1 (pg_max_failed_logins (px_settings ?e)) \<le> pu_failed_login_attempts demo_platform_admin + 1"
    by (simp_all add: demo_admin_env_def demo_auth_env_def demo_platform_admin_def)
  have ids: "key_ok pu_id (pd_users (ps_db demo_admin_state))" "pu_id demo_platform_admin < ps_next_user demo_admin_state"
      "pu_is_active demo_platform_admin" "pu_deleted_at demo_platform_admin = None" "pu_id demo_platform_admin = 1"
    by (simp_all add: demo_admin_state_def key_ok_def demo_platform_admin_def)
  have "current_platform_admin ?e demo_admin_web demo_admin_request s1 = (Inr v, s3) \<Longrightarrow> pu_id v \<noteq> 1" for v s3
    using locked_out_for_good [OF demo_admin_found ids(3,4) env ids(1,2) r rtranclp.rtrancl_refl] ids(5) by metis
  then show ?thesis unfolding r
    by (cases "current_platform_admin ?e demo_admin_web demo_admin_request s1") (use ids(5) in auto)
qed

lemma revoked_tokens_refused_witness:
  "fst (current_platform_admin (demo_admin_env demo_admin_claims) demo_admin_web demo_admin_request
     (snd (delete_admin 1 2 demo_admin_state))) = Inl (Auth_http_error 401 ''Invalid platform admin token'')"
proof -
  let ?e = "demo_admin_env demo_admin_claims"
  have "delete_admin 1 2 demo_admin_state = (Inr (), snd (delete_admin 1 2 demo_admin_state))"
    by (simp add: delete_admin_def repo_delete_admin_def change_row_def py_run_bind admin_by_id_def demo_admin_state_def
        demo_platform_admin_def invalidate_all_refresh_sessions_def admin_update_def)
  then have "revokes ?e 1 demo_admin_state (snd (delete_admin 1 2 demo_admin_state))" by (rule revoke_delete)
  moreover have "admin_by_id (ps_db demo_admin_state) 1 = Some demo_platform_admin"
    by (simp add: admin_by_id_def demo_admin_state_def demo_platform_admin_def)
  moreover have "token_sub demo_admin_claims = Some 1" by code_simp
  moreover have "bearer_token (aq_authorization demo_admin_request) = Some ''t''" by code_simp
  ultimately show ?thesis
    using revoked_tokens_refused [of ?e 1 demo_admin_state _ demo_platform_admin "''t''" "snd (delete_admin 1 2 demo_admin_state)"]
    by (simp add: demo_admin_env_def verify_def demo_admin_state_def key_ok_def demo_admin_claims_def demo_platform_admin_def)
qed

lemma demo_refreshed:
  obtains tk s1 where "admin_refresh (demo_admin_env demo_admin_claims) ''r'' None None demo_admin_state = (Inr (Some tk), s1)"
proof -
  have "case fst (admin_refresh (demo_admin_env demo_admin_claims) ''r'' None None demo_admin_state) of
      Inr (Some _) \<Rightarrow> True | _ \<Rightarrow> False" by code_simp
  then show thesis using that
    by (cases "admin_refresh (demo_admin_env demo_admin_claims) ''r'' None None demo_admin_state")
      (auto split: sum.splits option.splits)
qed

lemma admin_refresh_single_use_witness:
  "let s1 = snd (admin_refresh (demo_admin_env demo_admin_claims) ''r'' None None demo_admin_state) in
   admin_refresh (demo_admin_env demo_admin_claims) ''r'' None None s1 = (Inr None, s1)"
proof -
  let ?e = "demo_admin_env demo_admin_claims"
  obtain tk s1 where r: "admin_refresh ?e ''r'' None None demo_admin_state = (Inr (Some tk), s1)" by (rule demo_refreshed)
  have "verify (px_auth ?e) t ''r'' = Inr demo_admin_claims" for t by (simp add: verify_def demo_admin_env_def)
  then have "admin_refresh ?e ''r'' None None s1 = (Inr None, s1)"
    by (intro admin_refresh_single_use [OF r rtranclp.rtrancl_refl]) simp
  then show ?thesis by (simp add: r)
qed

lemma foreign_token_logs_admin_out_witness:
  "\<exists>s'. admin_logout_route (demo_admin_env (demo_admin_claims\<lparr>cl_typ := Some ''refresh''\<rparr>)) demo_admin_web demo_admin_request
     demo_admin_state = (Inr (), s') \<and> ps_db s' = ps_db demo_admin_state"
proof -
  let ?c = "demo_admin_claims\<lparr>cl_typ := Some ''refresh''\<rparr>"
  have "\<not> repo_is_ip_banned (ps_db demo_admin_state) (admin_now demo_admin_state) (aq_ip demo_admin_request)"
    by (simp add: repo_is_ip_banned_def ban_row_def demo_admin_state_def Let_def)
  moreover have "aq_cookie demo_admin_request = Some ''t''" by (simp add: demo_admin_request_def)
  moreover have "decode_ignore_exp (px_auth (demo_admin_env ?c)) t ''t'' = Inr (Some ?c)" for t
    by (simp add: decode_ignore_exp_def demo_admin_env_def)
  moreover have "token_sub ?c = Some 1" by code_simp
  ultimately show ?thesis
    using foreign_token_logs_admin_out [of demo_admin_state demo_admin_request "''t''" "demo_admin_env ?c" ?c 1 demo_admin_web]
    by fastforce
qed

text \<open>A login with the recovery code, which works once.\<close>

lemma admin_login_needs_factors_witness:
  "\<exists>tk s'. admin_login_route (demo_admin_env demo_admin_claims) demo_admin_web demo_admin_request ''a@b.hu'' ''h'' (Some ''abcd-efgh'')
     demo_admin_state = (Inr tk, s') \<and> pu_id (at_user tk) = 1"
proof -
  let ?run = "admin_login_route (demo_admin_env demo_admin_claims) demo_admin_web demo_admin_request ''a@b.hu'' ''h'' (Some ''abcd-efgh'') demo_admin_state"
  have "case fst ?run of Inr _ \<Rightarrow> True | _ \<Rightarrow> False" by code_simp
  then obtain tk s' where r: "?run = (Inr tk, s')" by (cases ?run) (auto split: sum.splits)
  have "pu_id (at_user tk) = 1"
    using admin_login_needs_factors [OF r] by (simp add: demo_admin_found) (simp add: demo_platform_admin_def)
  then show ?thesis using r by blast
qed

end
