(* ===== verification/Spec2Isabelle.thy ===== *)
theory Spec2Isabelle
  imports Billing_Access Billing_Integrity Billing_Status_Facts Billing_Invoicing_Facts Billing_Change_Facts
    Platform_Machine Hu_Tax_Id Hu_Mobile Traffic_Usage_Facts Traffic_Service_Facts Auth_Session_Facts Users_Invites Auth_Limits_Facts Event_Outbox_Facts Event_Worker_Facts Settings_Facts Tenant_Routing_Facts
    Tenant_Provisioning_Facts Tenant_Signup_Facts Admin_Access_Facts
begin

text \<open>
  NYZRating: a multi-tenant platform (\<open>backend/\<close>, FastAPI and PostgreSQL) whose tenants subscribe to plans with
  a monthly quota of questions (messages).
\<close>

end
